(* ===== verification/Prelude.thy ===== *)
theory Prelude
  imports Complex_Main "HOL-Library.AList"
begin

text \<open>
  What every component of the library shares: Python exceptions as values
  (\<open>py_error\<close>), fallible results as a sum with the sequencing operator \<open>bindE\<close>, the
  insertion-ordered \<open>dict\<close> with its contract as a locale, list slices, and the few
  string methods (\<open>str\<close>, \<open>strip\<close>, \<open>join\<close>, \<open>startswith\<close>) the sources use.

  Python floats are modelled as real numbers, so rounding is not part of the model;
  Python ints are unbounded and become \<open>int\<close> (or \<open>nat\<close> where the code only counts).
  A \<open>str\<close> is a list of code points below 256.
\<close>

section \<open>Collections of facts\<close>

named_theorems py_simps \<open>evaluation of fallible Python expressions\<close>
named_theorems dict_simps \<open>lookup after dict updates\<close>

section \<open>Exceptions and fallible results\<close>

datatype py_error =
    RuntimeError string
  | ValueError string
  | TypeError string
  | AssertionError string
  | KeyError string
  | IndexError
  | AttributeError
  | ZeroDivisionError
  | PyException string

type_synonym 'a res = "py_error + 'a"

definition bindE :: "'a res \<Rightarrow> ('a \<Rightarrow> 'b res) \<Rightarrow> 'b res" where
  "bindE m f = (case m of Inl e \<Rightarrow> Inl e | Inr x \<Rightarrow> f x)"

lemma bindE_simps [simp, py_simps]:
  "bindE (Inl e) f = Inl e"
  "bindE (Inr x) f = f x"
  by (simp_all add: bindE_def)

lemma bindE_eq_Inr [simp]: "bindE m f = Inr y \<longleftrightarrow> (\<exists>x. m = Inr x \<and> f x = Inr y)"
  by (cases m) simp_all

lemma bindE_eq_Inl: "bindE m f = Inl e \<longleftrightarrow> m = Inl e \<or> (\<exists>x. m = Inr x \<and> f x = Inl e)"
  by (cases m) auto

lemma bindE_cong [fundef_cong]:
  "m = m' \<Longrightarrow> (\<And>x. m' = Inr x \<Longrightarrow> f x = f' x) \<Longrightarrow> bindE m f = bindE m' f'"
  by (cases m') simp_all

text \<open>\<open>assert_py c e\<close> is \<^verbatim>\<open>if not c: raise e\<close>.\<close>

definition assert_py :: "bool \<Rightarrow> py_error \<Rightarrow> unit res" where
  "assert_py c e = (if c then Inr () else Inl e)"

lemma assert_py_eq [simp]:
  "assert_py c e = Inr u \<longleftrightarrow> c"
  "assert_py c e = Inl e' \<longleftrightarrow> \<not> c \<and> e' = e"
  by (auto simp: assert_py_def)

lemma assert_py_simps [py_simps]:
  "c \<Longrightarrow> assert_py c e = Inr ()"
  "\<not> c \<Longrightarrow> assert_py c e = Inl e"
  by simp_all

text \<open>A \<open>for\<close> loop whose body may raise: the first exception ends it.\<close>

fun foldE :: "('s \<Rightarrow> 'a \<Rightarrow> 's res) \<Rightarrow> 's \<Rightarrow> 'a list \<Rightarrow> 's res" where
  "foldE f s [] = Inr s"
| "foldE f s (x # xs) = bindE (f s x) (\<lambda>s'. foldE f s' xs)"

lemma foldE_append: "foldE f s (xs @ ys) = bindE (foldE f s xs) (\<lambda>s'. foldE f s' ys)"
proof (induction xs arbitrary: s)
  case (Cons x xs)
  then show ?case by (cases "f s x") simp_all
qed simp

lemma foldE_invariant:
  assumes "foldE f s xs = Inr t" and "P s"
    and "\<And>s x s'. P s \<Longrightarrow> x \<in> set xs \<Longrightarrow> f s x = Inr s' \<Longrightarrow> P s'"
  shows "P t"
  using assms
proof (induction xs arbitrary: s)
  case (Cons x xs)
  from Cons.prems(1) obtain s' where s': "f s x = Inr s'" "foldE f s' xs = Inr t" by auto
  have "P s'" using Cons.prems(3) [OF Cons.prems(2) _ s'(1)] by simp
  moreover have "\<And>s y s'. P s \<Longrightarrow> y \<in> set xs \<Longrightarrow> f s y = Inr s' \<Longrightarrow> P s'"
    using Cons.prems(3) by (meson list.set_intros(2))
  ultimately show ?case using s'(2) by (intro Cons.IH)
qed simp

fun mapE :: "('a \<Rightarrow> 'b res) \<Rightarrow> 'a list \<Rightarrow> 'b list res" where
  "mapE f [] = Inr []"
| "mapE f (x # xs) = bindE (f x) (\<lambda>y. bindE (mapE f xs) (\<lambda>ys. Inr (y # ys)))"

lemma mapE_Inr_length: "mapE f xs = Inr ys \<Longrightarrow> length ys = length xs"
  by (induction xs arbitrary: ys) auto

lemma mapE_total: "(\<And>x. x \<in> set xs \<Longrightarrow> f x = Inr (g x)) \<Longrightarrow> mapE f xs = Inr (map g xs)"
  by (induction xs) auto

section \<open>Dictionaries\<close>

text \<open>
  A Python \<open>dict\<close> keeps the order of insertion: assignment to an existing key keeps its
  position, a new key goes to the end. \<^term>\<open>AList.update\<close> and \<^term>\<open>AList.delete\<close> on an
  association list behave the same way. The contract is stated once as a locale over the
  four operations and interpreted on association lists with distinct keys.
\<close>

type_synonym ('k, 'v) pydict = "('k \<times> 'v) list"

definition dict_wf :: "('k, 'v) pydict \<Rightarrow> bool" where
  "dict_wf d \<longleftrightarrow> distinct (map fst d)"

locale ordered_dict =
  fixes lookup :: "'d \<Rightarrow> 'k \<Rightarrow> 'v option"
    and store :: "'k \<Rightarrow> 'v \<Rightarrow> 'd \<Rightarrow> 'd"
    and remove :: "'k \<Rightarrow> 'd \<Rightarrow> 'd"
    and keys :: "'d \<Rightarrow> 'k list"
    and wf :: "'d \<Rightarrow> bool"
  assumes lookup_store: "lookup (store k v d) = (lookup d)(k \<mapsto> v)"
    and lookup_remove: "lookup (remove k d) = (lookup d)(k := None)"
    and keys_lookup: "k \<in> set (keys d) \<longleftrightarrow> lookup d k \<noteq> None"
    and keys_store: "keys (store k v d) = (if k \<in> set (keys d) then keys d else keys d @ [k])"
    and keys_remove: "keys (remove k d) = filter (\<lambda>k'. k' \<noteq> k) (keys d)"
    and wf_keys: "wf d \<Longrightarrow> distinct (keys d)"
    and wf_store: "wf d \<Longrightarrow> wf (store k v d)"
    and wf_remove: "wf d \<Longrightarrow> wf (remove k d)"
begin

lemma store_get: "lookup (store k v d) k = Some v"
  by (simp add: lookup_store)

lemma store_frame: "k' \<noteq> k \<Longrightarrow> lookup (store k v d) k' = lookup d k'"
  by (simp add: lookup_store)

lemma remove_get: "lookup (remove k d) k = None"
  by (simp add: lookup_remove)

lemma remove_frame: "k' \<noteq> k \<Longrightarrow> lookup (remove k d) k' = lookup d k'"
  by (simp add: lookup_remove)

lemma store_existing_keys: "lookup d k = Some w \<Longrightarrow> keys (store k v d) = keys d"
  using keys_lookup by (simp add: keys_store)

lemma store_new_key_last: "lookup d k = None \<Longrightarrow> keys (store k v d) = keys d @ [k]"
  using keys_lookup by (simp add: keys_store)

lemma lookup_remove_many:
  "lookup (fold remove ks d) k = (if k \<in> set ks then None else lookup d k)"
  by (induction ks arbitrary: d) (auto simp: lookup_remove)

lemma keys_remove_many:
  "keys (fold remove ks d) = filter (\<lambda>k. k \<notin> set ks) (keys d)"
  by (induction ks arbitrary: d) (auto simp: keys_remove intro: filter_cong)

end

interpretation pd: ordered_dict map_of AList.update AList.delete "map fst" dict_wf
proof
  fix k :: 'k and v :: 'v and d :: "('k, 'v) pydict"
  show "map_of (AList.update k v d) = (map_of d)(k \<mapsto> v)"
    by (simp add: update_conv')
  show "map_of (AList.delete k d) = (map_of d)(k := None)"
    by (simp add: delete_conv')
  show "k \<in> set (map fst d) \<longleftrightarrow> map_of d k \<noteq> None"
    by (simp add: map_of_eq_None_iff)
  show "map fst (AList.update k v d) = (if k \<in> set (map fst d) then map fst d else map fst d @ [k])"
    by (simp add: update_keys)
  show "map fst (AList.delete k d) = filter (\<lambda>k'. k' \<noteq> k) (map fst d)"
    by (induction d) auto
  show "dict_wf d \<Longrightarrow> distinct (map fst d)"
    by (simp add: dict_wf_def)
  show "dict_wf d \<Longrightarrow> dict_wf (AList.update k v d)"
    by (simp add: dict_wf_def distinct_update)
  show "dict_wf d \<Longrightarrow> dict_wf (AList.delete k d)"
    by (simp add: dict_wf_def distinct_delete)
qed

lemmas dict_laws [dict_simps] = pd.lookup_store pd.lookup_remove pd.store_get pd.remove_get

text \<open>Subscription \<^verbatim>\<open>d[k]\<close> raises \<open>KeyError\<close>; \<open>d.get(k)\<close> does not (see \<open>map_of\<close>).\<close>

definition getitem :: "(string, 'v) pydict \<Rightarrow> string \<Rightarrow> 'v res" where
  "getitem d k = (case map_of d k of None \<Rightarrow> Inl (KeyError k) | Some v \<Rightarrow> Inr v)"

lemma getitem_eq [simp]:
  "getitem d k = Inr v \<longleftrightarrow> map_of d k = Some v"
  "getitem d k = Inl e \<longleftrightarrow> map_of d k = None \<and> e = KeyError k"
  by (auto simp: getitem_def split: option.splits)

lemma getitem_update [dict_simps]:
  "getitem (AList.update k v d) k' = (if k' = k then Inr v else getitem d k')"
  by (simp add: getitem_def pd.lookup_store)

section \<open>Sequences\<close>

text \<open>
  \<^verbatim>\<open>xs[a:b]\<close> with non-negative bounds; slices never raise and are cut at the end of the
  list. \<^verbatim>\<open>xs[i]\<close> raises \<open>IndexError\<close>, and a negative index counts from the end.
\<close>

definition py_slice :: "nat \<Rightarrow> nat \<Rightarrow> 'a list \<Rightarrow> 'a list" where
  "py_slice a b xs = take (b - a) (drop a xs)"

lemma length_slice: "length (py_slice a b xs) = min (b - a) (length xs - a)"
  by (simp add: py_slice_def)

lemma set_slice_subset: "set (py_slice a b xs) \<subseteq> set xs"
  by (auto simp: py_slice_def dest: in_set_takeD in_set_dropD)

lemma distinct_slice: "distinct xs \<Longrightarrow> distinct (py_slice a b xs)"
  by (simp add: py_slice_def)

lemma nth_py_slice: "i < b - a \<Longrightarrow> a + i < length xs \<Longrightarrow> py_slice a b xs ! i = xs ! (a + i)"
  by (simp add: py_slice_def)

lemma set_slice: "set (py_slice a b xs) = (\<lambda>i. xs ! i) ` {i. a \<le> i \<and> i < b \<and> i < length xs}"
proof (intro set_eqI iffI)
  fix x assume "x \<in> set (py_slice a b xs)"
  then obtain i where i: "i < length (py_slice a b xs)" "py_slice a b xs ! i = x"
    by (auto simp: in_set_conv_nth)
  then have "x = xs ! (a + i)" "a + i < b" "a + i < length xs"
    by (auto simp: length_slice nth_py_slice)
  then show "x \<in> (\<lambda>i. xs ! i) ` {i. a \<le> i \<and> i < b \<and> i < length xs}" by auto
next
  fix x assume "x \<in> (\<lambda>i. xs ! i) ` {i. a \<le> i \<and> i < b \<and> i < length xs}"
  then obtain i where "a \<le> i" "i < b" "i < length xs" "x = xs ! i" by auto
  then show "x \<in> set (py_slice a b xs)"
    by (auto simp: in_set_conv_nth length_slice nth_py_slice intro!: exI [of _ "i - a"])
qed

lemma slices_disjoint:
  assumes "distinct xs" and "b \<le> c \<or> d \<le> a"
  shows "set (py_slice a b xs) \<inter> set (py_slice c d xs) = {}"
proof (rule ccontr)
  assume "\<not> ?thesis"
  then obtain i j where "a \<le> i" "i < b" "i < length xs" "c \<le> j" "j < d" "j < length xs"
    "xs ! i = xs ! j"
    by (auto simp: set_slice)
  with assms show False by (auto simp: nth_eq_iff_index_eq)
qed

definition list_get :: "'a list \<Rightarrow> int \<Rightarrow> 'a res" where
  "list_get xs i =
     (let j = (if i < 0 then int (length xs) + i else i)
      in if 0 \<le> j \<and> j < int (length xs) then Inr (xs ! nat j) else Inl IndexError)"

lemma list_get_first [simp]: "list_get (x # xs) 0 = Inr x"
  by (simp add: list_get_def)

lemma list_get_last: "xs \<noteq> [] \<Longrightarrow> list_get xs (-1) = Inr (last xs)"
  by (cases xs) (simp_all add: list_get_def last_conv_nth nat_diff_distrib Let_def)

lemma list_get_Nil [simp]: "list_get [] i = Inl IndexError"
  by (simp add: list_get_def)

lemma list_get_nat: "n < length xs \<Longrightarrow> list_get xs (int n) = Inr (xs ! n)"
  by (simp add: list_get_def)

section \<open>Strings\<close>

fun str_of_nat :: "nat \<Rightarrow> string" where
  "str_of_nat n =
     (if n < 10 then [char_of (48 + n)] else str_of_nat (n div 10) @ [char_of (48 + n mod 10)])"

declare str_of_nat.simps [simp del]

definition str_of_int :: "int \<Rightarrow> string" where
  "str_of_int i = (if i < 0 then CHR ''-'' # str_of_nat (nat (- i)) else str_of_nat (nat i))"

lemma str_of_nat_nonempty [simp]: "str_of_nat n \<noteq> []" "[] \<noteq> str_of_nat n"
  by (subst str_of_nat.simps, simp)+

lemma of_char_digit: "d < 10 \<Longrightarrow> of_char (char_of (48 + d) :: char) = (48 + d :: nat)"
  by (simp add: of_char_of)

lemma digit_inject:
  "d < 10 \<Longrightarrow> e < 10 \<Longrightarrow> (char_of (48 + d) :: char) = char_of (48 + e :: nat) \<longleftrightarrow> d = e"
  by (metis add_left_cancel of_char_digit)

lemma str_of_nat_inject: "str_of_nat m = str_of_nat n \<longleftrightarrow> m = n"
proof (induction m arbitrary: n rule: str_of_nat.induct)
  case (1 m)
  show ?case
  proof (cases "m < 10"; cases "n < 10")
    assume "m < 10" "n < 10"
    then show ?thesis by (simp add: str_of_nat.simps [of m] str_of_nat.simps [of n] digit_inject)
  next
    assume "m < 10" "\<not> n < 10"
    then show ?thesis
      by (auto simp: str_of_nat.simps [of m] str_of_nat.simps [of n])
  next
    assume "\<not> m < 10" "n < 10"
    then show ?thesis
      by (auto simp: str_of_nat.simps [of m] str_of_nat.simps [of n])
  next
    assume mn: "\<not> m < 10" "\<not> n < 10"
    then have "str_of_nat m = str_of_nat n \<longleftrightarrow> m div 10 = n div 10 \<and> m mod 10 = n mod 10"
      using 1 by (simp add: str_of_nat.simps [of m] str_of_nat.simps [of n] digit_inject)
    also have "\<dots> \<longleftrightarrow> m = n"
      by (metis div_mult_mod_eq)
    finally show ?thesis .
  qed
qed

text \<open>
  \<open>str.strip()\<close>: the characters for which \<open>isspace()\<close> holds, among the first 256 code
  points, are 9 to 13, 28 to 32, 133 and 160.
\<close>

definition is_space :: "char \<Rightarrow> bool" where
  "is_space c \<longleftrightarrow>
     (let n = (of_char c :: nat)
      in 9 \<le> n \<and> n \<le> 13 \<or> 28 \<le> n \<and> n \<le> 32 \<or> n = 133 \<or> n = 160)"

definition strip :: "string \<Rightarrow> string" where
  "strip s = rev (dropWhile is_space (rev (dropWhile is_space s)))"

definition stripped :: "string \<Rightarrow> bool" where
  "stripped s \<longleftrightarrow> s = [] \<or> \<not> is_space (hd s) \<and> \<not> is_space (last s)"

lemma strip_stripped: "stripped (strip s)"
proof (cases "strip s = []")
  case False
  let ?t = "dropWhile is_space s"
  let ?u = "dropWhile is_space (rev ?t)"
  from False have u: "?u \<noteq> []" by (simp add: strip_def)
  then have "\<not> is_space (hd ?u)" by (rule hd_dropWhile)
  then have l: "\<not> is_space (last (strip s))" using u by (simp add: strip_def last_rev)
  obtain v where v: "rev ?t = v @ ?u"
    by (metis takeWhile_dropWhile_id)
  then have "?t = rev ?u @ rev v" by (metis rev_append rev_rev_ident)
  then have "hd (strip s) = hd ?t" unfolding strip_def using u by (metis hd_append2 rev_is_Nil_conv)
  moreover have "?t \<noteq> []" using u by (metis dropWhile.simps(1) rev.simps(1))
  ultimately have "\<not> is_space (hd (strip s))" using hd_dropWhile by metis
  with l show ?thesis by (simp add: stripped_def)
qed (simp add: stripped_def)

lemma dropWhile_hd_id: "s \<noteq> [] \<Longrightarrow> \<not> P (hd s) \<Longrightarrow> dropWhile P s = s"
  by (cases s) simp_all

lemma strip_id: "stripped s \<Longrightarrow> strip s = s"
  by (cases "s = []") (simp_all add: stripped_def strip_def dropWhile_hd_id hd_rev)

fun join :: "string \<Rightarrow> string list \<Rightarrow> string" where
  "join sep [] = []"
| "join sep [x] = x"
| "join sep (x # y # ys) = x @ sep @ join sep (y # ys)"

lemma join_Cons: "ys \<noteq> [] \<Longrightarrow> join sep (x # ys) = x @ sep @ join sep ys"
  by (cases ys) simp_all

lemma join_append:
  "xs \<noteq> [] \<Longrightarrow> ys \<noteq> [] \<Longrightarrow> join sep (xs @ ys) = join sep xs @ sep @ join sep ys"
proof (induction xs)
  case (Cons x xs)
  then show ?case by (cases "xs = []") (simp_all add: join_Cons)
qed simp

definition startswith :: "string \<Rightarrow> string \<Rightarrow> bool" where
  "startswith s p \<longleftrightarrow> take (length p) s = p"

definition endswith :: "string \<Rightarrow> string \<Rightarrow> bool" where
  "endswith s t \<longleftrightarrow> length t \<le> length s \<and> drop (length s - length t) s = t"

text \<open>The operator \<^verbatim>\<open>p in s\<close> on strings.\<close>

fun str_contains :: "string \<Rightarrow> string \<Rightarrow> bool" where
  "str_contains p [] = (p = [])"
| "str_contains p (c # cs) = (startswith (c # cs) p \<or> str_contains p cs)"

text \<open>\<^verbatim>\<open>s.split(sep)\<close> for a one-character separator.\<close>

fun split_on :: "char \<Rightarrow> string \<Rightarrow> string list" where
  "split_on sep [] = [[]]"
| "split_on sep (c # cs) =
     (if c = sep then [] # split_on sep cs
      else case split_on sep cs of [] \<Rightarrow> [[c]] | p # ps \<Rightarrow> (c # p) # ps)"

lemma split_on_nonempty [simp]: "split_on sep s \<noteq> []"
  by (induction s) (auto split: list.split)

lemma split_on_absent: "sep \<notin> set s \<Longrightarrow> split_on sep s = [s]"
  by (induction s) auto

lemma split_on_append: "sep \<notin> set s \<Longrightarrow> split_on sep (s @ sep # t) = s # split_on sep t"
  by (induction s) auto

lemma split_on_join:
  "xs \<noteq> [] \<Longrightarrow> \<forall>x\<in>set xs. sep \<notin> set x \<Longrightarrow> split_on sep (join [sep] xs) = xs"
proof (induction xs)
  case (Cons x xs)
  then show ?case
    by (cases "xs = []") (simp_all add: split_on_absent split_on_append join_Cons)
qed simp

lemma set_join: "set (join sep xs) \<subseteq> set sep \<union> (\<Union>x\<in>set xs. set x)"
  by (induction sep xs rule: join.induct) auto

text \<open>
  \<^verbatim>\<open>s.count(p)\<close> and \<^verbatim>\<open>s.replace(p, q)\<close>: occurrences are found from the left and do not overlap; the
  empty string occurs before, between and after all characters.
\<close>

function occurrences :: "string \<Rightarrow> string \<Rightarrow> nat" where
  "occurrences p s =
     (if p = [] then length s + 1
      else if s = [] then 0
      else if startswith s p then 1 + occurrences p (drop (length p) s)
      else occurrences p (tl s))"
  by pat_completeness auto
termination by (relation "measure (\<lambda>(p, s). length s)") auto

function replace_all :: "string \<Rightarrow> string \<Rightarrow> string \<Rightarrow> string" where
  "replace_all p q s =
     (if p = [] then q @ concat (map (\<lambda>c. c # q) s)
      else if s = [] then []
      else if startswith s p then q @ replace_all p q (drop (length p) s)
      else hd s # replace_all p q (tl s))"
  by pat_completeness auto
termination by (relation "measure (\<lambda>(p, q, s). length s)") auto

declare occurrences.simps [simp del] replace_all.simps [simp del]

lemma replace_absent: "occurrences p s = 0 \<Longrightarrow> replace_all p q s = s"
proof (induction p s rule: occurrences.induct)
  case (1 p s)
  then show ?case
    by (auto simp: occurrences.simps [of p s] replace_all.simps [of p q s] split: if_splits)
qed

text \<open>A single occurrence is replaced in place.\<close>

lemma replace_once:
  assumes "p \<noteq> []" and "occurrences p s = 1"
  shows "\<exists>a b. s = a @ p @ b \<and> replace_all p q s = a @ q @ b \<and> occurrences p b = 0"
  using assms
proof (induction p s rule: occurrences.induct)
  case (1 p s)
  note prems = "1.prems"
  from prems have s: "s \<noteq> []" by (auto simp: occurrences.simps [of p s])
  show ?case
  proof (cases "startswith s p")
    case True
    then have "s = p @ drop (length p) s" by (metis append_take_drop_id startswith_def)
    moreover have zero: "occurrences p (drop (length p) s) = 0"
      using prems True s by (simp add: occurrences.simps [of p s])
    moreover have "replace_all p q s = q @ drop (length p) s"
      using prems True s replace_absent [OF zero] by (simp add: replace_all.simps [of p q s])
    ultimately show ?thesis by (metis append_Nil)
  next
    case False
    with prems s have "occurrences p (tl s) = 1" by (simp add: occurrences.simps [of p s])
    with "1.IH"(2) prems s False obtain a b where
      "tl s = a @ p @ b" "replace_all p q (tl s) = a @ q @ b" "occurrences p b = 0" by blast
    with prems s False have "s = (hd s # a) @ p @ b" "replace_all p q s = (hd s # a) @ q @ b"
      by (simp_all add: replace_all.simps [of p q s] flip: \<open>tl s = a @ p @ b\<close>)
    with \<open>occurrences p b = 0\<close> show ?thesis by blast
  qed
qed

text \<open>\<open>s.upper()\<close> on ASCII letters.\<close>

definition upper :: "string \<Rightarrow> string" where
  "upper s =
     map (\<lambda>c. if 97 \<le> (of_char c :: nat) \<and> (of_char c :: nat) \<le> 122
              then char_of (of_char c - 32 :: nat) else c) s"

text \<open>\<open>rstrip\<close>, \<open>split\<close> without arguments (on runs of white space) and \<open>splitlines\<close>.\<close>

definition rstrip :: "string \<Rightarrow> string" where
  "rstrip s = rev (dropWhile is_space (rev s))"

fun words_from :: "string \<Rightarrow> string \<Rightarrow> string list" where
  "words_from w [] = (if w = [] then [] else [w])"
| "words_from w (c # cs) =
     (if is_space c then (if w = [] then words_from [] cs else w # words_from [] cs)
      else words_from (w @ [c]) cs)"

definition split_ws :: "string \<Rightarrow> string list" where
  "split_ws s = words_from [] s"

definition is_line_end :: "char \<Rightarrow> bool" where
  "is_line_end c \<longleftrightarrow> (of_char c :: nat) \<in> {10, 11, 12, 13, 28, 29, 30, 133}"

fun lines_from :: "string \<Rightarrow> string \<Rightarrow> string list" where
  "lines_from l [] = (if l = [] then [] else [l])"
| "lines_from l [c] = (if is_line_end c then [l] else [l @ [c]])"
| "lines_from l (c # d # cs) =
     (if c = CHR 13 \<and> d = CHR 10 then l # lines_from [] cs
      else if is_line_end c then l # lines_from [] (d # cs)
      else lines_from (l @ [c]) (d # cs))"

definition splitlines :: "string \<Rightarrow> string list" where
  "splitlines s = lines_from [] s"

lemma words_from_word: "\<forall>c\<in>set w. \<not> is_space c \<Longrightarrow> words_from v (w @ s) = words_from (v @ w) s"
  by (induction w arbitrary: v) simp_all

lemma split_ws_word:
  assumes "w \<noteq> []" and "\<forall>c\<in>set w. \<not> is_space c"
  shows "split_ws w = [w]"
  using words_from_word [OF assms(2), of "[]" "[]"] assms(1) by (simp add: split_ws_def)

lemma lines_from_line:
  "\<forall>c\<in>set l. \<not> is_line_end c \<Longrightarrow> lines_from acc (l @ CHR 10 # rest) = (acc @ l) # lines_from [] rest"
proof (induction l arbitrary: acc)
  case Nil
  then show ?case by (cases rest) (simp_all add: is_line_end_def)
next
  case (Cons c l)
  then have "c \<noteq> CHR 13" "\<not> is_line_end c" by (auto simp: is_line_end_def)
  with Cons show ?case by (cases l) auto
qed

lemma splitlines_lines:
  "\<forall>l\<in>set ls. \<forall>c\<in>set l. \<not> is_line_end c \<Longrightarrow> splitlines (concat (map (\<lambda>l. l @ [CHR 10]) ls)) = ls"
  unfolding splitlines_def by (induction ls) (simp_all add: lines_from_line)

end
