(* ===== verification/PyMath.thy ===== *)
theory PyMath
  imports Prelude
begin

text \<open>
  Float arithmetic that may raise: division (\<open>ZeroDivisionError\<close>) and the partial functions
  of the \<open>math\<close> module (\<open>ValueError: math domain error\<close>), over the reals.
\<close>

definition math_domain_error :: py_error where
  "math_domain_error = ValueError ''math domain error''"

definition fdiv :: "real \<Rightarrow> real \<Rightarrow> real res" where
  "fdiv x y = (if y = 0 then Inl ZeroDivisionError else Inr (x / y))"

definition math_sqrt :: "real \<Rightarrow> real res" where
  "math_sqrt x = (if x < 0 then Inl math_domain_error else Inr (sqrt x))"

definition math_log :: "real \<Rightarrow> real res" where
  "math_log x = (if x \<le> 0 then Inl math_domain_error else Inr (ln x))"

text \<open>\<open>math.log(x, 2)\<close> is the quotient of two natural logarithms.\<close>

definition math_log2 :: "real \<Rightarrow> real res" where
  "math_log2 x = bindE (math_log x) (\<lambda>l. Inr (l / ln 2))"

definition math_pow :: "real \<Rightarrow> real \<Rightarrow> real res" where
  "math_pow x y =
     (if y = 0 then Inr 1
      else if x = 0 then (if y < 0 then Inl math_domain_error else Inr 0)
      else if 0 < x then Inr (x powr y)
      else if of_int \<lfloor>y\<rfloor> \<noteq> y then Inl math_domain_error
      else if 0 < y then Inr (x ^ nat \<lfloor>y\<rfloor>) else Inr (1 / x ^ nat \<lfloor>- y\<rfloor>))"

lemma fdiv_simps [simp, py_simps]:
  "y \<noteq> 0 \<Longrightarrow> fdiv x y = Inr (x / y)"
  "fdiv x 0 = Inl ZeroDivisionError"
  by (simp_all add: fdiv_def)

lemma fdiv_Inr: "fdiv x y = Inr z \<longleftrightarrow> y \<noteq> 0 \<and> z = x / y"
  by (auto simp: fdiv_def)

lemma math_sqrt_simps [simp, py_simps]: "0 \<le> x \<Longrightarrow> math_sqrt x = Inr (sqrt x)"
  by (simp add: math_sqrt_def)

lemma math_log_simps [simp, py_simps]: "0 < x \<Longrightarrow> math_log x = Inr (ln x)"
  by (simp add: math_log_def)

lemma math_log2_simps [simp, py_simps]: "0 < x \<Longrightarrow> math_log2 x = Inr (log 2 x)"
  by (simp add: math_log2_def log_def)

lemma math_pow_pos: "0 < x \<Longrightarrow> \<exists>z. math_pow x y = Inr z \<and> 0 < z"
  by (auto simp: math_pow_def)

end
