(* ===== verification/ReceiveRate.thy ===== *)
theory ReceiveRate
  imports PyMath
begin

text \<open>
  The value objects of \<open>MLRsearch\<close>: a trial measurement (\<open>ReceiveRateMeasurement.py\<close>), an
  interval bounded by two measurements (\<open>ReceiveRateInterval.py\<close>) and the pair of NDR and PDR
  intervals (\<open>NdrPdrResult.py\<close>). The constructors compute the secondary quantities and raise
  where Python's division would. The \<open>isinstance\<close> checks of the constructors are discharged
  by typing; the string conversions are not modelled.
\<close>

section \<open>Trial measurement\<close>

record measurement =
  duration :: real
  target_tr :: real
  transmit_count :: int
  loss_count :: int
  receive_count :: int
  transmit_rate :: real
  loss_rate :: real
  receive_rate :: real
  loss_fraction :: real

definition ReceiveRateMeasurement :: "real \<Rightarrow> real \<Rightarrow> int \<Rightarrow> int \<Rightarrow> measurement res" where
  "ReceiveRateMeasurement dur tr tx loss =
     bindE (fdiv (of_int tx) dur) (\<lambda>tx_rate.
     bindE (fdiv (of_int loss) dur) (\<lambda>l_rate.
     bindE (fdiv (of_int (tx - loss)) dur) (\<lambda>rx_rate.
     bindE (fdiv (of_int loss) (of_int tx)) (\<lambda>frac.
       Inr \<lparr>duration = dur, target_tr = tr, transmit_count = tx, loss_count = loss,
            receive_count = tx - loss, transmit_rate = tx_rate, loss_rate = l_rate,
            receive_rate = rx_rate, loss_fraction = frac\<rparr>))))"

text \<open>The relations between the fields that every constructed measurement has.\<close>

definition measurement_wf :: "measurement \<Rightarrow> bool" where
  "measurement_wf m \<longleftrightarrow>
     duration m \<noteq> 0 \<and> transmit_count m \<noteq> 0 \<and>
     receive_count m = transmit_count m - loss_count m \<and>
     transmit_rate m * duration m = of_int (transmit_count m) \<and>
     loss_rate m * duration m = of_int (loss_count m) \<and>
     receive_rate m = transmit_rate m - loss_rate m \<and>
     loss_fraction m * of_int (transmit_count m) = of_int (loss_count m)"

lemma ReceiveRateMeasurement_Inr:
  "ReceiveRateMeasurement dur tr tx loss = Inr m \<Longrightarrow>
     measurement_wf m \<and> duration m = dur \<and> target_tr m = tr \<and>
     transmit_count m = tx \<and> loss_count m = loss"
  by (auto simp: ReceiveRateMeasurement_def fdiv_Inr measurement_wf_def diff_divide_distrib)

lemma ReceiveRateMeasurement_total:
  "dur \<noteq> 0 \<Longrightarrow> tx \<noteq> 0 \<Longrightarrow> \<exists>m. ReceiveRateMeasurement dur tr tx loss = Inr m"
  by (simp add: ReceiveRateMeasurement_def)

section \<open>Interval between two measurements\<close>

record interval =
  measured_low :: measurement
  measured_high :: measurement
  abs_tr_width :: real
  rel_tr_width :: real

definition sort_interval :: "interval \<Rightarrow> interval res" where
  "sort_interval i =
     (let (lo, hi) =
        (if target_tr (measured_low i) > target_tr (measured_high i)
         then (measured_high i, measured_low i) else (measured_low i, measured_high i));
          width = target_tr hi - target_tr lo
      in bindE (fdiv width (target_tr hi)) (\<lambda>rel.
           Inr (i\<lparr>measured_low := lo, measured_high := hi, abs_tr_width := width,
                  rel_tr_width := rel\<rparr>)))"

definition ReceiveRateInterval :: "measurement \<Rightarrow> measurement \<Rightarrow> interval res" where
  "ReceiveRateInterval lo hi =
     sort_interval \<lparr>measured_low = lo, measured_high = hi, abs_tr_width = 0, rel_tr_width = 0\<rparr>"

definition width_in_goals :: "interval \<Rightarrow> real \<Rightarrow> real res" where
  "width_in_goals i goal =
     bindE (math_log (1 - rel_tr_width i)) (\<lambda>a.
     bindE (math_log (1 - goal)) (\<lambda>b. fdiv a b))"

abbreviation lo_tr :: "interval \<Rightarrow> real" where
  "lo_tr i \<equiv> target_tr (measured_low i)"

abbreviation hi_tr :: "interval \<Rightarrow> real" where
  "hi_tr i \<equiv> target_tr (measured_high i)"

text \<open>
  The invariant of an interval: bounds sorted by target rate, and the stored widths are those
  of the bounds.
\<close>

definition interval_wf :: "interval \<Rightarrow> bool" where
  "interval_wf i \<longleftrightarrow>
     lo_tr i \<le> hi_tr i \<and> hi_tr i \<noteq> 0 \<and>
     abs_tr_width i = hi_tr i - lo_tr i \<and>
     rel_tr_width i * hi_tr i = abs_tr_width i"

lemma ReceiveRateInterval_Inr:
  assumes "ReceiveRateInterval lo hi = Inr i"
  shows "interval_wf i \<and> {measured_low i, measured_high i} = {lo, hi}"
  using assms
  by (auto simp: ReceiveRateInterval_def sort_interval_def interval_wf_def fdiv_Inr Let_def
      split: if_splits prod.splits)

lemma ReceiveRateInterval_total:
  assumes "0 < target_tr lo" and "0 < target_tr hi"
  shows "\<exists>i. ReceiveRateInterval lo hi = Inr i"
  using assms by (auto simp: ReceiveRateInterval_def sort_interval_def Let_def split: prod.splits)

lemma ReceiveRateInterval_sorted:
  assumes "ReceiveRateInterval lo hi = Inr i" and "target_tr lo \<le> target_tr hi"
  shows "measured_low i = lo \<and> measured_high i = hi"
  using assms by (auto simp: ReceiveRateInterval_def sort_interval_def Let_def)

lemma interval_rel_width:
  assumes "interval_wf i"
  shows "rel_tr_width i = 1 - lo_tr i / hi_tr i"
  using assms by (auto simp: interval_wf_def field_simps)

lemma interval_rel_width_bounds:
  assumes "interval_wf i" and "0 < lo_tr i"
  shows "0 \<le> rel_tr_width i \<and> rel_tr_width i < 1"
proof -
  from assms have "lo_tr i \<le> hi_tr i" and "0 < hi_tr i"
    by (auto simp: interval_wf_def)
  with assms show ?thesis by (simp add: interval_rel_width field_simps)
qed

lemma width_in_goals_total:
  assumes "interval_wf i" and "0 < lo_tr i" and "0 < goal" and "goal < 1"
  shows "width_in_goals i goal = Inr (ln (1 - rel_tr_width i) / ln (1 - goal))"
  using interval_rel_width_bounds [OF assms(1,2)] assms(3,4)
  by (auto simp: width_in_goals_def)

section \<open>The pair of intervals\<close>

record ndr_pdr_result =
  ndr_interval :: interval
  pdr_interval :: interval

definition NdrPdrResult :: "interval \<Rightarrow> interval \<Rightarrow> ndr_pdr_result" where
  "NdrPdrResult ndr pdr = \<lparr>ndr_interval = ndr, pdr_interval = pdr\<rparr>"

definition result_width_in_goals :: "ndr_pdr_result \<Rightarrow> real \<Rightarrow> (real \<times> real) res" where
  "result_width_in_goals r goal =
     bindE (width_in_goals (ndr_interval r) goal) (\<lambda>n.
     bindE (width_in_goals (pdr_interval r) goal) (\<lambda>p. Inr (n, p)))"

lemma NdrPdrResult_simps [simp]:
  "ndr_interval (NdrPdrResult n p) = n"
  "pdr_interval (NdrPdrResult n p) = p"
  by (simp_all add: NdrPdrResult_def)

end
