(* ===== verification/MLRsearch.thy ===== *)
theory MLRsearch
  imports ReceiveRate
begin

text \<open>
  \<open>MLRsearch/MultipleLossRatioSearch.py\<close>: the search for the NDR and PDR intervals.

  The measurer (\<open>AbstractMeasurer.measure\<close>) and the clock (\<open>time.time\<close>) are arguments of the
  definitions. Both act on a world \<open>'w\<close> that stands for everything outside the search: a trial
  takes the duration and the target rate and returns a measurement (or raises) with the next
  world, and reading the clock may let time pass. The loop of \<open>ndrpdr\<close> need not end by itself
  (it is bounded by the timeout only), so it is a \<^theory_text>\<open>partial_function\<close> whose result \<open>None\<close>
  means that it never returns.
\<close>

type_synonym 'w measurer = "'w \<Rightarrow> real \<Rightarrow> real \<Rightarrow> measurement res \<times> 'w"
type_synonym 'w clock = "'w \<Rightarrow> real \<times> 'w"

section \<open>Parameters and state\<close>

record mlr_config =
  final_trial_duration :: real
  final_relative_width :: real
  number_of_intermediate_phases :: int
  initial_trial_duration :: real
  timeout :: real
  doublings :: int

record progress_state =
  result :: ndr_pdr_result
  phases :: int
  ps_duration :: real
  width_goal :: real
  packet_loss_ratio :: real
  minimum_transmit_rate :: real
  maximum_transmit_rate :: real

definition ProgressState ::
    "ndr_pdr_result \<Rightarrow> int \<Rightarrow> real \<Rightarrow> real \<Rightarrow> real \<Rightarrow> real \<Rightarrow> real \<Rightarrow> progress_state" where
  "ProgressState res ph dur goal plr mn mx =
     \<lparr>result = res, phases = ph, ps_duration = dur, width_goal = goal,
      packet_loss_ratio = plr, minimum_transmit_rate = mn, maximum_transmit_rate = mx\<rparr>"

section \<open>Relative widths\<close>

definition double_relative_width :: "real \<Rightarrow> real" where
  "double_relative_width w = 1.999 * w - w * w"

definition double_step_down :: "real \<Rightarrow> real \<Rightarrow> real" where
  "double_step_down w bound = bound * (1 - double_relative_width w)"

fun double_n :: "nat \<Rightarrow> real \<Rightarrow> real" where
  "double_n 0 w = w"
| "double_n (Suc n) w = double_n n (double_relative_width w)"

definition expand_down :: "real \<Rightarrow> int \<Rightarrow> real \<Rightarrow> real" where
  "expand_down w n bound = bound * (1 - double_n (nat n) w)"

definition double_step_up :: "real \<Rightarrow> real \<Rightarrow> real res" where
  "double_step_up w bound = fdiv bound (1 - double_relative_width w)"

definition expand_up :: "real \<Rightarrow> int \<Rightarrow> real \<Rightarrow> real res" where
  "expand_up w n bound = fdiv bound (1 - double_n (nat n) w)"

definition half_relative_width :: "real \<Rightarrow> real res" where
  "half_relative_width w = bindE (math_sqrt (1 - w)) (\<lambda>s. Inr (1 - s))"

definition half_step_up :: "real \<Rightarrow> real \<Rightarrow> real res" where
  "half_step_up w bound = bindE (half_relative_width w) (\<lambda>h. fdiv bound (1 - h))"

section \<open>Updating the intervals\<close>

definition new_interval :: "interval \<Rightarrow> measurement \<Rightarrow> real \<Rightarrow> interval res" where
  "new_interval old m plr =
     (let old_lo = measured_low old; old_hi = measured_high old in
      if target_tr m = target_tr old_lo \<or> target_tr m = target_tr old_hi then
        (if target_tr m = target_tr old_lo then ReceiveRateInterval m old_hi
         else ReceiveRateInterval old_lo m)
      else if loss_fraction old_lo > plr then
        (if target_tr m < target_tr old_lo then ReceiveRateInterval m old_lo
         else Inr old)
      else if target_tr m < target_tr old_lo then
        (if loss_fraction m > plr then ReceiveRateInterval m old_hi
         else ReceiveRateInterval old_lo old_hi)
      else if target_tr m > target_tr old_hi then
        (if loss_fraction old_hi \<le> plr then ReceiveRateInterval old_hi m
         else ReceiveRateInterval old_lo old_hi)
      else if loss_fraction m > plr then ReceiveRateInterval old_lo m
      else ReceiveRateInterval m old_hi)"

text \<open>
  The debug message of \<open>_measure_and_update_state\<close> computes the widths before the trial, so
  an exception of \<open>width_in_goals\<close> escapes from there.
\<close>

definition measure_and_update_state ::
    "'w measurer \<Rightarrow> mlr_config \<Rightarrow> progress_state \<Rightarrow> real \<Rightarrow> 'w \<Rightarrow> progress_state res \<times> 'w" where
  "measure_and_update_state meas cfg st tr w =
     (case result_width_in_goals (result st) (final_relative_width cfg) of
        Inl e \<Rightarrow> (Inl e, w)
      | Inr _ \<Rightarrow>
          (case meas w (ps_duration st) tr of
             (Inl e, w') \<Rightarrow> (Inl e, w')
           | (Inr m, w') \<Rightarrow>
               (bindE (new_interval (ndr_interval (result st)) m 0) (\<lambda>ndr.
                bindE (new_interval (pdr_interval (result st)) m (packet_loss_ratio st)) (\<lambda>pdr.
                  Inr (st\<lparr>result := NdrPdrResult ndr pdr\<rparr>))), w')))"

section \<open>Choosing the next trial\<close>

definition ndrpdr_loss_fraction ::
    "mlr_config \<Rightarrow> progress_state \<Rightarrow> measurement \<Rightarrow> measurement \<Rightarrow> measurement \<Rightarrow> measurement \<Rightarrow>
     real \<Rightarrow> real \<Rightarrow> real option res" where
  "ndrpdr_loss_fraction cfg st ndr_lo ndr_hi pdr_lo pdr_hi ndr_w pdr_w =
     (let mn = minimum_transmit_rate st; mx = maximum_transmit_rate st;
          r1 = (if loss_fraction ndr_lo > 0 then
                  (if target_tr ndr_lo > mn then
                     Some (max mn (expand_down ndr_w (doublings cfg) (target_tr ndr_lo)))
                   else if duration ndr_lo < ps_duration st then Some mn else None)
                else None);
          r2 = (if r1 = None \<and> loss_fraction pdr_lo > packet_loss_ratio st then
                  (if target_tr pdr_lo > mn then
                     Some (max mn (expand_down pdr_w (doublings cfg) (target_tr pdr_lo)))
                   else if duration pdr_lo < ps_duration st then Some mn else None)
                else r1)
      in bindE
        (if r2 = None \<and> loss_fraction ndr_hi \<le> 0 then
           (if target_tr ndr_hi < mx then
              bindE (expand_up ndr_w (doublings cfg) (target_tr ndr_hi)) (\<lambda>x.
                Inr (Some (min mx x)))
            else if duration ndr_hi < ps_duration st then Inr (Some mx) else Inr None)
         else Inr r2)
        (\<lambda>r3.
           if r3 = None \<and> loss_fraction pdr_hi \<le> packet_loss_ratio st then
             (if target_tr pdr_hi < mx then
                bindE (expand_up pdr_w (doublings cfg) (target_tr pdr_hi)) (\<lambda>x.
                  Inr (Some (min mx x)))
              else if duration pdr_hi < ps_duration st then Inr (Some mx) else Inr None)
           else Inr r3))"

definition ndrpdr_width_goal ::
    "progress_state \<Rightarrow> measurement \<Rightarrow> measurement \<Rightarrow> real \<Rightarrow> real \<Rightarrow> real option res" where
  "ndrpdr_width_goal st ndr_lo pdr_lo ndr_w pdr_w =
     (if ndr_w > width_goal st then
        bindE (half_step_up ndr_w (target_tr ndr_lo)) (\<lambda>x. Inr (Some x))
      else if pdr_w > width_goal st then
        bindE (half_step_up pdr_w (target_tr pdr_lo)) (\<lambda>x. Inr (Some x))
      else Inr None)"

definition ndrpdr_duration ::
    "progress_state \<Rightarrow> measurement \<Rightarrow> measurement \<Rightarrow> measurement \<Rightarrow> measurement \<Rightarrow>
     real \<Rightarrow> real \<Rightarrow> real option" where
  "ndrpdr_duration st ndr_lo ndr_hi pdr_lo pdr_hi ndr_w pdr_w =
     (if duration ndr_lo < ps_duration st then Some (target_tr ndr_lo)
      else if duration pdr_lo < ps_duration st then Some (target_tr pdr_lo)
      else if duration ndr_hi < ps_duration st \<and> ndr_w > 0 then Some (target_tr ndr_hi)
      else if duration pdr_hi < ps_duration st \<and> pdr_w > 0 then Some (target_tr pdr_hi)
      else None)"

text \<open>
  The body of the \<^verbatim>\<open>while 1\<close> loop of \<open>ndrpdr\<close> up to its \<open>continue\<close> statements: the rate of
  the next trial, or \<open>None\<close> where the code leaves the loop.
\<close>

definition next_tr :: "mlr_config \<Rightarrow> progress_state \<Rightarrow> real option res" where
  "next_tr cfg st =
     (let ndr = ndr_interval (result st); pdr = pdr_interval (result st);
          ndr_lo = measured_low ndr; ndr_hi = measured_high ndr;
          pdr_lo = measured_low pdr; pdr_hi = measured_high pdr;
          ndr_w = max (width_goal st) (rel_tr_width ndr);
          pdr_w = max (width_goal st) (rel_tr_width pdr)
      in bindE (ndrpdr_loss_fraction cfg st ndr_lo ndr_hi pdr_lo pdr_hi ndr_w pdr_w) (\<lambda>t1.
         if t1 \<noteq> None then Inr t1 else
         let ndr_w' = (if target_tr ndr_lo \<le> minimum_transmit_rate st \<and> loss_fraction ndr_lo > 0
                       then 0 else ndr_w);
             pdr_w' = (if target_tr pdr_lo \<le> minimum_transmit_rate st \<and>
                          loss_fraction pdr_lo > packet_loss_ratio st
                       then 0 else pdr_w)
         in bindE (ndrpdr_width_goal st ndr_lo pdr_lo ndr_w' pdr_w') (\<lambda>t2.
            if t2 \<noteq> None then Inr t2
            else Inr (ndrpdr_duration st ndr_lo ndr_hi pdr_lo pdr_hi ndr_w' pdr_w'))))"

definition timeout_error :: py_error where
  "timeout_error = RuntimeError ''Optimized search takes too long.''"

partial_function (option) ndrpdr_loop ::
    "'w measurer \<Rightarrow> 'w clock \<Rightarrow> mlr_config \<Rightarrow> real \<Rightarrow> progress_state \<Rightarrow> 'w \<Rightarrow>
     (progress_state res \<times> 'w) option" where
  "ndrpdr_loop meas clock cfg start_time st w =
     (case clock w of (now, w1) \<Rightarrow>
        if now > start_time + timeout cfg then Some (Inl timeout_error, w1)
        else
          (case next_tr cfg st of
             Inl e \<Rightarrow> Some (Inl e, w1)
           | Inr None \<Rightarrow> Some (Inr st, w1)
           | Inr (Some tr) \<Rightarrow>
               (case measure_and_update_state meas cfg st tr w1 of
                  (Inl e, w2) \<Rightarrow> Some (Inl e, w2)
                | (Inr st', w2) \<Rightarrow> ndrpdr_loop meas clock cfg start_time st' w2)))"

text \<open>The trial duration of the preceding phase.\<close>

definition preceding_duration :: "mlr_config \<Rightarrow> progress_state \<Rightarrow> real res" where
  "preceding_duration cfg st =
     bindE (fdiv (ps_duration st) (initial_trial_duration cfg)) (\<lambda>mult.
     bindE (fdiv (of_int (phases st - 1)) (of_int (phases st))) (\<lambda>ex.
     bindE (math_pow mult ex) (\<lambda>p. Inr (initial_trial_duration cfg * p))))"

function ndrpdr ::
    "'w measurer \<Rightarrow> 'w clock \<Rightarrow> mlr_config \<Rightarrow> progress_state \<Rightarrow> 'w \<Rightarrow>
     (progress_state res \<times> 'w) option" where
  "ndrpdr meas clock cfg st w =
     (case clock w of (start_time, w1) \<Rightarrow>
        if phases st > 0 then
          (case preceding_duration cfg st of
             Inl e \<Rightarrow> Some (Inl e, w1)
           | Inr d \<Rightarrow>
               (case ndrpdr meas clock cfg
                       (st\<lparr>phases := phases st - 1, ps_duration := d,
                           width_goal := double_relative_width (width_goal st)\<rparr>) w1 of
                  None \<Rightarrow> None
                | Some (Inl e, w2) \<Rightarrow> Some (Inl e, w2)
                | Some (Inr st', w2) \<Rightarrow>
                    ndrpdr_loop meas clock cfg start_time
                      (st'\<lparr>ps_duration := ps_duration st, width_goal := width_goal st,
                           phases := phases st\<rparr>) w2))
        else ndrpdr_loop meas clock cfg start_time st w1)"
  by pat_completeness auto
termination
  by (relation "measure (\<lambda>(_, _, _, st, _). nat (phases st))") auto

declare ndrpdr.simps [simp del]

section \<open>The whole search\<close>

text \<open>
  The two or three trials of the initial phase, which give the starting interval.
\<close>

definition initial_phase ::
    "'w measurer \<Rightarrow> mlr_config \<Rightarrow> real \<Rightarrow> real \<Rightarrow> 'w \<Rightarrow> (measurement \<times> measurement) res \<times> 'w" where
  "initial_phase meas cfg mn mx w =
     (case meas w (initial_trial_duration cfg) mx of
        (Inl e, w1) \<Rightarrow> (Inl e, w1)
      | (Inr line, w1) \<Rightarrow>
        (let goal = double_n (nat (number_of_intermediate_phases cfg)) (final_relative_width cfg);
             max_lo = mx * (1 - goal);
             mrr = max mn (min max_lo (receive_rate line))
         in case meas w1 (initial_trial_duration cfg) mrr of
           (Inl e, w2) \<Rightarrow> (Inl e, w2)
         | (Inr mrr_m, w2) \<Rightarrow>
             (case (if loss_fraction mrr_m > 0
                    then Inr (min (mrr * (1 - goal)) (receive_rate mrr_m))
                    else fdiv mrr (1 - goal)) of
                Inl e \<Rightarrow> (Inl e, w2)
              | Inr mrr2 \<Rightarrow>
                  if mn < mrr2 \<and> mrr2 < mx then
                    (case meas w2 (initial_trial_duration cfg) mrr2 of
                       (Inl e, w3) \<Rightarrow> (Inl e, w3)
                     | (Inr m2, w3) \<Rightarrow>
                         (Inr (if mrr2 > mrr then (mrr_m, m2) else (m2, mrr_m)), w3))
                  else (Inr (mrr_m, line), w2))))"

definition narrow_down_ndr_and_pdr ::
    "'w measurer \<Rightarrow> 'w clock \<Rightarrow> mlr_config \<Rightarrow> real \<Rightarrow> real \<Rightarrow> real \<Rightarrow> 'w \<Rightarrow>
     (ndr_pdr_result res \<times> 'w) option" where
  "narrow_down_ndr_and_pdr meas clock cfg mn mx plr w =
     (case initial_phase meas cfg mn mx w of
        (Inl e, w1) \<Rightarrow> Some (Inl e, w1)
      | (Inr (mrr_m, line_m), w1) \<Rightarrow>
          (case ReceiveRateInterval mrr_m line_m of
             Inl e \<Rightarrow> Some (Inl e, w1)
           | Inr starting \<Rightarrow>
               map_option (\<lambda>(r, w2). (bindE r (\<lambda>st. Inr (result st)), w2))
                 (ndrpdr meas clock cfg
                    (ProgressState (NdrPdrResult starting starting)
                       (number_of_intermediate_phases cfg) (final_trial_duration cfg)
                       (final_relative_width cfg) plr mn mx) w1)))"

section \<open>Arithmetic of relative widths\<close>

lemma double_relative_width_bounds:
  assumes "0 \<le> w" and "w < 1"
  shows "0 \<le> double_relative_width w \<and> double_relative_width w < 1"
proof -
  have "1 - double_relative_width w = (w - 1999 / 2000)\<^sup>2 + 3999 / 4000000"
    by (simp add: double_relative_width_def power2_eq_square field_simps)
  moreover have "0 \<le> (w - 1999 / 2000)\<^sup>2" by simp
  ultimately have "double_relative_width w < 1" by linarith
  moreover have "double_relative_width w = w * (1.999 - w)"
    by (simp add: double_relative_width_def algebra_simps)
  ultimately show ?thesis using assms by simp
qed

lemma double_relative_width_pos:
  "0 < w \<Longrightarrow> w < 1 \<Longrightarrow> 0 < double_relative_width w"
  by (simp add: double_relative_width_def mult_less_cancel_right_disj flip: left_diff_distrib)

lemma double_n_bounds: "0 \<le> w \<Longrightarrow> w < 1 \<Longrightarrow> 0 \<le> double_n n w \<and> double_n n w < 1"
  by (induction n arbitrary: w) (simp_all add: double_relative_width_bounds)

lemma expand_down_le:
  assumes "0 \<le> w" and "w < 1" and "0 < b"
  shows "expand_down w n b \<le> b"
  using double_n_bounds [OF assms(1,2), of "nat n"] assms(3)
  by (simp add: expand_down_def mult_left_le)

lemma expand_up_ge:
  assumes "0 \<le> w" and "w < 1" and "0 < b"
  shows "\<exists>x. expand_up w n b = Inr x \<and> b \<le> x"
proof -
  let ?v = "double_n (nat n) w"
  have v: "0 \<le> ?v" "?v < 1" using double_n_bounds [OF assms(1,2)] by auto
  then have "expand_up w n b = Inr (b / (1 - ?v))" by (simp add: expand_up_def)
  moreover have "b \<le> b / (1 - ?v)"
    using v assms(3) by (simp add: le_divide_eq mult_left_le)
  ultimately show ?thesis by blast
qed

lemma half_step_up_geometric_mean:
  assumes "interval_wf i" and "0 < lo_tr i"
  shows "half_step_up (rel_tr_width i) (lo_tr i) = Inr (sqrt (lo_tr i * hi_tr i))"
proof -
  have hi: "0 < hi_tr i" using assms by (auto simp: interval_wf_def)
  have w: "1 - rel_tr_width i = lo_tr i / hi_tr i"
    using interval_rel_width [OF assms(1)] by simp
  have "lo_tr i / sqrt (lo_tr i / hi_tr i) = sqrt (lo_tr i * hi_tr i)"
    using assms(2) hi
    by (simp add: real_sqrt_divide real_sqrt_mult real_div_sqrt field_simps)
  then show ?thesis
    using assms(2) hi
    by (simp add: half_step_up_def half_relative_width_def w)
qed

lemma geometric_mean_between:
  assumes "0 < a" and "a \<le> (b :: real)"
  shows "a \<le> sqrt (a * b) \<and> sqrt (a * b) \<le> b"
proof
  show "a \<le> sqrt (a * b)"
    using assms by (intro real_le_rsqrt) (simp add: power2_eq_square)
  show "sqrt (a * b) \<le> b"
    using assms by (intro real_le_lsqrt) (simp_all add: power2_eq_square)
qed

section \<open>Invariants\<close>

definition rate_in :: "real \<Rightarrow> real \<Rightarrow> real \<Rightarrow> bool" where
  "rate_in mn mx r \<longleftrightarrow> mn \<le> r \<and> r \<le> mx"

definition interval_in :: "real \<Rightarrow> real \<Rightarrow> interval \<Rightarrow> bool" where
  "interval_in mn mx i \<longleftrightarrow> interval_wf i \<and> rate_in mn mx (lo_tr i) \<and> rate_in mn mx (hi_tr i)"

definition state_inv :: "progress_state \<Rightarrow> bool" where
  "state_inv st \<longleftrightarrow>
     0 < minimum_transmit_rate st \<and> minimum_transmit_rate st \<le> maximum_transmit_rate st \<and>
     0 < width_goal st \<and> width_goal st < 1 \<and>
     interval_in (minimum_transmit_rate st) (maximum_transmit_rate st) (ndr_interval (result st)) \<and>
     interval_in (minimum_transmit_rate st) (maximum_transmit_rate st) (pdr_interval (result st))"

text \<open>
  What a phase with trial duration \<open>d\<close> and width goal \<open>g\<close> establishes for a loss ratio: the
  lower bound was measured for at least \<open>d\<close>; either it has too much loss at the minimal rate,
  or the interval is at most \<open>g\<close> wide and the upper bound was measured for at least \<open>d\<close>; and
  an upper bound without enough loss is at the maximal rate.
\<close>

definition search_goal :: "real \<Rightarrow> real \<Rightarrow> real \<Rightarrow> real \<Rightarrow> real \<Rightarrow> interval \<Rightarrow> bool" where
  "search_goal d g mn mx ratio i \<longleftrightarrow>
     d \<le> duration (measured_low i) \<and>
     (if loss_fraction (measured_low i) > ratio then lo_tr i \<le> mn
      else rel_tr_width i \<le> g \<and> d \<le> duration (measured_high i)) \<and>
     (loss_fraction (measured_high i) \<le> ratio \<longrightarrow> mx \<le> hi_tr i)"

abbreviation goal_met :: "progress_state \<Rightarrow> real \<Rightarrow> interval \<Rightarrow> bool" where
  "goal_met st \<equiv> search_goal (ps_duration st) (width_goal st)
     (minimum_transmit_rate st) (maximum_transmit_rate st)"

definition phase_goal_met :: "progress_state \<Rightarrow> bool" where
  "phase_goal_met st \<longleftrightarrow>
     goal_met st 0 (ndr_interval (result st)) \<and>
     goal_met st (packet_loss_ratio st) (pdr_interval (result st))"

definition config_ok :: "mlr_config \<Rightarrow> bool" where
  "config_ok cfg \<longleftrightarrow>
     0 < final_relative_width cfg \<and> final_relative_width cfg < 1 \<and>
     0 < initial_trial_duration cfg \<and> 0 < final_trial_duration cfg"

definition frame_eq :: "progress_state \<Rightarrow> progress_state \<Rightarrow> bool" where
  "frame_eq st st' \<longleftrightarrow> st' = st\<lparr>result := result st'\<rparr>"

lemma frame_eq_refl [simp]: "frame_eq st st"
  by (simp add: frame_eq_def)

lemma frame_eq_fields:
  assumes "frame_eq st st'"
  shows "phases st' = phases st" "ps_duration st' = ps_duration st"
    "width_goal st' = width_goal st" "packet_loss_ratio st' = packet_loss_ratio st"
    "minimum_transmit_rate st' = minimum_transmit_rate st"
    "maximum_transmit_rate st' = maximum_transmit_rate st"
  using assms by (cases st, cases st', simp add: frame_eq_def)+

lemma frame_eq_trans: "frame_eq a b \<Longrightarrow> frame_eq b c \<Longrightarrow> frame_eq a c"
  by (cases a, cases b, cases c) (auto simp: frame_eq_def)

lemma ReceiveRateInterval_in:
  assumes "0 < mn" and "rate_in mn mx (target_tr lo)" and "rate_in mn mx (target_tr hi)"
  shows "\<exists>i. ReceiveRateInterval lo hi = Inr i \<and> interval_in mn mx i"
proof -
  from assms have pos: "0 < target_tr lo" "0 < target_tr hi" by (auto simp: rate_in_def)
  obtain i where i: "ReceiveRateInterval lo hi = Inr i"
    using ReceiveRateInterval_total [OF pos] by blast
  with ReceiveRateInterval_Inr [OF i] assms show ?thesis
    by (auto simp: interval_in_def doubleton_eq_iff)
qed

lemma new_interval_in:
  assumes "0 < mn" and "interval_in mn mx i" and "rate_in mn mx (target_tr m)"
  shows "\<exists>i'. new_interval i m plr = Inr i' \<and> interval_in mn mx i'"
  using assms ReceiveRateInterval_in [OF assms(1)]
  by (simp add: new_interval_def Let_def interval_in_def)

lemma state_inv_new_interval:
  assumes "state_inv st"
    and "rate_in (minimum_transmit_rate st) (maximum_transmit_rate st) (target_tr m)"
    and "i = ndr_interval (result st) \<or> i = pdr_interval (result st)"
  shows "\<exists>i'. new_interval i m plr = Inr i' \<and>
    interval_in (minimum_transmit_rate st) (maximum_transmit_rate st) i'"
  using assms by (intro new_interval_in) (auto simp: state_inv_def)

section \<open>The next trial\<close>

lemma external_down_in:
  "0 < mn \<Longrightarrow> rate_in mn mx b \<Longrightarrow> 0 \<le> w \<Longrightarrow> w < 1 \<Longrightarrow> rate_in mn mx (max mn (expand_down w n b))"
  using expand_down_le [of w b n] by (auto simp: rate_in_def)

lemma external_up_in:
  assumes "0 < mn" and "rate_in mn mx b" and "0 \<le> w" and "w < 1"
  shows "\<exists>x. expand_up w n b = Inr x \<and> rate_in mn mx (min mx x)"
  using expand_up_ge [of w b n] assms by (auto simp: rate_in_def)

lemma ndrpdr_loss_fraction_in:
  fixes st :: progress_state
  defines "mn \<equiv> minimum_transmit_rate st" and "mx \<equiv> maximum_transmit_rate st"
  assumes "0 < mn" and "mn \<le> mx"
    and "rate_in mn mx (target_tr nl)" and "rate_in mn mx (target_tr nh)"
    and "rate_in mn mx (target_tr pl)" and "rate_in mn mx (target_tr ph)"
    and "0 \<le> nw" and "nw < 1" and "0 \<le> pw" and "pw < 1"
  shows "\<exists>r. ndrpdr_loss_fraction cfg st nl nh pl ph nw pw = Inr r \<and>
    (\<forall>t. r = Some t \<longrightarrow> rate_in mn mx t)"
proof -
  have mm: "rate_in mn mx mn" "rate_in mn mx mx" using assms(4) by (simp_all add: rate_in_def)
  obtain x where x: "expand_up nw (doublings cfg) (target_tr nh) = Inr x" "rate_in mn mx (min mx x)"
    using external_up_in assms by blast
  obtain y where y: "expand_up pw (doublings cfg) (target_tr ph) = Inr y" "rate_in mn mx (min mx y)"
    using external_up_in assms by blast
  have d: "rate_in mn mx (max mn (expand_down nw (doublings cfg) (target_tr nl)))"
    "rate_in mn mx (max mn (expand_down pw (doublings cfg) (target_tr pl)))"
    using external_down_in assms by blast+
  show ?thesis
    unfolding ndrpdr_loss_fraction_def Let_def mn_def [symmetric] mx_def [symmetric]
    using mm x y d by auto
qed

lemma ndrpdr_width_goal_in:
  assumes inv: "state_inv st"
    and nw: "nw = 0 \<or> nw = max (width_goal st) (rel_tr_width (ndr_interval (result st)))"
    and pw: "pw = 0 \<or> pw = max (width_goal st) (rel_tr_width (pdr_interval (result st)))"
  shows "\<exists>r. ndrpdr_width_goal st (measured_low (ndr_interval (result st)))
      (measured_low (pdr_interval (result st))) nw pw = Inr r \<and>
    (\<forall>t. r = Some t \<longrightarrow> rate_in (minimum_transmit_rate st) (maximum_transmit_rate st) t)"
proof -
  let ?n = "ndr_interval (result st)" and ?p = "pdr_interval (result st)"
  have bisect: "half_step_up (rel_tr_width i) (lo_tr i) = Inr (sqrt (lo_tr i * hi_tr i)) \<and>
      rate_in (minimum_transmit_rate st) (maximum_transmit_rate st) (sqrt (lo_tr i * hi_tr i))"
    if "i = ?n \<or> i = ?p" for i
  proof -
    from that inv have i: "interval_wf i" "0 < lo_tr i" "lo_tr i \<le> hi_tr i"
      "minimum_transmit_rate st \<le> lo_tr i" "hi_tr i \<le> maximum_transmit_rate st"
      by (auto simp: state_inv_def interval_in_def rate_in_def interval_wf_def)
    with half_step_up_geometric_mean [OF i(1,2)] geometric_mean_between [OF i(2,3)]
    show ?thesis by (simp add: rate_in_def)
  qed
  have "nw = rel_tr_width ?n" if "nw > width_goal st"
    using that nw inv by (auto simp: state_inv_def max_def split: if_splits)
  moreover have "pw = rel_tr_width ?p" if "pw > width_goal st"
    using that pw inv by (auto simp: state_inv_def max_def split: if_splits)
  ultimately show ?thesis
    using bisect [of ?n] bisect [of ?p] by (auto simp: ndrpdr_width_goal_def)
qed

lemma ndrpdr_duration_cases:
  "ndrpdr_duration st nl nh pl ph nw pw = Some t \<Longrightarrow>
     t \<in> {target_tr nl, target_tr nh, target_tr pl, target_tr ph}"
  by (auto simp: ndrpdr_duration_def split: if_splits)

text \<open>
  In a state that satisfies the invariant the choice of the next trial raises nothing and
  stays within the rate limits.
\<close>

lemma next_tr_in:
  assumes "state_inv st"
  shows "\<exists>r. next_tr cfg st = Inr r \<and>
    (\<forall>t. r = Some t \<longrightarrow> rate_in (minimum_transmit_rate st) (maximum_transmit_rate st) t)"
proof -
  let ?n = "ndr_interval (result st)" and ?p = "pdr_interval (result st)"
  let ?in = "rate_in (minimum_transmit_rate st) (maximum_transmit_rate st)"
  let ?nw = "max (width_goal st) (rel_tr_width ?n)" and ?pw = "max (width_goal st) (rel_tr_width ?p)"
  let ?nw' = "if lo_tr ?n \<le> minimum_transmit_rate st \<and> loss_fraction (measured_low ?n) > 0
    then 0 else ?nw"
  let ?pw' = "if lo_tr ?p \<le> minimum_transmit_rate st \<and>
    loss_fraction (measured_low ?p) > packet_loss_ratio st then 0 else ?pw"
  have tr: "?in (lo_tr ?n)" "?in (hi_tr ?n)" "?in (lo_tr ?p)" "?in (hi_tr ?p)"
    and wf: "interval_wf ?n" "interval_wf ?p" and pos: "0 < lo_tr ?n" "0 < lo_tr ?p"
    and goal: "0 < width_goal st" "width_goal st < 1"
    and mm: "0 < minimum_transmit_rate st" "minimum_transmit_rate st \<le> maximum_transmit_rate st"
    using assms by (auto simp: state_inv_def interval_in_def rate_in_def)
  have w: "0 \<le> ?nw" "?nw < 1" "0 \<le> ?pw" "?pw < 1"
    using interval_rel_width_bounds wf pos goal by auto
  obtain r1 where r1: "ndrpdr_loss_fraction cfg st (measured_low ?n) (measured_high ?n)
      (measured_low ?p) (measured_high ?p) ?nw ?pw = Inr r1" "\<And>t. r1 = Some t \<Longrightarrow> ?in t"
    using ndrpdr_loss_fraction_in [OF mm tr w] by blast
  have c: "?nw' = 0 \<or> ?nw' = ?nw" "?pw' = 0 \<or> ?pw' = ?pw" by simp_all
  obtain r2 where r2: "ndrpdr_width_goal st (measured_low ?n) (measured_low ?p) ?nw' ?pw' = Inr r2"
    "\<And>t. r2 = Some t \<Longrightarrow> ?in t"
    using ndrpdr_width_goal_in [OF assms c] by blast
  show ?thesis
    unfolding next_tr_def Let_def r1(1) r2(1)
    using r1(2) r2(2) tr by (auto dest!: ndrpdr_duration_cases)
qed

text \<open>Leaving the loop means that the goals of the phase are met for both ratios.\<close>

lemma ndrpdr_loss_fraction_None:
  assumes "ndrpdr_loss_fraction cfg st nl nh pl ph nw pw = Inr None"
  shows "(loss_fraction nl > 0 \<longrightarrow>
            target_tr nl \<le> minimum_transmit_rate st \<and> ps_duration st \<le> duration nl) \<and>
         (loss_fraction pl > packet_loss_ratio st \<longrightarrow>
            target_tr pl \<le> minimum_transmit_rate st \<and> ps_duration st \<le> duration pl) \<and>
         (loss_fraction nh \<le> 0 \<longrightarrow> maximum_transmit_rate st \<le> target_tr nh) \<and>
         (loss_fraction ph \<le> packet_loss_ratio st \<longrightarrow> maximum_transmit_rate st \<le> target_tr ph)"
  using assms unfolding ndrpdr_loss_fraction_def Let_def
  by (auto split: if_splits)

lemma next_tr_None_goal_met:
  assumes inv: "state_inv st" and none: "next_tr cfg st = Inr None"
  shows "phase_goal_met st"
proof -
  let ?n = "ndr_interval (result st)" and ?p = "pdr_interval (result st)"
  let ?nw = "max (width_goal st) (rel_tr_width ?n)" and ?pw = "max (width_goal st) (rel_tr_width ?p)"
  let ?nw' = "if lo_tr ?n \<le> minimum_transmit_rate st \<and> loss_fraction (measured_low ?n) > 0
    then 0 else ?nw"
  let ?pw' = "if lo_tr ?p \<le> minimum_transmit_rate st \<and>
    loss_fraction (measured_low ?p) > packet_loss_ratio st then 0 else ?pw"
  have lf: "ndrpdr_loss_fraction cfg st (measured_low ?n) (measured_high ?n)
      (measured_low ?p) (measured_high ?p) ?nw ?pw = Inr None"
    and wg: "ndrpdr_width_goal st (measured_low ?n) (measured_low ?p) ?nw' ?pw' = Inr None"
    and du: "ndrpdr_duration st (measured_low ?n) (measured_high ?n) (measured_low ?p)
      (measured_high ?p) ?nw' ?pw' = None"
    using none by (auto simp: next_tr_def Let_def split: if_splits)
  note lf' = ndrpdr_loss_fraction_None [OF lf]
  have "?nw' \<le> width_goal st" "?pw' \<le> width_goal st"
    using wg by (auto simp: ndrpdr_width_goal_def split: if_splits)
  moreover have "0 < width_goal st" using inv by (simp add: state_inv_def)
  ultimately show ?thesis
    using lf' du unfolding phase_goal_met_def search_goal_def ndrpdr_duration_def
    by (auto simp: max_def split: if_splits)
qed

lemma preceding_duration_pos:
  assumes "0 < initial_trial_duration cfg" and "0 < ps_duration st" and "0 < phases st"
  shows "\<exists>d. preceding_duration cfg st = Inr d \<and> 0 < d"
proof -
  obtain z where "math_pow (ps_duration st / initial_trial_duration cfg)
      (of_int (phases st - 1) / of_int (phases st)) = Inr z" "0 < z"
    using math_pow_pos assms by (metis divide_pos_pos)
  with assms show ?thesis by (auto simp: preceding_duration_def)
qed

section \<open>A rule for the loop\<close>

lemma ndrpdr_loop_rule:
  assumes ret: "ndrpdr_loop meas clock cfg start st w = Some (r, w')"
    and init: "I st"
    and step: "\<And>s t s' w w'. I s \<Longrightarrow> next_tr cfg s = Inr (Some t) \<Longrightarrow>
      measure_and_update_state meas cfg s t w = (Inr s', w') \<Longrightarrow> I s'"
  shows "case r of
      Inr st' \<Rightarrow> I st' \<and> next_tr cfg st' = Inr None
    | Inl e \<Rightarrow> e = timeout_error \<or> (\<exists>s. I s \<and> next_tr cfg s = Inl e) \<or>
        (\<exists>s t v v'. I s \<and> next_tr cfg s = Inr (Some t) \<and>
           measure_and_update_state meas cfg s t v = (Inl e, v'))"
    (is "?post r")
proof -
  have "meas = meas \<and> cfg = cfg \<longrightarrow> I st \<longrightarrow> ?post (fst (r, w'))"
  proof (rule ndrpdr_loop.raw_induct [where
        P = "\<lambda>m c g s st w rw. m = meas \<and> g = cfg \<longrightarrow> I st \<longrightarrow> ?post (fst rw)", OF _ ret])
    fix loop m c g s st w rw
    assume IH: "\<And>m c g s st w rw. loop m c g s st w = Some rw \<Longrightarrow>
        m = meas \<and> g = cfg \<longrightarrow> I st \<longrightarrow> ?post (fst rw)"
      and eq: "(case c w of (now, w1) \<Rightarrow>
        if now > s + timeout g then Some (Inl timeout_error, w1)
        else
          (case next_tr g st of
             Inl e \<Rightarrow> Some (Inl e, w1)
           | Inr None \<Rightarrow> Some (Inr st, w1)
           | Inr (Some tr) \<Rightarrow>
               (case measure_and_update_state m g st tr w1 of
                  (Inl e, w2) \<Rightarrow> Some (Inl e, w2)
                | (Inr st', w2) \<Rightarrow> loop m c g s st' w2))) = Some rw"
    show "m = meas \<and> g = cfg \<longrightarrow> I st \<longrightarrow> ?post (fst rw)"
    proof (intro impI)
      assume mg: "m = meas \<and> g = cfg" and I: "I st"
      from eq mg consider
          (out) "fst rw = Inl timeout_error"
        | (err) e where "next_tr cfg st = Inl e" "fst rw = Inl e"
        | (stop) "next_tr cfg st = Inr None" "fst rw = Inr st"
        | (fail) e t v v' where "next_tr cfg st = Inr (Some t)"
            "measure_and_update_state meas cfg st t v = (Inl e, v')" "fst rw = Inl e"
        | (again) t v st' v' where "next_tr cfg st = Inr (Some t)"
            "measure_and_update_state meas cfg st t v = (Inr st', v')"
            "loop m c g s st' v' = Some rw"
        by (auto split: prod.splits sum.splits option.splits if_splits) (metis fst_conv)
      then show "?post (fst rw)"
      proof cases
        case again
        with step [OF I again(1,2)] IH [OF again(3)] mg show ?thesis by simp
      qed (use I in auto)
    qed
  qed
  with init show ?thesis by simp
qed

section \<open>The contract of a measurer\<close>

text \<open>
  \<open>AbstractMeasurer.measure\<close> takes the trial duration and the target rate and returns the
  measurement of that trial; a provider promises that the returned object records them.
\<close>

locale rate_provider =
  fixes meas :: "'w measurer"
  assumes measured_rate: "meas w d r = (Inr m, w') \<Longrightarrow> target_tr m = r"
    and measured_duration: "meas w d r = (Inr m, w') \<Longrightarrow> duration m = d"
begin

lemma measure_and_update_frame:
  "measure_and_update_state meas cfg st tr w = (Inr st', w') \<Longrightarrow> frame_eq st st'"
  by (auto simp: measure_and_update_state_def frame_eq_def split: sum.splits prod.splits)

lemma measure_and_update_inv:
  assumes "state_inv st" and "measure_and_update_state meas cfg st tr w = (Inr st', w')"
    and "rate_in (minimum_transmit_rate st) (maximum_transmit_rate st) tr"
  shows "state_inv st'"
proof -
  let ?mn = "minimum_transmit_rate st" and ?mx = "maximum_transmit_rate st"
  from assms(2) obtain m n p where m: "target_tr m = tr"
    and n: "new_interval (ndr_interval (result st)) m 0 = Inr n"
    and p: "new_interval (pdr_interval (result st)) m (packet_loss_ratio st) = Inr p"
    and st': "st' = st\<lparr>result := NdrPdrResult n p\<rparr>"
    by (auto simp: measure_and_update_state_def dest!: measured_rate split: sum.splits prod.splits)
  have "rate_in ?mn ?mx (target_tr m)" using assms(3) m by simp
  with n p have "interval_in ?mn ?mx n" "interval_in ?mn ?mx p"
    using state_inv_new_interval [OF assms(1)] by (metis sum.inject(2))+
  with assms(1) show ?thesis by (simp add: st' state_inv_def)
qed

text \<open>Only the measurer itself can make a step fail.\<close>

lemma measure_and_update_error:
  assumes "state_inv st" and "config_ok cfg"
    and "measure_and_update_state meas cfg st tr w = (Inl e, w')"
    and "rate_in (minimum_transmit_rate st) (maximum_transmit_rate st) tr"
  shows "meas w (ps_duration st) tr = (Inl e, w')"
proof -
  let ?n = "ndr_interval (result st)" and ?p = "pdr_interval (result st)"
  let ?mn = "minimum_transmit_rate st" and ?mx = "maximum_transmit_rate st"
  have "\<exists>x. width_in_goals ?n (final_relative_width cfg) = Inr x"
    "\<exists>x. width_in_goals ?p (final_relative_width cfg) = Inr x"
    using width_in_goals_total assms(1,2)
    by (fastforce simp: state_inv_def interval_in_def rate_in_def config_ok_def)+
  then have g: "\<exists>x. result_width_in_goals (result st) (final_relative_width cfg) = Inr x"
    by (auto simp: result_width_in_goals_def)
  have ni: "\<exists>i. new_interval ?n m 0 = Inr i" "\<exists>i. new_interval ?p m (packet_loss_ratio st) = Inr i"
    if "target_tr m = tr" for m
    using state_inv_new_interval [OF assms(1), of m] that assms(4) by blast+
  show ?thesis
    using assms(3) g ni
    by (fastforce simp: measure_and_update_state_def dest!: measured_rate
        split: sum.splits prod.splits)
qed

lemma ndrpdr_loop_result:
  assumes ret: "ndrpdr_loop meas clock cfg start st w = Some (r, w')"
    and inv: "state_inv st" and cfg: "config_ok cfg"
  shows "case r of
      Inr st' \<Rightarrow> state_inv st' \<and> frame_eq st st' \<and> phase_goal_met st'
    | Inl e \<Rightarrow> e = timeout_error \<or> (\<exists>d t v v'. meas v d t = (Inl e, v'))"
proof -
  define I where "I s \<longleftrightarrow> state_inv s \<and> frame_eq st s" for s
  have step: "I s'" if "I s" "next_tr cfg s = Inr (Some t)"
    "measure_and_update_state meas cfg s t v = (Inr s', v')" for s t s' v v'
    using that next_tr_in [of s cfg] measure_and_update_inv measure_and_update_frame frame_eq_trans
    unfolding I_def by (metis sum.inject(2))
  have "I st" using inv by (simp add: I_def)
  have post: "case r of
      Inr st' \<Rightarrow> I st' \<and> next_tr cfg st' = Inr None
    | Inl e \<Rightarrow> e = timeout_error \<or> (\<exists>s. I s \<and> next_tr cfg s = Inl e) \<or>
        (\<exists>s t v v'. I s \<and> next_tr cfg s = Inr (Some t) \<and>
           measure_and_update_state meas cfg s t v = (Inl e, v'))"
    by (rule ndrpdr_loop_rule [where I = I, OF ret \<open>I st\<close>]) (rule step)
  show ?thesis
  proof (cases r)
    case (Inl e)
    have "\<not> (I s \<and> next_tr cfg s = Inl e)" for s
      using next_tr_in [of s cfg] by (auto simp: I_def)
    moreover have "meas v (ps_duration s) t = (Inl e, v')"
      if "I s" "next_tr cfg s = Inr (Some t)"
        "measure_and_update_state meas cfg s t v = (Inl e, v')" for s t v v'
      using that next_tr_in [of s cfg] measure_and_update_error [OF _ cfg] by (auto simp: I_def)
    ultimately show ?thesis using post unfolding Inl sum.case by blast
  next
    case (Inr st')
    then have "I st'" "next_tr cfg st' = Inr None" using post by simp_all
    with next_tr_None_goal_met Inr show ?thesis by (auto simp: I_def)
  qed
qed

text \<open>A phase together with all the phases before it.\<close>

lemma ndrpdr_result:
  assumes "ndrpdr meas clock cfg st w = Some (r, w')" and "state_inv st" and "config_ok cfg"
    and "0 < ps_duration st"
  shows "case r of
      Inr st' \<Rightarrow> state_inv st' \<and> frame_eq st st' \<and> phase_goal_met st'
    | Inl e \<Rightarrow> e = timeout_error \<or> (\<exists>d t v v'. meas v d t = (Inl e, v'))"
  using assms
proof (induction "nat (phases st)" arbitrary: st w r w')
  case 0
  then have "\<not> phases st > 0" by simp
  with 0 obtain start w1 where "ndrpdr_loop meas clock cfg start st w1 = Some (r, w')"
    by (auto simp: ndrpdr.simps [of meas clock cfg st] split: prod.splits)
  from ndrpdr_loop_result [OF this 0(3,4)] show ?case .
next
  case (Suc n)
  then have ph: "phases st > 0" by simp
  obtain d where d: "preceding_duration cfg st = Inr d" "0 < d"
    using preceding_duration_pos Suc.prems ph by (auto simp: config_ok_def)
  let ?st = "st\<lparr>phases := phases st - 1, ps_duration := d,
    width_goal := double_relative_width (width_goal st)\<rparr>"
  obtain start w1 where cl: "clock w = (start, w1)" by (cases "clock w")
  have inv: "state_inv ?st"
    using Suc.prems(2) double_relative_width_bounds double_relative_width_pos
    by (auto simp: state_inv_def)
  obtain q w2 where q: "ndrpdr meas clock cfg ?st w1 = Some (q, w2)"
    using Suc.prems(1) ph d cl
    by (auto simp: ndrpdr.simps [of meas clock cfg st] split: option.splits)
  have IH: "case q of
      Inr st' \<Rightarrow> state_inv st' \<and> frame_eq ?st st' \<and> phase_goal_met st'
    | Inl e \<Rightarrow> e = timeout_error \<or> (\<exists>d t v v'. meas v d t = (Inl e, v'))"
    using Suc.hyps(2) ph d(2) Suc.prems(3)
    by (intro Suc.hyps(1) [OF _ q inv]) auto
  show ?case
  proof (cases q)
    case (Inl e)
    then have "r = Inl e"
      using Suc.prems(1) ph d cl q by (simp add: ndrpdr.simps [of meas clock cfg st])
    with IH Inl show ?thesis by simp
  next
    case (Inr st1)
    let ?st2 = "st1\<lparr>ps_duration := ps_duration st, width_goal := width_goal st,
      phases := phases st\<rparr>"
    have loop: "ndrpdr_loop meas clock cfg start ?st2 w2 = Some (r, w')"
      using Suc.prems(1) ph d cl q Inr by (simp add: ndrpdr.simps [of meas clock cfg st])
    have fr: "frame_eq ?st st1" and inv1: "state_inv st1" using IH Inr by simp_all
    have fr2: "frame_eq st ?st2"
      using fr by (cases st, cases st1) (auto simp: frame_eq_def)
    have "state_inv ?st2"
      using inv1 Suc.prems(2) frame_eq_fields [OF fr] by (simp add: state_inv_def)
    from ndrpdr_loop_result [OF loop this Suc.prems(3)] fr2 show ?thesis
      by (auto intro: frame_eq_trans split: sum.splits)
  qed
qed

lemma initial_phase_result:
  assumes "initial_phase meas cfg mn mx w = (r, w')" and "config_ok cfg"
    and "0 < mn" and "mn \<le> mx"
  shows "case r of
      Inr (a, b) \<Rightarrow> rate_in mn mx (target_tr a) \<and> rate_in mn mx (target_tr b)
    | Inl e \<Rightarrow> (\<exists>d t v v'. meas v d t = (Inl e, v'))"
proof -
  define goal where
    "goal = double_n (nat (number_of_intermediate_phases cfg)) (final_relative_width cfg)"
  have goal: "0 \<le> goal" "goal < 1"
    using double_n_bounds assms(2) by (auto simp: goal_def config_ok_def)
  then have "mx * (1 - goal) \<le> mx" using assms(3,4) by (simp add: mult_left_le)
  then have mrr: "rate_in mn mx (max mn (min (mx * (1 - goal)) x))" for x
    using assms(4) by (auto simp: rate_in_def)
  have line: "rate_in mn mx mx" using assms(4) by (simp add: rate_in_def)
  note unfold = initial_phase_def goal_def [symmetric] Let_def
  show ?thesis
  proof (cases r)
    case (Inl e)
    with assms(1) goal show ?thesis unfolding unfold
      by (simp split: prod.splits sum.splits if_splits) blast+
  next
    case (Inr ab)
    let ?d = "initial_trial_duration cfg"
    obtain l w1 where l: "meas w ?d mx = (Inr l, w1)"
      using assms(1) Inr by (auto simp: unfold split: prod.splits sum.splits)
    let ?mrr = "max mn (min (mx * (1 - goal)) (receive_rate l))"
    obtain m1 w2 where m1: "meas w1 ?d ?mrr = (Inr m1, w2)"
      using assms(1) Inr l by (auto simp: unfold split: prod.splits sum.splits)
    consider "ab = (m1, l)"
      | r2 m2 w3 where "mn < r2" "r2 < mx" "meas w2 ?d r2 = (Inr m2, w3)" "ab = (m1, m2) \<or> ab = (m2, m1)"
      using assms(1) Inr l m1 goal
      by (auto simp: unfold split: prod.splits sum.splits if_splits)
    then show ?thesis
      using measured_rate [OF l] measured_rate [OF m1] mrr [of "receive_rate l"] line Inr
      by cases (auto simp: rate_in_def dest!: measured_rate)
  qed
qed

lemma narrow_down_result:
  assumes ret: "narrow_down_ndr_and_pdr meas clock cfg mn mx plr w = Some (r, w')"
    and cfg: "config_ok cfg" and mn: "0 < mn" and mx: "mn \<le> mx"
  shows "case r of
      Inr res \<Rightarrow>
        interval_in mn mx (ndr_interval res) \<and> interval_in mn mx (pdr_interval res) \<and>
        search_goal (final_trial_duration cfg) (final_relative_width cfg) mn mx 0
          (ndr_interval res) \<and>
        search_goal (final_trial_duration cfg) (final_relative_width cfg) mn mx plr
          (pdr_interval res)
    | Inl e \<Rightarrow> e = timeout_error \<or> (\<exists>d t v v'. meas v d t = (Inl e, v'))"
proof -
  obtain q w1 where q: "initial_phase meas cfg mn mx w = (q, w1)"
    by (cases "initial_phase meas cfg mn mx w")
  note ini = initial_phase_result [OF q cfg mn mx]
  show ?thesis
  proof (cases q)
    case (Inl e)
    with ret q have "r = Inl e" by (simp add: narrow_down_ndr_and_pdr_def)
    with ini Inl show ?thesis by simp
  next
    case (Inr ab)
    then obtain a b where ab: "q = Inr (a, b)" by (cases ab) simp
    obtain i where i: "ReceiveRateInterval a b = Inr i" "interval_in mn mx i"
      using ReceiveRateInterval_in [OF mn] ini ab by fastforce
    let ?st = "ProgressState (NdrPdrResult i i) (number_of_intermediate_phases cfg)
      (final_trial_duration cfg) (final_relative_width cfg) plr mn mx"
    from ret q ab i obtain s where s: "ndrpdr meas clock cfg ?st w1 = Some (s, w')"
      and r: "r = bindE s (\<lambda>st. Inr (result st))"
      by (auto simp: narrow_down_ndr_and_pdr_def)
    have inv: "state_inv ?st" "0 < ps_duration ?st"
      using i mn mx cfg by (auto simp: state_inv_def ProgressState_def config_ok_def)
    note post = ndrpdr_result [OF s inv(1) cfg inv(2)]
    show ?thesis
    proof (cases s)
      case (Inl e)
      with post r show ?thesis by simp
    next
      case (Inr st')
      with post have "frame_eq ?st st'" by simp
      from frame_eq_fields [OF this] post Inr r show ?thesis
        by (simp add: state_inv_def phase_goal_met_def ProgressState_def)
    qed
  qed
qed

end

section \<open>Termination by the timeout\<close>

text \<open>
  The documented behaviour of trials and of the clock: \<open>T\<close> is the real time of a world, the
  clock shows at least that time and never runs backwards, and a trial of duration \<open>d\<close> that
  does not raise takes at least \<open>d\<close>.
\<close>

definition trials_take_time :: "'w measurer \<Rightarrow> 'w clock \<Rightarrow> ('w \<Rightarrow> real) \<Rightarrow> bool" where
  "trials_take_time meas clock T \<longleftrightarrow>
     (\<forall>w. T w \<le> fst (clock w) \<and> T w \<le> T (snd (clock w))) \<and>
     (\<forall>w d r m w'. 0 < d \<and> meas w d r = (Inr m, w') \<longrightarrow> T w + d \<le> T w')"

lemma measure_and_update_time:
  assumes "trials_take_time meas clock T" and "0 < ps_duration st"
    and "measure_and_update_state meas cfg st tr w = (Inr st', w')"
  shows "T w + ps_duration st \<le> T w' \<and> ps_duration st' = ps_duration st"
proof -
  obtain m where "meas w (ps_duration st) tr = (Inr m, w')" and "ps_duration st' = ps_duration st"
    using assms(3) by (auto simp: measure_and_update_state_def split: sum.splits prod.splits)
  with assms(1,2) show ?thesis unfolding trials_take_time_def by metis
qed

lemma ndrpdr_loop_returns_within:
  assumes "trials_take_time meas clock T" and "0 < ps_duration st"
    and "start + timeout cfg < T w + of_nat n * ps_duration st"
  shows "\<exists>r. ndrpdr_loop meas clock cfg start st w = Some r"
  using assms
proof (induction n arbitrary: st w)
  case 0
  then have "start + timeout cfg < fst (clock w)"
    by (auto simp: trials_take_time_def intro: less_le_trans)
  then show ?case
    by (auto simp: ndrpdr_loop.simps [of meas clock cfg start st w] split: prod.splits)
next
  case (Suc n)
  obtain now w1 where cl: "clock w = (now, w1)" by (cases "clock w")
  then have "T w \<le> T w1" using Suc.prems(1) by (metis trials_take_time_def snd_conv)
  then have "\<exists>r. ndrpdr_loop meas clock cfg start st' w2 = Some r"
    if "measure_and_update_state meas cfg st t w1 = (Inr st', w2)" for t st' w2
    using measure_and_update_time [OF Suc.prems(1,2) that] Suc.prems
    by (intro Suc.IH) (auto simp: algebra_simps)
  then show ?case
    by (auto simp: ndrpdr_loop.simps [of meas clock cfg start st w] cl
        split: sum.splits option.splits prod.splits)
qed

lemma ndrpdr_loop_returns:
  assumes "trials_take_time meas clock T" and "0 < ps_duration st"
  shows "\<exists>r. ndrpdr_loop meas clock cfg start st w = Some r"
proof -
  obtain n where "start + timeout cfg - T w < of_nat n * ps_duration st"
    using ex_less_of_nat_mult assms(2) by blast
  then show ?thesis
    by (intro ndrpdr_loop_returns_within [OF assms, of _ _ _ n]) (simp add: algebra_simps)
qed

lemma ndrpdr_returns:
  assumes "trials_take_time meas clock T" and "0 < initial_trial_duration cfg"
    and "0 < ps_duration st"
  shows "\<exists>r. ndrpdr meas clock cfg st w = Some r"
  using assms(3)
proof (induction "nat (phases st)" arbitrary: st w)
  case 0
  then show ?case
    using ndrpdr_loop_returns [OF assms(1), of st]
    by (simp add: ndrpdr.simps [of meas clock cfg st] split: prod.splits)
next
  case (Suc n)
  then have ph: "phases st > 0" by simp
  obtain d where d: "preceding_duration cfg st = Inr d" "0 < d"
    using preceding_duration_pos assms(2) Suc.prems ph by blast
  let ?st = "st\<lparr>phases := phases st - 1, ps_duration := d,
    width_goal := double_relative_width (width_goal st)\<rparr>"
  obtain start w1 where cl: "clock w = (start, w1)" by (cases "clock w")
  have "\<exists>r. ndrpdr meas clock cfg ?st w1 = Some r"
    using Suc.hyps(2) ph d(2) by (intro Suc.hyps(1)) auto
  then obtain q w2 where q: "ndrpdr meas clock cfg ?st w1 = Some (q, w2)" by auto
  show ?case
    using ph d(1) cl q ndrpdr_loop_returns [OF assms(1)] Suc.prems
    by (cases q) (simp_all add: ndrpdr.simps [of meas clock cfg st w])
qed

section \<open>Properties of the search\<close>

lemma narrow_down_ndr_and_pdr_returns:
  assumes "trials_take_time meas clock T"
    and "0 < initial_trial_duration cfg" and "0 < final_trial_duration cfg"
  shows "\<exists>r w'. narrow_down_ndr_and_pdr meas clock cfg mn mx plr w = Some (r, w')"
proof -
  have "\<exists>r. ndrpdr meas clock cfg (ProgressState res ph (final_trial_duration cfg) g plr mn mx) v
      = Some r" for res ph g v
    using assms by (intro ndrpdr_returns) (auto simp: ProgressState_def)
  then have "ndrpdr meas clock cfg (ProgressState res ph (final_trial_duration cfg) g plr mn mx) v
      \<noteq> None" for res ph g v
    by (metis option.distinct(1))
  then show ?thesis
    by (simp add: narrow_down_ndr_and_pdr_def split: prod.splits sum.splits) fastforce
qed

text \<open>
  C2. Whatever the measurements say, the search returns (a result or an exception) as
  soon as trials take at least their duration: the timeout of each phase ends its loop. The
  hypotheses are positive trial durations and the documented behaviour of clock and trials.
\<close>

theorem narrow_down_returns:
  assumes "trials_take_time meas clock T"
    and "0 < initial_trial_duration cfg" and "0 < final_trial_duration cfg"
  shows "\<exists>r w'. narrow_down_ndr_and_pdr meas clock cfg mn mx plr w = Some (r, w')"
  using narrow_down_ndr_and_pdr_returns [OF assms] .

text \<open>
  A measurer without loss, in a world that is just the time.
\<close>

definition lossless :: "real measurer" where
  "lossless w d r = (ReceiveRateMeasurement d r 1000 0, w + d)"

definition wall_clock :: "real clock" where
  "wall_clock w = (w, w)"

definition default_config :: mlr_config where
  "default_config = \<lparr>final_trial_duration = 30, final_relative_width = 0.005,
     number_of_intermediate_phases = 2, initial_trial_duration = 1, timeout = 600, doublings = 1\<rparr>"

lemma lossless_takes_time: "trials_take_time lossless wall_clock (\<lambda>w. w)"
  by (auto simp: trials_take_time_def lossless_def wall_clock_def)

theorem narrow_down_returns_witness:
  "trials_take_time lossless wall_clock (\<lambda>w. w) \<and>
   (\<exists>r w'. narrow_down_ndr_and_pdr lossless wall_clock default_config 1000 50000 0.005 0
      = Some (r, w'))"
  using narrow_down_returns [OF lossless_takes_time] lossless_takes_time
  by (simp add: default_config_def)

text \<open>
  The comment at \<open>double_relative_width\<close>: half of a doubled width is not larger than
  the original width (and halving never leaves the domain of the square root).
\<close>

theorem half_of_double_width:
  assumes "0 \<le> w" and "w < 1"
  shows "\<exists>h. half_relative_width (double_relative_width w) = Inr h \<and> 0 \<le> h \<and> h \<le> w"
proof -
  let ?x = "1 - double_relative_width w"
  have x: "0 < ?x" "?x \<le> 1" using double_relative_width_bounds [OF assms] by auto
  have "(1 - w)\<^sup>2 \<le> ?x"
    using assms by (simp add: double_relative_width_def power2_eq_square algebra_simps)
  then have "1 - w \<le> sqrt ?x" by (rule real_le_rsqrt)
  moreover have "sqrt ?x \<le> 1" using x by simp
  ultimately show ?thesis using x by (simp add: half_relative_width_def)
qed

theorem half_of_double_width_witness:
  "\<exists>h. half_relative_width (double_relative_width 0.005) = Inr h \<and> 0 \<le> h \<and> h \<le> 0.005"
  by (rule half_of_double_width) simp_all

text \<open>
  Internal search. If both bounds of an interval are valid for the loss ratio and a
  trial at the rate \<open>half_step_up\<close> chooses is taken into account, the new interval is nested in
  the old one, both its bounds are valid again, and its logarithmic width is half the old one.
\<close>

theorem bisection_halves:
  assumes wf: "interval_wf i" and pos: "0 < lo_tr i" and proper: "lo_tr i < hi_tr i"
    and lo: "loss_fraction (measured_low i) \<le> ratio"
    and hi: "ratio < loss_fraction (measured_high i)"
    and m: "half_step_up (rel_tr_width i) (lo_tr i) = Inr (target_tr m)"
  shows "\<exists>i'. new_interval i m ratio = Inr i' \<and> interval_wf i' \<and>
    lo_tr i \<le> lo_tr i' \<and> hi_tr i' \<le> hi_tr i \<and>
    loss_fraction (measured_low i') \<le> ratio \<and> ratio < loss_fraction (measured_high i') \<and>
    ln (1 - rel_tr_width i') = ln (1 - rel_tr_width i) / 2"
proof -
  let ?a = "lo_tr i" and ?b = "hi_tr i" and ?t = "target_tr m"
  have b: "0 < ?b" using pos proper by simp
  have t: "?t = sqrt (?a * ?b)" using m half_step_up_geometric_mean [OF wf pos] by simp
  have between: "?a < ?t" "?t < ?b"
    using pos proper by (simp_all add: t real_less_rsqrt real_less_lsqrt power2_eq_square)
  have lt: "ln ?t = (ln ?a + ln ?b) / 2" using pos b by (simp add: t ln_sqrt ln_mult)
  define lo' hi' where "lo' = (if loss_fraction m > ratio then measured_low i else m)"
    and "hi' = (if loss_fraction m > ratio then m else measured_high i)"
  have new: "new_interval i m ratio = ReceiveRateInterval lo' hi'"
    using between lo by (simp add: new_interval_def Let_def lo'_def hi'_def)
  have tr: "0 < target_tr lo'" "target_tr lo' \<le> target_tr hi'" "0 < target_tr hi'"
    using between pos b by (auto simp: lo'_def hi'_def)
  obtain i' where i': "ReceiveRateInterval lo' hi' = Inr i'"
    using ReceiveRateInterval_total tr by blast
  have m': "measured_low i' = lo'" "measured_high i' = hi'"
    using ReceiveRateInterval_sorted [OF i' tr(2)] by auto
  have wf': "interval_wf i'" using ReceiveRateInterval_Inr [OF i'] by blast
  have "ln (1 - rel_tr_width j) = ln (lo_tr j) - ln (hi_tr j)"
    if "interval_wf j" "0 < lo_tr j" "0 < hi_tr j" for j
    using that by (simp add: interval_rel_width ln_div)
  from this [OF wf pos b] this [OF wf'] tr lt show ?thesis
    using new i' wf' between lo hi by (auto simp: m' lo'_def hi'_def field_simps split: if_splits)
qed

text \<open>A trial of one second with a given target rate, packet count and loss.\<close>

definition sample :: "real \<Rightarrow> int \<Rightarrow> int \<Rightarrow> measurement" where
  "sample tr tx loss = \<lparr>duration = 1, target_tr = tr, transmit_count = tx, loss_count = loss,
     receive_count = tx - loss, transmit_rate = of_int tx, loss_rate = of_int loss,
     receive_rate = of_int (tx - loss), loss_fraction = of_int loss / of_int tx\<rparr>"

definition sample_interval :: interval where
  "sample_interval = \<lparr>measured_low = sample 1000 1000 0, measured_high = sample 4000 4000 400,
     abs_tr_width = 3000, rel_tr_width = 3 / 4\<rparr>"

theorem bisection_halves_witness:
  "half_step_up (rel_tr_width sample_interval) (lo_tr sample_interval) = Inr 2000 \<and>
   (\<exists>i'. new_interval sample_interval (sample 2000 2000 100) 0 = Inr i' \<and> interval_wf i' \<and>
    lo_tr sample_interval \<le> lo_tr i' \<and> hi_tr i' \<le> hi_tr sample_interval \<and>
    loss_fraction (measured_low i') \<le> 0 \<and> 0 < loss_fraction (measured_high i') \<and>
    ln (1 - rel_tr_width i') = ln (1 - rel_tr_width sample_interval) / 2)"
proof -
  have h: "half_step_up (rel_tr_width sample_interval) (lo_tr sample_interval) = Inr 2000"
    by (simp add: half_step_up_def half_relative_width_def sample_interval_def sample_def
        real_sqrt_divide)
  show ?thesis
    using bisection_halves [of sample_interval 0 "sample 2000 2000 100"] h
    by (simp add: sample_interval_def sample_def interval_wf_def)
qed

end
