(* ===== verification/DropRateSearch.thy ===== *)
theory DropRateSearch
  imports Prelude
begin

text \<open>
  \<open>DropRateSearch.py\<close>: linear, binary and combined search for the highest rate with an
  acceptable loss. The object is a record; the abstract method \<open>measure_loss\<close> is an argument
  of the searches and acts on a world \<open>'w\<close>. A search returns the exception or success, the
  updated object and the world, and \<open>None\<close> when it does not return (a non-positive step or
  threshold makes the loops infinite; Python's recursion limit is not modelled).
\<close>

section \<open>Enumerations and the object\<close>

datatype search_direction = TOP_DOWN | BOTTOM_UP
datatype search_results = SUCCESS | FAILURE | SUSPICIOUS
datatype rate_type = RATE_PERCENTAGE | PACKETS_PER_SECOND | BITS_PER_SECOND
datatype loss_acceptance_type = FRAMES | LOSS_PERCENTAGE
datatype search_result_type = BEST_OF_N | WORST_OF_N

record drop_rate_search =
  dr_duration :: int
  rate_start :: real
  rate_linear_step :: real
  last_binary_rate :: real
  search_linear_direction :: search_direction
  rate_max :: real
  rate_min :: real
  rate_type_of :: rate_type
  loss_acceptance :: real
  loss_acceptance_type_of :: loss_acceptance_type
  frame_size :: string
  binary_convergence_threshold :: real
  max_attempts :: int
  search_result_type_of :: search_result_type
  search_result :: "search_results option"
  search_result_rate :: "real option"

definition DropRateSearch_init :: drop_rate_search where
  "DropRateSearch_init =
     \<lparr>dr_duration = 60, rate_start = 100, rate_linear_step = 10, last_binary_rate = 0,
      search_linear_direction = TOP_DOWN, rate_max = 100, rate_min = 1,
      rate_type_of = RATE_PERCENTAGE, loss_acceptance = 0, loss_acceptance_type_of = FRAMES,
      frame_size = ''64'', binary_convergence_threshold = 5000, max_attempts = 1,
      search_result_type_of = BEST_OF_N, search_result = None, search_result_rate = None\<rparr>"

section \<open>Configuration\<close>

definition set_search_rate_boundaries ::
    "drop_rate_search \<Rightarrow> real \<Rightarrow> real \<Rightarrow> drop_rate_search res" where
  "set_search_rate_boundaries ds max_rate min_rate =
     (if min_rate \<le> 0 then Inl (ValueError ''min_rate must be higher than 0'')
      else if min_rate > max_rate then Inl (ValueError ''min_rate must be lower than max_rate'')
      else Inr (ds\<lparr>rate_max := max_rate, rate_min := min_rate\<rparr>))"

definition set_loss_acceptance :: "drop_rate_search \<Rightarrow> real \<Rightarrow> drop_rate_search res" where
  "set_loss_acceptance ds la =
     (if la \<ge> 0 then Inr (ds\<lparr>loss_acceptance := la\<rparr>)
      else Inl (ValueError ''Loss acceptance must be higher or equal 0''))"

definition get_loss_acceptance :: "drop_rate_search \<Rightarrow> real" where
  "get_loss_acceptance ds = loss_acceptance ds"

definition set_loss_acceptance_type_percentage :: "drop_rate_search \<Rightarrow> drop_rate_search" where
  "set_loss_acceptance_type_percentage ds = ds\<lparr>loss_acceptance_type_of := LOSS_PERCENTAGE\<rparr>"

definition set_loss_acceptance_type_frames :: "drop_rate_search \<Rightarrow> drop_rate_search" where
  "set_loss_acceptance_type_frames ds = ds\<lparr>loss_acceptance_type_of := FRAMES\<rparr>"

definition loss_acceptance_type_is_percentage :: "drop_rate_search \<Rightarrow> bool" where
  "loss_acceptance_type_is_percentage ds \<longleftrightarrow> loss_acceptance_type_of ds = LOSS_PERCENTAGE"

definition set_search_linear_step :: "drop_rate_search \<Rightarrow> real \<Rightarrow> drop_rate_search" where
  "set_search_linear_step ds step = ds\<lparr>rate_linear_step := step\<rparr>"

definition set_search_rate_type :: "drop_rate_search \<Rightarrow> rate_type \<Rightarrow> drop_rate_search" where
  "set_search_rate_type ds t = ds\<lparr>rate_type_of := t\<rparr>"

definition set_search_rate_type_percentage :: "drop_rate_search \<Rightarrow> drop_rate_search" where
  "set_search_rate_type_percentage ds = set_search_rate_type ds RATE_PERCENTAGE"

definition set_search_rate_type_bps :: "drop_rate_search \<Rightarrow> drop_rate_search" where
  "set_search_rate_type_bps ds = set_search_rate_type ds BITS_PER_SECOND"

definition set_search_rate_type_pps :: "drop_rate_search \<Rightarrow> drop_rate_search" where
  "set_search_rate_type_pps ds = set_search_rate_type ds PACKETS_PER_SECOND"

definition set_search_frame_size :: "drop_rate_search \<Rightarrow> string \<Rightarrow> drop_rate_search" where
  "set_search_frame_size ds size' = ds\<lparr>frame_size := size'\<rparr>"

definition set_duration :: "drop_rate_search \<Rightarrow> int \<Rightarrow> drop_rate_search" where
  "set_duration ds d = ds\<lparr>dr_duration := d\<rparr>"

definition get_duration :: "drop_rate_search \<Rightarrow> int" where
  "get_duration ds = dr_duration ds"

definition set_binary_convergence_threshold :: "drop_rate_search \<Rightarrow> real \<Rightarrow> drop_rate_search" where
  "set_binary_convergence_threshold ds c = ds\<lparr>binary_convergence_threshold := c\<rparr>"

definition get_binary_convergence_threshold :: "drop_rate_search \<Rightarrow> real" where
  "get_binary_convergence_threshold ds = binary_convergence_threshold ds"

definition get_rate_type_str :: "drop_rate_search \<Rightarrow> string" where
  "get_rate_type_str ds =
     (case rate_type_of ds of
        RATE_PERCENTAGE \<Rightarrow> ''%'' | BITS_PER_SECOND \<Rightarrow> ''bps'' | PACKETS_PER_SECOND \<Rightarrow> ''pps'')"

definition set_max_attempts :: "drop_rate_search \<Rightarrow> int \<Rightarrow> drop_rate_search res" where
  "set_max_attempts ds n =
     (if n > 0 then Inr (ds\<lparr>max_attempts := n\<rparr>)
      else Inl (ValueError ''Max attempt must by greater than zero''))"

definition get_max_attempts :: "drop_rate_search \<Rightarrow> int" where
  "get_max_attempts ds = max_attempts ds"

definition set_search_result_type :: "drop_rate_search \<Rightarrow> search_result_type \<Rightarrow> drop_rate_search" where
  "set_search_result_type ds t = ds\<lparr>search_result_type_of := t\<rparr>"

definition set_search_result_type_best_of_n :: "drop_rate_search \<Rightarrow> drop_rate_search" where
  "set_search_result_type_best_of_n ds = set_search_result_type ds BEST_OF_N"

definition set_search_result_type_worst_of_n :: "drop_rate_search \<Rightarrow> drop_rate_search" where
  "set_search_result_type_worst_of_n ds = set_search_result_type ds WORST_OF_N"

definition get_best_of_n :: "bool list \<Rightarrow> bool" where
  "get_best_of_n res_list = list_ex id res_list"

definition get_worst_of_n :: "bool list \<Rightarrow> bool" where
  "get_worst_of_n res_list = list_all id res_list"

definition get_res_based_on_search_type :: "drop_rate_search \<Rightarrow> bool list \<Rightarrow> bool" where
  "get_res_based_on_search_type ds res_list =
     (case search_result_type_of ds of
        BEST_OF_N \<Rightarrow> get_best_of_n res_list | WORST_OF_N \<Rightarrow> get_worst_of_n res_list)"

section \<open>Searches\<close>

type_synonym 'w loss_meter =
  "drop_rate_search \<Rightarrow> real \<Rightarrow> string \<Rightarrow> real \<Rightarrow> loss_acceptance_type \<Rightarrow> string \<Rightarrow> bool \<Rightarrow>
   'w \<Rightarrow> bool res \<times> 'w"

type_synonym 'w search_outcome = "unit res \<times> drop_rate_search \<times> 'w"

fun attempts :: "nat \<Rightarrow> ('w \<Rightarrow> bool res \<times> 'w) \<Rightarrow> 'w \<Rightarrow> bool list res \<times> 'w" where
  "attempts 0 f w = (Inr [], w)"
| "attempts (Suc n) f w =
     (case f w of
        (Inl e, w1) \<Rightarrow> (Inl e, w1)
      | (Inr b, w1) \<Rightarrow>
          (case attempts n f w1 of
             (Inl e, w2) \<Rightarrow> (Inl e, w2)
           | (Inr bs, w2) \<Rightarrow> (Inr (b # bs), w2)))"

text \<open>The trials of one rate step and their evaluation.\<close>

definition rate_step ::
    "'w loss_meter \<Rightarrow> drop_rate_search \<Rightarrow> string \<Rightarrow> bool \<Rightarrow> real \<Rightarrow> 'w \<Rightarrow> bool res \<times> 'w" where
  "rate_step measure_loss ds profile skip_warmup rate w =
     (case attempts (nat (max_attempts ds))
             (measure_loss ds rate (frame_size ds) (loss_acceptance ds)
                (loss_acceptance_type_of ds) profile skip_warmup) w of
        (Inl e, w') \<Rightarrow> (Inl e, w')
      | (Inr bs, w') \<Rightarrow> (Inr (get_res_based_on_search_type ds bs), w'))"

partial_function (option) linear_loop ::
    "'w loss_meter \<Rightarrow> drop_rate_search \<Rightarrow> string \<Rightarrow> real \<Rightarrow> 'w \<Rightarrow> 'w search_outcome option" where
  "linear_loop measure_loss ds profile rate w =
     (case rate_step measure_loss ds profile False rate w of
        (Inl e, w1) \<Rightarrow> Some (Inl e, ds, w1)
      | (Inr accepted, w1) \<Rightarrow>
          if search_linear_direction ds = TOP_DOWN then
            (if \<not> accepted then
               (if rate - rate_linear_step ds < rate_min ds then
                  (if rate \<noteq> rate_min ds then linear_loop measure_loss ds profile (rate_min ds) w1
                   else Some (Inr (),
                     ds\<lparr>search_result := Some FAILURE, search_result_rate := None\<rparr>, w1))
                else linear_loop measure_loss ds profile (rate - rate_linear_step ds) w1)
             else Some (Inr (),
               ds\<lparr>search_result := Some SUCCESS, search_result_rate := Some rate\<rparr>, w1))
          else Some (Inl (PyException ''Unknown search direction''), ds, w1))"

definition linear_search ::
    "'w loss_meter \<Rightarrow> drop_rate_search \<Rightarrow> real \<Rightarrow> string \<Rightarrow> 'w \<Rightarrow> 'w search_outcome option" where
  "linear_search measure_loss ds start_rate profile w =
     (if \<not> (rate_min ds \<le> start_rate \<and> start_rate \<le> rate_max ds)
      then Some (Inl (ValueError ''Start rate is not in min,max range''), ds, w)
      else linear_loop measure_loss ds profile start_rate w)"

definition verify_search_result ::
    "('w \<Rightarrow> 'l) \<Rightarrow> drop_rate_search \<Rightarrow> 'w \<Rightarrow> (real option \<times> 'l) res" where
  "verify_search_result get_latency ds w =
     (if search_result ds \<in> {Some SUCCESS, Some SUSPICIOUS}
      then Inr (search_result_rate ds, get_latency w)
      else Inl (PyException ''Search FAILED''))"

text \<open>Truth value of \<^verbatim>\<open>self._search_result_rate\<close>: neither \<open>None\<close> nor zero.\<close>

definition rate_truthy :: "real option \<Rightarrow> bool" where
  "rate_truthy r = (case r of None \<Rightarrow> False | Some x \<Rightarrow> x \<noteq> 0)"

text \<open>The range checks, the rate to try and the convergence exit of \<open>binary_search\<close>.\<close>

definition binary_range_check :: "drop_rate_search \<Rightarrow> real \<Rightarrow> real \<Rightarrow> py_error option" where
  "binary_range_check ds b_min b_max =
     (if \<not> (rate_min ds \<le> b_min \<and> b_min \<le> rate_max ds)
      then Some (ValueError ''Min rate is not in min,max range'')
      else if \<not> (rate_min ds \<le> b_max \<and> b_max \<le> rate_max ds)
      then Some (ValueError ''Max rate is not in min,max range'')
      else if b_max < b_min then Some (ValueError ''Min rate is greater than max rate'')
      else None)"

definition binary_rate :: "real \<Rightarrow> real \<Rightarrow> bool \<Rightarrow> real" where
  "binary_rate b_min b_max skip_max_rate =
     (if skip_max_rate then (b_max - b_min) / 2 + b_min else b_max)"

definition binary_converged :: "drop_rate_search \<Rightarrow> drop_rate_search" where
  "binary_converged ds =
     ds\<lparr>search_result :=
          Some (if rate_truthy (search_result_rate ds) then SUCCESS else FAILURE)\<rparr>"

partial_function (option) binary_search ::
    "'w loss_meter \<Rightarrow> drop_rate_search \<Rightarrow> real \<Rightarrow> real \<Rightarrow> string \<Rightarrow> bool \<Rightarrow> bool \<Rightarrow> 'w \<Rightarrow>
     'w search_outcome option" where
  "binary_search measure_loss ds b_min b_max profile skip_max_rate skip_warmup w =
     (case binary_range_check ds b_min b_max of
        Some e \<Rightarrow> Some (Inl e, ds, w)
      | None \<Rightarrow>
        (let rate = binary_rate b_min b_max skip_max_rate
         in if \<bar>last_binary_rate ds - rate\<bar> < binary_convergence_threshold ds
            then Some (Inr (), binary_converged ds, w)
            else
              (case rate_step measure_loss (ds\<lparr>last_binary_rate := rate\<rparr>) profile skip_warmup rate w of
                 (Inl e, w1) \<Rightarrow> Some (Inl e, ds\<lparr>last_binary_rate := rate\<rparr>, w1)
               | (Inr accepted, w1) \<Rightarrow>
                   if \<not> accepted
                   then binary_search measure_loss (ds\<lparr>last_binary_rate := rate\<rparr>) b_min rate
                          profile True True w1
                   else binary_search measure_loss
                          (ds\<lparr>last_binary_rate := rate, search_result_rate := Some rate\<rparr>)
                          rate b_max profile True True w1)))"

definition floats_are_close_equal :: "real \<Rightarrow> real \<Rightarrow> real \<Rightarrow> real \<Rightarrow> bool res" where
  "floats_are_close_equal num_a num_b rel_tol abs_tol =
     (if num_a = num_b then Inr True
      else if rel_tol < 0 \<or> abs_tol < 0
      then Inl (ValueError ''Error tolerances must be non-negative'')
      else Inr (\<bar>num_b - num_a\<bar> \<le> max (rel_tol * max \<bar>num_a\<bar> \<bar>num_b\<bar>) abs_tol))"

text \<open>
  \<open>combined_search\<close> after a successful linear search that found \<open>r\<close>.
\<close>

definition refine_linear ::
    "'w loss_meter \<Rightarrow> drop_rate_search \<Rightarrow> real \<Rightarrow> string \<Rightarrow> 'w \<Rightarrow> 'w search_outcome option" where
  "refine_linear measure_loss ds r profile w =
     (case floats_are_close_equal r (rate_max ds) (1 / 10 ^ 9) 0 of
        Inl e \<Rightarrow> Some (Inl e, ds, w)
      | Inr True \<Rightarrow> Some (Inr (), ds, w)
      | Inr False \<Rightarrow>
          (let b_max = (if r + rate_linear_step ds > rate_max ds then rate_max ds
                        else r + rate_linear_step ds)
           in case binary_search measure_loss (ds\<lparr>search_result_rate := None\<rparr>) r b_max profile
                     True False w of
                None \<Rightarrow> None
              | Some (Inl e, ds1, w1) \<Rightarrow> Some (Inl e, ds1, w1)
              | Some (Inr u, ds1, w1) \<Rightarrow>
                  if search_result ds1 \<noteq> Some SUCCESS
                  then Some (Inr (), ds1\<lparr>search_result := Some SUSPICIOUS,
                                         search_result_rate := Some r\<rparr>, w1)
                  else Some (Inr (), ds1, w1)))"

definition combined_search ::
    "'w loss_meter \<Rightarrow> drop_rate_search \<Rightarrow> real \<Rightarrow> string \<Rightarrow> 'w \<Rightarrow> 'w search_outcome option" where
  "combined_search measure_loss ds start_rate profile w =
     (case linear_search measure_loss ds start_rate profile w of
        None \<Rightarrow> None
      | Some (Inl e, ds1, w1) \<Rightarrow> Some (Inl e, ds1, w1)
      | Some (Inr u, ds1, w1) \<Rightarrow>
          if search_result ds1 \<in> {Some SUCCESS, Some SUSPICIOUS} then
            (case search_result_rate ds1 of
               None \<Rightarrow> Some (Inl (TypeError ''unsupported operand type''), ds1, w1)
             | Some r \<Rightarrow> refine_linear measure_loss ds1 r profile w1)
          else Some (Inl (RuntimeError ''Linear search FAILED''), ds1, w1))"

section \<open>The searches return\<close>

lemma linear_loop_at_min:
  assumes "0 < rate_linear_step ds"
  shows "\<exists>r. linear_loop ml ds profile (rate_min ds) w = Some r"
  using assms
  by (auto simp: linear_loop.simps [of ml ds profile "rate_min ds" w] split: prod.splits sum.splits)

lemma linear_loop_returns_within:
  assumes "0 < rate_linear_step ds" and "rate < rate_min ds + of_nat n * rate_linear_step ds"
  shows "\<exists>r. linear_loop ml ds profile rate w = Some r"
  using assms(2)
proof (induction n arbitrary: rate w)
  case 0
  then show ?case
    using linear_loop_at_min [OF assms(1)] assms(1)
    by (auto simp: linear_loop.simps [of ml ds profile rate w] split: prod.splits sum.splits)
next
  case (Suc n)
  then have "rate - rate_linear_step ds < rate_min ds + of_nat n * rate_linear_step ds"
    by (simp add: algebra_simps)
  from Suc.IH [OF this] linear_loop_at_min [OF assms(1)] show ?case
    by (auto simp: linear_loop.simps [of ml ds profile rate w] split: prod.splits sum.splits)
qed

lemma linear_search_returns:
  assumes "0 < rate_linear_step ds"
  shows "\<exists>r. linear_search ml ds start profile w = Some r"
proof -
  obtain n where "start - rate_min ds < of_nat n * rate_linear_step ds"
    using ex_less_of_nat_mult assms by blast
  then have "start < rate_min ds + of_nat n * rate_linear_step ds" by simp
  from linear_loop_returns_within [OF assms this, of ml profile w] show ?thesis
    by (simp add: linear_search_def del: split_paired_Ex)
qed

lemma binary_range_check_ok:
  "binary_range_check ds b_min b_max = None \<longleftrightarrow>
     rate_min ds \<le> b_min \<and> b_min \<le> b_max \<and> b_max \<le> rate_max ds"
  by (auto simp: binary_range_check_def)

lemma binary_range_check_frame:
  "rate_min ds \<le> b_min \<Longrightarrow> b_min \<le> b_max \<Longrightarrow> b_max \<le> rate_max ds \<Longrightarrow>
     binary_range_check (ds\<lparr>last_binary_rate := x\<rparr>) b_min b_max = None"
  "rate_min ds \<le> b_min \<Longrightarrow> b_min \<le> b_max \<Longrightarrow> b_max \<le> rate_max ds \<Longrightarrow>
     binary_range_check (ds\<lparr>last_binary_rate := x, search_result_rate := y\<rparr>) b_min b_max = None"
  by (auto simp: binary_range_check_def)

lemma binary_rate_between:
  "b_min \<le> b_max \<Longrightarrow> b_min \<le> binary_rate b_min b_max skip \<and> binary_rate b_min b_max skip \<le> b_max"
  by (simp add: binary_rate_def field_simps)

lemma binary_search_step_returns:
  assumes "\<And>ds' w1. last_binary_rate ds' = binary_rate b_min b_max skip \<Longrightarrow>
      binary_convergence_threshold ds' = binary_convergence_threshold ds \<Longrightarrow>
      binary_search ml ds' b_min (binary_rate b_min b_max skip) profile True True w1 \<noteq> None \<and>
      binary_search ml ds' (binary_rate b_min b_max skip) b_max profile True True w1 \<noteq> None"
  shows "binary_search ml ds b_min b_max profile skip sw w \<noteq> None"
  using assms
  by (subst binary_search.simps)
     (simp add: Let_def del: not_None_eq split: option.split prod.split sum.split)

lemma binary_search_returns_within:
  assumes "last_binary_rate ds \<in> {b_min, b_max}" and "0 < binary_convergence_threshold ds"
    and "(b_max - b_min) / 2 < binary_convergence_threshold ds * 2 ^ n"
  shows "binary_search ml ds b_min b_max profile True sw w \<noteq> None"
  using assms
proof (induction n arbitrary: ds b_min b_max sw w)
  case 0
  then have "\<bar>last_binary_rate ds - binary_rate b_min b_max True\<bar> <
      binary_convergence_threshold ds \<or> b_max < b_min"
    by (auto simp: binary_rate_def abs_if field_simps)
  then show ?case
    by (subst binary_search.simps)
       (auto simp: Let_def binary_range_check_ok split: option.split)
next
  case (Suc n)
  then show ?case
    by - (rule binary_search_step_returns, intro conjI Suc.IH,
        auto simp: binary_rate_def field_simps)
qed

lemma binary_search_returns_aligned:
  assumes "last_binary_rate ds \<in> {b_min, b_max}" and "0 < binary_convergence_threshold ds"
  shows "binary_search ml ds b_min b_max profile True sw w \<noteq> None"
proof -
  obtain n where "(b_max - b_min) / 2 / binary_convergence_threshold ds < 2 ^ n"
    using real_arch_pow [of 2] by auto
  then have "(b_max - b_min) / 2 < binary_convergence_threshold ds * 2 ^ n"
    using assms(2) by (simp add: field_simps)
  from binary_search_returns_within [OF assms this] show ?thesis .
qed

lemma binary_search_returns:
  assumes "0 < binary_convergence_threshold ds"
  shows "binary_search ml ds b_min b_max profile skip_max sw w \<noteq> None"
  using assms
  by - (rule binary_search_step_returns, intro conjI binary_search_returns_aligned, auto)

section \<open>What the searches find\<close>

text \<open>The trials of some step at the rate gave the verdict, or raised.\<close>

definition judged :: "'w loss_meter \<Rightarrow> drop_rate_search \<Rightarrow> string \<Rightarrow> bool res \<Rightarrow> real \<Rightarrow> bool" where
  "judged ml ds profile verdict rate \<longleftrightarrow>
     (\<exists>ds' sw v v'. frame_size ds' = frame_size ds \<and> loss_acceptance ds' = loss_acceptance ds \<and>
        loss_acceptance_type_of ds' = loss_acceptance_type_of ds \<and>
        max_attempts ds' = max_attempts ds \<and>
        search_result_type_of ds' = search_result_type_of ds \<and>
        rate_step ml ds' profile sw rate v = (verdict, v'))"

lemma judgedI: "rate_step ml ds profile sw rate v = (verdict, v') \<Longrightarrow> judged ml ds profile verdict rate"
  unfolding judged_def by blast

lemma judged_frame:
  "judged ml (ds\<lparr>last_binary_rate := x\<rparr>) = judged ml ds"
  "judged ml (ds\<lparr>search_result_rate := y\<rparr>) = judged ml ds"
  "judged ml (ds\<lparr>search_result := z\<rparr>) = judged ml ds"
  by (simp_all add: judged_def fun_eq_iff)

definition succeeded :: "drop_rate_search \<Rightarrow> real \<Rightarrow> drop_rate_search" where
  "succeeded ds x = ds\<lparr>search_result := Some SUCCESS, search_result_rate := Some x\<rparr>"

definition linear_post ::
    "'w loss_meter \<Rightarrow> drop_rate_search \<Rightarrow> string \<Rightarrow> real \<Rightarrow> 'w search_outcome \<Rightarrow> bool" where
  "linear_post ml ds profile rate out \<longleftrightarrow>
     (case out of (r, ds', w') \<Rightarrow>
        (r = Inr () \<longrightarrow>
           (\<exists>x. ds' = succeeded ds x \<and>
                rate_min ds \<le> x \<and> x \<le> rate \<and> judged ml ds profile (Inr True) x) \<or>
           ds' = ds\<lparr>search_result := Some FAILURE, search_result_rate := None\<rparr> \<and>
             judged ml ds profile (Inr False) (rate_min ds)) \<and>
        (\<forall>e. r = Inl e \<longrightarrow> ds' = ds \<and>
           (e = PyException ''Unknown search direction'' \<and> search_linear_direction ds \<noteq> TOP_DOWN \<or>
            (\<exists>x. rate_min ds \<le> x \<and> x \<le> rate \<and> judged ml ds profile (Inl e) x))))"

lemma linear_post_returned:
  assumes "linear_post ml ds profile rate (Inr u, ds', w')"
  shows "(\<exists>x. ds' = succeeded ds x \<and>
        rate_min ds \<le> x \<and> x \<le> rate \<and> judged ml ds profile (Inr True) x) \<or>
      search_result ds' = Some FAILURE \<and> judged ml ds profile (Inr False) (rate_min ds)"
proof -
  have "u = ()" by simp
  with assms show ?thesis unfolding linear_post_def by auto
qed

lemma linear_post_mono:
  "linear_post ml ds profile rate' out \<Longrightarrow> rate' \<le> rate \<Longrightarrow> linear_post ml ds profile rate out"
proof -
  assume post: "linear_post ml ds profile rate' out" and le: "rate' \<le> rate"
  obtain r ds' w' where out: "out = (r, ds', w')" by (cases out)
  show ?thesis
  proof (cases r)
    case (Inl e)
    with post out le show ?thesis
      by (simp add: linear_post_def) (meson order_trans)
  next
    case (Inr u)
    with post out le show ?thesis
      by (simp add: linear_post_def) (elim disjE exE conjE; auto)
  qed
qed

lemma linear_loop_post:
  assumes "linear_loop ml ds profile rate w = Some out"
    and "0 \<le> rate_linear_step ds" and "rate_min ds \<le> rate"
  shows "linear_post ml ds profile rate out"
proof -
  have "0 \<le> rate_linear_step ds \<longrightarrow> rate_min ds \<le> rate \<longrightarrow> linear_post ml ds profile rate out"
  proof (rule linear_loop.raw_induct [where P = "\<lambda>ml ds profile rate w out.
        0 \<le> rate_linear_step ds \<longrightarrow> rate_min ds \<le> rate \<longrightarrow> linear_post ml ds profile rate out",
        OF _ assms(1)], intro impI)
    fix loop ml ds profile rate w out
    assume IH: "\<And>ml ds profile rate w out. loop ml ds profile rate w = Some out \<Longrightarrow>
        0 \<le> rate_linear_step ds \<longrightarrow> rate_min ds \<le> rate \<longrightarrow> linear_post ml ds profile rate out"
      and eq: "(case rate_step ml ds profile False rate w of
          (Inl e, w1) \<Rightarrow> Some (Inl e, ds, w1)
        | (Inr accepted, w1) \<Rightarrow>
            if search_linear_direction ds = TOP_DOWN then
              (if \<not> accepted then
                 (if rate - rate_linear_step ds < rate_min ds then
                    (if rate \<noteq> rate_min ds then loop ml ds profile (rate_min ds) w1
                     else Some (Inr (),
                       ds\<lparr>search_result := Some FAILURE, search_result_rate := None\<rparr>, w1))
                  else loop ml ds profile (rate - rate_linear_step ds) w1)
               else Some (Inr (),
                 ds\<lparr>search_result := Some SUCCESS, search_result_rate := Some rate\<rparr>, w1))
            else Some (Inl (PyException ''Unknown search direction''), ds, w1)) = Some out"
      and step: "0 \<le> rate_linear_step ds" and rate: "rate_min ds \<le> rate"
    obtain v w1 where v: "rate_step ml ds profile False rate w = (v, w1)"
      by (cases "rate_step ml ds profile False rate w")
    consider (err) e where "v = Inl e" | (yes) "v = Inr True" | (no) "v = Inr False"
      by (cases v) auto
    then show "linear_post ml ds profile rate out"
    proof cases
      case err
      with v have "judged ml ds profile (Inl e) rate" by (auto intro: judgedI)
      with eq v err rate show ?thesis by (auto simp: linear_post_def)
    next
      case yes
      with v have "judged ml ds profile (Inr True) rate" by (auto intro: judgedI)
      with eq v yes rate show ?thesis
        by (auto simp: linear_post_def succeeded_def [symmetric] split: if_splits)
    next
      case no
      with v have j: "judged ml ds profile (Inr False) rate" by (auto intro: judgedI)
      have again: "linear_post ml ds profile rate out" if "loop ml ds profile r w1 = Some out"
        "rate_min ds \<le> r" "r \<le> rate" for r
        using IH [OF that(1)] that step by (auto intro: linear_post_mono)
      show ?thesis
        using eq v no j rate step again
        by (auto simp: linear_post_def split: if_splits)
    qed
  qed
  with assms show ?thesis by blast
qed

definition binary_frame :: "drop_rate_search \<Rightarrow> drop_rate_search \<Rightarrow> bool" where
  "binary_frame ds ds' \<longleftrightarrow>
     ds'\<lparr>last_binary_rate := 0, search_result := None, search_result_rate := None\<rparr> =
     ds\<lparr>last_binary_rate := 0, search_result := None, search_result_rate := None\<rparr>"

definition binary_post ::
    "'w loss_meter \<Rightarrow> drop_rate_search \<Rightarrow> string \<Rightarrow> real \<Rightarrow> real \<Rightarrow> 'w search_outcome \<Rightarrow> bool" where
  "binary_post ml ds profile b_min b_max out \<longleftrightarrow>
     (case out of (r, ds', w') \<Rightarrow>
        binary_frame ds ds' \<and>
        (search_result_rate ds' = search_result_rate ds \<or>
         (\<exists>x. search_result_rate ds' = Some x \<and> b_min \<le> x \<and> x \<le> b_max \<and>
              judged ml ds profile (Inr True) x)) \<and>
        (r = Inr () \<longrightarrow>
           search_result ds' =
             Some (if rate_truthy (search_result_rate ds') then SUCCESS else FAILURE)) \<and>
        (\<forall>e. r = Inl e \<longrightarrow> binary_range_check ds b_min b_max = Some e \<or>
           (\<exists>x. b_min \<le> x \<and> x \<le> b_max \<and> judged ml ds profile (Inl e) x)))"

text \<open>Induction over the run of a binary search, one case per way through its body.\<close>

lemma binary_search_induct:
  assumes ret: "binary_search ml ds b_min b_max profile skip_max sw w = Some out"
    and range: "\<And>ds b_min b_max skip sw w e.
      binary_range_check ds b_min b_max = Some e \<Longrightarrow> P ds b_min b_max skip sw w (Inl e, ds, w)"
    and converged: "\<And>ds b_min b_max skip sw w.
      binary_range_check ds b_min b_max = None \<Longrightarrow>
      \<bar>last_binary_rate ds - binary_rate b_min b_max skip\<bar> < binary_convergence_threshold ds \<Longrightarrow>
      P ds b_min b_max skip sw w (Inr (), binary_converged ds, w)"
    and raised: "\<And>ds b_min b_max skip sw w e w1.
      binary_range_check ds b_min b_max = None \<Longrightarrow>
      rate_step ml (ds\<lparr>last_binary_rate := binary_rate b_min b_max skip\<rparr>) profile sw
        (binary_rate b_min b_max skip) w = (Inl e, w1) \<Longrightarrow>
      P ds b_min b_max skip sw w
        (Inl e, ds\<lparr>last_binary_rate := binary_rate b_min b_max skip\<rparr>, w1)"
    and rejected: "\<And>ds b_min b_max skip sw w w1 rate out. rate = binary_rate b_min b_max skip \<Longrightarrow>
      binary_range_check ds b_min b_max = None \<Longrightarrow>
      rate_step ml (ds\<lparr>last_binary_rate := rate\<rparr>) profile sw rate w = (Inr False, w1) \<Longrightarrow>
      P (ds\<lparr>last_binary_rate := rate\<rparr>) b_min rate True True w1 out \<Longrightarrow>
      P ds b_min b_max skip sw w out"
    and accepted: "\<And>ds b_min b_max skip sw w w1 rate out. rate = binary_rate b_min b_max skip \<Longrightarrow>
      binary_range_check ds b_min b_max = None \<Longrightarrow>
      rate_step ml (ds\<lparr>last_binary_rate := rate\<rparr>) profile sw rate w = (Inr True, w1) \<Longrightarrow>
      P (ds\<lparr>last_binary_rate := rate, search_result_rate := Some rate\<rparr>) rate b_max True True w1 out \<Longrightarrow>
      P ds b_min b_max skip sw w out"
  shows "P ds b_min b_max skip_max sw w out"
proof -
  have "ml = ml \<and> profile = profile \<longrightarrow> P ds b_min b_max skip_max sw w out"
  proof (rule binary_search.raw_induct [where P = "\<lambda>m ds b_min b_max p skip_max sw w out.
        m = ml \<and> p = profile \<longrightarrow> P ds b_min b_max skip_max sw w out", OF _ ret], intro impI)
    fix rec m and ds :: drop_rate_search and b_min b_max p skip sw w out
    let ?rate = "binary_rate b_min b_max skip"
    let ?ds1 = "ds\<lparr>last_binary_rate := ?rate\<rparr>"
    assume IH: "\<And>m ds b_min b_max p skip sw w out. rec m ds b_min b_max p skip sw w = Some out \<Longrightarrow>
        m = ml \<and> p = profile \<longrightarrow> P ds b_min b_max skip sw w out"
      and eq: "(case binary_range_check ds b_min b_max of
        Some e \<Rightarrow> Some (Inl e, ds, w)
      | None \<Rightarrow>
        (let rate = ?rate
         in if \<bar>last_binary_rate ds - rate\<bar> < binary_convergence_threshold ds
            then Some (Inr (), binary_converged ds, w)
            else
              (case rate_step m (ds\<lparr>last_binary_rate := rate\<rparr>) p sw rate w of
                 (Inl e, w1) \<Rightarrow> Some (Inl e, ds\<lparr>last_binary_rate := rate\<rparr>, w1)
               | (Inr accepted, w1) \<Rightarrow>
                   if \<not> accepted
                   then rec m (ds\<lparr>last_binary_rate := rate\<rparr>) b_min rate p True True w1
                   else rec m (ds\<lparr>last_binary_rate := rate, search_result_rate := Some rate\<rparr>)
                          rate b_max p True True w1))) = Some out"
      and mp: "m = ml \<and> p = profile"
    obtain v w1 where v: "rate_step ml ?ds1 profile sw ?rate w = (v, w1)"
      by (cases "rate_step ml ?ds1 profile sw ?rate w")
    show "P ds b_min b_max skip sw w out"
    proof (cases "binary_range_check ds b_min b_max")
      case (Some e)
      with eq have "out = (Inl e, ds, w)" by simp
      with range [OF Some] show ?thesis by simp
    next
      case None
      show ?thesis
      proof (cases "\<bar>last_binary_rate ds - ?rate\<bar> < binary_convergence_threshold ds")
        case True
        with None eq have "out = (Inr (), binary_converged ds, w)" by (simp add: Let_def)
        with converged [OF None True] show ?thesis by simp
      next
        case False
        consider e where "v = Inl e" | "v = Inr False" | "v = Inr True" by (cases v) auto
        then show ?thesis
        proof cases
          case 1
          with False None eq mp v have "out = (Inl e, ?ds1, w1)" by (simp add: Let_def)
          with raised [OF None] v 1 show ?thesis by simp
        next
          case 2
          with False None eq mp v have "rec ml ?ds1 b_min ?rate profile True True w1 = Some out"
            by (simp add: Let_def)
          from IH [OF this] rejected [OF refl None] v 2 show ?thesis by blast
        next
          case 3
          with False None eq mp v have "rec ml (?ds1\<lparr>search_result_rate := Some ?rate\<rparr>)
              ?rate b_max profile True True w1 = Some out"
            by (simp add: Let_def)
          from IH [OF this] accepted [OF refl None] v 3 show ?thesis by blast
        qed
      qed
    qed
  qed
  then show ?thesis by simp
qed

lemma binary_search_post:
  assumes "binary_search ml ds b_min b_max profile skip_max sw w = Some out"
  shows "binary_post ml ds profile b_min b_max out"
proof (rule binary_search_induct [OF assms, where
      P = "\<lambda>ds b_min b_max skip sw w out. binary_post ml ds profile b_min b_max out"],
    goal_cases)
  case (3 ds b_min b_max skip sw w e w1)
  then have "judged ml ds profile (Inl e) (binary_rate b_min b_max skip)"
    by (auto dest: judgedI simp: judged_frame)
  with 3 binary_rate_between [of b_min b_max skip] show ?case
    by (auto simp: binary_post_def binary_frame_def binary_range_check_ok)
next
  case (4 ds b_min b_max skip sw w w1 rate out)
  with binary_rate_between [of b_min b_max skip] show ?case
    by (cases out) (auto simp: binary_post_def binary_frame_def judged_frame
        binary_range_check_ok binary_range_check_frame intro: order_trans)
next
  case (5 ds b_min b_max skip sw w w1 rate out)
  then have "judged ml ds profile (Inr True) rate" by (auto dest: judgedI simp: judged_frame)
  with 5 binary_rate_between [of b_min b_max skip] show ?case
    by (cases out) (auto simp: binary_post_def binary_frame_def judged_frame
        binary_range_check_ok binary_range_check_frame intro: order_trans)
qed (simp_all add: binary_post_def binary_frame_def binary_converged_def)

section \<open>Combined search\<close>

text \<open>The result of a search that did not raise: a rate in the limits that was accepted.\<close>

definition found_rate ::
    "'w loss_meter \<Rightarrow> drop_rate_search \<Rightarrow> string \<Rightarrow> drop_rate_search \<Rightarrow> bool" where
  "found_rate ml ds profile ds' \<longleftrightarrow>
     search_result ds' \<in> {Some SUCCESS, Some SUSPICIOUS} \<and>
     (\<exists>x. search_result_rate ds' = Some x \<and> rate_min ds \<le> x \<and> x \<le> rate_max ds \<and>
          judged ml ds profile (Inr True) x)"

text \<open>What a combined search may raise.\<close>

definition combined_error ::
    "'w loss_meter \<Rightarrow> drop_rate_search \<Rightarrow> real \<Rightarrow> string \<Rightarrow> py_error \<Rightarrow> bool" where
  "combined_error ml ds start profile e \<longleftrightarrow>
     e = ValueError ''Start rate is not in min,max range'' \<and>
       \<not> (rate_min ds \<le> start \<and> start \<le> rate_max ds) \<or>
     e = PyException ''Unknown search direction'' \<and> search_linear_direction ds \<noteq> TOP_DOWN \<or>
     e = RuntimeError ''Linear search FAILED'' \<and> judged ml ds profile (Inr False) (rate_min ds) \<or>
     (\<exists>x. rate_min ds \<le> x \<and> x \<le> rate_max ds \<and> judged ml ds profile (Inl e) x)"

lemma refine_linear_post:
  assumes thr: "0 < binary_convergence_threshold ds" and step: "0 \<le> rate_linear_step ds"
    and r: "rate_min ds \<le> r" "r \<le> rate_max ds" "judged ml ds profile (Inr True) r"
    and found: "search_result ds = Some SUCCESS" "search_result_rate ds = Some r"
  obtains out ds' w' where "refine_linear ml ds r profile w = Some (out, ds', w')"
    and "out = Inr () \<Longrightarrow> found_rate ml ds profile ds'"
    and "\<And>e. out = Inl e \<Longrightarrow>
      \<exists>x. rate_min ds \<le> x \<and> x \<le> rate_max ds \<and> judged ml ds profile (Inl e) x"
proof -
  define b_max where
    "b_max = (if r + rate_linear_step ds > rate_max ds then rate_max ds else r + rate_linear_step ds)"
  let ?ds = "ds\<lparr>search_result_rate := None\<rparr>"
  have b_max: "r \<le> b_max" "b_max \<le> rate_max ds"
    using step r by (simp_all add: b_max_def)
  then have range: "binary_range_check ?ds r b_max = None"
    using r by (simp add: binary_range_check_ok)
  obtain q ds1 w1 where run: "binary_search ml ?ds r b_max profile True False w = Some (q, ds1, w1)"
    using binary_search_returns [of ?ds ml r b_max profile True False w] thr by auto
  then have post: "binary_post ml ?ds profile r b_max (q, ds1, w1)"
    by (rule binary_search_post)
  show thesis
  proof (cases "floats_are_close_equal r (rate_max ds) (1 / 10 ^ 9) 0 = Inr True")
    case True
    with found r show thesis
      by (intro that [of "Inr ()" ds w]) (simp_all add: refine_linear_def found_rate_def)
  next
    case False
    then have close: "floats_are_close_equal r (rate_max ds) (1 / 10 ^ 9) 0 = Inr False"
      by (auto simp: floats_are_close_equal_def split: if_splits)
    show thesis
    proof (cases q)
      case (Inl e)
      with run close have "refine_linear ml ds r profile w = Some (Inl e, ds1, w1)"
        by (simp add: refine_linear_def b_max_def Let_def)
      moreover have "\<exists>x. rate_min ds \<le> x \<and> x \<le> rate_max ds \<and> judged ml ds profile (Inl e) x"
        using post Inl range r b_max
        by (auto simp: binary_post_def judged_frame intro: order_trans)
      ultimately show thesis by (intro that) auto
    next
      case (Inr u)
      with run close have "refine_linear ml ds r profile w = Some (Inr (),
          if search_result ds1 \<noteq> Some SUCCESS
          then ds1\<lparr>search_result := Some SUSPICIOUS, search_result_rate := Some r\<rparr> else ds1, w1)"
        by (simp add: refine_linear_def b_max_def Let_def)
      moreover have "found_rate ml ds profile ds1" if "search_result ds1 = Some SUCCESS"
        using that post Inr r b_max
        by (auto simp: binary_post_def found_rate_def judged_frame rate_truthy_def
            intro: order_trans split: if_splits option.splits)
      ultimately show thesis
        using r by (intro that) (auto simp: found_rate_def split: if_splits)
    qed
  qed
qed

text \<open>
  C3. \<open>combined_search\<close> always returns when the linear step and the convergence threshold
  are positive. If it does not raise, \<open>verify_search_result\<close> returns a rate within the search
  limits whose trials were accepted; it only raises for a start rate out of range, for a search
  direction other than top-down, when the linear search was rejected down to the minimal rate, or
  when the measurement itself raised.
\<close>

theorem combined_search_sound:
  assumes "0 < rate_linear_step ds" and "0 < binary_convergence_threshold ds"
  shows "\<exists>r ds' w'. combined_search ml ds start profile w = Some (r, ds', w') \<and>
    (r = Inr () \<longrightarrow> (\<exists>x. verify_search_result latency ds' w' = Inr (Some x, latency w') \<and>
       rate_min ds \<le> x \<and> x \<le> rate_max ds \<and> judged ml ds profile (Inr True) x)) \<and>
    (\<forall>e. r = Inl e \<longrightarrow> combined_error ml ds start profile e)"
proof (cases "rate_min ds \<le> start \<and> start \<le> rate_max ds")
  case False
  then show ?thesis by (auto simp: combined_search_def linear_search_def combined_error_def)
next
  case True
  obtain q ds1 w1 where lin: "linear_search ml ds start profile w = Some (q, ds1, w1)"
    using linear_search_returns [OF assms(1), of ml start profile w] by auto
  then have post: "linear_post ml ds profile start (q, ds1, w1)"
    using True assms(1) by (auto simp: linear_search_def intro!: linear_loop_post)
  consider (raised) e where "q = Inl e"
    | (failed) "q = Inr ()" "search_result ds1 = Some FAILURE"
        "judged ml ds profile (Inr False) (rate_min ds)"
    | (found) x where "q = Inr ()"
        "ds1 = succeeded ds x"
        "rate_min ds \<le> x" "x \<le> start" "judged ml ds profile (Inr True) x"
    using linear_post_returned [of ml ds profile start _ ds1 w1] post
    by (cases q) auto
  then show ?thesis
  proof cases
    case raised
    with post True have "combined_error ml ds start profile e"
      by (simp add: linear_post_def combined_error_def) (meson order_trans)
    with lin raised show ?thesis by (simp add: combined_search_def)
  next
    case failed
    with lin show ?thesis by (simp add: combined_search_def combined_error_def)
  next
    case found
    with lin have run: "combined_search ml ds start profile w = refine_linear ml ds1 x profile w1"
      by (simp add: combined_search_def succeeded_def)
    have "x \<le> rate_max ds" using found True by simp
    with found assms obtain r ds' w' where
      ref: "refine_linear ml ds1 x profile w1 = Some (r, ds', w')"
      and ok: "r = Inr () \<Longrightarrow> found_rate ml ds1 profile ds'"
      and err: "\<And>e. r = Inl e \<Longrightarrow>
        \<exists>x. rate_min ds1 \<le> x \<and> x \<le> rate_max ds1 \<and> judged ml ds1 profile (Inl e) x"
      by (elim refine_linear_post [of ds1 x ml profile w1, rotated -1])
         (simp_all add: judged_frame succeeded_def)
    from ok found have "r = Inr () \<Longrightarrow> found_rate ml ds profile ds'"
      by (simp add: found_rate_def judged_frame succeeded_def)
    moreover from err found have "\<And>e. r = Inl e \<Longrightarrow> combined_error ml ds start profile e"
      by (simp add: combined_error_def judged_frame succeeded_def)
    ultimately show ?thesis
      unfolding run ref by (auto simp: found_rate_def verify_search_result_def)
  qed
qed

text \<open>A device that loses frames exactly above the rate \<open>limit\<close>.\<close>

definition ideal_device :: "real \<Rightarrow> unit loss_meter" where
  "ideal_device limit ds rate size' la la_type profile skip_warmup w = (Inr (rate \<le> limit), w)"

theorem combined_search_sound_witness:
  "\<exists>r ds' w'. combined_search (ideal_device 42) DropRateSearch_init 100 ''ethip4'' () =
       Some (r, ds', w') \<and>
    (r = Inr () \<longrightarrow> (\<exists>x. verify_search_result id ds' w' = Inr (Some x, id w') \<and>
       1 \<le> x \<and> x \<le> 100 \<and> judged (ideal_device 42) DropRateSearch_init ''ethip4'' (Inr True) x)) \<and>
    (\<forall>e. r = Inl e \<longrightarrow> combined_error (ideal_device 42) DropRateSearch_init 100 ''ethip4'' e)"
  using combined_search_sound [of DropRateSearch_init "ideal_device 42" 100 "''ethip4''" "()" id]
  by (simp add: DropRateSearch_init_def)

section \<open>Accuracy of the binary search\<close>

text \<open>A device whose loss is acceptable exactly up to the rate \<open>limit\<close>.\<close>

definition accepts_up_to :: "'w loss_meter \<Rightarrow> real \<Rightarrow> bool" where
  "accepts_up_to ml limit \<longleftrightarrow>
     (\<forall>ds rate size' la la_type profile sw w.
        fst (ml ds rate size' la la_type profile sw w) = Inr (rate \<le> limit))"

lemma attempts_constant:
  assumes "\<And>w. fst (f w) = Inr b"
  shows "fst (attempts n f w) = Inr (replicate n b)"
proof (induction n arbitrary: w)
  case (Suc n)
  obtain w1 where f: "f w = (Inr b, w1)" using assms [of w] by (cases "f w") auto
  obtain w2 where "attempts n f w1 = (Inr (replicate n b), w2)"
    using Suc.IH [of w1] by (cases "attempts n f w1") auto
  with f show ?case by simp
qed simp

lemma rate_step_accepts:
  assumes "accepts_up_to ml limit" and "0 < max_attempts ds"
  shows "fst (rate_step ml ds profile sw rate w) = Inr (rate \<le> limit)"
proof -
  let ?f = "ml ds rate (frame_size ds) (loss_acceptance ds) (loss_acceptance_type_of ds) profile sw"
  have "fst (attempts (nat (max_attempts ds)) ?f w) =
      Inr (replicate (nat (max_attempts ds)) (rate \<le> limit))"
    using assms(1) by (intro attempts_constant) (simp add: accepts_up_to_def)
  then obtain w1 where "attempts (nat (max_attempts ds)) ?f w =
      (Inr (replicate (nat (max_attempts ds)) (rate \<le> limit)), w1)"
    by (cases "attempts (nat (max_attempts ds)) ?f w") auto
  with assms(2) show ?thesis
    by (simp add: rate_step_def get_res_based_on_search_type_def get_best_of_n_def
        get_worst_of_n_def list_ex_iff list_all_iff split: search_result_type.split)
qed

text \<open>
  The search interval brackets the limit, the last tried rate is one of its ends, and the found
  rate is its lower end (or the initial one).
\<close>

definition brackets :: "real \<Rightarrow> real \<Rightarrow> real \<Rightarrow> real \<Rightarrow> drop_rate_search \<Rightarrow> bool" where
  "brackets limit peak b_min b_max ds \<longleftrightarrow>
     0 < max_attempts ds \<and> binary_range_check ds b_min b_max = None \<and>
     b_min \<le> limit \<and> min limit peak \<le> b_max \<and> b_max \<le> peak \<and> last_binary_rate ds \<in> {b_min, b_max}"

definition close_below :: "real \<Rightarrow> real \<Rightarrow> real \<Rightarrow> real \<Rightarrow> bool" where
  "close_below limit peak thr x \<longleftrightarrow> x \<le> limit \<and> x \<le> peak \<and> min limit peak - x < 2 * thr"

lemma binary_search_bracketing:
  assumes dev: "accepts_up_to ml limit"
    and run: "binary_search ml ds b_min b_max profile True sw w = Some (r, ds', w')"
    and "brackets limit peak b_min b_max ds"
  shows "r = Inr () \<and>
    (search_result_rate ds' = search_result_rate ds \<and>
       close_below limit peak (binary_convergence_threshold ds) b_min \<or>
     (\<exists>x. search_result_rate ds' = Some x \<and> b_min \<le> x \<and>
       close_below limit peak (binary_convergence_threshold ds) x))"
proof -
  let ?P = "\<lambda>ds b_min b_max skip sw (w :: 'a) out :: 'a search_outcome.
    skip \<longrightarrow> brackets limit peak b_min b_max ds \<longrightarrow> fst out = Inr () \<and>
    (search_result_rate (fst (snd out)) = search_result_rate ds \<and>
       close_below limit peak (binary_convergence_threshold ds) b_min \<or>
     (\<exists>x. search_result_rate (fst (snd out)) = Some x \<and> b_min \<le> x \<and>
       close_below limit peak (binary_convergence_threshold ds) x))"
  have "?P ds b_min b_max True sw w (r, ds', w')"
  proof (rule binary_search_induct [OF run, where P = ?P], goal_cases)
    case (2 ds b_min b_max skip sw w)
    then show ?case
      by (auto simp: binary_converged_def brackets_def close_below_def binary_rate_def abs_if
          binary_range_check_ok field_simps split: if_splits)
  next
    case (3 ds b_min b_max skip sw w e w1)
    then show ?case
      using rate_step_accepts [OF dev] by (auto simp: brackets_def dest: arg_cong [where f = fst])
  next
    case (4 ds b_min b_max skip sw w w1 rate out)
    then have "\<not> rate \<le> limit" if "0 < max_attempts ds"
      using rate_step_accepts [OF dev, of "ds\<lparr>last_binary_rate := rate\<rparr>" profile sw rate w] that
      by simp
    with 4 binary_rate_between [of b_min b_max skip] show ?case
      by (auto simp: brackets_def binary_range_check_ok)
  next
    case (5 ds b_min b_max skip sw w w1 rate out)
    then have "rate \<le> limit" if "0 < max_attempts ds"
      using rate_step_accepts [OF dev, of "ds\<lparr>last_binary_rate := rate\<rparr>" profile sw rate w] that
      by simp
    with 5 binary_rate_between [of b_min b_max skip] show ?case
      by (auto simp: brackets_def binary_range_check_ok)
  qed (simp add: brackets_def)
  with assms(3) show ?thesis by simp
qed

text \<open>
  C4. On a device whose loss is acceptable exactly up to \<open>limit\<close>, a binary search between
  \<open>b_min\<close> (below the limit) and \<open>b_max\<close> whose first rate is not already within the threshold
  of the last tried one returns without raising. Either the result rate it leaves is not above the limit
  and less than twice the convergence threshold below it (or below \<open>b_max\<close>, if that is lower), or it
  leaves the result rate of the object as it was before, a stale one if there was an earlier search,
  and then \<open>b_min\<close> itself is that close to the limit.
\<close>

theorem binary_search_accurate:
  assumes "accepts_up_to ml limit" and "0 < max_attempts ds"
    and "0 < binary_convergence_threshold ds"
    and "rate_min ds \<le> b_min" and "b_min \<le> b_max" and "b_max \<le> rate_max ds" and "b_min \<le> limit"
    and "binary_convergence_threshold ds \<le> \<bar>last_binary_rate ds - binary_rate b_min b_max skip\<bar>"
  shows "\<exists>ds' w' x. binary_search ml ds b_min b_max profile skip sw w = Some (Inr (), ds', w') \<and>
    close_below limit b_max (binary_convergence_threshold ds) x \<and>
    (search_result_rate ds' = Some x \<or> search_result_rate ds' = search_result_rate ds \<and> x = b_min)"
proof -
  define rate where "rate = binary_rate b_min b_max skip"
  define ds1 where "ds1 = ds\<lparr>last_binary_rate := rate\<rparr>"
  define ds2 where "ds2 = ds1\<lparr>search_result_rate := Some rate\<rparr>"
  have rate: "b_min \<le> rate" "rate \<le> b_max"
    using binary_rate_between [OF assms(5)] by (simp_all add: rate_def)
  obtain w1 where step: "rate_step ml ds1 profile sw rate w = (Inr (rate \<le> limit), w1)"
    using rate_step_accepts [of ml limit ds1 profile sw rate w] assms(1,2)
    by (cases "rate_step ml ds1 profile sw rate w") (auto simp: ds1_def)
  have range: "binary_range_check ds b_min b_max = None"
    using assms by (simp add: binary_range_check_ok)
  obtain lo hi ds3 where next_call:
    "lo = (if rate \<le> limit then rate else b_min)" "hi = (if rate \<le> limit then b_max else rate)"
    "ds3 = (if rate \<le> limit then ds2 else ds1)" by blast
  have run: "binary_search ml ds b_min b_max profile skip sw w =
      binary_search ml ds3 lo hi profile True True w1"
    using assms step range
    by (subst binary_search.simps) (simp add: next_call ds1_def ds2_def rate_def Let_def)
  have thr: "binary_convergence_threshold ds3 = binary_convergence_threshold ds"
    by (simp add: next_call ds1_def ds2_def)
  then obtain r ds' w' where
    ret: "binary_search ml ds3 lo hi profile True True w1 = Some (r, ds', w')"
    using binary_search_returns [of ds3 ml lo hi profile True True w1] assms(3) by auto
  have "brackets limit b_max lo hi ds3"
    using assms rate by (auto simp: brackets_def binary_range_check_ok next_call ds1_def ds2_def)
  note found = binary_search_bracketing [OF assms(1) ret this, unfolded thr]
  show ?thesis
  proof (cases "rate \<le> limit")
    case True
    with found have "\<exists>x. search_result_rate ds' = Some x \<and>
        close_below limit b_max (binary_convergence_threshold ds) x"
      by (auto simp: next_call ds2_def)
    with found ret show ?thesis unfolding run by auto
  next
    case False
    with found ret show ?thesis
      unfolding run by (auto simp: next_call ds1_def)
  qed
qed

theorem binary_search_accurate_witness:
  "\<exists>ds' w'. binary_search (ideal_device 42)
       (DropRateSearch_init\<lparr>binary_convergence_threshold := 1\<rparr>) 10 100 ''ethip4'' False False () =
       Some (Inr (), ds', w') \<and>
    close_below 42 100 1 (case search_result_rate ds' of None \<Rightarrow> 10 | Some x \<Rightarrow> x)"
proof -
  let ?ds = "DropRateSearch_init\<lparr>binary_convergence_threshold := 1\<rparr>"
  have "\<exists>ds' w' x. binary_search (ideal_device 42) ?ds 10 100 ''ethip4'' False False () = Some (Inr (), ds', w') \<and>
      close_below 42 100 1 x \<and> (search_result_rate ds' = Some x \<or> search_result_rate ds' = None \<and> x = 10)"
    using binary_search_accurate [of "ideal_device 42" 42 ?ds 10 100 False "''ethip4''" False "()"]
    by (simp add: accepts_up_to_def ideal_device_def DropRateSearch_init_def binary_rate_def)
  then show ?thesis by force
qed

text \<open>
  With the constructor's defaults (rates in percent up to 100, last tried rate 0,
  convergence threshold 5000) a binary search over any valid interval ends at once with
  \<open>FAILURE\<close>, without a single trial, whatever the device does.
\<close>

theorem default_binary_search_measures_nothing:
  assumes "1 \<le> b_min" and "b_min \<le> b_max" and "b_max \<le> 100"
  shows "binary_search ml DropRateSearch_init b_min b_max profile skip sw w =
    Some (Inr (), DropRateSearch_init\<lparr>search_result := Some FAILURE\<rparr>, w)"
proof -
  have "binary_range_check DropRateSearch_init b_min b_max = None"
    using assms by (simp add: binary_range_check_ok DropRateSearch_init_def)
  then show ?thesis
    using assms binary_rate_between [OF assms(2), of skip]
    by (subst binary_search.simps)
       (simp add: Let_def DropRateSearch_init_def binary_converged_def rate_truthy_def)
qed

theorem default_binary_search_measures_nothing_witness:
  "binary_search (ideal_device 42) DropRateSearch_init 1 100 ''ethip4'' False False () =
     Some (Inr (), DropRateSearch_init\<lparr>search_result := Some FAILURE\<rparr>, ())"
  using default_binary_search_measures_nothing [of 1 100 "ideal_device 42" "''ethip4''" False False "()"]
  by simp

end
