(* ===== verification/OptionString.thy ===== *)
theory OptionString
  imports Prelude
begin

text \<open>
  \<open>OptionString.py\<close>: the builder for command lines. An instance is the list of parts and the
  prefix; every method returns the updated instance. Arguments are the Python objects the
  callers pass (\<open>option_arg\<close>), converted by \<open>str()\<close> and tested for truth as Python does.
\<close>

datatype option_arg = ANone | ABool bool | AInt int | AStr string

fun to_str :: "option_arg \<Rightarrow> string" where
  "to_str ANone = ''None''"
| "to_str (ABool b) = (if b then ''True'' else ''False'')"
| "to_str (AInt i) = str_of_int i"
| "to_str (AStr s) = s"

fun truthy :: "option_arg \<Rightarrow> bool" where
  "truthy ANone = False"
| "truthy (ABool b) = b"
| "truthy (AInt i) = (i \<noteq> 0)"
| "truthy (AStr s) = (s \<noteq> [])"

record option_string =
  parts :: "string list"
  prefix :: string

definition OptionString :: "option_arg list \<Rightarrow> option_arg \<Rightarrow> option_string" where
  "OptionString ps pre = \<lparr>parts = map to_str ps, prefix = strip (to_str pre)\<rparr>"

definition change_prefix :: "option_string \<Rightarrow> option_arg \<Rightarrow> option_string" where
  "change_prefix os pre = os\<lparr>prefix := strip (to_str pre)\<rparr>"

definition extend :: "option_string \<Rightarrow> option_string \<Rightarrow> option_string" where
  "extend os other = os\<lparr>parts := parts os @ parts other\<rparr>"

text \<open>\<open>check_and_add\<close> returns the converted part beside the updated instance.\<close>

definition check_and_add ::
    "option_string \<Rightarrow> option_arg \<Rightarrow> bool \<Rightarrow> string \<times> option_string" where
  "check_and_add os part prefixed =
     (let p = (if part = ANone then [] else strip (to_str part))
      in (p, if p \<noteq> [] then os\<lparr>parts := parts os @ [if prefixed then prefix os @ p else p]\<rparr>
             else os))"

definition add :: "option_string \<Rightarrow> option_arg \<Rightarrow> option_string" where
  "add os parameter = snd (check_and_add os parameter True)"

definition add_if :: "option_string \<Rightarrow> option_arg \<Rightarrow> option_arg \<Rightarrow> option_string" where
  "add_if os parameter condition = (if truthy condition then add os parameter else os)"

definition add_with_value :: "option_string \<Rightarrow> option_arg \<Rightarrow> option_arg \<Rightarrow> option_string" where
  "add_with_value os parameter val =
     (let (p, temp) = check_and_add (OptionString [] (AStr (prefix os))) parameter True
      in if p \<noteq> [] then
           (let (v, temp') = check_and_add temp val False
            in if v \<noteq> [] then extend os temp' else os)
         else os)"

definition add_equals :: "option_string \<Rightarrow> option_arg \<Rightarrow> option_arg \<Rightarrow> option_string" where
  "add_equals os parameter val =
     (let (p, temp) = check_and_add (OptionString [] (AStr (prefix os))) parameter True
      in if p \<noteq> [] then
           (let (v, temp') = check_and_add temp val False
            in if v \<noteq> [] then os\<lparr>parts := parts os @ [join ''='' (parts temp')]\<rparr> else os)
         else os)"

definition add_with_value_if ::
    "option_string \<Rightarrow> option_arg \<Rightarrow> option_arg \<Rightarrow> option_arg \<Rightarrow> option_string" where
  "add_with_value_if os parameter val condition =
     (if truthy condition then add_with_value os parameter val else os)"

definition add_equals_if ::
    "option_string \<Rightarrow> option_arg \<Rightarrow> option_arg \<Rightarrow> option_arg \<Rightarrow> option_string" where
  "add_equals_if os parameter val condition =
     (if truthy condition then add_equals os parameter val else os)"

definition dict_get_default ::
    "(string, option_arg) pydict \<Rightarrow> string \<Rightarrow> option_arg \<Rightarrow> option_arg" where
  "dict_get_default d k dflt = (case map_of d k of None \<Rightarrow> dflt | Some v \<Rightarrow> v)"

definition add_with_value_from_dict ::
    "option_string \<Rightarrow> option_arg \<Rightarrow> string \<Rightarrow> (string, option_arg) pydict \<Rightarrow> option_arg \<Rightarrow>
     option_string" where
  "add_with_value_from_dict os parameter key m dflt =
     add_with_value os parameter (dict_get_default m key dflt)"

definition add_equals_from_dict ::
    "option_string \<Rightarrow> option_arg \<Rightarrow> string \<Rightarrow> (string, option_arg) pydict \<Rightarrow> option_arg \<Rightarrow>
     option_string" where
  "add_equals_from_dict os parameter key m dflt =
     add_equals os parameter (dict_get_default m key dflt)"

definition add_if_from_dict ::
    "option_string \<Rightarrow> option_arg \<Rightarrow> string \<Rightarrow> (string, option_arg) pydict \<Rightarrow> option_arg \<Rightarrow>
     option_string" where
  "add_if_from_dict os parameter key m dflt =
     add_if os parameter (dict_get_default m key dflt)"

definition add_with_value_if_from_dict ::
    "option_string \<Rightarrow> option_arg \<Rightarrow> option_arg \<Rightarrow> string \<Rightarrow> (string, option_arg) pydict \<Rightarrow>
     option_arg \<Rightarrow> option_string" where
  "add_with_value_if_from_dict os parameter val key m dflt =
     add_with_value_if os parameter val (dict_get_default m key dflt)"

definition add_equals_if_from_dict ::
    "option_string \<Rightarrow> option_arg \<Rightarrow> option_arg \<Rightarrow> string \<Rightarrow> (string, option_arg) pydict \<Rightarrow>
     option_arg \<Rightarrow> option_string" where
  "add_equals_if_from_dict os parameter val key m dflt =
     add_equals_if os parameter val (dict_get_default m key dflt)"

definition option_str :: "option_string \<Rightarrow> string" where
  "option_str os = join '' '' (parts os)"

text \<open>The value of the keyword argument \<open>default\<close> of the \<open>..._if_from_dict\<close> methods.\<close>

definition default_condition :: option_arg where
  "default_condition = AStr ''False''"

section \<open>The methods that add, in closed form\<close>

definition arg_text :: "option_arg \<Rightarrow> string" where
  "arg_text a = (if a = ANone then [] else strip (to_str a))"

lemma stripped_arg_text [simp]: "stripped (arg_text a)"
  by (cases "a = ANone") (simp_all add: arg_text_def strip_stripped stripped_def [of "[]"])

text \<open>The invariant: a stripped prefix and stripped, non-empty parts.\<close>

definition option_wf :: "option_string \<Rightarrow> bool" where
  "option_wf os \<longleftrightarrow> stripped (prefix os) \<and> (\<forall>p \<in> set (parts os). p \<noteq> [] \<and> stripped p)"

lemma add_eq:
  "add os a = (if arg_text a = [] then os else os\<lparr>parts := parts os @ [prefix os @ arg_text a]\<rparr>)"
  by (simp add: add_def check_and_add_def arg_text_def Let_def)

lemma add_with_value_eq:
  assumes "stripped (prefix os)"
  shows "add_with_value os a v =
    (if arg_text a = [] \<or> arg_text v = [] then os
     else os\<lparr>parts := parts os @ [prefix os @ arg_text a, arg_text v]\<rparr>)"
  using strip_id [OF assms]
  by (simp add: add_with_value_def check_and_add_def arg_text_def Let_def extend_def OptionString_def)

lemma add_equals_eq:
  assumes "stripped (prefix os)"
  shows "add_equals os a v =
    (if arg_text a = [] \<or> arg_text v = [] then os
     else os\<lparr>parts := parts os @ [prefix os @ arg_text a @ ''='' @ arg_text v]\<rparr>)"
  using strip_id [OF assms]
  by (simp add: add_equals_def check_and_add_def arg_text_def Let_def OptionString_def)

lemma stripped_append:
  assumes "stripped p" and "stripped a" and "a \<noteq> []"
  shows "stripped (p @ a)"
  using assms by (cases "p = []") (auto simp: stripped_def)

lemma stripped_append3:
  "stripped p \<Longrightarrow> stripped a \<Longrightarrow> a \<noteq> [] \<Longrightarrow> stripped v \<Longrightarrow> v \<noteq> [] \<Longrightarrow> stripped (p @ a @ m @ v)"
  by (cases "p = []"; cases "a = []") (auto simp: stripped_def)

section \<open>Every operation keeps the invariant\<close>

lemma OptionString_wf: "option_wf (OptionString [] pre)"
  by (simp add: option_wf_def OptionString_def strip_stripped)

lemma change_prefix_wf: "option_wf os \<Longrightarrow> option_wf (change_prefix os pre)"
  by (simp add: option_wf_def change_prefix_def strip_stripped)

lemma extend_wf: "option_wf os \<Longrightarrow> option_wf other \<Longrightarrow> option_wf (extend os other)"
  by (auto simp: option_wf_def extend_def)

lemma add_wf: "option_wf os \<Longrightarrow> option_wf (add os a)"
  by (auto simp: option_wf_def add_eq intro!: stripped_append)

lemma add_with_value_wf: "option_wf os \<Longrightarrow> option_wf (add_with_value os a v)"
  by (auto simp: option_wf_def add_with_value_eq intro!: stripped_append)

lemma add_equals_wf: "option_wf os \<Longrightarrow> option_wf (add_equals os a v)"
  unfolding option_wf_def by (auto simp: add_equals_eq intro!: stripped_append3 [where m = "''=''", simplified])

text \<open>The methods with a condition or a dict are one of the three or do nothing.\<close>

lemmas option_conditional_defs =
  add_if_def add_with_value_if_def add_equals_if_def add_with_value_from_dict_def
  add_equals_from_dict_def add_if_from_dict_def add_with_value_if_from_dict_def
  add_equals_if_from_dict_def

lemmas option_wf_intros = change_prefix_wf extend_wf add_wf add_with_value_wf add_equals_wf

text \<open>A command line is built by a sequence of calls.\<close>

datatype option_call =
    Add option_arg
  | AddIf option_arg option_arg
  | AddWithValue option_arg option_arg
  | AddEquals option_arg option_arg
  | AddWithValueIf option_arg option_arg option_arg
  | AddEqualsIf option_arg option_arg option_arg
  | ChangePrefix option_arg
  | Extend option_string

fun run_call :: "option_string \<Rightarrow> option_call \<Rightarrow> option_string" where
  "run_call os (Add a) = add os a"
| "run_call os (AddIf a c) = add_if os a c"
| "run_call os (AddWithValue a v) = add_with_value os a v"
| "run_call os (AddEquals a v) = add_equals os a v"
| "run_call os (AddWithValueIf a v c) = add_with_value_if os a v c"
| "run_call os (AddEqualsIf a v c) = add_equals_if os a v c"
| "run_call os (ChangePrefix a) = change_prefix os a"
| "run_call os (Extend other) = extend os other"

fun calls_wf :: "option_call list \<Rightarrow> bool" where
  "calls_wf [] = True"
| "calls_wf (Extend other # cs) = (option_wf other \<and> calls_wf cs)"
| "calls_wf (c # cs) = calls_wf cs"

lemma run_calls_wf:
  "calls_wf cs \<Longrightarrow> option_wf os \<Longrightarrow> option_wf (foldl run_call os cs)"
proof (induction cs arbitrary: os)
  case (Cons c cs)
  then have "option_wf (run_call os c)"
    by (cases c) (simp_all add: option_conditional_defs option_wf_intros)
  moreover have "calls_wf cs" using Cons.prems(1) by (cases c) simp_all
  ultimately show ?case using Cons.IH by simp
qed simp

section \<open>Properties\<close>

text \<open>Words separated by single blanks: no two adjacent blanks, none at either end.\<close>

fun no_double_space :: "string \<Rightarrow> bool" where
  "no_double_space (a # b # cs) = (\<not> (a = CHR '' '' \<and> b = CHR '' '') \<and> no_double_space (b # cs))"
| "no_double_space _ = True"

lemma no_double_space_append:
  assumes "no_double_space xs" and "no_double_space ys"
    and "xs = [] \<or> ys = [] \<or> last xs \<noteq> CHR '' '' \<or> hd ys \<noteq> CHR '' ''"
  shows "no_double_space (xs @ ys)"
  using assms
proof (induction xs rule: no_double_space.induct [case_names more empty one])
  case (one v)
  then show ?case by (cases ys) auto
qed auto

lemma is_space_blank: "is_space (CHR '' '')"
  by (simp add: is_space_def)

lemma join_blank_spacing:
  assumes "\<And>p. p \<in> set ps \<Longrightarrow> p \<noteq> [] \<and> stripped p \<and> no_double_space p"
  shows "no_double_space (join '' '' ps) \<and> stripped (join '' '' ps) \<and>
    (ps \<noteq> [] \<longrightarrow> join '' '' ps \<noteq> [])"
  using assms
proof (induction ps rule: induct_list012)
  case (3 x y ys)
  let ?r = "join '' '' (y # ys)"
  have x: "x \<noteq> []" "stripped x" "no_double_space x" using 3 by simp_all
  have r: "no_double_space ?r" "stripped ?r" "?r \<noteq> []" using 3 by simp_all
  have "no_double_space ('' '' @ ?r)"
    using r is_space_blank by - (rule no_double_space_append, auto simp: stripped_def)
  then have "no_double_space (x @ '' '' @ ?r)"
    using x is_space_blank by - (rule no_double_space_append, auto simp: stripped_def)
  moreover have "stripped ([] @ x @ '' '' @ ?r)"
    using x r by (intro stripped_append3) (simp_all add: stripped_def)
  ultimately show ?case using x by simp
qed (auto simp: stripped_def)

text \<open>
  The purpose of the class: however a command line is built from parts without
  doubled blanks inside, the resulting string has no blank at its ends and no doubled blanks,
  even when parameters or values are missing.
\<close>

theorem option_str_spacing:
  assumes "calls_wf cs"
    and "\<forall>p \<in> set (parts (foldl run_call (OptionString [] pre) cs)). no_double_space p"
  shows "no_double_space (option_str (foldl run_call (OptionString [] pre) cs)) \<and>
    stripped (option_str (foldl run_call (OptionString [] pre) cs))"
proof -
  have "option_wf (foldl run_call (OptionString [] pre) cs)"
    by (rule run_calls_wf [OF assms(1) OptionString_wf])
  then show ?thesis
    unfolding option_str_def using assms(2)
    by (intro conjI join_blank_spacing [THEN conjunct1]
        join_blank_spacing [THEN conjunct2, THEN conjunct1]) (auto simp: option_wf_def)
qed

definition sample_calls :: "option_call list" where
  "sample_calls = [Add (AStr '' python3''), ChangePrefix (AStr ''--''), AddWithValue (AStr ''rate'') (AInt 5),
     AddEquals (AStr ''x'') ANone, Add (AStr ''''), AddIf (AStr ''force'') (ABool True)]"

theorem option_str_spacing_witness:
  "option_str (foldl run_call (OptionString [] (AStr '''')) sample_calls) = ''python3 --rate 5 --force'' \<and>
   no_double_space (option_str (foldl run_call (OptionString [] (AStr '''')) sample_calls)) \<and>
   stripped (option_str (foldl run_call (OptionString [] (AStr '''')) sample_calls))"
proof -
  have p: "parts (foldl run_call (OptionString [] (AStr '''')) sample_calls) =
      [''python3'', ''--rate'', ''5'', ''--force'']"
    by code_simp
  have "calls_wf sample_calls" by code_simp
  moreover have "\<forall>q \<in> set [''python3'', ''--rate'', ''5'', ''--force'']. no_double_space q"
    by code_simp
  ultimately show ?thesis
    using option_str_spacing [of sample_calls "AStr ''''"] p by (simp add: option_str_def)
qed

text \<open>
  A parameter with a value is added completely or not at all: exactly the two
  parts (or the one \<open>parameter=value\<close> part), with the prefix on the parameter only.
\<close>

theorem add_with_value_all_or_nothing:
  assumes "option_wf os"
  shows "parts (add_with_value os a v) =
      (if arg_text a = [] \<or> arg_text v = [] then parts os
       else parts os @ [prefix os @ arg_text a, arg_text v]) \<and>
    parts (add_equals os a v) =
      (if arg_text a = [] \<or> arg_text v = [] then parts os
       else parts os @ [prefix os @ arg_text a @ ''='' @ arg_text v])"
  using assms by (auto simp: option_wf_def add_with_value_eq add_equals_eq)

theorem add_with_value_all_or_nothing_witness:
  "parts (add_with_value (OptionString [] (AStr ''-'')) (AStr ''m'') (AInt 512)) = [''-m'', ''512''] \<and>
   parts (add_equals (OptionString [] (AStr ''-'')) (AStr ''m'') ANone) = []"
proof -
  have t: "arg_text (AStr ''m'') = ''m''" "arg_text (AInt 512) = ''512''" "arg_text ANone = []"
    by code_simp+
  have w: "option_wf (OptionString [] (AStr ''-''))" by (rule OptionString_wf)
  have o: "parts (OptionString [] (AStr ''-'')) = []" "prefix (OptionString [] (AStr ''-'')) = ''-''"
    by code_simp+
  show ?thesis
    using add_with_value_all_or_nothing [OF w, of "AStr ''m''" "AInt 512"]
      add_with_value_all_or_nothing [OF w, of "AStr ''m''" ANone]
    by (simp add: t o)
qed

text \<open>
  With a missing key the conditional methods fall back to their default
  condition, the string \<open>False\<close>, which Python counts as true: the parameter is added.
\<close>

theorem missing_key_adds:
  "map_of m key = None \<Longrightarrow> add_if_from_dict os a key m default_condition = add os a"
  by (simp add: add_if_from_dict_def add_if_def dict_get_default_def default_condition_def)

theorem missing_key_adds_witness:
  "add_if_from_dict (OptionString [] (AStr '''')) (AStr ''x'') ''k'' [] default_condition =
     add (OptionString [] (AStr '''')) (AStr ''x'') \<and>
   parts (add (OptionString [] (AStr '''')) (AStr ''x'')) = [''x'']"
proof -
  have "parts (add (OptionString [] (AStr '''')) (AStr ''x'')) = [''x'']" by code_simp
  then show ?thesis using missing_key_adds [of "[]" "''k''"] by simp
qed

end
