(* ===== verification/PyVal.thy ===== *)
theory PyVal
  imports Prelude "HOL-Library.Word"
begin

text \<open>
  The values of the topology dictionary and of VPP API messages: nested dictionaries with string
  keys, lists, strings, integers, truth values, bytes and \<open>None\<close>, and the operators the sources apply to them (subscription, \<open>get\<close>,
  \<open>in\<close>, item assignment, \<open>int\<close>), each raising what Python raises on a value of another type.
\<close>

section \<open>Values\<close>

datatype pyval =
    VNone
  | VBool bool
  | VInt int
  | VStr string
  | VBytes "8 word list"
  | VList "pyval list"
  | VDict "(string \<times> pyval) list"

type_synonym pyobj = "(string, pyval) pydict"

definition type_error :: py_error where
  "type_error = TypeError ''unsupported operand type''"

text \<open>\<^verbatim>\<open>v[k]\<close> with a string key, and with any key.\<close>

fun sub :: "pyval \<Rightarrow> string \<Rightarrow> pyval res" where
  "sub (VDict d) k = getitem d k"
| "sub v k = Inl type_error"

fun sub_key :: "pyval \<Rightarrow> pyval \<Rightarrow> pyval res" where
  "sub_key (VDict d) (VStr k) = getitem d k"
| "sub_key (VDict d) VNone = Inl (KeyError ''None'')"
| "sub_key (VDict d) (VInt i) = Inl (KeyError (str_of_int i))"
| "sub_key (VDict d) (VBool b) = Inl (KeyError (if b then ''True'' else ''False''))"
| "sub_key (VList xs) (VInt i) = list_get xs i"
| "sub_key (VList xs) (VBool b) = list_get xs (if b then 1 else 0)"
| "sub_key (VBytes bs) (VInt i) = bindE (list_get bs i) (\<lambda>b. Inr (VInt (uint b)))"
| "sub_key (VStr s) (VInt i) = bindE (list_get s i) (\<lambda>c. Inr (VStr [c]))"
| "sub_key v k = Inl type_error"

text \<open>\<^verbatim>\<open>v.get(k)\<close>, \<^verbatim>\<open>v.items()\<close> and \<^verbatim>\<open>v.pop(k)\<close>.\<close>

fun dget :: "pyval \<Rightarrow> string \<Rightarrow> pyval res" where
  "dget (VDict d) k = Inr (case map_of d k of None \<Rightarrow> VNone | Some v \<Rightarrow> v)"
| "dget v k = Inl AttributeError"

fun items :: "pyval \<Rightarrow> pyobj res" where
  "items (VDict d) = Inr d"
| "items v = Inl AttributeError"

fun dpop :: "pyval \<Rightarrow> string \<Rightarrow> pyval res" where
  "dpop (VDict d) k =
     (case map_of d k of None \<Rightarrow> Inl (KeyError k) | Some v \<Rightarrow> Inr (VDict (AList.delete k d)))"
| "dpop v k = Inl AttributeError"

text \<open>\<^verbatim>\<open>k in v\<close> for a string, and \<^verbatim>\<open>v[k] = x\<close>.\<close>

fun py_in :: "string \<Rightarrow> pyval \<Rightarrow> bool res" where
  "py_in k (VDict d) = Inr (map_of d k \<noteq> None)"
| "py_in k (VList xs) = Inr (VStr k \<in> set xs)"
| "py_in k (VStr s) = Inr (str_contains k s)"
| "py_in k v = Inl type_error"

fun setitem :: "pyval \<Rightarrow> string \<Rightarrow> pyval \<Rightarrow> pyval res" where
  "setitem (VDict d) k x = Inr (VDict (AList.update k x d))"
| "setitem v k x = Inl type_error"

text \<open>\<^verbatim>\<open>try: return r except KeyError: return None\<close>.\<close>

fun or_none :: "pyval res \<Rightarrow> pyval res" where
  "or_none (Inl (KeyError k)) = Inr VNone"
| "or_none r = r"

lemma or_none_Inr [simp]: "or_none (Inr v) = Inr v"
  by simp

section \<open>Conversion to an integer\<close>

text \<open>
  \<open>int(s)\<close> of a string: surrounding white space, an optional sign, then decimal digits with
  single underscores allowed between them.
\<close>

definition is_digit :: "char \<Rightarrow> bool" where
  "is_digit c \<longleftrightarrow> 48 \<le> (of_char c :: nat) \<and> (of_char c :: nat) \<le> 57"

definition digit_value :: "char \<Rightarrow> nat" where
  "digit_value c = of_char c - 48"

fun digits_from :: "nat \<Rightarrow> string \<Rightarrow> nat option" where
  "digits_from acc [] = Some acc"
| "digits_from acc (c # cs) =
     (if is_digit c then digits_from (10 * acc + digit_value c) cs
      else if c = CHR ''_'' then
        (case cs of
           [] \<Rightarrow> None
         | d # ds \<Rightarrow>
             if is_digit d then digits_from (10 * acc + digit_value d) ds else None)
      else None)"

definition parse_nat :: "string \<Rightarrow> nat option" where
  "parse_nat s =
     (case s of [] \<Rightarrow> None | c # cs \<Rightarrow> if is_digit c then digits_from (digit_value c) cs else None)"

definition parse_int :: "string \<Rightarrow> int option" where
  "parse_int s =
     (case strip s of
        [] \<Rightarrow> None
      | c # cs \<Rightarrow>
          if c = CHR ''-'' then map_option (\<lambda>n. - int n) (parse_nat cs)
          else if c = CHR ''+'' then map_option int (parse_nat cs)
          else map_option int (parse_nat (c # cs)))"

fun py_int :: "pyval \<Rightarrow> int res" where
  "py_int (VInt i) = Inr i"
| "py_int (VBool b) = Inr (if b then 1 else 0)"
| "py_int (VStr s) =
     (case parse_int s of
        None \<Rightarrow> Inl (ValueError ''invalid literal for int()'')
      | Some i \<Rightarrow> Inr i)"
| "py_int v = Inl type_error"

lemma is_digit_char: "d < 10 \<Longrightarrow> is_digit (char_of (48 + d :: nat))"
  by (simp add: is_digit_def of_char_digit)

lemma digit_value_char: "d < 10 \<Longrightarrow> digit_value (char_of (48 + d :: nat)) = d"
  by (simp add: digit_value_def of_char_digit)

lemma digits_from_append:
  "\<forall>c\<in>set s. is_digit c \<Longrightarrow>
     digits_from acc (s @ t) = digits_from (foldl (\<lambda>a c. 10 * a + digit_value c) acc s) t"
  by (induction s arbitrary: acc) simp_all

lemma str_of_nat_digits: "\<forall>c\<in>set (str_of_nat n). is_digit c"
proof (induction n rule: str_of_nat.induct)
  case (1 n)
  show ?case
  proof (cases "n < 10")
    case True
    then show ?thesis by (simp add: str_of_nat.simps [of n] is_digit_char)
  next
    case False
    with 1 have "\<forall>c\<in>set (str_of_nat (n div 10)). is_digit c" .
    with False show ?thesis by (simp add: str_of_nat.simps [of n] is_digit_char)
  qed
qed

lemma str_of_nat_value: "foldl (\<lambda>a c. 10 * a + digit_value c) 0 (str_of_nat n) = n"
proof (induction n rule: str_of_nat.induct)
  case (1 n)
  then show ?case
    by (cases "n < 10") (simp_all add: str_of_nat.simps [of n] digit_value_char)
qed

lemma parse_nat_str: "parse_nat (str_of_nat n) = Some n"
proof -
  obtain c cs where s: "str_of_nat n = c # cs" by (cases "str_of_nat n") simp_all
  then have "is_digit c" "\<forall>c\<in>set cs. is_digit c" using str_of_nat_digits [of n] by simp_all
  with s str_of_nat_value [of n] digits_from_append [of cs "digit_value c" "[]"] show ?thesis
    by (simp add: parse_nat_def)
qed

lemma digit_not_space: "is_digit c \<Longrightarrow> \<not> is_space c"
  by (auto simp: is_digit_def is_space_def Let_def)

lemma strip_str_of_int: "strip (str_of_int i) = str_of_int i"
proof (rule strip_id)
  have chars: "\<not> is_space c" if "c \<in> set (str_of_nat n)" for c n
    using that str_of_nat_digits digit_not_space by blast
  have "\<not> is_space (hd (str_of_nat n))" "\<not> is_space (last (str_of_nat n))" for n
    by (rule chars [of _ n], simp)+
  moreover have "\<not> is_space CHR ''-''" by (simp add: is_space_def)
  ultimately show "stripped (str_of_int i)" by (simp add: stripped_def str_of_int_def)
qed

lemma py_int_str: "py_int (VStr (str_of_int i)) = Inr i"
proof (cases "i < 0")
  case True
  then have "strip (str_of_int i) = CHR ''-'' # str_of_nat (nat (- i))"
    by (simp add: strip_str_of_int) (simp add: str_of_int_def)
  with True show ?thesis by (simp add: parse_int_def parse_nat_str)
next
  case False
  then have s: "strip (str_of_int i) = str_of_nat (nat i)"
    by (simp add: strip_str_of_int) (simp add: str_of_int_def)
  obtain c cs where c: "str_of_nat (nat i) = c # cs" by (cases "str_of_nat (nat i)") simp_all
  then have "is_digit c" using str_of_nat_digits [of "nat i"] by simp
  then have "c \<noteq> CHR ''-''" "c \<noteq> CHR ''+''" by (auto simp: is_digit_def)
  with False s c parse_nat_str [of "nat i"] show ?thesis by (simp add: parse_int_def)
qed

section \<open>Paths\<close>

fun lookup_path :: "pyval \<Rightarrow> string list \<Rightarrow> pyval option" where
  "lookup_path v [] = Some v"
| "lookup_path (VDict d) (k # ks) =
     (case map_of d k of None \<Rightarrow> None | Some v \<Rightarrow> lookup_path v ks)"
| "lookup_path v (k # ks) = None"

lemma lookup_path_Cons:
  "lookup_path v (k # ks) =
     (case v of VDict d \<Rightarrow> (case map_of d k of None \<Rightarrow> None | Some x \<Rightarrow> lookup_path x ks) | _ \<Rightarrow> None)"
  by (cases v) simp_all

lemma sub_eq [simp]:
  "sub v k = Inr x \<longleftrightarrow> (\<exists>d. v = VDict d \<and> map_of d k = Some x)"
  by (cases v) auto

lemma dget_eq [simp]:
  "dget v k = Inr x \<longleftrightarrow> (\<exists>d. v = VDict d \<and> x = (case map_of d k of None \<Rightarrow> VNone | Some y \<Rightarrow> y))"
  by (cases v) auto

lemma items_eq [simp]: "items v = Inr d \<longleftrightarrow> v = VDict d"
  by (cases v) auto

lemma setitem_eq [simp]:
  "setitem v k x = Inr v' \<longleftrightarrow> (\<exists>d. v = VDict d \<and> v' = VDict (AList.update k x d))"
  by (cases v) auto

section \<open>Formatting\<close>

text \<open>
  \<open>repr\<close> of a string over the first 256 code points: single quotes, unless the string has single
  and no double ones; backslash, the quote and non-printable characters are escaped.
\<close>

definition hex_char :: "nat \<Rightarrow> char" where
  "hex_char n = char_of (if n < 10 then 48 + n else 87 + n)"

definition repr_char :: "char \<Rightarrow> char \<Rightarrow> string" where
  "repr_char quote c =
     (let n = (of_char c :: nat) in
      if c = quote \<or> n = 92 then [CHR 92, c]
      else if n = 9 then [CHR 92, CHR ''t''] else if n = 10 then [CHR 92, CHR ''n'']
      else if n = 13 then [CHR 92, CHR ''r'']
      else if n < 32 \<or> 127 \<le> n \<and> n \<le> 160 \<or> n = 173
      then [CHR 92, CHR ''x'', hex_char (n div 16), hex_char (n mod 16)]
      else [c])"

definition repr_str :: "string \<Rightarrow> string" where
  "repr_str s =
     (let quote = (if CHR 39 \<in> set s \<and> CHR 34 \<notin> set s then CHR 34 else CHR 39)
      in [quote] @ concat (map (repr_char quote) s) @ [quote])"

text \<open>\<open>repr\<close> of bytes: as of a string, but everything outside printable ASCII is escaped.\<close>

definition repr_byte :: "char \<Rightarrow> 8 word \<Rightarrow> string" where
  "repr_byte quote b =
     (if unat b < 127 then repr_char quote (char_of (unat b))
      else [CHR 92, CHR ''x'', hex_char (unat b div 16), hex_char (unat b mod 16)])"

definition repr_bytes :: "8 word list \<Rightarrow> string" where
  "repr_bytes bs =
     (let quote = (if 39 \<in> set bs \<and> 34 \<notin> set bs then CHR 34 else CHR 39)
      in [quote] @ concat (map (repr_byte quote) bs) @ [quote])"

fun py_repr :: "pyval \<Rightarrow> string"
  and repr_list :: "pyval list \<Rightarrow> string list"
  and repr_items :: "(string \<times> pyval) list \<Rightarrow> string list" where
  "py_repr VNone = ''None''"
| "py_repr (VBool b) = (if b then ''True'' else ''False'')"
| "py_repr (VInt i) = str_of_int i"
| "py_repr (VStr s) = repr_str s"
| "py_repr (VBytes b) = CHR ''b'' # repr_bytes b"
| "py_repr (VList xs) = ''['' @ join '', '' (repr_list xs) @ '']''"
| "py_repr (VDict d) = ''{'' @ join '', '' (repr_items d) @ ''}''"
| "repr_list [] = []"
| "repr_list (v # vs) = py_repr v # repr_list vs"
| "repr_items [] = []"
| "repr_items ((k, v) # d) = (repr_str k @ '': '' @ py_repr v) # repr_items d"

text \<open>\<open>str(v)\<close>, as in a format string.\<close>

fun py_str :: "pyval \<Rightarrow> string" where
  "py_str (VStr s) = s"
| "py_str v = py_repr v"

section \<open>Storing an item at a path\<close>

text \<open>
  The contract of a routine that stores an item in nested dictionaries: it descends along the path,
  replaces a missing entry by an empty dictionary and a string by a dictionary with that string as
  its only key (by an empty one, if the string is empty). Two components have such a routine.
\<close>

definition child_of :: "pyobj \<Rightarrow> string \<Rightarrow> pyval" where
  "child_of d k =
     (case map_of d k of
        None \<Rightarrow> VDict []
      | Some (VStr s) \<Rightarrow> if s = '''' then VDict [] else VDict [(s, VStr '''')]
      | Some c \<Rightarrow> c)"

text \<open>Two paths diverge when neither is a prefix of the other.\<close>

fun diverge :: "string list \<Rightarrow> string list \<Rightarrow> bool" where
  "diverge (a # as) (b # bs) = (a \<noteq> b \<or> diverge as bs)"
| "diverge as bs = False"

lemma child_of_found:
  "map_of d k = Some w \<Longrightarrow> lookup_path w q = Some y \<Longrightarrow> q \<noteq> [] \<Longrightarrow> child_of d k = w"
  by (cases q; cases w) (simp_all add: child_of_def)

locale item_store =
  fixes store :: "pyval \<Rightarrow> pyval \<Rightarrow> string list \<Rightarrow> pyval res"
  assumes store_nowhere: "store v x [] = Inl IndexError"
    and store_here: "store v x [k] = setitem v k x"
    and store_below: "store (VDict d) x (k # k' # ks) =
      bindE (store (child_of d k) x (k' # ks)) (\<lambda>c. Inr (VDict (AList.update k c d)))"
    and store_dict: "store v x (k # ks) = Inr v' \<Longrightarrow> \<exists>d. v = VDict d"
begin

lemma store_step:
  assumes "store v x (k # k' # ks) = Inr v'"
  obtains d c where "v = VDict d" and "v' = VDict (AList.update k c d)"
    and "store (child_of d k) x (k' # ks) = Inr c"
proof -
  obtain d where d: "v = VDict d" using store_dict [OF assms] ..
  with assms that show ?thesis by (auto simp: store_below)
qed

lemma store_lookup: "store v x p = Inr v' \<Longrightarrow> lookup_path v' p = Some x"
proof (induction p arbitrary: v v')
  case Nil
  then show ?case by (simp add: store_nowhere)
next
  case (Cons k p)
  show ?case
  proof (cases p)
    case Nil
    with Cons.prems show ?thesis by (auto simp: store_here pd.lookup_store)
  next
    case (Cons k' ks)
    with Cons.prems have "store v x (k # k' # ks) = Inr v'" by (simp only:)
    then obtain d c where "v' = VDict (AList.update k c d)" "store (child_of d k) x p = Inr c"
      unfolding Cons by (rule store_step)
    with Cons.IH show ?thesis by (simp add: pd.lookup_store)
  qed
qed

lemma store_frame:
  "store v x p = Inr v' \<Longrightarrow> diverge p q \<Longrightarrow> lookup_path v q = Some y \<Longrightarrow> lookup_path v' q = Some y"
proof (induction p arbitrary: v v' q)
  case (Cons k p)
  obtain j q' where q: "q = j # q'" using Cons.prems by (cases q) auto
  show ?case
  proof (cases p)
    case Nil
    with Cons.prems q show ?thesis by (auto simp: store_here pd.lookup_store)
  next
    case (Cons k' ks)
    with Cons.prems(1) have "store v x (k # k' # ks) = Inr v'" by (simp only:)
    then obtain d c where
      v: "v = VDict d" "v' = VDict (AList.update k c d)" "store (child_of d k) x p = Inr c"
      unfolding Cons by (rule store_step)
    show ?thesis
    proof (cases "j = k")
      case False
      with Cons.prems v q show ?thesis by (simp add: pd.lookup_store)
    next
      case True
      then have div: "diverge p q'" using Cons.prems q by simp
      then have "q' \<noteq> []" using Cons by (cases q') auto
      moreover obtain w where w: "map_of d k = Some w" "lookup_path w q' = Some y"
        using Cons.prems v q True by (auto split: option.splits)
      ultimately have "child_of d k = w" by (intro child_of_found)
      with Cons.IH [OF v(3) div] w v q True show ?thesis by (simp add: pd.lookup_store)
    qed
  qed
qed simp

end

end
