(* ===== verification/Topology.thy ===== *)
theory Topology
  imports PyVal
begin

text \<open>
  \<open>topology.py\<close>: the active topology, a dictionary of nodes whose entry \<open>interfaces\<close> maps
  port keys to interface dictionaries. A node is a \<open>pyobj\<close>; an operation that mutates returns the
  new node, and one that raises yields the exception only.
\<close>

type_synonym node = pyobj
type_synonym nodes = "(string, node) pydict"

section \<open>Items and ports\<close>

fun add_node_item :: "pyval \<Rightarrow> pyval \<Rightarrow> string list \<Rightarrow> pyval res" where
  "add_node_item v x [] = Inl IndexError"
| "add_node_item v x [k] = setitem v k x"
| "add_node_item v x (k # k' # ks) =
     (case v of
        VDict d \<Rightarrow>
          (let child = (case map_of d k of
                          None \<Rightarrow> VDict []
                        | Some (VStr s) \<Rightarrow> if s = '''' then VDict [] else VDict [(s, VStr '''')]
                        | Some c \<Rightarrow> c)
           in bindE (add_node_item child x (k' # ks)) (\<lambda>c. Inr (VDict (AList.update k c d))))
      | _ \<Rightarrow> Inl type_error)"

definition interfaces :: "node \<Rightarrow> pyval res" where
  "interfaces node = getitem node ''interfaces''"

definition set_interfaces :: "node \<Rightarrow> pyval \<Rightarrow> node" where
  "set_interfaces node ifs = AList.update ''interfaces'' ifs node"

definition max_ports :: nat where
  "max_ports = 1000000"

definition port_free :: "pyobj \<Rightarrow> string \<Rightarrow> bool" where
  "port_free ifs key \<longleftrightarrow> map_of ifs key \<in> {None, Some VNone}"

function first_free_port :: "pyobj \<Rightarrow> string \<Rightarrow> nat \<Rightarrow> string option" where
  "first_free_port ifs ptype i =
     (if max_ports \<le> i then None
      else if port_free ifs (ptype @ str_of_nat i) then Some (ptype @ str_of_nat i)
      else first_free_port ifs ptype (Suc i))"
  by pat_completeness auto
termination by (relation "measure (\<lambda>(ifs, ptype, i). max_ports - i)") auto

declare first_free_port.simps [simp del]

definition add_new_port :: "node \<Rightarrow> string \<Rightarrow> (string option \<times> node) res" where
  "add_new_port node ptype =
     bindE (interfaces node) (\<lambda>v.
     bindE (items v) (\<lambda>ifs.
     case first_free_port ifs ptype 1 of
       None \<Rightarrow> Inr (None, node)
     | Some iface \<Rightarrow>
         Inr (Some iface, set_interfaces node (VDict (AList.update iface (VDict []) ifs)))))"

definition remove_port :: "node \<Rightarrow> string \<Rightarrow> node res" where
  "remove_port node iface_key =
     (case bindE (interfaces node) (\<lambda>v. dpop v iface_key) of
        Inl (KeyError k) \<Rightarrow> Inr node
      | Inl e \<Rightarrow> Inl e
      | Inr v \<Rightarrow> Inr (set_interfaces node v))"

text \<open>
  Ports whose key satisfies a predicate are popped one by one. \<open>bad\<close> is what the test of the key
  raises on a value that is not a string, should \<open>interfaces\<close> be a list.
\<close>

fun pop_from_list :: "(string \<Rightarrow> bool) \<Rightarrow> py_error \<Rightarrow> pyval list \<Rightarrow> py_error option" where
  "pop_from_list p bad [] = None"
| "pop_from_list p bad (VStr k # xs) = (if p k then Some type_error else pop_from_list p bad xs)"
| "pop_from_list p bad (x # xs) = Some bad"

definition remove_ports :: "(string \<Rightarrow> bool) \<Rightarrow> py_error \<Rightarrow> node \<Rightarrow> node res" where
  "remove_ports p bad node =
     bindE (interfaces node) (\<lambda>v.
     case v of
       VDict ifs \<Rightarrow>
         Inr (set_interfaces node (VDict (fold AList.delete (filter p (map fst ifs)) ifs)))
     | VList xs \<Rightarrow> (case pop_from_list p bad xs of Some e \<Rightarrow> Inl e | None \<Rightarrow> Inr node)
     | VStr s \<Rightarrow> if list_ex (\<lambda>c. p [c]) s then Inl AttributeError else Inr node
     | _ \<Rightarrow> Inl type_error)"

definition remove_all_ports :: "node \<Rightarrow> string \<Rightarrow> node res" where
  "remove_all_ports node ptype = remove_ports (\<lambda>k. startswith k ptype) AttributeError node"

definition port_types :: "string list" where
  "port_types =
     [''subinterface'', ''vlan_subif'', ''memif'', ''tap'', ''vhost'', ''loopback'',
      ''gre_tunnel'', ''vxlan_tunnel'', ''eth_bond'', ''eth_avf'', ''eth_rdma'']"

text \<open>A loop over \<^verbatim>\<open>nodes.values()\<close> that changes the DUT nodes.\<close>

definition on_duts :: "(node \<Rightarrow> node res) \<Rightarrow> nodes \<Rightarrow> nodes res" where
  "on_duts f nodes =
     mapE (\<lambda>(name, node).
       bindE (getitem node ''type'') (\<lambda>t.
         if t = VStr ''DUT'' then bindE (f node) (\<lambda>node'. Inr (name, node'))
         else Inr (name, node))) nodes"

definition remove_all_added_ports_on_all_duts_from_topology :: "nodes \<Rightarrow> nodes res" where
  "remove_all_added_ports_on_all_duts_from_topology nodes =
     on_duts (\<lambda>node. foldE remove_all_ports node port_types) nodes"

text \<open>\<^verbatim>\<open>re.match(r"port\d+_vif\d+", key)\<close>: a prefix of the key has that form.\<close>

definition vif_key :: "string \<Rightarrow> bool" where
  "vif_key key \<longleftrightarrow>
     startswith key ''port'' \<and>
     (let rest = drop 4 key; after = dropWhile is_digit rest
      in after \<noteq> rest \<and> startswith after ''_vif'' \<and>
         (case drop 4 after of [] \<Rightarrow> False | c # cs \<Rightarrow> is_digit c))"

definition remove_all_vif_ports :: "node \<Rightarrow> node res" where
  "remove_all_vif_ports node = remove_ports vif_key type_error node"

definition remove_all_added_vif_ports_on_all_duts_from_topology :: "nodes \<Rightarrow> nodes res" where
  "remove_all_added_vif_ports_on_all_duts_from_topology nodes = on_duts remove_all_vif_ports nodes"

section \<open>Updating an interface\<close>

text \<open>\<^verbatim>\<open>node["interfaces"][iface_key][field] = value\<close>\<close>

definition set_interface_field :: "node \<Rightarrow> string \<Rightarrow> string \<Rightarrow> pyval \<Rightarrow> node res" where
  "set_interface_field node iface_key field x =
     bindE (interfaces node) (\<lambda>ifs.
     bindE (sub ifs iface_key) (\<lambda>iface.
     bindE (setitem iface field x) (\<lambda>iface'.
     bindE (setitem ifs iface_key iface') (\<lambda>ifs'.
     Inr (set_interfaces node ifs')))))"

definition update_interface_sw_if_index :: "node \<Rightarrow> string \<Rightarrow> pyval \<Rightarrow> node res" where
  "update_interface_sw_if_index node iface_key sw_if_index =
     bindE (py_int sw_if_index) (\<lambda>i. set_interface_field node iface_key ''vpp_sw_index'' (VInt i))"

definition update_interface_name :: "node \<Rightarrow> string \<Rightarrow> string \<Rightarrow> node res" where
  "update_interface_name node iface_key name = set_interface_field node iface_key ''name'' (VStr name)"

definition update_interface_mac_address :: "node \<Rightarrow> string \<Rightarrow> string \<Rightarrow> node res" where
  "update_interface_mac_address node iface_key mac =
     set_interface_field node iface_key ''mac_address'' (VStr mac)"

definition update_interface_pci_address :: "node \<Rightarrow> string \<Rightarrow> string \<Rightarrow> node res" where
  "update_interface_pci_address node iface_key pci =
     set_interface_field node iface_key ''pci_address'' (VStr pci)"

definition update_interface_vlan :: "node \<Rightarrow> string \<Rightarrow> pyval \<Rightarrow> node res" where
  "update_interface_vlan node iface_key vlan =
     bindE (py_int vlan) (\<lambda>i. set_interface_field node iface_key ''vlan'' (VInt i))"

definition update_interface_vhost_socket :: "node \<Rightarrow> string \<Rightarrow> string \<Rightarrow> node res" where
  "update_interface_vhost_socket node iface_key socket =
     set_interface_field node iface_key ''vhost_socket'' (VStr socket)"

definition update_interface_memif_socket :: "node \<Rightarrow> string \<Rightarrow> string \<Rightarrow> node res" where
  "update_interface_memif_socket node iface_key socket =
     set_interface_field node iface_key ''memif_socket'' (VStr socket)"

definition update_interface_memif_id :: "node \<Rightarrow> string \<Rightarrow> string \<Rightarrow> node res" where
  "update_interface_memif_id node iface_key memif_id =
     set_interface_field node iface_key ''memif_id'' (VStr memif_id)"

definition update_interface_memif_role :: "node \<Rightarrow> string \<Rightarrow> string \<Rightarrow> node res" where
  "update_interface_memif_role node iface_key role =
     set_interface_field node iface_key ''memif_role'' (VStr role)"

definition update_interface_tap_dev_name :: "node \<Rightarrow> string \<Rightarrow> string \<Rightarrow> node res" where
  "update_interface_tap_dev_name node iface_key dev_name =
     set_interface_field node iface_key ''dev_name'' (VStr dev_name)"

section \<open>Looking up nodes, links and interfaces\<close>

text \<open>\<^verbatim>\<open>node["interfaces"].values()\<close> and its items.\<close>

definition interface_items :: "node \<Rightarrow> pyobj res" where
  "interface_items node = bindE (interfaces node) items"

fun get_node_by_hostname :: "nodes \<Rightarrow> string \<Rightarrow> node option res" where
  "get_node_by_hostname [] hostname = Inr None"
| "get_node_by_hostname ((name, node) # nodes) hostname =
     bindE (getitem node ''host'') (\<lambda>h.
       if h = VStr hostname then Inr (Some node) else get_node_by_hostname nodes hostname)"

definition add_link :: "pyval list \<Rightarrow> pyval \<Rightarrow> pyval list res" where
  "add_link links iface =
     bindE (dget iface ''link'') (\<lambda>link.
       Inr (if link \<noteq> VNone \<and> link \<notin> set links then links @ [link] else links))"

definition get_links :: "nodes \<Rightarrow> pyval list res" where
  "get_links nodes =
     foldE (\<lambda>links (name, node).
       bindE (interface_items node) (\<lambda>ifs. foldE add_link links (map snd ifs))) [] nodes"

fun find_interface :: "string \<Rightarrow> pyval \<Rightarrow> pyobj \<Rightarrow> pyval res" where
  "find_interface key x [] = Inr VNone"
| "find_interface key x ((if_key, if_val) # ifs) =
     bindE (dget if_val key) (\<lambda>k_val.
       if k_val \<noteq> VNone \<and> k_val = x then Inr (VStr if_key) else find_interface key x ifs)"

definition get_interface_by_key_value :: "node \<Rightarrow> string \<Rightarrow> pyval \<Rightarrow> pyval res" where
  "get_interface_by_key_value node key x = bindE (interface_items node) (find_interface key x)"

definition get_interface_by_name :: "node \<Rightarrow> pyval \<Rightarrow> pyval res" where
  "get_interface_by_name node iface_name = get_interface_by_key_value node ''name'' iface_name"

definition get_interface_by_link_name :: "node \<Rightarrow> pyval \<Rightarrow> pyval res" where
  "get_interface_by_link_name node link_name = get_interface_by_key_value node ''link'' link_name"

definition get_interface_by_sw_index :: "node \<Rightarrow> pyval \<Rightarrow> pyval res" where
  "get_interface_by_sw_index node sw_if_index =
     get_interface_by_key_value node ''vpp_sw_index'' sw_if_index"

text \<open>\<^verbatim>\<open>node["interfaces"][iface_key].get(field)\<close>\<close>

definition interface_get :: "node \<Rightarrow> pyval \<Rightarrow> string \<Rightarrow> pyval res" where
  "interface_get node iface_key field =
     bindE (interfaces node) (\<lambda>ifs. bindE (sub_key ifs iface_key) (\<lambda>iface. dget iface field))"

definition get_interface_name :: "node \<Rightarrow> pyval \<Rightarrow> pyval res" where
  "get_interface_name node iface_key = or_none (interface_get node iface_key ''name'')"

definition get_interfaces_by_link_names :: "node \<Rightarrow> pyval list \<Rightarrow> pyobj res" where
  "get_interfaces_by_link_names node link_names =
     bindE (foldE (\<lambda>(retval, n) link_name.
         bindE (get_interface_by_link_name node link_name) (\<lambda>iface.
         bindE (get_interface_name node iface) (\<lambda>name.
         Inr (AList.update (''interface'' @ str_of_nat n) name retval, Suc n)))) ([], 1) link_names)
       (\<lambda>(retval, n). Inr retval)"

fun or_none_value :: "pyval res \<Rightarrow> pyval res" where
  "or_none_value (Inl (KeyError k)) = Inr VNone"
| "or_none_value (Inl (ValueError m)) = Inr VNone"
| "or_none_value r = r"

definition get_interface_sw_index :: "node \<Rightarrow> pyval \<Rightarrow> pyval res" where
  "get_interface_sw_index node iface_key =
     or_none_value (case iface_key of
        VStr k \<Rightarrow> interface_get node (VStr k) ''vpp_sw_index''
      | v \<Rightarrow> bindE (py_int v) (\<lambda>i. Inr (VInt i)))"

definition get_interface_sw_index_by_name :: "node \<Rightarrow> pyval \<Rightarrow> pyval res" where
  "get_interface_sw_index_by_name node iface_name =
     or_none_value (case iface_name of
        VStr s \<Rightarrow>
          bindE (get_interface_by_name node (VStr s)) (\<lambda>iface_key.
            interface_get node iface_key ''vpp_sw_index'')
      | v \<Rightarrow> Inl (TypeError ''Interface name must be a string.''))"

definition get_interface_mtu :: "node \<Rightarrow> pyval \<Rightarrow> pyval res" where
  "get_interface_mtu node iface_key = or_none (interface_get node iface_key ''mtu'')"

definition get_node_interfaces :: "node \<Rightarrow> string list res" where
  "get_node_interfaces node = bindE (interface_items node) (\<lambda>ifs. Inr (map fst ifs))"

definition convert_interface_reference_to_key :: "node \<Rightarrow> pyval \<Rightarrow> pyval res" where
  "convert_interface_reference_to_key node iface =
     (case iface of
        VInt i \<Rightarrow>
          bindE (get_interface_by_sw_index node iface) (\<lambda>key.
            if key = VNone then Inl (RuntimeError ''Interface does not exist in topology.'')
            else Inr key)
      | _ \<Rightarrow>
          bindE (get_node_interfaces node) (\<lambda>keys.
          case iface of
            VList xs \<Rightarrow> Inl type_error
          | VDict d \<Rightarrow> Inl type_error
          | _ \<Rightarrow>
            if iface \<in> VStr ` set keys then Inr iface
            else bindE (get_links [(''dut'', node)]) (\<lambda>links.
              if iface \<in> set links then get_interface_by_link_name node iface
              else case iface of
                VStr s \<Rightarrow>
                  bindE (get_interface_by_name node iface) (\<lambda>key.
                    if key = VNone then Inl (RuntimeError ''Interface does not exist in topology.'')
                    else Inr key)
              | _ \<Rightarrow> Inl (TypeError ''Type of interface argument must be integer or string.''))))"

definition convert_interface_reference :: "node \<Rightarrow> pyval \<Rightarrow> string \<Rightarrow> pyval res" where
  "convert_interface_reference node iface wanted_format =
     bindE (convert_interface_reference_to_key node iface) (\<lambda>key.
       if wanted_format = ''key'' then Inr key
       else if wanted_format = ''name'' then get_interface_name node key
       else if wanted_format = ''sw_if_index'' then get_interface_sw_index node key
       else Inl (ValueError ''Unrecognized return value wanted''))"

definition get_interface_numa_node :: "node \<Rightarrow> pyval \<Rightarrow> pyval res" where
  "get_interface_numa_node node iface_key = or_none (interface_get node iface_key ''numa_node'')"

text \<open>
  \<^verbatim>\<open>Counter(xs).most_common()\<close>: values with their counts, by descending count, ties in the order of
  the first occurrence (Python's \<open>sorted\<close> is stable, also when reversed).
\<close>

definition most_common :: "'a list \<Rightarrow> ('a \<times> nat) list" where
  "most_common xs =
     sort_key (\<lambda>(x, n). - int n) (map (\<lambda>x. (x, count_list xs x)) (rev (remdups (rev xs))))"

fun numa_list :: "node \<Rightarrow> pyval list \<Rightarrow> pyval list res" where
  "numa_list node [] = Inr []"
| "numa_list node (if_key # if_keys) =
     (case interface_get node if_key ''numa_node'' of
        Inl (KeyError k) \<Rightarrow> numa_list node if_keys
      | Inl e \<Rightarrow> Inl e
      | Inr v \<Rightarrow> bindE (numa_list node if_keys) (\<lambda>vs. Inr (v # vs)))"

definition get_interfaces_numa_node :: "node \<Rightarrow> pyval list \<Rightarrow> pyval res" where
  "get_interfaces_numa_node node iface_keys =
     bindE (numa_list node iface_keys) (\<lambda>numas.
       let numa_cnt_mc = most_common numas
       in if numa_cnt_mc \<noteq> [] \<and> fst (numa_cnt_mc ! 0) \<noteq> VInt (-1) then Inr (fst (numa_cnt_mc ! 0))
          else if length numa_cnt_mc > 1 \<and> fst (numa_cnt_mc ! 0) = VInt (-1)
          then Inr (fst (numa_cnt_mc ! 1))
          else Inr (VInt 0))"

definition get_interface_mac :: "node \<Rightarrow> pyval \<Rightarrow> pyval res" where
  "get_interface_mac node iface_key = or_none (interface_get node iface_key ''mac_address'')"

definition get_interface_ip4 :: "node \<Rightarrow> pyval \<Rightarrow> pyval res" where
  "get_interface_ip4 node iface_key = or_none (interface_get node iface_key ''ip4_address'')"

definition get_interface_ip4_prefix_length :: "node \<Rightarrow> pyval \<Rightarrow> pyval res" where
  "get_interface_ip4_prefix_length node iface_key =
     bindE (interfaces node) (\<lambda>ifs.
     bindE (sub_key ifs iface_key) (\<lambda>iface.
     bindE (items iface) (\<lambda>d.
     Inr (case map_of d ''ip4_prefix_length'' of None \<Rightarrow> VStr ''24'' | Some v \<Rightarrow> v))))"

text \<open>The two loops of \<open>get_adjacent_node_and_interface\<close>.\<close>

fun interface_link :: "string \<Rightarrow> pyobj \<Rightarrow> pyval res" where
  "interface_link iface_key [] = Inr VNone"
| "interface_link iface_key ((if_key, if_val) # ifs) =
     (if if_key = ''mgmt'' then interface_link iface_key ifs
      else if if_key = iface_key then sub if_val ''link''
      else interface_link iface_key ifs)"

fun interface_on_link :: "pyval \<Rightarrow> pyobj \<Rightarrow> string option res" where
  "interface_on_link link [] = Inr None"
| "interface_on_link link ((if_key, if_val) # ifs) =
     bindE (py_in ''link'' if_val) (\<lambda>has_link.
       if \<not> has_link then interface_on_link link ifs
       else bindE (sub if_val ''link'') (\<lambda>l.
         if l = link then Inr (Some if_key) else interface_on_link link ifs))"

fun node_on_link :: "pyval \<Rightarrow> pyval \<Rightarrow> nodes \<Rightarrow> (node \<times> string) option res" where
  "node_on_link host link [] = Inr None"
| "node_on_link host link ((name, node_data) # nodes) =
     bindE (getitem node_data ''host'') (\<lambda>h.
       if h = host then node_on_link host link nodes
       else bindE (interface_items node_data) (\<lambda>ifs.
         bindE (interface_on_link link ifs) (\<lambda>found.
           case found of
             Some if_key \<Rightarrow> Inr (Some (node_data, if_key))
           | None \<Rightarrow> node_on_link host link nodes)))"

definition get_adjacent_node_and_interface ::
    "nodes \<Rightarrow> node \<Rightarrow> string \<Rightarrow> (node \<times> string) option res" where
  "get_adjacent_node_and_interface nodes_info node iface_key =
     bindE (interface_items node) (\<lambda>ifs.
     bindE (interface_link iface_key ifs) (\<lambda>link_name.
     if link_name = VNone \<or> nodes_info = [] then Inr None
     else bindE (getitem node ''host'') (\<lambda>host.
          node_on_link host link_name nodes_info)))"

definition get_interface_pci_addr :: "node \<Rightarrow> pyval \<Rightarrow> pyval res" where
  "get_interface_pci_addr node iface_key = or_none (interface_get node iface_key ''pci_address'')"

definition get_interface_driver :: "node \<Rightarrow> pyval \<Rightarrow> pyval res" where
  "get_interface_driver node iface_key = or_none (interface_get node iface_key ''driver'')"

definition get_interface_vlan :: "node \<Rightarrow> pyval \<Rightarrow> pyval res" where
  "get_interface_vlan node iface_key = or_none (interface_get node iface_key ''vlan'')"

fun link_mac :: "pyval \<Rightarrow> pyval list \<Rightarrow> pyval res" where
  "link_mac link [] = Inr VNone"
| "link_mac link (port # ports) =
     bindE (dget port ''link'') (\<lambda>l.
       if l = link then dget port ''mac_address'' else link_mac link ports)"

definition get_node_link_mac :: "node \<Rightarrow> pyval \<Rightarrow> pyval res" where
  "get_node_link_mac node link_name =
     bindE (interface_items node) (\<lambda>ifs. link_mac link_name (map snd ifs))"

section \<open>Connecting links\<close>

definition active_links :: "pyval list option \<Rightarrow> pyval list \<Rightarrow> pyval \<Rightarrow> pyval list res" where
  "active_links filter_list link_names iface =
     bindE (py_in ''link'' iface) (\<lambda>has_link.
       if \<not> has_link then Inr link_names
       else case filter_list of
         None \<Rightarrow> bindE (sub iface ''link'') (\<lambda>l. Inr (link_names @ [l]))
       | Some filts \<Rightarrow>
           bindE (py_in ''model'' iface) (\<lambda>has_model.
             if \<not> has_model then Inr link_names
             else foldE (\<lambda>acc filt.
                    bindE (sub iface ''model'') (\<lambda>m.
                      if filt = m then bindE (sub iface ''link'') (\<lambda>l. Inr (acc @ [l]))
                      else Inr acc)) link_names filts))"

definition get_node_active_link_names :: "node \<Rightarrow> pyval list option \<Rightarrow> pyval list option res" where
  "get_node_active_link_names node filter_list =
     bindE (interface_items node) (\<lambda>ifs.
     bindE (foldE (active_links filter_list) [] (map snd ifs)) (\<lambda>link_names.
     Inr (if link_names = [] then None else Some link_names)))"

definition get_active_connecting_links ::
    "node \<Rightarrow> node \<Rightarrow> pyval list option \<Rightarrow> pyval list option \<Rightarrow> pyval list option res" where
  "get_active_connecting_links node1 node2 filter1 filter2 =
     bindE (get_node_active_link_names node1 filter1) (\<lambda>node1_links.
     bindE (get_node_active_link_names node2 filter2) (\<lambda>node2_links.
     Inr (case node1_links of
            None \<Rightarrow> None
          | Some links1 \<Rightarrow>
              (case node2_links of
                 None \<Rightarrow> None
               | Some links2 \<Rightarrow> Some (filter (\<lambda>link. link \<in> set links2) links1)))))"

definition get_first_active_connecting_link :: "node \<Rightarrow> node \<Rightarrow> pyval res" where
  "get_first_active_connecting_link node1 node2 =
     bindE (get_active_connecting_links node1 node2 None None) (\<lambda>links.
       case links of
         Some (l # ls) \<Rightarrow> Inr l
       | _ \<Rightarrow> Inl (RuntimeError ''No links connecting the nodes were found''))"

definition egress_name :: "pyval list \<Rightarrow> pyval list \<Rightarrow> pyval \<Rightarrow> pyval list res" where
  "egress_name links names iface =
     bindE (dget iface ''link'') (\<lambda>link.
       if link = VNone \<or> link \<in> set links then Inr names
       else bindE (dget iface ''name'') (\<lambda>name.
         Inr (if name = VNone then names else names @ [name])))"

definition get_egress_interfaces_name_for_nodes :: "node \<Rightarrow> node \<Rightarrow> pyval list res" where
  "get_egress_interfaces_name_for_nodes node1 node2 =
     bindE (get_active_connecting_links node1 node2 None None) (\<lambda>found.
       case found of
         Some (l # ls) \<Rightarrow>
           bindE (interface_items node1) (\<lambda>ifs. foldE (egress_name (l # ls)) [] (map snd ifs))
       | _ \<Rightarrow> Inl (RuntimeError ''No link between nodes''))"

definition get_first_egress_interface_for_nodes :: "node \<Rightarrow> node \<Rightarrow> pyval res" where
  "get_first_egress_interface_for_nodes node1 node2 =
     bindE (get_egress_interfaces_name_for_nodes node1 node2) (\<lambda>names.
       case names of
         [] \<Rightarrow> Inl (RuntimeError ''No egress interface for nodes'')
       | n # ns \<Rightarrow> Inr n)"

definition get_links_dict_from_nodes :: "node \<Rightarrow> node \<Rightarrow> node \<Rightarrow> pyobj res" where
  "get_links_dict_from_nodes tgen dut1 dut2 =
     bindE (get_first_active_connecting_link dut1 dut2) (\<lambda>dut1_dut2_link.
     bindE (get_first_active_connecting_link dut1 tgen) (\<lambda>dut1_tg_link.
     bindE (get_first_active_connecting_link dut2 tgen) (\<lambda>dut2_tg_link.
     Inr [(''DUT1_DUT2_LINK'', dut1_dut2_link),
          (''DUT1_TG_LINK'', dut1_tg_link),
          (''DUT2_TG_LINK'', dut2_tg_link),
          (''TG_TRAFFIC_LINKS'', VList [dut1_tg_link, dut2_tg_link]),
          (''DUT1_BD_LINKS'', VList [dut1_dut2_link, dut1_tg_link]),
          (''DUT2_BD_LINKS'', VList [dut1_dut2_link, dut2_tg_link])])))"

section \<open>Node attributes and sockets\<close>

definition is_tg_node :: "node \<Rightarrow> bool res" where
  "is_tg_node node = bindE (getitem node ''type'') (\<lambda>t. Inr (t = VStr ''TG''))"

definition get_node_hostname :: "node \<Rightarrow> pyval res" where
  "get_node_hostname node = getitem node ''host''"

definition get_node_arch :: "node \<Rightarrow> pyval \<times> node" where
  "get_node_arch node =
     (case map_of node ''arch'' of
        Some a \<Rightarrow> (a, node)
      | None \<Rightarrow> (VStr ''x86_64'', AList.update ''arch'' (VStr ''x86_64'') node))"

definition get_cryptodev :: "node \<Rightarrow> pyval res" where
  "get_cryptodev node = or_none (getitem node ''cryptodev'')"

definition get_uio_driver :: "node \<Rightarrow> pyval res" where
  "get_uio_driver node = or_none (getitem node ''uio_driver'')"

definition set_interface_numa_node :: "node \<Rightarrow> string \<Rightarrow> pyval \<Rightarrow> (string option \<times> node) res" where
  "set_interface_numa_node node iface_key numa_node_id =
     (case set_interface_field node iface_key ''numa_node'' numa_node_id of
        Inl (KeyError k) \<Rightarrow> Inr (None, node)
      | Inl e \<Rightarrow> Inl e
      | Inr node' \<Rightarrow> Inr (Some iface_key, node'))"

definition add_new_socket :: "node \<Rightarrow> string \<Rightarrow> string \<Rightarrow> string \<Rightarrow> node res" where
  "add_new_socket node socket_type socket_id socket_path =
     bindE (add_node_item (VDict node) (VStr socket_path) [''sockets'', socket_type, socket_id]) items"

definition del_node_socket_id :: "node \<Rightarrow> string \<Rightarrow> string \<Rightarrow> node res" where
  "del_node_socket_id node socket_type socket_id =
     bindE (getitem node ''sockets'') (\<lambda>sockets.
     bindE (sub sockets socket_type) (\<lambda>ids.
     bindE (dpop ids socket_id) (\<lambda>ids'.
     bindE (setitem sockets socket_type ids') (\<lambda>sockets'.
     Inr (AList.update ''sockets'' sockets' node)))))"

definition get_node_sockets :: "node \<Rightarrow> string option \<Rightarrow> pyval res" where
  "get_node_sockets node socket_type =
     or_none (bindE (getitem node ''sockets'') (\<lambda>sockets.
       case socket_type of
         Some (c # cs) \<Rightarrow> sub sockets (c # cs)
       | _ \<Rightarrow> Inr sockets))"

definition clean_sockets_on_all_nodes :: "nodes \<Rightarrow> nodes" where
  "clean_sockets_on_all_nodes nodes = map (\<lambda>(name, node). (name, AList.delete ''sockets'' node)) nodes"

section \<open>Properties of item and port operations\<close>

interpretation node_items: item_store add_node_item
proof
  fix v x k ks v'
  assume "add_node_item v x (k # ks) = Inr v'"
  then show "\<exists>d. v = VDict d" by (cases v; cases ks) simp_all
qed (simp_all add: child_of_def Let_def)

text \<open>
  \<open>add_node_item\<close> stores the value at the path and disturbs nothing else: when it does
  not raise, following the path in the new node leads to the value, and every value that was found
  under a path that diverges from it is still found there.
\<close>

theorem add_node_item_stores:
  assumes "add_node_item v x p = Inr v'"
  shows "lookup_path v' p = Some x \<and>
    (\<forall>q y. diverge p q \<longrightarrow> lookup_path v q = Some y \<longrightarrow> lookup_path v' q = Some y)"
  using node_items.store_lookup [OF assms] node_items.store_frame [OF assms] by blast

definition sample_interfaces :: pyobj where
  "sample_interfaces =
     [(''port1'', VDict [(''link'', VStr ''link1''), (''name'', VStr ''eth0''),
                         (''vpp_sw_index'', VInt 1), (''numa_node'', VInt 0)]),
      (''port2'', VDict [(''link'', VStr ''link2''), (''numa_node'', VInt 1)]),
      (''memif1'', VDict [])]"

definition sample_node :: node where
  "sample_node =
     [(''type'', VStr ''DUT''), (''host'', VStr ''10.0.0.1''),
      (''interfaces'', VDict sample_interfaces), (''sockets'', VStr '''')]"

theorem add_node_item_stores_witness:
  "\<exists>v'. add_node_item (VDict sample_node) (VStr ''/run/cli'') [''sockets'', ''PAPI'', ''id''] = Inr v' \<and>
    lookup_path v' [''sockets'', ''PAPI'', ''id''] = Some (VStr ''/run/cli'') \<and>
    lookup_path v' [''interfaces'', ''port1'', ''name''] = Some (VStr ''eth0'')"
proof -
  obtain v' where v': "add_node_item (VDict sample_node) (VStr ''/run/cli'')
      [''sockets'', ''PAPI'', ''id''] = Inr v'"
    by (simp add: sample_node_def)
  have "lookup_path (VDict sample_node) [''interfaces'', ''port1'', ''name''] = Some (VStr ''eth0'')"
    by (simp add: sample_node_def sample_interfaces_def)
  moreover have "diverge [''sockets'', ''PAPI'', ''id''] [''interfaces'', ''port1'', ''name'']"
    by simp
  ultimately show ?thesis using v' add_node_item_stores [OF v'] by blast
qed

lemma first_free_port_Some:
  "first_free_port ifs ptype i = Some key \<Longrightarrow>
     \<exists>n. i \<le> n \<and> n < max_ports \<and> key = ptype @ str_of_nat n \<and> port_free ifs key \<and>
       (\<forall>m. i \<le> m \<longrightarrow> m < n \<longrightarrow> \<not> port_free ifs (ptype @ str_of_nat m))"
proof (induction ifs ptype i rule: first_free_port.induct)
  case (1 ifs ptype i)
  show ?case
  proof (cases "port_free ifs (ptype @ str_of_nat i)")
    case True
    with 1(2) show ?thesis
      by (auto simp: first_free_port.simps [of ifs ptype i] split: if_splits)
  next
    case False
    with 1(2) have "\<not> max_ports \<le> i" "first_free_port ifs ptype (Suc i) = Some key"
      by (auto simp: first_free_port.simps [of ifs ptype i] split: if_splits)
    with 1(1) False obtain n where "Suc i \<le> n" "n < max_ports" "key = ptype @ str_of_nat n"
      "port_free ifs key"
      "\<forall>m. Suc i \<le> m \<longrightarrow> m < n \<longrightarrow> \<not> port_free ifs (ptype @ str_of_nat m)" by blast
    with False show ?thesis by (metis Suc_leD Suc_leI le_neq_implies_less)
  qed
qed

lemma first_free_port_None:
  "first_free_port ifs ptype i = None \<Longrightarrow> i \<le> n \<Longrightarrow> n < max_ports \<Longrightarrow>
     \<not> port_free ifs (ptype @ str_of_nat n)"
proof (induction ifs ptype i rule: first_free_port.induct)
  case (1 ifs ptype i)
  then have "\<not> max_ports \<le> i" by simp
  with 1 show ?case
    by (cases "n = i") (auto simp: first_free_port.simps [of ifs ptype i] split: if_splits)
qed

text \<open>Not all of the possible keys can be taken when there are fewer interfaces than keys.\<close>

lemma first_free_port_exists:
  assumes "length ifs < max_ports - 1"
  shows "first_free_port ifs ptype 1 \<noteq> None"
proof
  assume none: "first_free_port ifs ptype 1 = None"
  let ?keys = "(\<lambda>n. ptype @ str_of_nat n) ` {1..<max_ports}"
  have "?keys \<subseteq> set (map fst ifs)"
  proof
    fix key assume "key \<in> ?keys"
    then obtain n where "key = ptype @ str_of_nat n" "1 \<le> n" "n < max_ports" by auto
    with first_free_port_None [OF none] have "map_of ifs key \<noteq> None"
      by (auto simp: port_free_def)
    then show "key \<in> set (map fst ifs)" by (simp add: map_of_eq_None_iff del: not_None_eq)
  qed
  then have "card ?keys \<le> card (set (map fst ifs))" by (intro card_mono) simp_all
  also have "\<dots> \<le> length ifs" by (metis card_length length_map)
  also have "card ?keys = max_ports - 1"
    by (subst card_image) (auto simp: inj_on_def str_of_nat_inject)
  finally show False using assms by simp
qed

text \<open>
  \<open>add_new_port\<close> creates a fresh interface: as long as the node has fewer than 999999
  interfaces it returns the port type followed by the least positive number whose key is unused
  (absent or \<open>None\<close>), the new interface is an empty dictionary, and every other interface and every
  other entry of the node is unchanged.
\<close>

theorem add_new_port_fresh:
  assumes "map_of node ''interfaces'' = Some (VDict ifs)" and "length ifs < 999999"
  shows "\<exists>n node' ifs'. add_new_port node ptype = Inr (Some (ptype @ str_of_nat n), node') \<and>
    1 \<le> n \<and> port_free ifs (ptype @ str_of_nat n) \<and>
    (\<forall>m. 1 \<le> m \<longrightarrow> m < n \<longrightarrow> \<not> port_free ifs (ptype @ str_of_nat m)) \<and>
    map_of node' = (map_of node)(''interfaces'' \<mapsto> VDict ifs') \<and>
    map_of ifs' = (map_of ifs)(ptype @ str_of_nat n \<mapsto> VDict [])"
proof -
  obtain key where key: "first_free_port ifs ptype 1 = Some key"
    using first_free_port_exists [of ifs ptype] assms(2) by (auto simp: max_ports_def)
  from first_free_port_Some [OF this] obtain n where n: "1 \<le> n" "key = ptype @ str_of_nat n"
    "port_free ifs key" "\<forall>m. 1 \<le> m \<longrightarrow> m < n \<longrightarrow> \<not> port_free ifs (ptype @ str_of_nat m)" by blast
  have "add_new_port node ptype =
      Inr (Some key, set_interfaces node (VDict (AList.update key (VDict []) ifs)))"
    using assms(1) key by (simp add: add_new_port_def interfaces_def getitem_def)
  with n show ?thesis
    by (intro exI [of _ n] exI conjI) (auto simp: set_interfaces_def pd.lookup_store)
qed

theorem add_new_port_fresh_witness:
  "\<exists>n node' ifs'. add_new_port sample_node ''memif'' = Inr (Some (''memif'' @ str_of_nat n), node') \<and>
    1 \<le> n \<and> port_free sample_interfaces (''memif'' @ str_of_nat n) \<and>
    (\<forall>m. 1 \<le> m \<longrightarrow> m < n \<longrightarrow> \<not> port_free sample_interfaces (''memif'' @ str_of_nat m)) \<and>
    map_of node' = (map_of sample_node)(''interfaces'' \<mapsto> VDict ifs') \<and>
    map_of ifs' = (map_of sample_interfaces)(''memif'' @ str_of_nat n \<mapsto> VDict [])"
proof -
  have "length sample_interfaces = 3" by (simp add: sample_interfaces_def)
  then have "length sample_interfaces < 999999" by linarith
  moreover have "map_of sample_node ''interfaces'' = Some (VDict sample_interfaces)"
    by (simp add: sample_node_def)
  ultimately show ?thesis
    using add_new_port_fresh [of sample_node sample_interfaces "''memif''"] by blast
qed

text \<open>
  \<open>remove_all_ports\<close> removes exactly the interfaces whose key starts with the port
  type: the others keep their values and their order, and the rest of the node is unchanged.
\<close>

theorem remove_all_ports_exact:
  assumes "map_of node ''interfaces'' = Some (VDict ifs)"
  shows "\<exists>node' ifs'. remove_all_ports node ptype = Inr node' \<and>
    map_of node' = (map_of node)(''interfaces'' \<mapsto> VDict ifs') \<and>
    map fst ifs' = filter (\<lambda>k. \<not> startswith k ptype) (map fst ifs) \<and>
    (\<forall>k. map_of ifs' k = (if startswith k ptype then None else map_of ifs k))"
proof -
  let ?p = "\<lambda>k. startswith k ptype"
  let ?ifs = "fold AList.delete (filter ?p (map fst ifs)) ifs"
  have "remove_all_ports node ptype = Inr (set_interfaces node (VDict ?ifs))"
    using assms by (simp add: remove_all_ports_def remove_ports_def interfaces_def getitem_def)
  moreover have "map fst ?ifs = filter (\<lambda>k. \<not> ?p k) (map fst ifs)"
    unfolding pd.keys_remove_many by (rule filter_cong) auto
  moreover have "map_of ?ifs k = (if ?p k then None else map_of ifs k)" for k
    using pd.keys_lookup [of k ifs] by (auto simp: pd.lookup_remove_many)
  ultimately show ?thesis
    by (intro exI [of _ "set_interfaces node (VDict ?ifs)"] exI [of _ ?ifs])
       (simp add: set_interfaces_def pd.lookup_store)
qed

theorem remove_all_ports_exact_witness:
  "\<exists>node' ifs'. remove_all_ports sample_node ''memif'' = Inr node' \<and>
    map_of node' = (map_of sample_node)(''interfaces'' \<mapsto> VDict ifs') \<and>
    map fst ifs' = filter (\<lambda>k. \<not> startswith k ''memif'') (map fst sample_interfaces) \<and>
    (\<forall>k. map_of ifs' k = (if startswith k ''memif'' then None else map_of sample_interfaces k))"
  by (rule remove_all_ports_exact) (simp add: sample_node_def)

section \<open>Interface fields\<close>

lemma set_interface_field_run:
  assumes "set_interface_field node k f x = Inr node'"
  obtains ifs d where "map_of node ''interfaces'' = Some (VDict ifs)" and "map_of ifs k = Some (VDict d)"
    and "node' = set_interfaces node (VDict (AList.update k (VDict (AList.update f x d)) ifs))"
  using assms by (auto simp: set_interface_field_def interfaces_def)

lemma interface_get_dict:
  "map_of node ''interfaces'' = Some (VDict ifs) \<Longrightarrow>
     interface_get node (VStr k) f = bindE (getitem ifs k) (\<lambda>iface. dget iface f)"
  by (simp add: interface_get_def interfaces_def getitem_def)

text \<open>
  An interface field that is set is read back, and nothing else changes: after
  \<open>node["interfaces"][key][field] = value\<close> succeeds, reading the field of the interface gives the
  value, every other field of every interface reads as before, and so does every other entry of the
  node.
\<close>

theorem interface_field_round_trip:
  assumes "set_interface_field node k f x = Inr node'"
  shows "interface_get node' (VStr k) f = Inr x \<and>
    (\<forall>k' f'. (k', f') \<noteq> (k, f) \<longrightarrow>
       interface_get node' (VStr k') f' = interface_get node (VStr k') f') \<and>
    (\<forall>e. e \<noteq> ''interfaces'' \<longrightarrow> map_of node' e = map_of node e)"
proof -
  obtain ifs d where ifs: "map_of node ''interfaces'' = Some (VDict ifs)"
    "map_of ifs k = Some (VDict d)"
    "node' = set_interfaces node (VDict (AList.update k (VDict (AList.update f x d)) ifs))"
    using set_interface_field_run [OF assms] .
  then have "map_of node' ''interfaces'' = Some (VDict (AList.update k (VDict (AList.update f x d)) ifs))"
    by (simp add: set_interfaces_def pd.lookup_store)
  note get' = interface_get_dict [OF this] and get = interface_get_dict [OF ifs(1)]
  have "interface_get node' (VStr k) f = Inr x"
    by (simp add: get' getitem_update pd.lookup_store)
  moreover have "interface_get node' (VStr k') f' = interface_get node (VStr k') f'"
    if "(k', f') \<noteq> (k, f)" for k' f'
    using that ifs(2) by (auto simp: get get' getitem_update pd.lookup_store getitem_def)
  moreover have "map_of node' e = map_of node e" if "e \<noteq> ''interfaces''" for e
    using that by (simp add: ifs(3) set_interfaces_def pd.lookup_store)
  ultimately show ?thesis by blast
qed

theorem interface_field_round_trip_witness:
  "\<exists>node'. set_interface_field sample_node ''port2'' ''vpp_sw_index'' (VInt 2) = Inr node' \<and>
    interface_get node' (VStr ''port2'') ''vpp_sw_index'' = Inr (VInt 2) \<and>
    (\<forall>k' f'. (k', f') \<noteq> (''port2'', ''vpp_sw_index'') \<longrightarrow>
       interface_get node' (VStr k') f' = interface_get sample_node (VStr k') f') \<and>
    (\<forall>e. e \<noteq> ''interfaces'' \<longrightarrow> map_of node' e = map_of sample_node e)"
proof -
  obtain node' where run: "set_interface_field sample_node ''port2'' ''vpp_sw_index'' (VInt 2) = Inr node'"
    by (simp add: set_interface_field_def interfaces_def getitem_def sample_node_def
        sample_interfaces_def)
  from interface_field_round_trip [OF run] run show ?thesis by blast
qed

section \<open>Links\<close>

definition dict_interfaces :: "pyobj \<Rightarrow> bool" where
  "dict_interfaces ifs \<longleftrightarrow> (\<forall>(k, v) \<in> set ifs. \<exists>d. v = VDict d)"

definition links_of :: "pyobj \<Rightarrow> pyval list" where
  "links_of ifs =
     concat (map (\<lambda>(k, v). case v of
                    VDict d \<Rightarrow> (case map_of d ''link'' of None \<Rightarrow> [] | Some l \<Rightarrow> [l])
                  | _ \<Rightarrow> []) ifs)"

lemma active_links_dict:
  "active_links None acc (VDict d) =
     Inr (acc @ (case map_of d ''link'' of None \<Rightarrow> [] | Some l \<Rightarrow> [l]))"
  by (cases "map_of d ''link''") (simp_all add: active_links_def)

lemma active_links_loop:
  "dict_interfaces ifs \<Longrightarrow> foldE (active_links None) acc (map snd ifs) = Inr (acc @ links_of ifs)"
proof (induction ifs arbitrary: acc)
  case (Cons i ifs)
  then obtain k d where "i = (k, VDict d)" by (auto simp: dict_interfaces_def)
  with Cons show ?case by (auto simp: dict_interfaces_def links_of_def active_links_dict)
qed (simp add: links_of_def)

lemma get_node_active_link_names_dict:
  "map_of node ''interfaces'' = Some (VDict ifs) \<Longrightarrow> dict_interfaces ifs \<Longrightarrow>
     get_node_active_link_names node None =
       Inr (if links_of ifs = [] then None else Some (links_of ifs))"
  by (simp add: get_node_active_link_names_def interface_items_def interfaces_def getitem_def
      active_links_loop)

lemma find_found: "find P xs = Some x \<Longrightarrow> x \<in> set xs \<and> P x"
  by (induction xs) (auto split: if_splits)

text \<open>
  Between two nodes whose interfaces are dictionaries, \<open>get_first_active_connecting_link\<close>
  returns the first link of the first node that is also a link of the second one, and raises
  \<open>RuntimeError\<close> exactly when the nodes have no link in common; in particular it finds a link in one
  direction exactly when it does in the other.
\<close>

theorem first_connecting_link_correct:
  assumes "map_of node1 ''interfaces'' = Some (VDict ifs1)" and "dict_interfaces ifs1"
    and "map_of node2 ''interfaces'' = Some (VDict ifs2)" and "dict_interfaces ifs2"
  shows "get_first_active_connecting_link node1 node2 =
      (case find (\<lambda>l. l \<in> set (links_of ifs2)) (links_of ifs1) of
         Some l \<Rightarrow> Inr l
       | None \<Rightarrow> Inl (RuntimeError ''No links connecting the nodes were found'')) \<and>
    ((\<exists>l. get_first_active_connecting_link node1 node2 = Inr l) \<longleftrightarrow>
     (\<exists>l. get_first_active_connecting_link node2 node1 = Inr l))"
proof -
  have one: "get_first_active_connecting_link n n' =
      (case find (\<lambda>l. l \<in> set (links_of i')) (links_of i) of
         Some l \<Rightarrow> Inr l
       | None \<Rightarrow> Inl (RuntimeError ''No links connecting the nodes were found''))"
    if "map_of n ''interfaces'' = Some (VDict i)" "dict_interfaces i"
      "map_of n' ''interfaces'' = Some (VDict i')" "dict_interfaces i'" for n n' i i'
  proof -
    have "find P xs = (case filter P xs of [] \<Rightarrow> None | y # ys \<Rightarrow> Some y)" for P and xs :: "pyval list"
      by (induction xs) auto
    then show ?thesis
      using get_node_active_link_names_dict [OF that(1,2)] get_node_active_link_names_dict [OF that(3,4)]
      by (auto simp: get_first_active_connecting_link_def get_active_connecting_links_def
          split: list.split)
  qed
  have "(\<exists>l. get_first_active_connecting_link n n' = Inr l) \<longleftrightarrow>
      set (links_of i) \<inter> set (links_of i') \<noteq> {}"
    if "map_of n ''interfaces'' = Some (VDict i)" "dict_interfaces i"
      "map_of n' ''interfaces'' = Some (VDict i')" "dict_interfaces i'" for n n' i i'
    unfolding one [OF that]
    by (auto simp: find_None_iff dest: find_found split: option.split)
  from this [OF assms] this [OF assms(3,4,1,2)] one [OF assms] show ?thesis by blast
qed

definition sample_peer :: node where
  "sample_peer =
     [(''type'', VStr ''TG''), (''host'', VStr ''10.0.0.2''),
      (''interfaces'', VDict [(''port9'', VDict [(''link'', VStr ''link2'')])])]"

theorem first_connecting_link_correct_witness:
  "get_first_active_connecting_link sample_node sample_peer = Inr (VStr ''link2'') \<and>
   (\<exists>l. get_first_active_connecting_link sample_peer sample_node = Inr l)"
proof -
  let ?peer = "[(''port9'', VDict [(''link'', VStr ''link2'')])]"
  have "map_of sample_node ''interfaces'' = Some (VDict sample_interfaces)"
    "map_of sample_peer ''interfaces'' = Some (VDict ?peer)"
    by (simp_all add: sample_node_def sample_peer_def)
  moreover have "dict_interfaces sample_interfaces" "dict_interfaces ?peer"
    by (simp_all add: dict_interfaces_def sample_interfaces_def)
  moreover have "links_of sample_interfaces = [VStr ''link1'', VStr ''link2'']"
    "links_of ?peer = [VStr ''link2'']"
    by (simp_all add: links_of_def sample_interfaces_def)
  ultimately show ?thesis
    using first_connecting_link_correct [of sample_node sample_interfaces sample_peer ?peer]
    by auto
qed

section \<open>Adjacency\<close>

definition has_link :: "pyval \<Rightarrow> pyval \<Rightarrow> bool" where
  "has_link link v \<longleftrightarrow> (\<exists>d. v = VDict d \<and> map_of d ''link'' = Some link)"

lemma interface_on_link_Some:
  "interface_on_link link ifs = Inr (Some k) \<Longrightarrow> \<exists>v. (k, v) \<in> set ifs \<and> has_link link v"
proof (induction ifs)
  case (Cons i ifs)
  obtain k' v' where i: "i = (k', v')" by (cases i)
  show ?case
  proof (cases "k' = k \<and> has_link link v'")
    case False
    with Cons.prems i have "interface_on_link link ifs = Inr (Some k)"
      by (auto simp: has_link_def split: if_splits)
    with Cons.IH show ?thesis by auto
  qed (use i in auto)
qed simp

lemma interface_on_link_None:
  "interface_on_link link ifs = Inr None \<Longrightarrow> (k, v) \<in> set ifs \<Longrightarrow> \<not> has_link link v"
proof (induction ifs)
  case (Cons i ifs)
  obtain k' v' where i: "i = (k', v')" by (cases i)
  with Cons.prems(1) have rest: "interface_on_link link ifs = Inr None" and "\<not> has_link link v'"
    by (auto simp: has_link_def split: if_splits)
  with Cons i show ?case by auto
qed simp

lemma node_on_link_Some:
  "node_on_link host link nodes = Inr (Some (n, k)) \<Longrightarrow>
     \<exists>name h ifs v. (name, n) \<in> set nodes \<and> map_of n ''host'' = Some h \<and> h \<noteq> host \<and>
       interface_items n = Inr ifs \<and> (k, v) \<in> set ifs \<and> has_link link v"
proof (induction nodes)
  case (Cons i nodes)
  obtain name m where i: "i = (name, m)" by (cases i)
  with Cons.prems obtain h where h: "map_of m ''host'' = Some h" by auto
  show ?case
  proof (cases "h = host \<or> (\<exists>ifs. interface_items m = Inr ifs \<and> interface_on_link link ifs = Inr None)")
    case True
    with Cons.prems i h have "node_on_link host link nodes = Inr (Some (n, k))"
      by (auto split: if_splits)
    with Cons.IH show ?thesis by auto
  next
    case False
    with Cons.prems i h obtain ifs where "n = m" "interface_items m = Inr ifs"
      "interface_on_link link ifs = Inr (Some k)"
      by (auto split: if_splits option.splits)
    with False h i interface_on_link_Some show ?thesis by fastforce
  qed
qed simp

lemma node_on_link_None:
  assumes "node_on_link host link nodes = Inr None" and "(name, n) \<in> set nodes"
    and "map_of n ''host'' = Some h" and "h \<noteq> host" and "interface_items n = Inr ifs"
    and "(k, v) \<in> set ifs"
  shows "\<not> has_link link v"
  using assms(1,2)
proof (induction nodes)
  case (Cons i nodes)
  obtain name' m where i: "i = (name', m)" by (cases i)
  show ?case
  proof (cases "i = (name, n)")
    case True
    with Cons.prems(1) i assms(3-5) have "interface_on_link link ifs = Inr None"
      by (auto split: if_splits option.splits)
    with assms(6) interface_on_link_None show ?thesis by blast
  next
    case False
    with Cons.prems i have "node_on_link host link nodes = Inr None" "(name, n) \<in> set nodes"
      by (auto split: if_splits option.splits)
    with Cons.IH show ?thesis by blast
  qed
qed simp

text \<open>
  C40. \<open>get_adjacent_node_and_interface\<close> finds the other end of a link. If it returns a node
  and an interface key, the node is one of the topology with another host name, and that interface
  is on the link of the given interface; if it returns \<open>None\<close> although the given interface has a
  link, no interface of any node with another host name is on that link.
\<close>

theorem adjacent_interface_correct:
  assumes "get_adjacent_node_and_interface nodes_info node iface_key = Inr result"
    and "interface_items node = Inr ifs" and "interface_link iface_key ifs = Inr link"
    and "link \<noteq> VNone" and "map_of node ''host'' = Some host"
  shows "case result of
      Some (n, k) \<Rightarrow> \<exists>name h ifs' v. (name, n) \<in> set nodes_info \<and> map_of n ''host'' = Some h \<and>
        h \<noteq> host \<and> interface_items n = Inr ifs' \<and> (k, v) \<in> set ifs' \<and> has_link link v
    | None \<Rightarrow> \<forall>name n h ifs' k v. (name, n) \<in> set nodes_info \<longrightarrow> map_of n ''host'' = Some h \<longrightarrow>
        h \<noteq> host \<longrightarrow> interface_items n = Inr ifs' \<longrightarrow> (k, v) \<in> set ifs' \<longrightarrow> \<not> has_link link v"
proof -
  have run: "node_on_link host link nodes_info = Inr result"
    using assms by (cases nodes_info) (auto simp: get_adjacent_node_and_interface_def)
  show ?thesis
  proof (cases result)
    case None
    with run node_on_link_None [of host link nodes_info] show ?thesis by simp
  next
    case (Some r)
    then obtain n k where "result = Some (n, k)" by (cases r) auto
    with run node_on_link_Some [of host link nodes_info n k] show ?thesis by simp
  qed
qed

definition sample_nodes :: nodes where
  "sample_nodes = [(''DUT1'', sample_node), (''TG'', sample_peer)]"

theorem adjacent_interface_correct_witness:
  "get_adjacent_node_and_interface sample_nodes sample_node ''port2'' =
     Inr (Some (sample_peer, ''port9'')) \<and>
   (\<exists>name h ifs' v. (name, sample_peer) \<in> set sample_nodes \<and>
      map_of sample_peer ''host'' = Some h \<and> h \<noteq> VStr ''10.0.0.1'' \<and>
      interface_items sample_peer = Inr ifs' \<and> (''port9'', v) \<in> set ifs' \<and>
      has_link (VStr ''link2'') v)"
proof -
  let ?r = "Some (sample_peer, ''port9'')"
  have run: "get_adjacent_node_and_interface sample_nodes sample_node ''port2'' = Inr ?r"
    by (simp add: get_adjacent_node_and_interface_def interface_items_def interfaces_def getitem_def
        sample_nodes_def sample_node_def sample_peer_def sample_interfaces_def)
  have pre: "interface_items sample_node = Inr sample_interfaces"
    "interface_link ''port2'' sample_interfaces = Inr (VStr ''link2'')"
    "map_of sample_node ''host'' = Some (VStr ''10.0.0.1'')"
    by (simp_all add: interface_items_def interfaces_def getitem_def sample_node_def
        sample_interfaces_def)
  from adjacent_interface_correct [OF run pre(1,2) _ pre(3)] run show ?thesis by simp
qed

section \<open>NUMA nodes\<close>

lemma most_common_facts:
  shows "fst ` set (most_common xs) = set xs"
    and "(x, n) \<in> set (most_common xs) \<Longrightarrow> n = count_list xs x"
    and "distinct (map fst (most_common xs))"
    and "i \<le> j \<Longrightarrow> j < length (most_common xs) \<Longrightarrow>
      snd (most_common xs ! j) \<le> snd (most_common xs ! i)"
proof -
  let ?entries = "map (\<lambda>x. (x, count_list xs x)) (rev (remdups (rev xs)))"
  let ?key = "\<lambda>(x, n :: nat). - int n"
  have set: "set (most_common xs) = (\<lambda>x. (x, count_list xs x)) ` set xs"
    by (simp add: most_common_def)
  then show "fst ` set (most_common xs) = set xs" by (simp add: image_image)
  show "(x, n) \<in> set (most_common xs) \<Longrightarrow> n = count_list xs x" using set by auto
  have "distinct (most_common xs)"
    by (simp add: most_common_def distinct_map inj_on_def)
  moreover have "inj_on fst (set (most_common xs))"
    using set by (auto simp: inj_on_def)
  ultimately show "distinct (map fst (most_common xs))" by (simp add: distinct_map)
  assume "i \<le> j" "j < length (most_common xs)"
  moreover have "sorted (map ?key (most_common xs))"
    by (simp add: most_common_def)
  ultimately have "?key (most_common xs ! i) \<le> ?key (most_common xs ! j)"
    using sorted_nth_mono [of "map ?key (most_common xs)" i j] by simp
  then show "snd (most_common xs ! j) \<le> snd (most_common xs ! i)"
    by (simp add: case_prod_beta)
qed

text \<open>The keys that are not found are skipped; the others contribute what \<open>get\<close> returns.\<close>

lemma most_common_eq_Nil [simp]: "most_common xs = [] \<longleftrightarrow> xs = []"
  using most_common_facts(1) [of xs] by auto

text \<open>
  \<open>get_interfaces_numa_node\<close> chooses the majority among the locations it finds: if none
  is found, or all of them are unknown (-1), the answer is 0; otherwise the answer is one of the
  found locations, not -1, and no other location but -1 occurs more often. (An interface without
  the entry \<open>numa_node\<close> counts as location \<open>None\<close>.)
\<close>

theorem numa_node_majority:
  assumes "numa_list node iface_keys = Inr numas"
  shows "\<exists>r. get_interfaces_numa_node node iface_keys = Inr r \<and>
    (if set numas \<subseteq> {VInt (-1)} then r = VInt 0
     else r \<in> set numas \<and> r \<noteq> VInt (-1) \<and>
       (\<forall>v \<in> set numas. v \<noteq> VInt (-1) \<longrightarrow> count_list numas v \<le> count_list numas r))"
proof -
  define mc where "mc = most_common numas"
  have run: "get_interfaces_numa_node node iface_keys =
      (if mc \<noteq> [] \<and> fst (mc ! 0) \<noteq> VInt (-1) then Inr (fst (mc ! 0))
       else if length mc > 1 \<and> fst (mc ! 0) = VInt (-1) then Inr (fst (mc ! 1)) else Inr (VInt 0))"
    using assms by (simp add: get_interfaces_numa_node_def mc_def Let_def)
  have at: "fst (mc ! i) \<in> set numas" "snd (mc ! i) = count_list numas (fst (mc ! i))"
    if "i < length mc" for i
  proof -
    have m: "mc ! i \<in> set (most_common numas)" using that by (simp add: mc_def)
    from imageI [OF m, of fst] show "fst (mc ! i) \<in> set numas"
      by (simp add: most_common_facts(1))
    from m show "snd (mc ! i) = count_list numas (fst (mc ! i))"
      by (intro most_common_facts(2)) simp
  qed
  have ex: "\<exists>i < length mc. v = fst (mc ! i)" if "v \<in> set numas" for v
    using that unfolding mc_def most_common_facts(1) [of numas, symmetric]
    by (metis imageE in_set_conv_nth)
  have best: "count_list numas v \<le> count_list numas (fst (mc ! i))"
    if "v \<in> set numas" "i < length mc" "\<And>j. j < i \<Longrightarrow> v \<noteq> fst (mc ! j)" for v i
  proof -
    from ex [OF that(1)] obtain j where j: "j < length mc" "v = fst (mc ! j)" by blast
    with that(3) have "i \<le> j" by (metis not_le)
    with j most_common_facts(4) [of i j numas] at [OF j(1)] at [OF that(2)] show ?thesis
      by (simp add: mc_def)
  qed
  have second: "fst (mc ! 1) \<noteq> fst (mc ! 0)" if "1 < length mc"
  proof -
    have "0 < length mc" using that by linarith
    then have "map fst mc ! 1 \<noteq> map fst mc ! 0"
      using that most_common_facts(3) [of numas] by (subst nth_eq_iff_index_eq) (auto simp: mc_def)
    with that \<open>0 < length mc\<close> show ?thesis by simp
  qed
  show ?thesis
  proof (cases "mc \<noteq> [] \<and> fst (mc ! 0) \<noteq> VInt (-1)")
    case True
    with run at(1) [of 0] best [of _ 0] show ?thesis by auto
  next
    case first: False
    show ?thesis
    proof (cases "1 < length mc")
      case True
      with first have "fst (mc ! 0) = VInt (-1)" by auto
      with True run at(1) [of 1] best [of _ 1] second show ?thesis by auto
    next
      case False
      have "v = VInt (-1)" if "v \<in> set numas" for v
        using ex [OF that] False first by (cases mc) auto
      then have "set numas \<subseteq> {VInt (-1)}" by blast
      with first False run show ?thesis by auto
    qed
  qed
qed

theorem numa_node_majority_witness:
  "\<exists>r. get_interfaces_numa_node sample_node [VStr ''port1'', VStr ''port2'', VStr ''nic''] = Inr r \<and>
    r \<in> {VInt 0, VInt 1}"
proof -
  have "numa_list sample_node [VStr ''port1'', VStr ''port2'', VStr ''nic''] = Inr [VInt 0, VInt 1]"
    by (simp add: interface_get_def interfaces_def getitem_def sample_node_def sample_interfaces_def)
  from numa_node_majority [OF this] show ?thesis by auto
qed

section \<open>Interface references\<close>

lemma find_interface_Some:
  "find_interface key x ifs = Inr v \<Longrightarrow> v \<noteq> VNone \<Longrightarrow>
     \<exists>k d. v = VStr k \<and> (k, VDict d) \<in> set ifs \<and> map_of d key = Some x"
proof (induction ifs)
  case (Cons i ifs)
  obtain k' v' where i: "i = (k', v')" by (cases i)
  with Cons.prems obtain d where d: "v' = VDict d" by auto
  show ?case
  proof (cases "map_of d key = Some x \<and> x \<noteq> VNone")
    case True
    with Cons.prems i d show ?thesis by auto
  next
    case False
    with Cons.prems i d have "find_interface key x ifs = Inr v"
      by (auto split: if_splits option.splits)
    with Cons.IH Cons.prems show ?thesis by auto
  qed
qed simp

lemma find_interface_None:
  "find_interface key x ifs = Inr VNone \<Longrightarrow> (k, VDict d) \<in> set ifs \<Longrightarrow> x \<noteq> VNone \<Longrightarrow>
     map_of d key \<noteq> Some x"
proof (induction ifs)
  case (Cons i ifs)
  obtain k' v' where i: "i = (k', v')" by (cases i)
  with Cons.prems obtain d' where d: "v' = VDict d'" by auto
  with Cons.prems i have "find_interface key x ifs = Inr VNone" "map_of d' key \<noteq> Some x"
    by (auto split: if_splits option.splits)
  with Cons i d show ?case by auto
qed simp

lemma add_link_loop:
  "foldE add_link acc vs = Inr links \<Longrightarrow> l \<in> set links \<Longrightarrow>
     l \<in> set acc \<or> (l \<noteq> VNone \<and> (\<exists>d. VDict d \<in> set vs \<and> map_of d ''link'' = Some l))"
proof (induction vs arbitrary: acc)
  case (Cons v vs)
  then obtain acc' where run: "add_link acc v = Inr acc'" "foldE add_link acc' vs = Inr links"
    by auto
  then obtain d where v: "v = VDict d" by (cases v) (simp_all add: add_link_def)
  have "set acc' \<subseteq> set acc \<union> {l. l \<noteq> VNone \<and> map_of d ''link'' = Some l}"
    using run(1) v by (auto simp: add_link_def split: if_splits option.splits)
  with Cons.IH [OF run(2) Cons.prems(2)] v show ?case by auto
qed simp

text \<open>
  Every interface reference is resolved to the key of a matching interface: when
  \<open>convert_interface_reference_to_key\<close> returns, the result is a key of the node's interfaces, and
  the reference is that key itself, or the \<open>vpp_sw_index\<close>, the link or the name of an interface
  with that key.
\<close>

theorem interface_reference_sound:
  assumes "convert_interface_reference_to_key node iface = Inr key"
  shows "\<exists>ifs k. interface_items node = Inr ifs \<and> key = VStr k \<and> k \<in> set (map fst ifs) \<and>
    (iface = VStr k \<or>
     (\<exists>d. (k, VDict d) \<in> set ifs \<and>
        (\<exists>field \<in> {''vpp_sw_index'', ''link'', ''name''}. map_of d field = Some iface)))"
proof -
  have found: ?thesis
    if "get_interface_by_key_value node field iface = Inr key" "key \<noteq> VNone"
      "field \<in> {''vpp_sw_index'', ''link'', ''name''}" for field
  proof -
    from that(1) obtain ifs where
      ifs: "interface_items node = Inr ifs" "find_interface field iface ifs = Inr key"
      by (auto simp: get_interface_by_key_value_def)
    with find_interface_Some [OF ifs(2) that(2)] obtain k d where
      kd: "key = VStr k" "(k, VDict d) \<in> set ifs" "map_of d field = Some iface" by auto
    then have "k \<in> set (map fst ifs)" by force
    with ifs(1) kd that(3) show ?thesis by blast
  qed
  consider (index) i where "iface = VInt i" | (other) "\<nexists>i. iface = VInt i" by blast
  then show ?thesis
  proof cases
    case index
    with assms have "get_interface_by_sw_index node iface = Inr key" "key \<noteq> VNone"
      by (auto simp: convert_interface_reference_to_key_def split: if_splits)
    then show ?thesis
      by (intro found [of "''vpp_sw_index''"]) (simp_all add: get_interface_by_sw_index_def)
  next
    case other
    with assms obtain ifs where ifs: "interface_items node = Inr ifs"
      by (cases iface) (auto simp: convert_interface_reference_to_key_def get_node_interfaces_def)
    show ?thesis
    proof (cases "iface \<in> VStr ` set (map fst ifs)")
      case True
      then obtain s where "iface = VStr s" by auto
      with True assms ifs have "key = iface"
        by (simp add: convert_interface_reference_to_key_def get_node_interfaces_def)
      with True ifs show ?thesis by auto
    next
      case new: False
      obtain links where links: "get_links [(''dut'', node)] = Inr links"
        using assms other ifs new
        by (cases iface) (auto simp: convert_interface_reference_to_key_def get_node_interfaces_def)
      show ?thesis
      proof (cases "iface \<in> set links")
        case True
        have by_link: "get_interface_by_link_name node iface = Inr key"
          using assms other ifs new links True
          by (cases iface) (auto simp: convert_interface_reference_to_key_def get_node_interfaces_def)
        have "foldE add_link [] (map snd ifs) = Inr links"
          using links ifs by (simp add: get_links_def)
        from add_link_loop [OF this True] obtain d k where
          "iface \<noteq> VNone" "(k, VDict d) \<in> set ifs" "map_of d ''link'' = Some iface" by auto
        with by_link ifs have "key \<noteq> VNone"
          by (auto simp: get_interface_by_link_name_def get_interface_by_key_value_def
              dest: find_interface_None)
        with by_link show ?thesis
          by (intro found [of "''link''"]) (simp_all add: get_interface_by_link_name_def)
      next
        case False
        then have "get_interface_by_name node iface = Inr key" "key \<noteq> VNone"
          using assms other ifs new links
          by (cases iface; auto simp: convert_interface_reference_to_key_def
              get_node_interfaces_def split: if_splits)+
        then show ?thesis
          by (intro found [of "''name''"]) (simp_all add: get_interface_by_name_def)
      qed
    qed
  qed
qed

theorem interface_reference_sound_witness:
  "\<exists>ifs k. interface_items sample_node = Inr ifs \<and> VStr ''port1'' = VStr k \<and> k \<in> set (map fst ifs) \<and>
    (VStr ''eth0'' = VStr k \<or>
     (\<exists>d. (k, VDict d) \<in> set ifs \<and>
        (\<exists>field \<in> {''vpp_sw_index'', ''link'', ''name''}. map_of d field = Some (VStr ''eth0''))))"
proof -
  have "convert_interface_reference_to_key sample_node (VStr ''eth0'') = Inr (VStr ''port1'')"
    by (simp add: convert_interface_reference_to_key_def get_node_interfaces_def get_links_def
        interface_items_def interfaces_def getitem_def add_link_def get_interface_by_name_def
        get_interface_by_key_value_def sample_node_def sample_interfaces_def)
  from interface_reference_sound [OF this] show ?thesis .
qed

text \<open>
  The location of interfaces that carry no NUMA information is not the documented 0: if
  every given key names an interface without the entry \<open>numa_node\<close> and there is at least one,
  \<open>get_interfaces_numa_node\<close> returns \<open>None\<close>.
\<close>

theorem numa_node_missing_is_None:
  assumes "map_of node ''interfaces'' = Some (VDict ifs)" and "ks \<noteq> []"
    and "\<forall>k\<in>set ks. \<exists>d. map_of ifs k = Some (VDict d) \<and> map_of d ''numa_node'' = None"
  shows "get_interfaces_numa_node node (map VStr ks) = Inr VNone"
proof -
  have numas: "numa_list node (map VStr ks) = Inr (replicate (length ks) VNone)"
    using assms(3)
  proof (induction ks)
    case (Cons k ks)
    then have "interface_get node (VStr k) ''numa_node'' = Inr VNone"
      by (auto simp: interface_get_dict [OF assms(1)] getitem_def)
    with Cons show ?case by simp
  qed simp
  let ?mc = "most_common (replicate (length ks) VNone)"
  have "?mc \<noteq> []" using assms(2) by simp
  moreover have "fst (?mc ! 0) = VNone"
    using most_common_facts(1) [of "replicate (length ks) VNone"] nth_mem [of 0 ?mc] calculation
    by (metis imageI in_set_replicate length_greater_0_conv)
  ultimately show ?thesis
    using numas by (simp add: get_interfaces_numa_node_def Let_def)
qed

theorem numa_node_missing_is_None_witness:
  "get_interfaces_numa_node sample_node (map VStr [''memif1'']) = Inr VNone"
  by (rule numa_node_missing_is_None [of _ sample_interfaces])
     (simp_all add: sample_node_def sample_interfaces_def)

end
