(* ===== verification/CpuUtils.thy ===== *)
theory CpuUtils
  imports Topology
begin

text \<open>
  \<open>CpuUtils.py\<close>: choosing CPU numbers from the output of \<open>lscpu -p\<close>. CPU information is a list
  of rows of integers (CPU, core, socket, NUMA node, ..., caches). The command runner \<open>exec_cmd\<close>
  (\<open>ssh.exec_cmd_no_error\<close>) and the Robot Framework variables are arguments.
\<close>

section \<open>CPU information\<close>

definition NR_OF_THREADS :: nat where
  "NR_OF_THREADS = 2"

type_synonym cpu_info = "int list list"

definition str2int :: "string \<Rightarrow> int" where
  "str2int s = (case parse_int s of None \<Rightarrow> 0 | Some i \<Rightarrow> i)"

text \<open>\<^verbatim>\<open>item[-4:]\<close>\<close>

definition last_four :: "'a list \<Rightarrow> 'a list" where
  "last_four xs = drop (length xs - 4) xs"

definition is_smt_enabled :: "cpu_info \<Rightarrow> bool" where
  "is_smt_enabled cpu_info =
     (let cpu_mems = map last_four cpu_info;
          cpu_mems_len = length cpu_mems div NR_OF_THREADS;
          count = length (filter (\<lambda>m. m \<in> set (drop cpu_mems_len cpu_mems))
                            (take cpu_mems_len cpu_mems))
      in count = cpu_mems_len)"

definition parse_lscpu :: "string \<Rightarrow> cpu_info" where
  "parse_lscpu stdout =
     map (\<lambda>line. map str2int (split_on CHR '','' line))
       (filter (\<lambda>line. line \<noteq> [] \<and> hd line \<noteq> CHR ''#'') (split_on (CHR 0x0A) stdout))"

definition encode_cpu_info :: "cpu_info \<Rightarrow> pyval" where
  "encode_cpu_info rows = VList (map (\<lambda>row. VList (map VInt row)) rows)"

type_synonym 'w command = "node \<Rightarrow> string \<Rightarrow> 'w \<Rightarrow> string res \<times> 'w"

fun get_cpu_info_from_all_nodes :: "'w command \<Rightarrow> nodes \<Rightarrow> 'w \<Rightarrow> nodes res \<times> 'w" where
  "get_cpu_info_from_all_nodes exec_cmd [] w = (Inr [], w)"
| "get_cpu_info_from_all_nodes exec_cmd ((name, node) # nodes) w =
     (case exec_cmd node ''uname -m'' w of
        (Inl e, w1) \<Rightarrow> (Inl e, w1)
      | (Inr arch, w1) \<Rightarrow>
          (let node1 = AList.update ''arch'' (VStr (strip arch)) node
           in case exec_cmd node1 ''lscpu -p'' w1 of
                (Inl e, w2) \<Rightarrow> (Inl e, w2)
              | (Inr out, w2) \<Rightarrow>
                  (let node2 = AList.update ''cpuinfo'' (encode_cpu_info (parse_lscpu out)) node1
                   in case get_cpu_info_from_all_nodes exec_cmd nodes w2 of
                        (Inl e, w3) \<Rightarrow> (Inl e, w3)
                      | (Inr rest, w3) \<Rightarrow> (Inr ((name, node2) # rest), w3))))"

text \<open>
  Reading \<open>node["cpuinfo"]\<close> back: rows of integers, and \<open>None\<close> when the entry is absent or
  \<open>None\<close>; a value of another shape raises \<open>TypeError\<close> as soon as it is used.
\<close>

fun decode_row :: "pyval \<Rightarrow> int list res" where
  "decode_row (VList vs) = mapE (\<lambda>v. case v of VInt i \<Rightarrow> Inr i | _ \<Rightarrow> Inl type_error) vs"
| "decode_row v = Inl type_error"

fun decode_cpu_info :: "pyval \<Rightarrow> cpu_info res" where
  "decode_cpu_info (VList rows) = mapE decode_row rows"
| "decode_cpu_info v = Inl type_error"

definition node_cpu_info :: "node \<Rightarrow> cpu_info option res" where
  "node_cpu_info node =
     (case map_of node ''cpuinfo'' of
        None \<Rightarrow> Inr None
      | Some VNone \<Rightarrow> Inr None
      | Some v \<Rightarrow> bindE (decode_cpu_info v) (\<lambda>rows. Inr (Some rows)))"

definition cpu_node_count :: "node \<Rightarrow> int res" where
  "cpu_node_count node =
     bindE (node_cpu_info node) (\<lambda>info.
       case info of
         None \<Rightarrow> Inl (RuntimeError ''Node cpuinfo not available.'')
       | Some rows \<Rightarrow>
           bindE (list_get rows (-1)) (\<lambda>row. bindE (list_get row 3) (\<lambda>n. Inr (n + 1))))"

section \<open>CPU lists\<close>

text \<open>\<^verbatim>\<open>[cpu[0] for cpu in cpu_info if cpu[3] == cpu_node]\<close>\<close>

fun cpus_on_node :: "int \<Rightarrow> cpu_info \<Rightarrow> int list res" where
  "cpus_on_node cpu_node [] = Inr []"
| "cpus_on_node cpu_node (cpu # cpus) =
     bindE (list_get cpu 3) (\<lambda>n.
       if n = cpu_node then
         bindE (list_get cpu 0) (\<lambda>c. bindE (cpus_on_node cpu_node cpus) (\<lambda>cs. Inr (c # cs)))
       else cpus_on_node cpu_node cpus)"

definition cpu_list_per_node :: "node \<Rightarrow> pyval \<Rightarrow> bool \<Rightarrow> int list res" where
  "cpu_list_per_node node cpu_node smt_used =
     bindE (py_int cpu_node) (\<lambda>numa.
     bindE (node_cpu_info node) (\<lambda>info.
       case info of
         None \<Rightarrow> Inl (RuntimeError ''Node cpuinfo not available.'')
       | Some cpu_info \<Rightarrow>
           (let smt_enabled = is_smt_enabled cpu_info
            in if \<not> smt_enabled \<and> smt_used then Inl (RuntimeError ''SMT is not enabled.'')
               else bindE (cpus_on_node numa cpu_info) (\<lambda>cpu_list.
                 Inr (if smt_enabled \<and> \<not> smt_used
                      then take (length cpu_list div NR_OF_THREADS) cpu_list
                      else cpu_list)))))"

definition cpu_slice_of_list_per_node ::
    "node \<Rightarrow> pyval \<Rightarrow> nat \<Rightarrow> nat \<Rightarrow> bool \<Rightarrow> int list res" where
  "cpu_slice_of_list_per_node node cpu_node skip_cnt cpu_cnt smt_used =
     bindE (cpu_list_per_node node cpu_node smt_used) (\<lambda>cpu_list.
       let cpu_list_len = length cpu_list
       in if cpu_cnt + skip_cnt > cpu_list_len
          then Inl (RuntimeError ''cpu_cnt + skip_cnt > length(cpu list).'')
          else
            (let cnt = (if cpu_cnt = 0 then cpu_list_len - skip_cnt else cpu_cnt);
                 half = cpu_list_len div NR_OF_THREADS
             in if smt_used
                then Inr (py_slice skip_cnt (skip_cnt + cnt) (take half cpu_list) @
                          py_slice skip_cnt (skip_cnt + cnt) (drop half cpu_list))
                else Inr (py_slice skip_cnt (skip_cnt + cnt) cpu_list)))"

definition cpu_list_per_node_str ::
    "node \<Rightarrow> pyval \<Rightarrow> nat \<Rightarrow> nat \<Rightarrow> string \<Rightarrow> bool \<Rightarrow> string res" where
  "cpu_list_per_node_str node cpu_node skip_cnt cpu_cnt sep smt_used =
     bindE (cpu_slice_of_list_per_node node cpu_node skip_cnt cpu_cnt smt_used) (\<lambda>cpu_list.
       Inr (join sep (map str_of_int cpu_list)))"

definition range_str :: "string \<Rightarrow> int list \<Rightarrow> string res" where
  "range_str sep cpus =
     bindE (list_get cpus 0) (\<lambda>a. bindE (list_get cpus (-1)) (\<lambda>b.
       Inr (str_of_int a @ sep @ str_of_int b)))"

definition cpu_range_per_node_str ::
    "node \<Rightarrow> pyval \<Rightarrow> nat \<Rightarrow> nat \<Rightarrow> string \<Rightarrow> bool \<Rightarrow> string res" where
  "cpu_range_per_node_str node cpu_node skip_cnt cpu_cnt sep smt_used =
     bindE (cpu_slice_of_list_per_node node cpu_node skip_cnt cpu_cnt smt_used) (\<lambda>cpu_list.
       if smt_used then
         (let half = length cpu_list div NR_OF_THREADS
          in bindE (range_str sep (take half cpu_list)) (\<lambda>r0.
             bindE (range_str sep (drop half cpu_list)) (\<lambda>r1.
             Inr (r0 @ '','' @ r1))))
       else range_str sep cpu_list)"

section \<open>Placement of network functions\<close>

text \<open>The amount of data plane cores is an integer or a float; a float means half a core.\<close>

datatype nf_dtc = IntDtc nat | FloatDtc real

definition dtc_cores :: "nf_dtc \<Rightarrow> nat" where
  "dtc_cores d = (case d of IntDtc n \<Rightarrow> n | FloatDtc x \<Rightarrow> 1)"

definition dtc_is_integer :: "nf_dtc \<Rightarrow> bool" where
  "dtc_is_integer d = (case d of IntDtc n \<Rightarrow> True | FloatDtc x \<Rightarrow> False)"

definition ceil_div :: "nat \<Rightarrow> nat \<Rightarrow> nat" where
  "ceil_div a b = (a + b - 1) div b"

text \<open>The selection once the list of CPUs and all checks are passed.\<close>

definition nf_cpus ::
    "int list \<Rightarrow> bool \<Rightarrow> nat \<Rightarrow> nat \<Rightarrow> nat \<Rightarrow> nat \<Rightarrow> nf_dtc \<Rightarrow> nat \<Rightarrow> int list" where
  "nf_cpus cpu_list smt_used mt_req dt_req offset skip_cnt dtc sib =
     (let cores = dtc_cores dtc;
          mt_skip = skip_cnt + offset mod mt_req;
          dt_skip = skip_cnt + mt_req + (offset mod dt_req) * cores;
          result = py_slice dt_skip (dt_skip + cores) cpu_list;
          result1 =
            (if \<not> smt_used then result
             else if dtc_is_integer dtc
             then result @ py_slice (dt_skip + sib) (dt_skip + sib + cores) cpu_list
             else if odd (offset div dt_req)
             then py_slice (dt_skip + sib) (dt_skip + sib + cores) cpu_list
             else result);
          mt_skip1 = (if smt_used \<and> odd (offset div mt_req) then mt_skip + sib else mt_skip)
      in py_slice mt_skip1 (mt_skip1 + 1) cpu_list @ result1)"

definition cpu_slice_of_list_for_nf ::
    "node \<Rightarrow> pyval \<Rightarrow> nat \<Rightarrow> nat \<Rightarrow> nat \<Rightarrow> nat \<Rightarrow> nf_dtc \<Rightarrow> nat \<Rightarrow> nat \<Rightarrow> nat \<Rightarrow> int list res" where
  "cpu_slice_of_list_for_nf node cpu_node nf_chains nf_nodes nf_chain nf_node dtc nf_mtcr nf_dtcr
     skip_cnt =
     (if \<not> (1 \<le> nf_chain \<and> nf_chain \<le> nf_chains) then Inl (RuntimeError ''ChainID is out of range!'')
      else if \<not> (1 \<le> nf_node \<and> nf_node \<le> nf_nodes) then Inl (RuntimeError ''NodeID is out of range!'')
      else
        bindE (getitem node ''cpuinfo'') (\<lambda>v.
        bindE (decode_cpu_info v) (\<lambda>cpu_info.
        let smt_used = is_smt_enabled cpu_info
        in bindE (cpu_list_per_node node cpu_node smt_used) (\<lambda>cpu_list.
           let sib = length cpu_list div NR_OF_THREADS
           in if \<not> smt_used \<and> \<not> dtc_is_integer dtc
              then Inl (RuntimeError ''Cannot allocate if SMT is not enabled!'')
              else if nf_mtcr = 0 \<or> nf_dtcr = 0 then Inl ZeroDivisionError
              else
                (let mt_req = ceil_div (nf_chains * nf_nodes) nf_mtcr;
                     dt_req = ceil_div (nf_chains * nf_nodes) nf_dtcr;
                     offset = (nf_node - 1) + (nf_chain - 1) * nf_nodes
                 in if skip_cnt + mt_req + dt_req > (if smt_used then sib else length cpu_list)
                    then Inl (RuntimeError ''Not enough CPU cores available for placement!'')
                    else Inr (nf_cpus cpu_list smt_used mt_req dt_req offset skip_cnt dtc sib))))))"

text \<open>\<open>Constants.CPU_CNT_SYSTEM + Constants.CPU_CNT_MAIN\<close> is 2.\<close>

definition get_affinity_nf ::
    "(string \<Rightarrow> pyval) \<Rightarrow> nodes \<Rightarrow> string \<Rightarrow> nat \<Rightarrow> nat \<Rightarrow> nat \<Rightarrow> nat \<Rightarrow> nat \<Rightarrow> nf_dtc \<Rightarrow> nat \<Rightarrow> nat \<Rightarrow>
     int list res" where
  "get_affinity_nf get_variable_value nodes node nf_chains nf_nodes nf_chain nf_node vs_dtc dtc
     nf_mtcr nf_dtcr =
     (let skip_cnt = 1 + 1 + vs_dtc;
          interface_list =
            [get_variable_value (''${'' @ node @ ''_if1}''), get_variable_value (''${'' @ node @ ''_if2}'')]
      in bindE (getitem nodes node) (\<lambda>n.
         bindE (get_interfaces_numa_node n interface_list) (\<lambda>cpu_node.
         cpu_slice_of_list_for_nf n cpu_node nf_chains nf_nodes nf_chain nf_node dtc nf_mtcr nf_dtcr
           skip_cnt)))"

definition get_affinity_trex ::
    "node \<Rightarrow> pyval \<Rightarrow> pyval \<Rightarrow> nat \<Rightarrow> nat \<Rightarrow> nat \<Rightarrow> (int \<times> int \<times> pyval \<times> int list) res" where
  "get_affinity_trex node if1_pci if2_pci tg_mtc tg_dtc tg_ltc =
     bindE (get_interfaces_numa_node node [if1_pci, if2_pci]) (\<lambda>cpu_node.
     bindE (cpu_slice_of_list_per_node node cpu_node 0 tg_mtc False) (\<lambda>master.
     bindE (cpu_slice_of_list_per_node node cpu_node tg_mtc tg_dtc False) (\<lambda>threads.
     bindE (cpu_slice_of_list_per_node node cpu_node (tg_mtc + tg_dtc) tg_ltc False) (\<lambda>latency.
     bindE (list_get master 0) (\<lambda>m.
     bindE (list_get latency 0) (\<lambda>l.
     Inr (m, l, cpu_node, threads)))))))"

section \<open>Reading CPU information\<close>

lemma mapE_decode_ints: "mapE (\<lambda>v. case v of VInt i \<Rightarrow> Inr i | _ \<Rightarrow> Inl type_error) (map VInt row) = Inr row"
  by (induction row) simp_all

lemma decode_encode: "decode_cpu_info (encode_cpu_info rows) = Inr rows"
  by (induction rows) (simp_all add: encode_cpu_info_def mapE_decode_ints)

lemma node_cpu_info_stored:
  "map_of node ''cpuinfo'' = Some (encode_cpu_info rows) \<Longrightarrow> node_cpu_info node = Inr (Some rows)"
  using decode_encode [of rows] by (simp add: node_cpu_info_def encode_cpu_info_def)

lemma str_of_int_chars: "c \<in> set (str_of_int i) \<Longrightarrow> is_digit c \<or> c = CHR ''-''"
  using str_of_nat_digits by (auto simp: str_of_int_def split: if_splits)

lemma str_of_int_no_separator:
  "CHR '','' \<notin> set (str_of_int i)" "CHR 0x0A \<notin> set (str_of_int i)" "CHR ''#'' \<notin> set (str_of_int i)"
  using str_of_int_chars [of _ i] by (auto simp: is_digit_def dest: str_of_int_chars)

lemma str2int_str_of_int: "str2int (str_of_int i) = i"
  using py_int_str [of i] by (simp add: str2int_def split: option.splits)

lemma str_of_int_nonempty [simp]: "str_of_int i \<noteq> []"
  by (simp add: str_of_int_def)

text \<open>The data lines of \<open>lscpu -p\<close>: comma separated numbers, one CPU per line.\<close>

definition print_row :: "int list \<Rightarrow> string" where
  "print_row row = join '','' (map str_of_int row)"

definition print_lscpu :: "string list \<Rightarrow> cpu_info \<Rightarrow> string" where
  "print_lscpu comments rows = join [CHR 0x0A] (map (\<lambda>c. CHR ''#'' # c) comments @ map print_row rows)"

lemma print_row_facts:
  assumes "row \<noteq> []"
  shows "CHR 0x0A \<notin> set (print_row row)" and "print_row row \<noteq> []" and "hd (print_row row) \<noteq> CHR ''#''"
    and "map str2int (split_on CHR '','' (print_row row)) = row"
proof -
  have chars: "set (print_row row) \<subseteq> {CHR '',''} \<union> (\<Union>i\<in>set row. set (str_of_int i))"
    using set_join [of "'',''" "map str_of_int row"] by (simp add: print_row_def)
  then show "CHR 0x0A \<notin> set (print_row row)"
    using str_of_int_no_separator(2) by (auto dest!: subsetD)
  obtain i js where row: "row = i # js" using assms by (cases row) auto
  then show ne: "print_row row \<noteq> []"
    by (cases js) (simp_all add: print_row_def)
  have "CHR ''#'' \<notin> set (print_row row)"
    using chars str_of_int_no_separator(3) by (auto dest!: subsetD)
  with ne show "hd (print_row row) \<noteq> CHR ''#''" by (metis hd_in_set)
  have "split_on CHR '','' (print_row row) = map str_of_int row"
    unfolding print_row_def using assms str_of_int_no_separator(1) by (intro split_on_join) auto
  then show "map str2int (split_on CHR '','' (print_row row)) = row"
    by (simp add: str2int_str_of_int comp_def)
qed

text \<open>
  Parsing the output of \<open>lscpu -p\<close> inverts printing it: from comment lines followed by
  at least one line of comma separated numbers per CPU, exactly the rows of numbers are read.
\<close>

theorem lscpu_round_trip:
  assumes "rows \<noteq> []" and "\<forall>row\<in>set rows. row \<noteq> []" and "\<forall>c\<in>set comments. CHR 0x0A \<notin> set c"
  shows "parse_lscpu (print_lscpu comments rows) = rows"
proof -
  let ?lines = "map (\<lambda>c. CHR ''#'' # c) comments @ map print_row rows"
  have "split_on (CHR 0x0A) (print_lscpu comments rows) = ?lines"
    unfolding print_lscpu_def using assms print_row_facts(1) by (intro split_on_join) auto
  moreover have "filter (\<lambda>line. line \<noteq> [] \<and> hd line \<noteq> CHR ''#'') ?lines = map print_row rows"
    using assms(2) print_row_facts(2,3) by (induction comments) (auto intro: filter_True)
  ultimately show ?thesis
    using assms(2) print_row_facts(4) by (simp add: parse_lscpu_def comp_def map_idI)
qed

theorem lscpu_round_trip_witness:
  "parse_lscpu (print_lscpu ['' CPU,Core,Socket,Node''] [[0, 0, 0, 0], [1, 1, 0, 0]]) =
     [[0, 0, 0, 0], [1, 1, 0, 0]]"
  by (rule lscpu_round_trip) simp_all

section \<open>Slices of the CPU list\<close>

text \<open>
  Without SMT, \<open>cpu_slice_of_list_per_node\<close> returns exactly the requested number of
  consecutive CPUs of the NUMA node after the skipped ones (all the remaining ones for a count of
  0), and raises \<open>RuntimeError\<close> exactly when there are not that many.
\<close>

theorem cpu_slice_exact:
  assumes "cpu_list_per_node node cpu_node False = Inr cpus"
  shows "cpu_slice_of_list_per_node node cpu_node skip cnt False =
      (if length cpus < cnt + skip
       then Inl (RuntimeError ''cpu_cnt + skip_cnt > length(cpu list).'')
       else Inr (take (if cnt = 0 then length cpus - skip else cnt) (drop skip cpus))) \<and>
    (\<forall>slice'. cpu_slice_of_list_per_node node cpu_node skip cnt False = Inr slice' \<longrightarrow>
       length slice' = (if cnt = 0 then length cpus - skip else cnt) \<and> set slice' \<subseteq> set cpus)"
  using assms
  by (auto simp: cpu_slice_of_list_per_node_def Let_def py_slice_def dest: in_set_takeD in_set_dropD
      split: if_splits)

definition sample_server :: node where
  "sample_server =
     [(''cpuinfo'', encode_cpu_info [[0, 0, 0, 0, 0, 0, 0, 0], [1, 1, 0, 0, 1, 1, 1, 0],
                                     [2, 2, 0, 0, 2, 2, 2, 0], [3, 3, 0, 0, 3, 3, 3, 0]]),
      (''interfaces'', VDict [(''port1'', VDict [(''numa_node'', VInt 0)])])]"

lemma sample_server_info:
  "node_cpu_info sample_server = Inr (Some [[0, 0, 0, 0, 0, 0, 0, 0], [1, 1, 0, 0, 1, 1, 1, 0],
     [2, 2, 0, 0, 2, 2, 2, 0], [3, 3, 0, 0, 3, 3, 3, 0]])"
  by (rule node_cpu_info_stored) (simp add: sample_server_def)

lemma sample_server_cpus: "cpu_list_per_node sample_server (VInt 0) False = Inr [0, 1, 2, 3]"
  by (simp add: cpu_list_per_node_def sample_server_info is_smt_enabled_def last_four_def
      NR_OF_THREADS_def list_get_def)

theorem cpu_slice_exact_witness:
  "cpu_slice_of_list_per_node sample_server (VInt 0) 1 2 False = Inr [1, 2]"
  using cpu_slice_exact [OF sample_server_cpus, of 1 2] by simp

text \<open>
  The CPUs of the T-Rex processes do not overlap: when every thread count is positive and
  the CPU numbers of the NUMA node are distinct, the main thread, the latency thread and the data
  plane threads returned by \<open>get_affinity_trex\<close> are different CPUs of that node.
\<close>

theorem trex_threads_disjoint:
  assumes "get_affinity_trex node if1 if2 mtc dtc ltc = Inr (m, l, cpu_node, threads)"
    and "cpu_list_per_node node cpu_node False = Inr cpus" and "distinct cpus"
    and "0 < mtc" and "0 < dtc" and "0 < ltc"
  shows "m \<noteq> l \<and> m \<notin> set threads \<and> l \<notin> set threads \<and> length threads = dtc \<and>
    insert m (insert l (set threads)) \<subseteq> set cpus"
proof -
  have one: "cpu_slice_of_list_per_node node cpu_node s c False = Inr r \<Longrightarrow> 0 < c \<Longrightarrow>
      r = py_slice s (s + c) cpus \<and> c + s \<le> length cpus" for s c r
    using assms(2) by (auto simp: cpu_slice_of_list_per_node_def Let_def split: if_splits)
  from assms(1) obtain ms ls where runs:
    "cpu_slice_of_list_per_node node cpu_node 0 mtc False = Inr ms"
    "cpu_slice_of_list_per_node node cpu_node mtc dtc False = Inr threads"
    "cpu_slice_of_list_per_node node cpu_node (mtc + dtc) ltc False = Inr ls"
    "list_get ms 0 = Inr m" "list_get ls 0 = Inr l"
    by (auto simp: get_affinity_trex_def)
  have ms: "ms = py_slice 0 mtc cpus"
    and th: "threads = py_slice mtc (mtc + dtc) cpus"
    and ls: "ls = py_slice (mtc + dtc) (mtc + dtc + ltc) cpus"
    and len: "ltc + (mtc + dtc) \<le> length cpus"
    using one [OF runs(1) assms(4)] one [OF runs(2) assms(5)] one [OF runs(3) assms(6)] by simp_all
  have "m \<in> set ms" "l \<in> set ls"
    using runs(4,5) by (cases ms, simp_all) (cases ls, simp_all)
  moreover have "set ms \<inter> set threads = {}" "set threads \<inter> set ls = {}" "set ms \<inter> set ls = {}"
    unfolding ms th ls using assms(3) by (intro slices_disjoint; simp)+
  moreover have "set ms \<subseteq> set cpus" "set ls \<subseteq> set cpus" "set threads \<subseteq> set cpus"
    unfolding ms ls th by (rule set_slice_subset)+
  moreover have "length threads = dtc" using len by (simp add: th length_slice)
  ultimately show ?thesis by auto
qed

theorem trex_threads_disjoint_witness:
  "\<exists>m l threads. get_affinity_trex sample_server (VStr ''port1'') (VStr ''none'') 1 2 1 =
       Inr (m, l, VInt 0, threads) \<and>
     m \<noteq> l \<and> m \<notin> set threads \<and> l \<notin> set threads \<and> length threads = 2 \<and>
     insert m (insert l (set threads)) \<subseteq> set [0, 1, 2, 3]"
proof -
  have "get_interfaces_numa_node sample_server [VStr ''port1'', VStr ''none''] = Inr (VInt 0)"
    by (simp add: get_interfaces_numa_node_def interface_get_def interfaces_def getitem_def
        sample_server_def most_common_def)
  then have run: "get_affinity_trex sample_server (VStr ''port1'') (VStr ''none'') 1 2 1 =
      Inr (0, 3, VInt 0, [1, 2])"
    by (simp add: get_affinity_trex_def cpu_slice_of_list_per_node_def sample_server_cpus py_slice_def
        numeral_2_eq_2 numeral_3_eq_3)
  from trex_threads_disjoint [OF run sample_server_cpus] run show ?thesis by simp
qed

section \<open>Placement\<close>

lemma slice_nth: "b \<le> length xs \<Longrightarrow> py_slice a b xs = map (\<lambda>i. xs ! i) [a..<b]"
  by (rule nth_equalityI) (auto simp: length_slice nth_py_slice)

text \<open>The positions in the CPU list of the data plane CPUs, and of the main CPU, of one NF.\<close>

definition nf_data_positions :: "bool \<Rightarrow> nat \<Rightarrow> nat \<Rightarrow> nat \<Rightarrow> nat list" where
  "nf_data_positions smt_used dt_skip cores sib =
     [dt_skip..<dt_skip + cores] @ (if smt_used then [dt_skip + sib..<dt_skip + sib + cores] else [])"

definition nf_main_position :: "bool \<Rightarrow> nat \<Rightarrow> nat \<Rightarrow> nat \<Rightarrow> nat \<Rightarrow> nat" where
  "nf_main_position smt_used skip_cnt mt_req offset sib =
     skip_cnt + offset mod mt_req + (if smt_used \<and> odd (offset div mt_req) then sib else 0)"

lemma nf_cpus_positions:
  assumes "offset < dt_req" and "0 < mt_req"
    and room: "skip + mt_req + dt_req * cores \<le> (if smt then sib else length cpus)"
    and "smt \<Longrightarrow> 2 * sib \<le> length cpus"
  shows "nf_cpus cpus smt mt_req dt_req offset skip (IntDtc cores) sib =
      map (\<lambda>i. cpus ! i) (nf_main_position smt skip mt_req offset sib #
        nf_data_positions smt (skip + mt_req + offset * cores) cores sib)"
    and "nf_main_position smt skip mt_req offset sib < length cpus"
    and "\<forall>i\<in>set (nf_data_positions smt (skip + mt_req + offset * cores) cores sib). i < length cpus"
proof -
  have "Suc offset * cores \<le> dt_req * cores" using assms(1) by (intro mult_le_mono1) simp
  then have fit: "skip + mt_req + offset * cores + cores \<le> (if smt then sib else length cpus)"
    using room by simp
  have main: "nf_main_position smt skip mt_req offset sib <
      (if smt \<and> odd (offset div mt_req) then sib else 0) + (skip + mt_req)"
    using mod_less_divisor [OF assms(2), of offset] by (auto simp: nf_main_position_def)
  then have main_len: "nf_main_position smt skip mt_req offset sib < length cpus"
    using fit assms(4) by (cases smt) (auto split: if_splits)
  then show "nf_main_position smt skip mt_req offset sib < length cpus" .
  show "\<forall>i\<in>set (nf_data_positions smt (skip + mt_req + offset * cores) cores sib). i < length cpus"
    using fit assms(4) by (cases smt) (auto simp: nf_data_positions_def)
  have "py_slice (nf_main_position smt skip mt_req offset sib)
      (nf_main_position smt skip mt_req offset sib + 1) cpus =
      [cpus ! nf_main_position smt skip mt_req offset sib]"
    using main_len by (simp add: slice_nth)
  then show "nf_cpus cpus smt mt_req dt_req offset skip (IntDtc cores) sib =
      map (\<lambda>i. cpus ! i) (nf_main_position smt skip mt_req offset sib #
        nf_data_positions smt (skip + mt_req + offset * cores) cores sib)"
    using fit assms(1,4)
    by (cases smt) (auto simp: nf_cpus_def dtc_cores_def dtc_is_integer_def Let_def slice_nth
        nf_data_positions_def nf_main_position_def)
qed

text \<open>Distinct network functions have distinct offsets below the total number.\<close>

lemma nf_offset_less:
  fixes chain chs nd nds :: nat
  assumes "1 \<le> chain" "chain \<le> chs" "1 \<le> nd" "nd \<le> nds"
  shows "(nd - 1) + (chain - 1) * nds < chs * nds"
proof -
  have "(nd - 1) + (chain - 1) * nds < nds + (chain - 1) * nds" using assms by simp
  also have "\<dots> = chain * nds" using assms(1) by (cases chain) simp_all
  also have "\<dots> \<le> chs * nds" using assms(2) by simp
  finally show ?thesis .
qed

lemma nf_offset_inject:
  fixes c1 c2 n1 n2 nds :: nat
  assumes "1 \<le> c1" "1 \<le> c2" "1 \<le> n1" "n1 \<le> nds" "1 \<le> n2" "n2 \<le> nds"
    and "(n1 - 1) + (c1 - 1) * nds = (n2 - 1) + (c2 - 1) * nds"
  shows "c1 = c2 \<and> n1 = n2"
proof -
  have "((n - 1) + (c - 1) * nds) mod nds = n - 1" if "1 \<le> n" "n \<le> nds" for n c
  proof -
    have "n - 1 < nds" using that by simp
    then show ?thesis by (simp only: mod_mult_self1 mod_less)
  qed
  from this [OF assms(3,4)] this [OF assms(5,6)]
  have "((n1 - 1) + (c1 - 1) * nds) mod nds = n1 - 1" "((n2 - 1) + (c2 - 1) * nds) mod nds = n2 - 1"
    by blast+
  with assms(7) have "n1 - 1 = n2 - 1" by metis
  moreover from this assms(7) have "(c1 - 1) * nds = (c2 - 1) * nds" by linarith
  ultimately show ?thesis using assms by auto
qed

lemma data_positions_disjoint:
  assumes "o1 \<noteq> o2" and "o1 < n" and "o2 < n" and "smt \<Longrightarrow> base + n * cores \<le> sib"
  shows "set (nf_data_positions smt (base + o1 * cores) cores sib) \<inter>
    set (nf_data_positions smt (base + o2 * cores) cores sib) = {}"
proof -
  have apart: "a * cores + cores \<le> b * cores" if "a < b" for a b :: nat
    using mult_le_mono1 [of "Suc a" b cores] that by simp
  have fit: "o1 * cores + cores \<le> n * cores" "o2 * cores + cores \<le> n * cores"
    using apart assms(2,3) by simp_all
  show ?thesis
    using assms(1,4) apart [of o1 o2] apart [of o2 o1] fit
    by (cases "o1 < o2"; cases smt) (auto simp: nf_data_positions_def)
qed

lemma main_position_not_data:
  assumes "0 < mt_req" and "0 < cores" and "o2 < n"
    and "smt \<Longrightarrow> skip + mt_req + n * cores \<le> sib"
  shows "nf_main_position smt skip mt_req o1 sib \<notin>
    set (nf_data_positions smt (skip + mt_req + o2 * cores) cores sib)"
proof -
  have m: "o1 mod mt_req < mt_req" using assms(1) by simp
  have fit: "o2 * cores + cores \<le> n * cores"
    using mult_le_mono1 [of "Suc o2" n cores] assms(3) by simp
  show ?thesis
    using m fit assms(4)
    by (cases smt) (auto simp: nf_data_positions_def nf_main_position_def split: if_splits)
qed

lemma distinct_data_positions:
  "(smt \<Longrightarrow> dt_skip + cores \<le> sib) \<Longrightarrow> distinct (nf_data_positions smt dt_skip cores sib)"
  by (auto simp: nf_data_positions_def)

text \<open>The guards of a placement that succeeds, with one data plane thread per core.\<close>

lemma nf_placement_run:
  assumes "cpu_slice_of_list_for_nf node numa chs nds chain nd (IntDtc cores) mtcr 1 skip = Inr r"
    and "map_of node ''cpuinfo'' = Some (encode_cpu_info rows)"
    and "cpu_list_per_node node numa (is_smt_enabled rows) = Inr cpus"
  shows "1 \<le> chain" "chain \<le> chs" "1 \<le> nd" "nd \<le> nds" "0 < mtcr"
    and "r = nf_cpus cpus (is_smt_enabled rows) (ceil_div (chs * nds) mtcr) (chs * nds)
      ((nd - 1) + (chain - 1) * nds) skip (IntDtc cores) (length cpus div 2)"
  using assms decode_encode [of rows]
  by (auto simp: cpu_slice_of_list_for_nf_def getitem_def Let_def ceil_div_def NR_OF_THREADS_def
      split: if_splits)

lemma ceil_div_pos: "0 < a \<Longrightarrow> 0 < b \<Longrightarrow> 0 < ceil_div a b"
  by (simp add: ceil_div_def div_greater_zero_iff)

text \<open>
  C39. Network functions placed on one NUMA node do not share data plane CPUs. With a whole
  number of cores per function, one data plane thread per core and room for the data plane cores
  of all functions, two different functions get disjoint data plane CPUs, the main CPU of neither
  is a data plane CPU of the other, and each gets its main CPU and all of its data plane CPUs (both
  siblings of every core with SMT).
\<close>

theorem nf_placement_disjoint:
  assumes "cpu_slice_of_list_for_nf node numa chs nds c1 n1 (IntDtc cores) mtcr 1 skip = Inr r1"
    and "cpu_slice_of_list_for_nf node numa chs nds c2 n2 (IntDtc cores) mtcr 1 skip = Inr r2"
    and "(c1, n1) \<noteq> (c2, n2)" and "0 < cores"
    and "map_of node ''cpuinfo'' = Some (encode_cpu_info rows)"
    and "cpu_list_per_node node numa (is_smt_enabled rows) = Inr cpus" and "distinct cpus"
    and "skip + ceil_div (chs * nds) mtcr + chs * nds * cores \<le>
      (if is_smt_enabled rows then length cpus div 2 else length cpus)"
  shows "set (tl r1) \<inter> set (tl r2) = {} \<and> hd r1 \<notin> set (tl r2) \<and> distinct r1 \<and>
    length r1 = 1 + (if is_smt_enabled rows then 2 else 1) * cores"
proof -
  let ?smt = "is_smt_enabled rows" and ?sib = "length cpus div 2"
  let ?n = "chs * nds" and ?mt = "ceil_div (chs * nds) mtcr"
  define o1 o2 where "o1 = (n1 - 1) + (c1 - 1) * nds" and "o2 = (n2 - 1) + (c2 - 1) * nds"
  note p1 = nf_placement_run [OF assms(1,5,6)] and p2 = nf_placement_run [OF assms(2,5,6)]
  have less: "o1 < ?n" "o2 < ?n"
    unfolding o1_def o2_def by (rule nf_offset_less [OF p1(1-4)], rule nf_offset_less [OF p2(1-4)])
  have neq: "o1 \<noteq> o2"
    using nf_offset_inject [of c1 c2 n1 nds n2] p1 p2 assms(3) by (auto simp: o1_def o2_def)
  have mt: "0 < ?mt" by (rule ceil_div_pos [OF le_less_trans [OF le0 less(1)] p1(5)])
  have room: "?smt \<Longrightarrow> skip + ?mt + ?n * cores \<le> ?sib" using assms(8) by simp
  have two: "?smt \<Longrightarrow> 2 * ?sib \<le> length cpus" by simp
  let ?m = "\<lambda>o'. nf_main_position ?smt skip ?mt o' ?sib"
  let ?d = "\<lambda>o'. nf_data_positions ?smt (skip + ?mt + o' * cores) cores ?sib"
  have pos: "nf_cpus cpus ?smt ?mt ?n o' skip (IntDtc cores) ?sib = map (\<lambda>i. cpus ! i) (?m o' # ?d o')"
    "set (?m o' # ?d o') \<subseteq> {..<length cpus}" if "o' < ?n" for o'
    using nf_cpus_positions [OF that mt assms(8) two] by auto
  have r: "r1 = map (\<lambda>i. cpus ! i) (?m o1 # ?d o1)" "r2 = map (\<lambda>i. cpus ! i) (?m o2 # ?d o2)"
    using p1(6) p2(6) pos(1) less unfolding o1_def o2_def by simp_all
  have inj: "inj_on (\<lambda>i. cpus ! i) {..<length cpus}"
    using assms(7) by (simp add: inj_on_nth)
  have d: "set (?d o1) \<inter> set (?d o2) = {}" "?m o1 \<notin> set (?d o2)" "?m o1 \<notin> set (?d o1)"
    using data_positions_disjoint [OF neq less] main_position_not_data [OF mt assms(4)] less room
    by auto
  have "o1 * cores + cores \<le> ?n * cores" using mult_le_mono1 [of "Suc o1" ?n cores] less(1) by simp
  then have "distinct (?m o1 # ?d o1)"
    using d(3) room by (auto intro!: distinct_data_positions)
  then have "distinct r1" unfolding r distinct_map using inj pos(2) [OF less(1)] inj_on_subset by blast
  moreover have "set (tl r1) \<inter> set (tl r2) = {}"
    using d(1) inj_on_image_Int [OF inj, of "set (?d o1)" "set (?d o2)"] pos(2) less
    by (simp add: r) 
  moreover have "hd r1 \<notin> set (tl r2)"
    using d(2) inj_on_image_mem_iff [OF inj, of "?m o1" "set (?d o2)"] pos(2) less by (simp add: r)
  moreover have "length r1 = 1 + (if ?smt then 2 else 1) * cores"
    by (simp add: r nf_data_positions_def)
  ultimately show ?thesis by blast
qed

lemma sample_server_nf:
  "cpu_slice_of_list_for_nf sample_server (VInt 0) 1 2 1 nd (IntDtc 1) 2 1 0 =
     (if nd = 1 then Inr [0, 1] else if nd = 2 then Inr [0, 2]
      else Inl (RuntimeError ''NodeID is out of range!''))"
  using sample_server_cpus decode_encode
  by (auto simp: cpu_slice_of_list_for_nf_def getitem_def sample_server_def is_smt_enabled_def
      last_four_def NR_OF_THREADS_def ceil_div_def nf_cpus_def dtc_cores_def dtc_is_integer_def
      py_slice_def)

theorem nf_placement_disjoint_witness:
  "\<exists>r1 r2. cpu_slice_of_list_for_nf sample_server (VInt 0) 1 2 1 1 (IntDtc 1) 2 1 0 = Inr r1 \<and>
     cpu_slice_of_list_for_nf sample_server (VInt 0) 1 2 1 2 (IntDtc 1) 2 1 0 = Inr r2 \<and>
     set (tl r1) \<inter> set (tl r2) = {} \<and> hd r1 \<notin> set (tl r2) \<and> distinct r1 \<and> length r1 = 2"
proof -
  let ?rows = "[[0, 0, 0, 0, 0, 0, 0, 0], [1, 1, 0, 0, 1, 1, 1, 0], [2, 2, 0, 0, 2, 2, 2, 0],
    [3, 3, 0, 0, 3, 3, 3, 0]] :: cpu_info"
  have smt: "\<not> is_smt_enabled ?rows"
    by (simp add: is_smt_enabled_def last_four_def NR_OF_THREADS_def)
  have runs: "cpu_slice_of_list_for_nf sample_server (VInt 0) 1 2 1 1 (IntDtc 1) 2 1 0 = Inr [0, 1]"
    "cpu_slice_of_list_for_nf sample_server (VInt 0) 1 2 1 2 (IntDtc 1) 2 1 0 = Inr [0, 2]"
    by (subst sample_server_nf, simp)+
  have info: "map_of sample_server ''cpuinfo'' = Some (encode_cpu_info ?rows)"
    by (simp add: sample_server_def)
  have cpus: "cpu_list_per_node sample_server (VInt 0) (is_smt_enabled ?rows) = Inr [0, 1, 2, 3]"
    using smt sample_server_cpus by simp
  from nf_placement_disjoint [OF runs _ _ info cpus] runs smt show ?thesis
    by (simp add: ceil_div_def)
qed

text \<open>
  The check of the number of cores in \<open>cpu_slice_of_list_for_nf\<close> does not count the
  data plane cores per function: a function that asks for five data plane cores on a machine with
  four CPUs is placed without an error, on one main CPU and three data plane CPUs.
\<close>

theorem nf_placement_can_lack_cores:
  "cpu_slice_of_list_for_nf sample_server (VInt 0) 1 1 1 1 (IntDtc 5) 2 1 0 = Inr [0, 1, 2, 3]"
  using sample_server_cpus decode_encode
  by (simp add: cpu_slice_of_list_for_nf_def getitem_def sample_server_def is_smt_enabled_def
      last_four_def NR_OF_THREADS_def ceil_div_def nf_cpus_def dtc_cores_def dtc_is_integer_def
      py_slice_def)

text \<open>
  A machine with a single CPU counts as having SMT, so that its list of physical CPUs is
  empty: the halves compared by \<open>is_smt_enabled\<close> are an empty one and the CPU itself.
\<close>

theorem single_cpu_has_no_physical_cpu:
  assumes "map_of node ''cpuinfo'' = Some (encode_cpu_info [row])" and "list_get row 3 = Inr numa"
    and "list_get row 0 = Inr cpu"
  shows "cpu_list_per_node node (VInt numa) True = Inr [cpu] \<and>
    cpu_list_per_node node (VInt numa) False = Inr []"
  using assms node_cpu_info_stored [OF assms(1)]
  by (simp add: cpu_list_per_node_def is_smt_enabled_def NR_OF_THREADS_def)

theorem single_cpu_has_no_physical_cpu_witness:
  "let node = [(''cpuinfo'', encode_cpu_info [[0, 0, 0, 0, 0, 0, 0, 0]])]
   in cpu_list_per_node node (VInt 0) True = Inr [0] \<and> cpu_list_per_node node (VInt 0) False = Inr []"
  using single_cpu_has_no_physical_cpu [of "[(''cpuinfo'', encode_cpu_info [[0, 0, 0, 0, 0, 0, 0, 0]])]"
      "[0, 0, 0, 0, 0, 0, 0, 0]" 0 0]
  by (simp add: list_get_def)

end
