(* ===== verification/TrafficGenerator.thy ===== *)
theory TrafficGenerator
  imports MLRsearch DropRateSearch OptionString CpuUtils
begin

text \<open>
  \<open>TrafficGenerator.py\<close>: starting and stopping traffic on T-Rex, parsing its results into the
  object, the method \<open>measure\<close> that the searches call, and the searches themselves. The remote node
  is reached through \<open>exec_cmd_no_error\<close>, an argument that acts on a world \<open>'w\<close>, as are the clock
  and the way Python prints a float. Every method returns the object as it is afterwards, also when
  it raises.
\<close>

section \<open>The environment and the object\<close>

record 'w tg_env =
  exec_cmd_no_error :: "pyval \<Rightarrow> string \<Rightarrow> int \<Rightarrow> 'w \<Rightarrow> string res \<times> 'w"
  time_now :: "'w \<Rightarrow> real \<times> 'w"
  float_repr :: "real \<Rightarrow> string"
  send_force :: bool

datatype trex_mode = ASTF | STL

record traffic_generator =
  tg_node :: pyval
  tg_mode :: "trex_mode option"
  ifaces_reordered :: bool
  tg_result :: "(string, string) pydict option"
  tg_loss :: "string option"
  tg_sent :: "string option"
  tg_latency :: "string option list option"
  tg_received :: "string option"
  approximated_rate :: "string option"
  approximated_duration :: "string option"
  l7_data :: pyval
  start_time :: "real option"
  tg_rate :: "real option"
  tg_frame_size :: option_arg
  tg_traffic_profile :: "string option"
  tg_warmup_time :: "real option"
  tg_traffic_directions :: "int option"
  negative_loss :: "bool option"
  use_latency :: "bool option"
  xstats :: "string option \<times> string option"

definition TrafficGenerator_init :: traffic_generator where
  "TrafficGenerator_init =
     \<lparr>tg_node = VNone, tg_mode = None, ifaces_reordered = False, tg_result = None, tg_loss = None,
      tg_sent = None, tg_latency = None, tg_received = None, approximated_rate = None,
      approximated_duration = None, l7_data = VNone, start_time = None, tg_rate = None,
      tg_frame_size = ANone, tg_traffic_profile = None, tg_warmup_time = None,
      tg_traffic_directions = None, negative_loss = None, use_latency = None, xstats = (None, None)\<rparr>"

definition check_subtype :: "pyval \<Rightarrow> string res" where
  "check_subtype node =
     bindE (dget node ''type'') (\<lambda>t.
       if t = VNone then Inl (RuntimeError ''Node type is not defined'')
       else if t \<noteq> VStr ''TG'' then Inl (RuntimeError ''Node type is not a TG'')
       else bindE (dget node ''subtype'') (\<lambda>s.
         if s = VNone then Inl (RuntimeError ''TG subtype is not defined'')
         else if s \<noteq> VStr ''TREX'' then Inl (RuntimeError ''TG subtype is not supported'')
         else Inr ''TREX''))"

definition check_mode :: "traffic_generator \<Rightarrow> trex_mode \<Rightarrow> unit res" where
  "check_mode tg expected_mode =
     (if tg_mode tg = Some expected_mode then Inr ()
      else bindE (sub (tg_node tg) ''subtype'') (\<lambda>_.
        Inl (RuntimeError ''TG not running in expected mode!'')))"

section \<open>Parsing results\<close>

text \<open>\<open>str.splitlines\<close>: the line boundaries among the first 256 code points; CR LF is one.\<close>

definition is_line_end :: "char \<Rightarrow> bool" where
  "is_line_end c \<longleftrightarrow> (let n = (of_char c :: nat) in n \<in> {10, 11, 12, 13, 28, 29, 30, 133})"

fun lines_from :: "string \<Rightarrow> string \<Rightarrow> string list" where
  "lines_from acc [] = (if acc = [] then [] else [acc])"
| "lines_from acc (c # cs) =
     (if is_line_end c then
        acc # lines_from [] (if c = CHR 0x0D \<and> cs \<noteq> [] \<and> hd cs = CHR 0x0A then tl cs else cs)
      else lines_from (acc @ [c]) cs)"

definition splitlines :: "string \<Rightarrow> string list" where
  "splitlines s = lines_from [] s"

text \<open>\<^verbatim>\<open>key, value = result.split("=", maxsplit=1)\<close>\<close>

definition split_pair :: "string \<Rightarrow> (string \<times> string) res" where
  "split_pair s =
     (case dropWhile (\<lambda>c. c \<noteq> CHR ''='') s of
        [] \<Rightarrow> Inl (ValueError ''not enough values to unpack'')
      | e # rest \<Rightarrow> Inr (takeWhile (\<lambda>c. c \<noteq> CHR ''='') s, rest))"

fun parse_pairs ::
    "(string, string) pydict \<Rightarrow> string list \<Rightarrow> py_error option \<times> (string, string) pydict" where
  "parse_pairs acc [] = (None, acc)"
| "parse_pairs acc (r # rs) =
     (case split_pair r of
        Inl e \<Rightarrow> (Some e, acc)
      | Inr (k, v) \<Rightarrow> parse_pairs (AList.update (strip k) v acc) rs)"

text \<open>The fields of the last line, without a blank last one.\<close>

definition result_fields :: "string \<Rightarrow> string list" where
  "result_fields line =
     (let results = split_on CHR '','' line
      in if last results \<in> {'' '', ''''} then butlast results else results)"

definition opt_val :: "string option \<Rightarrow> pyval" where
  "opt_val v = (case v of None \<Rightarrow> VNone | Some s \<Rightarrow> VStr s)"

text \<open>A dictionary of some of the results, under other names.\<close>

definition pick :: "(string, string) pydict \<Rightarrow> (string \<times> string) list \<Rightarrow> pyobj" where
  "pick res names = map (\<lambda>(k, src). (k, opt_val (map_of res src))) names"

definition l7_client :: "(string \<times> string) list" where
  "l7_client =
     [(''active_flows'', ''client_active_flows''), (''established_flows'', ''client_established_flows''),
      (''err_rx_throttled'', ''client_err_rx_throttled''),
      (''err_c_nf_throttled'', ''client_err_nf_throttled''),
      (''err_flow_overflow'', ''client_err_flow_overflow'')]"

definition l7_server :: "(string \<times> string) list" where
  "l7_server =
     [(''active_flows'', ''server_active_flows''), (''established_flows'', ''server_established_flows''),
      (''err_rx_throttled'', ''client_err_rx_throttled'')]"

definition l7_client_udp :: "(string \<times> string) list" where
  "l7_client_udp =
     [(''established_flows'', ''client_udp_connects''), (''closed_flows'', ''client_udp_closed''),
      (''tx_bytes'', ''client_udp_tx_bytes''), (''rx_bytes'', ''client_udp_rx_bytes''),
      (''tx_packets'', ''client_udp_tx_packets''), (''rx_packets'', ''client_udp_rx_packets''),
      (''keep_drops'', ''client_udp_keep_drops'')]"

definition l7_server_udp :: "(string \<times> string) list" where
  "l7_server_udp =
     [(''accepted_flows'', ''server_udp_accepts''), (''closed_flows'', ''server_udp_closed''),
      (''tx_bytes'', ''server_udp_tx_bytes''), (''rx_bytes'', ''server_udp_rx_bytes''),
      (''tx_packets'', ''server_udp_tx_packets''), (''rx_packets'', ''server_udp_rx_packets'')]"

definition l7_client_tcp :: "(string \<times> string) list" where
  "l7_client_tcp =
     [(''initiated_flows'', ''client_tcp_connect_inits''), (''established_flows'', ''client_tcp_connects''),
      (''closed_flows'', ''client_tcp_closed''), (''tx_bytes'', ''client_tcp_tx_bytes''),
      (''rx_bytes'', ''client_tcp_rx_bytes'')]"

definition l7_server_tcp :: "(string \<times> string) list" where
  "l7_server_tcp =
     [(''accepted_flows'', ''server_tcp_accepts''), (''established_flows'', ''server_tcp_connects''),
      (''closed_flows'', ''server_tcp_closed''), (''tx_bytes'', ''server_tcp_tx_bytes''),
      (''rx_bytes'', ''server_tcp_rx_bytes'')]"

definition l7_results :: "(string, string) pydict \<Rightarrow> string option \<Rightarrow> pyobj res" where
  "l7_results res profile =
     (case profile of
        None \<Rightarrow> Inl type_error
      | Some p \<Rightarrow>
          (let client = pick res l7_client; server = pick res l7_server
           in Inr (if str_contains ''udp'' p then
                [(''client'', VDict (client @ [(''udp'', VDict (pick res l7_client_udp))])),
                 (''server'', VDict (server @ [(''udp'', VDict (pick res l7_server_udp))]))]
              else if str_contains ''tcp'' p then
                [(''client'', VDict (client @ [(''tcp'', VDict (pick res l7_client_tcp))])),
                 (''server'', VDict (server @ [(''tcp'', VDict (pick res l7_server_tcp))]))]
              else [(''client'', VDict client), (''server'', VDict server)])))"

definition store_results :: "traffic_generator \<Rightarrow> (string, string) pydict \<Rightarrow> traffic_generator" where
  "store_results tg res =
     tg\<lparr>tg_received := map_of res ''total_received'', tg_sent := map_of res ''total_sent'',
        tg_loss := map_of res ''frame_loss'',
        approximated_duration := map_of res ''approximated_duration'',
        approximated_rate := map_of res ''approximated_rate'',
        tg_latency := Some [map_of res ''latency_stream_0(usec)'', map_of res ''latency_stream_1(usec)'']\<rparr>"

definition parse_traffic_results :: "traffic_generator \<Rightarrow> string \<Rightarrow> unit res \<times> traffic_generator" where
  "parse_traffic_results tg stdout =
     (case bindE (check_subtype (tg_node tg)) (\<lambda>_. list_get (splitlines stdout) (-1)) of
        Inl e \<Rightarrow> (Inl e, tg)
      | Inr line \<Rightarrow>
          (case parse_pairs [] (result_fields line) of
             (Some e, res) \<Rightarrow> (Inl e, tg\<lparr>tg_result := Some res\<rparr>)
           | (None, res) \<Rightarrow>
               (let tg1 = store_results (tg\<lparr>tg_result := Some res\<rparr>) res
                in if tg_mode tg \<noteq> Some ASTF then (Inr (), tg1)
                   else case l7_results res (tg_traffic_profile tg) of
                     Inl e \<Rightarrow> (Inl e, tg1\<lparr>l7_data := VDict
                        [(''client'', VDict (pick res l7_client)), (''server'', VDict (pick res l7_server))]\<rparr>)
                   | Inr d \<Rightarrow> (Inr (), tg1\<lparr>l7_data := VDict d\<rparr>))))"

section \<open>Numbers in text\<close>

text \<open>
  \<open>float(s)\<close> for decimal numbers: sign, digits with an optional point, optional exponent.
  Infinities and NaN are not real numbers and are rejected here.
\<close>

definition fraction_of :: "string \<Rightarrow> real option" where
  "fraction_of s = map_option (\<lambda>n. real n / 10 ^ length (filter is_digit s)) (parse_nat s)"

definition parse_mantissa :: "string \<Rightarrow> real option" where
  "parse_mantissa s =
     (let ip = takeWhile (\<lambda>c. c \<noteq> CHR ''.'') s; rest = dropWhile (\<lambda>c. c \<noteq> CHR ''.'') s
      in if length rest \<le> 1 then map_option real (parse_nat ip)
         else if ip = [] then fraction_of (tl rest)
         else case (parse_nat ip, fraction_of (tl rest)) of
                (Some n, Some f) \<Rightarrow> Some (real n + f)
              | _ \<Rightarrow> None)"

definition signed :: "(string \<Rightarrow> 'a option) \<Rightarrow> ('a \<Rightarrow> 'a) \<Rightarrow> string \<Rightarrow> 'a option" where
  "signed p neg s =
     (case s of
        [] \<Rightarrow> None
      | c # cs \<Rightarrow> if c = CHR ''-'' then map_option neg (p cs) else if c = CHR ''+'' then p cs else p s)"

definition parse_float :: "string \<Rightarrow> real option" where
  "parse_float s0 =
     (let s = strip s0;
          is_e = (\<lambda>c. c = CHR ''e'' \<or> c = CHR ''E'');
          m = signed parse_mantissa uminus (takeWhile (\<lambda>c. \<not> is_e c) s)
      in case dropWhile (\<lambda>c. \<not> is_e c) s of
           [] \<Rightarrow> m
         | e # ex \<Rightarrow>
             (case (m, signed (\<lambda>t. map_option int (parse_nat t)) uminus ex) of
                (Some x, Some i) \<Rightarrow> Some (if 0 \<le> i then x * 10 ^ nat i else x / 10 ^ nat (- i))
              | _ \<Rightarrow> None))"

fun py_float :: "string option \<Rightarrow> real res" where
  "py_float None = Inl type_error"
| "py_float (Some s) =
     (case parse_float s of
        None \<Rightarrow> Inl (ValueError ''could not convert string to float'')
      | Some x \<Rightarrow> Inr x)"

definition opt_int :: "string option \<Rightarrow> int res" where
  "opt_int v = py_int (opt_val v)"

text \<open>\<open>int(x)\<close> of a float truncates towards zero.\<close>

definition trunc :: "real \<Rightarrow> int" where
  "trunc x = (if x < 0 then - \<lfloor>- x\<rfloor> else \<lfloor>x\<rfloor>)"

section \<open>Starting and stopping traffic\<close>

type_synonym ('a, 'w) tg_outcome = "'a res \<times> traffic_generator \<times> 'w"

definition fw_dir :: string where
  "fw_dir = ''/tmp/openvpp-testing''"

definition quoted :: "string \<Rightarrow> string" where
  "quoted s = [CHR 39] @ s @ [CHR 39]"

text \<open>A duration is an \<open>int\<close> or a \<open>float\<close>; the two print differently.\<close>

datatype py_num = PInt int | PFloat real

fun num_repr :: "'w tg_env \<Rightarrow> py_num \<Rightarrow> string" where
  "num_repr env (PInt i) = str_of_int i"
| "num_repr env (PFloat x) = float_repr env x"

fun num_trunc :: "py_num \<Rightarrow> int" where
  "num_trunc (PInt i) = i"
| "num_trunc (PFloat x) = trunc x"

record start_args =
  sa_duration :: py_num
  sa_frame_size :: option_arg
  sa_profile :: string
  sa_async :: bool
  sa_latency :: option_arg
  sa_warmup :: "real option"
  sa_directions :: int
  sa_tx_port :: int
  sa_rx_port :: int

text \<open>
  The command line shared by the STL and the ASTF script; \<open>rate_opt\<close> is the option for the load,
  \<open>rate\<close> with the quoted rate or \<open>mult\<close> with the integer multiplier.
\<close>

definition start_command ::
    "'w tg_env \<Rightarrow> bool \<Rightarrow> string \<Rightarrow> string \<times> option_arg \<Rightarrow> start_args \<Rightarrow> real \<Rightarrow> string" where
  "start_command env reordered script rate_opt a warmup =
     (let p0 = (if reordered then sa_rx_port a else sa_tx_port a);
          p1 = (if reordered then sa_tx_port a else sa_rx_port a);
          os = add (OptionString [] (AStr '''')) (AStr ''python3'');
          os = add os (AStr (quoted (fw_dir @ ''/GPL/tools/trex/'' @ script)));
          os = change_prefix os (AStr ''--'');
          os = add_with_value os (AStr ''profile'')
                 (AStr (quoted (fw_dir @ ''/GPL/traffic_profiles/trex/'' @ sa_profile a @ ''.py'')));
          os = add_with_value os (AStr ''duration'') (AStr (num_repr env (sa_duration a)));
          os = add_with_value os (AStr ''frame_size'') (sa_frame_size a);
          os = add_with_value os (AStr (fst rate_opt)) (snd rate_opt);
          os = add_with_value os (AStr ''warmup_time'') (AStr (float_repr env warmup));
          os = add_with_value os (AStr ''port_0'') (AInt p0);
          os = add_with_value os (AStr ''port_1'') (AInt p1);
          os = add_with_value os (AStr ''traffic_directions'') (AInt (sa_directions a));
          os = add_if os (AStr ''async_start'') (ABool (sa_async a));
          os = add_if os (AStr ''latency'') (sa_latency a);
          os = add_if os (AStr ''force'') (ABool (send_force env))
      in option_str os)"

fun xstats_from :: "nat \<Rightarrow> string list \<Rightarrow> string option \<times> string option \<Rightarrow> string option \<times> string option" where
  "xstats_from index [] acc = acc"
| "xstats_from index (line # lines) acc =
     (if str_contains (''Xstats snapshot '' @ str_of_nat index @ '': '') line
      then (let acc' = (if index = 0 then (Some (drop 19 line), snd acc) else (fst acc, Some (drop 19 line)))
            in if index + 1 = 2 then acc' else xstats_from (index + 1) lines acc')
      else xstats_from index lines acc)"

text \<open>The bookkeeping of an asynchronous start.\<close>

definition async_started ::
    "'w tg_env \<Rightarrow> traffic_generator \<Rightarrow> real res \<Rightarrow> string \<Rightarrow> 'w \<Rightarrow> (unit, 'w) tg_outcome" where
  "async_started env tg rate stdout w =
     (case time_now env w of (now, w1) \<Rightarrow>
        (case rate of
           Inl e \<Rightarrow> (Inl e, tg\<lparr>start_time := Some now\<rparr>, w1)
         | Inr r \<Rightarrow>
             (Inr (), tg\<lparr>start_time := Some now, tg_rate := Some r, tg_received := None, tg_sent := None,
                tg_loss := None, tg_latency := None,
                xstats := xstats_from 0 (splitlines stdout) (None, None)\<rparr>, w1)))"

definition sync_finished :: "traffic_generator \<Rightarrow> string \<Rightarrow> 'w \<Rightarrow> (unit, 'w) tg_outcome" where
  "sync_finished tg stdout w =
     (case parse_traffic_results tg stdout of
        (Inl e, tg1) \<Rightarrow> (Inl e, tg1, w)
      | (Inr u, tg1) \<Rightarrow> (Inr (), tg1\<lparr>start_time := None, tg_rate := None\<rparr>, w))"

definition trex_stl_start_remote_exec ::
    "'w tg_env \<Rightarrow> traffic_generator \<Rightarrow> string \<Rightarrow> start_args \<Rightarrow> 'w \<Rightarrow> (unit, 'w) tg_outcome" where
  "trex_stl_start_remote_exec env tg rate a w =
     (case bindE (check_mode tg STL) (\<lambda>_.
             case sa_warmup a of None \<Rightarrow> Inl type_error | Some x \<Rightarrow> Inr x) of
        Inl e \<Rightarrow> (Inl e, tg, w)
      | Inr warmup \<Rightarrow>
          (case exec_cmd_no_error env (tg_node tg)
                  (start_command env (ifaces_reordered tg) ''trex_stl_profile.py''
                     (''rate'', AStr (quoted rate)) a warmup)
                  (num_trunc (sa_duration a) + 60) w of
             (Inl e, w1) \<Rightarrow> (Inl e, tg, w1)
           | (Inr stdout, w1) \<Rightarrow>
               (let tg1 = tg\<lparr>tg_traffic_directions := Some (sa_directions a)\<rparr>
                in if sa_async a
                   then async_started env tg1
                          (py_float (Some (if str_contains ''pps'' rate then take (length rate - 3) rate
                                           else rate))) stdout w1
                   else sync_finished tg1 stdout w1)))"

text \<open>The layer 7 entries that an asynchronous ASTF start resets to \<open>None\<close>.\<close>

definition l7_reset :: "string option \<Rightarrow> pyobj res" where
  "l7_reset profile =
     (let none = map (\<lambda>k. (k, VNone)); flows = none [''active_flows'', ''established_flows'']
      in case profile of
        None \<Rightarrow> Inl type_error
      | Some p \<Rightarrow>
          Inr (if str_contains ''udp'' p then
                 [(''client'', VDict (flows @ [(''udp'', VDict (none [''established_flows'', ''closed_flows'']))])),
                  (''server'', VDict (flows @ [(''udp'', VDict (none [''accepted_flows'', ''closed_flows'']))]))]
               else if str_contains ''tcp'' p then
                 [(''client'', VDict (flows @ [(''tcp'',
                     VDict (none [''initiated_flows'', ''established_flows'', ''closed_flows'']))])),
                  (''server'', VDict (flows @ [(''tcp'',
                     VDict (none [''accepted_flows'', ''established_flows'', ''closed_flows'']))]))]
               else [(''client'', VDict flows), (''server'', VDict flows)]))"

definition trex_astf_start_remote_exec ::
    "'w tg_env \<Rightarrow> traffic_generator \<Rightarrow> int \<Rightarrow> start_args \<Rightarrow> 'w \<Rightarrow> (unit, 'w) tg_outcome" where
  "trex_astf_start_remote_exec env tg mult a w =
     (case bindE (check_mode tg ASTF) (\<lambda>_.
             case sa_warmup a of None \<Rightarrow> Inl type_error | Some x \<Rightarrow> Inr x) of
        Inl e \<Rightarrow> (Inl e, tg, w)
      | Inr warmup \<Rightarrow>
          (case tg_traffic_profile tg of
             None \<Rightarrow> (Inl type_error, tg, w)
           | Some profile \<Rightarrow>
               (case exec_cmd_no_error env (tg_node tg)
                       (start_command env (ifaces_reordered tg) ''trex_astf_profile.py''
                          (''mult'', AInt mult) a warmup)
                       (if str_contains ''tcp'' profile then num_trunc (sa_duration a) + 600 else 60) w of
                  (Inl e, w1) \<Rightarrow> (Inl e, tg, w1)
                | (Inr stdout, w1) \<Rightarrow>
                    (let tg1 = tg\<lparr>tg_traffic_directions := Some (sa_directions a)\<rparr>
                     in if sa_async a
                        then (case l7_reset (Some profile) of
                                Inl e \<Rightarrow> (Inl e, tg1, w1)
                              | Inr d \<Rightarrow>
                                  async_started env (tg1\<lparr>l7_data := VDict d\<rparr>) (Inr (of_int mult)) stdout w1)
                        else sync_finished tg1 stdout w1))))"

text \<open>\<^verbatim>\<open>value.replace("'", "\"")\<close>\<close>

definition requote :: "string \<Rightarrow> string" where
  "requote s = map (\<lambda>c. if c = CHR 39 then CHR 34 else c) s"

definition stop_command :: "traffic_generator \<Rightarrow> string \<Rightarrow> string" where
  "stop_command tg script =
     (let os = add (OptionString [] (AStr '''')) (AStr ''python3'');
          os = add os (AStr (quoted (fw_dir @ ''/GPL/tools/trex/'' @ script)));
          os = change_prefix os (AStr ''--'');
          os = (case fst (xstats tg) of
                  None \<Rightarrow> os | Some v \<Rightarrow> add_equals os (AStr ''xstat0'') (AStr (quoted (requote v))));
          os = (case snd (xstats tg) of
                  None \<Rightarrow> os | Some v \<Rightarrow> add_equals os (AStr ''xstat1'') (AStr (quoted (requote v))))
      in option_str os)"

definition trex_stop_remote_exec ::
    "'w tg_env \<Rightarrow> traffic_generator \<Rightarrow> string \<Rightarrow> 'w \<Rightarrow> (unit, 'w) tg_outcome" where
  "trex_stop_remote_exec env tg script w =
     (case exec_cmd_no_error env (tg_node tg) (stop_command tg script) 600 w of
        (Inl e, w1) \<Rightarrow> (Inl e, tg, w1)
      | (Inr stdout, w1) \<Rightarrow>
          (case parse_traffic_results tg stdout of (r, tg1) \<Rightarrow> (r, tg1, w1)))"

definition trex_astf_stop_remote_exec ::
    "'w tg_env \<Rightarrow> traffic_generator \<Rightarrow> 'w \<Rightarrow> (unit, 'w) tg_outcome" where
  "trex_astf_stop_remote_exec env tg w = trex_stop_remote_exec env tg ''trex_astf_stop.py'' w"

definition trex_stl_stop_remote_exec ::
    "'w tg_env \<Rightarrow> traffic_generator \<Rightarrow> 'w \<Rightarrow> (unit, 'w) tg_outcome" where
  "trex_stl_stop_remote_exec env tg w = trex_stop_remote_exec env tg ''trex_stl_stop.py'' w"

definition send_traffic_on_tg ::
    "'w tg_env \<Rightarrow> traffic_generator \<Rightarrow> real \<Rightarrow> start_args \<Rightarrow> 'w \<Rightarrow>
     ((string, string) pydict option, 'w) tg_outcome" where
  "send_traffic_on_tg env tg rate a w =
     (case check_subtype (tg_node tg) of
        Inl e \<Rightarrow> (Inl e, tg, w)
      | Inr subtype \<Rightarrow>
          (let tg1 = tg\<lparr>tg_traffic_profile := Some (sa_profile a)\<rparr>;
               started =
                 (if str_contains ''trex-astf'' (sa_profile a)
                  then trex_astf_start_remote_exec env tg1 (trunc rate) a w
                  else if str_contains ''trex-stl'' (sa_profile a)
                  then trex_stl_start_remote_exec env tg1 (float_repr env rate @ ''pps'') a w
                  else (Inl (ValueError ''Unsupported T-Rex traffic profile!''), tg1, w))
           in case started of
                (Inl e, tg2, w1) \<Rightarrow> (Inl e, tg2, w1)
              | (Inr u, tg2, w1) \<Rightarrow> (Inr (tg_result tg2), tg2, w1)))"

section \<open>Verdicts on the last run\<close>

definition no_traffic_loss_occurred :: "traffic_generator \<Rightarrow> unit res" where
  "no_traffic_loss_occurred tg =
     (case tg_loss tg of
        None \<Rightarrow> Inl (RuntimeError ''The traffic generation has not been issued'')
      | Some l \<Rightarrow> if l \<noteq> ''0'' then Inl (RuntimeError ''Traffic loss occurred'') else Inr ())"

definition fail_if_no_traffic_forwarded :: "traffic_generator \<Rightarrow> unit res" where
  "fail_if_no_traffic_forwarded tg =
     (case tg_received tg of
        None \<Rightarrow> Inl (RuntimeError ''The traffic generation has not been issued'')
      | Some r \<Rightarrow> if r = ''0'' then Inl (RuntimeError ''No traffic forwarded'') else Inr ())"

definition partial_traffic_loss_accepted ::
    "traffic_generator \<Rightarrow> real \<Rightarrow> string \<Rightarrow> unit res" where
  "partial_traffic_loss_accepted tg acceptance acceptance_type =
     (if tg_loss tg = None then Inl (PyException ''The traffic generation has not been issued'')
      else bindE
        (if acceptance_type = ''percentage'' then
           bindE (py_float (tg_loss tg)) (\<lambda>l. bindE (py_float (tg_sent tg)) (\<lambda>s.
           bindE (fdiv l s) (\<lambda>q. Inr (q * 100))))
         else if acceptance_type = ''frames'' then py_float (tg_loss tg)
         else Inl (PyException ''Loss acceptance type not supported''))
        (\<lambda>loss. if loss > acceptance then Inl (PyException ''Traffic loss above loss acceptance'')
                else Inr ()))"

section \<open>Measurements\<close>

definition set_rate_provider_defaults ::
    "traffic_generator \<Rightarrow> option_arg \<Rightarrow> string \<Rightarrow> real \<Rightarrow> int \<Rightarrow> bool \<Rightarrow> bool \<Rightarrow> traffic_generator" where
  "set_rate_provider_defaults tg fsize profile warmup directions neg_loss latency =
     tg\<lparr>tg_frame_size := fsize, tg_traffic_profile := Some profile, tg_warmup_time := Some warmup,
        tg_traffic_directions := Some directions, negative_loss := Some neg_loss,
        use_latency := Some latency\<rparr>"

definition get_measurement_result ::
    "'w tg_env \<Rightarrow> traffic_generator \<Rightarrow> real option \<Rightarrow> real option \<Rightarrow> 'w \<Rightarrow> (measurement, 'w) tg_outcome" where
  "get_measurement_result env tg dur transmit w =
     (case (case dur of
              Some d \<Rightarrow> (Inr d, tg, w)
            | None \<Rightarrow>
                (case time_now env w of (now, w1) \<Rightarrow>
                   (case start_time tg of
                      None \<Rightarrow> (Inl type_error, tg, w1)
                    | Some t \<Rightarrow> (Inr (now - t), tg\<lparr>start_time := None\<rparr>, w1)))) of
        (Inl e, tg1, w1) \<Rightarrow> (Inl e, tg1, w1)
      | (Inr d, tg1, w1) \<Rightarrow>
          (bindE (case transmit of
                    Some t \<Rightarrow> Inr t
                  | None \<Rightarrow>
                      (case (tg_rate tg1, tg_traffic_directions tg1) of
                         (Some r, Some n) \<Rightarrow> Inr (r * of_int n)
                       | _ \<Rightarrow> Inl type_error)) (\<lambda>tr.
           bindE (opt_int (tg_sent tg1)) (\<lambda>transmit_count.
           bindE (opt_int (tg_loss tg1)) (\<lambda>loss.
           ReceiveRateMeasurement d tr transmit_count
             (if loss < 0 \<and> negative_loss tg1 \<noteq> Some True then 0 else loss)))), tg1, w1))"

definition stop_traffic_on_tg ::
    "'w tg_env \<Rightarrow> traffic_generator \<Rightarrow> 'w \<Rightarrow> (measurement, 'w) tg_outcome" where
  "stop_traffic_on_tg env tg w =
     (case bindE (check_subtype (tg_node tg)) (\<lambda>_.
             case tg_traffic_profile tg of None \<Rightarrow> Inl type_error | Some p \<Rightarrow> Inr p) of
        Inl e \<Rightarrow> (Inl e, tg, w)
      | Inr p \<Rightarrow>
          (case (if str_contains ''trex-astf'' p then trex_astf_stop_remote_exec env tg w
                 else if str_contains ''trex-stl'' p then trex_stl_stop_remote_exec env tg w
                 else (Inl (ValueError ''Unsupported T-Rex traffic profile!''), tg, w)) of
             (Inl e, tg1, w1) \<Rightarrow> (Inl e, tg1, w1)
           | (Inr u, tg1, w1) \<Rightarrow> get_measurement_result env tg1 None None w1))"

definition tg_measure ::
    "'w tg_env \<Rightarrow> traffic_generator \<Rightarrow> real \<Rightarrow> real \<Rightarrow> 'w \<Rightarrow> (measurement, 'w) tg_outcome" where
  "tg_measure env tg dur transmit w =
     (case tg_traffic_directions tg of
        None \<Rightarrow> (Inl type_error, tg, w)
      | Some directions \<Rightarrow>
          (case fdiv transmit (of_int directions) of
             Inl e \<Rightarrow> (Inl e, tg, w)
           | Inr unit_rate \<Rightarrow>
               (case send_traffic_on_tg env tg unit_rate
                       \<lparr>sa_duration = PFloat dur, sa_frame_size = tg_frame_size tg, 
                        sa_profile = (case tg_traffic_profile tg of None \<Rightarrow> ''None'' | Some p \<Rightarrow> p),
                        sa_async = False,
                        sa_latency = (case use_latency tg of None \<Rightarrow> ANone | Some b \<Rightarrow> ABool b),
                        sa_warmup = tg_warmup_time tg, sa_directions = directions, sa_tx_port = 0,
                        sa_rx_port = 1\<rparr> w of
                  (Inl e, tg1, w1) \<Rightarrow> (Inl e, tg1, w1)
                | (Inr r, tg1, w1) \<Rightarrow> get_measurement_result env tg1 (Some dur) (Some transmit) w1)))"

text \<open>The traffic generator as the measurer of a search, acting on itself and the world.\<close>

definition tg_measurer :: "'w tg_env \<Rightarrow> (traffic_generator \<times> 'w) measurer" where
  "tg_measurer env state d r = (case state of (tg, w) \<Rightarrow> tg_measure env tg d r w)"

definition tg_clock :: "'w tg_env \<Rightarrow> (traffic_generator \<times> 'w) clock" where
  "tg_clock env state = (case state of (tg, w) \<Rightarrow> (case time_now env w of (t, w1) \<Rightarrow> (t, (tg, w1))))"

text \<open>
  \<open>TGDropRateSearchImpl.measure_loss\<close>, the loss meter of the drop rate searches, with the
  defaults of \<open>trex_stl_start_remote_exec\<close> for the arguments it leaves out.
\<close>

definition measure_loss :: "'w tg_env \<Rightarrow> (traffic_generator \<times> 'w) loss_meter" where
  "measure_loss env ds rate fsize la la_type profile skip_warmup state =
     (case state of (tg, w) \<Rightarrow>
        (case check_subtype (tg_node tg) of
           Inl e \<Rightarrow> (Inl e, (tg, w))
         | Inr subtype \<Rightarrow>
             (case trex_stl_start_remote_exec env tg (float_repr env rate @ get_rate_type_str ds)
                     \<lparr>sa_duration = PInt (get_duration ds), sa_frame_size = AStr fsize,
                      sa_profile = profile, sa_async = False, sa_latency = ABool False,
                      sa_warmup = Some (if skip_warmup then 0 else 5), sa_directions = 2,
                      sa_tx_port = 0, sa_rx_port = 1\<rparr> w of
                (Inl e, tg1, w1) \<Rightarrow> (Inl e, (tg1, w1))
              | (Inr u, tg1, w1) \<Rightarrow>
                  (bindE (if loss_acceptance_type_is_percentage ds
                          then bindE (py_float (tg_loss tg1)) (\<lambda>l.
                               bindE (py_float (tg_sent tg1)) (\<lambda>s.
                               bindE (fdiv l s) (\<lambda>q. Inr (q * 100))))
                          else py_float (tg_loss tg1))
                     (\<lambda>loss. Inr (loss \<le> la)), (tg1, w1)))))"

section \<open>Optimized search\<close>

definition perform_optimized_ndrpdr_search ::
    "'w tg_env \<Rightarrow> traffic_generator \<Rightarrow> option_arg \<Rightarrow> string \<Rightarrow> real \<Rightarrow> real \<Rightarrow> real \<Rightarrow> mlr_config \<Rightarrow> int \<Rightarrow>
     bool \<Rightarrow> 'w \<Rightarrow> (ndr_pdr_result res \<times> traffic_generator \<times> 'w) option" where
  "perform_optimized_ndrpdr_search env tg fsize profile mn mx plr cfg directions latency w =
     narrow_down_ndr_and_pdr (tg_measurer env) (tg_clock env) cfg
       (mn * of_int directions) (mx * of_int directions) plr
       (set_rate_provider_defaults tg fsize profile 0 directions True latency, w)"

section \<open>The traffic generator as a rate provider\<close>

lemma get_measurement_result_Inr:
  assumes "get_measurement_result env tg (Some d) (Some t) w = (Inr m, tg', w')"
  shows "tg' = tg \<and> w' = w \<and> measurement_wf m \<and> duration m = d \<and> target_tr m = t \<and>
    opt_int (tg_sent tg) = Inr (transmit_count m) \<and>
    (\<exists>loss. opt_int (tg_loss tg) = Inr loss \<and>
       loss_count m = (if loss < 0 \<and> negative_loss tg \<noteq> Some True then 0 else loss))"
proof -
  have run: "bindE (opt_int (tg_sent tg)) (\<lambda>tx. bindE (opt_int (tg_loss tg)) (\<lambda>loss.
      ReceiveRateMeasurement d t tx
        (if loss < 0 \<and> negative_loss tg \<noteq> Some True then 0 else loss))) = Inr m \<and> tg = tg' \<and> w = w'"
    using assms unfolding get_measurement_result_def option.case prod.case sum.case bindE_simps
      prod.inject .
  then have same: "tg' = tg" "w' = w" by simp_all
  from run obtain tx loss where runs: "opt_int (tg_sent tg) = Inr tx" "opt_int (tg_loss tg) = Inr loss"
    "ReceiveRateMeasurement d t tx
       (if loss < 0 \<and> negative_loss tg \<noteq> Some True then 0 else loss) = Inr m"
    unfolding bindE_eq_Inr by blast
  from ReceiveRateMeasurement_Inr [OF runs(3)] runs(1,2) same show ?thesis by simp
qed

lemma tg_measure_Inr:
  assumes "tg_measure env tg d t w = (Inr m, tg', w')"
  shows "measurement_wf m \<and> duration m = d \<and> target_tr m = t \<and>
    opt_int (tg_sent tg') = Inr (transmit_count m) \<and>
    (\<exists>loss. opt_int (tg_loss tg') = Inr loss \<and>
       loss_count m = (if loss < 0 \<and> negative_loss tg' \<noteq> Some True then 0 else loss))"
proof -
  obtain tg1 w1 where "get_measurement_result env tg1 (Some d) (Some t) w1 = (Inr m, tg', w')"
    using assms by (auto simp: tg_measure_def split: option.splits sum.splits prod.splits)
  from get_measurement_result_Inr [OF this] show ?thesis by auto
qed

interpretation trex: rate_provider "tg_measurer env" for env
proof
  fix state d r m state'
  assume run: "tg_measurer env state d r = (Inr m, state')"
  obtain tg w tg' w' where "state = (tg, w)" "state' = (tg', w')" by (cases state, cases state')
  with run have "tg_measure env tg d r w = (Inr m, tg', w')" by (simp add: tg_measurer_def)
  from tg_measure_Inr [OF this] show "target_tr m = r" "duration m = d" by simp_all
qed

text \<open>The command of a trial: the rate of one direction for the requested duration.\<close>

definition trial_args :: "traffic_generator \<Rightarrow> real \<Rightarrow> int \<Rightarrow> start_args" where
  "trial_args tg d directions =
     \<lparr>sa_duration = PFloat d, sa_frame_size = tg_frame_size tg,
      sa_profile = (case tg_traffic_profile tg of None \<Rightarrow> ''None'' | Some p \<Rightarrow> p), sa_async = False,
      sa_latency = (case use_latency tg of None \<Rightarrow> ANone | Some b \<Rightarrow> ABool b), sa_warmup = tg_warmup_time tg,
      sa_directions = directions, sa_tx_port = 0, sa_rx_port = 1\<rparr>"

definition trial_command :: "'w tg_env \<Rightarrow> traffic_generator \<Rightarrow> real \<Rightarrow> real \<Rightarrow> int \<Rightarrow> real \<Rightarrow> string" where
  "trial_command env tg d rate directions warmup =
     (let a = trial_args tg d directions
      in if str_contains ''trex-astf'' (sa_profile a)
         then start_command env (ifaces_reordered tg) ''trex_astf_profile.py'' (''mult'', AInt (trunc rate)) a warmup
         else start_command env (ifaces_reordered tg) ''trex_stl_profile.py''
                (''rate'', AStr (quoted (float_repr env rate @ ''pps''))) a warmup)"

text \<open>The results that the run printed.\<close>

definition printed_results :: "string \<Rightarrow> (string, string) pydict \<Rightarrow> bool" where
  "printed_results out res \<longleftrightarrow>
     (\<exists>line. list_get (splitlines out) (-1) = Inr line \<and> parse_pairs [] (result_fields line) = (None, res))"

lemma sync_finished_Inr:
  assumes "sync_finished tg out w = (Inr u, tg', w')"
  shows "w' = w \<and> negative_loss tg' = negative_loss tg \<and>
    (\<exists>res. printed_results out res \<and> tg_sent tg' = map_of res ''total_sent'' \<and> tg_loss tg' = map_of res ''frame_loss'')"
proof -
  from assms obtain tg1 where parse: "parse_traffic_results tg out = (Inr (), tg1)" and tg': "tg' = tg1\<lparr>start_time := None, tg_rate := None\<rparr>" "w' = w"
    by (auto simp: sync_finished_def split: prod.splits sum.splits)
  from parse obtain line where line: "list_get (splitlines out) (-1) = Inr line"
    by (auto simp: parse_traffic_results_def split: sum.splits)
  obtain e res where pairs: "parse_pairs [] (result_fields line) = (e, res)" by fastforce
  from parse line pairs have e: "e = None"
    by (cases e) (auto simp: parse_traffic_results_def bindE_def split: sum.splits)
  have "tg_sent tg1 = map_of res ''total_sent'' \<and> tg_loss tg1 = map_of res ''frame_loss'' \<and> negative_loss tg1 = negative_loss tg"
    using parse line pairs e
    by (auto simp: parse_traffic_results_def store_results_def Let_def split: sum.splits if_splits)
  then show ?thesis using tg' line pairs e by (auto simp: printed_results_def)
qed

lemma trial_run:
  assumes "send_traffic_on_tg env tg rate (trial_args tg d dirs) w = (Inr r, tg', w')"
  shows "negative_loss tg' = negative_loss tg \<and>
    (\<exists>warmup timeout out res. tg_warmup_time tg = Some warmup \<and>
       exec_cmd_no_error env (tg_node tg) (trial_command env tg d rate dirs warmup) timeout w = (Inr out, w') \<and>
       printed_results out res \<and> tg_sent tg' = map_of res ''total_sent'' \<and> tg_loss tg' = map_of res ''frame_loss'')"
proof -
  let ?a = "trial_args tg d dirs"
  have arg: "\<not> sa_async ?a" "sa_warmup ?a = tg_warmup_time tg" by (simp_all add: trial_args_def)
  let ?tg1 = "tg\<lparr>tg_traffic_profile := Some (sa_profile ?a)\<rparr>"
  show ?thesis
  proof (cases "str_contains ''trex-astf'' (sa_profile ?a)")
    case True
    with assms obtain u where "trex_astf_start_remote_exec env ?tg1 (trunc rate) ?a w = (Inr u, tg', w')"
      by (auto simp: send_traffic_on_tg_def Let_def split: sum.splits prod.splits)
    then obtain warmup timeout out w1 where "tg_warmup_time tg = Some warmup"
      "exec_cmd_no_error env (tg_node tg) (trial_command env tg d rate dirs warmup) timeout w = (Inr out, w1)"
      "sync_finished (?tg1\<lparr>tg_traffic_directions := Some (sa_directions ?a)\<rparr>) out w1 = (Inr u, tg', w')"
      using arg True by (auto simp: trex_astf_start_remote_exec_def trial_command_def Let_def split: sum.splits prod.splits option.splits)
    with sync_finished_Inr [OF this(3)] show ?thesis by auto
  next
    case False
    with assms obtain u where "trex_stl_start_remote_exec env ?tg1 (float_repr env rate @ ''pps'') ?a w = (Inr u, tg', w')"
      by (auto simp: send_traffic_on_tg_def Let_def split: sum.splits prod.splits if_splits)
    then obtain warmup timeout out w1 where "tg_warmup_time tg = Some warmup"
      "exec_cmd_no_error env (tg_node tg) (trial_command env tg d rate dirs warmup) timeout w = (Inr out, w1)"
      "sync_finished (?tg1\<lparr>tg_traffic_directions := Some (sa_directions ?a)\<rparr>) out w1 = (Inr u, tg', w')"
      using arg False by (auto simp: trex_stl_start_remote_exec_def trial_command_def Let_def split: sum.splits prod.splits option.splits)
    with sync_finished_Inr [OF this(3)] show ?thesis by auto
  qed
qed

text \<open>
  C9. A measurement returned by the traffic generator is for the requested rate and duration, and reports the run it
  has made: exactly one command was run on the generator, the T-Rex script with that duration and the rate divided by the number of
  directions; the measured counts are the numbers of sent and lost frames in the last line that this command printed
  (a negative loss is cut to zero unless negative losses are enabled), and the rates and the fraction
  are consistent with them.
\<close>

theorem measure_reports_run:
  assumes "tg_measure env tg d t w = (Inr m, tg', w')"
  shows "measurement_wf m \<and> duration m = d \<and> target_tr m = t \<and>
    (\<exists>directions warmup timeout out res loss. tg_traffic_directions tg = Some directions \<and> tg_warmup_time tg = Some warmup \<and>
       exec_cmd_no_error env (tg_node tg) (trial_command env tg d (t / of_int directions) directions warmup) timeout w = (Inr out, w') \<and>
       printed_results out res \<and> opt_int (map_of res ''total_sent'') = Inr (transmit_count m) \<and>
       opt_int (map_of res ''frame_loss'') = Inr loss \<and>
       loss_count m = (if loss < 0 \<and> negative_loss tg \<noteq> Some True then 0 else loss))"
proof -
  from assms obtain dirs where dirs: "tg_traffic_directions tg = Some dirs" by (auto simp: tg_measure_def split: option.splits)
  with assms obtain unit_rate r tg1 w1 where rate: "fdiv t (of_int dirs) = Inr unit_rate"
    and sent: "send_traffic_on_tg env tg unit_rate (trial_args tg d dirs) w = (Inr r, tg1, w1)"
    and result: "get_measurement_result env tg1 (Some d) (Some t) w1 = (Inr m, tg', w')"
    by (auto simp: tg_measure_def trial_args_def split: sum.splits prod.splits)
  from rate have "unit_rate = t / of_int dirs" by (auto simp: fdiv_def split: if_splits)
  then have cmd: "unit_rate = t / of_int dirs" .
  from trial_run [OF sent] obtain warmup timeout out res where neg: "negative_loss tg1 = negative_loss tg" and run: "tg_warmup_time tg = Some warmup"
    "exec_cmd_no_error env (tg_node tg) (trial_command env tg d unit_rate dirs warmup) timeout w = (Inr out, w1)" "printed_results out res"
    and counts: "tg_sent tg1 = map_of res ''total_sent''" "tg_loss tg1 = map_of res ''frame_loss''" by blast
  from get_measurement_result_Inr [OF result, unfolded counts neg] obtain loss where
    m: "w' = w1" "measurement_wf m" "duration m = d" "target_tr m = t" "opt_int (map_of res ''total_sent'') = Inr (transmit_count m)"
      "opt_int (map_of res ''frame_loss'') = Inr loss" "loss_count m = (if loss < 0 \<and> negative_loss tg \<noteq> Some True then 0 else loss)" by blast
  show ?thesis
    by (intro conjI m(2-4) exI) (rule dirs run(1) run(2) [unfolded cmd, folded m(1)] run(3) m(5-7))+
qed

text \<open>A traffic generator whose runs always print the same results.\<close>

definition sample_env :: "string \<Rightarrow> real tg_env" where
  "sample_env out =
     \<lparr>exec_cmd_no_error = (\<lambda>node cmd timeout w. (Inr out, w + 1)), time_now = (\<lambda>w. (w, w)),
      float_repr = (\<lambda>x. ''1.0''), send_force = False\<rparr>"

definition sample_tg :: traffic_generator where
  "sample_tg =
     (set_rate_provider_defaults TrafficGenerator_init (AInt 64) ''trex-stl-ethip4'' 0 2 True False)
       \<lparr>tg_node := VDict [(''type'', VStr ''TG''), (''subtype'', VStr ''TREX'')], tg_mode := Some STL\<rparr>"

definition sample_output :: string where
  "sample_output = ''total_sent=8, frame_loss=2''"

lemma sample_parse:
  "splitlines sample_output = [sample_output]"
  "parse_pairs [] (result_fields sample_output) = (None, [(''total_sent'', ''8''), (''frame_loss'', ''2'')])"
proof -
  show "splitlines sample_output = [sample_output]"
    by (simp add: sample_output_def splitlines_def is_line_end_def)
  have "result_fields sample_output = [''total_sent=8'', '' frame_loss=2'']"
    by (simp add: sample_output_def result_fields_def)
  then show "parse_pairs [] (result_fields sample_output) =
      (None, [(''total_sent'', ''8''), (''frame_loss'', ''2'')])"
    by (simp add: split_pair_def strip_def is_space_def)
qed

lemma sample_ints: "opt_int (Some ''8'') = Inr 8" "opt_int (Some ''2'') = Inr 2"
  by (simp_all add: opt_int_def opt_val_def parse_int_def strip_def is_space_def parse_nat_def
      is_digit_def digit_value_def)

lemma sample_run:
  "\<exists>m tg' w'. tg_measure (sample_env sample_output) sample_tg 1 8 0 = (Inr m, tg', w')"
  by (simp add: tg_measure_def sample_tg_def set_rate_provider_defaults_def sample_env_def
        send_traffic_on_tg_def check_subtype_def str_contains.simps startswith_def
        trex_stl_start_remote_exec_def check_mode_def sync_finished_def parse_traffic_results_def
        sample_parse list_get_def store_results_def get_measurement_result_def sample_ints
        ReceiveRateMeasurement_def Let_def)

theorem measure_reports_run_witness:
  "\<exists>m tg' w'. tg_measure (sample_env sample_output) sample_tg 1 8 0 = (Inr m, tg', w') \<and>
    measurement_wf m \<and> duration m = 1 \<and> target_tr m = 8 \<and> transmit_count m = 8 \<and> loss_count m = 2"
proof -
  obtain m tg' w' where run: "tg_measure (sample_env sample_output) sample_tg 1 8 0 = (Inr m, tg', w')"
    using sample_run by blast
  from measure_reports_run [OF run] obtain cmd timeout out res loss where m: "measurement_wf m" "duration m = 1" "target_tr m = 8"
    "exec_cmd_no_error (sample_env sample_output) (tg_node sample_tg) cmd timeout 0 = (Inr out, w')" "printed_results out res"
    "opt_int (map_of res ''total_sent'') = Inr (transmit_count m)" "opt_int (map_of res ''frame_loss'') = Inr loss"
    "loss_count m = (if loss < 0 \<and> negative_loss sample_tg \<noteq> Some True then 0 else loss)" by blast
  have "out = sample_output" using m(4) by (simp add: sample_env_def)
  with m(5) have "res = [(''total_sent'', ''8''), (''frame_loss'', ''2'')]"
    by (simp add: printed_results_def sample_parse list_get_def)
  with m(6-8) have "transmit_count m = 8 \<and> loss_count m = 2" by (simp add: sample_ints)
  with run m(1-3) show ?thesis by blast
qed

section \<open>Printing and parsing results\<close>

text \<open>What the scripts print last: every result is followed by a comma and a blank, the line by a newline.\<close>

definition print_pair :: "string \<times> string \<Rightarrow> string" where
  "print_pair kv = fst kv @ ''='' @ snd kv"

definition print_results :: "(string \<times> string) list \<Rightarrow> string" where
  "print_results kvs = concat (map (\<lambda>kv. print_pair kv @ '', '') kvs)"

definition plain :: "string \<Rightarrow> bool" where
  "plain s \<longleftrightarrow> CHR '','' \<notin> set s \<and> (\<forall>c\<in>set s. \<not> is_line_end c)"

definition pair_ok :: "string \<times> string \<Rightarrow> bool" where
  "pair_ok kv \<longleftrightarrow> plain (fst kv) \<and> plain (snd kv) \<and> CHR ''='' \<notin> set (fst kv) \<and> stripped (fst kv)"

lemma split_pair_print:
  assumes "CHR ''='' \<notin> set k" and "p \<noteq> CHR ''=''"
  shows "split_pair (k @ CHR ''='' # v) = Inr (k, v)" "split_pair (p # k @ CHR ''='' # v) = Inr (p # k, v)"
proof -
  have "\<forall>c\<in>set k. c \<noteq> CHR ''=''" using assms(1) by metis
  then have "dropWhile (\<lambda>c. c \<noteq> CHR ''='') (k @ CHR ''='' # v) = CHR ''='' # v"
    "takeWhile (\<lambda>c. c \<noteq> CHR ''='') (k @ CHR ''='' # v) = k"
    by (simp_all add: dropWhile_append3 takeWhile_append)
  with assms(2) show "split_pair (k @ CHR ''='' # v) = Inr (k, v)"
    "split_pair (p # k @ CHR ''='' # v) = Inr (p # k, v)"
    by (simp_all add: split_pair_def)
qed

lemma strip_blank: "stripped k \<Longrightarrow> strip (CHR 32 # k) = k"
proof -
  assume "stripped k"
  then have "strip k = k" by (rule strip_id)
  moreover have "strip (CHR 32 # k) = strip k" by (simp add: strip_def is_space_def)
  ultimately show ?thesis by simp
qed

lemma parse_pairs_printed:
  assumes "\<forall>kv\<in>set kvs. pair_ok kv"
  shows "\<exists>res. parse_pairs acc (map (\<lambda>kv. CHR 32 # print_pair kv) kvs) = (None, res) \<and>
    map_of res = map_of acc ++ map_of (rev kvs)"
  using assms
proof (induction kvs arbitrary: acc)
  case (Cons kv kvs)
  obtain k v where kv: "kv = (k, v)" by (cases kv)
  then have "CHR ''='' \<notin> set k" "stripped k" using Cons.prems by (simp_all add: pair_ok_def)
  then have "parse_pairs acc (map (\<lambda>kv. CHR 32 # print_pair kv) (kv # kvs)) =
      parse_pairs (AList.update k v acc) (map (\<lambda>kv. CHR 32 # print_pair kv) kvs)"
    by (simp add: kv print_pair_def split_pair_print strip_blank)
  moreover have "map_of (AList.update k v acc) ++ map_of (rev kvs) = map_of acc ++ map_of (rev (kv # kvs))"
    by (simp add: kv update_conv' map_add_upd_left map_add_def fun_eq_iff split: option.split)
  ultimately show ?case using Cons.IH [of "AList.update k v acc"] Cons.prems by simp
qed simp

lemma print_pair_whole: "pair_ok kv \<Longrightarrow> CHR '','' \<notin> set (print_pair kv)"
  by (auto simp: print_pair_def pair_ok_def plain_def)

lemma split_later_results:
  "\<forall>kv\<in>set kvs. pair_ok kv \<Longrightarrow>
    split_on CHR '','' (CHR 32 # print_results kvs) = map (\<lambda>kv. CHR 32 # print_pair kv) kvs @ ['' '']"
proof (induction kvs)
  case (Cons kv kvs)
  then have "CHR '','' \<notin> set (CHR 32 # print_pair kv)" by (simp add: print_pair_whole)
  from split_on_append [OF this, of "CHR 32 # print_results kvs"] Cons show ?case
    by (simp add: print_results_def)
qed (simp add: print_results_def)

lemma result_fields_printed:
  assumes "\<forall>kv\<in>set (kv # kvs). pair_ok kv"
  shows "result_fields (print_results (kv # kvs)) = print_pair kv # map (\<lambda>kv. CHR 32 # print_pair kv) kvs"
proof -
  have "split_on CHR '','' (print_results (kv # kvs)) = print_pair kv # map (\<lambda>kv. CHR 32 # print_pair kv) kvs @ ['' '']"
    using split_on_append [OF print_pair_whole [of kv], of "CHR 32 # print_results kvs"] split_later_results [of kvs] assms
    by (simp add: print_results_def)
  then show ?thesis by (simp add: result_fields_def Let_def butlast_append)
qed

lemma map_of_rev_same: "distinct (map fst kvs) \<Longrightarrow> map_of (rev kvs) = map_of kvs"
  by (rule map_of_inject_set [THEN iffD2]) (simp_all add: rev_map [symmetric])

lemma parse_pairs_fields:
  assumes "\<forall>kv\<in>set (kv # kvs). pair_ok kv" and "distinct (map fst (kv # kvs))"
  shows "\<exists>res. parse_pairs [] (result_fields (print_results (kv # kvs))) = (None, res) \<and>
    map_of res = map_of (kv # kvs)"
proof -
  obtain k v where kv: "kv = (k, v)" by (cases kv)
  then have key: "CHR ''='' \<notin> set k" "strip k = k"
    using assms(1) by (simp_all add: pair_ok_def strip_id)
  have "split_pair (print_pair kv) = Inr (k, v)"
    using split_pair_print(1) [OF key(1), of "CHR 32"] by (simp add: kv print_pair_def)
  with key(2) have "parse_pairs [] (result_fields (print_results (kv # kvs))) =
      parse_pairs [(k, v)] (map (\<lambda>kv. CHR 32 # print_pair kv) kvs)"
    unfolding result_fields_printed [OF assms(1)] by simp
  moreover obtain res where
    "parse_pairs [(k, v)] (map (\<lambda>kv. CHR 32 # print_pair kv) kvs) = (None, res)"
    and "map_of res = map_of [(k, v)] ++ map_of (rev kvs)"
    using parse_pairs_printed [of kvs "[(k, v)]"] assms(1) by auto
  moreover have "map_of (rev kvs) = map_of kvs" "map_of kvs k = None"
    using assms(2) by (simp_all add: kv map_of_rev_same map_of_eq_None_iff image_iff)
  then have "map_of [(k, v)] ++ map_of (rev kvs) = map_of (kv # kvs)"
    by (auto simp: kv map_add_def fun_eq_iff split: option.split)
  ultimately show ?thesis by auto
qed

lemma plain_results:
  assumes "\<forall>kv\<in>set kvs. pair_ok kv"
  shows "\<forall>c\<in>set (print_results kvs). \<not> is_line_end c"
proof -
  have "\<not> is_line_end CHR '',''" "\<not> is_line_end CHR 32" "\<not> is_line_end CHR ''=''"
    by (simp_all add: is_line_end_def)
  then show ?thesis using assms by (auto simp: print_results_def print_pair_def pair_ok_def plain_def)
qed

text \<open>Lines: a newline ends the last one, and starts it after what was printed before.\<close>

lemma newline_ends: "is_line_end (CHR 0x0A)"
  by (simp add: is_line_end_def)

lemma lines_from_plain:
  "\<forall>c\<in>set s. \<not> is_line_end c \<Longrightarrow> lines_from acc (s @ [CHR 0x0A]) = [acc @ s]"
  by (induction s arbitrary: acc) (auto simp: newline_ends)

lemma last_line:
  assumes "\<forall>c\<in>set line. \<not> is_line_end c"
  shows "lines_from acc (pre @ CHR 0x0A # line @ [CHR 0x0A]) \<noteq> [] \<and>
    last (lines_from acc (pre @ CHR 0x0A # line @ [CHR 0x0A])) = line"
proof (induction acc pre rule: lines_from.induct)
  case (1 acc)
  with assms show ?case by (simp add: lines_from_plain newline_ends)
next
  case (2 acc c cs)
  show ?case
  proof (cases "is_line_end c")
    case True
    show ?thesis
    proof (cases "c = CHR 0x0D \<and> cs = []")
      case True
      with \<open>is_line_end c\<close> assms show ?thesis by (simp add: lines_from_plain)
    next
      case False
      with \<open>is_line_end c\<close> 2(1) show ?thesis by (cases cs) (auto split: if_splits)
    qed
  next
    case False
    with 2(2) show ?thesis by simp
  qed
qed

text \<open>
  C10. Whatever a T-Rex script logs in the lines before, when its last line lists results as \<^verbatim>\<open>trex_stl_profile.py\<close>
  prints them (\<^verbatim>\<open>key=value, key=value, \<close> with a comma and a blank also after the last, then a newline) with distinct
  keys, parsing the output succeeds outside of the advanced stateful mode, and the object holds the printed
  numbers of sent, lost and received frames and the two latencies; a result that is not
  printed is \<open>None\<close>.
\<close>

theorem parse_results_round_trip:
  assumes "check_subtype (tg_node tg) = Inr ''TREX''" and "tg_mode tg \<noteq> Some ASTF"
    and "kvs \<noteq> []" and "\<forall>kv\<in>set kvs. pair_ok kv" and "distinct (map fst kvs)"
    and "pre = [] \<or> last pre = CHR 0x0A"
  shows "\<exists>res. parse_traffic_results tg (pre @ print_results kvs @ [CHR 0x0A]) =
      (Inr (), tg\<lparr>tg_result := Some res, tg_received := map_of kvs ''total_received'',
         tg_sent := map_of kvs ''total_sent'', tg_loss := map_of kvs ''frame_loss'',
         approximated_duration := map_of kvs ''approximated_duration'',
         approximated_rate := map_of kvs ''approximated_rate'',
         tg_latency := Some [map_of kvs ''latency_stream_0(usec)'',
                             map_of kvs ''latency_stream_1(usec)'']\<rparr>) \<and>
    map_of res = map_of kvs"
proof -
  obtain kv rest where kvs: "kvs = kv # rest" using assms(3) by (cases kvs) auto
  note plain = plain_results [OF assms(4)]
  have "list_get (splitlines (pre @ print_results kvs @ [CHR 0x0A])) (-1) = Inr (print_results kvs)"
  proof (cases "pre = []")
    case True
    with lines_from_plain [OF plain, of "[]"] show ?thesis by (simp add: splitlines_def list_get_last)
  next
    case False
    with assms(6) have "pre = butlast pre @ [CHR 0x0A]" by (metis append_butlast_last_id)
    with last_line [OF plain, of "[]" "butlast pre"] show ?thesis
      by (metis append_Cons append_Nil append_assoc list_get_last splitlines_def)
  qed
  moreover obtain res where "parse_pairs [] (result_fields (print_results kvs)) = (None, res)"
    and "map_of res = map_of kvs"
    using parse_pairs_fields assms(4,5) unfolding kvs by blast
  ultimately show ?thesis
    using assms(1,2) by (intro exI [of _ res]) (simp add: parse_traffic_results_def store_results_def)
qed

theorem parse_results_round_trip_witness:
  "\<exists>tg'. parse_traffic_results sample_tg (''ready'' @ CHR 0x0A # ''total_sent=8, frame_loss=2, '' @ [CHR 0x0A]) = (Inr (), tg') \<and>
    tg_sent tg' = Some ''8'' \<and> tg_loss tg' = Some ''2'' \<and> tg_received tg' = None"
proof -
  let ?kvs = "[(''total_sent'', ''8''), (''frame_loss'', ''2'')]"
  have sub: "check_subtype (tg_node sample_tg) = Inr ''TREX''" "tg_mode sample_tg \<noteq> Some ASTF"
    by (simp_all add: sample_tg_def set_rate_provider_defaults_def check_subtype_def)
  have "pair_ok (''total_sent'', ''8'')" "pair_ok (''frame_loss'', ''2'')"
    by (simp_all add: pair_ok_def plain_def is_line_end_def stripped_def is_space_def)
  moreover have "''ready'' @ CHR 0x0A # ''total_sent=8, frame_loss=2, '' @ [CHR 0x0A] = (''ready'' @ [CHR 0x0A]) @ print_results ?kvs @ [CHR 0x0A]"
    by (simp add: print_results_def print_pair_def)
  ultimately show ?thesis
    using parse_results_round_trip [OF sub, of ?kvs "''ready'' @ [CHR 0x0A]"] by auto
qed

section \<open>Verdicts\<close>

text \<open>
  When a trial of the drop rate search is judged, the verdict is \<open>True\<close> exactly when the
  loss reported by the run (relative to the number of sent frames, in percent, when the acceptance
  is a percentage) does not exceed the acceptance; a run with nothing sent is not judged by
  percentage.
\<close>

theorem measure_loss_verdict:
  assumes "measure_loss env ds rate fsize la la_type profile skip (tg, w) = (Inr ok, (tg', w'))"
  shows "\<exists>l. py_float (tg_loss tg') = Inr l \<and>
    (if loss_acceptance_type_is_percentage ds
     then \<exists>s. py_float (tg_sent tg') = Inr s \<and> s \<noteq> 0 \<and> ok = (l / s * 100 \<le> la)
     else ok = (l \<le> la))"
proof -
  have start: "bindE (if loss_acceptance_type_is_percentage ds
        then bindE (py_float (tg_loss tg')) (\<lambda>l. bindE (py_float (tg_sent tg')) (\<lambda>s.
             bindE (fdiv l s) (\<lambda>q. Inr (q * 100))))
        else py_float (tg_loss tg')) (\<lambda>loss. Inr (loss \<le> la)) = Inr ok"
    using assms unfolding measure_loss_def by (auto split: sum.splits prod.splits)
  show ?thesis
  proof (cases "loss_acceptance_type_is_percentage ds")
    case True
    from start [unfolded if_P [OF True]] show ?thesis
      unfolding if_P [OF True] bindE_eq_Inr by (auto simp: fdiv_def split: if_splits)
  next
    case False
    from start [unfolded if_not_P [OF False]] show ?thesis
      unfolding if_not_P [OF False] bindE_eq_Inr by auto
  qed
qed

text \<open>
  In the advanced stateful mode the entry \<open>err_rx_throttled\<close> stored for the server is the
  client's result, whatever the server reported.
\<close>

theorem server_throttling_is_clients:
  assumes "parse_traffic_results tg out = (Inr (), tg')" and "tg_mode tg = Some ASTF"
  shows "\<exists>res. tg_result tg' = Some res \<and>
    lookup_path (l7_data tg') [''server'', ''err_rx_throttled''] =
      Some (opt_val (map_of res ''client_err_rx_throttled''))"
proof -
  obtain line res where line: "bindE (check_subtype (tg_node tg)) (\<lambda>_. list_get (splitlines out) (-1)) = Inr line"
    and res: "parse_pairs [] (result_fields line) = (None, res)"
    using assms unfolding parse_traffic_results_def
    by (auto split: sum.splits prod.splits option.splits)
  obtain d where d: "l7_results res (tg_traffic_profile tg) = Inr d"
    using assms line res unfolding parse_traffic_results_def
    by (auto simp: Let_def split: sum.splits)
  have tg': "tg' = (store_results (tg\<lparr>tg_result := Some res\<rparr>) res)\<lparr>l7_data := VDict d\<rparr>"
    using assms line res d unfolding parse_traffic_results_def by (simp add: Let_def)
  obtain p where "tg_traffic_profile tg = Some p" using d by (cases "tg_traffic_profile tg") (simp_all add: l7_results_def)
  with d show ?thesis
    by (auto simp: tg' store_results_def l7_results_def Let_def l7_server_def pick_def split: if_splits)
qed

theorem server_throttling_is_clients_witness:
  "\<exists>res tg'. parse_traffic_results
      (sample_tg\<lparr>tg_mode := Some ASTF\<rparr>) sample_output = (Inr (), tg') \<and> tg_result tg' = Some res \<and>
    lookup_path (l7_data tg') [''server'', ''err_rx_throttled''] =
      Some (opt_val (map_of res ''client_err_rx_throttled''))"
proof -
  let ?tg = "sample_tg\<lparr>tg_mode := Some ASTF\<rparr>"
  have "\<exists>tg'. parse_traffic_results ?tg sample_output = (Inr (), tg')"
    by (simp add: parse_traffic_results_def sample_tg_def set_rate_provider_defaults_def
        check_subtype_def sample_parse list_get_def l7_results_def Let_def)
  then obtain tg' where run: "parse_traffic_results ?tg sample_output = (Inr (), tg')" ..
  have "tg_mode ?tg = Some ASTF" by simp
  from server_throttling_is_clients [OF run this] run show ?thesis by blast
qed

theorem measure_loss_verdict_witness:
  "\<exists>ok tg' w' l s.
    measure_loss (sample_env sample_output) (set_loss_acceptance_type_percentage DropRateSearch_init)
      8 ''64'' 50 LOSS_PERCENTAGE ''trex-stl-ethip4'' True (sample_tg, 0) = (Inr ok, (tg', w')) \<and>
    py_float (tg_loss tg') = Inr l \<and> py_float (tg_sent tg') = Inr s \<and> ok = (l / s * 100 \<le> 50)"
proof -
  let ?ds = "set_loss_acceptance_type_percentage DropRateSearch_init"
  have floats: "py_float (Some ''8'') = Inr 8" "py_float (Some ''2'') = Inr 2"
    by (simp_all add: parse_float_def parse_mantissa_def signed_def strip_def is_space_def parse_nat_def
        is_digit_def digit_value_def)
  have perc: "loss_acceptance_type_is_percentage ?ds"
    by (simp add: loss_acceptance_type_is_percentage_def set_loss_acceptance_type_percentage_def)
  have "\<exists>tg' w'. measure_loss (sample_env sample_output) ?ds 8 ''64'' 50 LOSS_PERCENTAGE
      ''trex-stl-ethip4'' True (sample_tg, 0) = (Inr True, (tg', w'))"
    by (simp add: measure_loss_def perc sample_tg_def set_rate_provider_defaults_def sample_env_def
        check_subtype_def trex_stl_start_remote_exec_def check_mode_def sync_finished_def
        parse_traffic_results_def sample_parse list_get_def store_results_def floats fdiv_def
        del: py_float.simps)
  then obtain ok tg' w' where run: "measure_loss (sample_env sample_output) ?ds 8 ''64'' 50
      LOSS_PERCENTAGE ''trex-stl-ethip4'' True (sample_tg, 0) = (Inr ok, (tg', w'))" by blast
  from measure_loss_verdict [OF run] run perc show ?thesis by auto
qed

end
