(* ===== verification/NodePath.thy ===== *)
theory NodePath
  imports Topology
begin

text \<open>
  \<open>NodePath.py\<close>: a path through the topology, one link per pair of consecutive nodes, and the
  dictionary of a circular topology computed from it. The object is the record \<open>node_path\<close>; an
  operation returns its result (or exception) with the object as it is afterwards, because the
  fields filled before an exception keep their new values.
\<close>

type_synonym path_item = "pyval \<times> node"

record node_path =
  np_nodes :: "node list"
  np_nodes_filter :: "pyval list option list"
  np_links :: "pyval list"
  np_path :: "path_item list"
  np_path_iter :: "path_item list"

definition NodePath_init :: node_path where
  "NodePath_init =
     \<lparr>np_nodes = [], np_nodes_filter = [], np_links = [], np_path = [], np_path_iter = []\<rparr>"

definition append_node :: "node_path \<Rightarrow> node \<Rightarrow> pyval list option \<Rightarrow> node_path" where
  "append_node np node filter_list =
     np\<lparr>np_nodes_filter := np_nodes_filter np @ [filter_list], np_nodes := np_nodes np @ [node]\<rparr>"

definition append_nodes :: "node_path \<Rightarrow> node list \<Rightarrow> pyval list option \<Rightarrow> node_path" where
  "append_nodes np nodes filter_list = foldl (\<lambda>np node. append_node np node filter_list) np nodes"

definition clear_path :: "node_path \<Rightarrow> node_path" where
  "clear_path np =
     np\<lparr>np_nodes := [], np_nodes_filter := [], np_links := [], np_path := [], np_path_iter := []\<rparr>"

section \<open>Computing the path\<close>

text \<open>The choice of the link: \<open>used\<close> are the links of the path so far.\<close>

definition choose_link ::
    "bool \<Rightarrow> pyval list \<Rightarrow> node \<Rightarrow> node \<Rightarrow> pyval list option \<Rightarrow> pyval res" where
  "choose_link always_same_link used node1 node2 connecting =
     (case connecting of
        Some (l # ls) \<Rightarrow>
          (if always_same_link then
             (case filter (\<lambda>link. link \<in> set used) (l # ls) of
                [] \<Rightarrow> Inr l
              | link # rest \<Rightarrow> Inr link)
           else
             (case filter (\<lambda>link. link \<notin> set used) (l # ls) of
                [] \<Rightarrow>
                  bindE (getitem node1 ''host'') (\<lambda>_. bindE (getitem node2 ''host'') (\<lambda>_.
                    Inl (RuntimeError ''No free link between nodes, all links already used'')))
              | link # rest \<Rightarrow> Inr link))
      | _ \<Rightarrow>
          bindE (getitem node1 ''host'') (\<lambda>_. bindE (getitem node2 ''host'') (\<lambda>_.
            Inl (RuntimeError ''No link between nodes''))))"

definition path_step :: "bool \<Rightarrow> node_path \<Rightarrow> nat \<Rightarrow> unit res \<times> node_path" where
  "path_step always_same_link np idx =
     (let node1 = np_nodes np ! idx; node2 = np_nodes np ! (idx + 1)
      in case bindE (get_active_connecting_links node1 node2
                 (np_nodes_filter np ! idx) (np_nodes_filter np ! (idx + 1)))
               (choose_link always_same_link (np_links np) node1 node2) of
           Inl e \<Rightarrow> (Inl e, np)
         | Inr link \<Rightarrow>
             (let np1 = np\<lparr>np_links := np_links np @ [link]\<rparr>
              in case bindE (get_interface_by_link_name node1 link) (\<lambda>interface1.
                      bindE (get_interface_by_link_name node2 link) (\<lambda>interface2.
                      Inr (interface1, interface2))) of
                   Inl e \<Rightarrow> (Inl e, np1)
                 | Inr (interface1, interface2) \<Rightarrow>
                     (Inr (), np1\<lparr>np_path := np_path np1 @ [(interface1, node1), (interface2, node2)]\<rparr>)))"

fun path_loop :: "bool \<Rightarrow> node_path \<Rightarrow> nat list \<Rightarrow> unit res \<times> node_path" where
  "path_loop always_same_link np [] = (Inr (), np)"
| "path_loop always_same_link np (idx # idxs) =
     (case path_step always_same_link np idx of
        (Inl e, np') \<Rightarrow> (Inl e, np')
      | (Inr u, np') \<Rightarrow> path_loop always_same_link np' idxs)"

definition compute_path :: "bool \<Rightarrow> node_path \<Rightarrow> unit res \<times> node_path" where
  "compute_path always_same_link np =
     (if length (np_nodes np) < 2 then (Inl (RuntimeError ''Not enough nodes to compute path''), np)
      else case path_loop always_same_link np [0..<length (np_nodes np) - 1] of
        (Inl e, np') \<Rightarrow> (Inl e, np')
      | (Inr u, np') \<Rightarrow>
          (Inr (), np'\<lparr>np_path_iter := rev (np_path_iter np' @ np_path np')\<rparr>))"

definition next_interface :: "node_path \<Rightarrow> path_item option \<times> node_path" where
  "next_interface np =
     (if np_path_iter np = [] then (None, np)
      else (Some (last (np_path_iter np)), np\<lparr>np_path_iter := butlast (np_path_iter np)\<rparr>))"

definition path_at :: "node_path \<Rightarrow> int \<Rightarrow> path_item res" where
  "path_at np i =
     (if np_path np = [] then Inl (RuntimeError ''No path for topology'') else list_get (np_path np) i)"

definition first_interface :: "node_path \<Rightarrow> path_item res" where
  "first_interface np = path_at np 0"

definition last_interface :: "node_path \<Rightarrow> path_item res" where
  "last_interface np = path_at np (-1)"

definition first_ingress_interface :: "node_path \<Rightarrow> path_item res" where
  "first_ingress_interface np = path_at np 1"

definition last_egress_interface :: "node_path \<Rightarrow> path_item res" where
  "last_egress_interface np = path_at np (-2)"

section \<open>Circular topology\<close>

text \<open>Node, TG interface and DUT interface indices of the labelling loop.\<close>

record label_state =
  n_idx :: nat
  t_idx :: nat
  d_idx :: nat

text \<open>
  The node prefix and the interface number of one path item. In the branch without traffic
  generator the code compares the host with \<open>prev_host\<close>, which is \<open>None\<close> and never assigned.
\<close>

definition interface_label ::
    "bool \<Rightarrow> bool \<Rightarrow> node \<Rightarrow> label_state \<Rightarrow> (string \<times> nat \<times> label_state) res" where
  "interface_label topo_has_tg always_same_link node st =
     (if topo_has_tg \<and> map_of node ''type'' = Some (VStr ''TG'') then
        Inr (''TG'', t_idx st, st\<lparr>n_idx := 0, t_idx := t_idx st + 1\<rparr>)
      else if topo_has_tg then
        Inr (''DUT'' @ str_of_nat (n_idx st div 2 + 1), d_idx st mod 2 + t_idx st - 1,
             st\<lparr>n_idx := n_idx st + 1, d_idx := d_idx st + 1\<rparr>)
      else if always_same_link then
        (let prev_host = VNone;
             this_host = (case map_of node ''host'' of None \<Rightarrow> VNone | Some h \<Rightarrow> h);
             st1 = (if prev_host \<noteq> this_host then st\<lparr>n_idx := n_idx st + 1, d_idx := 1\<rparr> else st)
         in Inr (''DUT'' @ str_of_nat (n_idx st1), d_idx st1, st1\<lparr>d_idx := d_idx st1 + 1\<rparr>))
      else Inl (RuntimeError ''Unsupported combination of paramters''))"

definition lower :: "string \<Rightarrow> string" where
  "lower s =
     map (\<lambda>c. if 65 \<le> (of_char c :: nat) \<and> (of_char c :: nat) \<le> 90
              then char_of (of_char c + 32 :: nat) else c) s"

definition append_to :: "pyobj \<Rightarrow> string \<Rightarrow> pyval \<Rightarrow> pyobj" where
  "append_to d k v =
     AList.update k (VList ((case map_of d k of Some (VList xs) \<Rightarrow> xs | _ \<Rightarrow> []) @ [v])) d"

definition record_interface ::
    "pyobj \<Rightarrow> string \<Rightarrow> nat \<Rightarrow> pyval \<Rightarrow> node \<Rightarrow> pyobj res" where
  "record_interface t_dict n_pfx num iface node =
     (let pf = n_pfx @ ''_pf'' @ str_of_nat num;
          lo = lower n_pfx @ ''_if'' @ str_of_nat num
      in bindE (get_interface_mac node iface) (\<lambda>mac.
         bindE (get_interface_vlan node iface) (\<lambda>vlan.
         bindE (get_interface_pci_addr node iface) (\<lambda>pci.
         bindE (get_interface_ip4 node iface) (\<lambda>ip4.
         bindE (get_interface_ip4_prefix_length node iface) (\<lambda>prefix.
         Inr (foldl (\<lambda>d (k, v). AList.update k v d)
                (append_to
                   (append_to
                      (foldl (\<lambda>d (k, v). AList.update k v d) t_dict
                         [(n_pfx, VDict node), (pf, VList [iface]), (pf @ ''_mac'', VList [mac]),
                          (pf @ ''_vlan'', VList [vlan]), (pf @ ''_pci'', VList [pci]),
                          (pf @ ''_ip4_addr'', VList [ip4]), (pf @ ''_ip4_prefix'', VList [prefix])])
                      (n_pfx @ ''_pf_pci'') pci)
                   (n_pfx @ ''_pf_keys'') iface)
                [(lo, iface), (lo @ ''_mac'', mac), (lo @ ''_pci'', pci), (lo @ ''_ip4_addr'', ip4),
                 (lo @ ''_ip4_prefix'', prefix)])))))))"

function label_loop ::
    "bool \<Rightarrow> bool \<Rightarrow> node_path \<Rightarrow> label_state \<Rightarrow> pyobj \<Rightarrow> pyobj res \<times> node_path" where
  "label_loop topo_has_tg always_same_link np st t_dict =
     (case next_interface np of
        (None, np') \<Rightarrow> (Inr t_dict, np')
      | (Some (iface, node), np') \<Rightarrow>
          if iface \<in> {VNone, VStr '''', VInt 0, VList [], VDict []} then (Inr t_dict, np')
          else case bindE (interface_label topo_has_tg always_same_link node st)
                      (\<lambda>(n_pfx, num, st').
                        bindE (record_interface t_dict n_pfx num iface node) (\<lambda>d. Inr (st', d))) of
                 Inl e \<Rightarrow> (Inl e, np')
               | Inr (st', d) \<Rightarrow> label_loop topo_has_tg always_same_link np' st' d)"
  by pat_completeness auto
termination
  by (relation "measure (\<lambda>(a, b, np, st, d). length (np_path_iter np))")
     (auto simp: next_interface_def split: if_splits)

fun append_pfs :: "nat \<Rightarrow> bool \<Rightarrow> nodes \<Rightarrow> string list \<Rightarrow> pyval list option \<Rightarrow> node_path \<Rightarrow>
    unit res \<times> node_path" where
  "append_pfs 0 topo_has_tg nodes duts filter_list np = (Inr (), np)"
| "append_pfs (Suc n) topo_has_tg nodes duts filter_list np =
     (case (if topo_has_tg then getitem nodes ''TG'' else Inr []) of
        Inl e \<Rightarrow> (Inl e, np)
      | Inr tg \<Rightarrow>
          (let np1 = (if topo_has_tg then append_node np tg None else np)
           in append_pfs n topo_has_tg nodes duts filter_list
                (append_nodes np1 (map (\<lambda>dut. the (map_of nodes dut)) duts) filter_list)))"

definition compute_circular_topology ::
    "node_path \<Rightarrow> nodes \<Rightarrow> pyval list option \<Rightarrow> int \<Rightarrow> bool \<Rightarrow> bool \<Rightarrow> pyobj res \<times> node_path" where
  "compute_circular_topology np nodes filter_list nic_pfs always_same_link topo_has_tg =
     (let duts = filter (str_contains ''DUT'') (map fst nodes);
          t_dict = [(''duts'', VList (map VStr duts)), (''duts_count'', VInt (int (length duts))),
                    (''int'', VStr ''pf'')]
      in case append_pfs (nat (nic_pfs div 2)) topo_has_tg nodes duts filter_list np of
           (Inl e, np1) \<Rightarrow> (Inl e, np1)
         | (Inr u, np1) \<Rightarrow>
             (case (if topo_has_tg then getitem nodes ''TG'' else Inr []) of
                Inl e \<Rightarrow> (Inl e, np1)
              | Inr tg \<Rightarrow>
                  (case compute_path always_same_link
                          (if topo_has_tg then append_node np1 tg None else np1) of
                     (Inl e, np2) \<Rightarrow> (Inl e, np2)
                   | (Inr u, np2) \<Rightarrow>
                       (case label_loop topo_has_tg always_same_link np2
                               \<lparr>n_idx = 0, t_idx = 1, d_idx = 0\<rparr> t_dict of
                          (Inl e, np3) \<Rightarrow> (Inl e, np3)
                        | (Inr d, np3) \<Rightarrow> (Inr d, clear_path np3)))))"

declare label_loop.simps [simp del]

section \<open>The computed path\<close>

text \<open>
  One hop of a path: the interfaces of both nodes that are on the link, which connects them under
  the filters.
\<close>

definition hop_ok :: "node_path \<Rightarrow> nat \<Rightarrow> pyval \<Rightarrow> path_item list \<Rightarrow> bool" where
  "hop_ok np i link hop \<longleftrightarrow>
     (\<exists>a b links. hop = [(a, np_nodes np ! i), (b, np_nodes np ! Suc i)] \<and>
        get_interface_by_link_name (np_nodes np ! i) link = Inr a \<and>
        get_interface_by_link_name (np_nodes np ! Suc i) link = Inr b \<and>
        get_active_connecting_links (np_nodes np ! i) (np_nodes np ! Suc i)
          (np_nodes_filter np ! i) (np_nodes_filter np ! Suc i) = Inr (Some links) \<and>
        link \<in> set links)"

text \<open>After \<open>k\<close> iterations, starting from an object without links and path.\<close>

definition path_inv :: "bool \<Rightarrow> node_path \<Rightarrow> nat \<Rightarrow> node_path \<Rightarrow> bool" where
  "path_inv same np0 k np \<longleftrightarrow>
     np_nodes np = np_nodes np0 \<and> np_nodes_filter np = np_nodes_filter np0 \<and>
     np_path_iter np = np_path_iter np0 \<and> length (np_links np) = k \<and>
     (\<exists>hops. np_path np = concat hops \<and> length hops = k \<and>
        (\<forall>i<k. hop_ok np0 i (np_links np ! i) (hops ! i))) \<and>
     (\<not> same \<longrightarrow> distinct (np_links np))"

lemma choose_link_member:
  assumes "choose_link same used n1 n2 connecting = Inr link"
  obtains links where "connecting = Some links" and "link \<in> set links" and "\<not> same \<Longrightarrow> link \<notin> set used"
proof -
  obtain l ls where c: "connecting = Some (l # ls)"
    using assms by (auto simp: choose_link_def split: option.splits list.splits)
  have filt: "x \<in> set xs \<and> P x" if "filter P xs = x # rest" for P x xs and rest :: "pyval list"
    using that by (metis (mono_tags, lifting) list.set_intros(1) mem_Collect_eq set_filter)
  have "link \<in> set (l # ls) \<and> (\<not> same \<longrightarrow> link \<notin> set used)"
  proof (cases same)
    case True
    then show ?thesis
      using assms c filt [of "\<lambda>x. x \<in> set used" "l # ls" link]
      by (cases "filter (\<lambda>x. x \<in> set used) (l # ls)") (auto simp: choose_link_def)
  next
    case False
    then show ?thesis
      using assms c filt [of "\<lambda>x. x \<notin> set used" "l # ls" link]
      by (cases "filter (\<lambda>x. x \<notin> set used) (l # ls)") (simp_all add: choose_link_def)
  qed
  with c that show thesis by blast
qed

lemma path_step_inv:
  assumes inv: "path_inv same np0 k np" and run: "path_step same np k = (Inr u, np')"
  shows "path_inv same np0 (Suc k) np'"
proof -
  let ?n1 = "np_nodes np ! k" and ?n2 = "np_nodes np ! Suc k"
  obtain c link where c: "get_active_connecting_links ?n1 ?n2
      (np_nodes_filter np ! k) (np_nodes_filter np ! Suc k) = Inr c"
    and link: "choose_link same (np_links np) ?n1 ?n2 c = Inr link"
    using run by (auto simp: path_step_def Let_def split: sum.splits)
  then obtain a b where ab: "get_interface_by_link_name ?n1 link = Inr a"
    "get_interface_by_link_name ?n2 link = Inr b"
    and np': "np' = np\<lparr>np_links := np_links np @ [link],
      np_path := np_path np @ [(a, ?n1), (b, ?n2)]\<rparr>"
    using run by (auto simp: path_step_def Let_def split: sum.splits)
  obtain links where links: "c = Some links" "link \<in> set links"
    "\<not> same \<Longrightarrow> link \<notin> set (np_links np)"
    using choose_link_member [OF link] by blast
  obtain hops where hops: "np_path np = concat hops" "length hops = k"
    "\<forall>i<k. hop_ok np0 i (np_links np ! i) (hops ! i)" and len: "length (np_links np) = k"
    using inv by (auto simp: path_inv_def)
  have frame: "np_nodes np = np_nodes np0" "np_nodes_filter np = np_nodes_filter np0"
    using inv by (simp_all add: path_inv_def)
  let ?hops = "hops @ [[(a, ?n1), (b, ?n2)]]"
  have "hop_ok np0 k link [(a, ?n1), (b, ?n2)]"
    using ab c links frame by (auto simp: hop_ok_def)
  then have "\<forall>i<Suc k. hop_ok np0 i ((np_links np @ [link]) ! i) (?hops ! i)"
    using hops len by (auto simp: nth_append less_Suc_eq)
  then have "\<exists>hops. np_path np' = concat hops \<and> length hops = Suc k \<and>
      (\<forall>i<Suc k. hop_ok np0 i (np_links np' ! i) (hops ! i))"
    using hops np' by (intro exI [of _ ?hops]) simp
  then show ?thesis
    using inv np' links(3) len by (auto simp: path_inv_def)
qed

lemma path_loop_inv:
  "path_inv same np0 k np \<Longrightarrow> path_loop same np [k..<n] = (Inr u, np') \<Longrightarrow> k \<le> n \<Longrightarrow>
     path_inv same np0 n np'"
proof (induction "n - k" arbitrary: k np)
  case 0
  then show ?case by simp
next
  case (Suc m)
  then have "k < n" by simp
  then have "[k..<n] = k # [Suc k..<n]" by (rule upt_conv_Cons)
  with Suc.prems(2) obtain v np1 where "path_step same np k = (Inr v, np1)"
    "path_loop same np1 [Suc k..<n] = (Inr u, np')"
    by (auto split: prod.splits sum.splits)
  with Suc.hyps(1) [of "Suc k" np1] Suc.hyps(2) Suc.prems(1) \<open>k < n\<close> path_step_inv show ?case
    by simp
qed

text \<open>
  C38. When \<open>compute_path\<close> on nodes appended to an empty path succeeds, the path has two items
  per pair of consecutive nodes, one on each of them and both on the same link, which connects the
  two nodes under their filters; without \<open>always_same_link\<close> no link is used twice.
\<close>

theorem compute_path_hops:
  assumes "compute_path same np = (Inr (), np')" and "np_links np = []" and "np_path np = []"
  shows "2 \<le> length (np_nodes np) \<and>
    length (np_links np') = length (np_nodes np) - 1 \<and>
    (\<exists>hops. np_path np' = concat hops \<and> length hops = length (np_nodes np) - 1 \<and>
       (\<forall>i < length (np_nodes np) - 1. hop_ok np i (np_links np' ! i) (hops ! i))) \<and>
    (\<not> same \<longrightarrow> distinct (np_links np'))"
proof -
  have len: "2 \<le> length (np_nodes np)"
    using assms(1) by (auto simp: compute_path_def split: if_splits)
  then obtain u np1 where "path_loop same np [0..<length (np_nodes np) - 1] = (Inr u, np1)"
    and np': "np' = np1\<lparr>np_path_iter := rev (np_path_iter np1 @ np_path np1)\<rparr>"
    using assms(1) by (auto simp: compute_path_def split: if_splits prod.splits sum.splits)
  moreover have "path_inv same np 0 np" using assms(2,3) by (simp add: path_inv_def)
  ultimately have "path_inv same np (length (np_nodes np) - 1) np1"
    using path_loop_inv by blast
  with len np' show ?thesis by (simp add: path_inv_def)
qed

definition two_nodes :: node_path where
  "two_nodes = append_node (append_node NodePath_init sample_node None) sample_peer None"

lemma two_nodes_path:
  "\<exists>np'. compute_path False two_nodes = (Inr (), np') \<and>
     np_path np' = [(VStr ''port2'', sample_node), (VStr ''port9'', sample_peer)]"
proof -
  have links: "get_active_connecting_links sample_node sample_peer None None =
      Inr (Some [VStr ''link2''])"
    by (simp add: get_active_connecting_links_def get_node_active_link_names_def active_links_def
        interface_items_def interfaces_def getitem_def sample_node_def sample_interfaces_def
        sample_peer_def)
  have ifaces: "get_interface_by_link_name sample_node (VStr ''link2'') = Inr (VStr ''port2'')"
    "get_interface_by_link_name sample_peer (VStr ''link2'') = Inr (VStr ''port9'')"
    by (simp_all add: get_interface_by_link_name_def get_interface_by_key_value_def
        interface_items_def interfaces_def getitem_def sample_node_def sample_interfaces_def
        sample_peer_def)
  have "[0..<length (np_nodes two_nodes) - 1] = [0]" "2 \<le> length (np_nodes two_nodes)"
    by (simp_all add: two_nodes_def append_node_def NodePath_init_def)
  then show ?thesis
    using links ifaces
    by (simp add: compute_path_def)
       (simp add: path_step_def choose_link_def two_nodes_def append_node_def NodePath_init_def)
qed

theorem compute_path_hops_witness:
  "\<exists>np'. compute_path False two_nodes = (Inr (), np') \<and> length (np_links np') = 1 \<and>
     distinct (np_links np') \<and>
     (\<exists>hops. np_path np' = concat hops \<and> length hops = 1 \<and>
        hop_ok two_nodes 0 (np_links np' ! 0) (hops ! 0))"
proof -
  obtain np' where run: "compute_path False two_nodes = (Inr (), np')" using two_nodes_path by blast
  have "np_links two_nodes = []" "np_path two_nodes = []" "length (np_nodes two_nodes) = 2"
    by (simp_all add: two_nodes_def append_node_def NodePath_init_def)
  with compute_path_hops [OF run] run show ?thesis by simp
qed

section \<open>Walking the path\<close>

fun take_next :: "nat \<Rightarrow> node_path \<Rightarrow> path_item option list \<times> node_path" where
  "take_next 0 np = ([], np)"
| "take_next (Suc n) np =
     (case next_interface np of (r, np1) \<Rightarrow>
        (case take_next n np1 of (rs, np2) \<Rightarrow> (r # rs, np2)))"

lemma take_next_rev:
  "np_path_iter np = rev xs \<Longrightarrow> take_next (length xs) np = (map Some xs, np\<lparr>np_path_iter := []\<rparr>)"
proof (induction xs arbitrary: np)
  case (Cons x xs)
  then have "next_interface np = (Some x, np\<lparr>np_path_iter := rev xs\<rparr>)"
    by (simp add: next_interface_def)
  with Cons.IH [of "np\<lparr>np_path_iter := rev xs\<rparr>"] show ?case by simp
qed simp

text \<open>
  After a successful \<open>compute_path\<close> (with no interfaces left over from an earlier one), the
  calls of \<open>next_interface\<close> return the items of the path from the first to the last, and then
  nothing; \<open>first_interface\<close> and \<open>last_interface\<close> are the ends of that path.
\<close>

theorem next_interface_walks_path:
  assumes "compute_path same np = (Inr (), np')" and "np_path_iter np = []" and "np_path np = []"
    and "np_links np = []"
  shows "\<exists>np''. take_next (length (np_path np')) np' = (map Some (np_path np'), np'') \<and>
    next_interface np'' = (None, np'') \<and>
    first_interface np' = Inr (hd (np_path np')) \<and> last_interface np' = Inr (last (np_path np'))"
proof -
  obtain u np1 where loop: "path_loop same np [0..<length (np_nodes np) - 1] = (Inr u, np1)"
    and np': "np' = np1\<lparr>np_path_iter := rev (np_path_iter np1 @ np_path np1)\<rparr>"
    and len: "2 \<le> length (np_nodes np)"
    using assms(1) by (auto simp: compute_path_def split: if_splits prod.splits sum.splits)
  have "path_inv same np 0 np" using assms by (simp add: path_inv_def)
  with loop path_loop_inv have inv: "path_inv same np (length (np_nodes np) - 1) np1" by blast
  then have "np_path_iter np1 = []" using assms(2) by (simp add: path_inv_def)
  with np' have "np_path_iter np' = rev (np_path np')" by simp
  note walk = take_next_rev [OF this]
  obtain hops where "np_path np1 = concat hops" "length hops = length (np_nodes np) - 1"
    "\<forall>i<length (np_nodes np) - 1. hop_ok np i (np_links np1 ! i) (hops ! i)"
    using inv by (auto simp: path_inv_def)
  moreover have "0 < length (np_nodes np) - 1" using len by simp
  ultimately have "hop_ok np 0 (np_links np1 ! 0) (hops ! 0)" "0 < length hops" by simp_all
  then have "hops ! 0 \<noteq> []" "0 < length hops" by (auto simp: hop_ok_def)
  with \<open>np_path np1 = concat hops\<close> have "np_path np1 \<noteq> []" by (auto dest: nth_mem)
  then have ne: "np_path np' \<noteq> []" using np' by simp
  then have "list_get (np_path np') 0 = Inr (hd (np_path np'))"
    by (cases "np_path np'") simp_all
  with ne walk list_get_last [OF ne] show ?thesis
    by (simp add: first_interface_def last_interface_def path_at_def next_interface_def)
qed

theorem next_interface_walks_path_witness:
  "\<exists>np' np''. compute_path False two_nodes = (Inr (), np') \<and>
     take_next 2 np' =
       ([Some (VStr ''port2'', sample_node), Some (VStr ''port9'', sample_peer)], np'') \<and>
     next_interface np'' = (None, np'') \<and>
     first_interface np' = Inr (VStr ''port2'', sample_node) \<and>
     last_interface np' = Inr (VStr ''port9'', sample_peer)"
proof -
  obtain np' where run: "compute_path False two_nodes = (Inr (), np')"
    and path: "np_path np' = [(VStr ''port2'', sample_node), (VStr ''port9'', sample_peer)]"
    using two_nodes_path by blast
  have "np_path_iter two_nodes = []" "np_path two_nodes = []" "np_links two_nodes = []"
    by (simp_all add: two_nodes_def append_node_def NodePath_init_def)
  from next_interface_walks_path [OF run this] run path show ?thesis
    by (auto simp: numeral_2_eq_2)
qed

section \<open>Labels without a traffic generator\<close>

fun label_nodes :: "label_state \<Rightarrow> node list \<Rightarrow> (string \<times> nat) list res" where
  "label_nodes st [] = Inr []"
| "label_nodes st (node # nodes) =
     bindE (interface_label False True node st) (\<lambda>(n_pfx, num, st').
     bindE (label_nodes st' nodes) (\<lambda>rest. Inr ((n_pfx, num) # rest)))"

lemma label_nodes_hosts:
  assumes "\<forall>n\<in>set ns. \<exists>h. map_of n ''host'' = Some (VStr h)"
  shows "label_nodes st ns = Inr (map (\<lambda>i. (''DUT'' @ str_of_nat (n_idx st + i + 1), 1)) [0..<length ns])"
  using assms
proof (induction ns arbitrary: st)
  case (Cons n ns)
  define st' where "st' = st\<lparr>n_idx := n_idx st + 1, d_idx := 2\<rparr>"
  have "interface_label False True n st = Inr (''DUT'' @ str_of_nat (n_idx st + 1), 1, st')"
    using Cons.prems by (auto simp: interface_label_def st'_def Let_def)
  moreover have "[0..<length (n # ns)] = 0 # map Suc [0..<length ns]"
    by (simp add: map_Suc_upt upt_conv_Cons del: upt_Suc)
  ultimately show ?case using Cons by (simp add: st'_def)
qed simp

text \<open>
  In a topology without traffic generator every item of the path starts a new DUT label:
  the i-th interface of the path is labelled \<open>DUT\<close>i with interface number 1, even when it is on the
  same host as the interface before it, because the previous host is never stored.
\<close>

theorem dut_only_labels_ignore_host:
  assumes "\<forall>n\<in>set ns. \<exists>h. map_of n ''host'' = Some (VStr h)"
  shows "label_nodes \<lparr>n_idx = 0, t_idx = 1, d_idx = 0\<rparr> ns =
    Inr (map (\<lambda>i. (''DUT'' @ str_of_nat (i + 1), 1)) [0..<length ns])"
  using label_nodes_hosts [OF assms, of "\<lparr>n_idx = 0, t_idx = 1, d_idx = 0\<rparr>"] by simp

theorem dut_only_labels_ignore_host_witness:
  "label_nodes \<lparr>n_idx = 0, t_idx = 1, d_idx = 0\<rparr> [sample_node, sample_peer, sample_peer] =
     Inr [(''DUT'' @ str_of_nat 1, 1), (''DUT'' @ str_of_nat 2, 1), (''DUT'' @ str_of_nat 3, 1)]"
proof -
  have "\<forall>n\<in>set [sample_node, sample_peer, sample_peer]. \<exists>h. map_of n ''host'' = Some (VStr h)"
    by (simp add: sample_node_def sample_peer_def)
  from dut_only_labels_ignore_host [OF this] show ?thesis
    by (simp add: upt_conv_Cons numeral_3_eq_3 numeral_2_eq_2 del: label_nodes.simps)
qed

end
