(* ===== verification/Jumpavg.thy ===== *)
theory Jumpavg
  imports PyMath
begin

text \<open>
  The package \<open>jumpavg\<close>: statistics of runs (\<open>AvgStdevStats\<close>), their information content
  (\<open>BitCountingStats\<close>), groups and group lists with cached bit counts, and \<open>classify\<close>, which
  splits a sequence of results into groups of small total bit count.

  Objects are records. Methods that mutate return the new object; the property \<open>bits\<close> fills a
  cache, so it returns the updated object too. Two references to one object never diverge in
  \<open>classify\<close>, because the record list it tracks is always an element of \<open>open_at\<close>; the model
  keeps the index of that element.
\<close>

section \<open>Average and standard deviation\<close>

record avg_stdev_stats =
  st_size :: nat
  st_avg :: real
  st_stdev :: real

datatype run = Value real | Stats avg_stdev_stats

fun run_size :: "run \<Rightarrow> nat" where
  "run_size (Value x) = 1"
| "run_size (Stats s) = st_size s"

fun run_avg :: "run \<Rightarrow> real" where
  "run_avg (Value x) = x"
| "run_avg (Stats s) = st_avg s"

fun run_stdev :: "run \<Rightarrow> real" where
  "run_stdev (Value x) = 0"
| "run_stdev (Stats s) = st_stdev s"

text \<open>The body of the loop of \<open>AvgStdevStats.for_runs\<close>: total size, total average, moment 2.\<close>

definition welford_step :: "nat \<times> real \<times> real \<Rightarrow> run \<Rightarrow> (nat \<times> real \<times> real) res" where
  "welford_step acc r =
     (case acc of (old_total_size, total_avg, moment_2) \<Rightarrow>
        let delta = run_avg r - total_avg;
            total_size = old_total_size + run_size r
        in bindE (fdiv (delta * real (run_size r)) (real total_size)) (\<lambda>shift.
           bindE (fdiv (delta * delta * real old_total_size * real (run_size r)) (real total_size))
             (\<lambda>spread.
           Inr (total_size, total_avg + shift,
                moment_2 + run_stdev r * run_stdev r * real (run_size r) + spread))))"

definition for_runs :: "run list \<Rightarrow> avg_stdev_stats res" where
  "for_runs runs =
     bindE (foldE welford_step (0, 0, 0) runs) (\<lambda>(total_size, total_avg, moment_2).
       if total_size < 1 then Inr \<lparr>st_size = 0, st_avg = 0, st_stdev = 0\<rparr>
       else bindE (math_sqrt (moment_2 / real total_size)) (\<lambda>total_stdev.
         Inr \<lparr>st_size = total_size, st_avg = total_avg, st_stdev = total_stdev\<rparr>))"

section \<open>Information content\<close>

text \<open>\<open>math.lgamma(k / 2)\<close> for a positive integer \<open>k\<close>, by the recurrence of the gamma function.\<close>

fun lgamma_half :: "nat \<Rightarrow> real" where
  "lgamma_half 0 = 0"
| "lgamma_half (Suc 0) = ln (sqrt pi)"
| "lgamma_half (Suc (Suc 0)) = 0"
| "lgamma_half (Suc (Suc k)) = ln (real k / 2) + lgamma_half k"

definition sphere_area_ln :: "nat \<Rightarrow> real \<Rightarrow> real res" where
  "sphere_area_ln size' stdev =
     bindE (math_log (stdev + 1)) (\<lambda>ln_stdev.
       Inr (ln 2 + ln pi * (real (size' - 1) / 2) - lgamma_half (size' - 1)
            + ln_stdev * real (size' - 2) + ln (real size') * (real (size' - 2) / 2)))"

definition BitCountingStats_bits ::
    "nat \<Rightarrow> real option \<Rightarrow> real \<Rightarrow> real option \<Rightarrow> real option \<Rightarrow> real res" where
  "BitCountingStats_bits size' avg stdev max_value prev_avg =
     (if size' < 1 then Inr 0
      else case avg of
        None \<Rightarrow> Inl (ValueError ''Avg is None'')
      | Some a \<Rightarrow>
          (case max_value of
             None \<Rightarrow> Inl (ValueError ''Invalid max value'')
           | Some mx \<Rightarrow>
               if mx \<le> 0 then Inl (ValueError ''Invalid max value'')
               else
                 bindE (math_log2 (real size' * (real size' + 1))) (\<lambda>b1.
                 bindE (case prev_avg of
                          None \<Rightarrow> math_log2 (mx + 1)
                        | Some p \<Rightarrow> math_log2 (mx * (mx + 1) / (\<bar>a - p\<bar> + 1))) (\<lambda>b2.
                 if size' < 2 then Inr (b1 + b2)
                 else
                   bindE (math_log2 (mx + 1)) (\<lambda>b3.
                   bindE (sphere_area_ln size' stdev) (\<lambda>area.
                   Inr (b1 + b2 + b3 + area / ln 2)))))))"

definition BitCountingStats_for_runs ::
    "run list \<Rightarrow> real option \<Rightarrow> real option \<Rightarrow> real res" where
  "BitCountingStats_for_runs runs max_value prev_avg =
     bindE (for_runs runs) (\<lambda>asd.
       BitCountingStats_bits (st_size asd) (Some (st_avg asd)) (st_stdev asd) max_value prev_avg)"

section \<open>Groups\<close>

record group =
  run_list :: "run list"
  gr_stats :: avg_stdev_stats
  cached_bits :: "real option"
  gr_max_value :: "real option"
  prev_avg :: "real option"
  comment :: string

definition BitCountingGroup ::
    "run list \<Rightarrow> avg_stdev_stats option \<Rightarrow> real option \<Rightarrow> real option \<Rightarrow> real option \<Rightarrow> string \<Rightarrow>
     group res" where
  "BitCountingGroup runs stats bits mx prev cmt =
     bindE (case stats of None \<Rightarrow> for_runs runs | Some s \<Rightarrow> Inr s) (\<lambda>s.
       Inr \<lparr>run_list = runs, gr_stats = s, cached_bits = bits, gr_max_value = mx, prev_avg = prev,
            comment = cmt\<rparr>)"

definition group_getitem :: "group \<Rightarrow> int \<Rightarrow> run res" where
  "group_getitem g i = list_get (run_list g) i"

definition group_len :: "group \<Rightarrow> nat" where
  "group_len g = length (run_list g)"

definition group_copy :: "group \<Rightarrow> group res" where
  "group_copy g =
     bindE (for_runs [Stats (gr_stats g)]) (\<lambda>s.
       BitCountingGroup (run_list g) (Some s) (cached_bits g) (gr_max_value g) (prev_avg g)
         (comment g))"

definition group_bits :: "group \<Rightarrow> (real \<times> group) res" where
  "group_bits g =
     (case cached_bits g of
        Some b \<Rightarrow> Inr (b, g)
      | None \<Rightarrow>
          bindE (BitCountingStats_for_runs [Stats (gr_stats g)] (gr_max_value g) (prev_avg g))
            (\<lambda>b. Inr (b, g\<lparr>cached_bits := Some b\<rparr>)))"

definition group_append :: "group \<Rightarrow> run \<Rightarrow> group res" where
  "group_append g r =
     bindE (for_runs [Stats (gr_stats g), r]) (\<lambda>s.
       Inr (g\<lparr>run_list := run_list g @ [r], gr_stats := s, cached_bits := None\<rparr>))"

definition group_extend :: "group \<Rightarrow> run list \<Rightarrow> group res" where
  "group_extend g runs =
     bindE (for_runs (Stats (gr_stats g) # runs)) (\<lambda>s.
       Inr (g\<lparr>run_list := run_list g @ runs, gr_stats := s, cached_bits := None\<rparr>))"

section \<open>Group lists\<close>

record group_list =
  groups :: "group list"
  bits_except_last :: real
  gl_max_value :: "real option"

definition BitCountingGroupList :: "group list \<Rightarrow> real \<Rightarrow> real option \<Rightarrow> group_list" where
  "BitCountingGroupList gs b mx = \<lparr>groups = gs, bits_except_last = b, gl_max_value = mx\<rparr>"

text \<open>The literal returned by \<open>__str__\<close> lacks the prefix that makes it a format string.\<close>

definition group_list_str :: "group_list \<Rightarrow> string" where
  "group_list_str gl = ''group_list={self.group_list} bits={self.bits}''"

definition group_list_getitem :: "group_list \<Rightarrow> int \<Rightarrow> group res" where
  "group_list_getitem gl i = list_get (groups gl) i"

definition group_list_len :: "group_list \<Rightarrow> nat" where
  "group_list_len gl = length (groups gl)"

definition group_list_copy :: "group_list \<Rightarrow> group_list" where
  "group_list_copy gl = BitCountingGroupList (groups gl) (bits_except_last gl) (gl_max_value gl)"

definition set_last :: "'a list \<Rightarrow> 'a \<Rightarrow> 'a list" where
  "set_last xs x = xs[length xs - 1 := x]"

definition group_list_bits :: "group_list \<Rightarrow> (real \<times> group_list) res" where
  "group_list_bits gl =
     (if groups gl = [] then Inr (0, gl)
      else bindE (list_get (groups gl) (-1)) (\<lambda>g.
           bindE (group_bits g) (\<lambda>(b, g').
           Inr (bits_except_last gl + b, gl\<lparr>groups := set_last (groups gl) g'\<rparr>))))"

text \<open>The argument of \<open>append_group_of_runs\<close> is a list of runs or a group.\<close>

datatype runs_arg = Runs "run list" | Group group

definition append_group_of_runs :: "group_list \<Rightarrow> runs_arg \<Rightarrow> group_list res" where
  "append_group_of_runs gl arg =
     (let prev = (if groups gl = [] then None else Some (st_avg (gr_stats (last (groups gl)))))
      in bindE (case arg of
            Group g \<Rightarrow>
              bindE (group_copy g) (\<lambda>g'.
                Inr (g'\<lparr>gr_max_value := gl_max_value gl, prev_avg := prev, cached_bits := None\<rparr>))
          | Runs rs \<Rightarrow> BitCountingGroup rs None None (gl_max_value gl) prev ''unknown'') (\<lambda>new_group.
         bindE (group_list_bits gl) (\<lambda>(b, gl').
         Inr (gl'\<lparr>bits_except_last := b, groups := groups gl' @ [new_group]\<rparr>))))"

definition append_run_to_to_last_group :: "group_list \<Rightarrow> run \<Rightarrow> group_list res" where
  "append_run_to_to_last_group gl r =
     bindE (list_get (groups gl) (-1)) (\<lambda>g.
     bindE (group_append g r) (\<lambda>g'.
     Inr (gl\<lparr>groups := set_last (groups gl) g'\<rparr>)))"

definition extend_runs_to_last_group :: "group_list \<Rightarrow> run list \<Rightarrow> group_list res" where
  "extend_runs_to_last_group gl runs =
     bindE (list_get (groups gl) (-1)) (\<lambda>g.
     bindE (group_extend g runs) (\<lambda>g'.
     Inr (gl\<lparr>groups := set_last (groups gl) g'\<rparr>)))"

section \<open>Classification\<close>

text \<open>An input value is a float or an indivisible sequence of floats.\<close>

datatype input_value = Single real | Many "real list"

definition bump :: "real \<Rightarrow> real \<Rightarrow> real" where
  "bump max_value value = (if value > max_value then value else max_value)"

definition process_value :: "real \<times> run list \<Rightarrow> input_value \<Rightarrow> (real \<times> run list) res" where
  "process_value acc value =
     (case acc of (max_value, processed_values) \<Rightarrow>
        (case value of
           Single x \<Rightarrow> Inr (bump max_value x, processed_values @ [Value x])
         | Many xs \<Rightarrow>
             bindE (for_runs (map Value xs)) (\<lambda>s.
               Inr (foldl bump max_value xs, processed_values @ [Stats s]))))"

text \<open>The inner loop: extend one open partition, compare it with the record.\<close>

definition extend_open :: "run \<Rightarrow> group_list list \<times> nat \<Rightarrow> nat \<Rightarrow> (group_list list \<times> nat) res" where
  "extend_open value state previous_index =
     (case state of (open_at, record_index) \<Rightarrow>
        bindE (append_run_to_to_last_group (group_list_copy (open_at ! previous_index)) value)
          (\<lambda>new_open.
        bindE (group_list_bits new_open) (\<lambda>(new_bits, new_open').
        let open_at1 = open_at[previous_index := new_open']
        in bindE (group_list_bits (open_at1 ! record_index)) (\<lambda>(record_bits, record').
           Inr (open_at1[record_index := record'],
                if new_bits < record_bits then previous_index else record_index)))))"

text \<open>One iteration of the outer loop; \<open>closed_before\<close> has one more element than \<open>open_at\<close>.\<close>

definition classify_step ::
    "group_list list \<times> group_list list \<Rightarrow> run \<Rightarrow> (group_list list \<times> group_list list) res" where
  "classify_step state value =
     (case state of (open_at, closed_before) \<Rightarrow>
        let index = length open_at
        in bindE (append_group_of_runs (group_list_copy (closed_before ! index)) (Runs [value]))
             (\<lambda>newly_open.
           bindE (foldE (extend_open value) (open_at @ [newly_open], index) [0..<index])
             (\<lambda>(open_at', record_index).
           Inr (open_at', closed_before @ [open_at' ! record_index]))))"

fun comment_groups :: "real \<Rightarrow> group list \<Rightarrow> group list" where
  "comment_groups previous_average [] = []"
| "comment_groups previous_average (g # gs) =
     (let avg = st_avg (gr_stats g)
      in (if avg = previous_average then g\<lparr>comment := ''normal''\<rparr>
          else if avg < previous_average then g\<lparr>comment := ''regression''\<rparr>
          else if avg > previous_average then g\<lparr>comment := ''progression''\<rparr>
          else g) # comment_groups avg gs)"

definition classify :: "input_value list \<Rightarrow> group_list res" where
  "classify values =
     bindE (foldE process_value (0, []) values) (\<lambda>(max_value, processed_values).
     bindE (foldE classify_step ([], [BitCountingGroupList [] 0 (Some max_value)]) processed_values)
       (\<lambda>(open_at, closed_before).
     let partition = last closed_before
     in bindE (group_list_getitem partition 0) (\<lambda>g0.
        Inr (partition\<lparr>groups := comment_groups (st_avg (gr_stats g0)) (groups partition)\<rparr>))))"

section \<open>Moments\<close>

text \<open>
  The abstract content of statistics: the number of samples, their sum and the sum of their
  squares. Joining runs adds their moments.
\<close>

datatype moments = Moments (m_count: real) (m_sum: real) (m_squares: real)

instantiation moments :: comm_monoid_add
begin

definition zero_moments :: moments where
  "zero_moments = Moments 0 0 0"

definition plus_moments :: "moments \<Rightarrow> moments \<Rightarrow> moments" where
  "plus_moments a b =
     Moments (m_count a + m_count b) (m_sum a + m_sum b) (m_squares a + m_squares b)"

instance
  by standard (simp_all add: plus_moments_def zero_moments_def)

end

definition stats_moments :: "nat \<Rightarrow> real \<Rightarrow> real \<Rightarrow> moments" where
  "stats_moments n avg stdev = Moments n (n * avg) (n * (stdev * stdev + avg * avg))"

definition moments_of :: "run \<Rightarrow> moments" where
  "moments_of r = stats_moments (run_size r) (run_avg r) (run_stdev r)"

definition run_wf :: "run \<Rightarrow> bool" where
  "run_wf r \<longleftrightarrow> 0 < run_size r \<and> 0 \<le> run_stdev r"

lemma run_wf_Value [simp]: "run_wf (Value x)"
  by (simp add: run_wf_def)

lemma moments_of_Value: "moments_of (Value x) = Moments 1 x (x * x)"
  by (simp add: moments_of_def stats_moments_def)

text \<open>What the loop of \<open>for_runs\<close> has accumulated.\<close>

definition acc_moments :: "nat \<times> real \<times> real \<Rightarrow> moments" where
  "acc_moments acc = (case acc of (n, avg, m2) \<Rightarrow> Moments n (n * avg) (m2 + n * (avg * avg)))"

definition acc_wf :: "nat \<times> real \<times> real \<Rightarrow> bool" where
  "acc_wf acc = (case acc of (n, avg, m2) \<Rightarrow> 0 \<le> m2)"

lemma welford_identity:
  fixes n k a b :: real
  assumes "n + k \<noteq> 0"
  shows "(a - b) * (a - b) * n * k / (n + k) +
      (n + k) * ((b + (a - b) * k / (n + k)) * (b + (a - b) * k / (n + k))) =
    n * (b * b) + k * (a * a)"
proof -
  define q where "q = (a - b) * k / (n + k)"
  have q: "(n + k) * q = (a - b) * k" using assms by (simp add: q_def)
  have "(a - b) * (a - b) * n * k / (n + k) = (a - b) * n * q" by (simp add: q_def)
  moreover have "(a - b) * n * q + (n + k) * ((b + q) * (b + q)) = n * (b * b) + k * (a * a)"
    using q by algebra
  ultimately show ?thesis by (simp only: q_def)
qed

lemma welford_step_moments:
  assumes "run_wf r" and "acc_wf acc"
  obtains acc' where "welford_step acc r = Inr acc'" and "acc_wf acc'"
    and "acc_moments acc' = acc_moments acc + moments_of r" and "0 < fst acc'"
proof -
  obtain n avg m2 where acc: "acc = (n, avg, m2)" by (cases acc)
  define k a s where "k = real (run_size r)" and "a = run_avg r" and "s = run_stdev r"
  define d where "d = a - avg"
  define avg' m2' where "avg' = avg + d * k / (n + k)"
    and "m2' = m2 + s * s * k + d * d * real n * k / (n + k)"
  have k: "0 < k" using assms(1) by (simp add: run_wf_def k_def)
  then have nk: "0 < real n + k" by simp
  have step: "welford_step acc r = Inr (n + run_size r, avg', m2')"
    using nk by (simp add: welford_step_def acc Let_def avg'_def m2'_def k_def a_def s_def d_def)
  have "0 \<le> m2'"
    using assms(2) k by (simp add: m2'_def acc_wf_def acc)
  then have wf: "acc_wf (n + run_size r, avg', m2')" by (simp add: acc_wf_def)
  have sum: "(n + k) * avg' = n * avg + k * a"
    using nk by (simp add: avg'_def d_def field_simps)
  have "m2' + (n + k) * (avg' * avg') = m2 + n * (avg * avg) + k * (s * s + a * a)"
    using welford_identity [of n k a avg] nk
    by (simp add: m2'_def avg'_def d_def algebra_simps)
  with sum have "acc_moments (n + run_size r, avg', m2') = acc_moments acc + moments_of r"
    by (simp add: acc_moments_def moments_of_def stats_moments_def plus_moments_def acc
        k_def a_def s_def)
  with step wf show thesis
    using assms(1) that by (auto simp: run_wf_def)
qed

lemma welford_loop_moments:
  assumes "\<forall>r\<in>set runs. run_wf r" and "acc_wf acc"
  shows "\<exists>acc'. foldE welford_step acc runs = Inr acc' \<and> acc_wf acc' \<and>
    acc_moments acc' = acc_moments acc + sum_list (map moments_of runs) \<and>
    (runs \<noteq> [] \<longrightarrow> 0 < fst acc')"
  using assms
proof (induction runs arbitrary: acc)
  case (Cons r runs)
  then obtain acc1 where 1: "welford_step acc r = Inr acc1" "acc_wf acc1"
    "acc_moments acc1 = acc_moments acc + moments_of r" "0 < fst acc1"
    using welford_step_moments by (metis list.set_intros(1))
  with Cons obtain acc' where "foldE welford_step acc1 runs = Inr acc'" "acc_wf acc'"
    "acc_moments acc' = acc_moments acc1 + sum_list (map moments_of runs)"
    "runs \<noteq> [] \<longrightarrow> 0 < fst acc'"
    by (metis list.set_intros(2))
  with 1 show ?case by (cases "runs = []") (auto simp: add.assoc)
qed simp

definition stats_wf :: "avg_stdev_stats \<Rightarrow> bool" where
  "stats_wf s \<longleftrightarrow> 0 < st_size s \<and> 0 \<le> st_stdev s"

lemma run_wf_Stats [simp]: "run_wf (Stats s) = stats_wf s"
  by (simp add: run_wf_def stats_wf_def)

lemma for_runs_moments:
  assumes "runs \<noteq> []" and "\<forall>r\<in>set runs. run_wf r"
  obtains s where "for_runs runs = Inr s" and "stats_wf s"
    and "moments_of (Stats s) = sum_list (map moments_of runs)"
proof -
  have "acc_wf (0, 0, 0)" and zero: "acc_moments (0, 0, 0) = 0"
    by (simp_all add: acc_wf_def acc_moments_def zero_moments_def)
  with welford_loop_moments [OF assms(2)] assms(1) obtain n avg m2 where
    loop: "foldE welford_step (0, 0, 0) runs = Inr (n, avg, m2)" "0 \<le> m2" "0 < n"
    and mom: "acc_moments (n, avg, m2) = sum_list (map moments_of runs)"
    by (fastforce simp: acc_wf_def)
  let ?s = "\<lparr>st_size = n, st_avg = avg, st_stdev = sqrt (m2 / n)\<rparr>"
  have "for_runs runs = Inr ?s"
    using loop by (simp add: for_runs_def)
  moreover have "stats_wf ?s"
    using loop by (simp add: stats_wf_def)
  moreover have "moments_of (Stats ?s) = acc_moments (n, avg, m2)"
    using loop by (simp add: moments_of_def stats_moments_def acc_moments_def algebra_simps)
  ultimately show thesis using mom that by simp
qed

text \<open>Well-formed statistics are determined by their moments.\<close>

lemma stats_moments_inject:
  assumes "stats_wf s" and "stats_wf t" and "moments_of (Stats s) = moments_of (Stats t)"
  shows "s = t"
proof -
  have eq: "st_size s = st_size t" "st_avg s = st_avg t"
    "st_stdev s * st_stdev s = st_stdev t * st_stdev t"
    using assms by (auto simp: moments_of_def stats_moments_def stats_wf_def)
  then have "st_stdev s = st_stdev t"
    using assms(1,2) by (metis abs_of_nonneg real_sqrt_abs2 stats_wf_def)
  with eq show ?thesis by simp
qed

lemma for_runs_eqI:
  assumes "for_runs rs = Inr s" and "rs \<noteq> []" and "\<forall>r\<in>set rs. run_wf r"
    and "rs' \<noteq> []" and "\<forall>r\<in>set rs'. run_wf r"
    and "sum_list (map moments_of rs) = sum_list (map moments_of rs')"
  shows "for_runs rs' = Inr s"
proof -
  obtain t where t: "for_runs rs' = Inr t" "stats_wf t"
    "moments_of (Stats t) = sum_list (map moments_of rs')"
    using for_runs_moments [OF assms(4,5)] .
  obtain s' where "for_runs rs = Inr s'" "stats_wf s'"
    "moments_of (Stats s') = sum_list (map moments_of rs)"
    using for_runs_moments [OF assms(2,3)] .
  with t assms(1,6) stats_moments_inject show ?thesis by auto
qed

lemma for_runs_prefix:
  assumes "for_runs rs = Inr s" and "rs \<noteq> []" and "\<forall>r\<in>set (rs @ rs'). run_wf r"
  shows "for_runs (Stats s # rs') = for_runs (rs @ rs')"
proof -
  obtain s' where s': "for_runs rs = Inr s'" "stats_wf s'"
    "moments_of (Stats s') = sum_list (map moments_of rs)"
    using for_runs_moments assms(2,3) by (metis Un_iff set_append)
  then have "s' = s" using assms(1) by simp
  obtain t where t: "for_runs (rs @ rs') = Inr t"
    using for_runs_moments assms(2,3) by (metis append_is_Nil_conv)
  then have "for_runs (Stats s # rs') = Inr t"
    using assms s' \<open>s' = s\<close> by (intro for_runs_eqI [OF t]) auto
  with t show ?thesis by simp
qed

section \<open>Statistics of a sequence of runs\<close>

definition stats_of :: "run list \<Rightarrow> avg_stdev_stats" where
  "stats_of runs =
     (case for_runs runs of Inr s \<Rightarrow> s | Inl e \<Rightarrow> \<lparr>st_size = 0, st_avg = 0, st_stdev = 0\<rparr>)"

definition runs_wf :: "run list \<Rightarrow> bool" where
  "runs_wf runs \<longleftrightarrow> runs \<noteq> [] \<and> (\<forall>r\<in>set runs. run_wf r)"

lemma runs_wf_append: "runs_wf rs \<Longrightarrow> run_wf r \<Longrightarrow> runs_wf (rs @ [r])"
  by (auto simp: runs_wf_def)

lemma for_runs_total:
  assumes "runs_wf runs"
  shows "for_runs runs = Inr (stats_of runs)" and "stats_wf (stats_of runs)"
    and "moments_of (Stats (stats_of runs)) = sum_list (map moments_of runs)"
proof -
  obtain s where s: "for_runs runs = Inr s" "stats_wf s"
    "moments_of (Stats s) = sum_list (map moments_of runs)"
    using assms for_runs_moments unfolding runs_wf_def by metis
  then have "stats_of runs = s" by (simp add: stats_of_def)
  with s show "for_runs runs = Inr (stats_of runs)" "stats_wf (stats_of runs)"
    "moments_of (Stats (stats_of runs)) = sum_list (map moments_of runs)" by simp_all
qed

lemma for_runs_stats:
  "runs_wf rs \<Longrightarrow> \<forall>r\<in>set rs'. run_wf r \<Longrightarrow>
     for_runs (Stats (stats_of rs) # rs') = Inr (stats_of (rs @ rs'))"
  using for_runs_prefix [of rs "stats_of rs" rs'] for_runs_total [of rs] for_runs_total [of "rs @ rs'"]
  by (auto simp: runs_wf_def)

lemma sum_squared_deviations:
  fixes xs :: "real list" and a :: real
  shows "sum_list (map (\<lambda>x. (x - a)\<^sup>2) xs) =
    sum_list (map (\<lambda>x. x * x) xs) - 2 * a * sum_list xs + length xs * (a * a)"
  by (induction xs) (simp_all add: power2_eq_square algebra_simps)

lemma sum_moments_Value:
  "sum_list (map (moments_of \<circ> Value) xs) =
     Moments (length xs) (sum_list xs) (sum_list (map (\<lambda>x. x * x) xs))"
  by (induction xs) (simp_all add: moments_of_Value plus_moments_def zero_moments_def)

text \<open>
  C6. The one-pass computation in \<open>AvgStdevStats.for_runs\<close> returns, for every non-empty
  sequence of numbers, the number of samples, their arithmetic mean and their population standard
  deviation.
\<close>

theorem for_runs_population:
  assumes "xs \<noteq> []"
  shows "\<exists>s. for_runs (map Value xs) = Inr s \<and> st_size s = length xs \<and>
    st_avg s = sum_list xs / length xs \<and>
    st_stdev s = sqrt (sum_list (map (\<lambda>x. (x - st_avg s)\<^sup>2) xs) / length xs)"
proof -
  have n: "0 < real (length xs)" using assms by simp
  have "runs_wf (map Value xs)" using assms by (auto simp: runs_wf_def)
  note s = for_runs_total [OF this]
  define s where "s = stats_of (map Value xs)"
  have size': "st_size s = length xs" and avg: "real (length xs) * st_avg s = sum_list xs"
    and sq: "real (length xs) * (st_stdev s * st_stdev s + st_avg s * st_avg s) =
      sum_list (map (\<lambda>x. x * x) xs)"
    using s(3) by (auto simp: sum_moments_Value moments_of_def stats_moments_def s_def)
  have "sum_list (map (\<lambda>x. (x - st_avg s)\<^sup>2) xs) = length xs * (st_stdev s)\<^sup>2"
    using sum_squared_deviations [of "st_avg s" xs] sq avg by algebra
  then have "st_stdev s = sqrt (sum_list (map (\<lambda>x. (x - st_avg s)\<^sup>2) xs) / length xs)"
    using n s(2) by (simp add: stats_wf_def s_def)
  with s(1) size' avg n show ?thesis by (auto simp: s_def field_simps)
qed

theorem for_runs_population_witness:
  "\<exists>s. for_runs (map Value [1, 2, 6]) = Inr s \<and> st_size s = 3 \<and> st_avg s = 3 \<and>
    st_stdev s = sqrt (14 / 3)"
  using for_runs_population [of "[1, 2, 6]"] by (auto simp: power2_eq_square)

text \<open>
  Adding runs to a group one at a time or many at a time keeps its statistics equal to
  those computed from the whole list of runs: if the statistics of a non-empty group describe its
  runs, then after \<open>extend\<close> (and \<open>append\<close>) they describe the old runs followed by the new ones,
  and the cached bit count is dropped.
\<close>

theorem extend_is_batch:
  assumes "runs_wf (run_list g)" and "for_runs (run_list g) = Inr (gr_stats g)"
    and "\<forall>r\<in>set runs. run_wf r"
  shows "\<exists>s. for_runs (run_list g @ runs) = Inr s \<and>
    group_extend g runs =
      Inr (g\<lparr>run_list := run_list g @ runs, gr_stats := s, cached_bits := None\<rparr>) \<and>
    foldE group_append (g\<lparr>cached_bits := None\<rparr>) runs = group_extend g runs"
proof -
  have g: "gr_stats g = stats_of (run_list g)" using assms(2) by (simp add: stats_of_def)
  have whole: "for_runs (run_list g @ runs) = Inr (stats_of (run_list g @ runs))"
    using assms(1,3) by (intro for_runs_total(1)) (auto simp: runs_wf_def)
  have ext: "group_extend g runs = Inr (g\<lparr>run_list := run_list g @ runs,
      gr_stats := stats_of (run_list g @ runs), cached_bits := None\<rparr>)"
    using for_runs_stats [OF assms(1,3)] by (simp add: group_extend_def g)
  have "foldE group_append (g\<lparr>cached_bits := None\<rparr>) runs = Inr (g\<lparr>run_list := run_list g @ runs,
      gr_stats := stats_of (run_list g @ runs), cached_bits := None\<rparr>)"
    using assms(3)
  proof (induction runs rule: rev_induct)
    case (snoc r runs)
    then have "runs_wf (run_list g @ runs)" "\<forall>r'\<in>set [r]. run_wf r'"
      using assms(1) by (auto simp: runs_wf_def)
    from snoc for_runs_stats [OF this] show ?case
      by (simp add: foldE_append group_append_def)
  qed (simp add: g [symmetric])
  with whole ext show ?thesis by simp
qed

theorem extend_is_batch_witness:
  "let g = \<lparr>run_list = [Value 5], gr_stats = \<lparr>st_size = 1, st_avg = 5, st_stdev = 0\<rparr>,
            cached_bits = Some 7, gr_max_value = Some 9, prev_avg = None, comment = ''unknown''\<rparr>
   in \<exists>s. for_runs ([Value 5] @ [Value 9, Value 1]) = Inr s \<and>
     group_extend g [Value 9, Value 1] =
       Inr (g\<lparr>run_list := [Value 5] @ [Value 9, Value 1], gr_stats := s, cached_bits := None\<rparr>) \<and>
     foldE group_append (g\<lparr>cached_bits := None\<rparr>) [Value 9, Value 1] =
       group_extend g [Value 9, Value 1]"
  using extend_is_batch [of "\<lparr>run_list = [Value 5],
      gr_stats = \<lparr>st_size = 1, st_avg = 5, st_stdev = 0\<rparr>, cached_bits = Some 7,
      gr_max_value = Some 9, prev_avg = None, comment = ''unknown''\<rparr>" "[Value 9, Value 1]"]
  by (simp add: Let_def runs_wf_def for_runs_def welford_step_def)

section \<open>Partitions and their bit counts\<close>

text \<open>
  The specification of a group list: a partition is a list of groups, each a list of runs, and
  its bit count is the sum of the bit counts of the groups, each computed from scratch with the
  average of the group before it.
\<close>

definition bits_of :: "real \<Rightarrow> real option \<Rightarrow> run list \<Rightarrow> real" where
  "bits_of mx prev runs =
     (case BitCountingStats_for_runs runs (Some mx) prev of Inr b \<Rightarrow> b | Inl e \<Rightarrow> 0)"

fun partition_bits :: "real \<Rightarrow> real option \<Rightarrow> run list list \<Rightarrow> real" where
  "partition_bits mx prev [] = 0"
| "partition_bits mx prev (p # ps) =
     bits_of mx prev p + partition_bits mx (Some (st_avg (stats_of p))) ps"

definition last_avg :: "real option \<Rightarrow> run list list \<Rightarrow> real option" where
  "last_avg prev ps = (if ps = [] then prev else Some (st_avg (stats_of (last ps))))"

lemma last_avg_simps [simp]:
  "last_avg prev [] = prev"
  "last_avg prev (p # ps) = last_avg (Some (st_avg (stats_of p))) ps"
  by (simp_all add: last_avg_def)

lemma partition_bits_snoc:
  "partition_bits mx prev (ps @ [p]) = partition_bits mx prev ps + bits_of mx (last_avg prev ps) p"
  by (induction ps arbitrary: prev) simp_all

lemma BitCountingStats_bits_total:
  "0 \<le> stdev \<Longrightarrow> 0 < mx \<Longrightarrow> \<exists>b. BitCountingStats_bits n (Some a) stdev (Some mx) prev = Inr b"
  by (auto simp: BitCountingStats_bits_def sphere_area_ln_def split: option.split)

lemma bits_of_total:
  assumes "runs_wf runs" and "0 < mx"
  shows "BitCountingStats_for_runs runs (Some mx) prev = Inr (bits_of mx prev runs)"
    and "BitCountingStats_for_runs [Stats (stats_of runs)] (Some mx) prev = Inr (bits_of mx prev runs)"
proof -
  note s = for_runs_total [OF assms(1)]
  obtain b where "BitCountingStats_for_runs runs (Some mx) prev = Inr b"
    using BitCountingStats_bits_total [of "st_stdev (stats_of runs)" mx "st_size (stats_of runs)"
        "st_avg (stats_of runs)" prev] s assms(2)
    by (auto simp: BitCountingStats_for_runs_def stats_wf_def)
  then show 1: "BitCountingStats_for_runs runs (Some mx) prev = Inr (bits_of mx prev runs)"
    by (simp add: bits_of_def)
  have "for_runs [Stats (stats_of runs)] = for_runs runs"
    using for_runs_stats [OF assms(1), of "[]"] s(1) by simp
  with 1 show "BitCountingStats_for_runs [Stats (stats_of runs)] (Some mx) prev =
      Inr (bits_of mx prev runs)"
    by (simp add: BitCountingStats_for_runs_def)
qed

definition rep_group :: "real \<Rightarrow> real option \<Rightarrow> group \<Rightarrow> run list \<Rightarrow> bool" where
  "rep_group mx prev g p \<longleftrightarrow>
     run_list g = p \<and> runs_wf p \<and> gr_stats g = stats_of p \<and> gr_max_value g = Some mx \<and>
     prev_avg g = prev \<and> cached_bits g \<in> {None, Some (bits_of mx prev p)}"

fun rep_groups :: "real \<Rightarrow> real option \<Rightarrow> group list \<Rightarrow> run list list \<Rightarrow> bool" where
  "rep_groups mx prev [] [] = True"
| "rep_groups mx prev (g # gs) (p # ps) =
     (rep_group mx prev g p \<and> rep_groups mx (Some (st_avg (stats_of p))) gs ps)"
| "rep_groups mx prev gs ps = False"

lemma rep_groups_Nil [simp]: "rep_groups mx prev gs [] \<longleftrightarrow> gs = []"
  by (cases gs) simp_all

lemma rep_groups_Nil_left [simp]: "rep_groups mx prev [] ps \<longleftrightarrow> ps = []"
  by (cases ps) simp_all

lemma rep_groups_snoc:
  "rep_groups mx prev gs (ps @ [p]) \<longleftrightarrow>
     (\<exists>gs' g. gs = gs' @ [g] \<and> rep_groups mx prev gs' ps \<and> rep_group mx (last_avg prev ps) g p)"
proof (induction mx prev gs ps rule: rep_groups.induct [case_names empty both left right])
  case (empty mx prev)
  then show ?case by simp
next
  case (both mx prev g gs q ps)
  then show ?case by (auto simp: Cons_eq_append_conv)
next
  case (left mx prev g gs)
  then show ?case by (cases gs) (auto simp: Cons_eq_append_conv)
next
  case (right mx prev q ps)
  then show ?case by simp
qed

lemma rep_groups_run_lists: "rep_groups mx prev gs ps \<Longrightarrow> map run_list gs = ps"
  by (induction mx prev gs ps rule: rep_groups.induct) (auto simp: rep_group_def)

definition rep :: "real \<Rightarrow> group_list \<Rightarrow> run list list \<Rightarrow> bool" where
  "rep mx gl ps \<longleftrightarrow>
     0 < mx \<and> gl_max_value gl = Some mx \<and> rep_groups mx None (groups gl) ps \<and>
     (ps \<noteq> [] \<longrightarrow> bits_except_last gl = partition_bits mx None (butlast ps))"

lemma group_bits_rep:
  assumes "rep_group mx prev g p" and "0 < mx"
  obtains g' where "group_bits g = Inr (bits_of mx prev p, g')" and "rep_group mx prev g' p"
proof (cases "cached_bits g")
  case None
  with assms bits_of_total(2) [of p mx prev]
  have "group_bits g = Inr (bits_of mx prev p, g\<lparr>cached_bits := Some (bits_of mx prev p)\<rparr>)"
    by (simp add: group_bits_def rep_group_def)
  with assms show thesis by (intro that) (auto simp: rep_group_def)
next
  case (Some b)
  with assms show thesis by (intro that [of g]) (auto simp: group_bits_def rep_group_def)
qed

lemma set_last_snoc [simp]: "set_last (xs @ [x]) y = xs @ [y]"
  by (simp add: set_last_def)

lemma list_get_snoc [simp]: "list_get (xs @ [x]) (-1) = Inr x"
  by (simp add: list_get_last)

lemma group_list_bits_rep:
  assumes "rep mx gl ps"
  obtains gl' where "group_list_bits gl = Inr (partition_bits mx None ps, gl')" and "rep mx gl' ps"
proof (cases ps rule: rev_cases)
  case Nil
  with assms show thesis by (intro that [of gl]) (auto simp: rep_def group_list_bits_def)
next
  case (snoc qs p)
  with assms obtain gs g where gs: "groups gl = gs @ [g]" "rep_groups mx None gs qs"
    "rep_group mx (last_avg None qs) g p" "0 < mx"
    by (auto simp: rep_def rep_groups_snoc)
  obtain g' where g': "group_bits g = Inr (bits_of mx (last_avg None qs) p, g')"
    "rep_group mx (last_avg None qs) g' p"
    using group_bits_rep [OF gs(3,4)] .
  show thesis
  proof (rule that)
    show "group_list_bits gl =
        Inr (partition_bits mx None ps, gl\<lparr>groups := set_last (groups gl) g'\<rparr>)"
      using assms gs g' snoc by (simp add: group_list_bits_def rep_def partition_bits_snoc)
    show "rep mx (gl\<lparr>groups := set_last (groups gl) g'\<rparr>) ps"
      using assms gs g' snoc by (simp add: rep_def rep_groups_snoc)
  qed
qed

lemma append_group_rep:
  assumes "rep mx gl ps" and "runs_wf runs"
  obtains gl' where "append_group_of_runs gl (Runs runs) = Inr gl'" and "rep mx gl' (ps @ [runs])"
proof -
  obtain gl1 where bits: "group_list_bits gl = Inr (partition_bits mx None ps, gl1)" "rep mx gl1 ps"
    using group_list_bits_rep [OF assms(1)] .
  have prev: "(if groups gl = [] then None else Some (st_avg (gr_stats (last (groups gl))))) =
      last_avg None ps"
    using assms(1)
    by (cases ps rule: rev_cases)
       (auto simp: rep_def rep_groups_snoc rep_group_def last_avg_def)
  have mx: "gl_max_value gl = Some mx" using assms(1) by (simp add: rep_def)
  let ?g = "\<lparr>run_list = runs, gr_stats = stats_of runs, cached_bits = None,
    gr_max_value = Some mx, prev_avg = last_avg None ps, comment = ''unknown''\<rparr>"
  have g: "rep_group mx (last_avg None ps) ?g runs"
    using assms(2) by (simp add: rep_group_def)
  show thesis
  proof (rule that)
    show "append_group_of_runs gl (Runs runs) =
        Inr (gl1\<lparr>bits_except_last := partition_bits mx None ps, groups := groups gl1 @ [?g]\<rparr>)"
      using bits(1) for_runs_total(1) [OF assms(2)]
      by (simp add: append_group_of_runs_def prev mx BitCountingGroup_def)
    show "rep mx (gl1\<lparr>bits_except_last := partition_bits mx None ps,
        groups := groups gl1 @ [?g]\<rparr>) (ps @ [runs])"
      using bits(2) g by (simp add: rep_def rep_groups_snoc)
  qed
qed

lemma append_run_rep:
  assumes "rep mx gl (ps @ [p])" and "run_wf r"
  obtains gl' where "append_run_to_to_last_group gl r = Inr gl'" and "rep mx gl' (ps @ [p @ [r]])"
proof -
  obtain gs g where gs: "groups gl = gs @ [g]" "rep_groups mx None gs ps"
    "rep_group mx (last_avg None ps) g p"
    using assms(1) by (auto simp: rep_def rep_groups_snoc)
  let ?g = "g\<lparr>run_list := p @ [r], gr_stats := stats_of (p @ [r]), cached_bits := None\<rparr>"
  have "for_runs [Stats (stats_of p), r] = Inr (stats_of (p @ [r]))"
    using for_runs_stats [of p "[r]"] gs(3) assms(2) by (simp add: rep_group_def)
  then have app: "group_append g r = Inr ?g"
    using gs(3) by (simp add: group_append_def rep_group_def)
  show thesis
  proof (rule that)
    show "append_run_to_to_last_group gl r = Inr (gl\<lparr>groups := gs @ [?g]\<rparr>)"
      using gs(1) app by (simp add: append_run_to_to_last_group_def)
    show "rep mx (gl\<lparr>groups := gs @ [?g]\<rparr>) (ps @ [p @ [r]])"
      using assms gs by (simp add: rep_def rep_groups_snoc) (simp add: rep_group_def runs_wf_append)
  qed
qed

lemma group_list_copy_id [simp]: "group_list_copy gl = gl"
  by (simp add: group_list_copy_def BitCountingGroupList_def)

section \<open>The dynamic program\<close>

text \<open>
  \<open>dp_table mx vs n bests\<close>: \<open>bests\<close> holds one partition for each of the first \<open>n\<close> prefixes
  of \<open>vs\<close> and for the empty one. The one for
  the empty prefix is empty; each other one extends the partition of a shorter prefix by one group
  with the rest, and has the least bit count of all such extensions.
\<close>

definition extension :: "run list \<Rightarrow> run list list list \<Rightarrow> nat \<Rightarrow> nat \<Rightarrow> run list list" where
  "extension vs bests i k = bests ! i @ [py_slice i k vs]"

definition dp_table :: "real \<Rightarrow> run list \<Rightarrow> nat \<Rightarrow> run list list list \<Rightarrow> bool" where
  "dp_table mx vs n bests \<longleftrightarrow>
     length bests = Suc n \<and> bests ! 0 = [] \<and>
     (\<forall>k < n. \<exists>i\<le>k. bests ! Suc k = extension vs bests i (Suc k) \<and>
        (\<forall>j\<le>k. partition_bits mx None (bests ! Suc k) \<le>
                partition_bits mx None (extension vs bests j (Suc k))))"

lemma slice_Suc: "i \<le> k \<Longrightarrow> k < length vs \<Longrightarrow> py_slice i (Suc k) vs = py_slice i k vs @ [vs ! k]"
  by (simp add: py_slice_def Suc_diff_le take_Suc_conv_app_nth)

lemma slice_single: "k < length vs \<Longrightarrow> py_slice k (Suc k) vs = [vs ! k]"
  by (simp add: py_slice_def take_Suc_conv_app_nth)

lemma take_slice: "i \<le> k \<Longrightarrow> take i vs @ py_slice i k vs = take k vs"
  by (metis le_add_diff_inverse py_slice_def take_add)

lemma dp_table_concat:
  assumes "dp_table mx vs n bests" and "n \<le> length vs" and "k \<le> n"
  shows "concat (bests ! k) = take k vs \<and> [] \<notin> set (bests ! k)"
  using assms(3)
proof (induction k rule: less_induct)
  case (less k)
  show ?case
  proof (cases k)
    case 0
    with assms(1) show ?thesis by (simp add: dp_table_def)
  next
    case (Suc m)
    with less.prems have "m < n" by simp
    with assms(1) Suc obtain i where i: "i \<le> m" "bests ! k = extension vs bests i k"
      unfolding dp_table_def by blast
    with Suc less have "concat (bests ! i) = take i vs" "[] \<notin> set (bests ! i)" by auto
    moreover have "py_slice i k vs \<noteq> []" using i Suc less.prems assms(2) by (simp add: py_slice_def)
    ultimately show ?thesis using i Suc by (simp add: extension_def take_slice)
  qed
qed

text \<open>The inner loop has extended the partitions before \<open>j\<close>; \<open>ri\<close> is the best so far.\<close>

definition inner_inv ::
    "real \<Rightarrow> run list \<Rightarrow> run list list list \<Rightarrow> nat \<Rightarrow> nat \<Rightarrow> group_list list \<times> nat \<Rightarrow> bool" where
  "inner_inv mx vs bests k j state \<longleftrightarrow>
     (case state of (oa, ri) \<Rightarrow>
        length oa = Suc k \<and> (ri < j \<or> ri = k) \<and>
        (\<forall>i\<le>k. rep mx (oa ! i)
           (extension vs bests i (if i < j \<or> i = k then Suc k else k))) \<and>
        (\<forall>i. i < j \<or> i = k \<longrightarrow>
           partition_bits mx None (extension vs bests ri (Suc k)) \<le>
           partition_bits mx None (extension vs bests i (Suc k))))"

lemma inner_inv_rep:
  "inner_inv mx vs bests k j (oa, ri) \<Longrightarrow> i \<le> k \<Longrightarrow>
     rep mx (oa ! i) (extension vs bests i (if i < j \<or> i = k then Suc k else k))"
  by (simp add: inner_inv_def)

lemma extend_open_inv:
  assumes inv: "inner_inv mx vs bests k j state" and j: "j < k" and k: "k < length vs"
    and wf: "run_wf (vs ! k)"
  obtains state' where "extend_open (vs ! k) state j = Inr state'"
    and "inner_inv mx vs bests k (Suc j) state'"
proof -
  let ?ext = "\<lambda>i. extension vs bests i (Suc k)"
  let ?pb = "\<lambda>i. partition_bits mx None (?ext i)"
  obtain oa ri where st: "state = (oa, ri)" by (cases state)
  have "rep mx (oa ! j) (bests ! j @ [py_slice j k vs])"
    using inner_inv_rep [OF inv [unfolded st], of j] j by (simp add: extension_def)
  then obtain new where new: "append_run_to_to_last_group (oa ! j) (vs ! k) = Inr new"
    "rep mx new (?ext j)"
    using append_run_rep wf j k by (metis extension_def less_imp_le slice_Suc)
  obtain new' where new': "group_list_bits new = Inr (?pb j, new')" "rep mx new' (?ext j)"
    using group_list_bits_rep [OF new(2)] .
  define oa1 where "oa1 = oa[j := new']"
  have ri: "ri < j \<or> ri = k" "ri \<noteq> j" "ri \<le> k" and len: "length oa = Suc k"
    using inv j st by (auto simp: inner_inv_def)
  then have "rep mx (oa1 ! ri) (?ext ri)"
    using inner_inv_rep [OF inv [unfolded st], of ri] by (auto simp: oa1_def)
  then obtain rec' where rec': "group_list_bits (oa1 ! ri) = Inr (?pb ri, rec')" "rep mx rec' (?ext ri)"
    using group_list_bits_rep by blast
  define ri' where "ri' = (if ?pb j < ?pb ri then j else ri)"
  have run: "extend_open (vs ! k) state j = Inr (oa1[ri := rec'], ri')"
    using new(1) new'(1) rec'(1) by (simp add: extend_open_def st oa1_def ri'_def Let_def)
  have reps: "rep mx (oa1[ri := rec'] ! i) (extension vs bests i (if i < Suc j \<or> i = k then Suc k else k))"
    if "i \<le> k" for i
  proof -
    consider "i = ri" | "i = j" "i \<noteq> ri" | "i \<noteq> j" "i \<noteq> ri" by blast
    then show ?thesis
    proof cases
      case 1
      with rec'(2) ri len show ?thesis by (auto simp: oa1_def)
    next
      case 2
      with new'(2) j len show ?thesis by (simp add: oa1_def)
    next
      case 3
      moreover have "(i < Suc j \<or> i = k) = (i < j \<or> i = k)" using 3 by auto
      ultimately show ?thesis
        using inner_inv_rep [OF inv [unfolded st] that] by (simp add: oa1_def)
    qed
  qed
  have best: "?pb ri' \<le> ?pb i" if "i < Suc j \<or> i = k" for i
  proof -
    have "?pb ri' \<le> ?pb ri" "?pb ri' \<le> ?pb j" by (simp_all add: ri'_def)
    moreover have "i = j \<or> ?pb ri \<le> ?pb i"
      using inv st that by (auto simp: inner_inv_def less_Suc_eq)
    ultimately show ?thesis by fastforce
  qed
  have "inner_inv mx vs bests k (Suc j) (oa1[ri := rec'], ri')"
    unfolding inner_inv_def using reps best ri len by (auto simp: ri'_def oa1_def)
  with run show thesis by (rule that)
qed

lemma inner_loop_inv:
  assumes "inner_inv mx vs bests k 0 state" and "k < length vs" and "run_wf (vs ! k)" and "j \<le> k"
  shows "\<exists>state'. foldE (extend_open (vs ! k)) state [0..<j] = Inr state' \<and>
    inner_inv mx vs bests k j state'"
  using assms(4)
proof (induction j)
  case 0
  with assms(1) show ?case by simp
next
  case (Suc j)
  then obtain state' where "foldE (extend_open (vs ! k)) state [0..<j] = Inr state'"
    "inner_inv mx vs bests k j state'" by auto
  moreover obtain state'' where "extend_open (vs ! k) state' j = Inr state''"
    "inner_inv mx vs bests k (Suc j) state''"
    using extend_open_inv [OF calculation(2) _ assms(2,3)] Suc.prems by auto
  ultimately show ?case by (simp add: foldE_append)
qed

lemma extension_snoc: "i < length bests \<Longrightarrow> extension vs (bests @ [b]) i k = extension vs bests i k"
  by (simp add: extension_def nth_append)

lemma dp_table_snoc:
  assumes table: "dp_table mx vs k bests" and "ri \<le> k"
    and best: "\<forall>j\<le>k. partition_bits mx None (extension vs bests ri (Suc k)) \<le>
      partition_bits mx None (extension vs bests j (Suc k))"
  shows "dp_table mx vs (Suc k) (bests @ [extension vs bests ri (Suc k)])"
proof -
  let ?bests = "bests @ [extension vs bests ri (Suc k)]"
  have len: "length bests = Suc k" using table by (simp add: dp_table_def)
  have "\<exists>i\<le>m. ?bests ! Suc m = extension vs ?bests i (Suc m) \<and>
      (\<forall>j\<le>m. partition_bits mx None (?bests ! Suc m) \<le>
        partition_bits mx None (extension vs ?bests j (Suc m)))" if "m < Suc k" for m
  proof (cases "m = k")
    case True
    with len best assms(2) show ?thesis
      by (auto simp: extension_snoc nth_append intro!: exI [of _ ri])
  next
    case False
    with that have m: "m < k" by simp
    with table obtain i where "i \<le> m" "bests ! Suc m = extension vs bests i (Suc m)"
      "\<forall>j\<le>m. partition_bits mx None (bests ! Suc m) \<le>
        partition_bits mx None (extension vs bests j (Suc m))"
      unfolding dp_table_def by blast
    with m len show ?thesis
      by (auto simp: extension_snoc nth_append intro!: exI [of _ i])
  qed
  with table show ?thesis by (simp add: dp_table_def nth_append)
qed

definition outer_inv ::
    "real \<Rightarrow> run list \<Rightarrow> nat \<Rightarrow> run list list list \<Rightarrow> group_list list \<times> group_list list \<Rightarrow> bool" where
  "outer_inv mx vs k bests state \<longleftrightarrow>
     (case state of (oa, cb) \<Rightarrow>
        length oa = k \<and> length cb = Suc k \<and> dp_table mx vs k bests \<and>
        (\<forall>i\<le>k. rep mx (cb ! i) (bests ! i)) \<and>
        (\<forall>i<k. rep mx (oa ! i) (extension vs bests i k)))"

lemma classify_step_inv:
  assumes inv: "outer_inv mx vs k bests state" and k: "k < length vs" and wf: "run_wf (vs ! k)"
  shows "\<exists>state' bests'. classify_step state (vs ! k) = Inr state' \<and>
    outer_inv mx vs (Suc k) bests' state'"
proof -
  obtain oa cb where st: "state = (oa, cb)" by (cases state)
  have len: "length oa = k" "length cb = Suc k" "length bests = Suc k"
    and table: "dp_table mx vs k bests" and cb: "\<And>i. i \<le> k \<Longrightarrow> rep mx (cb ! i) (bests ! i)"
    and oa: "\<And>i. i < k \<Longrightarrow> rep mx (oa ! i) (extension vs bests i k)"
    using inv st by (auto simp: outer_inv_def dp_table_def)
  obtain new where new: "append_group_of_runs (cb ! k) (Runs [vs ! k]) = Inr new"
    "rep mx new (bests ! k @ [[vs ! k]])"
    using append_group_rep [OF cb [OF order_refl], of "[vs ! k]"] wf by (auto simp: runs_wf_def)
  have "inner_inv mx vs bests k 0 (oa @ [new], k)"
    using len oa new(2) slice_single [OF k]
    by (auto simp: inner_inv_def nth_append extension_def)
  from inner_loop_inv [OF this k wf order_refl] obtain oa' ri where
    loop: "foldE (extend_open (vs ! k)) (oa @ [new], k) [0..<k] = Inr (oa', ri)"
    and inner: "inner_inv mx vs bests k k (oa', ri)" by auto
  let ?bests = "bests @ [extension vs bests ri (Suc k)]"
  have run: "classify_step state (vs ! k) = Inr (oa', cb @ [oa' ! ri])"
    using new(1) loop len by (simp add: classify_step_def st Let_def)
  have ri: "ri \<le> k" and len': "length oa' = Suc k"
    and best: "\<forall>j\<le>k. partition_bits mx None (extension vs bests ri (Suc k)) \<le>
      partition_bits mx None (extension vs bests j (Suc k))"
    using inner by (auto simp: inner_inv_def le_less)
  have reps: "rep mx (oa' ! i) (extension vs bests i (Suc k))" if "i \<le> k" for i
    using inner_inv_rep [OF inner that] that by (simp add: le_less split: if_splits)
  have "outer_inv mx vs (Suc k) ?bests (oa', cb @ [oa' ! ri])"
    using len len' dp_table_snoc [OF table ri best] cb reps ri
    by (auto simp: outer_inv_def nth_append extension_snoc less_Suc_eq_le)
  with run show ?thesis by blast
qed

lemma classify_loop_inv:
  assumes "0 < mx" and "\<forall>r\<in>set vs. run_wf r" and "k \<le> length vs"
  shows "\<exists>state bests.
    foldE classify_step ([], [BitCountingGroupList [] 0 (Some mx)]) (take k vs) = Inr state \<and>
    outer_inv mx vs k bests state"
  using assms(3)
proof (induction k)
  case 0
  have "outer_inv mx vs 0 [[]] ([], [BitCountingGroupList [] 0 (Some mx)])"
    using assms(1) by (simp add: outer_inv_def dp_table_def rep_def BitCountingGroupList_def)
  then show ?case by auto
next
  case (Suc k)
  then obtain state bests where
    "foldE classify_step ([], [BitCountingGroupList [] 0 (Some mx)]) (take k vs) = Inr state"
    "outer_inv mx vs k bests state" by auto
  moreover have "run_wf (vs ! k)" using assms(2) Suc.prems by simp
  ultimately show ?case
    using classify_step_inv [of mx vs k bests state] Suc.prems
    by (auto simp: take_Suc_conv_app_nth foldE_append)
qed

section \<open>Correctness of the classification\<close>

fun samples :: "input_value \<Rightarrow> real list" where
  "samples (Single x) = [x]"
| "samples (Many xs) = xs"

fun processed :: "input_value \<Rightarrow> run" where
  "processed (Single x) = Value x"
| "processed (Many xs) = Stats (stats_of (map Value xs))"

definition max_sample :: "input_value list \<Rightarrow> real" where
  "max_sample values = foldl bump 0 (concat (map samples values))"

lemma bump_max: "bump m x = max m x"
  by (simp add: bump_def)

lemma foldl_bump_ge: "m \<le> foldl bump m xs" "x \<in> set xs \<Longrightarrow> x \<le> foldl bump m xs"
proof (induction xs arbitrary: m)
  case (Cons y ys)
  { case 1 show ?case using Cons(1) [of "bump m y"] by (simp add: bump_max) }
  { case 2 then show ?case
      using Cons(1) [of "bump m y"] Cons(2) [of "bump m y"] by (auto simp: bump_max) }
qed simp_all

lemma for_runs_Values: "for_runs (map Value xs) = Inr (stats_of (map Value xs))"
proof (cases "xs = []")
  case False
  then have "runs_wf (map Value xs)" by (auto simp: runs_wf_def)
  then show ?thesis by (rule for_runs_total(1))
qed (simp add: stats_of_def for_runs_def)

lemma process_values:
  "foldE process_value (m, ps) values =
     Inr (foldl bump m (concat (map samples values)), ps @ map processed values)"
proof (induction "values" arbitrary: m ps)
  case (Cons v vs)
  have "process_value (m, ps) v = Inr (foldl bump m (samples v), ps @ [processed v])"
    by (cases v) (simp_all add: process_value_def for_runs_Values)
  with Cons show ?case by simp
qed simp

lemma processed_wf: "samples v \<noteq> [] \<Longrightarrow> run_wf (processed v)"
  using for_runs_total(2) by (cases v) (auto simp: runs_wf_def)

lemma comment_groups_frame:
  "map (\<lambda>g. f (run_list g)) (comment_groups a gs) = map (\<lambda>g. f (run_list g)) gs"
  "map (\<lambda>g. h (gr_stats g)) (comment_groups a gs) = map (\<lambda>g. h (gr_stats g)) gs"
  by (induction gs arbitrary: a) (simp_all add: Let_def)

lemma last_nth: "length xs = Suc n \<Longrightarrow> last xs = xs ! n"
  by (cases xs rule: rev_cases) auto

lemma rep_groups_stats: "rep_groups mx prev gs ps \<Longrightarrow> map gr_stats gs = map stats_of ps"
  by (induction mx prev gs ps rule: rep_groups.induct) (auto simp: rep_group_def)

lemma rep_groups_wf: "rep_groups mx prev gs ps \<Longrightarrow> p \<in> set ps \<Longrightarrow> runs_wf p"
  by (induction mx prev gs ps rule: rep_groups.induct) (auto simp: rep_group_def)

text \<open>Classification succeeds, and the partition comes from a table of best prefixes.\<close>

lemma classify_returns:
  assumes "values \<noteq> []" and "\<forall>v\<in>set values. samples v \<noteq> []"
    and "0 < max_sample values"
  obtains gl bests where "rep (max_sample values) gl (last bests)"
    and "dp_table (max_sample values) (map processed values) (length values) bests"
    and "classify values = Inr (gl\<lparr>groups :=
      comment_groups (st_avg (gr_stats (hd (groups gl)))) (groups gl)\<rparr>)"
    and "groups gl \<noteq> []"
proof -
  let ?mx = "max_sample values" and ?vs = "map processed values"
  have wf: "\<forall>r\<in>set ?vs. run_wf r" using assms(2) processed_wf by auto
  from classify_loop_inv [OF assms(3) this, of "length values"] obtain oa cb bests where
    loop: "foldE classify_step ([], [BitCountingGroupList [] 0 (Some ?mx)]) ?vs = Inr (oa, cb)"
    and inv: "outer_inv ?mx ?vs (length values) bests (oa, cb)" by auto
  from inv have table: "dp_table ?mx ?vs (length values) bests"
    and len: "length cb = Suc (length values)" "length bests = Suc (length values)"
    and rep: "rep ?mx (cb ! length values) (bests ! length values)"
    by (auto simp: outer_inv_def dp_table_def)
  have last: "last cb = cb ! length values" "last bests = bests ! length values"
    using len by (simp_all add: last_nth)
  have "concat (bests ! length values) = ?vs"
    using dp_table_concat [OF table, of "length values"] by simp
  then have "bests ! length values \<noteq> []" using assms(1) by auto
  then have ne: "groups (last cb) \<noteq> []"
    using rep last by (auto simp: rep_def)
  have "classify values = Inr ((last cb)\<lparr>groups :=
      comment_groups (st_avg (gr_stats (hd (groups (last cb))))) (groups (last cb))\<rparr>)"
    using process_values [of 0 "[]" "values"] loop ne
    by (cases "groups (last cb)")
       (simp_all add: classify_def max_sample_def group_list_getitem_def Let_def)
  with rep table ne last show thesis by (intro that) simp_all
qed

text \<open>
  \<open>classify\<close> partitions its input: for a non-empty sequence of values without empty
  sub-sequences and with a positive maximum it returns, and the runs of the groups, taken in order,
  are exactly the input values (sub-sequences replaced by their statistics); no group is empty and
  the statistics of every group are those of its runs.
\<close>

theorem classify_partitions_input:
  assumes "values \<noteq> []" and "\<forall>v\<in>set values. samples v \<noteq> []" and "0 < max_sample values"
  shows "\<exists>gl. classify values = Inr gl \<and>
    concat (map run_list (groups gl)) = map processed values \<and>
    [] \<notin> set (map run_list (groups gl)) \<and>
    map (\<lambda>g. Inr (gr_stats g)) (groups gl) = map (\<lambda>g. for_runs (run_list g)) (groups gl)"
proof -
  let ?mx = "max_sample values" and ?vs = "map processed values"
  obtain gl bests where rep: "rep ?mx gl (last bests)"
    and table: "dp_table ?mx ?vs (length values) bests"
    and run: "classify values = Inr (gl\<lparr>groups :=
      comment_groups (st_avg (gr_stats (hd (groups gl)))) (groups gl)\<rparr>)"
    using classify_returns [OF assms] .
  let ?cg = "comment_groups (st_avg (gr_stats (hd (groups gl)))) (groups gl)"
  have "last bests = bests ! length values"
    using table by (simp add: dp_table_def last_nth)
  then have cover: "concat (last bests) = ?vs" "[] \<notin> set (last bests)"
    using dp_table_concat [OF table, of "length values"] by simp_all
  have rep': "rep_groups ?mx None (groups gl) (last bests)" using rep by (simp add: rep_def)
  have "runs_wf p" if "p \<in> set (last bests)" for p
    using rep_groups_wf [OF rep' that] .
  then have "map Inr (map gr_stats (groups gl)) = map for_runs (map run_list (groups gl))"
    using rep_groups_stats [OF rep'] rep_groups_run_lists [OF rep'] for_runs_total(1) by auto
  then have "map (\<lambda>g. Inr (gr_stats g)) (groups gl) = map (\<lambda>g. for_runs (run_list g)) (groups gl)"
    by simp
  then have "map (\<lambda>g. Inr (gr_stats g)) ?cg = map (\<lambda>g. for_runs (run_list g)) ?cg"
    by (simp only: comment_groups_frame)
  moreover have "map run_list ?cg = last bests"
    using rep_groups_run_lists [OF rep'] comment_groups_frame(1) [where f = "\<lambda>x. x"] by metis
  ultimately show ?thesis
    using cover run by (intro exI [of _ "gl\<lparr>groups := ?cg\<rparr>"]) (simp del: map_eq_conv set_map)
qed

theorem classify_partitions_input_witness:
  "\<exists>gl. classify [Single 1, Many [2, 3], Single 9] = Inr gl \<and>
    concat (map run_list (groups gl)) =
      [Value 1, Stats (stats_of [Value 2, Value 3]), Value 9] \<and>
    [] \<notin> set (map run_list (groups gl)) \<and>
    map (\<lambda>g. Inr (gr_stats g)) (groups gl) = map (\<lambda>g. for_runs (run_list g)) (groups gl)"
  using classify_partitions_input [of "[Single 1, Many [2, 3], Single 9]"]
  by (simp add: max_sample_def bump_def)

text \<open>
  C5. The partition \<open>classify\<close> returns is the one of the dynamic program: there is a table of
  partitions, one per prefix of the values, in which each partition appends one group to the
  partition of a shorter prefix and has the least total bit count of all the ways to do so; the
  result is the last entry of the table, although the code keeps the statistics incrementally and
  caches bit counts. In particular the result has at most the bits of the single group of all
  values.
\<close>

theorem classify_optimal_extension:
  assumes "values \<noteq> []" and "\<forall>v\<in>set values. samples v \<noteq> []" and "0 < max_sample values"
  shows "\<exists>gl bests. classify values = Inr gl \<and>
    dp_table (max_sample values) (map processed values) (length values) bests \<and>
    map run_list (groups gl) = last bests \<and>
    partition_bits (max_sample values) None (map run_list (groups gl)) \<le>
      bits_of (max_sample values) None (map processed values)"
proof -
  let ?mx = "max_sample values" and ?vs = "map processed values"
  obtain gl bests where rep: "rep ?mx gl (last bests)"
    and table: "dp_table ?mx ?vs (length values) bests"
    and run: "classify values = Inr (gl\<lparr>groups :=
      comment_groups (st_avg (gr_stats (hd (groups gl)))) (groups gl)\<rparr>)"
    using classify_returns [OF assms] .
  obtain n where n: "length values = Suc n" using assms(1) by (cases "values") auto
  have "extension ?vs bests 0 (Suc n) = [?vs]"
    using table n by (simp add: extension_def py_slice_def dp_table_def)
  moreover have "last bests = bests ! Suc n"
    using table n by (simp add: dp_table_def last_nth)
  ultimately have "partition_bits ?mx None (last bests) \<le> bits_of ?mx None ?vs"
    using table n unfolding dp_table_def by (metis le0 lessI partition_bits.simps add.right_neutral)
  moreover have "map run_list (groups gl) = last bests"
    using rep rep_groups_run_lists by (auto simp: rep_def)
  ultimately show ?thesis
    using run table comment_groups_frame(1) [where f = "\<lambda>x. x"] by auto
qed

theorem classify_optimal_extension_witness:
  "\<exists>gl bests. classify [Single 5, Single 7] = Inr gl \<and>
    dp_table 7 [Value 5, Value 7] 2 bests \<and> map run_list (groups gl) = last bests \<and>
    partition_bits 7 None (map run_list (groups gl)) \<le> bits_of 7 None [Value 5, Value 7]"
  using classify_optimal_extension [of "[Single 5, Single 7]"]
  by (simp add: max_sample_def bump_def numeral_2_eq_2)

section \<open>Errors\<close>

lemma classify_run:
  "classify values =
     bindE (foldE classify_step ([], [BitCountingGroupList [] 0 (Some (max_sample values))])
              (map processed values))
       (\<lambda>(open_at, closed_before).
          let partition = last closed_before
          in bindE (group_list_getitem partition 0) (\<lambda>g0.
             Inr (partition\<lparr>groups := comment_groups (st_avg (gr_stats g0)) (groups partition)\<rparr>)))"
  by (simp add: classify_def process_values max_sample_def)

text \<open>Without a positive maximum the first bit count that is needed cannot be computed.\<close>

lemma group_list_bits_invalid:
  assumes "gl_max_value gl = Some mx" and "mx \<le> 0"
    and "groups gl = gs @ [g]" and "cached_bits g = None" and "gr_max_value g = Some mx"
    and "gr_stats g = stats_of p" and "runs_wf p"
  shows "group_list_bits gl = Inl (ValueError ''Invalid max value'')"
proof -
  have "for_runs [Stats (stats_of p)] = Inr (stats_of p)" and "0 < st_size (stats_of p)"
    using for_runs_stats [OF assms(7), of "[]"] for_runs_total(2) [OF assms(7)]
    by (simp_all add: stats_wf_def)
  with assms show ?thesis
    by (simp add: group_list_bits_def group_bits_def BitCountingStats_for_runs_def
        BitCountingStats_bits_def)
qed

lemma classify_steps_invalid:
  assumes "run_wf r" and "run_wf r'" and "mx \<le> 0"
  shows "foldE classify_step ([], [BitCountingGroupList [] 0 (Some mx)]) (r # r' # rs) =
    Inl (ValueError ''Invalid max value'')"
proof -
  have wf: "runs_wf [r]" "runs_wf [r']" using assms by (simp_all add: runs_wf_def)
  define g where "g = \<lparr>run_list = [r], gr_stats = stats_of [r], cached_bits = None,
    gr_max_value = Some mx, prev_avg = None, comment = ''unknown''\<rparr>"
  define gl where "gl = \<lparr>groups = [g], bits_except_last = 0, gl_max_value = Some mx\<rparr>"
  have "classify_step ([], [BitCountingGroupList [] 0 (Some mx)]) r =
      Inr ([gl], [BitCountingGroupList [] 0 (Some mx), gl])"
    using for_runs_total(1) [OF wf(1)]
    by (simp add: classify_step_def append_group_of_runs_def BitCountingGroup_def
        BitCountingGroupList_def group_list_bits_def gl_def g_def)
  moreover have "group_list_bits gl = Inl (ValueError ''Invalid max value'')"
    using assms(3) wf(1)
    by (intro group_list_bits_invalid [where gs = "[]" and g = g]) (simp_all add: gl_def g_def)
  then have "classify_step ([gl], [BitCountingGroupList [] 0 (Some mx), gl]) r' =
      Inl (ValueError ''Invalid max value'')"
    using for_runs_total(1) [OF wf(2)]
    by (simp add: classify_step_def append_group_of_runs_def BitCountingGroup_def Let_def)
  ultimately show ?thesis by simp
qed

text \<open>
  \<open>classify\<close> of nothing raises \<open>IndexError\<close>; two or more values none of which has a
  positive sample raise \<open>ValueError\<close> (there is no maximal value to code with); and an empty first
  sub-sequence raises \<open>ZeroDivisionError\<close>, because statistics of size zero cannot start a group.
\<close>

theorem classify_errors:
  assumes "samples v \<noteq> []" and "samples v' \<noteq> []" and "max_sample (v # v' # vs) \<le> 0"
  shows "classify [] = Inl IndexError \<and>
    classify (v # v' # vs) = Inl (ValueError ''Invalid max value'') \<and>
    classify (Many [] # vs) = Inl ZeroDivisionError"
proof (intro conjI)
  show "classify [] = Inl IndexError"
    by (simp add: classify_run group_list_getitem_def BitCountingGroupList_def)
  show "classify (v # v' # vs) = Inl (ValueError ''Invalid max value'')"
    using classify_steps_invalid [OF processed_wf [OF assms(1)] processed_wf [OF assms(2)] assms(3)]
    by (simp add: classify_run del: foldE.simps)
  show "classify (Many [] # vs) = Inl ZeroDivisionError"
    by (simp add: classify_run classify_step_def append_group_of_runs_def BitCountingGroup_def
        for_runs_def welford_step_def stats_of_def BitCountingGroupList_def)
qed

theorem classify_errors_witness:
  "classify [] = Inl IndexError \<and>
   classify [Single (-1), Many [0, -2]] = Inl (ValueError ''Invalid max value'') \<and>
   classify [Many []] = Inl ZeroDivisionError"
  using classify_errors [of "Single (-1)" "Many [0, -2]" "[]"]
  by (simp add: max_sample_def bump_def)

lemma length_comment_groups [simp]: "length (comment_groups a gs) = length gs"
  by (induction gs arbitrary: a) (simp_all add: Let_def)

lemma comment_groups_nth:
  assumes "i < length gs"
  shows "comment (comment_groups a gs ! i) =
    (let b = st_avg (gr_stats (comment_groups a gs ! i));
         c = (if i = 0 then a else st_avg (gr_stats (comment_groups a gs ! (i - 1))))
     in if b = c then ''normal'' else if b < c then ''regression'' else ''progression'')"
  using assms
proof (induction gs arbitrary: a i)
  case (Cons g gs)
  then show ?case by (cases i) (auto simp: Let_def nth_Cons' split: if_splits)
qed simp

text \<open>
  Comments of a classification tell the direction of the change of the average: the
  first group is \<open>normal\<close>, and every later one is \<open>normal\<close>, \<open>regression\<close> or \<open>progression\<close>
  according to whether its average equals, is below or is above that of the group before it.
\<close>

theorem classify_comments:
  assumes "classify values = Inr gl"
  shows "\<exists>g gs. groups gl = g # gs \<and> comment g = ''normal'' \<and>
    (\<forall>i < length gs.
       let a = st_avg (gr_stats ((g # gs) ! i)); b = st_avg (gr_stats ((g # gs) ! Suc i))
       in comment ((g # gs) ! Suc i) =
            (if b = a then ''normal'' else if b < a then ''regression'' else ''progression''))"
proof -
  obtain p g0 where p: "list_get (groups p) 0 = Inr g0"
    "gl = p\<lparr>groups := comment_groups (st_avg (gr_stats g0)) (groups p)\<rparr>"
    using assms by (auto simp: classify_run group_list_getitem_def Let_def)
  then obtain gs where "groups p = g0 # gs"
    by (cases "groups p") auto
  with p have "groups gl = g0\<lparr>comment := ''normal''\<rparr> # comment_groups (st_avg (gr_stats g0)) gs"
    by (simp add: Let_def)
  moreover have "comment (comment_groups a gs ! i) =
      (let c = st_avg (gr_stats ((g0\<lparr>comment := ''normal''\<rparr> # comment_groups a gs) ! i));
           b = st_avg (gr_stats (comment_groups a gs ! i))
       in if b = c then ''normal'' else if b < c then ''regression'' else ''progression'')"
    if "i < length gs" and "a = st_avg (gr_stats g0)" for i a
    using comment_groups_nth [OF that(1), of a] that(2) by (cases i) (simp_all add: Let_def)
  ultimately show ?thesis by (simp add: Let_def)
qed

theorem classify_comments_witness:
  "\<exists>gl. classify [Single 5] = Inr gl \<and>
     (\<exists>g gs. groups gl = g # gs \<and> comment g = ''normal'' \<and>
      (\<forall>i < length gs.
         let a = st_avg (gr_stats ((g # gs) ! i)); b = st_avg (gr_stats ((g # gs) ! Suc i))
         in comment ((g # gs) ! Suc i) =
              (if b = a then ''normal'' else if b < a then ''regression'' else ''progression'')))"
proof -
  obtain gl where gl: "classify [Single 5] = Inr gl"
    using classify_returns [of "[Single 5]"] by (auto simp: max_sample_def bump_def)
  from classify_comments [OF gl] gl show ?thesis by blast
qed

end
