(* ===== verification/VppApiCrc.thy ===== *)
theory VppApiCrc
  imports PyVal
begin

text \<open>
  \<open>VppApiCrc.py\<close>: tracking which collections of API CRCs fit the VPP build under test. The
  checker is a record; its methods return their exception or success with the checker as it is
  afterwards, since a report is remembered although it raises. The files read (the YAML file of
  collections, the \<open>.api.json\<close> files in the order of \<open>os.walk\<close>) are arguments. Message names and
  CRCs are \<open>pyval\<close>s because nothing checks that they are strings.
\<close>

section \<open>The checker\<close>

type_synonym crc_map = "(pyval, pyval) pydict"
type_synonym collections = "(string, crc_map) pydict"

record crc_checker =
  fail_on_mismatch :: bool
  expected :: collections
  missing :: collections
  found :: crc_map
  reported :: crc_map
  initial_conflicts_reported :: bool

type_synonym crc_outcome = "unit res \<times> crc_checker"

fun truthy_val :: "pyval \<Rightarrow> bool" where
  "truthy_val VNone = False"
| "truthy_val (VBool b) = b"
| "truthy_val (VInt i) = (i \<noteq> 0)"
| "truthy_val (VStr s) = (s \<noteq> [])"
| "truthy_val (VBytes b) = (b \<noteq> [])"
| "truthy_val (VList xs) = (xs \<noteq> [])"
| "truthy_val (VDict d) = (d \<noteq> [])"

definition log_and_raise :: "crc_checker \<Rightarrow> string \<Rightarrow> unit res" where
  "log_and_raise ck exc_msg = (if fail_on_mismatch ck then Inl (RuntimeError exc_msg) else Inr ())"

definition register_collection :: "crc_checker \<Rightarrow> string \<times> crc_map \<Rightarrow> crc_checker res" where
  "register_collection ck c =
     (case c of (name, mapping) \<Rightarrow>
        if map_of (expected ck) name \<noteq> None then Inl (RuntimeError ''Collection already registered.'')
        else Inr (ck\<lparr>expected := AList.update name mapping (expected ck),
                     missing := AList.update name mapping (missing ck)\<rparr>))"

definition register_all :: "crc_checker \<Rightarrow> collections \<Rightarrow> crc_checker res" where
  "register_all ck collections = foldE register_collection ck collections"

fun get_name :: "pyval list \<Rightarrow> pyval res" where
  "get_name [] = Inl (RuntimeError ''No name found for message'')"
| "get_name (item # msg) =
     (case item of VDict d \<Rightarrow> get_name msg | VList xs \<Rightarrow> get_name msg | v \<Rightarrow> Inr v)"

fun get_crc_from :: "pyval list \<Rightarrow> pyval res" where
  "get_crc_from [] = Inl (RuntimeError ''No CRC found for message'')"
| "get_crc_from (item # msg) =
     (case item of
        VDict d \<Rightarrow>
          (case map_of d ''crc'' of
             Some crc \<Rightarrow> if truthy_val crc then Inr crc else get_crc_from msg
           | None \<Rightarrow> get_crc_from msg)
      | _ \<Rightarrow> get_crc_from msg)"

definition get_crc :: "pyval list \<Rightarrow> pyval res" where
  "get_crc msg_obj = get_crc_from (rev msg_obj)"

text \<open>The loop over the collections, then the decision.\<close>

definition process_collection ::
    "pyval \<Rightarrow> pyval \<Rightarrow> collections \<times> collections \<Rightarrow> string \<times> crc_map \<Rightarrow> (collections \<times> collections) res" where
  "process_collection api_name crc state item =
     (case state of (miss, new_expected) \<Rightarrow>
      case item of (name, mapping) \<Rightarrow>
        (case map_of mapping api_name of
           None \<Rightarrow> Inr (miss, new_expected)
         | Some c \<Rightarrow>
             if c = crc
             then bindE (getitem miss name) (\<lambda>m.
                    Inr (AList.update name (AList.delete api_name m) miss, new_expected))
             else Inr (miss, AList.delete name new_expected)))"

definition restrict_to :: "collections \<Rightarrow> collections \<Rightarrow> collections res" where
  "restrict_to miss new_expected =
     mapE (\<lambda>(name, mapping). bindE (getitem miss name) (\<lambda>m. Inr (name, m))) new_expected"

definition process_crc :: "crc_checker \<Rightarrow> pyval \<Rightarrow> pyval \<Rightarrow> crc_outcome" where
  "process_crc ck api_name crc =
     (let ck1 = ck\<lparr>found := AList.update api_name crc (found ck)\<rparr>
      in case foldE (process_collection api_name crc) (missing ck, expected ck) (expected ck) of
           Inl e \<Rightarrow> (Inl e, ck1)
         | Inr (miss, new_expected) \<Rightarrow>
             if new_expected \<noteq> [] then
               (case restrict_to miss new_expected of
                  Inl e \<Rightarrow> (Inl e, ck1\<lparr>expected := new_expected, missing := miss\<rparr>)
                | Inr miss' \<Rightarrow> (Inr (), ck1\<lparr>expected := new_expected, missing := miss'\<rparr>))
             else (Inr (), ck1\<lparr>missing := miss, reported := AList.update api_name crc (reported ck)\<rparr>))"

fun process_messages :: "crc_checker \<Rightarrow> pyval list list \<Rightarrow> crc_outcome" where
  "process_messages ck [] = (Inr (), ck)"
| "process_messages ck (msg # msgs) =
     (case get_name msg of
        Inl e \<Rightarrow> (Inl e, ck)
      | Inr name \<Rightarrow>
          (case get_crc msg of
             Inl e \<Rightarrow> (Inl e, ck)
           | Inr crc \<Rightarrow>
               (case process_crc ck name crc of
                  (Inl e, ck1) \<Rightarrow> (Inl e, ck1)
                | (Inr u, ck1) \<Rightarrow> process_messages ck1 msgs)))"

text \<open>A file is its name with its list of messages, \<open>None\<close> if it has no entry \<open>messages\<close>.\<close>

fun check_dir :: "crc_checker \<Rightarrow> (string \<times> pyval list list option) list \<Rightarrow> crc_outcome" where
  "check_dir ck [] = (Inr (), ck)"
| "check_dir ck ((filename, content) # files) =
     (if \<not> endswith filename ''.api.json'' then check_dir ck files
      else case content of
        None \<Rightarrow> (Inl (KeyError ''messages''), ck)
      | Some msgs \<Rightarrow>
          (case process_messages ck msgs of
             (Inl e, ck1) \<Rightarrow> (Inl e, ck1)
           | (Inr u, ck1) \<Rightarrow> check_dir ck1 files))"

definition empty_checker :: "bool \<Rightarrow> crc_checker" where
  "empty_checker fail =
     \<lparr>fail_on_mismatch = fail, expected = [], missing = [], found = [], reported = [],
      initial_conflicts_reported = False\<rparr>"

definition VppApiCrcChecker ::
    "bool \<Rightarrow> collections \<Rightarrow> (string \<times> pyval list list option) list \<Rightarrow> crc_outcome" where
  "VppApiCrcChecker fail collections files =
     (case register_all (empty_checker fail) collections of
        Inl e \<Rightarrow> (Inl e, empty_checker fail)
      | Inr ck \<Rightarrow> check_dir ck files)"

definition report_initial_conflicts :: "crc_checker \<Rightarrow> bool \<Rightarrow> crc_outcome" where
  "report_initial_conflicts ck report_missing =
     (if initial_conflicts_reported ck then (Inr (), ck)
      else
        (let ck1 = ck\<lparr>initial_conflicts_reported := True\<rparr>;
             ck2 = (if reported ck \<noteq> [] then ck1\<lparr>reported := []\<rparr> else ck1)
         in case (if reported ck \<noteq> []
                  then log_and_raise ck2 ''Incompatible API CRCs found in .api.json files''
                  else Inr ()) of
              Inl e \<Rightarrow> (Inl e, ck2)
            | Inr u \<Rightarrow>
                if \<not> report_missing then (Inr (), ck2)
                else if filter (\<lambda>(name, mapp). mapp \<noteq> []) (missing ck2) \<noteq> []
                then (log_and_raise ck2 ''API CRCs missing from .api.json'', ck2)
                else (Inr (), ck2)))"

definition knows :: "pyval \<Rightarrow> crc_map \<Rightarrow> bool" where
  "knows api_name mapping \<longleftrightarrow> map_of mapping api_name \<noteq> None"

definition check_api_name :: "crc_checker \<Rightarrow> pyval \<Rightarrow> crc_outcome" where
  "check_api_name ck api_name =
     (if map_of (reported ck) api_name \<noteq> None then (Inr (), ck)
      else
        (let new_expected =
               foldl (\<lambda>acc (name, mapping). if knows api_name mapping then acc else AList.delete name acc)
                 (expected ck) (expected ck);
             ck1 = (if new_expected \<noteq> [] then ck\<lparr>expected := new_expected\<rparr> else ck);
             crc = (case map_of (found ck) api_name of None \<Rightarrow> VNone | Some c \<Rightarrow> c);
             matching = (crc \<noteq> VNone \<and>
               list_ex (\<lambda>(name, mapping). map_of mapping api_name = Some crc) (expected ck1))
         in if matching then (Inr (), ck1)
            else
              (let ck2 = ck1\<lparr>reported := AList.update api_name crc (reported ck1)\<rparr>
               in (log_and_raise ck2 ''No active collection contains API with CRC'', ck2))))"

section \<open>The collections that remain\<close>

text \<open>A collection fits a pair of name and CRC unless it knows the name under another CRC.\<close>

definition fits :: "pyval \<Rightarrow> pyval \<Rightarrow> crc_map \<Rightarrow> bool" where
  "fits api_name crc mapping \<longleftrightarrow> map_of mapping api_name \<in> {None, Some crc}"

text \<open>The loop removes from \<open>new_expected\<close> the collections that do not fit.\<close>

lemma fold_delete_filter:
  assumes "dict_wf d"
  shows "foldl (\<lambda>acc (name, m). if P m then acc else AList.delete name acc) d d =
    filter (\<lambda>(name, m). P m) d"
proof -
  have "foldl (\<lambda>acc (name, m). if P m then acc else AList.delete name acc) acc xs =
      filter (\<lambda>(k, v). \<forall>(name, m)\<in>set xs. k = name \<longrightarrow> P m) acc" for acc xs
  proof (induction xs arbitrary: acc)
    case (Cons x xs)
    have "AList.delete (fst x) acc = filter (\<lambda>y. fst y \<noteq> fst x) acc"
      by (induction acc) auto
    then show ?case
      by (cases x) (auto simp: Cons intro!: filter_cong)
  qed simp
  then have "foldl (\<lambda>acc (name, m). if P m then acc else AList.delete name acc) d d =
      filter (\<lambda>(k, v). \<forall>(name, m)\<in>set d. k = name \<longrightarrow> P m) d" .
  also have "\<dots> = filter (\<lambda>(name, m). P m) d"
  proof (rule filter_cong [OF refl])
    fix x assume x: "x \<in> set d"
    obtain k v where kv: "x = (k, v)" by (cases x)
    have "map_of d k = Some m" if "(k, m) \<in> set d" for m
      using that assms by (simp add: dict_wf_def)
    then have "m = v" if "(k, m) \<in> set d" for m
      using that x unfolding kv by (metis option.inject)
    then have "(\<forall>(name, m)\<in>set d. k = name \<longrightarrow> P m) = P v"
      using x unfolding kv by blast
    then show "(case x of (k, v) \<Rightarrow> \<forall>(name, m)\<in>set d. k = name \<longrightarrow> P m) =
        (case x of (name, m) \<Rightarrow> P m)"
      by (simp add: kv)
  qed
  finally show ?thesis .
qed

section \<open>The invariant\<close>

text \<open>
  The collections have distinct names, at least one is active, every active collection has an
  entry of missing messages, and what is missing of an active collection is part of it.
\<close>

definition crc_inv :: "crc_checker \<Rightarrow> bool" where
  "crc_inv ck \<longleftrightarrow>
     dict_wf (expected ck) \<and> expected ck \<noteq> [] \<and>
     (\<forall>(name, mapping) \<in> set (expected ck).
        \<exists>m. map_of (missing ck) name = Some m \<and> map_of m \<subseteq>\<^sub>m map_of mapping)"

definition missing_ok :: "collections \<Rightarrow> collections \<Rightarrow> bool" where
  "missing_ok cols miss \<longleftrightarrow>
     (\<forall>(name, mapping) \<in> set cols. \<exists>m. map_of miss name = Some m \<and> map_of m \<subseteq>\<^sub>m map_of mapping)"

lemma crc_inv_alt:
  "crc_inv ck \<longleftrightarrow> dict_wf (expected ck) \<and> expected ck \<noteq> [] \<and> missing_ok (expected ck) (missing ck)"
  by (simp add: crc_inv_def missing_ok_def)

lemma missing_ok_pop:
  assumes "missing_ok cols miss" and "map_of miss name = Some m"
  shows "missing_ok cols (AList.update name (AList.delete a m) miss)"
  unfolding missing_ok_def
proof (intro ballI, clarify)
  fix k mapping assume "(k, mapping) \<in> set cols"
  with assms(1) obtain m' where m': "map_of miss k = Some m'" "map_of m' \<subseteq>\<^sub>m map_of mapping"
    by (auto simp: missing_ok_def)
  show "\<exists>n. map_of (AList.update name (AList.delete a m) miss) k = Some n \<and>
      map_of n \<subseteq>\<^sub>m map_of mapping"
  proof (cases "k = name")
    case True
    with m' assms(2) have "map_of m \<subseteq>\<^sub>m map_of mapping" by simp
    then have "map_of (AList.delete a m) \<subseteq>\<^sub>m map_of mapping"
      by (simp add: pd.lookup_remove map_le_def)
    with True show ?thesis by (simp add: pd.lookup_store)
  next
    case False
    with m' show ?thesis by (simp add: pd.lookup_store)
  qed
qed

lemma missing_ok_subset: "missing_ok cols miss \<Longrightarrow> set cols' \<subseteq> set cols \<Longrightarrow> missing_ok cols' miss"
  unfolding missing_ok_def by blast

lemma process_collections_run:
  assumes "missing_ok cols miss" and "set xs \<subseteq> set cols"
  shows "\<exists>miss'. foldE (process_collection a c) (miss, new) xs =
      Inr (miss', foldl (\<lambda>acc (name, m). if fits a c m then acc else AList.delete name acc) new xs) \<and>
    missing_ok cols miss'"
  using assms
proof (induction xs arbitrary: miss new)
  case (Cons x xs)
  obtain name mapping where x: "x = (name, mapping)" by (cases x)
  obtain m where m: "map_of miss name = Some m"
    using Cons.prems x by (auto simp: missing_ok_def)
  consider "map_of mapping a = None" | "map_of mapping a = Some c"
    | c' where "map_of mapping a = Some c'" "c' \<noteq> c" by (cases "map_of mapping a") auto
  then show ?case
  proof cases
    case 1
    with Cons x show ?thesis by (simp add: process_collection_def fits_def)
  next
    case 2
    have "missing_ok cols (AList.update name (AList.delete a m) miss)"
      using Cons.prems(1) m by (rule missing_ok_pop)
    with Cons x 2 m show ?thesis by (simp add: process_collection_def fits_def getitem_def)
  next
    case 3
    with Cons x show ?thesis by (simp add: process_collection_def fits_def)
  qed
qed auto

lemma restrict_to_ok:
  assumes "missing_ok cols miss" and "dict_wf cols"
  shows "\<exists>miss'. restrict_to miss cols = Inr miss' \<and> missing_ok cols miss'"
proof -
  let ?f = "\<lambda>(name, mapping :: crc_map). (name, the (map_of miss name))"
  have "restrict_to miss cols = Inr (map ?f cols)"
    unfolding restrict_to_def using assms(1)
    by (intro mapE_total) (auto simp: missing_ok_def getitem_def)
  moreover have "map_of (map ?f cols) name = map_of miss name" if "(name, mapping) \<in> set cols"
    for name mapping
  proof -
    have "fst \<circ> ?f = fst" by (simp add: fun_eq_iff)
    then have "distinct (map fst (map ?f cols))" using assms(2) by (simp add: dict_wf_def)
    moreover have "?f (name, mapping) \<in> set (map ?f cols)"
      using imageI [OF that, of ?f] by (simp only: set_map)
    moreover from assms(1) that obtain m where "map_of miss name = Some m"
      by (auto simp: missing_ok_def)
    ultimately show ?thesis by (simp add: map_of_is_SomeI)
  qed
  ultimately show ?thesis using assms(1) by (fastforce simp: missing_ok_def)
qed

text \<open>What \<open>process_crc\<close> does to a checker that satisfies the invariant.\<close>

lemma process_crc_run:
  fixes a c :: pyval
  assumes "crc_inv ck"
  defines "new \<equiv> filter (\<lambda>(name, m). fits a c m) (expected ck)"
  shows "\<exists>ck'. process_crc ck a c = (Inr (), ck') \<and> crc_inv ck' \<and>
    expected ck' = (if new = [] then expected ck else new) \<and>
    found ck' = AList.update a c (found ck) \<and>
    reported ck' = (if new = [] then AList.update a c (reported ck) else reported ck) \<and>
    fail_on_mismatch ck' = fail_on_mismatch ck \<and>
    initial_conflicts_reported ck' = initial_conflicts_reported ck"
proof -
  have inv: "dict_wf (expected ck)" "expected ck \<noteq> []" "missing_ok (expected ck) (missing ck)"
    using assms(1) by (simp_all add: crc_inv_alt)
  from process_collections_run [OF inv(3) subset_refl, of a c "expected ck"]
  obtain miss where loop: "foldE (process_collection a c) (missing ck, expected ck) (expected ck) =
      Inr (miss, new)" and miss: "missing_ok (expected ck) miss"
    unfolding new_def fold_delete_filter [OF inv(1)] by blast
  show ?thesis
  proof (cases "new = []")
    case True
    with loop inv miss show ?thesis
      by (simp add: process_crc_def crc_inv_alt)
  next
    case False
    have "dict_wf new" using inv(1) by (auto simp: new_def dict_wf_def intro: distinct_map_filter)
    moreover have "missing_ok new miss"
      using miss by (rule missing_ok_subset) (auto simp: new_def)
    ultimately obtain miss' where "restrict_to miss new = Inr miss'" "missing_ok new miss'"
      using restrict_to_ok by blast
    with loop False \<open>dict_wf new\<close> show ?thesis
      by (simp add: process_crc_def crc_inv_alt)
  qed
qed

text \<open>
  Processing a message name with its CRC never raises on a well-formed checker. If some
  active collection does not contradict the CRC, exactly the ones that do are dropped, in place, and
  nothing is reported; if all contradict it, all of them are kept and the CRC is remembered for the
  report.
\<close>

theorem process_crc_keeps_fitting:
  assumes "crc_inv ck"
  shows "\<exists>ck'. process_crc ck a c = (Inr (), ck') \<and> crc_inv ck' \<and>
    map_of (found ck') = (map_of (found ck))(a \<mapsto> c) \<and>
    (if \<exists>(name, m)\<in>set (expected ck). fits a c m
     then expected ck' = filter (\<lambda>(name, m). fits a c m) (expected ck) \<and> reported ck' = reported ck
     else expected ck' = expected ck \<and> map_of (reported ck') = (map_of (reported ck))(a \<mapsto> c))"
proof -
  let ?new = "filter (\<lambda>(name, m). fits a c m) (expected ck)"
  have "(\<exists>(name, m)\<in>set (expected ck). fits a c m) \<longleftrightarrow> ?new \<noteq> []"
    by (auto simp: filter_empty_conv)
  with process_crc_run [OF assms, of a c] show ?thesis
    by (auto simp: pd.lookup_store)
qed

definition sample_collections :: collections where
  "sample_collections =
     [(''19.08'', [(VStr ''show_version'', VStr ''0x51077d14''), (VStr ''ip_route'', VStr ''0x1'')]),
      (''20.01'', [(VStr ''show_version'', VStr ''0x51077d14''), (VStr ''ip_route'', VStr ''0x2'')])]"

definition sample_checker :: crc_checker where
  "sample_checker =
     \<lparr>fail_on_mismatch = True, expected = sample_collections, missing = sample_collections,
      found = [], reported = [], initial_conflicts_reported = False\<rparr>"

lemma sample_checker_inv: "crc_inv sample_checker"
  by (simp add: crc_inv_def sample_checker_def sample_collections_def dict_wf_def)

theorem process_crc_keeps_fitting_witness:
  "\<exists>ck'. process_crc sample_checker (VStr ''ip_route'') (VStr ''0x2'') = (Inr (), ck') \<and> crc_inv ck' \<and>
    map fst (expected ck') = [''20.01''] \<and> reported ck' = []"
  using process_crc_keeps_fitting [OF sample_checker_inv, of "VStr ''ip_route''" "VStr ''0x2''"]
  by (auto simp: sample_checker_def sample_collections_def fits_def)

lemma check_api_name_run:
  assumes "crc_inv ck" and "map_of (reported ck) a = None"
  defines "new \<equiv> filter (\<lambda>(name, m). knows a m) (expected ck)"
  defines "cols \<equiv> (if new = [] then expected ck else new)"
  defines "crc \<equiv> (case map_of (found ck) a of None \<Rightarrow> VNone | Some c \<Rightarrow> c)"
  shows "check_api_name ck a =
    (if crc \<noteq> VNone \<and> (\<exists>(name, m)\<in>set cols. map_of m a = Some crc)
     then (Inr (), ck\<lparr>expected := cols\<rparr>)
     else let ck' = ck\<lparr>expected := cols, reported := AList.update a crc (reported ck)\<rparr>
          in (log_and_raise ck' ''No active collection contains API with CRC'', ck'))"
proof -
  have wf: "dict_wf (expected ck)" using assms(1) by (simp add: crc_inv_def)
  have "(if new \<noteq> [] then ck\<lparr>expected := new\<rparr> else ck) = ck\<lparr>expected := cols\<rparr>"
    by (simp add: cols_def)
  then show ?thesis
    using assms(2) unfolding check_api_name_def fold_delete_filter [OF wf] new_def [symmetric]
    by (simp add: Let_def crc_def [symmetric] list_ex_iff)
qed

lemma check_api_name_inv:
  assumes "crc_inv ck"
  shows "crc_inv (snd (check_api_name ck a))"
proof (cases "map_of (reported ck) a")
  case None
  let ?new = "filter (\<lambda>(name, m). knows a m) (expected ck)"
  let ?cols = "if ?new = [] then expected ck else ?new"
  have "dict_wf ?cols" "?cols \<noteq> []" "missing_ok ?cols (missing ck)"
    using assms by (auto simp: crc_inv_alt dict_wf_def distinct_map_filter intro: missing_ok_subset)
  then show ?thesis
    unfolding check_api_name_run [OF assms None] by (simp add: crc_inv_alt Let_def)
qed (use assms in \<open>simp add: check_api_name_def\<close>)

text \<open>A CRC was found for the name, and an active collection has it.\<close>

definition matched :: "crc_checker \<Rightarrow> pyval \<Rightarrow> bool" where
  "matched ck a \<longleftrightarrow> (\<exists>c. map_of (found ck) a = Some c \<and> c \<noteq> VNone \<and> (\<exists>(name, m)\<in>set (expected ck). map_of m a = Some c))"

definition later_checks :: "pyval list \<Rightarrow> crc_checker \<Rightarrow> crc_checker" where
  "later_checks names ck = foldl (\<lambda>ck b. snd (check_api_name ck b)) ck names"

lemma check_keeps_reported:
  "map_of (reported ck) a \<noteq> None \<Longrightarrow> map_of (reported (snd (check_api_name ck b))) a \<noteq> None"
  by (auto simp: check_api_name_def Let_def update_conv')

lemma later_checks_reported: "map_of (reported ck) a \<noteq> None \<Longrightarrow> map_of (reported (later_checks names ck)) a \<noteq> None"
proof (induction names arbitrary: ck)
  case (Cons b names)
  from Cons.IH [OF check_keeps_reported [OF Cons.prems]] show ?case by (simp add: later_checks_def)
qed (simp add: later_checks_def)

lemma matched_remaining:
  fixes ck a
  defines "new \<equiv> filter (\<lambda>(name, m). knows a m) (expected ck)"
  shows "(\<exists>(name, m)\<in>set (if new = [] then expected ck else new). map_of m a = Some c) \<longleftrightarrow> (\<exists>(name, m)\<in>set (expected ck). map_of m a = Some c)"
  by (force simp: new_def knows_def filter_empty_conv)

text \<open>
  C8. \<open>check_api_name\<close> raises only for a real mismatch, and only once per message: it raises
  exactly when failing is enabled, the name was not reported before and no active collection has the
  CRC found for the name (or no CRC was found). A name is marked as reported exactly by such a mismatch,
  whether it raises or only logs, and from then on every call with this name succeeds and changes nothing,
  whatever other names are checked in between.
\<close>

theorem check_api_name_reports_once:
  assumes "crc_inv ck" and "check_api_name ck a = (r, ck')"
  shows "r = (if fail_on_mismatch ck \<and> map_of (reported ck) a = None \<and> \<not> matched ck a
           then Inl (RuntimeError ''No active collection contains API with CRC'') else Inr ()) \<and>
    (map_of (reported ck') a \<noteq> None \<longleftrightarrow> map_of (reported ck) a \<noteq> None \<or> \<not> matched ck a) \<and>
    (map_of (reported ck') a \<noteq> None \<longrightarrow> check_api_name (later_checks names ck') a = (Inr (), later_checks names ck'))"
proof -
  have later: "map_of (reported ck') a \<noteq> None \<longrightarrow> check_api_name (later_checks names ck') a = (Inr (), later_checks names ck')"
    using later_checks_reported [of ck' a names] by (auto simp: check_api_name_def)
  show ?thesis
  proof (cases "map_of (reported ck) a")
    case (Some x)
    with assms(2) later show ?thesis by (auto simp: check_api_name_def)
  next
    case None
    define crc where "crc = (case map_of (found ck) a of None \<Rightarrow> VNone | Some c \<Rightarrow> c)"
    have "matched ck a \<longleftrightarrow> crc \<noteq> VNone \<and> (\<exists>(name, m)\<in>set (expected ck). map_of m a = Some crc)"
      by (cases "map_of (found ck) a") (auto simp: matched_def crc_def)
    with check_api_name_run [OF assms(1) None, folded crc_def] assms(2) None
    have "(r, ck') = (if matched ck a then (Inr (), ck') else (log_and_raise ck ''No active collection contains API with CRC'', ck'))"
      "map_of (reported ck') a = (if matched ck a then None else Some crc)"
      by (auto simp: matched_remaining Let_def log_and_raise_def update_conv' split: if_splits)
    with None later show ?thesis by (simp add: log_and_raise_def split: if_splits)
  qed
qed

theorem check_api_name_reports_once_witness:
  "fst (check_api_name sample_checker (VStr ''acl_add'')) = Inl (RuntimeError ''No active collection contains API with CRC'') \<and>
   fst (check_api_name (later_checks [VStr ''ip_route''] (snd (check_api_name sample_checker (VStr ''acl_add'')))) (VStr ''acl_add'')) = Inr ()"
proof -
  obtain r ck' where run: "check_api_name sample_checker (VStr ''acl_add'') = (r, ck')"
    by (cases "check_api_name sample_checker (VStr ''acl_add'')")
  have "\<not> matched sample_checker (VStr ''acl_add'')" "fail_on_mismatch sample_checker" "map_of (reported sample_checker) (VStr ''acl_add'') = None"
    by (simp_all add: matched_def sample_checker_def)
  with check_api_name_reports_once [OF sample_checker_inv run, of "[VStr ''ip_route'']"] run show ?thesis by simp
qed

section \<open>Reachable checkers\<close>

lemma update_fresh: "map_of d k = None \<Longrightarrow> AList.update k v d = d @ [(k, v)]"
  by (induction d) (auto split: if_splits)

lemma register_all_inv:
  assumes "register_all ck collections = Inr ck'" and "dict_wf (expected ck)"
    and "missing_ok (expected ck) (missing ck)"
  shows "dict_wf (expected ck') \<and> missing_ok (expected ck') (missing ck') \<and>
    (collections \<noteq> [] \<or> expected ck \<noteq> [] \<longrightarrow> expected ck' \<noteq> [])"
  using assms
proof (induction collections arbitrary: ck)
  case (Cons c cs)
  obtain name mapping where c: "c = (name, mapping)" by (cases c)
  let ?ck = "ck\<lparr>expected := AList.update name mapping (expected ck),
    missing := AList.update name mapping (missing ck)\<rparr>"
  from Cons.prems c have fresh: "map_of (expected ck) name = None"
    and rest: "register_all ?ck cs = Inr ck'"
    by (auto simp: register_all_def register_collection_def split: if_splits)
  then have cols: "expected ?ck = expected ck @ [(name, mapping)]"
    by (simp add: update_fresh)
  have "dict_wf (expected ?ck)" using Cons.prems(2) pd.wf_store by auto
  moreover have "missing_ok (expected ?ck) (missing ?ck)"
    unfolding missing_ok_def cols
  proof (intro ballI, clarify)
    fix k m assume "(k, m) \<in> set (expected ck @ [(name, mapping)])"
    then consider "(k, m) \<in> set (expected ck)" | "k = name" "m = mapping" by auto
    then show "\<exists>n. map_of (missing ?ck) k = Some n \<and> map_of n \<subseteq>\<^sub>m map_of m"
    proof cases
      case 1
      then have "k \<noteq> name" using fresh by (force simp: map_of_eq_None_iff)
      moreover from 1 Cons.prems(3)
      obtain n where "map_of (missing ck) k = Some n" "map_of n \<subseteq>\<^sub>m map_of m"
        by (auto simp: missing_ok_def)
      ultimately show ?thesis by (simp add: pd.lookup_store)
    qed (simp add: pd.lookup_store)
  qed
  moreover have "expected ?ck \<noteq> []" unfolding cols by simp
  ultimately show ?case using Cons.IH [OF rest] by blast
qed (simp add: register_all_def)

lemma process_messages_inv:
  "crc_inv ck \<Longrightarrow> process_messages ck msgs = (r, ck') \<Longrightarrow>
     crc_inv ck' \<and> set (expected ck') \<subseteq> set (expected ck)"
proof (induction msgs arbitrary: ck)
  case (Cons msg msgs)
  show ?case
  proof (cases "get_name msg")
    case (Inr name)
    note name = this
    show ?thesis
    proof (cases "get_crc msg")
      case (Inr crc)
      obtain ck1 where ck1: "process_crc ck name crc = (Inr (), ck1)" "crc_inv ck1"
        "set (expected ck1) \<subseteq> set (expected ck)"
        using process_crc_run [OF Cons.prems(1), of name crc] by auto
      with Cons.prems(2) name Inr have "process_messages ck1 msgs = (r, ck')" by simp
      from Cons.IH [OF ck1(2) this] ck1(3) show ?thesis by blast
    qed (use Cons.prems name in auto)
  qed (use Cons.prems in auto)
qed simp

lemma check_dir_inv:
  "crc_inv ck \<Longrightarrow> check_dir ck files = (r, ck') \<Longrightarrow> crc_inv ck'"
proof (induction files arbitrary: ck)
  case (Cons f files)
  obtain name content where f: "f = (name, content)" by (cases f)
  show ?case
  proof (cases "endswith name ''.api.json'' \<and> content \<noteq> None")
    case False
    with Cons f show ?thesis by (auto split: if_splits)
  next
    case True
    then obtain msgs where msgs: "content = Some msgs" by auto
    obtain r1 ck1 where run: "process_messages ck msgs = (r1, ck1)"
      by (cases "process_messages ck msgs")
    then have "crc_inv ck1" using process_messages_inv Cons.prems(1) by blast
    with Cons f True msgs run show ?thesis by (cases r1) auto
  qed
qed simp

lemma report_initial_conflicts_frame:
  "expected (snd (report_initial_conflicts ck b)) = expected ck"
  "missing (snd (report_initial_conflicts ck b)) = missing ck"
  "initial_conflicts_reported (snd (report_initial_conflicts ck b))"
  "fail_on_mismatch (snd (report_initial_conflicts ck b)) = fail_on_mismatch ck"
  by (auto simp: report_initial_conflicts_def Let_def split: sum.split)

text \<open>The states a checker goes through: the messages of a run, in any order.\<close>

inductive crc_reach :: "crc_checker \<Rightarrow> crc_checker \<Rightarrow> bool" for ck0 where
  start: "crc_reach ck0 ck0"
| process: "crc_reach ck0 ck \<Longrightarrow> process_crc ck a c = (r, ck') \<Longrightarrow> crc_reach ck0 ck'"
| check: "crc_reach ck0 ck \<Longrightarrow> check_api_name ck a = (r, ck') \<Longrightarrow> crc_reach ck0 ck'"
| report: "crc_reach ck0 ck \<Longrightarrow> report_initial_conflicts ck b = (r, ck') \<Longrightarrow> crc_reach ck0 ck'"

lemma crc_reach_inv:
  assumes "crc_reach ck0 ck" and "crc_inv ck0"
  shows "crc_inv ck \<and> set (expected ck) \<subseteq> set (expected ck0)"
  using assms
proof (induction rule: crc_reach.induct)
  case (process ck a c r ck')
  then have "crc_inv ck" "set (expected ck) \<subseteq> set (expected ck0)" by blast+
  with process_crc_run [of ck a c] process.hyps(2) show ?case by (auto split: if_splits)
next
  case (check ck a r ck')
  then have inv: "crc_inv ck" "set (expected ck) \<subseteq> set (expected ck0)" by blast+
  have "set (expected ck') \<subseteq> set (expected ck)"
  proof (cases "map_of (reported ck) a")
    case None
    with check_api_name_run [OF inv(1) None] check.hyps(2) show ?thesis
      by (auto simp: Let_def split: if_splits)
  next
    case (Some x)
    with check.hyps(2) show ?thesis by (simp add: check_api_name_def)
  qed
  with inv check_api_name_inv [OF inv(1), of a] check.hyps(2) show ?case by auto
next
  case (report ck b r ck')
  then have "crc_inv ck" "set (expected ck) \<subseteq> set (expected ck0)" by blast+
  with report_initial_conflicts_frame [of ck b] report.hyps(2) show ?case
    by (simp add: crc_inv_alt)
qed simp

text \<open>
  C7. Whatever is processed, checked and reported after a successful start with at least one
  collection, in any order: there is always an active collection, the active ones are among those
  that were active at the start, their names are distinct, and the missing messages of each are
  messages of that collection.
\<close>

theorem checker_never_runs_out_of_collections:
  assumes "VppApiCrcChecker fail collections files = (Inr (), ck0)" and "collections \<noteq> []"
    and "crc_reach ck0 ck"
  shows "crc_inv ck \<and> expected ck \<noteq> [] \<and> set (expected ck) \<subseteq> set (expected ck0)"
proof -
  obtain ck1 where reg: "register_all (empty_checker fail) collections = Inr ck1"
    and dir: "check_dir ck1 files = (Inr (), ck0)"
    using assms(1) by (auto simp: VppApiCrcChecker_def split: sum.splits)
  have "crc_inv ck1"
    using register_all_inv [OF reg] assms(2)
    by (simp add: crc_inv_alt empty_checker_def dict_wf_def missing_ok_def)
  then have "crc_inv ck0" using dir check_dir_inv by blast
  with crc_reach_inv [OF assms(3)] show ?thesis by (simp add: crc_inv_def)
qed

theorem checker_never_runs_out_of_collections_witness:
  "\<exists>ck0 ck r. VppApiCrcChecker True sample_collections [] = (Inr (), ck0) \<and>
     process_crc ck0 (VStr ''ip_route'') (VStr ''0x7'') = (r, ck) \<and>
     crc_inv ck \<and> expected ck \<noteq> [] \<and> set (expected ck) \<subseteq> set (expected ck0)"
proof -
  obtain ck0 where ck0: "VppApiCrcChecker True sample_collections [] = (Inr (), ck0)"
    by (simp add: VppApiCrcChecker_def register_all_def register_collection_def empty_checker_def
        sample_collections_def)
  obtain r ck where run: "process_crc ck0 (VStr ''ip_route'') (VStr ''0x7'') = (r, ck)"
    by (cases "process_crc ck0 (VStr ''ip_route'') (VStr ''0x7'')")
  have "crc_reach ck0 ck" using crc_reach.process [OF crc_reach.start run] .
  moreover have "sample_collections \<noteq> []" by (simp add: sample_collections_def)
  ultimately show ?thesis
    using checker_never_runs_out_of_collections [OF ck0] ck0 run by blast
qed

end
