(* ===== verification/VppConfigGenerator.thy ===== *)
theory VppConfigGenerator
  imports Topology
begin

text \<open>
  \<open>VppConfigGenerator.py\<close>: the startup configuration of VPP as nested dictionaries, one method per
  configuration item, and its serialization. A method returns the exception or success and the
  object afterwards. Commands on the node go through an argument \<open>exec\<close> that acts on a world.
  The restart of VPP in \<open>apply_config\<close> is not modelled.
\<close>

section \<open>The object\<close>

record config_generator =
  cg_node :: pyval
  cg_node_key :: pyval
  nodeconfig :: pyobj
  vpp_config :: string
  vpp_logfile :: string
  vpp_startup_conf :: string
  vpp_startup_conf_backup :: "string option"

type_synonym config_outcome = "unit res \<times> config_generator"

definition VppConfigGenerator_init :: config_generator where
  "VppConfigGenerator_init =
     \<lparr>cg_node = VStr '''', cg_node_key = VStr '''', nodeconfig = [], vpp_config = '''',
      vpp_logfile = ''/tmp/vpe.log'', vpp_startup_conf = ''/etc/vpp/startup.conf'',
      vpp_startup_conf_backup = None\<rparr>"

definition set_node :: "config_generator \<Rightarrow> node \<Rightarrow> pyval \<Rightarrow> config_outcome" where
  "set_node cg node node_key =
     (case getitem node ''type'' of
        Inl e \<Rightarrow> (Inl e, cg)
      | Inr t \<Rightarrow>
          if t \<noteq> VStr ''DUT''
          then (Inl (RuntimeError ''Startup config can only be applied to DUTnode.''), cg)
          else (Inr (), cg\<lparr>cg_node := VDict node, cg_node_key := node_key\<rparr>))"

definition set_vpp_logfile :: "config_generator \<Rightarrow> string \<Rightarrow> config_generator" where
  "set_vpp_logfile cg logfile = cg\<lparr>vpp_logfile := logfile\<rparr>"

definition set_vpp_startup_conf_backup :: "config_generator \<Rightarrow> string \<Rightarrow> config_generator" where
  "set_vpp_startup_conf_backup cg backup = cg\<lparr>vpp_startup_conf_backup := Some backup\<rparr>"

section \<open>Items\<close>

fun add_config_item :: "pyval \<Rightarrow> pyval \<Rightarrow> string list \<Rightarrow> pyval res" where
  "add_config_item config value [] = Inl IndexError"
| "add_config_item config value [k] = setitem config k value"
| "add_config_item config value (k # k' # ks) =
     bindE (py_in k config) (\<lambda>present.
     bindE (if \<not> present then setitem config k (VDict [])
            else bindE (sub config k) (\<lambda>old.
              case old of
                VStr s \<Rightarrow> setitem config k (VDict (if s = '''' then [] else [(s, VStr '''')]))
              | _ \<Rightarrow> Inr config)) (\<lambda>config1.
     bindE (sub config1 k) (\<lambda>child.
     bindE (add_config_item child value (k' # ks)) (\<lambda>child1.
     setitem config1 k child1))))"

text \<open>
  A failed insertion leaves the configuration unchanged: it can only fail below entries that were
  neither created nor replaced on the way.
\<close>

definition add_item :: "config_generator \<Rightarrow> pyval \<Rightarrow> string list \<Rightarrow> config_outcome" where
  "add_item cg value path =
     (case add_config_item (VDict (nodeconfig cg)) value path of
        Inl e \<Rightarrow> (Inl e, cg)
      | Inr (VDict d) \<Rightarrow> (Inr (), cg\<lparr>nodeconfig := d\<rparr>)
      | Inr v \<Rightarrow> (Inr (), cg))"

text \<open>A loop over arguments that stops at the first exception.\<close>

fun each :: "(config_generator \<Rightarrow> 'a \<Rightarrow> config_outcome) \<Rightarrow> config_generator \<Rightarrow> 'a list \<Rightarrow> config_outcome" where
  "each f cg [] = (Inr (), cg)"
| "each f cg (x # xs) =
     (case f cg x of
        (Inl e, cg1) \<Rightarrow> (Inl e, cg1)
      | (Inr u, cg1) \<Rightarrow> each f cg1 xs)"

section \<open>PCI addresses\<close>

definition is_hex :: "char \<Rightarrow> bool" where
  "is_hex c \<longleftrightarrow> is_digit c \<or> (let n = (of_char c :: nat) in 65 \<le> n \<and> n \<le> 70 \<or> 97 \<le> n \<and> n \<le> 102)"

definition pci_pattern :: "(char \<Rightarrow> bool) list" where
  "pci_pattern =
     replicate 4 is_hex @ [(=) CHR '':''] @ replicate 2 is_hex @ [(=) CHR '':''] @ replicate 2 is_hex @
     [(=) CHR ''.'', is_hex]"

text \<open>The \<open>$\<close> of the pattern also matches before a newline at the end.\<close>

definition pci_dev_check :: "string \<Rightarrow> bool res" where
  "pci_dev_check pci_dev =
     (let body = (if pci_dev \<noteq> [] \<and> last pci_dev = CHR 0x0A then butlast pci_dev else pci_dev)
      in if list_all2 (\<lambda>p c. p c) pci_pattern body then Inr True
         else Inl (ValueError ''PCI address is not in valid format xxxx:xx:xx.x''))"

text \<open>\<^verbatim>\<open>re.sub(r"\d.\d$", new, s)\<close>\<close>

definition sub_function_number :: "string \<Rightarrow> string \<Rightarrow> string" where
  "sub_function_number new s =
     (let nl = s \<noteq> [] \<and> last s = CHR 0x0A;
          body = (if nl then butlast s else s);
          tail = drop (length body - 3) body
      in if length tail = 3 \<and> is_digit (tail ! 0) \<and> tail ! 1 \<noteq> CHR 0x0A \<and> is_digit (tail ! 2)
         then take (length body - 3) body @ new @ (if nl then [CHR 0x0A] else [])
         else s)"

section \<open>Methods for single items\<close>

definition add_unix_cli_listen :: "config_generator \<Rightarrow> pyval \<Rightarrow> config_outcome" where
  "add_unix_cli_listen cg value = add_item cg value [''unix'', ''cli-listen'']"

definition add_unix_gid :: "config_generator \<Rightarrow> pyval \<Rightarrow> config_outcome" where
  "add_unix_gid cg value = add_item cg value [''unix'', ''gid'']"

definition add_unix_nodaemon :: "config_generator \<Rightarrow> config_outcome" where
  "add_unix_nodaemon cg = add_item cg (VStr '''') [''unix'', ''nodaemon'']"

definition add_unix_coredump :: "config_generator \<Rightarrow> config_outcome" where
  "add_unix_coredump cg = add_item cg (VStr '''') [''unix'', ''full-coredump'']"

definition add_unix_exec :: "config_generator \<Rightarrow> pyval \<Rightarrow> config_outcome" where
  "add_unix_exec cg value = add_item cg value [''unix'', ''exec'']"

definition add_socksvr :: "config_generator \<Rightarrow> pyval \<Rightarrow> config_outcome" where
  "add_socksvr cg socket = add_item cg socket [''socksvr'', ''socket-name'']"

definition add_api_segment_gid :: "config_generator \<Rightarrow> pyval \<Rightarrow> config_outcome" where
  "add_api_segment_gid cg value = add_item cg value [''api-segment'', ''gid'']"

definition add_api_segment_global_size :: "config_generator \<Rightarrow> pyval \<Rightarrow> config_outcome" where
  "add_api_segment_global_size cg value = add_item cg value [''api-segment'', ''global-size'']"

definition add_api_segment_api_size :: "config_generator \<Rightarrow> pyval \<Rightarrow> config_outcome" where
  "add_api_segment_api_size cg value = add_item cg value [''api-segment'', ''api-size'']"

definition add_buffers_per_numa :: "config_generator \<Rightarrow> pyval \<Rightarrow> config_outcome" where
  "add_buffers_per_numa cg value = add_item cg value [''buffers'', ''buffers-per-numa'']"

definition add_buffers_default_data_size :: "config_generator \<Rightarrow> pyval \<Rightarrow> config_outcome" where
  "add_buffers_default_data_size cg value = add_item cg value [''buffers'', ''default data-size'']"

definition add_dpdk_dev_default_rxq :: "config_generator \<Rightarrow> pyval \<Rightarrow> config_outcome" where
  "add_dpdk_dev_default_rxq cg value = add_item cg value [''dpdk'', ''dev default'', ''num-rx-queues'']"

definition add_dpdk_dev_default_txq :: "config_generator \<Rightarrow> pyval \<Rightarrow> config_outcome" where
  "add_dpdk_dev_default_txq cg value = add_item cg value [''dpdk'', ''dev default'', ''num-tx-queues'']"

definition add_dpdk_dev_default_rxd :: "config_generator \<Rightarrow> pyval \<Rightarrow> config_outcome" where
  "add_dpdk_dev_default_rxd cg value = add_item cg value [''dpdk'', ''dev default'', ''num-rx-desc'']"

definition add_dpdk_dev_default_txd :: "config_generator \<Rightarrow> pyval \<Rightarrow> config_outcome" where
  "add_dpdk_dev_default_txd cg value = add_item cg value [''dpdk'', ''dev default'', ''num-tx-desc'']"

definition add_dpdk_log_level :: "config_generator \<Rightarrow> pyval \<Rightarrow> config_outcome" where
  "add_dpdk_log_level cg value = add_item cg value [''dpdk'', ''log-level'']"

definition add_dpdk_no_pci :: "config_generator \<Rightarrow> config_outcome" where
  "add_dpdk_no_pci cg = add_item cg (VStr '''') [''dpdk'', ''no-pci'']"

definition add_cpu_main_core :: "config_generator \<Rightarrow> pyval \<Rightarrow> config_outcome" where
  "add_cpu_main_core cg value = add_item cg value [''cpu'', ''main-core'']"

definition add_cpu_corelist_workers :: "config_generator \<Rightarrow> pyval \<Rightarrow> config_outcome" where
  "add_cpu_corelist_workers cg value = add_item cg value [''cpu'', ''corelist-workers'']"

definition add_main_heap_size :: "config_generator \<Rightarrow> pyval \<Rightarrow> config_outcome" where
  "add_main_heap_size cg value = add_item cg value [''memory'', ''main-heap-size'']"

definition add_main_heap_page_size :: "config_generator \<Rightarrow> pyval \<Rightarrow> config_outcome" where
  "add_main_heap_page_size cg value = add_item cg value [''memory'', ''main-heap-page-size'']"

definition add_api_trace :: "config_generator \<Rightarrow> config_outcome" where
  "add_api_trace cg = add_item cg (VStr '''') [''api-trace'', ''on'']"

definition add_ip6_hash_buckets :: "config_generator \<Rightarrow> pyval \<Rightarrow> config_outcome" where
  "add_ip6_hash_buckets cg value = add_item cg value [''ip6'', ''hash-buckets'']"

definition add_ip6_heap_size :: "config_generator \<Rightarrow> pyval \<Rightarrow> config_outcome" where
  "add_ip6_heap_size cg value = add_item cg value [''ip6'', ''heap-size'']"

definition add_statseg_size :: "config_generator \<Rightarrow> pyval \<Rightarrow> config_outcome" where
  "add_statseg_size cg value = add_item cg value [''statseg'', ''size'']"

definition add_statseg_page_size :: "config_generator \<Rightarrow> pyval \<Rightarrow> config_outcome" where
  "add_statseg_page_size cg value = add_item cg value [''statseg'', ''page-size'']"

definition add_statseg_per_node_counters :: "config_generator \<Rightarrow> pyval \<Rightarrow> config_outcome" where
  "add_statseg_per_node_counters cg value = add_item cg value [''statseg'', ''per-node-counters'']"

definition add_dpdk_no_multi_seg :: "config_generator \<Rightarrow> config_outcome" where
  "add_dpdk_no_multi_seg cg = add_item cg (VStr '''') [''dpdk'', ''no-multi-seg'']"

definition add_dpdk_no_tx_checksum_offload :: "config_generator \<Rightarrow> config_outcome" where
  "add_dpdk_no_tx_checksum_offload cg = add_item cg (VStr '''') [''dpdk'', ''no-tx-checksum-offload'']"

definition add_nat_max_translations_per_thread :: "config_generator \<Rightarrow> pyval \<Rightarrow> config_outcome" where
  "add_nat_max_translations_per_thread cg value = add_item cg value [''nat'', ''max translations per thread'']"

definition add_nsim_poll_main_thread :: "config_generator \<Rightarrow> config_outcome" where
  "add_nsim_poll_main_thread cg = add_item cg (VStr '''') [''nsim'', ''poll-main-thread'']"

definition add_tcp_congestion_control_algorithm :: "config_generator \<Rightarrow> pyval \<Rightarrow> config_outcome" where
  "add_tcp_congestion_control_algorithm cg value = add_item cg value [''tcp'', ''cc-algo'']"

definition add_tcp_preallocated_connections :: "config_generator \<Rightarrow> pyval \<Rightarrow> config_outcome" where
  "add_tcp_preallocated_connections cg value = add_item cg value [''tcp'', ''preallocated-connections'']"

definition add_tcp_preallocated_half_open_connections :: "config_generator \<Rightarrow> pyval \<Rightarrow> config_outcome" where
  "add_tcp_preallocated_half_open_connections cg value = add_item cg value [''tcp'', ''preallocated-half-open-connections'']"

definition add_session_enable :: "config_generator \<Rightarrow> config_outcome" where
  "add_session_enable cg = add_item cg (VStr '''') [''session'', ''enable'']"

definition add_session_event_queues_memfd_segment :: "config_generator \<Rightarrow> config_outcome" where
  "add_session_event_queues_memfd_segment cg = add_item cg (VStr '''') [''session'', ''evt_qs_memfd_seg'']"

definition add_session_event_queue_length :: "config_generator \<Rightarrow> pyval \<Rightarrow> config_outcome" where
  "add_session_event_queue_length cg value = add_item cg value [''session'', ''event-queue-length'']"

definition add_session_event_queues_segment_size :: "config_generator \<Rightarrow> pyval \<Rightarrow> config_outcome" where
  "add_session_event_queues_segment_size cg value = add_item cg value [''session'', ''evt_qs_seg_size'']"

definition add_session_preallocated_sessions :: "config_generator \<Rightarrow> pyval \<Rightarrow> config_outcome" where
  "add_session_preallocated_sessions cg value = add_item cg value [''session'', ''preallocated-sessions'']"

definition add_session_v4_session_table_buckets :: "config_generator \<Rightarrow> pyval \<Rightarrow> config_outcome" where
  "add_session_v4_session_table_buckets cg value = add_item cg value [''session'', ''v4-session-table-buckets'']"

definition add_session_v4_session_table_memory :: "config_generator \<Rightarrow> pyval \<Rightarrow> config_outcome" where
  "add_session_v4_session_table_memory cg value = add_item cg value [''session'', ''v4-session-table-memory'']"

definition add_session_v4_halfopen_table_buckets :: "config_generator \<Rightarrow> pyval \<Rightarrow> config_outcome" where
  "add_session_v4_halfopen_table_buckets cg value = add_item cg value [''session'', ''v4-halfopen-table-buckets'']"

definition add_session_v4_halfopen_table_memory :: "config_generator \<Rightarrow> pyval \<Rightarrow> config_outcome" where
  "add_session_v4_halfopen_table_memory cg value = add_item cg value [''session'', ''v4-halfopen-table-memory'']"

definition add_session_local_endpoints_table_buckets :: "config_generator \<Rightarrow> pyval \<Rightarrow> config_outcome" where
  "add_session_local_endpoints_table_buckets cg value = add_item cg value [''session'', ''local-endpoints-table-buckets'']"

definition add_session_local_endpoints_table_memory :: "config_generator \<Rightarrow> pyval \<Rightarrow> config_outcome" where
  "add_session_local_endpoints_table_memory cg value = add_item cg value [''session'', ''local-endpoints-table-memory'']"

section \<open>Methods with choices and loops\<close>

definition add_unix_log :: "config_generator \<Rightarrow> pyval \<Rightarrow> config_outcome" where
  "add_unix_log cg value =
     add_item cg (if value = VNone then VStr (vpp_logfile cg) else value) [''unix'', ''log'']"

definition add_graph_node_variant :: "config_generator \<Rightarrow> string \<Rightarrow> config_outcome" where
  "add_graph_node_variant cg variant =
     (if variant = '''' then (Inr (), cg)
      else if variant \<notin> {''hsw'', ''skx'', ''icl''}
      then (Inl (ValueError ''Invalid graph node variant value''), cg)
      else add_item cg (VStr variant) [''node'', ''default'', ''variant''])"

definition add_dpdk_dev :: "config_generator \<Rightarrow> string list \<Rightarrow> config_outcome" where
  "add_dpdk_dev cg devices =
     each (\<lambda>cg device.
       case pci_dev_check device of
         Inl e \<Rightarrow> (Inl e, cg)
       | Inr b \<Rightarrow> if b then add_item cg (VStr '''') [''dpdk'', ''dev '' @ device] else (Inr (), cg))
       cg devices"

definition add_dpdk_dev_parameter ::
    "config_generator \<Rightarrow> string \<Rightarrow> string \<Rightarrow> pyval \<Rightarrow> config_outcome" where
  "add_dpdk_dev_parameter cg device parameter value =
     (case pci_dev_check device of
        Inl e \<Rightarrow> (Inl e, cg)
      | Inr b \<Rightarrow>
          if b then add_item cg value [''dpdk'', ''dev '' @ device, parameter] else (Inr (), cg))"

definition node_of :: "config_generator \<Rightarrow> node res" where
  "node_of cg = (case cg_node cg of VDict n \<Rightarrow> Inr n | _ \<Rightarrow> Inl type_error)"

definition add_dpdk_uio_driver :: "config_generator \<Rightarrow> pyval \<Rightarrow> config_outcome" where
  "add_dpdk_uio_driver cg value =
     (case (if value = VNone then bindE (node_of cg) get_uio_driver else Inr value) of
        Inl e \<Rightarrow> (Inl e, cg)
      | Inr v \<Rightarrow> add_item cg v [''dpdk'', ''uio-driver''])"

definition add_dpdk_cryptodev :: "config_generator \<Rightarrow> int \<Rightarrow> config_outcome" where
  "add_dpdk_cryptodev cg count =
     (case bindE (node_of cg) get_cryptodev of
        Inl e \<Rightarrow> (Inl e, cg)
      | Inr cryptodev \<Rightarrow>
          (case each (\<lambda>cg i.
                  case cryptodev of
                    VStr s \<Rightarrow>
                      add_item cg (VStr '''')
                        [''dpdk'', ''dev '' @ sub_function_number (''1.'' @ str_of_nat i) s]
                  | _ \<Rightarrow> (Inl type_error, cg)) cg [0..<nat count] of
             (Inl e, cg1) \<Rightarrow> (Inl e, cg1)
           | (Inr u, cg1) \<Rightarrow> add_dpdk_uio_driver cg1 (VStr ''vfio-pci'')))"

definition add_dpdk_sw_cryptodev ::
    "config_generator \<Rightarrow> string \<Rightarrow> pyval \<Rightarrow> int \<Rightarrow> config_outcome" where
  "add_dpdk_sw_cryptodev cg sw_pmd_type socket_id count =
     each (\<lambda>cg i. add_item cg (VStr '''')
       [''dpdk'', ''vdev cryptodev_'' @ sw_pmd_type @ ''_pmd,socket_id='' @ py_str socket_id])
       cg [0..<nat count]"

definition add_dpdk_eth_bond_dev ::
    "config_generator \<Rightarrow> pyval \<Rightarrow> pyval \<Rightarrow> string \<Rightarrow> string list \<Rightarrow> config_outcome" where
  "add_dpdk_eth_bond_dev cg ethbond_id mode xmit_policy slaves =
     (case mapE (\<lambda>slave. bindE (pci_dev_check slave) (\<lambda>b. Inr (if b then slave else ''''))) slaves of
        Inl e \<Rightarrow> (Inl e, cg)
      | Inr names \<Rightarrow>
          add_item cg (VStr '''')
            [''dpdk'', ''vdev eth_bond'' @ py_str ethbond_id @ '',mode='' @ py_str mode @
               ''slave='' @ join '',slave='' names @ '',xmit_policy='' @ xmit_policy])"

definition add_plugin :: "config_generator \<Rightarrow> string \<Rightarrow> string list \<Rightarrow> config_outcome" where
  "add_plugin cg state plugins =
     each (\<lambda>cg plugin. add_item cg (VStr '' '') [''plugins'', ''plugin '' @ plugin, state]) cg plugins"

definition add_nat :: "config_generator \<Rightarrow> string \<Rightarrow> config_outcome" where
  "add_nat cg value = add_item cg (VStr '''') [''nat'', value]"

section \<open>Serialization\<close>

definition indents :: "int \<Rightarrow> string" where
  "indents level = concat (replicate (nat level) ''  '')"

fun is_nested :: "pyval \<Rightarrow> bool" where
  "is_nested (VDict d) = True"
| "is_nested (VList xs) = True"
| "is_nested v = False"

definition open_brace :: "int \<Rightarrow> string" where
  "open_brace level = (if level \<ge> 0 then indents level @ ''{'' @ [CHR 0x0A] else '''')"

definition close_brace :: "int \<Rightarrow> string" where
  "close_brace level = (if level \<ge> 0 then indents level @ ''}'' @ [CHR 0x0A] else '''')"

text \<open>The text appended to \<open>_vpp_config\<close>; it is only called on dictionaries and lists.\<close>

fun dump_config :: "int \<Rightarrow> pyval \<Rightarrow> string"
  and dump_items :: "int \<Rightarrow> pyobj \<Rightarrow> string" where
  "dump_config level (VDict d) = open_brace level @ dump_items level d @ close_brace level"
| "dump_config level (VList xs) =
     open_brace level @ concat (map (\<lambda>v. indents (level + 1) @ py_str v @ [CHR 0x0A]) xs) @
     close_brace level"
| "dump_config level v = ''''"
| "dump_items level [] = ''''"
| "dump_items level ((k, v) # d) =
     (if is_nested v then indents (level + 1) @ k @ [CHR 0x0A] @ dump_config (level + 1) v
      else indents (level + 1) @ k @ '' '' @ py_str v @ [CHR 0x0A]) @
     dump_items level d"

definition get_config_str :: "config_generator \<Rightarrow> string \<times> config_generator" where
  "get_config_str cg =
     (let cg1 = cg\<lparr>vpp_config := vpp_config cg @ dump_config (-1) (VDict (nodeconfig cg))\<rparr>
      in (vpp_config cg1, cg1))"

type_synonym 'w executor = "pyval \<Rightarrow> string \<Rightarrow> bool \<Rightarrow> 'w \<Rightarrow> string res \<times> 'w"

definition write_config ::
    "'w executor \<Rightarrow> config_generator \<Rightarrow> string option \<Rightarrow> 'w \<Rightarrow> unit res \<times> config_generator \<times> 'w" where
  "write_config exec cg filename w =
     (let cg1 = cg\<lparr>vpp_config := vpp_config cg @ dump_config (-1) (VDict (nodeconfig cg))\<rparr>;
          file = (case filename of None \<Rightarrow> vpp_startup_conf cg | Some f \<Rightarrow> f);
          saved = (case vpp_startup_conf_backup cg of
                     None \<Rightarrow> (Inr '''', w)
                   | Some backup \<Rightarrow>
                       exec (cg_node cg) (''cp '' @ vpp_startup_conf cg @ '' '' @ backup) True w)
      in case saved of
           (Inl e, w1) \<Rightarrow> (Inl e, cg1, w1)
         | (Inr out, w1) \<Rightarrow>
             (case exec (cg_node cg)
                     (''echo '' @ [CHR 34] @ vpp_config cg1 @ [CHR 34] @ '' | sudo tee '' @ file) False w1 of
                (Inl e, w2) \<Rightarrow> (Inl e, cg1, w2)
              | (Inr out, w2) \<Rightarrow> (Inr (), cg1, w2)))"

definition restore_config :: "'w executor \<Rightarrow> config_generator \<Rightarrow> 'w \<Rightarrow> unit res \<times> 'w" where
  "restore_config exec cg w =
     (case exec (cg_node cg)
             (''cp '' @ (case vpp_startup_conf_backup cg of None \<Rightarrow> ''None'' | Some b \<Rightarrow> b) @ '' '' @
              vpp_startup_conf cg) True w of
        (Inl e, w1) \<Rightarrow> (Inl e, w1)
      | (Inr out, w1) \<Rightarrow> (Inr (), w1))"

section \<open>Items are stored\<close>

lemma update_twice: "AList.update k c (AList.update k b d) = AList.update k c d"
  by (induction d) auto

lemma setitem_dict: "setitem (VDict d) k = (\<lambda>c. Inr (VDict (AList.update k c d)))"
  by (rule ext) simp

lemma add_config_item_below:
  "add_config_item (VDict d) x (k # k' # ks) =
     bindE (add_config_item (child_of d k) x (k' # ks)) (\<lambda>c. Inr (VDict (AList.update k c d)))"
proof (cases "map_of d k")
  case None
  then show ?thesis by (simp add: child_of_def getitem_update setitem_dict update_twice)
next
  case (Some v)
  then show ?thesis
    by (cases v) (simp_all add: child_of_def getitem_def pd.lookup_store setitem_dict update_twice)
qed

interpretation config_items: item_store add_config_item
proof
  show "add_config_item v x (k # ks) = Inr v' \<Longrightarrow> \<exists>d. v = VDict d" for v x k ks v'
    by (cases v; cases ks) (auto split: if_splits)
  show "add_config_item (VDict d) x (k # k' # ks) =
      bindE (add_config_item (child_of d k) x (k' # ks)) (\<lambda>c. Inr (VDict (AList.update k c d)))"
    for d x k k' ks by (rule add_config_item_below)
qed simp_all

text \<open>Configurations made of strings and dictionaries with distinct keys.\<close>

fun str_config :: "pyval \<Rightarrow> bool"
  and str_items :: "pyobj \<Rightarrow> bool" where
  "str_config (VStr s) = True"
| "str_config (VDict d) = (distinct (map fst d) \<and> str_items d)"
| "str_config v = False"
| "str_items [] = True"
| "str_items ((k, v) # d) = (str_config v \<and> str_items d)"

lemma str_items_iff: "str_items d \<longleftrightarrow> (\<forall>(k, v)\<in>set d. str_config v)"
  by (induction d) auto

lemma str_items_update: "str_items d \<Longrightarrow> str_config c \<Longrightarrow> str_items (AList.update k c d)"
  by (induction d) auto

lemma str_config_child:
  assumes "str_config (VDict d)"
  shows "\<exists>d'. child_of d k = VDict d' \<and> str_config (VDict d')"
proof (cases "map_of d k")
  case None
  then show ?thesis by (simp add: child_of_def)
next
  case (Some v)
  then have "str_config v" using assms by (auto simp: str_items_iff dest: map_of_SomeD)
  with Some show ?thesis by (cases v) (simp_all add: child_of_def)
qed

lemma add_config_item_str:
  "str_config (VDict d) \<Longrightarrow> str_config x \<Longrightarrow> p \<noteq> [] \<Longrightarrow>
     \<exists>d'. add_config_item (VDict d) x p = Inr (VDict d') \<and> str_config (VDict d')"
proof (induction p arbitrary: d)
  case (Cons k p)
  show ?case
  proof (cases p)
    case Nil
    with Cons.prems show ?thesis by (simp add: str_items_update distinct_update)
  next
    case (Cons k' ks)
    obtain dc where dc: "child_of d k = VDict dc" "str_config (VDict dc)"
      using str_config_child Cons.prems(1) by blast
    obtain d' where "add_config_item (VDict dc) x p = Inr (VDict d')" "str_config (VDict d')"
      using Cons.IH [OF dc(2)] Cons.prems Cons by blast
    with dc Cons.prems show ?thesis
      by (simp add: Cons add_config_item_below str_items_update distinct_update
          del: add_config_item.simps)
  qed
qed simp

lemma add_item_str:
  assumes "str_config (VDict (nodeconfig cg))" and "path \<noteq> []"
  obtains d where "add_item cg (VStr s) path = (Inr (), cg\<lparr>nodeconfig := d\<rparr>)" and "str_config (VDict d)"
    and "lookup_path (VDict d) path = Some (VStr s)"
    and "\<And>q y. diverge path q \<Longrightarrow> lookup_path (VDict (nodeconfig cg)) q = Some y \<Longrightarrow>
       lookup_path (VDict d) q = Some y"
proof -
  obtain d where d: "add_config_item (VDict (nodeconfig cg)) (VStr s) path = Inr (VDict d)"
    "str_config (VDict d)"
    using add_config_item_str [OF assms(1) _ assms(2), of "VStr s"] by auto
  then have "add_item cg (VStr s) path = (Inr (), cg\<lparr>nodeconfig := d\<rparr>)" by (simp add: add_item_def)
  with d config_items.store_lookup [OF d(1)] config_items.store_frame [OF d(1)] that show ?thesis by blast
qed

text \<open>
  C15. Adding a string at any path to a configuration made of strings and dictionaries never
  raises and gives such a configuration again, in which the path leads to the string; whatever was
  found under a path that diverges from it is still found there.
\<close>

theorem add_item_stores:
  assumes "str_config (VDict (nodeconfig cg))" and "path \<noteq> []"
  shows "\<exists>d. add_item cg (VStr s) path = (Inr (), cg\<lparr>nodeconfig := d\<rparr>) \<and> str_config (VDict d) \<and>
    lookup_path (VDict d) path = Some (VStr s) \<and>
    (\<forall>q y. diverge path q \<longrightarrow> lookup_path (VDict (nodeconfig cg)) q = Some y \<longrightarrow>
       lookup_path (VDict d) q = Some y)"
  by (rule add_item_str [OF assms, of s]) blast

definition sample_generator :: config_generator where
  "sample_generator = VppConfigGenerator_init
     \<lparr>nodeconfig := [(''unix'', VDict [(''log'', VStr ''/tmp/vpe.log'')]), (''nat'', VStr ''on'')]\<rparr>"

theorem add_item_stores_witness:
  "\<exists>d. add_item sample_generator (VStr '''') [''nat'', ''deterministic''] =
      (Inr (), sample_generator\<lparr>nodeconfig := d\<rparr>) \<and>
    lookup_path (VDict d) [''nat'', ''deterministic''] = Some (VStr '''') \<and>
    lookup_path (VDict d) [''unix'', ''log''] = Some (VStr ''/tmp/vpe.log'')"
proof -
  have cfg: "str_config (VDict (nodeconfig sample_generator))"
    "lookup_path (VDict (nodeconfig sample_generator)) [''unix'', ''log''] = Some (VStr ''/tmp/vpe.log'')"
    by (simp_all add: sample_generator_def)
  moreover have "diverge [''nat'', ''deterministic''] [''unix'', ''log'']" by simp
  ultimately show ?thesis
    using add_item_stores [OF cfg(1), of "[''nat'', ''deterministic'']" "''''"] by blast
qed

section \<open>The serialized configuration\<close>

text \<open>
  The configuration format of VPP: a line is an entry, or the name of a section when the next line
  is an opening brace; indentation and empty lines mean nothing. The reader below keeps the entries
  of the open section and a stack of enclosing sections.
\<close>

datatype cfg = Entry string | Section string "cfg list"

type_synonym reader = "cfg list \<times> (string \<times> cfg list) list"

definition read_line :: "string \<Rightarrow> reader \<Rightarrow> reader option" where
  "read_line line state =
     (case state of (cur, stack) \<Rightarrow>
        if line = ''{'' then
          (if cur = [] then None
           else case last cur of Entry t \<Rightarrow> Some ([], (t, butlast cur) # stack) | _ \<Rightarrow> None)
        else if line = ''}'' then
          (case stack of [] \<Rightarrow> None | (t, outer) # rest \<Rightarrow> Some (outer @ [Section t cur], rest))
        else Some (cur @ [Entry line], stack))"

fun read_lines :: "string list \<Rightarrow> reader \<Rightarrow> reader option" where
  "read_lines [] state = Some state"
| "read_lines (l # ls) state = (case read_line l state of None \<Rightarrow> None | Some s \<Rightarrow> read_lines ls s)"

definition config_lines :: "string \<Rightarrow> string list" where
  "config_lines s =
     filter (\<lambda>l. l \<noteq> []) (map (dropWhile (\<lambda>c. c = CHR '' '')) (split_on (CHR 0x0A) s))"

definition read_config :: "string \<Rightarrow> cfg list option" where
  "read_config s = (case read_lines (config_lines s) ([], []) of Some (cs, []) \<Rightarrow> Some cs | _ \<Rightarrow> None)"

text \<open>What a configuration is meant to say: its entries and sections.\<close>

fun view_val :: "pyval \<Rightarrow> cfg list"
  and view_items :: "pyobj \<Rightarrow> cfg list" where
  "view_val (VDict d) = view_items d"
| "view_val (VList xs) = map (\<lambda>v. Entry (py_str v)) xs"
| "view_val v = []"
| "view_items [] = []"
| "view_items ((k, v) # d) =
     (if is_nested v then Section k (view_val v) else Entry (k @ '' '' @ py_str v)) # view_items d"

definition text_ok :: "string \<Rightarrow> bool" where
  "text_ok t \<longleftrightarrow> t \<noteq> [] \<and> hd t \<noteq> CHR '' '' \<and> CHR 0x0A \<notin> set t \<and> t \<noteq> ''{'' \<and> t \<noteq> ''}''"

fun cfg_ok :: "cfg \<Rightarrow> bool" where
  "cfg_ok (Entry t) = text_ok t"
| "cfg_ok (Section t cs) = (text_ok t \<and> list_all cfg_ok cs)"

fun cfg_lines :: "cfg \<Rightarrow> string list" where
  "cfg_lines (Entry t) = [t]"
| "cfg_lines (Section t cs) = [t, ''{''] @ concat (map cfg_lines cs) @ [''}'']"

lemma read_line_text: "text_ok t \<Longrightarrow> read_line t (cur, st) = Some (cur @ [Entry t], st)"
  by (simp add: read_line_def text_ok_def)

lemma read_cfg:
  "cfg_ok c \<Longrightarrow> read_lines (cfg_lines c @ rest) (cur, st) = read_lines rest (cur @ [c], st)"
proof (induction c arbitrary: cur st rest)
  case (Entry t)
  then show ?case by (simp add: read_line_text)
next
  case (Section t cs)
  have body: "list_all cfg_ok ds \<Longrightarrow> set ds \<subseteq> set cs \<Longrightarrow>
      read_lines (concat (map cfg_lines ds) @ r) (c, s) = read_lines r (c @ ds, s)" for ds r c s
    by (induction ds arbitrary: c) (simp_all add: Section.IH)
  have "read_lines (cfg_lines (Section t cs) @ rest) (cur, st) =
      read_lines (concat (map cfg_lines cs) @ ''}'' # rest) ([], (t, cur) # st)"
    using Section.prems by (simp add: read_line_text) (simp add: read_line_def)
  also have "\<dots> = read_lines (''}'' # rest) (cs, (t, cur) # st)"
    using body [of cs] Section.prems by simp
  finally show ?case by (simp add: read_line_def)
qed

lemma read_cfgs:
  "list_all cfg_ok cs \<Longrightarrow> read_lines (concat (map cfg_lines cs)) (cur, st) = Some (cur @ cs, st)"
  by (induction cs arbitrary: cur) (simp_all add: read_cfg)

lemma dropWhile_indents: "dropWhile (\<lambda>c. c = CHR '' '') (indents l @ s) = dropWhile (\<lambda>c. c = CHR '' '') s"
proof -
  have "dropWhile (\<lambda>c. c = CHR '' '') (concat (replicate n ''  '') @ s) =
      dropWhile (\<lambda>c. c = CHR '' '') s" for n
    by (induction n) simp_all
  then show ?thesis by (simp add: indents_def)
qed

lemma newline_indents: "CHR 0x0A \<notin> set (indents l)"
  by (auto simp: indents_def)

lemma config_lines_step:
  assumes "text_ok t \<or> t \<in> {''{'', ''}''}"
  shows "config_lines (indents l @ t @ CHR 0x0A # rest) = t # config_lines rest"
proof -
  have t: "CHR 0x0A \<notin> set t" "t \<noteq> []" "dropWhile (\<lambda>c. c = CHR '' '') t = t"
    using assms by (auto simp: text_ok_def) (cases t; simp)
  then have "CHR 0x0A \<notin> set (indents l @ t)" using newline_indents by simp
  from split_on_append [OF this, of rest] t show ?thesis
    by (simp add: config_lines_def dropWhile_indents)
qed

lemma config_lines_braces:
  "0 \<le> l \<Longrightarrow> config_lines (open_brace l @ rest) = ''{'' # config_lines rest"
  "0 \<le> l \<Longrightarrow> config_lines (close_brace l @ rest) = ''}'' # config_lines rest"
  using config_lines_step [of "''{''" l rest] config_lines_step [of "''}''" l rest]
  by (simp_all add: open_brace_def close_brace_def)

lemma dump_lines:
  "is_nested v \<Longrightarrow> 0 \<le> level \<Longrightarrow> list_all cfg_ok (view_val v) \<Longrightarrow>
     config_lines (dump_config level v @ rest) =
       ''{'' # concat (map cfg_lines (view_val v)) @ ''}'' # config_lines rest"
  "-1 \<le> level \<Longrightarrow> list_all cfg_ok (view_items d) \<Longrightarrow>
     config_lines (dump_items level d @ rest) =
       concat (map cfg_lines (view_items d)) @ config_lines rest"
proof (induction level v and level d arbitrary: rest and rest rule: dump_config_dump_items.induct)
  case (1 level d)
  then show ?case by (simp add: config_lines_braces)
next
  case (2 level xs)
  have "list_all cfg_ok (map (\<lambda>v. Entry (py_str v)) ys) \<Longrightarrow>
      config_lines (concat (map (\<lambda>v. indents (level + 1) @ py_str v @ [CHR 0x0A]) ys) @ r) =
        map py_str ys @ config_lines r" for ys r
    by (induction ys) (simp_all add: config_lines_step)
  from this [of xs "close_brace level @ rest"] 2 show ?case
    by (simp add: config_lines_braces comp_def)
next
  case (5 level k v d)
  show ?case
  proof (cases "is_nested v")
    case True
    with "5.prems" have k: "text_ok k" "list_all cfg_ok (view_val v)" by simp_all
    have "config_lines (dump_config (level + 1) v @ dump_items level d @ rest) =
        ''{'' # concat (map cfg_lines (view_val v)) @ ''}'' # config_lines (dump_items level d @ rest)"
      using "5.IH"(1) [OF True True] "5.prems"(1) k by simp
    with True k "5.IH"(2) "5.prems" config_lines_step [of k "level + 1"] show ?thesis by simp
  next
    case False
    with "5.IH"(2) "5.prems" config_lines_step [of "k @ '' '' @ py_str v" "level + 1"] show ?thesis
      by simp
  qed
qed simp_all

text \<open>
  C14. A dump returns what the generator has dumped before (nothing, the first time) followed by a text that, read
  back, is exactly the configuration: its entries and sections, nested as in the dictionaries and in
  the same order, as long as no key or value breaks the format (empty or
  indented, containing a newline, or a lone brace).
\<close>

theorem config_round_trip:
  assumes "list_all cfg_ok (view_items (nodeconfig cg))"
  shows "\<exists>t. fst (get_config_str cg) = vpp_config cg @ t \<and> read_config t = Some (view_items (nodeconfig cg))"
proof -
  let ?t = "dump_config (-1) (VDict (nodeconfig cg))"
  have "config_lines ?t = concat (map cfg_lines (view_items (nodeconfig cg)))"
    using dump_lines(2) [OF _ assms, of "-1" "''''"] by (simp add: open_brace_def close_brace_def config_lines_def)
  with read_cfgs [OF assms, of "[]" "[]"] have "read_config ?t = Some (view_items (nodeconfig cg))" by (simp add: read_config_def)
  then show ?thesis by (auto simp: get_config_str_def)
qed

theorem config_round_trip_witness:
  "read_config (fst (get_config_str sample_generator)) =
     Some [Section ''unix'' [Entry ''log /tmp/vpe.log''], Entry ''nat on'']"
proof -
  have cfg: "vpp_config sample_generator = ''''"
    "view_items (nodeconfig sample_generator) = [Section ''unix'' [Entry ''log /tmp/vpe.log''], Entry ''nat on'']"
    by (simp_all add: sample_generator_def VppConfigGenerator_init_def)
  then have "list_all cfg_ok (view_items (nodeconfig sample_generator))" by (simp add: text_ok_def)
  from config_round_trip [OF this] show ?thesis by (auto simp: cfg)
qed

text \<open>
  Dumping appends to what was dumped before: the text of a second call repeats that of
  the first one, so that everything is configured twice.
\<close>

theorem config_dumped_twice:
  assumes "vpp_config cg = ''''" and "get_config_str cg = (s, cg1)" and "get_config_str cg1 = (s', cg2)"
  shows "s' = s @ s \<and>
    (list_all cfg_ok (view_items (nodeconfig cg)) \<longrightarrow>
       read_config s' = Some (view_items (nodeconfig cg) @ view_items (nodeconfig cg)))"
proof -
  let ?cs = "view_items (nodeconfig cg)" and ?t = "dump_config (-1) (VDict (nodeconfig cg))"
  have s': "s = ?t" "s' = ?t @ ?t" using assms by (auto simp: get_config_str_def Let_def)
  have "read_config s' = Some (?cs @ ?cs)" if ok: "list_all cfg_ok ?cs"
  proof -
    have once: "config_lines (?t @ rest) = concat (map cfg_lines ?cs) @ config_lines rest" for rest
      using dump_lines(2) [OF _ ok, of "-1" rest] by (simp add: open_brace_def close_brace_def)
    have "config_lines s' = concat (map cfg_lines (?cs @ ?cs))"
      using once [of ?t] once [of "''''"] by (simp add: s' config_lines_def)
    with read_cfgs [of "?cs @ ?cs" "[]" "[]"] ok show ?thesis by (simp add: read_config_def)
  qed
  with s' show ?thesis by simp
qed

theorem config_dumped_twice_witness:
  "read_config (fst (get_config_str (snd (get_config_str sample_generator)))) =
     Some [Section ''unix'' [Entry ''log /tmp/vpe.log''], Entry ''nat on'',
           Section ''unix'' [Entry ''log /tmp/vpe.log''], Entry ''nat on'']"
proof -
  have cfg: "vpp_config sample_generator = ''''"
    "view_items (nodeconfig sample_generator) = [Section ''unix'' [Entry ''log /tmp/vpe.log''], Entry ''nat on'']"
    by (simp_all add: sample_generator_def VppConfigGenerator_init_def)
  then have ok: "list_all cfg_ok (view_items (nodeconfig sample_generator))" by (simp add: text_ok_def)
  obtain s cg1 s' cg2 where calls: "get_config_str sample_generator = (s, cg1)" "get_config_str cg1 = (s', cg2)"
    by (metis surj_pair)
  from config_dumped_twice [OF cfg(1) calls] ok have "read_config s' = Some (view_items (nodeconfig sample_generator) @ view_items (nodeconfig sample_generator))"
    by blast
  with calls show ?thesis by (simp add: cfg(2))
qed

section \<open>DPDK devices\<close>

definition device_path :: "string \<Rightarrow> string list" where
  "device_path device = [''dpdk'', ''dev '' @ device]"

lemma pci_dev_check_cases:
  "pci_dev_check s = Inr True \<or> (\<exists>m. pci_dev_check s = Inl (ValueError m))"
  by (simp add: pci_dev_check_def Let_def)

lemma add_dpdk_dev_Cons:
  "add_dpdk_dev cg (x # xs) =
     (case pci_dev_check x of
        Inl e \<Rightarrow> (Inl e, cg)
      | Inr b \<Rightarrow>
          (case (if b then add_item cg (VStr '''') (device_path x) else (Inr (), cg)) of
             (Inl e, cg1) \<Rightarrow> (Inl e, cg1) | (Inr u, cg1) \<Rightarrow> add_dpdk_dev cg1 xs))"
  unfolding add_dpdk_dev_def each.simps device_path_def by (auto split: sum.split)

lemma add_dpdk_dev_run:
  assumes "str_config (VDict (nodeconfig cg))"
  shows "\<exists>d. str_config (VDict d) \<and> snd (add_dpdk_dev cg devices) = cg\<lparr>nodeconfig := d\<rparr> \<and>
    (\<forall>x\<in>set (takeWhile (\<lambda>x. pci_dev_check x = Inr True) devices) \<union>
         {x. lookup_path (VDict (nodeconfig cg)) (device_path x) = Some (VStr '''')}.
       lookup_path (VDict d) (device_path x) = Some (VStr '''')) \<and>
    (if \<forall>x\<in>set devices. pci_dev_check x = Inr True then fst (add_dpdk_dev cg devices) = Inr ()
     else \<exists>m. fst (add_dpdk_dev cg devices) = Inl (ValueError m))"
  using assms
proof (induction devices arbitrary: cg)
  case Nil
  have "cg = cg\<lparr>nodeconfig := nodeconfig cg\<rparr>" by simp
  with Nil show ?case by (intro exI [of _ "nodeconfig cg"]) (simp add: add_dpdk_dev_def)
next
  case (Cons x xs)
  show ?case
  proof (cases "pci_dev_check x = Inr True")
    case False
    then obtain m where m: "pci_dev_check x = Inl (ValueError m)" using pci_dev_check_cases [of x] by blast
    have "cg = cg\<lparr>nodeconfig := nodeconfig cg\<rparr>" by simp
    with m Cons.prems show ?thesis
      by (intro exI [of _ "nodeconfig cg"]) (simp add: add_dpdk_dev_Cons)
  next
    case True
    obtain d where d: "add_item cg (VStr '''') (device_path x) = (Inr (), cg\<lparr>nodeconfig := d\<rparr>)"
      "str_config (VDict d)" "lookup_path (VDict d) (device_path x) = Some (VStr '''')"
      and frame: "\<And>q y. diverge (device_path x) q \<Longrightarrow> lookup_path (VDict (nodeconfig cg)) q = Some y \<Longrightarrow>
        lookup_path (VDict d) q = Some y"
      using add_item_str [OF Cons.prems, of "device_path x" "''''"] by (auto simp: device_path_def)
    have keep: "lookup_path (VDict d) (device_path y) = Some (VStr '''')"
      if "lookup_path (VDict (nodeconfig cg)) (device_path y) = Some (VStr '''')" for y
      using that frame [of "device_path y"] d(3) by (cases "y = x") (auto simp: device_path_def)
    have run: "add_dpdk_dev cg (x # xs) = add_dpdk_dev (cg\<lparr>nodeconfig := d\<rparr>) xs"
      by (simp add: add_dpdk_dev_Cons True d(1))
    obtain d' where IH: "str_config (VDict d')"
      "snd (add_dpdk_dev (cg\<lparr>nodeconfig := d\<rparr>) xs) = cg\<lparr>nodeconfig := d'\<rparr>"
      "\<forall>x\<in>set (takeWhile (\<lambda>x. pci_dev_check x = Inr True) xs) \<union>
         {x. lookup_path (VDict d) (device_path x) = Some (VStr '''')}.
       lookup_path (VDict d') (device_path x) = Some (VStr '''')"
      "if \<forall>x\<in>set xs. pci_dev_check x = Inr True
       then fst (add_dpdk_dev (cg\<lparr>nodeconfig := d\<rparr>) xs) = Inr ()
       else \<exists>m. fst (add_dpdk_dev (cg\<lparr>nodeconfig := d\<rparr>) xs) = Inl (ValueError m)"
      using Cons.IH [of "cg\<lparr>nodeconfig := d\<rparr>"] d(2) by auto
    with keep d(3) True show ?thesis unfolding run by (intro exI [of _ d']) auto
  qed
qed

text \<open>
  C16. \<open>add_dpdk_dev\<close> checks and adds device by device: when all addresses have the PCI format,
  it succeeds and every device has its entry in the section \<open>dpdk\<close>; otherwise it raises
  \<open>ValueError\<close>, and the devices before the first bad address have been added. Devices added before
  the call stay.
\<close>

theorem add_dpdk_dev_all_or_error:
  assumes "str_config (VDict (nodeconfig cg))"
  shows "\<exists>d. str_config (VDict d) \<and> snd (add_dpdk_dev cg devices) = cg\<lparr>nodeconfig := d\<rparr> \<and>
    (\<forall>x\<in>set (takeWhile (\<lambda>x. pci_dev_check x = Inr True) devices) \<union>
         {x. lookup_path (VDict (nodeconfig cg)) (device_path x) = Some (VStr '''')}.
       lookup_path (VDict d) (device_path x) = Some (VStr '''')) \<and>
    (if \<forall>x\<in>set devices. pci_dev_check x = Inr True then fst (add_dpdk_dev cg devices) = Inr ()
     else \<exists>m. fst (add_dpdk_dev cg devices) = Inl (ValueError m))"
  using add_dpdk_dev_run [OF assms] .

theorem add_dpdk_dev_all_or_error_witness:
  "\<exists>d. snd (add_dpdk_dev sample_generator [''0000:0a:00.1'', ''0a:00.1'']) = sample_generator\<lparr>nodeconfig := d\<rparr> \<and>
    lookup_path (VDict d) [''dpdk'', ''dev 0000:0a:00.1''] = Some (VStr '''') \<and>
    (\<exists>m. fst (add_dpdk_dev sample_generator [''0000:0a:00.1'', ''0a:00.1'']) = Inl (ValueError m))"
proof -
  have "str_config (VDict (nodeconfig sample_generator))" by (simp add: sample_generator_def)
  moreover have "pci_dev_check ''0000:0a:00.1'' = Inr True" "pci_dev_check ''0a:00.1'' \<noteq> Inr True"
    by (simp_all add: pci_dev_check_def pci_pattern_def is_hex_def is_digit_def numeral_eq_Suc)
  ultimately show ?thesis
    using add_dpdk_dev_all_or_error [of sample_generator "[''0000:0a:00.1'', ''0a:00.1'']"]
    by (auto simp: device_path_def)
qed

end
