(* ===== verification/StatTrackers.thy ===== *)
theory StatTrackers
  imports Prelude Complex_Main
begin

text \<open>
  \<open>PLRsearch/log_plus.py\<close> and \<open>PLRsearch/stat_trackers.py\<close>: arithmetic on logarithms, where
  \<open>None\<close> stands for the logarithm of zero, and trackers of the weighted average and variance of
  samples. Floats are real numbers; overflow and rounding are not modelled.
\<close>

section \<open>Logarithms of non-negative numbers\<close>

type_synonym log_num = "real option"

text \<open>The logarithm of a sum, computed from the larger operand.\<close>

definition log_sum :: "real \<Rightarrow> real \<Rightarrow> real" where
  "log_sum first second =
     (if second > first then second + ln (1 + exp (first - second))
      else first + ln (1 + exp (second - first)))"

fun log_plus :: "log_num \<Rightarrow> log_num \<Rightarrow> log_num" where
  "log_plus None second = second"
| "log_plus first None = first"
| "log_plus (Some first) (Some second) = Some (log_sum first second)"

fun log_minus :: "log_num \<Rightarrow> log_num \<Rightarrow> log_num res" where
  "log_minus None second = Inl (RuntimeError ''log_minus: does not support None first'')"
| "log_minus first None = Inr first"
| "log_minus (Some first) (Some second) =
     (if second \<ge> first then Inl (RuntimeError ''log_minus: first has to be bigger than second'')
      else let factor = - (exp (second - first) - 1)
           in if factor \<le> 0 then Inl (RuntimeError ''log_minus: non-positive number to log'')
              else Inr (Some (first + ln factor)))"

fun safe_exp :: "log_num \<Rightarrow> real" where
  "safe_exp None = 0"
| "safe_exp (Some x) = exp x"

section \<open>Scalar trackers\<close>

record scalar_tracker =
  log_sum_weight :: log_num
  average :: real
  log_variance :: log_num

definition ScalarStatTracker_init :: scalar_tracker where
  "ScalarStatTracker_init = \<lparr>log_sum_weight = None, average = 0, log_variance = None\<rparr>"

definition scalar_copy :: "scalar_tracker \<Rightarrow> scalar_tracker" where
  "scalar_copy t = \<lparr>log_sum_weight = log_sum_weight t, average = average t, log_variance = log_variance t\<rparr>"

definition scalar_add :: "scalar_tracker \<Rightarrow> real \<Rightarrow> real \<Rightarrow> scalar_tracker" where
  "scalar_add t scalar_value log_weight =
     (case log_sum_weight t of
        None \<Rightarrow> t\<lparr>log_sum_weight := Some log_weight, average := scalar_value\<rparr>
      | Some old_log_sum_weight \<Rightarrow>
          (let new_log_sum_weight = log_sum old_log_sum_weight log_weight;
               log_sample_ratio = log_weight - new_log_sum_weight;
               sample_ratio = exp log_sample_ratio;
               shift = scalar_value - average t;
               new_average = average t + shift * sample_ratio;
               absolute_shift = \<bar>shift\<bar>;
               log_var = (if absolute_shift > 0
                          then log_plus (log_variance t) (Some (2 * ln absolute_shift + log_sample_ratio))
                          else log_variance t);
               log_var = (case log_var of
                            None \<Rightarrow> None
                          | Some v \<Rightarrow> Some (v + (old_log_sum_weight - new_log_sum_weight)))
           in \<lparr>log_sum_weight = Some new_log_sum_weight, average = new_average, log_variance = log_var\<rparr>))"

record dual_tracker =
  primary :: scalar_tracker
  secondary :: scalar_tracker
  max_log_weight :: log_num

definition ScalarDualStatTracker_init :: dual_tracker where
  "ScalarDualStatTracker_init =
     \<lparr>primary = ScalarStatTracker_init, secondary = ScalarStatTracker_init, max_log_weight = None\<rparr>"

definition dual_add :: "dual_tracker \<Rightarrow> real \<Rightarrow> real \<Rightarrow> dual_tracker" where
  "dual_add t scalar_value log_weight =
     (let t1 = (if (case max_log_weight t of None \<Rightarrow> True | Some m \<Rightarrow> log_weight \<ge> m)
                then t\<lparr>max_log_weight := Some log_weight, secondary := scalar_copy (primary t)\<rparr>
                else t\<lparr>secondary := scalar_add (secondary t) scalar_value log_weight\<rparr>)
      in t1\<lparr>primary := scalar_add (primary t1) scalar_value log_weight\<rparr>)"

definition get_pessimistic_variance :: "dual_tracker \<Rightarrow> real" where
  "get_pessimistic_variance t =
     (let var_primary = safe_exp (log_variance (primary t));
          var_secondary = safe_exp (log_variance (secondary t));
          avg_half_diff = (average (primary t) - average (secondary t)) / 2
      in (var_primary + var_secondary) / 2 + avg_half_diff * avg_half_diff)"

section \<open>Vector trackers\<close>

text \<open>
  The number of components, the averages and the covariance matrix (row \<open>first\<close>, column
  \<open>second\<close>), both \<open>None\<close> in a tracker that was not reset yet.
\<close>

record vector_tracker =
  dimension :: nat
  vec_log_sum_weight :: log_num
  averages :: "real list option"
  covariance_matrix :: "real list list option"

definition VectorStatTracker_init :: "nat \<Rightarrow> vector_tracker" where
  "VectorStatTracker_init dims =
     \<lparr>dimension = dims, vec_log_sum_weight = None, averages = None, covariance_matrix = None\<rparr>"

definition vector_copy :: "vector_tracker \<Rightarrow> vector_tracker res" where
  "vector_copy t =
     (case averages t of
        None \<Rightarrow> Inl (TypeError ''not subscriptable'')
      | Some avgs \<Rightarrow>
          Inr \<lparr>dimension = dimension t, vec_log_sum_weight = vec_log_sum_weight t, averages = Some avgs,
               covariance_matrix = covariance_matrix t\<rparr>)"

definition vector_reset :: "vector_tracker \<Rightarrow> vector_tracker" where
  "vector_reset t =
     t\<lparr>averages := Some (replicate (dimension t) 0),
       covariance_matrix := Some (replicate (dimension t) (replicate (dimension t) 0))\<rparr>"

definition unit_reset :: "vector_tracker \<Rightarrow> vector_tracker" where
  "unit_reset t =
     (let t1 = vector_reset t
      in t1\<lparr>covariance_matrix := Some (map (\<lambda>i. (replicate (dimension t) 0)[i := 1]) [0..<dimension t])\<rparr>)"

text \<open>\<^verbatim>\<open>vector_value[index]\<close> for every index below the dimension.\<close>

definition components :: "nat \<Rightarrow> real list \<Rightarrow> real list res" where
  "components dims v = mapE (\<lambda>i. list_get v (int i)) [0..<dims]"

text \<open>One step of the double loop over the matrix, which is updated in place.\<close>

definition update_element ::
    "real list \<Rightarrow> real \<Rightarrow> real \<Rightarrow> real list list \<Rightarrow> nat \<times> nat \<Rightarrow> real list list res" where
  "update_element shift sample_ratio data_ratio m index =
     (case index of (second, first) \<Rightarrow>
        bindE (list_get m (int first)) (\<lambda>row.
        bindE (list_get row (int second)) (\<lambda>element.
        bindE (list_get shift (int first)) (\<lambda>s1.
        bindE (list_get shift (int second)) (\<lambda>s2.
        Inr (m[first := row[second := (element + s1 * s2 * sample_ratio) * data_ratio]]))))))"

definition index_pairs :: "nat \<Rightarrow> (nat \<times> nat) list" where
  "index_pairs dims = concat (map (\<lambda>second. map (\<lambda>first. (second, first)) [0..<dims]) [0..<dims])"

definition add_get_shift :: "vector_tracker \<Rightarrow> real list \<Rightarrow> real \<Rightarrow> (real list \<times> vector_tracker) res" where
  "add_get_shift t vector_value log_weight =
     bindE (case averages t of
              None \<Rightarrow> Inr (replicate (dimension t) 0)
            | Some old \<Rightarrow>
                if old = [] then Inr (replicate (dimension t) 0)
                else mapE (\<lambda>i. bindE (list_get vector_value (int i)) (\<lambda>v.
                       bindE (list_get old (int i)) (\<lambda>a. Inr (v - a)))) [0..<dimension t]) (\<lambda>shift.
     case vec_log_sum_weight t of
       None \<Rightarrow>
         bindE (components (dimension t) vector_value) (\<lambda>vs.
           Inr (shift, t\<lparr>vec_log_sum_weight := Some log_weight, averages := Some vs\<rparr>))
     | Some old_lsw \<Rightarrow>
         (let new_lsw = log_sum old_lsw log_weight;
              data_ratio = exp (old_lsw - new_lsw);
              sample_ratio = exp (log_weight - new_lsw)
          in bindE (case averages t of
                      None \<Rightarrow> if dimension t = 0 then Inr [] else Inl (TypeError ''not subscriptable'')
                    | Some old \<Rightarrow>
                        mapE (\<lambda>i. bindE (list_get old (int i)) (\<lambda>a.
                          bindE (list_get shift (int i)) (\<lambda>s. Inr (a + s * sample_ratio))))
                          [0..<dimension t]) (\<lambda>new_averages.
             bindE (case covariance_matrix t of
                      None \<Rightarrow> if dimension t = 0 then Inr None else Inl (TypeError ''not subscriptable'')
                    | Some m \<Rightarrow>
                        bindE (foldE (update_element shift sample_ratio data_ratio) m
                                 (index_pairs (dimension t))) (\<lambda>m'. Inr (Some m'))) (\<lambda>new_matrix.
             Inr (shift, t\<lparr>vec_log_sum_weight := Some new_lsw, averages := Some new_averages,
                          covariance_matrix := new_matrix\<rparr>)))))"

text \<open>
  The distance of the new sample from the old average; \<open>solve\<close> stands for \<open>numpy.linalg.solve\<close>
  and \<open>vdot\<close> for \<open>numpy.vdot\<close>.
\<close>

definition add_without_dominance_get_distance ::
    "(real list list option \<Rightarrow> real list \<Rightarrow> real list res) \<Rightarrow> (real list \<Rightarrow> real list \<Rightarrow> real res) \<Rightarrow>
     vector_tracker \<Rightarrow> real list \<Rightarrow> real \<Rightarrow> (real \<times> vector_tracker) res" where
  "add_without_dominance_get_distance solve vdot t vector_value log_weight =
     (let lsw = (case vec_log_sum_weight t of
                   Some w \<Rightarrow> if w < log_weight - 1 then Some ((w + log_weight) / 2) else None
                 | None \<Rightarrow> None);
          t1 = (case lsw of None \<Rightarrow> t | Some l \<Rightarrow> t\<lparr>vec_log_sum_weight := Some l\<rparr>);
          weight = (case lsw of None \<Rightarrow> log_weight | Some l \<Rightarrow> l);
          old_metric = covariance_matrix t
      in bindE (add_get_shift t1 vector_value weight) (\<lambda>(shift, t2).
         bindE (solve old_metric shift) (\<lambda>gradient.
         bindE (vdot shift gradient) (\<lambda>distance. Inr (distance, t2)))))"

section \<open>Sums and differences\<close>

lemma exp_log_sum: "exp (log_sum a b) = exp a + exp b"
proof -
  have "exp (d + ln (1 + exp (c - d))) = exp c + exp d" for c d :: real
  proof -
    have "0 < 1 + exp (c - d)" by (simp add: add_pos_pos)
    then have "exp (d + ln (1 + exp (c - d))) = exp d * (1 + exp (c - d))" by (simp add: exp_add)
    also have "\<dots> = exp c + exp d" by (simp add: exp_diff field_simps)
    finally show ?thesis .
  qed
  then show ?thesis by (simp add: log_sum_def)
qed

text \<open>
  The functions compute with logarithms what their names say: \<open>log_plus\<close> is the logarithm of
  the sum, \<open>log_minus\<close> the logarithm of the difference, and the latter raises exactly when the
  difference is not positive.
\<close>

theorem log_arithmetic:
  "safe_exp (log_plus a b) = safe_exp a + safe_exp b \<and>
   (case log_minus a b of
      Inr c \<Rightarrow> 0 < safe_exp a - safe_exp b \<and> safe_exp c = safe_exp a - safe_exp b
    | Inl e \<Rightarrow> safe_exp a \<le> safe_exp b \<and> (\<exists>m. e = RuntimeError m))"
proof
  show "safe_exp (log_plus a b) = safe_exp a + safe_exp b"
    by (cases a; cases b) (simp_all add: exp_log_sum)
  show "case log_minus a b of
     Inr c \<Rightarrow> 0 < safe_exp a - safe_exp b \<and> safe_exp c = safe_exp a - safe_exp b
   | Inl e \<Rightarrow> safe_exp a \<le> safe_exp b \<and> (\<exists>m. e = RuntimeError m)"
  proof (cases a)
    case (Some x)
    show ?thesis
    proof (cases b)
      case (Some y)
      have "exp x * (1 - exp (y - x)) = exp x - exp y" by (simp add: exp_diff field_simps)
      then have "exp (x + ln (1 - exp (y - x))) = exp x - exp y" if "y < x"
        using that by (simp add: exp_add)
      with Some \<open>a = Some x\<close> show ?thesis by (auto simp: Let_def)
    qed (simp add: Some)
  qed (cases b; simp)
qed

section \<open>Weighted averages\<close>

text \<open>
  Samples are pairs of values with the logarithm of a weight; the reference definitions of their
  total weight, average and covariance.
\<close>

type_synonym sample2 = "real \<times> real \<times> real"

definition weight_of :: "sample2 list \<Rightarrow> real" where
  "weight_of xs = (\<Sum>(x, y, lw)\<leftarrow>xs. exp lw)"

definition mean1 :: "sample2 list \<Rightarrow> real" where
  "mean1 xs = (\<Sum>(x, y, lw)\<leftarrow>xs. exp lw * x) / weight_of xs"

definition mean2 :: "sample2 list \<Rightarrow> real" where
  "mean2 xs = (\<Sum>(x, y, lw)\<leftarrow>xs. exp lw * y) / weight_of xs"

definition covariance_of :: "sample2 list \<Rightarrow> real" where
  "covariance_of xs =
     (\<Sum>(x, y, lw)\<leftarrow>xs. exp lw * (x - mean1 xs) * (y - mean2 xs)) / weight_of xs"

lemma weight_of_nonneg: "0 \<le> weight_of xs"
  by (induction xs) (auto simp: weight_of_def)

lemma weight_of_pos: "xs \<noteq> [] \<Longrightarrow> 0 < weight_of xs"
proof (induction xs)
  case (Cons s xs)
  obtain x y lw where "s = (x, y, lw)" by (cases s)
  with weight_of_nonneg [of xs] show ?case by (simp add: weight_of_def add_pos_nonneg)
qed simp

lemma central_sum:
  "(\<Sum>(x, y, lw)\<leftarrow>xs. exp lw * (x - a) * (y - b)) =
     (\<Sum>(x, y, lw)\<leftarrow>xs. exp lw * x * y) - b * (\<Sum>(x, y, lw)\<leftarrow>xs. exp lw * x)
     - a * (\<Sum>(x, y, lw)\<leftarrow>xs. exp lw * y) + a * b * weight_of xs"
  by (induction xs) (auto simp: weight_of_def algebra_simps)

lemma covariance_moments:
  assumes "xs \<noteq> []"
  shows "covariance_of xs =
    (\<Sum>(x, y, lw)\<leftarrow>xs. exp lw * x * y) / weight_of xs - mean1 xs * mean2 xs"
proof -
  let ?W = "weight_of xs"
  have W: "?W \<noteq> 0" using weight_of_pos [OF assms] by simp
  have "(\<Sum>(x, y, lw)\<leftarrow>xs. exp lw * x) = mean1 xs * ?W"
    "(\<Sum>(x, y, lw)\<leftarrow>xs. exp lw * y) = mean2 xs * ?W"
    using W by (simp_all add: mean1_def mean2_def)
  then show ?thesis
    unfolding covariance_of_def central_sum using W by (simp add: field_simps)
qed

text \<open>One more sample: the incremental formulas of the trackers.\<close>

lemma tracker_step:
  assumes "xs \<noteq> []"
    and "W = weight_of xs" and "w = exp lw" and "zs = xs @ [(x, y, lw)]"
  shows "weight_of zs = W + w"
    and "mean1 zs = mean1 xs + (x - mean1 xs) * (w / (W + w))"
    and "mean2 zs = mean2 xs + (y - mean2 xs) * (w / (W + w))"
    and "covariance_of zs =
      (covariance_of xs + (x - mean1 xs) * (y - mean2 xs) * (w / (W + w))) * (W / (W + w))"
proof -
  note W_def = assms(2) and w_def = assms(3) and zs_def = assms(4)
  have W: "0 < W" using weight_of_pos [OF assms(1)] by (simp add: W_def)
  have w: "0 < w" by (simp add: w_def)
  show weight: "weight_of zs = W + w" by (simp add: zs_def weight_of_def W_def w_def)
  have sums: "(\<Sum>(x, y, lw)\<leftarrow>xs. exp lw * x) = mean1 xs * W"
    "(\<Sum>(x, y, lw)\<leftarrow>xs. exp lw * y) = mean2 xs * W"
    using W by (simp_all add: mean1_def mean2_def W_def)
  show m1: "mean1 zs = mean1 xs + (x - mean1 xs) * (w / (W + w))"
  proof -
    have "mean1 zs = (mean1 xs * W + w * x) / (W + w)"
      unfolding mean1_def [of zs] weight by (simp add: zs_def sums w_def)
    then show ?thesis using W w by (simp add: field_simps)
  qed
  show m2: "mean2 zs = mean2 xs + (y - mean2 xs) * (w / (W + w))"
  proof -
    have "mean2 zs = (mean2 xs * W + w * y) / (W + w)"
      unfolding mean2_def [of zs] weight by (simp add: zs_def sums w_def)
    then show ?thesis using W w by (simp add: field_simps)
  qed
  define M where "M = (\<Sum>(x, y, lw)\<leftarrow>xs. exp lw * x * y)"
  have old: "covariance_of xs = M / W - mean1 xs * mean2 xs"
    using covariance_moments [OF assms(1)] by (simp add: M_def W_def)
  have "covariance_of zs = (M + w * x * y) / (W + w) - mean1 zs * mean2 zs"
    using covariance_moments [of zs] weight by (simp add: zs_def M_def w_def)
  also have "\<dots> = (M / W - mean1 xs * mean2 xs + (x - mean1 xs) * (y - mean2 xs) * (w / (W + w))) * (W / (W + w))"
    unfolding m1 m2 using W w by (simp add: divide_simps) (simp add: algebra_simps)
  finally show "covariance_of zs =
      (covariance_of xs + (x - mean1 xs) * (y - mean2 xs) * (w / (W + w))) * (W / (W + w))"
    by (simp add: old)
qed

section \<open>Scalar trackers are exact\<close>

type_synonym sample1 = "real \<times> real"

definition total_weight :: "sample1 list \<Rightarrow> real" where
  "total_weight xs = (\<Sum>(x, lw)\<leftarrow>xs. exp lw)"

definition weighted_average :: "sample1 list \<Rightarrow> real" where
  "weighted_average xs = (\<Sum>(x, lw)\<leftarrow>xs. exp lw * x) / total_weight xs"

definition weighted_variance :: "sample1 list \<Rightarrow> real" where
  "weighted_variance xs = (\<Sum>(x, lw)\<leftarrow>xs. exp lw * (x - weighted_average xs)\<^sup>2) / total_weight xs"

definition twice :: "sample1 \<Rightarrow> sample2" where
  "twice s = (case s of (x, lw) \<Rightarrow> (x, x, lw))"

lemma twice_facts:
  "total_weight xs = weight_of (map twice xs)"
  "weighted_average xs = mean1 (map twice xs)" "weighted_average xs = mean2 (map twice xs)"
  "weighted_variance xs = covariance_of (map twice xs)"
proof -
  have sums: "(\<Sum>s\<leftarrow>xs. case twice s of (x, y, lw) \<Rightarrow> f x y lw) = (\<Sum>(x, lw)\<leftarrow>xs. f x x lw)" for f :: "real \<Rightarrow> real \<Rightarrow> real \<Rightarrow> real"
    by (induction xs) (auto simp: twice_def)
  show w: "total_weight xs = weight_of (map twice xs)"
    by (simp add: total_weight_def weight_of_def comp_def sums)
  show m1: "weighted_average xs = mean1 (map twice xs)"
    by (simp add: weighted_average_def mean1_def comp_def sums w)
  show m2: "weighted_average xs = mean2 (map twice xs)"
    by (simp add: weighted_average_def mean2_def comp_def sums w)
  show "weighted_variance xs = covariance_of (map twice xs)"
    unfolding weighted_variance_def covariance_of_def m1 [symmetric] m2 [symmetric] w
    by (simp add: comp_def sums power2_eq_square mult.assoc)
qed

definition add_samples :: "scalar_tracker \<Rightarrow> sample1 list \<Rightarrow> scalar_tracker" where
  "add_samples t xs = foldl (\<lambda>t (x, lw). scalar_add t x lw) t xs"

definition tracks :: "scalar_tracker \<Rightarrow> sample1 list \<Rightarrow> bool" where
  "tracks t xs \<longleftrightarrow>
     (\<exists>l. log_sum_weight t = Some l \<and> exp l = total_weight xs) \<and>
     average t = weighted_average xs \<and> safe_exp (log_variance t) = weighted_variance xs"

lemma tracks_first: "tracks (scalar_add ScalarStatTracker_init x lw) [(x, lw)]"
  by (simp add: tracks_def scalar_add_def ScalarStatTracker_init_def total_weight_def
      weighted_average_def weighted_variance_def)

lemma log_square:
  fixes s :: real
  assumes "s \<noteq> 0"
  shows "exp (2 * ln \<bar>s\<bar> + r) = s\<^sup>2 * exp r"
proof -
  have "exp (2 * ln \<bar>s\<bar>) = exp (ln \<bar>s\<bar>) * exp (ln \<bar>s\<bar>)" by (simp flip: exp_add)
  also have "\<dots> = s\<^sup>2" using assms by (simp add: power2_eq_square)
  finally show ?thesis by (simp add: exp_add)
qed

lemma tracks_step:
  assumes "tracks t xs" and "xs \<noteq> []"
  shows "tracks (scalar_add t x lw) (xs @ [(x, lw)])"
proof -
  let ?W = "total_weight xs" and ?w = "exp lw" and ?m = "weighted_average xs"
  obtain l where l: "log_sum_weight t = Some l" "exp l = ?W" using assms(1) by (auto simp: tracks_def)
  define n where "n = log_sum l lw"
  have n: "exp n = ?W + ?w" by (simp add: n_def exp_log_sum l)
  have ratio: "exp (lw - n) = ?w / (?W + ?w)" "exp (l - n) = ?W / (?W + ?w)"
    by (simp_all add: exp_diff n l)
  define v where "v = (if \<bar>x - average t\<bar> > 0
    then log_plus (log_variance t) (Some (2 * ln \<bar>x - average t\<bar> + (lw - n))) else log_variance t)"
  have "safe_exp v = safe_exp (log_variance t) + (x - average t)\<^sup>2 * exp (lw - n)"
  proof (cases "x = average t")
    case False
    then have "safe_exp v = safe_exp (log_variance t) + exp (2 * ln \<bar>x - average t\<bar> + (lw - n))"
      by (cases "log_variance t") (simp_all add: v_def exp_log_sum)
    with False show ?thesis by (simp add: log_square)
  qed (simp add: v_def)
  then have v: "safe_exp v = weighted_variance xs + (x - ?m)\<^sup>2 * (?w / (?W + ?w))"
    using assms(1) by (simp add: tracks_def ratio)
  have "safe_exp (map_option (\<lambda>v. v + (l - n)) v) = safe_exp v * exp (l - n)"
    by (cases v) (simp_all add: exp_add)
  then have var: "safe_exp (map_option (\<lambda>v. v + (l - n)) v) =
      (weighted_variance xs + (x - ?m)\<^sup>2 * (?w / (?W + ?w))) * (?W / (?W + ?w))"
    by (simp add: v ratio)
  have t': "scalar_add t x lw = \<lparr>log_sum_weight = Some n, average = ?m + (x - ?m) * (?w / (?W + ?w)),
      log_variance = map_option (\<lambda>v. v + (l - n)) v\<rparr>"
    using assms(1) unfolding scalar_add_def l(1) option.case Let_def n_def [symmetric] v_def [symmetric]
    by (simp add: tracks_def ratio map_option_case)
  note step = tracker_step [of "map twice xs" ?W ?w lw "map twice (xs @ [(x, lw)])" x x]
  from assms(2) have "weight_of (map twice (xs @ [(x, lw)])) = ?W + ?w"
    "mean1 (map twice (xs @ [(x, lw)])) = ?m + (x - ?m) * (?w / (?W + ?w))"
    "covariance_of (map twice (xs @ [(x, lw)])) =
      (weighted_variance xs + (x - ?m) * (x - ?m) * (?w / (?W + ?w))) * (?W / (?W + ?w))"
    using step by (simp_all add: twice_facts twice_def flip: twice_facts(3))
  then show ?thesis
    by (simp add: tracks_def t' n var twice_facts(1) twice_facts(2) [of "xs @ _"] twice_facts(4) [of "xs @ _"]
        power2_eq_square)
qed

lemma add_samples_snoc: "add_samples t (xs @ [(x, lw)]) = scalar_add (add_samples t xs) x lw"
  by (simp add: add_samples_def)

lemma add_samples_tracks: "xs \<noteq> [] \<Longrightarrow> tracks (add_samples ScalarStatTracker_init xs) xs"
proof (induction xs rule: rev_induct)
  case (snoc s xs)
  obtain x lw where s: "s = (x, lw)" by (cases s)
  show ?case
  proof (cases "xs = []")
    case True
    then show ?thesis using tracks_first [of x lw] by (simp add: s add_samples_def)
  next
    case False
    with snoc tracks_step show ?thesis by (simp add: s add_samples_snoc)
  qed
qed simp

text \<open>
  C11. The one-pass tracker with logarithms is exact: after any non-empty sequence of samples
  the exponentials of the tracked sum of weights and variance, and the tracked average, are the
  total weight, the weighted average and the weighted population variance of the samples.
\<close>

theorem scalar_tracker_exact:
  assumes "xs \<noteq> []"
  shows "safe_exp (log_sum_weight (add_samples ScalarStatTracker_init xs)) = total_weight xs \<and>
    average (add_samples ScalarStatTracker_init xs) = weighted_average xs \<and>
    safe_exp (log_variance (add_samples ScalarStatTracker_init xs)) = weighted_variance xs"
  using add_samples_tracks [OF assms] by (auto simp: tracks_def)

theorem scalar_tracker_exact_witness:
  "average (add_samples ScalarStatTracker_init [(1, 0), (3, 0)]) = 2 \<and>
   safe_exp (log_variance (add_samples ScalarStatTracker_init [(1, 0), (3, 0)])) = 1"
  using scalar_tracker_exact [of "[(1, 0), (3, 0)]"]
  by (simp add: weighted_average_def weighted_variance_def total_weight_def)

section \<open>Secondary statistics\<close>

definition add_dual_samples :: "dual_tracker \<Rightarrow> sample1 list \<Rightarrow> dual_tracker" where
  "add_dual_samples t xs = foldl (\<lambda>t (x, lw). dual_add t x lw) t xs"

text \<open>The position of the weightiest sample, the latest one if tied.\<close>

definition is_weightiest :: "sample1 list \<Rightarrow> nat \<Rightarrow> bool" where
  "is_weightiest xs i \<longleftrightarrow>
     i < length xs \<and> (\<forall>j<length xs. snd (xs ! j) \<le> snd (xs ! i) \<and> (i < j \<longrightarrow> snd (xs ! j) < snd (xs ! i)))"

lemma scalar_copy_id [simp]: "scalar_copy t = t"
  by (simp add: scalar_copy_def)

lemma is_weightiest_snoc:
  assumes "is_weightiest xs i"
  shows "snd s < snd (xs ! i) \<Longrightarrow> is_weightiest (xs @ [s]) i"
    and "snd (xs ! i) \<le> snd s \<Longrightarrow> is_weightiest (xs @ [s]) (length xs)"
proof -
  show "is_weightiest (xs @ [s]) i" if "snd s < snd (xs ! i)"
    using assms that by (auto simp: is_weightiest_def nth_append less_Suc_eq)
  show "is_weightiest (xs @ [s]) (length xs)" if "snd (xs ! i) \<le> snd s"
    using assms that by (fastforce simp: is_weightiest_def nth_append less_Suc_eq)
qed

definition dual_inv :: "sample1 list \<Rightarrow> nat \<Rightarrow> dual_tracker \<Rightarrow> bool" where
  "dual_inv xs i t \<longleftrightarrow> is_weightiest xs i \<and> max_log_weight t = Some (snd (xs ! i)) \<and>
     primary t = add_samples ScalarStatTracker_init xs \<and>
     secondary t = add_samples ScalarStatTracker_init (take i xs @ drop (Suc i) xs)"

lemma dual_inv_step:
  assumes "dual_inv xs i t"
  shows "\<exists>i'. dual_inv (xs @ [(x, lw)]) i' (dual_add t x lw)"
proof (cases "snd (xs ! i) \<le> lw")
  case True
  with assms have "dual_inv (xs @ [(x, lw)]) (length xs) (dual_add t x lw)"
    using is_weightiest_snoc(2) [of xs i "(x, lw)"]
    by (simp add: dual_inv_def dual_add_def add_samples_snoc)
  then show ?thesis ..
next
  case False
  have i: "i < length xs" using assms by (simp add: dual_inv_def is_weightiest_def)
  then have "take i (xs @ [(x, lw)]) @ drop (Suc i) (xs @ [(x, lw)]) =
      (take i xs @ drop (Suc i) xs) @ [(x, lw)]" by simp
  moreover have "(xs @ [(x, lw)]) ! i = xs ! i" using i by (simp add: nth_append)
  moreover have "add_samples ScalarStatTracker_init ((take i xs @ drop (Suc i) xs) @ [(x, lw)]) =
      scalar_add (add_samples ScalarStatTracker_init (take i xs @ drop (Suc i) xs)) x lw"
    by (rule add_samples_snoc)
  ultimately have "dual_inv (xs @ [(x, lw)]) i (dual_add t x lw)"
    using assms False is_weightiest_snoc(1) [of xs i "(x, lw)"]
    unfolding dual_inv_def by (simp only: add_samples_snoc) (simp add: dual_add_def)
  then show ?thesis ..
qed

lemma dual_inv_reached:
  "xs \<noteq> [] \<Longrightarrow> \<exists>i. dual_inv xs i (add_dual_samples ScalarDualStatTracker_init xs)"
proof (induction xs rule: rev_induct)
  case (snoc s xs)
  obtain x lw where s: "s = (x, lw)" by (cases s)
  show ?case
  proof (cases "xs = []")
    case True
    then have "dual_inv (xs @ [s]) 0 (add_dual_samples ScalarDualStatTracker_init (xs @ [s]))"
      by (simp add: s dual_inv_def is_weightiest_def add_dual_samples_def dual_add_def
          ScalarDualStatTracker_init_def add_samples_def)
    then show ?thesis ..
  next
    case False
    with snoc.IH obtain i where "dual_inv xs i (add_dual_samples ScalarDualStatTracker_init xs)" by blast
    from dual_inv_step [OF this, of x lw] show ?thesis by (simp add: s add_dual_samples_def)
  qed
qed simp

text \<open>
  C13. The dual tracker keeps the statistics of all samples, and as secondary ones those of all
  samples but the weightiest (the latest one if tied), as if that sample had never been added.
\<close>

theorem dual_tracker_exact:
  assumes "xs \<noteq> []"
  shows "\<exists>i. is_weightiest xs i \<and>
    primary (add_dual_samples ScalarDualStatTracker_init xs) = add_samples ScalarStatTracker_init xs \<and>
    secondary (add_dual_samples ScalarDualStatTracker_init xs) =
      add_samples ScalarStatTracker_init (take i xs @ drop (Suc i) xs)"
  using dual_inv_reached [OF assms] by (auto simp: dual_inv_def)

theorem dual_tracker_exact_witness:
  "secondary (add_dual_samples ScalarDualStatTracker_init [(1, 0), (3, 1), (5, 0)]) =
     add_samples ScalarStatTracker_init [(1, 0), (5, 0)]"
proof -
  let ?xs = "[(1, 0), (3, 1), (5, 0)] :: sample1 list"
  have "?xs \<noteq> []" by simp
  from dual_tracker_exact [OF this] obtain i where i: "is_weightiest ?xs i"
    and sec: "secondary (add_dual_samples ScalarDualStatTracker_init ?xs) =
      add_samples ScalarStatTracker_init (take i ?xs @ drop (Suc i) ?xs)" by blast
  from i have "i < length ?xs" "1 < length ?xs \<longrightarrow> snd (?xs ! 1) \<le> snd (?xs ! i)"
    unfolding is_weightiest_def by blast+
  then have "i = 1" by (auto simp: less_Suc_eq)
  with sec show ?thesis by simp
qed

section \<open>Vector trackers are exact\<close>

definition square :: "nat \<Rightarrow> real list list \<Rightarrow> bool" where
  "square n m \<longleftrightarrow> length m = n \<and> (\<forall>row\<in>set m. length row = n)"

lemma square_entry: "square n m \<Longrightarrow> i < n \<Longrightarrow> length (m ! i) = n"
  by (simp add: square_def)

lemma update_element_run:
  assumes "square n m" and "length shift = n" and "a < n" and "b < n"
  shows "\<exists>m'. update_element shift r q m (b, a) = Inr m' \<and> square n m' \<and>
    (\<forall>i<n. \<forall>j<n. m' ! i ! j =
       (if i = a \<and> j = b then (m ! i ! j + shift ! i * shift ! j * r) * q else m ! i ! j))"
proof -
  have len: "length m = n" "length (m ! a) = n" using assms square_entry by (auto simp: square_def)
  let ?m = "m[a := (m ! a)[b := (m ! a ! b + shift ! a * shift ! b * r) * q]]"
  have "update_element shift r q m (b, a) = Inr ?m"
    using assms len by (simp add: update_element_def list_get_nat)
  moreover have "square n ?m" using assms(1) len by (auto simp: square_def dest!: set_update_subset_insert [THEN subsetD])
  ultimately show ?thesis using assms len by (auto simp: nth_list_update)
qed

lemma update_elements_run:
  assumes "square n m" and "length shift = n" and "distinct ps" and "\<forall>(b, a)\<in>set ps. a < n \<and> b < n"
  shows "\<exists>m'. foldE (update_element shift r q) m ps = Inr m' \<and> square n m' \<and>
    (\<forall>i<n. \<forall>j<n. m' ! i ! j =
       (if (j, i) \<in> set ps then (m ! i ! j + shift ! i * shift ! j * r) * q else m ! i ! j))"
  using assms
proof (induction ps arbitrary: m)
  case (Cons p ps)
  obtain b a where p: "p = (b, a)" by (cases p)
  obtain m1 where m1: "update_element shift r q m p = Inr m1" "square n m1"
    and e1: "\<forall>i<n. \<forall>j<n. m1 ! i ! j =
      (if i = a \<and> j = b then (m ! i ! j + shift ! i * shift ! j * r) * q else m ! i ! j)"
    using update_element_run [of n m shift a b r q] Cons.prems p by auto
  obtain m2 where m2: "foldE (update_element shift r q) m1 ps = Inr m2" "square n m2"
    and e2: "\<forall>i<n. \<forall>j<n. m2 ! i ! j =
      (if (j, i) \<in> set ps then (m1 ! i ! j + shift ! i * shift ! j * r) * q else m1 ! i ! j)"
    using Cons.IH [OF m1(2)] Cons.prems by auto
  have "(b, a) \<notin> set ps" using Cons.prems p by simp
  with m1 m2 e1 e2 show ?case by (auto simp: p)
qed simp

lemma index_pairs_facts:
  "distinct (index_pairs n)" "set (index_pairs n) = {0..<n} \<times> {0..<n}"
proof -
  have "index_pairs n = List.product [0..<n] [0..<n]"
    by (simp add: index_pairs_def product_concat_map)
  then show "distinct (index_pairs n)" "set (index_pairs n) = {0..<n} \<times> {0..<n}"
    by (simp_all add: distinct_product)
qed

lemma square_eqI:
  assumes "square n m" and "\<forall>i<n. \<forall>j<n. m ! i ! j = f i j"
  shows "m = map (\<lambda>i. map (\<lambda>j. f i j) [0..<n]) [0..<n]"
  using assms by (auto intro!: nth_equalityI simp: square_def)

type_synonym vec_sample = "real list \<times> real"

definition pairs :: "nat \<Rightarrow> nat \<Rightarrow> vec_sample list \<Rightarrow> sample2 list" where
  "pairs i j xs = map (\<lambda>(v, lw). (v ! i, v ! j, lw)) xs"

lemma pairs_facts:
  "weight_of (pairs i j xs) = (\<Sum>(v, lw)\<leftarrow>xs. exp lw)"
  "mean1 (pairs i j xs) = mean1 (pairs i i xs)" "mean2 (pairs i j xs) = mean1 (pairs j j xs)"
  "pairs i j (xs @ [(v, lw)]) = pairs i j xs @ [(v ! i, v ! j, lw)]" "pairs i j xs = [] \<longleftrightarrow> xs = []"
proof -
  have sums: "(\<Sum>s\<leftarrow>pairs i j xs. case s of (x, y, lw) \<Rightarrow> f x y lw) = (\<Sum>(v, lw)\<leftarrow>xs. f (v ! i) (v ! j) lw)"
    for i j and f :: "real \<Rightarrow> real \<Rightarrow> real \<Rightarrow> real"
    by (induction xs) (auto simp: pairs_def)
  show w: "weight_of (pairs i j xs) = (\<Sum>(v, lw)\<leftarrow>xs. exp lw)" for i j
    by (simp add: weight_of_def sums)
  show "mean1 (pairs i j xs) = mean1 (pairs i i xs)" "mean2 (pairs i j xs) = mean1 (pairs j j xs)"
    by (simp_all add: mean1_def mean2_def sums w)
qed (simp_all add: pairs_def)

definition vec_inv :: "nat \<Rightarrow> vec_sample list \<Rightarrow> vector_tracker \<Rightarrow> bool" where
  "vec_inv n xs t \<longleftrightarrow> dimension t = n \<and>
     (\<exists>l. vec_log_sum_weight t = Some l \<and> exp l = (\<Sum>(v, lw)\<leftarrow>xs. exp lw)) \<and>
     averages t = Some (map (\<lambda>i. mean1 (pairs i i xs)) [0..<n]) \<and>
     covariance_matrix t = Some (map (\<lambda>i. map (\<lambda>j. covariance_of (pairs i j xs)) [0..<n]) [0..<n])"

lemma vec_inv_first:
  assumes "length v = n"
  shows "\<exists>s t. add_get_shift (vector_reset (VectorStatTracker_init n)) v lw = Inr (s, t) \<and> vec_inv n [(v, lw)] t"
proof -
  have single: "mean1 [(x, y, lw)] = x" "covariance_of [(x, y, lw)] = 0" for x y
    by (simp_all add: mean1_def mean2_def covariance_of_def weight_of_def)
  have "mapE (\<lambda>i. list_get v (int i)) [0..<n] = Inr (map (\<lambda>i. v ! i) [0..<n])"
    using assms by (intro mapE_total) (simp add: list_get_nat)
  moreover have "mapE (\<lambda>i. bindE (list_get v (int i)) (\<lambda>x. bindE (list_get (replicate n 0) (int i))
      (\<lambda>a. Inr (x - a)))) [0..<n] = Inr (map (\<lambda>i. v ! i) [0..<n])"
    using assms by (intro mapE_total) (simp add: list_get_nat)
  ultimately show ?thesis
    by (auto simp: add_get_shift_def vector_reset_def VectorStatTracker_init_def components_def vec_inv_def
        pairs_def single map_replicate_const)
qed

lemma vec_inv_step:
  assumes inv: "vec_inv n xs t" and xs: "xs \<noteq> []" and v: "length v = n"
  shows "\<exists>s t'. add_get_shift t v lw = Inr (s, t') \<and> vec_inv n (xs @ [(v, lw)]) t'"
proof -
  let ?m = "\<lambda>i. mean1 (pairs i i xs)" and ?W = "\<Sum>(v, lw)\<leftarrow>xs. exp lw" and ?w = "exp lw"
  let ?cov = "map (\<lambda>i. map (\<lambda>j. covariance_of (pairs i j xs)) [0..<n]) [0..<n]"
  obtain l where t: "dimension t = n" "vec_log_sum_weight t = Some l" "averages t = Some (map ?m [0..<n])"
    "covariance_matrix t = Some ?cov" and l: "exp l = ?W"
    using inv by (auto simp: vec_inv_def)
  define k where "k = log_sum l lw"
  have k: "exp k = ?W + ?w" by (simp add: k_def exp_log_sum l)
  define shift where "shift = map (\<lambda>i. v ! i - ?m i) [0..<n]"
  define r where "r = exp (lw - k)"
  define q where "q = exp (l - k)"
  have rq: "r = ?w / (?W + ?w)" "q = ?W / (?W + ?w)" by (simp_all add: r_def q_def exp_diff k l)
  have shifts: "(if map ?m [0..<n] = [] then Inr (replicate n 0)
      else mapE (\<lambda>i. bindE (list_get v (int i)) (\<lambda>x. bindE (list_get (map ?m [0..<n]) (int i))
        (\<lambda>a. Inr (x - a)))) [0..<n]) = (Inr shift :: real list res)"
    using v by (auto simp: shift_def list_get_nat intro!: mapE_total)
  have avgs: "mapE (\<lambda>i. bindE (list_get (map ?m [0..<n]) (int i)) (\<lambda>a. bindE (list_get shift (int i))
      (\<lambda>s. Inr (a + s * r)))) [0..<n] = Inr (map (\<lambda>i. ?m i + (v ! i - ?m i) * r) [0..<n])"
    by (intro mapE_total) (simp add: shift_def list_get_nat)
  have "square n ?cov" "length shift = n" by (auto simp: square_def shift_def)
  then obtain m where m: "foldE (update_element shift r q) ?cov (index_pairs n) = Inr m" "square n m"
    "\<forall>i<n. \<forall>j<n. m ! i ! j = (?cov ! i ! j + shift ! i * shift ! j * r) * q"
    using update_elements_run [of n ?cov shift "index_pairs n" r q] by (auto simp: index_pairs_facts)
  from square_eqI [OF m(2), of "\<lambda>i j. (?cov ! i ! j + shift ! i * shift ! j * r) * q"] m(3)
  have mat: "m = map (\<lambda>i. map (\<lambda>j. (?cov ! i ! j + shift ! i * shift ! j * r) * q) [0..<n]) [0..<n]"
    by blast
  have run: "add_get_shift t v lw = Inr (shift, t\<lparr>vec_log_sum_weight := Some k,
      averages := Some (map (\<lambda>i. ?m i + (v ! i - ?m i) * r) [0..<n]), covariance_matrix := Some m\<rparr>)"
    unfolding add_get_shift_def t option.case shifts bindE_simps Let_def
      k_def [symmetric] r_def [symmetric] q_def [symmetric] avgs m(1) ..
  have step: "mean1 (pairs i i (xs @ [(v, lw)])) = ?m i + (v ! i - ?m i) * r"
    "covariance_of (pairs i j (xs @ [(v, lw)])) =
       (covariance_of (pairs i j xs) + (v ! i - ?m i) * (v ! j - ?m j) * r) * q" for i j
    using xs tracker_step(2) [of "pairs i i xs" ?W ?w lw _ "v ! i" "v ! i"]
      tracker_step(4) [of "pairs i j xs" ?W ?w lw _ "v ! i" "v ! j"]
    unfolding rq pairs_facts(4) by (simp_all add: pairs_facts(1,5) pairs_facts(2,3) [of i j])
  have "vec_inv n (xs @ [(v, lw)]) (t\<lparr>vec_log_sum_weight := Some k,
      averages := Some (map (\<lambda>i. ?m i + (v ! i - ?m i) * r) [0..<n]), covariance_matrix := Some m\<rparr>)"
    by (simp add: vec_inv_def t k step mat shift_def)
  with run show ?thesis by blast
qed

definition add_vectors :: "vector_tracker \<Rightarrow> vec_sample list \<Rightarrow> vector_tracker res" where
  "add_vectors t xs = foldE (\<lambda>t (v, lw). bindE (add_get_shift t v lw) (\<lambda>(s, t'). Inr t')) t xs"

lemma add_vectors_inv:
  "xs \<noteq> [] \<Longrightarrow> \<forall>(v, lw)\<in>set xs. length v = n \<Longrightarrow>
     \<exists>t. add_vectors (vector_reset (VectorStatTracker_init n)) xs = Inr t \<and> vec_inv n xs t"
proof (induction xs rule: rev_induct)
  case (snoc s xs)
  obtain v lw where s: "s = (v, lw)" by (cases s)
  have v: "length v = n" using snoc.prems s by simp
  show ?case
  proof (cases "xs = []")
    case True
    obtain u t where "add_get_shift (vector_reset (VectorStatTracker_init n)) v lw = Inr (u, t)"
      "vec_inv n [(v, lw)] t" using vec_inv_first [OF v, of lw] by blast
    with True show ?thesis by (simp add: s add_vectors_def)
  next
    case False
    with snoc obtain t where "add_vectors (vector_reset (VectorStatTracker_init n)) xs = Inr t" "vec_inv n xs t"
      by auto
    moreover from vec_inv_step [OF this(2) False v, of lw] obtain u t' where
      "add_get_shift t v lw = Inr (u, t')" "vec_inv n (xs @ [(v, lw)]) t'" by blast
    ultimately show ?thesis by (auto simp: s add_vectors_def foldE_append)
  qed
qed simp

text \<open>
  C12. The vector tracker is exact: starting from a tracker that was just constructed and then reset,
  after any non-empty sequence of samples with the right number of components it has not raised, every average is the weighted
  average of the component, and every matrix element is the weighted covariance of its two
  components.
\<close>

theorem vector_tracker_exact:
  assumes "xs \<noteq> []" and "\<forall>(v, lw)\<in>set xs. length v = n"
  shows "\<exists>t. add_vectors (vector_reset (VectorStatTracker_init n)) xs = Inr t \<and>
    averages t = Some (map (\<lambda>i. mean1 (pairs i i xs)) [0..<n]) \<and>
    covariance_matrix t = Some (map (\<lambda>i. map (\<lambda>j. covariance_of (pairs i j xs)) [0..<n]) [0..<n])"
  using add_vectors_inv [OF assms] by (auto simp: vec_inv_def)

theorem vector_tracker_exact_witness:
  "\<exists>t. add_vectors (vector_reset (VectorStatTracker_init 2)) [([1, 2], 0), ([3, 6], 0)] = Inr t \<and>
    averages t = Some [2, 4] \<and> covariance_matrix t = Some [[1, 2], [2, 4]]"
  using vector_tracker_exact [of "[([1, 2], 0), ([3, 6], 0)]" 2]
  by (simp add: pairs_def mean1_def mean2_def covariance_of_def weight_of_def upt_rec numeral_2_eq_2)

end
