(* ===== verification/Autogen.thy ===== *)
theory Autogen
  imports PyVal
begin

text \<open>
  \<open>autogen/Testcase.py\<close> and \<open>autogen/Regenerator.py\<close>: from one primary suite file the suites for
  the other test types, NICs and drivers are written, with defensive text replacements. The file
  system is a dictionary from file names to contents; a routine returns the exception or success
  with the files as they are afterwards. The list of names matching a glob pattern is an argument,
  and prints to stderr are left out.
\<close>

section \<open>Constants\<close>

text \<open>The tables of \<open>Constants.py\<close> that suite generation uses.\<close>

definition NIC_NAME_TO_CODE :: "(string, string) pydict" where
  "NIC_NAME_TO_CODE =
     [(''Cisco-VIC-1227'', ''10ge2p1vic1227''), (''Cisco-VIC-1385'', ''40ge2p1vic1385''),
      (''Intel-X520-DA2'', ''10ge2p1x520''), (''Intel-X553'', ''10ge2p1x553''),
      (''Intel-X710'', ''10ge2p1x710''), (''Intel-XL710'', ''40ge2p1xl710''),
      (''Intel-XXV710'', ''25ge2p1xxv710''), (''Intel-E810CQ'', ''100ge2p1e810cq''),
      (''Amazon-Nitro-50G'', ''50ge1p1ENA''), (''Mellanox-CX556A'', ''100ge2p1cx556a'')]"

definition NIC_NAME_TO_DRIVER :: "(string, string list) pydict" where
  "NIC_NAME_TO_DRIVER =
     [(''Cisco-VIC-1227'', [''vfio-pci'']), (''Cisco-VIC-1385'', [''vfio-pci'']),
      (''Intel-X520-DA2'', [''vfio-pci'']), (''Intel-X553'', [''vfio-pci'']),
      (''Intel-X710'', [''vfio-pci'', ''avf'']), (''Intel-XL710'', [''vfio-pci'', ''avf'']),
      (''Intel-XXV710'', [''vfio-pci'', ''avf'']), (''Intel-E810CQ'', [''vfio-pci'', ''avf'']),
      (''Amazon-Nitro-50G'', [''vfio-pci'']), (''Mellanox-CX556A'', [''rdma-core''])]"

definition NIC_DRIVER_TO_PLUGINS :: "(string, string) pydict" where
  "NIC_DRIVER_TO_PLUGINS =
     [(''vfio-pci'', ''dpdk_plugin.so''), (''avf'', ''avf_plugin.so''), (''rdma-core'', ''rdma_plugin.so'')]"

definition NIC_DRIVER_TO_TAG :: "(string, string) pydict" where
  "NIC_DRIVER_TO_TAG =
     [(''vfio-pci'', ''DRV_VFIO_PCI''), (''avf'', ''DRV_AVF''), (''rdma-core'', ''DRV_RDMA_CORE'')]"

definition NIC_DRIVER_TO_SUITE_PREFIX :: "(string, string) pydict" where
  "NIC_DRIVER_TO_SUITE_PREFIX = [(''vfio-pci'', ''''), (''avf'', ''avf-''), (''rdma-core'', ''rdma-'')]"

definition NIC_DRIVER_TO_VFS :: "(string, string) pydict" where
  "NIC_DRIVER_TO_VFS =
     [(''vfio-pci'', ''nic_vfs}= | 0''), (''avf'', ''nic_vfs}= | 1''), (''rdma-core'', ''nic_vfs}= | 0'')]"

definition DPDK_NIC_NAME_TO_DRIVER :: "(string, string list) pydict" where
  "DPDK_NIC_NAME_TO_DRIVER =
     [(''Cisco-VIC-1227'', [''vfio-pci'']), (''Cisco-VIC-1385'', [''vfio-pci'']),
      (''Intel-X520-DA2'', [''vfio-pci'']), (''Intel-X553'', [''vfio-pci'']),
      (''Intel-X710'', [''vfio-pci'']), (''Intel-XL710'', [''vfio-pci'']),
      (''Intel-XXV710'', [''vfio-pci'']), (''Intel-E810CQ'', [''vfio-pci'']),
      (''Amazon-Nitro-50G'', [''vfio-pci'']), (''Mellanox-CX556A'', [''mlx5_core''])]"

definition DPDK_NIC_DRIVER_TO_TAG :: "(string, string) pydict" where
  "DPDK_NIC_DRIVER_TO_TAG = [(''vfio-pci'', ''DRV_VFIO_PCI''), (''mlx5_core'', ''DRV_MLX5_CORE'')]"

definition DPDK_NIC_DRIVER_TO_SUITE_PREFIX :: "(string, string) pydict" where
  "DPDK_NIC_DRIVER_TO_SUITE_PREFIX = [(''vfio-pci'', ''''), (''mlx5_core'', ''mlx5-'')]"

definition FORBIDDEN_SUITE_PREFIX_LIST :: "string list" where
  "FORBIDDEN_SUITE_PREFIX_LIST =
     filter (\<lambda>p. p \<noteq> '''') (map snd NIC_DRIVER_TO_SUITE_PREFIX) @
     filter (\<lambda>p. p \<noteq> '''') (map snd DPDK_NIC_DRIVER_TO_SUITE_PREFIX)"

definition NIC_NAME_TO_CRYPTO_HW :: "(string, string) pydict" where
  "NIC_NAME_TO_CRYPTO_HW =
     [(''Intel-X553'', ''HW_C3xxx''), (''Intel-X710'', ''HW_DH895xcc''), (''Intel-XL710'', ''HW_DH895xcc'')]"

definition PERF_TYPE_TO_KEYWORD :: "(string, string) pydict" where
  "PERF_TYPE_TO_KEYWORD =
     [(''mrr'', ''Traffic should pass with maximum rate''),
      (''ndrpdr'', ''Find NDR and PDR intervals using optimized search''),
      (''soak'', ''Find critical load using PLRsearch'')]"

text \<open>The end of a documentation line: a backslash and a newline.\<close>

definition bnl :: string where
  "bnl = [CHR 92, CHR 0x0A]"

definition PERF_TYPE_TO_SUITE_DOC_VER :: "(string, string) pydict" where
  "PERF_TYPE_TO_SUITE_DOC_VER =
     [(''mrr'', ''fication:* In MaxReceivedRate tests TG sends traffic'' @ bnl @
         ''| ... | at line rate and reports total received packets over trial period.'' @ [CHR 92]),
      (''ndrpdr'', ''ication:* TG finds and reports throughput NDR (Non Drop'' @ bnl @
         ''| ... | Rate) with zero packet loss tolerance and throughput PDR (Partial Drop'' @ bnl @
         ''| ... | Rate) with non-zero packet loss tolerance (LT) expressed in percentage'' @ bnl @
         ''| ... | of packets transmitted. NDR and PDR are discovered for different'' @ bnl @
         ''| ... | Ethernet L2 frame sizes using MLRsearch library.'' @ [CHR 92]),
      (''soak'', ''fication:* TG sends traffic at dynamically computed'' @ bnl @
         ''| ... | rate as PLRsearch algorithm gathers data and improves its estimate'' @ bnl @
         ''| ... | of a rate at which a prescribed small fraction of packets'' @ bnl @
         ''| ... | would be lost. After set time, the serarch stops'' @ bnl @
         ''| ... | and the algorithm reports its current estimate.'' @ [CHR 92])]"

definition PERF_TYPE_TO_TEMPLATE_DOC_VER :: "(string, string) pydict" where
  "PERF_TYPE_TO_TEMPLATE_DOC_VER =
     [(''mrr'', ''Measure MaxReceivedRate for ${frame_size}B frames'' @ bnl @
         ''| | ... | using burst trials throughput test.'' @ [CHR 92]),
      (''ndrpdr'', ''Measure NDR and PDR values using MLRsearch algorithm.'' @ [CHR 92]),
      (''soak'', ''Estimate critical rate using PLRsearch algorithm.'' @ [CHR 92])]"

definition PROTOCOL_TO_MIN_FRAME_SIZE :: "(string, int) pydict" where
  "PROTOCOL_TO_MIN_FRAME_SIZE =
     [(''ip4'', 64), (''ip6'', 78), (''ethip4vxlan'', 114), (''dot1qip4vxlan'', 118)]"

definition MIN_FRAME_SIZE_VALUES :: "int list" where
  "MIN_FRAME_SIZE_VALUES = map snd PROTOCOL_TO_MIN_FRAME_SIZE"

section \<open>Test cases\<close>

text \<open>
  \<open>string.Template.substitute\<close>: a doubled dollar sign stands for one, an identifier after a dollar
  sign, with or without braces, is looked up.
\<close>

definition ident_start :: "char \<Rightarrow> bool" where
  "ident_start c \<longleftrightarrow> (let n = (of_char c :: nat) in n = 95 \<or> 97 \<le> n \<and> n \<le> 122 \<or> 65 \<le> n \<and> n \<le> 90)"

definition ident_char :: "char \<Rightarrow> bool" where
  "ident_char c \<longleftrightarrow> ident_start c \<or> is_digit c"

definition placeholder :: "string \<Rightarrow> (string \<times> string) option" where
  "placeholder s =
     (case s of
        [] \<Rightarrow> None
      | c # cs \<Rightarrow>
          if ident_start c then Some (takeWhile ident_char s, dropWhile ident_char s)
          else if c = CHR ''{'' \<and> cs \<noteq> [] \<and> ident_start (hd cs)
               \<and> startswith (dropWhile ident_char cs) ''}''
          then Some (takeWhile ident_char cs, tl (dropWhile ident_char cs))
          else None)"

lemma placeholder_shorter: "placeholder s = Some (k, rest) \<Longrightarrow> length rest < Suc (length s)"
proof -
  have drop_le: "length (dropWhile P xs) \<le> length xs" for P and xs :: string
    by (rule length_dropWhile_le)
  assume "placeholder s = Some (k, rest)"
  then show ?thesis
    using drop_le [of ident_char s] drop_le [of ident_char "tl s"]
    by (auto simp: placeholder_def split: list.splits if_splits)
qed

function substitute :: "(string, string) pydict \<Rightarrow> string \<Rightarrow> string res" where
  "substitute d [] = Inr []"
| "substitute d (c # cs) =
     (if c \<noteq> CHR ''$'' then bindE (substitute d cs) (\<lambda>t. Inr (c # t))
      else if cs \<noteq> [] \<and> hd cs = CHR ''$'' then bindE (substitute d (tl cs)) (\<lambda>t. Inr (CHR ''$'' # t))
      else case placeholder cs of
             None \<Rightarrow> Inl (ValueError ''Invalid placeholder in string'')
           | Some (k, rest) \<Rightarrow>
               bindE (getitem d k) (\<lambda>v. bindE (substitute d rest) (\<lambda>t. Inr (v @ t))))"
  by pat_completeness auto
termination
  by (relation "measure (\<lambda>(d, s). length s)") (auto dest: placeholder_shorter)

type_synonym testcase = string

definition generate :: "testcase \<Rightarrow> pyval \<Rightarrow> int \<Rightarrow> string res" where
  "generate template fsize phy_cores =
     bindE (case py_int fsize of
              Inr n \<Rightarrow> Inr (''${'' @ str_of_int n @ ''}'', str_of_int n @ ''B'')
            | Inl (ValueError m) \<Rightarrow> Inr (py_str fsize, ''IMIX'')
            | Inl e \<Rightarrow> Inl e) (\<lambda>(frame_num, frame_str).
     substitute
       [(''frame_num'', frame_num), (''frame_str'', frame_str),
        (''cores_num'', ''${'' @ str_of_int phy_cores @ ''}''), (''cores_str'', str_of_int phy_cores)]
       template)"

definition nl :: string where
  "nl = [CHR 0x0A]"

definition Testcase_default :: "string \<Rightarrow> testcase" where
  "Testcase_default suite_id =
     nl @ ''| ${frame_str}-${cores_str}c-'' @ suite_id @ nl @
     ''| | [Tags] | ${frame_str} | ${cores_str}C'' @ nl @
     ''| | frame_size=${frame_num} | phy_cores=${cores_num}'' @ nl"

text \<open>\<^verbatim>\<open>suite_id[:-4]\<close> and \<^verbatim>\<open>suite_id[-3:]\<close>\<close>

definition Testcase_tcp :: "string \<Rightarrow> testcase" where
  "Testcase_tcp suite_id =
     (if str_contains ''tcphttp'' suite_id then
        nl @ ''| IMIX-${cores_str}c-'' @ suite_id @ nl @
        ''| | [Tags] | ${cores_str}C'' @ nl @
        ''| | phy_cores=${cores_num}'' @ nl
      else
        nl @ ''| ${frame_str}-${cores_str}c-'' @ take (length suite_id - 4) suite_id @ ''-'' @
        drop (length suite_id - 3) suite_id @ nl @
        ''| | [Tags] | ${cores_str}C'' @ nl @ ''| | phy_cores=${cores_num}'' @ nl)"

section \<open>Names and replacements\<close>

definition replace_defensively :: "string \<Rightarrow> string \<Rightarrow> string \<Rightarrow> nat \<Rightarrow> string res" where
  "replace_defensively whole to_replace replace_with how_many =
     (if occurrences to_replace whole \<noteq> how_many then Inl (ValueError ''unexpected number of occurrences'')
      else Inr (replace_all to_replace replace_with whole))"

text \<open>\<^verbatim>\<open>s.split(sep, 1)\<close> as the part before the separator and the rest, if any; \<^verbatim>\<open>s.rsplit(sep, 1)[0]\<close>\<close>

definition split_first :: "char \<Rightarrow> string \<Rightarrow> string \<times> string option" where
  "split_first sep s =
     (takeWhile (\<lambda>c. c \<noteq> sep) s,
      case dropWhile (\<lambda>c. c \<noteq> sep) s of [] \<Rightarrow> None | c # cs \<Rightarrow> Some cs)"

definition before_last :: "char \<Rightarrow> string \<Rightarrow> string" where
  "before_last sep s =
     (if sep \<in> set s then rev (tl (dropWhile (\<lambda>c. c \<noteq> sep) (rev s))) else s)"

definition strip_prefixes :: "string list \<Rightarrow> string \<Rightarrow> string" where
  "strip_prefixes prefixes tag =
     foldl (\<lambda>t p. if startswith t p then drop (length p) t else t) tag prefixes"

definition get_iface_and_suite_ids :: "string \<Rightarrow> (string \<times> string \<times> string) res" where
  "get_iface_and_suite_ids filename =
     (case split_first CHR ''-'' filename of (first, rest) \<Rightarrow>
        bindE (if length first \<le> 4
               then (case rest of None \<Rightarrow> Inl IndexError | Some r \<Rightarrow> Inr (split_first CHR ''-'' r))
               else Inr (first, rest)) (\<lambda>(nic_code, rest).
        case rest of
          None \<Rightarrow> Inl IndexError
        | Some r \<Rightarrow>
            (let suite_id = fst (split_first CHR ''.'' r)
             in Inr (nic_code, suite_id,
                     strip_prefixes FORBIDDEN_SUITE_PREFIX_LIST (before_last CHR ''-'' suite_id)))))"

definition check_suite_tag :: "string \<Rightarrow> string \<Rightarrow> unit res" where
  "check_suite_tag suite_tag prolog =
     (if occurrences (''| '' @ suite_tag) prolog \<noteq> 1
      then Inl (ValueError ''Suite tag not found exactly once'') else Inr ())"

section \<open>Writing files\<close>

type_synonym files = "(string, string) pydict"
type_synonym files_outcome = "unit res \<times> files"

record tc_kwargs =
  kw_frame_size :: pyval
  kw_phy_cores :: int

definition emitted :: "string \<Rightarrow> string \<Rightarrow> tc_kwargs \<Rightarrow> bool" where
  "emitted iface suite_id kw \<longleftrightarrow>
     \<not> (kw_frame_size kw = VInt 9000 \<and>
        (str_contains ''vic1227'' iface \<or> str_contains ''vic1385'' iface \<or> str_contains ''ipsec'' suite_id)) \<and>
     \<not> ((str_contains ''-16vm2t-'' suite_id \<or> str_contains ''-16dcr2t-'' suite_id) \<and> kw_phy_cores kw > 3) \<and>
     \<not> ((str_contains ''-24vm1t-'' suite_id \<or> str_contains ''-24dcr1t-'' suite_id) \<and> kw_phy_cores kw > 3) \<and>
     \<not> (str_contains ''soak'' suite_id \<and>
        (kw_phy_cores kw \<noteq> 1 \<or> kw_frame_size kw \<notin> VInt ` set MIN_FRAME_SIZE_VALUES))"

text \<open>The text written to the file before an exception is returned with it.\<close>

fun write_testcases :: "testcase \<Rightarrow> tc_kwargs list \<Rightarrow> string \<Rightarrow> unit res \<times> string" where
  "write_testcases testcase [] out = (Inr (), out)"
| "write_testcases testcase (kw # kws) out =
     (case generate testcase (kw_frame_size kw) (kw_phy_cores kw) of
        Inl e \<Rightarrow> (Inl e, out)
      | Inr t \<Rightarrow> write_testcases testcase kws (out @ t))"

definition add_default_testcases ::
    "testcase \<Rightarrow> string \<Rightarrow> string \<Rightarrow> tc_kwargs list \<Rightarrow> string \<Rightarrow> unit res \<times> string" where
  "add_default_testcases testcase iface suite_id kws out =
     write_testcases testcase (filter (emitted iface suite_id) kws) out"

definition add_tcp_testcases :: "testcase \<Rightarrow> tc_kwargs list \<Rightarrow> string \<Rightarrow> unit res \<times> string" where
  "add_tcp_testcases testcase kws out = write_testcases testcase kws out"

definition write_file :: "files \<Rightarrow> string \<Rightarrow> unit res \<times> string \<Rightarrow> files_outcome" where
  "write_file files name result = (fst result, AList.update name (snd result) files)"

text \<open>A loop that stops at the first exception, and the sequence of replacements in a text.\<close>

fun each_file :: "('a \<Rightarrow> files \<Rightarrow> files_outcome) \<Rightarrow> 'a list \<Rightarrow> files \<Rightarrow> files_outcome" where
  "each_file f [] files = (Inr (), files)"
| "each_file f (x # xs) files =
     (case f x files of
        (Inl e, files1) \<Rightarrow> (Inl e, files1)
      | (Inr u, files1) \<Rightarrow> each_file f xs files1)"

definition apply_edits :: "(string \<times> string \<times> nat) list \<Rightarrow> string \<Rightarrow> string res" where
  "apply_edits edits text = foldE (\<lambda>t (old, new, n). replace_defensively t old new n) text edits"

text \<open>
  The name and the prolog of a suite for a driver. Suites with DPDK applications have tables of
  their own and no plugin or virtual functions to replace.
\<close>

definition driver_edits :: "bool \<Rightarrow> string \<Rightarrow> (string \<times> string \<times> nat) list res" where
  "driver_edits dpdk driver =
     (if dpdk then
        bindE (getitem DPDK_NIC_DRIVER_TO_TAG ''vfio-pci'') (\<lambda>t0.
        bindE (getitem DPDK_NIC_DRIVER_TO_TAG driver) (\<lambda>t1.
        Inr [(''vfio-pci'', driver, 1), (t0, t1, 1)]))
      else
        bindE (getitem NIC_DRIVER_TO_TAG ''vfio-pci'') (\<lambda>t0. bindE (getitem NIC_DRIVER_TO_TAG driver) (\<lambda>t1.
        bindE (getitem NIC_DRIVER_TO_PLUGINS ''vfio-pci'') (\<lambda>p0.
        bindE (getitem NIC_DRIVER_TO_PLUGINS driver) (\<lambda>p1.
        bindE (getitem NIC_DRIVER_TO_VFS ''vfio-pci'') (\<lambda>v0. bindE (getitem NIC_DRIVER_TO_VFS driver) (\<lambda>v1.
        Inr [(''vfio-pci'', driver, 1), (t0, t1, 1), (p0, p1, 1), (v0, v1, 1)])))))))"

definition driver_suite ::
    "bool \<Rightarrow> string \<Rightarrow> string \<Rightarrow> string \<Rightarrow> string \<Rightarrow> string \<Rightarrow> (string \<times> string \<times> string \<times> string) res" where
  "driver_suite dpdk filename prolog old_suite_id old_suite_tag driver =
     bindE (getitem (if dpdk then DPDK_NIC_DRIVER_TO_SUITE_PREFIX else NIC_DRIVER_TO_SUITE_PREFIX) driver)
       (\<lambda>prefix.
     bindE (replace_defensively filename old_suite_id (prefix @ old_suite_id) 1) (\<lambda>out_filename.
     bindE (driver_edits dpdk driver) (\<lambda>edits.
     bindE (apply_edits edits prolog) (\<lambda>prolog1.
     bindE (get_iface_and_suite_ids out_filename) (\<lambda>(iface, suite_id, suite_tag).
     bindE (replace_defensively prolog1 old_suite_tag suite_tag 1) (\<lambda>out_prolog.
     bindE (check_suite_tag suite_tag out_prolog) (\<lambda>_.
     Inr (out_filename, out_prolog, iface, suite_id))))))))"

definition write_driver_suite ::
    "bool \<Rightarrow> string \<Rightarrow> string \<Rightarrow> string \<Rightarrow> string \<Rightarrow> tc_kwargs list \<Rightarrow> string \<Rightarrow> files \<Rightarrow> files_outcome" where
  "write_driver_suite dpdk filename prolog old_suite_id old_suite_tag kws driver files =
     (case driver_suite dpdk filename prolog old_suite_id old_suite_tag driver of
        Inl e \<Rightarrow> (Inl e, files)
      | Inr (out_filename, out_prolog, iface, suite_id) \<Rightarrow>
          write_file files out_filename
            (add_default_testcases (Testcase_default suite_id) iface suite_id kws out_prolog))"

text \<open>The suites for one NIC.\<close>

definition nic_suite :: "string \<Rightarrow> string \<Rightarrow> string \<Rightarrow> (string \<times> string \<times> string \<times> string) res" where
  "nic_suite filename prolog nic_name =
     bindE (getitem NIC_NAME_TO_CODE nic_name) (\<lambda>code.
     bindE (replace_defensively filename ''10ge2p1x710'' code 1) (\<lambda>filename1.
     bindE (replace_defensively prolog ''Intel-X710'' nic_name 2) (\<lambda>prolog1.
     bindE (if occurrences ''HW_'' prolog1 = 2 \<and> map_of NIC_NAME_TO_CRYPTO_HW nic_name \<noteq> None
            then bindE (getitem NIC_NAME_TO_CRYPTO_HW nic_name) (\<lambda>hw.
                 replace_defensively prolog1 ''HW_DH895xcc'' hw 1)
            else Inr prolog1) (\<lambda>prolog2.
     bindE (get_iface_and_suite_ids filename1) (\<lambda>(iface, old_suite_id, old_suite_tag).
     Inr (filename1, prolog2, old_suite_id, old_suite_tag))))))"

definition write_nic_suites ::
    "bool \<Rightarrow> string \<Rightarrow> string \<Rightarrow> tc_kwargs list \<Rightarrow> string \<Rightarrow> files \<Rightarrow> files_outcome" where
  "write_nic_suites dpdk filename prolog kws nic_name files =
     (case bindE (nic_suite filename prolog nic_name) (\<lambda>s.
             bindE (getitem (if dpdk then DPDK_NIC_NAME_TO_DRIVER else NIC_NAME_TO_DRIVER) nic_name)
               (\<lambda>drivers. Inr (s, drivers))) of
        Inl e \<Rightarrow> (Inl e, files)
      | Inr ((filename1, prolog1, old_suite_id, old_suite_tag), drivers) \<Rightarrow>
          each_file (write_driver_suite dpdk filename1 prolog1 old_suite_id old_suite_tag kws) drivers files)"

definition type_suite :: "string \<Rightarrow> string \<Rightarrow> string \<Rightarrow> (string \<times> string) res" where
  "type_suite in_filename in_prolog suite_type =
     bindE (replace_defensively in_filename ''ndrpdr'' suite_type 1) (\<lambda>filename.
     bindE (replace_defensively in_prolog (upper ''ndrpdr'') (upper suite_type) 1) (\<lambda>prolog1.
     bindE (getitem PERF_TYPE_TO_KEYWORD suite_type) (\<lambda>keyword.
     bindE (replace_defensively prolog1 ''Find NDR and PDR intervals using optimized search'' keyword 1) (\<lambda>prolog2.
     bindE (getitem PERF_TYPE_TO_SUITE_DOC_VER ''ndrpdr'') (\<lambda>d0.
     bindE (getitem PERF_TYPE_TO_SUITE_DOC_VER suite_type) (\<lambda>d1.
     bindE (replace_defensively prolog2 d0 d1 1) (\<lambda>prolog3.
     bindE (getitem PERF_TYPE_TO_TEMPLATE_DOC_VER ''ndrpdr'') (\<lambda>t0.
     bindE (getitem PERF_TYPE_TO_TEMPLATE_DOC_VER suite_type) (\<lambda>t1.
     bindE (replace_defensively prolog3 t0 t1 1) (\<lambda>prolog4.
     bindE (get_iface_and_suite_ids filename) (\<lambda>_.
     Inr (filename, prolog4))))))))))))"

definition write_default_files ::
    "string \<Rightarrow> string \<Rightarrow> tc_kwargs list \<Rightarrow> files \<Rightarrow> files_outcome" where
  "write_default_files in_filename in_prolog kws files =
     each_file (\<lambda>suite_type files.
       case type_suite in_filename in_prolog suite_type of
         Inl e \<Rightarrow> (Inl e, files)
       | Inr (filename, prolog) \<Rightarrow>
           each_file (write_nic_suites (str_contains ''DPDK'' in_prolog) filename prolog kws)
             (map fst NIC_NAME_TO_CODE) files)
       (map fst PERF_TYPE_TO_KEYWORD) files"

definition write_reconf_files ::
    "string \<Rightarrow> string \<Rightarrow> tc_kwargs list \<Rightarrow> files \<Rightarrow> files_outcome" where
  "write_reconf_files in_filename in_prolog kws files =
     (case get_iface_and_suite_ids in_filename of
        Inl e \<Rightarrow> (Inl e, files)
      | Inr ids \<Rightarrow>
          each_file (write_nic_suites False in_filename in_prolog kws) (map fst NIC_NAME_TO_CODE) files)"

definition write_tcp_suite ::
    "string \<Rightarrow> string \<Rightarrow> string \<Rightarrow> string \<Rightarrow> tc_kwargs list \<Rightarrow> string \<Rightarrow> files \<Rightarrow> files_outcome" where
  "write_tcp_suite in_filename in_prolog suite_id suite_tag kws nic_name files =
     (case bindE (getitem NIC_NAME_TO_CODE nic_name) (\<lambda>code.
           bindE (replace_defensively in_filename ''10ge2p1x710'' code 1) (\<lambda>out_filename.
           bindE (replace_defensively in_prolog ''Intel-X710'' nic_name 2) (\<lambda>out_prolog.
           bindE (check_suite_tag suite_tag out_prolog) (\<lambda>_. Inr (out_filename, out_prolog))))) of
        Inl e \<Rightarrow> (Inl e, files)
      | Inr (out_filename, out_prolog) \<Rightarrow>
          write_file files out_filename (add_tcp_testcases (Testcase_tcp suite_id) kws out_prolog))"

definition write_tcp_files :: "string \<Rightarrow> string \<Rightarrow> tc_kwargs list \<Rightarrow> files \<Rightarrow> files_outcome" where
  "write_tcp_files in_filename in_prolog kws files =
     (case get_iface_and_suite_ids in_filename of
        Inl e \<Rightarrow> (Inl e, files)
      | Inr (iface, suite_id, suite_tag) \<Rightarrow>
          each_file (write_tcp_suite in_filename in_prolog suite_id suite_tag kws)
            (map fst NIC_NAME_TO_CODE) files)"

section \<open>Regeneration\<close>

definition kwargs :: "pyval \<Rightarrow> int \<Rightarrow> tc_kwargs" where
  "kwargs fsize cores = \<lparr>kw_frame_size = fsize, kw_phy_cores = cores\<rparr>"

definition default_kwargs_list :: "int \<Rightarrow> tc_kwargs list" where
  "default_kwargs_list min_frame_size =
     concat (map (\<lambda>fsize. map (kwargs fsize) [1, 2, 4])
       [VInt min_frame_size, VInt 1518, VInt 9000, VStr ''IMIX_v4_1''])"

text \<open>\<^verbatim>\<open>"".join(text.partition(sep)[:-1])\<close>: the text up to and including the separator, or all of it.\<close>

fun up_to :: "string \<Rightarrow> string \<Rightarrow> string" where
  "up_to sep [] = []"
| "up_to sep (c # cs) = (if startswith (c # cs) sep then sep else c # up_to sep cs)"

definition regenerate_file :: "int \<Rightarrow> string \<Rightarrow> files \<Rightarrow> files_outcome" where
  "regenerate_file min_frame_size in_filename files =
     (case bindE (get_iface_and_suite_ids in_filename) (\<lambda>(iface, suite_id, suite_tag).
           bindE (if endswith iface ''10ge2p1x710'' then Inr ()
                  else Inl (RuntimeError ''non-primary NIC found.'')) (\<lambda>_.
           bindE (if list_ex (\<lambda>prefix. str_contains prefix in_filename) FORBIDDEN_SUITE_PREFIX_LIST
                  then Inl (RuntimeError ''non-primary driver found.'') else Inr ()) (\<lambda>_.
           bindE (getitem files in_filename) (\<lambda>text. Inr (up_to ''*** Test Cases ***'' text))))) of
        Inl e \<Rightarrow> (Inl e, files)
      | Inr in_prolog \<Rightarrow>
          if endswith in_filename ''-ndrpdr.robot''
          then write_default_files in_filename in_prolog (default_kwargs_list min_frame_size) files
          else if endswith in_filename ''-reconf.robot''
          then write_reconf_files in_filename in_prolog (default_kwargs_list min_frame_size) files
          else if endswith in_filename ''-bps.robot''
          then write_tcp_files in_filename in_prolog
                 (if str_contains ''quic'' in_filename then [kwargs (VInt 1280) 1] else [kwargs (VInt 1460) 1])
                 files
          else (Inl (RuntimeError ''non-primary suite type found.''), files))"

definition regenerate_glob :: "string list \<Rightarrow> string \<Rightarrow> files \<Rightarrow> files_outcome" where
  "regenerate_glob names protocol files =
     (case getitem PROTOCOL_TO_MIN_FRAME_SIZE protocol of
        Inl e \<Rightarrow> (Inl e, files)
      | Inr min_frame_size \<Rightarrow> each_file (regenerate_file min_frame_size) names files)"

section \<open>Suite names\<close>

lemma split_first_found: "sep \<notin> set a \<Longrightarrow> split_first sep (a @ sep # b) = (a, Some b)"
proof -
  assume "sep \<notin> set a"
  then have "\<forall>c\<in>set a. c \<noteq> sep" by metis
  then show ?thesis by (simp add: split_first_def dropWhile_append3 takeWhile_append)
qed

lemma before_last_found: "sep \<notin> set b \<Longrightarrow> before_last sep (a @ sep # b) = a"
proof -
  assume "sep \<notin> set b"
  then have "dropWhile (\<lambda>c. c \<noteq> sep) (rev b) = []" by auto
  then show ?thesis by (simp add: before_last_def dropWhile_append)
qed

lemma forbidden_prefixes: "FORBIDDEN_SUITE_PREFIX_LIST = [''avf-'', ''rdma-'', ''mlx5-'']"
  by (simp add: FORBIDDEN_SUITE_PREFIX_LIST_def NIC_DRIVER_TO_SUITE_PREFIX_def
      DPDK_NIC_DRIVER_TO_SUITE_PREFIX_def)

lemma strip_driver_prefix:
  assumes "drv \<in> set ('''' # FORBIDDEN_SUITE_PREFIX_LIST)"
    and "\<forall>p\<in>set FORBIDDEN_SUITE_PREFIX_LIST. \<not> startswith tag p"
  shows "strip_prefixes FORBIDDEN_SUITE_PREFIX_LIST (drv @ tag) = tag"
  using assms by (auto simp: forbidden_prefixes strip_prefixes_def startswith_def)

text \<open>
  The identifiers read from a suite file name are those it was built from: after an
  optional testbed prefix like \<open>2n1l-\<close>, the NIC code, then the driver prefix, the suite tag and
  the suite type; the driver prefix belongs to the suite identifier but not to the tag.
\<close>

theorem suite_ids_round_trip:
  assumes "pre = '''' \<or> (\<exists>p. pre = p @ ''-'' \<and> length p \<le> 4 \<and> CHR ''-'' \<notin> set p)"
    and "CHR ''-'' \<notin> set nic" and "4 < length nic"
    and "drv \<in> set ('''' # FORBIDDEN_SUITE_PREFIX_LIST)"
    and "\<forall>p\<in>set FORBIDDEN_SUITE_PREFIX_LIST. \<not> startswith tag p"
    and "CHR ''.'' \<notin> set (tag @ typ)" and "CHR ''-'' \<notin> set typ"
  shows "get_iface_and_suite_ids (pre @ nic @ ''-'' @ drv @ tag @ ''-'' @ typ @ ''.robot'') =
    Inr (nic, drv @ tag @ ''-'' @ typ, tag)"
proof -
  let ?id = "drv @ tag @ ''-'' @ typ"
  have id: "CHR ''.'' \<notin> set ?id" using assms(4,6) by (auto simp: forbidden_prefixes)
  have first: "split_first CHR ''.'' (?id @ ''.robot'') = (?id, Some ''robot'')"
    using split_first_found [OF id, of "''robot''"] by simp
  have nic: "split_first CHR ''-'' (nic @ ''-'' @ x) = (nic, Some x)" for x
    using split_first_found [OF assms(2)] by simp
  have tag: "strip_prefixes FORBIDDEN_SUITE_PREFIX_LIST (before_last CHR ''-'' ?id) = tag"
    using before_last_found [OF assms(7), of "drv @ tag"] strip_driver_prefix [OF assms(4,5)] by simp
  show ?thesis
  proof (cases "pre = ''''")
    case True
    then show ?thesis
      using assms(3) first tag nic [of "?id @ ''.robot''"] by (simp add: get_iface_and_suite_ids_def Let_def)
  next
    case False
    then obtain p where p: "pre = p @ ''-''" "length p \<le> 4" "CHR ''-'' \<notin> set p" using assms(1) by blast
    then have "split_first CHR ''-'' (pre @ nic @ ''-'' @ ?id @ ''.robot'') =
        (p, Some (nic @ ''-'' @ ?id @ ''.robot''))"
      using split_first_found [OF p(3)] by simp
    then show ?thesis
      using p(2) first tag nic [of "?id @ ''.robot''"] by (simp add: get_iface_and_suite_ids_def Let_def)
  qed
qed

theorem suite_ids_round_trip_witness:
  "get_iface_and_suite_ids ''2n1l-10ge2p1x710-avf-ethip4-ip4base-ndrpdr.robot'' =
     Inr (''10ge2p1x710'', ''avf-ethip4-ip4base-ndrpdr'', ''ethip4-ip4base'')"
proof -
  have pre: "''2n1l-'' = '''' \<or> (\<exists>p. ''2n1l-'' = p @ ''-'' \<and> length p \<le> 4 \<and> CHR ''-'' \<notin> set p)"
    by (intro disjI2 exI [of _ "''2n1l''"]) simp
  have "get_iface_and_suite_ids (''2n1l-'' @ ''10ge2p1x710'' @ ''-'' @ ''avf-'' @ ''ethip4-ip4base'' @ ''-'' @
      ''ndrpdr'' @ ''.robot'') = Inr (''10ge2p1x710'', ''avf-'' @ ''ethip4-ip4base'' @ ''-'' @ ''ndrpdr'', ''ethip4-ip4base'')"
    by (rule suite_ids_round_trip [OF pre]) (simp_all add: forbidden_prefixes startswith_def)
  then show ?thesis by simp
qed

section \<open>Generated test cases\<close>

lemma substitute_plain: "CHR ''$'' \<notin> set a \<Longrightarrow> substitute d (a @ s) = bindE (substitute d s) (\<lambda>t. Inr (a @ t))"
proof (induction a)
  case (Cons c a)
  then show ?case by (cases "substitute d s") auto
qed (cases "substitute d s"; simp)

lemma substitute_name:
  assumes "k \<noteq> []" and "ident_start (hd k)" and "\<forall>c\<in>set k. ident_char c" and "map_of d k = Some v"
  shows "substitute d (''${'' @ k @ ''}'' @ s) = bindE (substitute d s) (\<lambda>t. Inr (v @ t))"
proof -
  have brace: "\<not> ident_char CHR ''}''" "\<not> ident_start CHR ''{''"
    by (simp_all add: ident_char_def ident_start_def is_digit_def)
  have "placeholder (''{'' @ k @ ''}'' @ s) = Some (k, s)"
    using assms(1-3) brace by (simp add: placeholder_def takeWhile_append dropWhile_append3 startswith_def)
  then show ?thesis using assms(4) by (simp add: getitem_def)
qed

text \<open>Templates as sequences of literal text and placeholders.\<close>

datatype piece = Lit string | Name string

fun piece_src :: "piece \<Rightarrow> string" where
  "piece_src (Lit a) = a"
| "piece_src (Name k) = ''${'' @ k @ ''}''"

fun piece_val :: "(string, string) pydict \<Rightarrow> piece \<Rightarrow> string" where
  "piece_val d (Lit a) = a"
| "piece_val d (Name k) = (case map_of d k of None \<Rightarrow> '''' | Some v \<Rightarrow> v)"

fun piece_ok :: "(string, string) pydict \<Rightarrow> piece \<Rightarrow> bool" where
  "piece_ok d (Lit a) = (CHR ''$'' \<notin> set a)"
| "piece_ok d (Name k) =
     (k \<noteq> [] \<and> ident_start (hd k) \<and> (\<forall>c\<in>set k. ident_char c) \<and> map_of d k \<noteq> None)"

lemma substitute_pieces:
  "\<forall>p\<in>set ps. piece_ok d p \<Longrightarrow>
     substitute d (concat (map piece_src ps)) = Inr (concat (map (piece_val d) ps))"
proof (induction ps)
  case (Cons p ps)
  then have IH: "substitute d (concat (map piece_src ps)) = Inr (concat (map (piece_val d) ps))" by simp
  show ?case
  proof (cases p)
    case (Lit a)
    then show ?thesis using Cons.prems substitute_plain [of a d "concat (map piece_src ps)"] by (simp add: IH)
  next
    case (Name k)
    then obtain v where v: "map_of d k = Some v" using Cons.prems by auto
    with Name Cons.prems substitute_name [of k d v "concat (map piece_src ps)"] show ?thesis by (simp add: IH)
  qed
qed simp

text \<open>The text of one test case.\<close>

definition frame_texts :: "pyval \<Rightarrow> string \<times> string" where
  "frame_texts fsize =
     (case fsize of
        VInt n \<Rightarrow> (''${'' @ str_of_int n @ ''}'', str_of_int n @ ''B'')
      | v \<Rightarrow> (py_str v, ''IMIX''))"

definition testcase_text :: "string \<Rightarrow> tc_kwargs \<Rightarrow> string" where
  "testcase_text suite_id kw =
     (case frame_texts (kw_frame_size kw) of (frame_num, frame_str) \<Rightarrow>
        nl @ ''| '' @ frame_str @ ''-'' @ str_of_int (kw_phy_cores kw) @ ''c-'' @ suite_id @ nl @
        ''| | [Tags] | '' @ frame_str @ '' | '' @ str_of_int (kw_phy_cores kw) @ ''C'' @ nl @
        ''| | frame_size='' @ frame_num @ '' | phy_cores=${'' @ str_of_int (kw_phy_cores kw) @ ''}'' @ nl)"

definition frame_size_ok :: "pyval \<Rightarrow> bool" where
  "frame_size_ok v \<longleftrightarrow> (case v of VInt n \<Rightarrow> True | VStr s \<Rightarrow> parse_int s = None | _ \<Rightarrow> False)"

lemma generate_default:
  assumes "CHR ''$'' \<notin> set suite_id" and "frame_size_ok (kw_frame_size kw)"
  shows "generate (Testcase_default suite_id) (kw_frame_size kw) (kw_phy_cores kw) =
    Inr (testcase_text suite_id kw)"
proof -
  obtain fnum fstr where fr: "frame_texts (kw_frame_size kw) = (fnum, fstr)" by fastforce
  let ?cores = "str_of_int (kw_phy_cores kw)"
  let ?d = "[(''frame_num'', fnum), (''frame_str'', fstr), (''cores_num'', ''${'' @ ?cores @ ''}''),
      (''cores_str'', ?cores)]"
  have gen: "generate t (kw_frame_size kw) (kw_phy_cores kw) = substitute ?d t" for t
    using assms(2) fr
    by (cases "kw_frame_size kw") (auto simp: generate_def frame_texts_def frame_size_ok_def)
  let ?ps = "[Lit (nl @ ''| ''), Name ''frame_str'', Lit ''-'', Name ''cores_str'',
      Lit (''c-'' @ suite_id @ nl @ ''| | [Tags] | ''), Name ''frame_str'', Lit '' | '', Name ''cores_str'',
      Lit (''C'' @ nl @ ''| | frame_size=''), Name ''frame_num'', Lit '' | phy_cores='', Name ''cores_num'', Lit nl]"
  have "\<forall>p\<in>set ?ps. piece_ok ?d p"
    using assms(1) by (simp add: nl_def ident_char_def ident_start_def)
  then have "substitute ?d (concat (map piece_src ?ps)) = Inr (concat (map (piece_val ?d) ?ps))"
    by (rule substitute_pieces)
  moreover have "concat (map piece_src ?ps) = Testcase_default suite_id" by (simp add: Testcase_default_def)
  moreover have "concat (map (piece_val ?d) ?ps) = testcase_text suite_id kw"
    by (simp add: testcase_text_def fr)
  ultimately show ?thesis by (simp only: gen)
qed

lemma write_testcases_default:
  assumes "CHR ''$'' \<notin> set suite_id" and "\<forall>kw\<in>set kws. frame_size_ok (kw_frame_size kw)"
  shows "write_testcases (Testcase_default suite_id) kws out =
    (Inr (), out @ concat (map (testcase_text suite_id) kws))"
  using assms(2) by (induction kws arbitrary: out) (simp_all add: generate_default [OF assms(1)])

text \<open>
  For a suite identifier without dollar signs, writing the default test cases does not
  raise; it appends to the prolog, in the given order, the text of exactly those test cases the
  suite supports, with frame size and cores filled in (the name \<open>IMIX\<close> for a frame size that is
  not a number).
\<close>

theorem default_testcases_written:
  assumes "CHR ''$'' \<notin> set suite_id" and "\<forall>kw\<in>set kws. frame_size_ok (kw_frame_size kw)"
  shows "add_default_testcases (Testcase_default suite_id) iface suite_id kws out =
    (Inr (), out @ concat (map (testcase_text suite_id) (filter (emitted iface suite_id) kws)))"
  using assms by (simp add: add_default_testcases_def write_testcases_default)

theorem default_testcases_written_witness:
  "add_default_testcases (Testcase_default ''eth-l2xcbase-soak'') ''10ge2p1x710'' ''eth-l2xcbase-soak''
     [kwargs (VInt 64) 1, kwargs (VInt 1518) 1, kwargs (VInt 64) 2] [] =
   (Inr (), testcase_text ''eth-l2xcbase-soak'' (kwargs (VInt 64) 1))"
proof -
  let ?kws = "[kwargs (VInt 64) 1, kwargs (VInt 1518) 1, kwargs (VInt 64) 2]"
  have ok: "CHR ''$'' \<notin> set ''eth-l2xcbase-soak''" "\<forall>kw\<in>set ?kws. frame_size_ok (kw_frame_size kw)"
    by (simp_all add: kwargs_def frame_size_ok_def)
  have "filter (emitted ''10ge2p1x710'' ''eth-l2xcbase-soak'') ?kws = [kwargs (VInt 64) 1]"
    by (simp add: kwargs_def emitted_def startswith_def MIN_FRAME_SIZE_VALUES_def
        PROTOCOL_TO_MIN_FRAME_SIZE_def)
  with default_testcases_written [OF ok, of "''10ge2p1x710''" "[]"] show ?thesis by simp
qed

section \<open>Written suites\<close>

text \<open>
  What is written after the prolog depends on the identifiers and the arguments of the test cases only, so the
  prolog of a written suite is the rest of its text. It has the tag of the file name exactly once.
\<close>

definition suite_cases :: "tc_kwargs list \<Rightarrow> string \<Rightarrow> string \<Rightarrow> string" where
  "suite_cases kws iface suite_id = snd (add_default_testcases (Testcase_default suite_id) iface suite_id kws [])"

definition suite_ok :: "tc_kwargs list \<Rightarrow> string \<Rightarrow> string \<Rightarrow> bool" where
  "suite_ok kws name content \<longleftrightarrow>
     (\<exists>iface suite_id tag prolog. get_iface_and_suite_ids name = Inr (iface, suite_id, tag) \<and>
        content = prolog @ suite_cases kws iface suite_id \<and> occurrences (''| '' @ tag) prolog = 1)"

definition only_good_suites :: "tc_kwargs list \<Rightarrow> files \<Rightarrow> files \<Rightarrow> bool" where
  "only_good_suites kws old new \<longleftrightarrow>
     (\<forall>name content. map_of new name = Some content \<longrightarrow> map_of old name = Some content \<or> suite_ok kws name content)"

lemma each_file_invariant:
  assumes "\<And>x fs. x \<in> set xs \<Longrightarrow> P fs \<Longrightarrow> P (snd (f x fs))" and "P files"
  shows "P (snd (each_file f xs files))"
  using assms
proof (induction xs arbitrary: files)
  case (Cons x xs)
  obtain r fs where run: "f x files = (r, fs)" by (cases "f x files")
  have good: "P fs" using Cons.prems(1) [of x files] Cons.prems(2) run by simp
  show ?case
  proof (cases r)
    case (Inl e)
    then show ?thesis using run good by simp
  next
    case (Inr u)
    have "P (snd (each_file f xs fs))" using Cons.IH good Cons.prems(1) by simp
    then show ?thesis using run Inr by simp
  qed
qed simp

lemma write_testcases_appends: "snd (write_testcases testcase kws out) = out @ snd (write_testcases testcase kws [])"
proof (induction kws arbitrary: out)
  case (Cons kw kws)
  show ?case
  proof (cases "generate testcase (kw_frame_size kw) (kw_phy_cores kw)")
    case (Inr t)
    with Cons [of "out @ t"] Cons [of t] show ?thesis by simp
  qed simp
qed simp

lemma driver_suite_Inr:
  assumes "driver_suite dpdk filename prolog old_id old_tag driver = Inr (name, out, iface, suite_id)"
  shows "\<exists>tag. get_iface_and_suite_ids name = Inr (iface, suite_id, tag) \<and> occurrences (''| '' @ tag) out = 1"
  using assms by (auto simp: driver_suite_def check_suite_tag_def split: if_splits)

lemma write_driver_suite_good:
  assumes "only_good_suites kws old fs"
  shows "only_good_suites kws old (snd (write_driver_suite dpdk filename prolog old_id old_tag kws driver fs))"
proof (cases "driver_suite dpdk filename prolog old_id old_tag driver")
  case (Inl e)
  with assms show ?thesis by (simp add: write_driver_suite_def)
next
  case (Inr r)
  obtain name out iface suite_id where r: "r = (name, out, iface, suite_id)" by (cases r)
  let ?res = "add_default_testcases (Testcase_default suite_id) iface suite_id kws out"
  have "snd ?res = out @ suite_cases kws iface suite_id"
    unfolding suite_cases_def add_default_testcases_def by (rule write_testcases_appends)
  with driver_suite_Inr [of dpdk filename prolog old_id old_tag driver name out iface suite_id] Inr r
  have "suite_ok kws name (snd ?res)" unfolding suite_ok_def by blast
  with assms show ?thesis
    by (auto simp: write_driver_suite_def Inr r write_file_def only_good_suites_def pd.lookup_store)
qed

lemma write_nic_suites_good:
  assumes "only_good_suites kws old fs"
  shows "only_good_suites kws old (snd (write_nic_suites dpdk filename prolog kws nic fs))"
proof -
  have "only_good_suites kws old (snd (each_file (write_driver_suite dpdk n p oid otag kws) drivers fs))"
    for n p oid otag drivers
    by (rule each_file_invariant [where P = "only_good_suites kws old"]) (simp_all add: assms write_driver_suite_good)
  note each = this
  show ?thesis
  proof (cases "bindE (nic_suite filename prolog nic) (\<lambda>s.
      bindE (getitem (if dpdk then DPDK_NIC_NAME_TO_DRIVER else NIC_NAME_TO_DRIVER) nic) (\<lambda>ds. Inr (s, ds)))")
    case (Inl e)
    then show ?thesis using assms unfolding write_nic_suites_def by (simp only: sum.case snd_conv)
  next
    case (Inr r)
    then show ?thesis using each unfolding write_nic_suites_def 
      by (cases r) (simp only: sum.case prod.case split: prod.split, blast)
  qed
qed

lemma each_nic_good:
  assumes "only_good_suites kws old fs"
  shows "only_good_suites kws old (snd (each_file (write_nic_suites dpdk filename prolog kws) nics fs))"
  by (rule each_file_invariant [where P = "only_good_suites kws old"]) (simp_all add: assms write_nic_suites_good)

text \<open>
  C17. Generating suites, whether it ends with success or an exception, only leaves files
  that were there before and suites that consist of a prolog and the test cases generated for the identifiers in
  the file name; the prolog (the text before exactly these test cases) has the tag that
  belongs to the file name exactly once.
\<close>

theorem generated_suites_tagged_once:
  "only_good_suites kws files (snd (write_default_files in_filename in_prolog kws files)) \<and>
   only_good_suites kws files (snd (write_reconf_files in_filename in_prolog kws files))"
proof
  have start: "only_good_suites kws files files" by (simp add: only_good_suites_def)
  show "only_good_suites kws files (snd (write_default_files in_filename in_prolog kws files))"
    unfolding write_default_files_def
  proof (rule each_file_invariant [where P = "only_good_suites kws files"], goal_cases)
    case (1 suite_type fs)
    then show ?case by (simp add: each_nic_good split: sum.split prod.split)
  qed (rule start)
  show "only_good_suites kws files (snd (write_reconf_files in_filename in_prolog kws files))"
    unfolding write_reconf_files_def using start by (simp add: each_nic_good split: sum.split)
qed

end
