(* ===== verification/PyBytes.thy ===== *)
theory PyBytes
  imports PyVal
begin

text \<open>
  Python's \<open>bytes\<close> as lists of 8-bit words: \<open>bytes.hex\<close>, \<open>bytes.fromhex\<close>, stripping of zero
  bytes, the hexadecimal conversions \<open>hex(n)\<close> and \<open>int(s, 16)\<close>, and the format \<^verbatim>\<open>0>n\<close> that pads a
  string with zeros on the left.
\<close>

type_synonym byte = "8 word"

section \<open>Hexadecimal digits\<close>

definition hex_value :: "char \<Rightarrow> nat option" where
  "hex_value c =
     (let n = (of_char c :: nat) in
      if 48 \<le> n \<and> n \<le> 57 then Some (n - 48)
      else if 65 \<le> n \<and> n \<le> 70 then Some (n - 55)
      else if 97 \<le> n \<and> n \<le> 102 then Some (n - 87)
      else None)"

lemma of_char_of_small: "n < 256 \<Longrightarrow> (of_char (char_of n :: char) :: nat) = n" for n :: nat
  by simp

lemma hex_value_char [simp]: "n < 16 \<Longrightarrow> hex_value (hex_char n) = Some n"
  by (auto simp: hex_value_def hex_char_def Let_def)

lemma hex_char_not_special:
  assumes "n < 16"
  shows "hex_char n \<noteq> CHR '':''" "hex_char n \<noteq> CHR ''_''" "hex_char n \<noteq> CHR ''-''" "hex_char n \<noteq> CHR ''+''"
    "hex_char n \<noteq> CHR ''x''" "hex_char n \<noteq> CHR ''X''" "\<not> is_space (hex_char n)"
proof -
  have c: "(of_char (hex_char n) :: nat) = (if n < 10 then 48 + n else 87 + n)"
    unfolding hex_char_def using assms by (intro of_char_of_small) simp
  have "\<And>d. hex_char n = d \<Longrightarrow> (of_char d :: nat) = (if n < 10 then 48 + n else 87 + n)" using c by simp
  from this [of "CHR '':''"] this [of "CHR ''_''"] this [of "CHR ''-''"] this [of "CHR ''+''"]
    this [of "CHR ''x''"] this [of "CHR ''X''"] assms
  show "hex_char n \<noteq> CHR '':''" "hex_char n \<noteq> CHR ''_''" "hex_char n \<noteq> CHR ''-''" "hex_char n \<noteq> CHR ''+''"
    "hex_char n \<noteq> CHR ''x''" "hex_char n \<noteq> CHR ''X''"
    by (auto split: if_splits)
  show "\<not> is_space (hex_char n)" using assms by (auto simp: is_space_def c Let_def)
qed

section \<open>Bytes and hexadecimal strings\<close>

definition hex_byte :: "byte \<Rightarrow> string" where
  "hex_byte b = [hex_char (unat b div 16), hex_char (unat b mod 16)]"

definition bytes_hex :: "byte list \<Rightarrow> string" where
  "bytes_hex bs = concat (map hex_byte bs)"

definition is_ascii_space :: "char \<Rightarrow> bool" where
  "is_ascii_space c \<longleftrightarrow> (let n = (of_char c :: nat) in 9 \<le> n \<and> n \<le> 13 \<or> n = 32)"

text \<open>\<open>bytes.fromhex\<close> skips white space between the bytes, not within them.\<close>

fun hex_pairs :: "string \<Rightarrow> byte list option" where
  "hex_pairs [] = Some []"
| "hex_pairs [c] = (if is_ascii_space c then Some [] else None)"
| "hex_pairs (c # d # cs) =
     (if is_ascii_space c then hex_pairs (d # cs)
      else case (hex_value c, hex_value d) of
             (Some a, Some b) \<Rightarrow> map_option ((#) (of_nat (16 * a + b))) (hex_pairs cs)
           | _ \<Rightarrow> None)"

definition fromhex :: "string \<Rightarrow> byte list res" where
  "fromhex s =
     (case hex_pairs s of
        None \<Rightarrow> Inl (ValueError ''non-hexadecimal number found in fromhex() arg'')
      | Some bs \<Rightarrow> Inr bs)"

lemma hex_char_not_ascii_space: "n < 16 \<Longrightarrow> \<not> is_ascii_space (hex_char n)"
  using hex_char_not_special(7) [of n] by (auto simp: is_space_def is_ascii_space_def Let_def)

lemma unat_byte: "unat (b :: byte) < 256"
  using unsigned_less [of b] by simp

lemma byte_digits: "unat (b :: byte) div 16 < 16" "unat b mod 16 < 16"
  using unat_byte [of b] by auto

lemma hex_pairs_append: "hex_pairs (bytes_hex bs @ s) = map_option ((@) bs) (hex_pairs s)"
proof (induction bs)
  case Nil
  show ?case by (cases "hex_pairs s") (simp_all add: bytes_hex_def)
next
  case (Cons b bs)
  have "word_of_nat (16 * (unat b div 16) + unat b mod 16) = b" by simp
  with Cons show ?case
    by (cases "hex_pairs s")
      (simp_all add: bytes_hex_def hex_byte_def byte_digits hex_char_not_ascii_space)
qed

lemma fromhex_append:
  "fromhex (bytes_hex bs @ s) = bindE (fromhex s) (\<lambda>cs. Inr (bs @ cs))"
  by (simp add: fromhex_def hex_pairs_append split: option.split)

lemma fromhex_hex [simp]: "fromhex (bytes_hex bs) = Inr bs"
  using fromhex_append [of bs "[]"] by (simp add: fromhex_def)

lemma bytes_hex_append: "bytes_hex (a @ b) = bytes_hex a @ bytes_hex b"
  by (simp add: bytes_hex_def)

lemma length_bytes_hex [simp]: "length (bytes_hex bs) = 2 * length bs"
  by (induction bs) (simp_all add: bytes_hex_def hex_byte_def)

lemma hex_char_0: "hex_char 0 = CHR ''0''"
  by (simp add: hex_char_def char_of_eq_iff take_bit_eq_mod)

lemma bytes_hex_zeros: "bytes_hex (replicate n 0) = replicate (2 * n) CHR ''0''"
  by (induction n) (simp_all add: bytes_hex_def hex_byte_def hex_char_0)

section \<open>Padding and stripping\<close>

definition pad_left :: "nat \<Rightarrow> string \<Rightarrow> string" where
  "pad_left width s = replicate (width - length s) CHR ''0'' @ s"

lemma pad_left_hex:
  "pad_left (2 * w) (bytes_hex bs) = bytes_hex (replicate (w - length bs) 0 @ bs)"
  by (simp add: pad_left_def bytes_hex_append bytes_hex_zeros right_diff_distrib')

lemma pad_left_empty: "pad_left (2 * w) '''' = bytes_hex (replicate w 0)"
  by (simp add: pad_left_def bytes_hex_zeros)

definition lstrip0 :: "byte list \<Rightarrow> byte list" where
  "lstrip0 bs = dropWhile (\<lambda>b. b = 0) bs"

definition rstrip0 :: "byte list \<Rightarrow> byte list" where
  "rstrip0 bs = rev (dropWhile (\<lambda>b. b = 0) (rev bs))"

text \<open>A byte string read as padded with zeros without end.\<close>

definition byte_at :: "byte list \<Rightarrow> nat \<Rightarrow> byte" where
  "byte_at bs i = (if i < length bs then bs ! i else 0)"

lemma byte_at_append:
  "byte_at (a @ b) i = (if i < length a then a ! i else byte_at b (i - length a))"
  by (auto simp: byte_at_def nth_append)

lemma byte_at_zeros [simp]: "byte_at (replicate n 0) i = 0"
  by (simp add: byte_at_def)

lemma byte_at_zeros_append:
  "byte_at (replicate n 0 @ b) i = (if i < n then 0 else byte_at b (i - n))"
  by (simp add: byte_at_append)

lemma byte_at_pad [simp]: "byte_at (bs @ replicate n 0) i = byte_at bs i"
  by (auto simp: byte_at_def nth_append)

lemma rstrip0_decompose: "\<exists>n. bs = rstrip0 bs @ replicate n 0"
proof -
  have "takeWhile (\<lambda>b. b = 0) (rev bs) = replicate (length (takeWhile (\<lambda>b. b = 0) (rev bs))) 0"
    by (rule replicate_eqI [symmetric, THEN sym]) (auto dest: set_takeWhileD)
  then have "rev bs = replicate (length (takeWhile (\<lambda>b. b = 0) (rev bs))) 0 @ rev (rstrip0 bs)"
    unfolding rstrip0_def by (metis rev_rev_ident takeWhile_dropWhile_id)
  then have "bs = rstrip0 bs @ replicate (length (takeWhile (\<lambda>b. b = 0) (rev bs))) 0"
    by (metis rev_append rev_replicate rev_rev_ident)
  then show ?thesis ..
qed

lemma byte_at_rstrip0 [simp]: "byte_at (rstrip0 bs) i = byte_at bs i"
  using rstrip0_decompose [of bs] by (metis byte_at_pad)

lemma length_rstrip0: "length (rstrip0 bs) \<le> length bs"
  by (simp add: rstrip0_def) (metis length_dropWhile_le length_rev)

lemma lstrip0_zeros: "i < length bs - length (lstrip0 bs) \<Longrightarrow> bs ! i = 0"
proof -
  assume i: "i < length bs - length (lstrip0 bs)"
  have split: "bs = takeWhile (\<lambda>b. b = 0) bs @ lstrip0 bs" by (simp add: lstrip0_def)
  then have "length bs = length (takeWhile (\<lambda>b. b = 0) bs) + length (lstrip0 bs)"
    by (metis length_append)
  with i have j: "i < length (takeWhile (\<lambda>b. b = 0) bs)" by simp
  then have "bs ! i = takeWhile (\<lambda>b. b = 0) bs ! i" by (simp add: takeWhile_nth)
  also have "\<dots> = 0" using nth_mem [OF j] by (auto dest: set_takeWhileD)
  finally show ?thesis .
qed

section \<open>Positional notation\<close>

text \<open>The last \<open>k\<close> digits of a number in base \<open>b\<close>, and the number with given digits.\<close>

primrec digits_of :: "nat \<Rightarrow> nat \<Rightarrow> nat \<Rightarrow> nat list" where
  "digits_of b 0 n = []"
| "digits_of b (Suc k) n = digits_of b k (n div b) @ [n mod b]"

definition of_digits :: "nat \<Rightarrow> nat list \<Rightarrow> nat" where
  "of_digits b ds = foldl (\<lambda>a d. b * a + d) 0 ds"

lemma length_digits_of [simp]: "length (digits_of b k n) = k"
  by (induction k arbitrary: n) simp_all

lemma digits_of_less: "0 < b \<Longrightarrow> d \<in> set (digits_of b k n) \<Longrightarrow> d < b"
  by (induction k arbitrary: n) auto

lemma of_digits_snoc [simp]: "of_digits b (ds @ [d]) = b * of_digits b ds + d"
  by (simp add: of_digits_def)

lemma of_digits_Nil [simp]: "of_digits b [] = 0"
  by (simp add: of_digits_def)

lemma of_digits_of: "n < b ^ k \<Longrightarrow> of_digits b (digits_of b k n) = n"
proof (induction k arbitrary: n)
  case (Suc k)
  have "n div b < b ^ k"
    using Suc.prems by (simp add: less_mult_imp_div_less mult.commute)
  with Suc.IH show ?case by simp
qed simp

lemma of_digits_less: "\<forall>d\<in>set ds. d < b \<Longrightarrow> of_digits b ds < b ^ length ds"
proof (induction ds rule: rev_induct)
  case (snoc d ds)
  then have "of_digits b ds + 1 \<le> b ^ length ds" and "d < b" by simp_all
  then have "b * (of_digits b ds + 1) \<le> b * b ^ length ds" by (intro mult_le_mono2)
  with \<open>d < b\<close> show ?case by simp
qed simp

lemma digits_of_of_digits: "\<forall>d\<in>set ds. d < b \<Longrightarrow> digits_of b (length ds) (of_digits b ds) = ds"
  by (induction ds rule: rev_induct) simp_all

lemma digits_of_0 [simp]: "digits_of b k 0 = replicate k 0"
  by (induction k) (simp_all add: replicate_append_same)

lemma of_digits_zeros [simp]: "of_digits b (replicate k 0 @ ds) = of_digits b ds"
  by (induction k) (simp_all add: of_digits_def)

section \<open>Integers in base sixteen\<close>

fun hex_of_nat :: "nat \<Rightarrow> string" where
  "hex_of_nat n = (if n < 16 then [hex_char n] else hex_of_nat (n div 16) @ [hex_char (n mod 16)])"

declare hex_of_nat.simps [simp del]

definition py_hex :: "int \<Rightarrow> string" where
  "py_hex i = (if i < 0 then ''-0x'' @ hex_of_nat (nat (- i)) else ''0x'' @ hex_of_nat (nat i))"

fun hex_digits_from :: "nat \<Rightarrow> string \<Rightarrow> nat option" where
  "hex_digits_from acc [] = Some acc"
| "hex_digits_from acc (c # cs) =
     (case hex_value c of
        Some d \<Rightarrow> hex_digits_from (16 * acc + d) cs
      | None \<Rightarrow>
          if c = CHR ''_'' then
            (case cs of
               [] \<Rightarrow> None
             | e # es \<Rightarrow> (case hex_value e of None \<Rightarrow> None | Some d \<Rightarrow> hex_digits_from (16 * acc + d) es))
          else None)"

definition parse_hex_digits :: "string \<Rightarrow> nat option" where
  "parse_hex_digits s =
     (case s of [] \<Rightarrow> None | c # cs \<Rightarrow> (case hex_value c of None \<Rightarrow> None | Some d \<Rightarrow> hex_digits_from d cs))"

text \<open>After the sign, a prefix \<^verbatim>\<open>0x\<close> is accepted, also when it is followed by an underscore.\<close>

definition parse_hex_nat :: "string \<Rightarrow> nat option" where
  "parse_hex_nat s =
     (case s of
        c # d # cs \<Rightarrow>
          if c = CHR ''0'' \<and> (d = CHR ''x'' \<or> d = CHR ''X'')
          then parse_hex_digits (case cs of e # es \<Rightarrow> if e = CHR ''_'' then es else cs | [] \<Rightarrow> [])
          else parse_hex_digits s
      | _ \<Rightarrow> parse_hex_digits s)"

definition int_base16 :: "string \<Rightarrow> int res" where
  "int_base16 s =
     (case (case strip s of
              [] \<Rightarrow> None
            | c # cs \<Rightarrow>
                if c = CHR ''-'' then map_option (\<lambda>n. - int n) (parse_hex_nat cs)
                else if c = CHR ''+'' then map_option int (parse_hex_nat cs)
                else map_option int (parse_hex_nat (c # cs))) of
        None \<Rightarrow> Inl (ValueError ''invalid literal for int() with base 16'')
      | Some i \<Rightarrow> Inr i)"

lemma hex_digits_from_map:
  "\<forall>d\<in>set ds. d < 16 \<Longrightarrow>
     hex_digits_from acc (map hex_char ds) = Some (foldl (\<lambda>a d. 16 * a + d) acc ds)"
  by (induction ds arbitrary: acc) simp_all

lemma parse_hex_digits_map:
  assumes "\<forall>d\<in>set ds. d < 16" and "ds \<noteq> []"
  shows "parse_hex_digits (map hex_char ds) = Some (of_digits 16 ds)"
  using assms by (cases ds) (simp_all add: parse_hex_digits_def of_digits_def hex_digits_from_map)

lemma int_base16_digits:
  assumes "\<forall>d\<in>set ds. d < 16" and "ds \<noteq> []"
  shows "int_base16 (map hex_char ds) = Inr (int (of_digits 16 ds))"
proof -
  have "strip (map hex_char ds) = map hex_char ds"
    using assms by (intro strip_id) (simp add: stripped_def hd_map last_map hex_char_not_special)
  moreover have "parse_hex_nat (map hex_char ds) = Some (of_digits 16 ds)"
  proof (cases ds)
    case (Cons a as)
    then show ?thesis
      using parse_hex_digits_map [OF assms] assms
      by (cases as) (simp_all add: parse_hex_nat_def hex_char_not_special)
  qed (use assms in simp)
  moreover obtain a as where ds: "ds = a # as" using assms(2) by (cases ds) auto
  moreover have "hex_char a \<noteq> CHR ''-''" "hex_char a \<noteq> CHR ''+''"
    using assms(1) ds by (simp_all add: hex_char_not_special)
  ultimately show ?thesis by (simp add: int_base16_def)
qed

lemma pad_left_snoc: "pad_left (Suc k) (s @ [c]) = pad_left k s @ [c]"
  by (simp add: pad_left_def)

lemma pad_left_hex_of_nat: "n < 16 ^ k \<Longrightarrow> 0 < k \<Longrightarrow> pad_left k (hex_of_nat n) = map hex_char (digits_of 16 k n)"
proof (induction k arbitrary: n)
  case (Suc k)
  show ?case
  proof (cases "n < 16")
    case True
    then show ?thesis by (simp add: hex_of_nat.simps [of n] pad_left_def hex_char_0 map_replicate_const)
  next
    case False
    have "n div 16 < 16 ^ k" using Suc.prems(1) by (simp add: less_mult_imp_div_less mult.commute)
    moreover from this False have "0 < k" by (cases k) auto
    ultimately show ?thesis
      using Suc.IH [of "n div 16"] False by (simp add: hex_of_nat.simps [of n] pad_left_snoc)
  qed
qed simp

lemma hex_of_nat_digits:
  "\<exists>ds. hex_of_nat n = map hex_char ds \<and> ds \<noteq> [] \<and> (\<forall>d\<in>set ds. d < 16) \<and> of_digits 16 ds = n"
proof (induction n rule: hex_of_nat.induct)
  case (1 n)
  show ?case
  proof (cases "n < 16")
    case True
    then show ?thesis
      by (intro exI [of _ "[n]"]) (simp add: hex_of_nat.simps [of n] of_digits_def)
  next
    case False
    with 1 obtain ds where "hex_of_nat (n div 16) = map hex_char ds" "\<forall>d\<in>set ds. d < 16"
      "of_digits 16 ds = n div 16"
      by blast
    with False show ?thesis
      by (intro exI [of _ "ds @ [n mod 16]"]) (simp add: hex_of_nat.simps [of n])
  qed
qed

lemma length_hex_of_nat: "n < 16 ^ k \<Longrightarrow> 0 < k \<Longrightarrow> length (hex_of_nat n) \<le> k"
proof -
  assume "n < 16 ^ k" and "0 < k"
  then have "length (pad_left k (hex_of_nat n)) = k" by (simp add: pad_left_hex_of_nat)
  then show ?thesis by (simp add: pad_left_def)
qed

end
