(* ===== verification/IpAddress.thy ===== *)
theory IpAddress
  imports PyBytes
begin

text \<open>
  IP addresses: the objects of Python's module \<open>ipaddress\<close> that the library uses (parsing and
  printing as in Python 3.6), \<open>IPAddress.py\<close>, and the conversions of \<open>IPUtil.py\<close>. The theorems
  show that every address is read back from its text, also through the compressed form of IPv6.
\<close>

section \<open>Address objects\<close>

datatype ipaddr = IPv4Address "32 word" | IPv6Address "128 word"

fun version :: "ipaddr \<Rightarrow> nat" where
  "version (IPv4Address w) = 4"
| "version (IPv6Address w) = 6"

fun address_int :: "ipaddr \<Rightarrow> nat" where
  "address_int (IPv4Address w) = unat w"
| "address_int (IPv6Address w) = unat w"

text \<open>The bytes in network order.\<close>

fun packed :: "ipaddr \<Rightarrow> byte list" where
  "packed (IPv4Address w) = map of_nat (digits_of 256 4 (unat w))"
| "packed (IPv6Address w) = map of_nat (digits_of 256 16 (unat w))"

section \<open>Parsing\<close>

definition parse_octet :: "string \<Rightarrow> nat option" where
  "parse_octet s =
     (if s = [] \<or> \<not> list_all is_digit s \<or> length s > 3 then None
      else case parse_nat s of
             None \<Rightarrow> None
           | Some n \<Rightarrow> if n > 7 \<and> hd s = CHR ''0'' \<or> n > 255 then None else Some n)"

definition parse_ipv4 :: "string \<Rightarrow> nat option" where
  "parse_ipv4 s =
     (let octets = split_on CHR ''.'' s
      in if length octets \<noteq> 4 then None
         else map_option (of_digits 256) (those (map parse_octet octets)))"

definition parse_hextet :: "string \<Rightarrow> nat option" where
  "parse_hextet s =
     (if \<not> list_all (\<lambda>c. hex_value c \<noteq> None) s \<or> length s > 4 then None else parse_hex_digits s)"

text \<open>The parts between the colons; an empty inner part stands for the zeros that were left out.\<close>

definition parse_hextets :: "string list \<Rightarrow> nat option" where
  "parse_hextets parts =
     (if length parts > 9 then None
      else case filter (\<lambda>i. parts ! i = []) [1..<length parts - 1] of
        [] \<Rightarrow>
          if length parts \<noteq> 8 \<or> hd parts = [] \<or> last parts = [] then None
          else map_option (of_digits 65536) (those (map parse_hextet parts))
      | [k] \<Rightarrow>
          (let hi = (if hd parts = [] then k - 1 else k);
               lo = length parts - k - 1 - (if last parts = [] then 1 else 0)
           in if hd parts = [] \<and> hi \<noteq> 0 \<or> last parts = [] \<and> lo \<noteq> 0 \<or> 8 \<le> hi + lo then None
              else case (those (map parse_hextet (take hi parts)),
                         those (map parse_hextet (drop (length parts - lo) parts))) of
                     (Some his, Some los) \<Rightarrow> Some (of_digits 65536 (his @ replicate (8 - hi - lo) 0 @ los))
                   | _ \<Rightarrow> None)
      | _ \<Rightarrow> None)"

definition parse_ipv6 :: "string \<Rightarrow> nat option" where
  "parse_ipv6 s =
     (let parts = split_on CHR '':'' s
      in if length parts < 3 then None
         else if CHR ''.'' \<in> set (last parts) then
           (case parse_ipv4 (last parts) of
              None \<Rightarrow> None
            | Some v \<Rightarrow>
                parse_hextets (butlast parts @ [hex_of_nat (v div 65536 mod 65536), hex_of_nat (v mod 65536)]))
         else parse_hextets parts)"

definition ip_address :: "string \<Rightarrow> ipaddr res" where
  "ip_address s =
     (case parse_ipv4 s of
        Some n \<Rightarrow> Inr (IPv4Address (of_nat n))
      | None \<Rightarrow>
          (case parse_ipv6 s of
             Some n \<Rightarrow> Inr (IPv6Address (of_nat n))
           | None \<Rightarrow> Inl (ValueError ''does not appear to be an IPv4 or IPv6 address'')))"

text \<open>\<open>ip_address(n)\<close> of an integer.\<close>

definition ip_address_of_int :: "int \<Rightarrow> ipaddr res" where
  "ip_address_of_int n =
     (if 0 \<le> n \<and> n < 2 ^ 32 then Inr (IPv4Address (of_int n))
      else if 0 \<le> n \<and> n < 2 ^ 128 then Inr (IPv6Address (of_int n))
      else Inl (ValueError ''does not appear to be an IPv4 or IPv6 address''))"

text \<open>\<open>addr + n\<close>, which stays within the version of the address.\<close>

fun ip_add :: "ipaddr \<Rightarrow> int \<Rightarrow> ipaddr res" where
  "ip_add (IPv4Address w) n =
     (let i = uint w + n
      in if 0 \<le> i \<and> i < 2 ^ 32 then Inr (IPv4Address (of_int i)) else Inl (ValueError ''not permitted as an IPv4 address''))"
| "ip_add (IPv6Address w) n =
     (let i = uint w + n
      in if 0 \<le> i \<and> i < 2 ^ 128 then Inr (IPv6Address (of_int i)) else Inl (ValueError ''not permitted as an IPv6 address''))"

section \<open>Printing\<close>

text \<open>The start and the length of the first longest run of zeros.\<close>

fun zero_run :: "nat \<Rightarrow> nat \<Rightarrow> nat \<times> nat \<Rightarrow> string list \<Rightarrow> nat \<times> nat" where
  "zero_run i run best [] = best"
| "zero_run i run best (h # hs) =
     (if h = ''0''
      then zero_run (i + 1) (run + 1) (if run + 1 > snd best then (i - run, run + 1) else best) hs
      else zero_run (i + 1) 0 best hs)"

definition compress_hextets :: "string list \<Rightarrow> string list" where
  "compress_hextets hs =
     (let best = zero_run 0 0 (0, 0) hs; start = fst best; stop = start + snd best
      in if snd best > 1
         then (if start = 0 then [[]] else []) @ take start hs @ [[]] @ drop stop hs @
              (if stop = length hs then [[]] else [])
         else hs)"

fun ip_str :: "ipaddr \<Rightarrow> string" where
  "ip_str (IPv4Address w) = join ''.'' (map str_of_nat (digits_of 256 4 (unat w)))"
| "ip_str (IPv6Address w) = join '':'' (compress_hextets (map hex_of_nat (digits_of 65536 8 (unat w))))"

section \<open>Conversions\<close>

definition ip_to_int :: "string \<Rightarrow> int res" where
  "ip_to_int s = bindE (ip_address s) (\<lambda>a. Inr (int (address_int a)))"

definition int_to_ip :: "int \<Rightarrow> string res" where
  "int_to_ip n = bindE (ip_address_of_int n) (\<lambda>a. Inr (ip_str a))"

definition ip_addresses_should_be_equal :: "string \<Rightarrow> string \<Rightarrow> unit res" where
  "ip_addresses_should_be_equal ip1 ip2 =
     bindE (ip_address ip1) (\<lambda>addr1.
     bindE (ip_address ip2) (\<lambda>addr2.
     if addr1 \<noteq> addr2 then Inl (AssertionError ''IP addresses are not equal'') else Inr ()))"

definition union_addr :: "ipaddr \<Rightarrow> pyval" where
  "union_addr a = VDict [(if version a = 6 then ''ip6'' else ''ip4'', VBytes (packed a))]"

definition create_ip_address_object :: "ipaddr \<Rightarrow> pyval" where
  "create_ip_address_object a = VDict [(''af'', VInt (if version a = 6 then 1 else 0)), (''un'', union_addr a)]"

definition create_prefix_object :: "ipaddr \<Rightarrow> pyval \<Rightarrow> pyval res" where
  "create_prefix_object a addr_len =
     bindE (py_int addr_len) (\<lambda>n. Inr (VDict [(''len'', VInt n), (''address'', create_ip_address_object a)]))"

section \<open>Addresses are read back\<close>

lemma those_map_Some: "(\<And>x. x \<in> set xs \<Longrightarrow> f x = Some (g x)) \<Longrightarrow> those (map f xs) = Some (map g xs)"
  by (induction xs) simp_all

lemma str_of_nat_head: "n \<noteq> 0 \<Longrightarrow> hd (str_of_nat n) \<noteq> CHR ''0''"
proof (induction n rule: str_of_nat.induct)
  case (1 n)
  show ?case
  proof (cases "n < 10")
    case True
    with 1 show ?thesis by (auto simp: str_of_nat.simps [of n] char_of_eq_iff take_bit_eq_mod)
  next
    case False
    with 1 have "hd (str_of_nat (n div 10)) \<noteq> CHR ''0''" by simp
    with False show ?thesis by (simp add: str_of_nat.simps [of n])
  qed
qed

lemma length_str_of_nat: "n < 1000 \<Longrightarrow> length (str_of_nat n) \<le> 3"
  by (simp add: str_of_nat.simps [of n] str_of_nat.simps [of "n div 10"] str_of_nat.simps [of "n div 10 div 10"])

lemma parse_octet_str: "n < 256 \<Longrightarrow> parse_octet (str_of_nat n) = Some n"
  using str_of_nat_head [of n]
  by (auto simp: parse_octet_def parse_nat_str list_all_iff str_of_nat_digits length_str_of_nat not_less
      intro: order_trans [OF length_str_of_nat])

lemma digit_not_special: "is_digit c \<Longrightarrow> c \<noteq> CHR ''.'' \<and> c \<noteq> CHR '':''"
  by (auto simp: is_digit_def)

lemma parse_ipv4_str:
  assumes "length ds = 4" and "\<forall>d\<in>set ds. d < 256"
  shows "parse_ipv4 (join ''.'' (map str_of_nat ds)) = Some (of_digits 256 ds)"
proof -
  have "split_on CHR ''.'' (join [CHR ''.''] (map str_of_nat ds)) = map str_of_nat ds"
    using assms(1) str_of_nat_digits digit_not_special by (intro split_on_join) fastforce+
  moreover have "those (map parse_octet (map str_of_nat ds)) = Some ds"
    using those_map_Some [of ds "parse_octet \<circ> str_of_nat" "\<lambda>d. d"] assms(2) parse_octet_str by simp
  ultimately show ?thesis by (simp add: parse_ipv4_def assms(1))
qed

lemma parse_hextet_hex: "n < 65536 \<Longrightarrow> parse_hextet (hex_of_nat n) = Some n"
proof -
  assume n: "n < 65536"
  obtain ds where ds: "hex_of_nat n = map hex_char ds" "ds \<noteq> []" "\<forall>d\<in>set ds. d < 16" "of_digits 16 ds = n"
    using hex_of_nat_digits by blast
  then have "parse_hex_digits (hex_of_nat n) = Some n" by (simp add: parse_hex_digits_map)
  moreover have "list_all (\<lambda>c. hex_value c \<noteq> None) (hex_of_nat n)" using ds by (simp add: list_all_iff)
  moreover have "length (hex_of_nat n) \<le> 4" using n by (intro length_hex_of_nat) simp_all
  ultimately show ?thesis by (simp add: parse_hextet_def)
qed

lemma hex_of_nat_nonempty [simp]: "hex_of_nat n \<noteq> []" "[] \<noteq> hex_of_nat n"
  by (simp_all add: hex_of_nat.simps [of n])

lemma hex_of_nat_chars: "c \<in> set (hex_of_nat n) \<Longrightarrow> c \<noteq> CHR ''.'' \<and> c \<noteq> CHR '':''"
proof -
  assume "c \<in> set (hex_of_nat n)"
  moreover obtain ds where "hex_of_nat n = map hex_char ds" "\<forall>d\<in>set ds. d < 16"
    using hex_of_nat_digits by blast
  ultimately obtain d where "c = hex_char d" "d < 16" by auto
  then have "hex_value c \<noteq> None" by simp
  then show ?thesis by (auto simp: hex_value_def)
qed

lemma hex_of_nat_zero: "hex_of_nat n = ''0'' \<longleftrightarrow> n = 0"
proof
  assume "hex_of_nat n = ''0''"
  then have "parse_hex_digits (hex_of_nat n) = Some 0" by (simp add: parse_hex_digits_def hex_value_def)
  moreover obtain ds where "hex_of_nat n = map hex_char ds" "ds \<noteq> []" "\<forall>d\<in>set ds. d < 16" "of_digits 16 ds = n"
    using hex_of_nat_digits by blast
  ultimately show "n = 0" by (simp add: parse_hex_digits_map)
qed (simp add: hex_of_nat.simps hex_char_0)

text \<open>The run found by \<open>zero_run\<close> lies within the list and consists of zeros.\<close>

definition run_ok :: "string list \<Rightarrow> nat \<times> nat \<Rightarrow> bool" where
  "run_ok hs best \<longleftrightarrow>
     fst best + snd best \<le> length hs \<and> (\<forall>j. fst best \<le> j \<longrightarrow> j < fst best + snd best \<longrightarrow> hs ! j = ''0'')"

lemma run_ok_append: "run_ok pre best \<Longrightarrow> run_ok (pre @ hs) best"
  by (auto simp: run_ok_def nth_append)

lemma zero_run_ok:
  assumes "run \<le> length pre" and "\<forall>j. length pre - run \<le> j \<longrightarrow> j < length pre \<longrightarrow> pre ! j = ''0''"
    and "run_ok pre best"
  shows "run_ok (pre @ hs) (zero_run (length pre) run best hs)"
  using assms
proof (induction hs arbitrary: pre run best)
  case Nil
  then show ?case by simp
next
  case (Cons h hs)
  have best: "run_ok (pre @ [h]) best" using Cons.prems(3) by (rule run_ok_append)
  show ?case
  proof (cases "h = ''0''")
    case True
    let ?best = "if run + 1 > snd best then (length pre - run, run + 1) else best"
    have "run_ok (pre @ [h]) ?best"
      using best Cons.prems(1,2) True by (auto simp: run_ok_def nth_append)
    moreover have "\<forall>j. length (pre @ [h]) - (run + 1) \<le> j \<longrightarrow> j < length (pre @ [h]) \<longrightarrow> (pre @ [h]) ! j = ''0''"
      using Cons.prems(1,2) True by (auto simp: nth_append)
    ultimately have "run_ok ((pre @ [h]) @ hs) (zero_run (length (pre @ [h])) (run + 1) ?best hs)"
      using Cons.prems(1) by (intro Cons.IH) simp_all
    then show ?thesis using True by simp
  next
    case False
    have "run_ok ((pre @ [h]) @ hs) (zero_run (length (pre @ [h])) 0 best hs)"
      using best by (intro Cons.IH) simp_all
    then show ?thesis using False by simp
  qed
qed

lemma run_ok_found:
  assumes "zero_run 0 0 (0, 0) hs = best"
  shows "run_ok hs best"
proof -
  have "run_ok [] (0, 0)" by (simp add: run_ok_def)
  then show ?thesis using zero_run_ok [of 0 "[]" "(0, 0)" hs] assms by simp
qed

lemma filter_upt_single:
  assumes "a \<le> k" and "k < b" and "P k" and "\<And>i. a \<le> i \<Longrightarrow> i < b \<Longrightarrow> i \<noteq> k \<Longrightarrow> \<not> P i"
  shows "filter P [a..<b] = [k]"
proof -
  have "[a..<b] = [a..<k] @ k # [Suc k..<b]"
    using upt_add_eq_append [of a k "b - k"] assms(1,2) by (simp add: upt_conv_Cons)
  moreover have "filter P [a..<k] = []" "filter P [Suc k..<b] = []"
    using assms(1,2,4) by (auto simp: filter_empty_conv)
  ultimately show ?thesis using assms(3) by simp
qed

lemma parse_full:
  assumes "length hs = 8" and "\<forall>h\<in>set hs. h \<noteq> []" and "those (map parse_hextet hs) = Some gs"
  shows "parse_hextets hs = Some (of_digits 65536 gs)"
proof -
  have "filter (\<lambda>i. hs ! i = []) [1..<length hs - 1] = []"
    using assms(1,2) by (auto simp: filter_empty_conv)
  moreover have "hs \<noteq> []" using assms(1) by auto
  ultimately show ?thesis using assms by (simp add: parse_hextets_def)
qed

lemma parse_compressed:
  assumes "\<forall>h\<in>set (his @ los). h \<noteq> []" and "length his + length los \<le> 6"
    and "those (map parse_hextet his) = Some hs" and "those (map parse_hextet los) = Some ls"
  shows "parse_hextets ((if his = [] then [[]] else []) @ his @ [[]] @ los @ (if los = [] then [[]] else [])) =
    Some (of_digits 65536 (hs @ replicate (8 - length his - length los) 0 @ ls))"
proof -
  let ?a = "if his = [] then [[]] else [] :: string list"
  let ?b = "if los = [] then [[]] else [] :: string list"
  let ?ps = "?a @ his @ [[]] @ los @ ?b"
  let ?k = "length ?a + length his"
  have len: "length ?ps = ?k + 1 + length los + length ?b" by simp
  have nth: "?ps ! i = (if i < length ?a then [] else if i < ?k then his ! (i - length ?a) else
      if i = ?k then [] else if i < ?k + 1 + length los then los ! (i - ?k - 1) else [])"
    if "i < length ?ps" for i
    using that by (auto simp: nth_append nth_Cons' split: if_splits)
  have skip: "filter (\<lambda>i. ?ps ! i = []) [1..<length ?ps - 1] = [?k]"
  proof (rule filter_upt_single)
    show "1 \<le> ?k" by (cases his) simp_all
    show "?k < length ?ps - 1" by (cases los) simp_all
    show "?ps ! ?k = []" using nth [of ?k] by simp
  next
    fix i assume i: "1 \<le> i" "i < length ?ps - 1" "i \<noteq> ?k"
    show "?ps ! i \<noteq> []"
    proof (cases "i < ?k")
      case True
      then have "i - length ?a < length his" "\<not> i < length ?a" using i by (auto split: if_splits)
      then show ?thesis using nth [of i] i True assms(1) by (auto simp del: append.simps)
    next
      case False
      then have "i - ?k - 1 < length los" using i by (cases "los = []") auto
      moreover from this False i have "i < ?k + 1 + length los" by linarith
      ultimately show ?thesis using nth [of i] i False assms(1) by (auto simp del: append.simps)
    qed
  qed
  have ends: "hd ?ps = [] \<longleftrightarrow> his = []" "last ?ps = [] \<longleftrightarrow> los = []"
    using assms(1) by (cases his; simp) (use assms(1) in \<open>cases los rule: rev_cases; simp\<close>)
  have hi: "(if hd ?ps = [] then ?k - 1 else ?k) = length his" by (simp only: ends) simp
  have lo: "length ?ps - ?k - 1 - (if last ?ps = [] then 1 else 0) = length los"
    by (simp only: ends len) simp
  have tk: "take (length his) ?ps = (if his = [] then [] else his)" by simp
  have dr: "drop (length ?ps - length los) ?ps = los" by (cases "los = []") simp_all
  have short: "\<not> 9 < length ?ps" using assms(2) by simp
  show ?thesis
    unfolding parse_hextets_def if_not_P [OF short] skip list.case Let_def hi lo dr
    using assms(2-4) by (simp only: ends tk) (auto split: if_splits)
qed

lemma zeros_between:
  assumes "run_ok (map hex_of_nat gs) (st, len)" and "length gs = 8"
  shows "take st gs @ replicate len 0 @ drop (st + len) gs = gs"
proof (rule nth_equalityI)
  have bound: "st + len \<le> 8" using assms by (simp add: run_ok_def)
  then show "length (take st gs @ replicate len 0 @ drop (st + len) gs) = length gs"
    using assms(2) by simp
  fix i assume "i < length (take st gs @ replicate len 0 @ drop (st + len) gs)"
  then have i: "i < 8" using assms(2) bound by simp
  have "gs ! i = 0" if "st \<le> i" "i < st + len"
  proof -
    have "map hex_of_nat gs ! i = ''0''" using assms(1) that by (simp add: run_ok_def del: nth_map)
    then show ?thesis using i assms(2) by (simp add: hex_of_nat_zero)
  qed
  then show "(take st gs @ replicate len 0 @ drop (st + len) gs) ! i = gs ! i"
    using i bound assms(2) by (auto simp: nth_append)
qed

lemma parse_hextets_print:
  assumes "length gs = 8" and "\<forall>g\<in>set gs. g < 65536"
  shows "parse_hextets (compress_hextets (map hex_of_nat gs)) = Some (of_digits 65536 gs)"
proof -
  let ?hs = "map hex_of_nat gs"
  obtain st len where run: "zero_run 0 0 (0, 0) ?hs = (st, len)" by (cases "zero_run 0 0 (0, 0) ?hs")
  have ok: "run_ok ?hs (st, len)" using run by (rule run_ok_found)
  have those: "those (map parse_hextet (map hex_of_nat xs)) = Some xs" if "set xs \<subseteq> set gs" for xs
    using those_map_Some [of xs "parse_hextet \<circ> hex_of_nat" "\<lambda>g. g"] assms(2) that parse_hextet_hex by auto
  show ?thesis
  proof (cases "len > 1")
    case False
    then have "compress_hextets ?hs = ?hs" using run by (simp add: compress_hextets_def)
    then show ?thesis using assms(1) those [of gs] by (simp add: parse_full)
  next
    case True
    let ?his = "map hex_of_nat (take st gs)" and ?los = "map hex_of_nat (drop (st + len) gs)"
    have bound: "st + len \<le> 8" using ok assms(1) by (simp add: run_ok_def)
    then have "compress_hextets ?hs =
        (if ?his = [] then [[]] else []) @ ?his @ [[]] @ ?los @ (if ?los = [] then [[]] else [])"
      using run True assms(1) by (auto simp: compress_hextets_def take_map drop_map)
    moreover have "8 - length ?his - length ?los = len" using bound assms(1) by simp
    moreover have "parse_hextets ((if ?his = [] then [[]] else []) @ ?his @ [[]] @ ?los @ (if ?los = [] then [[]] else [])) =
        Some (of_digits 65536 (take st gs @ replicate (8 - length ?his - length ?los) 0 @ drop (st + len) gs))"
      using True bound assms(1) by (intro parse_compressed those set_take_subset set_drop_subset) auto
    ultimately show ?thesis using zeros_between [OF ok assms(1)] by simp
  qed
qed

lemma compress_parts:
  assumes "length gs = 8"
  shows "compress_hextets (map hex_of_nat gs) \<noteq> []" "3 \<le> length (compress_hextets (map hex_of_nat gs))"
    "set (compress_hextets (map hex_of_nat gs)) \<subseteq> insert [] (hex_of_nat ` set gs)"
proof -
  let ?hs = "map hex_of_nat gs"
  obtain st len where run: "zero_run 0 0 (0, 0) ?hs = (st, len)" by (cases "zero_run 0 0 (0, 0) ?hs")
  have "run_ok ?hs (st, len)" using run by (rule run_ok_found)
  then have bound: "st + len \<le> 8" using assms by (simp add: run_ok_def)
  show three: "3 \<le> length (compress_hextets ?hs)"
    using run assms bound by (auto simp: compress_hextets_def Let_def)
  then show "compress_hextets ?hs \<noteq> []" by auto
  show "set (compress_hextets ?hs) \<subseteq> insert [] (hex_of_nat ` set gs)"
    using run by (auto simp: compress_hextets_def Let_def take_map drop_map split: if_splits
        dest: in_set_takeD in_set_dropD)
qed

lemma ip_address_str [simp]: "ip_address (ip_str a) = Inr a"
proof (cases a)
  case (IPv4Address w)
  have "parse_ipv4 (ip_str a) = Some (unat w)"
    using parse_ipv4_str [of "digits_of 256 4 (unat w)"] of_digits_of [of "unat w" 256 4]
      digits_of_less [of 256] unsigned_less [of w] IPv4Address
    by simp
  then show ?thesis by (simp add: ip_address_def IPv4Address)
next
  case (IPv6Address w)
  let ?gs = "digits_of 65536 8 (unat w)"
  let ?ps = "compress_hextets (map hex_of_nat ?gs)"
  have chars: "\<forall>p\<in>set ?ps. CHR '':'' \<notin> set p \<and> CHR ''.'' \<notin> set p"
    using compress_parts(3) [of ?gs] hex_of_nat_chars by fastforce
  then have split: "split_on CHR '':'' (join '':'' ?ps) = ?ps"
    using compress_parts(1) [of ?gs] by (intro split_on_join) simp_all
  have "CHR ''.'' \<notin> set (join '':'' ?ps)" using chars set_join [of "'':''" ?ps] by fastforce
  then have "parse_ipv4 (join '':'' ?ps) = None" by (simp add: parse_ipv4_def split_on_absent)
  moreover have "parse_hextets ?ps = Some (unat w)"
    using parse_hextets_print [of ?gs] of_digits_of [of "unat w" 65536 8] digits_of_less [of 65536]
      unsigned_less [of w]
    by simp
  then have "parse_ipv6 (join '':'' ?ps) = Some (unat w)"
    using compress_parts [of ?gs] chars by (simp add: parse_ipv6_def split Let_def)
  ultimately show ?thesis by (simp add: ip_address_def IPv6Address)
qed

lemma map_unat_of_nat:
  assumes "\<forall>d\<in>set ds. d < 256"
  shows "map (\<lambda>b :: byte. unat b) (map of_nat ds) = ds"
proof -
  have "unat (of_nat d :: byte) = d" if "d \<in> set ds" for d
    using assms that by (auto simp: unat_of_nat take_bit_eq_mod)
  then show ?thesis by (induction ds) simp_all
qed

lemma length_packed: "length (packed a) = (if version a = 6 then 16 else 4)"
  by (cases a) simp_all

lemma packed_value: "of_digits 256 (map unat (packed a)) = address_int a"
proof (cases a)
  case (IPv4Address w)
  then show ?thesis
    using of_digits_of [of "unat w" 256 4] unsigned_less [of w] digits_of_less [of 256]
    by (simp add: map_unat_of_nat del: map_map)
next
  case (IPv6Address w)
  then show ?thesis
    using of_digits_of [of "unat w" 256 16] unsigned_less [of w] digits_of_less [of 256]
    by (simp add: map_unat_of_nat del: map_map)
qed

text \<open>
  \<open>int_to_ip\<close> prints every number below \<open>2 ^ 128\<close> as an address from which \<open>ip_to_int\<close>
  reads the number back (also through the compressed notation of IPv6), and raises
  \<open>ValueError\<close> for every other number.
\<close>

theorem int_ip_round_trip:
  "if 0 \<le> n \<and> n < 2 ^ 128 then \<exists>s. int_to_ip n = Inr s \<and> ip_to_int s = Inr n
   else \<exists>m. int_to_ip n = Inl (ValueError m)"
proof (cases "0 \<le> n \<and> n < 2 ^ 128")
  case True
  then obtain a where a: "ip_address_of_int n = Inr a" and "int (address_int a) = n"
    by (cases "n < 2 ^ 32") (auto simp: ip_address_of_int_def unsigned_of_int take_bit_int_eq_self)
  then have "int_to_ip n = Inr (ip_str a)" "ip_to_int (ip_str a) = Inr n"
    by (simp_all add: int_to_ip_def ip_to_int_def)
  with True show ?thesis by simp
next
  case False
  then show ?thesis by (auto simp: int_to_ip_def ip_address_of_int_def)
qed

end
