(* ===== verification/Papi.thy ===== *)
theory Papi
  imports VppApiCrc Topology IpAddress
begin

text \<open>
  \<open>PapiHistory.py\<close> and the class \<open>PapiSocketExecutor\<close> of \<open>PapiExecutor.py\<close>: commands of the VPP
  API are collected, checked against the known checksums (\<open>VppApiCrc\<close>), noted in the history of the
  node and sent over a tunnel, with one reconnection when the connection breaks. The VPP client and the
  tunnel are the argument \<open>env\<close>; their state is threaded as \<open>'w\<close>. The class fields
  \<open>vpp_instance\<close> and \<open>crc_checker\<close> are taken as initialized.
\<close>

section \<open>History\<close>

type_synonym papi_history = "(pyval, string list) pydict"

fun hashable :: "pyval \<Rightarrow> bool" where
  "hashable (VList xs) = False"
| "hashable (VDict d) = False"
| "hashable v = True"

definition reset_papi_history :: "node \<Rightarrow> papi_history \<Rightarrow> unit res \<times> papi_history" where
  "reset_papi_history node h =
     (case getitem node ''host'' of
        Inl e \<Rightarrow> (Inl e, h)
      | Inr host \<Rightarrow>
          if hashable host then (Inr (), AList.update host [] h) else (Inl (TypeError ''unhashable type''), h))"

fun reset_histories :: "node list \<Rightarrow> papi_history \<Rightarrow> unit res \<times> papi_history" where
  "reset_histories [] h = (Inr (), h)"
| "reset_histories (node # nodes) h =
     (case getitem node ''type'' of
        Inl e \<Rightarrow> (Inl e, h)
      | Inr t \<Rightarrow>
          if t = VStr ''DUT'' then
            (case reset_papi_history node h of
               (Inl e, h1) \<Rightarrow> (Inl e, h1)
             | (Inr u, h1) \<Rightarrow> reset_histories nodes h1)
          else reset_histories nodes h)"

definition reset_papi_history_on_all_duts :: "nodes \<Rightarrow> papi_history \<Rightarrow> unit res \<times> papi_history" where
  "reset_papi_history_on_all_duts nodes h = reset_histories (map snd nodes) h"

definition history_item :: "string \<Rightarrow> bool \<Rightarrow> pyobj \<Rightarrow> string" where
  "history_item cmd papi kwargs =
     (if papi then cmd @ ''('' @ join '','' (map (\<lambda>(k, v). k @ ''='' @ py_repr v) kwargs) @ '')'' else cmd)"

definition add_to_papi_history ::
    "node \<Rightarrow> string \<Rightarrow> bool \<Rightarrow> pyobj \<Rightarrow> papi_history \<Rightarrow> unit res \<times> papi_history" where
  "add_to_papi_history node cmd papi kwargs h =
     (case getitem node ''host'' of
        Inl e \<Rightarrow> (Inl e, h)
      | Inr host \<Rightarrow>
          if \<not> hashable host then (Inl (TypeError ''unhashable type''), h)
          else case map_of h host of
                 None \<Rightarrow> (Inl (KeyError (py_str host)), h)
               | Some lines \<Rightarrow> (Inr (), AList.update host (lines @ [history_item cmd papi kwargs]) h))"

text \<open>The text that is logged.\<close>

definition show_papi_history :: "node \<Rightarrow> papi_history \<Rightarrow> string res" where
  "show_papi_history node h =
     bindE (getitem node ''host'') (\<lambda>host.
     if \<not> hashable host then Inl (TypeError ''unhashable type'')
     else case map_of h host of
            None \<Rightarrow> Inl (KeyError (py_str host))
          | Some lines \<Rightarrow>
              Inr (py_str host @ '' PAPI command history:'' @ [CHR 0x0A] @
                   join [CHR 0x0A] (if lines = [] then [''No PAPI command executed''] else lines) @ [CHR 0x0A]))"

definition show_papi_history_on_all_duts :: "nodes \<Rightarrow> papi_history \<Rightarrow> string list res" where
  "show_papi_history_on_all_duts nodes h =
     foldE (\<lambda>out node. bindE (getitem node ''type'') (\<lambda>t.
       if t = VStr ''DUT'' then bindE (show_papi_history node h) (\<lambda>s. Inr (out @ [s])) else Inr out))
       [] (map snd nodes)"

section \<open>Executor\<close>

text \<open>
  What the client can raise: \<open>IOError\<close>, \<open>struct.error\<close>, \<open>AttributeError\<close> or something else. A reply is
  an object or a list of objects; each has the name of its class and, if it is namedtuple-like,
  fields.
\<close>

datatype papi_error = PapiIOError | PapiStructError | PapiAttributeError | PapiOther py_error

fun raised :: "papi_error \<Rightarrow> py_error" where
  "raised PapiIOError = PyException ''IOError''"
| "raised PapiStructError = PyException ''struct.error''"
| "raised PapiAttributeError = AttributeError"
| "raised (PapiOther e) = e"

record reply_item =
  msg_class :: string
  msg_fields :: "pyobj option"

datatype papi_reply = Single reply_item | Several "reply_item list"

fun reply_items :: "papi_reply \<Rightarrow> reply_item list" where
  "reply_items (Single item) = [item]"
| "reply_items (Several its) = its"

record 'w vpp_env =
  has_message :: "string \<Rightarrow> bool"
  send :: "string \<Rightarrow> pyobj \<Rightarrow> 'w \<Rightarrow> (papi_error + papi_reply) \<times> 'w"
  disconnect :: "'w \<Rightarrow> (papi_error + unit) \<times> 'w"
  connect_sync :: "'w \<Rightarrow> (papi_error + unit) \<times> 'w"
  sleep :: "'w \<Rightarrow> 'w"
  open_tunnel :: "node \<Rightarrow> string \<Rightarrow> 'w \<Rightarrow> unit res \<times> 'w"
  close_tunnel :: "'w \<Rightarrow> unit res \<times> 'w"

record papi_command =
  api_name :: string
  api_args :: pyobj

record papi_executor =
  pe_node :: node
  remote_vpp_socket :: string
  api_command_list :: "papi_command list"

record 'w papi_state =
  ps_checker :: crc_checker
  ps_history :: papi_history
  ps_vpp :: 'w

definition PapiSocketExecutor :: "node \<Rightarrow> string \<Rightarrow> papi_executor" where
  "PapiSocketExecutor node socket = \<lparr>pe_node = node, remote_vpp_socket = socket, api_command_list = []\<rparr>"

definition papi_add ::
    "papi_executor \<Rightarrow> string \<Rightarrow> bool \<Rightarrow> pyobj \<Rightarrow> 'w papi_state \<Rightarrow> unit res \<times> papi_executor \<times> 'w papi_state" where
  "papi_add ex cmd history kwargs st =
     (case report_initial_conflicts (ps_checker st) False of
        (Inl e, ck) \<Rightarrow> (Inl e, ex, st\<lparr>ps_checker := ck\<rparr>)
      | (Inr u, ck) \<Rightarrow>
          (case (if history then add_to_papi_history (pe_node ex) cmd True kwargs (ps_history st)
                 else (Inr (), ps_history st)) of
             (Inl e, h) \<Rightarrow> (Inl e, ex, st\<lparr>ps_checker := ck, ps_history := h\<rparr>)
           | (Inr u, h) \<Rightarrow>
               (case check_api_name ck (VStr cmd) of
                  (Inl e, ck1) \<Rightarrow> (Inl e, ex, st\<lparr>ps_checker := ck1, ps_history := h\<rparr>)
                | (Inr u, ck1) \<Rightarrow>
                    (Inr (),
                     ex\<lparr>api_command_list := api_command_list ex @ [\<lparr>api_name = cmd, api_args = kwargs\<rparr>]\<rparr>,
                     st\<lparr>ps_checker := ck1, ps_history := h\<rparr>))))"

definition reconnectable :: "papi_error \<Rightarrow> bool" where
  "reconnectable e \<longleftrightarrow> e = PapiIOError \<or> e = PapiStructError"

text \<open>The inner \<open>try\<close>: one attempt to reconnect and send again.\<close>

definition call_api :: "'w vpp_env \<Rightarrow> papi_command \<Rightarrow> 'w \<Rightarrow> (papi_error + papi_reply) \<times> 'w" where
  "call_api env c w =
     (case send env (api_name c) (api_args c) w of
        (Inr r, w1) \<Rightarrow> (Inr r, w1)
      | (Inl e, w1) \<Rightarrow>
          if \<not> reconnectable e then (Inl e, w1)
          else case disconnect env w1 of
                 (Inl e2, w2) \<Rightarrow> (Inl e2, w2)
               | (Inr u, w2) \<Rightarrow>
                   (case connect_sync env (sleep env w2) of
                      (Inl e3, w3) \<Rightarrow> (Inl e3, w3)
                    | (Inr u, w3) \<Rightarrow> send env (api_name c) (api_args c) w3))"

definition is_int :: "pyval \<Rightarrow> int \<Rightarrow> bool" where
  "is_int v n \<longleftrightarrow> v = VInt n \<or> v = VBool True \<and> n = 1 \<or> v = VBool False \<and> n = 0"

fun process_items :: "int \<Rightarrow> reply_item list \<Rightarrow> pyobj list \<Rightarrow> crc_checker \<Rightarrow> pyobj list res \<times> crc_checker" where
  "process_items exp_rv [] replies ck = (Inr replies, ck)"
| "process_items exp_rv (item # its) replies ck =
     (case check_api_name ck (VStr (msg_class item)) of
        (Inl e, ck1) \<Rightarrow> (Inl e, ck1)
      | (Inr u, ck1) \<Rightarrow>
          (case msg_fields item of
             None \<Rightarrow> (Inl AttributeError, ck1)
           | Some d \<Rightarrow>
               (case map_of d ''retval'' of
                  None \<Rightarrow> process_items exp_rv its (replies @ [d]) ck1
                | Some rv \<Rightarrow>
                    if is_int rv exp_rv then process_items exp_rv its (replies @ [d]) ck1
                    else (Inl (AssertionError ''Retval does not match expected retval''), ck1))))"

fun execute_commands ::
    "'w vpp_env \<Rightarrow> string \<Rightarrow> int \<Rightarrow> papi_command list \<Rightarrow> pyobj list \<Rightarrow> 'w papi_state \<Rightarrow> pyobj list res \<times> 'w papi_state" where
  "execute_commands env err_msg exp_rv [] replies st = (Inr replies, st)"
| "execute_commands env err_msg exp_rv (c # cs) replies st =
     (if \<not> has_message env (api_name c) then (Inl AttributeError, st)
      else case call_api env c (ps_vpp st) of
             (Inl e, w) \<Rightarrow>
               (Inl (case e of PapiOther x \<Rightarrow> x | _ \<Rightarrow> AssertionError err_msg), st\<lparr>ps_vpp := w\<rparr>)
           | (Inr reply, w) \<Rightarrow>
               (case process_items exp_rv (reply_items reply) replies (ps_checker st) of
                  (Inl e, ck) \<Rightarrow> (Inl e, st\<lparr>ps_vpp := w, ps_checker := ck\<rparr>)
                | (Inr replies1, ck) \<Rightarrow>
                    execute_commands env err_msg exp_rv cs replies1 (st\<lparr>ps_vpp := w, ps_checker := ck\<rparr>)))"

definition papi_execute ::
    "'w vpp_env \<Rightarrow> papi_executor \<Rightarrow> string \<Rightarrow> int \<Rightarrow> 'w papi_state \<Rightarrow> pyobj list res \<times> papi_executor \<times> 'w papi_state" where
  "papi_execute env ex err_msg exp_rv st =
     (case execute_commands env err_msg exp_rv (api_command_list ex) [] st of
        (r, st1) \<Rightarrow> (r, ex\<lparr>api_command_list := []\<rparr>, st1))"

definition get_replies ::
    "'w vpp_env \<Rightarrow> papi_executor \<Rightarrow> string \<Rightarrow> 'w papi_state \<Rightarrow> pyobj list res \<times> papi_executor \<times> 'w papi_state" where
  "get_replies env ex err_msg st = papi_execute env ex err_msg 0 st"

definition get_details ::
    "'w vpp_env \<Rightarrow> papi_executor \<Rightarrow> string \<Rightarrow> 'w papi_state \<Rightarrow> pyobj list res \<times> papi_executor \<times> 'w papi_state" where
  "get_details env ex err_msg st = papi_execute env ex err_msg 0 st"

definition get_reply ::
    "'w vpp_env \<Rightarrow> papi_executor \<Rightarrow> string \<Rightarrow> 'w papi_state \<Rightarrow> pyobj res \<times> papi_executor \<times> 'w papi_state" where
  "get_reply env ex err_msg st =
     (case get_replies env ex err_msg st of
        (r, ex1, st1) \<Rightarrow>
          (bindE r (\<lambda>replies. case replies of
             [reply] \<Rightarrow> Inr reply
           | _ \<Rightarrow> Inl (RuntimeError ''Expected single reply'')), ex1, st1))"

definition get_sw_if_index ::
    "'w vpp_env \<Rightarrow> papi_executor \<Rightarrow> string \<Rightarrow> 'w papi_state \<Rightarrow> pyval res \<times> papi_executor \<times> 'w papi_state" where
  "get_sw_if_index env ex err_msg st =
     (case get_reply env ex err_msg st of
        (r, ex1, st1) \<Rightarrow> (bindE r (\<lambda>reply. getitem reply ''sw_if_index''), ex1, st1))"

section \<open>Sessions\<close>

definition SOCKSVR_PATH :: string where
  "SOCKSVR_PATH = ''/run/vpp/api.sock''"

definition BITWISE_NON_ZERO :: int where
  "BITWISE_NON_ZERO = 0xffffffff"

text \<open>\<^verbatim>\<open>__enter__\<close>: the tunnel, then at most two attempts to connect; \<^verbatim>\<open>__exit__\<close>.\<close>

fun connect_attempts :: "nat \<Rightarrow> 'w vpp_env \<Rightarrow> 'w \<Rightarrow> unit res \<times> 'w" where
  "connect_attempts 0 env w = (Inl (RuntimeError ''Failed to connect to VPP over a socket.''), w)"
| "connect_attempts (Suc n) env w =
     (case connect_sync env w of
        (Inr u, w1) \<Rightarrow> (Inr (), w1)
      | (Inl e, w1) \<Rightarrow>
          if \<not> reconnectable e then (Inl (raised e), w1)
          else case disconnect env w1 of
                 (Inl e2, w2) \<Rightarrow> (Inl (raised e2), w2)
               | (Inr u, w2) \<Rightarrow> connect_attempts n env w2)"

definition papi_enter :: "'w vpp_env \<Rightarrow> node \<Rightarrow> string \<Rightarrow> 'w \<Rightarrow> unit res \<times> 'w" where
  "papi_enter env node socket w =
     (case open_tunnel env node socket w of
        (Inl e, w1) \<Rightarrow> (Inl e, w1)
      | (Inr u, w1) \<Rightarrow> connect_attempts 2 env w1)"

definition papi_exit :: "'w vpp_env \<Rightarrow> 'w \<Rightarrow> unit res \<times> 'w" where
  "papi_exit env w =
     (case disconnect env w of
        (Inl e, w1) \<Rightarrow> (Inl (raised e), w1)
      | (Inr u, w1) \<Rightarrow> close_tunnel env w1)"

text \<open>\<^verbatim>\<open>with PapiSocketExecutor(node, socket) as papi_exec: body\<close>.\<close>

definition with_papi ::
    "'w vpp_env \<Rightarrow> node \<Rightarrow> string \<Rightarrow>
     (papi_executor \<Rightarrow> 'w papi_state \<Rightarrow> 'a res \<times> papi_executor \<times> 'w papi_state) \<Rightarrow>
     'w papi_state \<Rightarrow> 'a res \<times> 'w papi_state" where
  "with_papi env node socket body st =
     (case papi_enter env node socket (ps_vpp st) of
        (Inl e, w) \<Rightarrow> (Inl e, st\<lparr>ps_vpp := w\<rparr>)
      | (Inr u, w) \<Rightarrow>
          (case body (PapiSocketExecutor node socket) (st\<lparr>ps_vpp := w\<rparr>) of
             (r, ex, st1) \<Rightarrow>
               (case papi_exit env (ps_vpp st1) of
                  (Inl e, w1) \<Rightarrow> (Inl e, st1\<lparr>ps_vpp := w1\<rparr>)
                | (Inr u, w1) \<Rightarrow> (r, st1\<lparr>ps_vpp := w1\<rparr>))))"

text \<open>
  The ways the keywords use a session: they compute the arguments of one or more commands, which may
  raise, add the commands and read the replies.
\<close>

type_synonym request = "string \<times> bool \<times> pyobj"

fun add_all ::
    "request list \<Rightarrow> papi_executor \<Rightarrow> 'w papi_state \<Rightarrow> unit res \<times> papi_executor \<times> 'w papi_state" where
  "add_all [] ex st = (Inr (), ex, st)"
| "add_all ((cmd, history, kwargs) # rs) ex st =
     (case papi_add ex cmd history kwargs st of
        (Inl e, ex1, st1) \<Rightarrow> (Inl e, ex1, st1)
      | (Inr u, ex1, st1) \<Rightarrow> add_all rs ex1 st1)"

definition run_requests ::
    "(papi_executor \<Rightarrow> 'w papi_state \<Rightarrow> 'a res \<times> papi_executor \<times> 'w papi_state) \<Rightarrow>
     request list \<Rightarrow> papi_executor \<Rightarrow> 'w papi_state \<Rightarrow> 'a res \<times> papi_executor \<times> 'w papi_state" where
  "run_requests finish rs ex st =
     (case add_all rs ex st of
        (Inl e, ex1, st1) \<Rightarrow> (Inl e, ex1, st1)
      | (Inr u, ex1, st1) \<Rightarrow> finish ex1 st1)"

definition requests ::
    "'w vpp_env \<Rightarrow> node \<Rightarrow> (papi_executor \<Rightarrow> 'w papi_state \<Rightarrow> 'a res \<times> papi_executor \<times> 'w papi_state) \<Rightarrow>
     request list res \<Rightarrow> 'w papi_state \<Rightarrow> 'a res \<times> 'w papi_state" where
  "requests env node finish prepared st =
     (case prepared of
        Inl e \<Rightarrow> (Inl e, st)
      | Inr rs \<Rightarrow> with_papi env node SOCKSVR_PATH (run_requests finish rs) st)"

definition request_replies ::
    "'w vpp_env \<Rightarrow> node \<Rightarrow> (string \<times> pyobj) list res \<Rightarrow> string \<Rightarrow> 'w papi_state \<Rightarrow> pyobj list res \<times> 'w papi_state" where
  "request_replies env node prepared err_msg st =
     requests env node (\<lambda>ex. get_replies env ex err_msg)
       (bindE prepared (\<lambda>rs. Inr (map (\<lambda>(cmd, kwargs). (cmd, True, kwargs)) rs))) st"

definition request_reply ::
    "'w vpp_env \<Rightarrow> node \<Rightarrow> string \<Rightarrow> pyobj res \<Rightarrow> string \<Rightarrow> 'w papi_state \<Rightarrow> pyobj res \<times> 'w papi_state" where
  "request_reply env node cmd prepared err_msg st =
     requests env node (\<lambda>ex. get_reply env ex err_msg)
       (bindE prepared (\<lambda>kwargs. Inr [(cmd, True, kwargs)])) st"

definition request_details ::
    "'w vpp_env \<Rightarrow> node \<Rightarrow> string \<Rightarrow> pyobj res \<Rightarrow> string \<Rightarrow> 'w papi_state \<Rightarrow> pyobj list res \<times> 'w papi_state" where
  "request_details env node cmd prepared err_msg st =
     requests env node (\<lambda>ex. get_details env ex err_msg)
       (bindE prepared (\<lambda>kwargs. Inr [(cmd, True, kwargs)])) st"

text \<open>The result of a keyword that returns nothing, or a function of the reply.\<close>

definition mapS :: "('a \<Rightarrow> 'b res) \<Rightarrow> 'a res \<times> 's \<Rightarrow> 'b res \<times> 's" where
  "mapS f r = (bindE (fst r) f, snd r)"

definition nothing :: "'a res \<times> 's \<Rightarrow> unit res \<times> 's" where
  "nothing r = mapS (\<lambda>_. Inr ()) r"

definition run_cli_cmd ::
    "'w vpp_env \<Rightarrow> node \<Rightarrow> string \<Rightarrow> string \<Rightarrow> 'w papi_state \<Rightarrow> pyval res \<times> 'w papi_state" where
  "run_cli_cmd env node cli_cmd socket st =
     (case getitem node ''host'' of
        Inl e \<Rightarrow> (Inl e, st)
      | Inr host \<Rightarrow>
          with_papi env node socket
            (\<lambda>ex st. case run_requests
                (\<lambda>ex. get_reply env ex
                   (''Failed to run '' @ [CHR 39] @ ''cli_inband '' @ cli_cmd @ [CHR 39] @
                    '' PAPI command on host '' @ py_str host))
                [(''cli_inband'', True, [(''cmd'', VStr cli_cmd)])] ex st of
               (r, ex1, st1) \<Rightarrow> (bindE r (\<lambda>reply. getitem reply ''reply''), ex1, st1)) st)"

fun run_on_sockets :: "'w vpp_env \<Rightarrow> node \<Rightarrow> string \<Rightarrow> pyval list \<Rightarrow> 'w papi_state \<Rightarrow> unit res \<times> 'w papi_state" where
  "run_on_sockets env node cli_cmd [] st = (Inr (), st)"
| "run_on_sockets env node cli_cmd (socket # sockets) st =
     (case run_cli_cmd env node cli_cmd (py_str socket) st of
        (Inl e, st1) \<Rightarrow> (Inl e, st1)
      | (Inr v, st1) \<Rightarrow> run_on_sockets env node cli_cmd sockets st1)"

definition run_cli_cmd_on_all_sockets ::
    "'w vpp_env \<Rightarrow> node \<Rightarrow> string \<Rightarrow> 'w papi_state \<Rightarrow> unit res \<times> 'w papi_state" where
  "run_cli_cmd_on_all_sockets env node cli_cmd st =
     (case get_node_sockets node (Some ''PAPI'') of
        Inl e \<Rightarrow> (Inl e, st)
      | Inr sockets \<Rightarrow>
          if \<not> truthy_val sockets then (Inr (), st)
          else case sockets of
                 VDict d \<Rightarrow> run_on_sockets env node cli_cmd (map snd d) st
               | _ \<Rightarrow> (Inl AttributeError, st))"

fun dump_all ::
    "'w vpp_env \<Rightarrow> string list \<Rightarrow> papi_executor \<Rightarrow> 'w papi_state \<Rightarrow> unit res \<times> papi_executor \<times> 'w papi_state" where
  "dump_all env [] ex st = (Inr (), ex, st)"
| "dump_all env (cmd # cmds) ex st =
     (case run_requests (\<lambda>ex. get_details env ex ''Failed to get dump details.'') [(cmd, True, [])] ex st of
        (Inl e, ex1, st1) \<Rightarrow> (Inl e, ex1, st1)
      | (Inr d, ex1, st1) \<Rightarrow> dump_all env cmds ex1 st1)"

definition dump_and_log :: "'w vpp_env \<Rightarrow> node \<Rightarrow> string list \<Rightarrow> 'w papi_state \<Rightarrow> unit res \<times> 'w papi_state" where
  "dump_and_log env node cmds st = with_papi env node SOCKSVR_PATH (dump_all env cmds) st"

section \<open>What is sent\<close>

text \<open>An environment that also keeps the list of the commands sent.\<close>

definition lift_w :: "('w \<Rightarrow> 'a \<times> 'w) \<Rightarrow> 'w \<times> 'l \<Rightarrow> 'a \<times> 'w \<times> 'l" where
  "lift_w f s = (fst (f (fst s)), snd (f (fst s)), snd s)"

definition logged :: "'w vpp_env \<Rightarrow> ('w \<times> papi_command list) vpp_env" where
  "logged env =
     \<lparr>has_message = has_message env,
      send = (\<lambda>name args s.
        (fst (send env name args (fst s)), snd (send env name args (fst s)),
         snd s @ [\<lparr>api_name = name, api_args = args\<rparr>])),
      disconnect = lift_w (disconnect env), connect_sync = lift_w (connect_sync env),
      sleep = (\<lambda>s. (sleep env (fst s), snd s)),
      open_tunnel = (\<lambda>node socket. lift_w (open_tunnel env node socket)),
      close_tunnel = lift_w (close_tunnel env)\<rparr>"

lemma logged_simps [simp]:
  "has_message (logged env) = has_message env"
  "send (logged env) name args s =
     (fst (send env name args (fst s)), snd (send env name args (fst s)),
      snd s @ [\<lparr>api_name = name, api_args = args\<rparr>])"
  "disconnect (logged env) = lift_w (disconnect env)"
  "connect_sync (logged env) = lift_w (connect_sync env)"
  "sleep (logged env) s = (sleep env (fst s), snd s)"
  "open_tunnel (logged env) node socket = lift_w (open_tunnel env node socket)"
  "close_tunnel (logged env) = lift_w (close_tunnel env)"
  by (simp_all add: logged_def)

lemma lift_w_eq [simp]: "lift_w f s = (r, w, l) \<longleftrightarrow> f (fst s) = (r, w) \<and> l = snd s"
  by (auto simp: lift_w_def prod_eq_iff)

text \<open>
  Commands are sent in order, each once or, after a reconnection, twice: all of them, or the first
  ones.
\<close>

inductive all_sent :: "papi_command list \<Rightarrow> papi_command list \<Rightarrow> bool" where
  all_sent_Nil: "all_sent [] []"
| all_sent_Cons: "n = 1 \<or> n = 2 \<Longrightarrow> all_sent cs out \<Longrightarrow> all_sent (c # cs) (replicate n c @ out)"

inductive first_sent :: "papi_command list \<Rightarrow> papi_command list \<Rightarrow> bool" where
  first_sent_Nil: "first_sent cs []"
| first_sent_Cons: "n = 1 \<or> n = 2 \<Longrightarrow> first_sent cs out \<Longrightarrow> first_sent (c # cs) (replicate n c @ out)"

inductive_cases all_sent_ConsE: "all_sent (c # cs) out"

lemma all_sent_first: "all_sent cs out \<Longrightarrow> first_sent cs out"
  by (induction rule: all_sent.induct) (auto intro: first_sent.intros)

lemma first_sent_one: "n = 1 \<or> n = 2 \<Longrightarrow> first_sent (c # cs) (replicate n c)"
  using first_sent_Cons [OF _ first_sent_Nil] by simp

lemma first_sent_single: "first_sent (c # cs) [c]"
  using first_sent_one [of 1 c cs] by simp

lemma first_sent_subset: "first_sent cs out \<Longrightarrow> set out \<subseteq> set cs"
  by (induction rule: first_sent.induct) auto

lemma call_api_logged:
  assumes "call_api (logged env) c s = (r, s')"
  shows "\<exists>n. (n = 1 \<or> n = 2) \<and> snd s' = snd s @ replicate n c"
proof -
  obtain r1 w1 where first: "send env (api_name c) (api_args c) (fst s) = (r1, w1)" by fastforce
  have eta: "\<lparr>api_name = api_name c, api_args = api_args c\<rparr> = c" by simp
  consider (once) "snd s' = snd s @ [c]" | (twice) "snd s' = (snd s @ [c]) @ [c]"
  proof (cases r1)
    case (Inr reply)
    then show ?thesis using assms first once by (auto simp: call_api_def eta)
  next
    case (Inl e)
    show ?thesis
    proof (cases "reconnectable e")
      case False
      then show ?thesis using assms first Inl once by (auto simp: call_api_def eta)
    next
      case True
      obtain r2 w2 where "disconnect env w1 = (r2, w2)" by fastforce
      moreover obtain r3 w3 where "connect_sync env (sleep env w2) = (r3, w3)" by fastforce
      ultimately show ?thesis
        using assms first Inl True once twice
        by (cases r2; cases r3) (auto simp: call_api_def eta lift_w_def)
    qed
  qed
  then show ?thesis
    by cases (rule exI [of _ "1 :: nat"], simp, rule exI [of _ "2 :: nat"], simp add: numeral_2_eq_2)
qed

definition retvals_ok :: "int \<Rightarrow> pyobj list \<Rightarrow> bool" where
  "retvals_ok rv ds \<longleftrightarrow> (\<forall>d\<in>set ds. \<forall>v. map_of d ''retval'' = Some v \<longrightarrow> is_int v rv)"

lemma process_items_retvals:
  "process_items rv its replies ck = (Inr ds, ck') \<Longrightarrow> retvals_ok rv replies \<Longrightarrow> retvals_ok rv ds"
proof (induction its arbitrary: replies ck)
  case (Cons item its)
  obtain e ck1 where chk: "check_api_name ck (VStr (msg_class item)) = (e, ck1)" by fastforce
  show ?case
  proof (cases e)
    case (Inr u)
    with Cons.prems(1) chk obtain d where d: "msg_fields item = Some d"
      by (cases "msg_fields item") simp_all
    have rest: "process_items rv its (replies @ [d]) ck1 = (Inr ds, ck') \<and> retvals_ok rv (replies @ [d])"
      using Cons.prems chk Inr d
      by (cases "map_of d ''retval''") (auto simp: retvals_ok_def split: if_splits)
    then show ?thesis using Cons.IH by blast
  qed (use Cons.prems(1) chk in simp)
qed simp

lemma execute_commands_logged:
  assumes "execute_commands (logged env) msg rv cs replies st = (r, st')"
  shows "\<exists>out. snd (ps_vpp st') = snd (ps_vpp st) @ out \<and> first_sent cs out \<and>
    ps_history st' = ps_history st \<and>
    (\<forall>ds. r = Inr ds \<longrightarrow> all_sent cs out \<and> (retvals_ok rv replies \<longrightarrow> retvals_ok rv ds))"
  using assms
proof (induction cs arbitrary: replies st)
  case Nil
  then show ?case by (auto intro: exI [of _ "[]"] first_sent_Nil all_sent_Nil)
next
  case (Cons c cs)
  show ?case
  proof (cases "has_message env (api_name c)")
    case False
    with Cons.prems show ?thesis by (auto intro: first_sent_Nil)
  next
    case True
    obtain r1 s1 where call: "call_api (logged env) c (ps_vpp st) = (r1, s1)"
      by (cases "call_api (logged env) c (ps_vpp st)") blast
    then obtain n where n: "n = 1 \<or> n = 2" "snd s1 = snd (ps_vpp st) @ replicate n c"
      using call_api_logged by blast
    show ?thesis
    proof (cases r1)
      case (Inl e)
      with Cons.prems True call n show ?thesis by (auto intro: first_sent_one first_sent_single)
    next
      case (Inr reply)
      obtain r2 ck where items: "process_items rv (reply_items reply) replies (ps_checker st) = (r2, ck)"
        by fastforce
      show ?thesis
      proof (cases r2)
        case (Inl e)
        with Cons.prems True call n Inr items show ?thesis by (auto intro: first_sent_one first_sent_single)
      next
        case (Inr replies1)
        let ?st = "st\<lparr>ps_vpp := s1, ps_checker := ck\<rparr>"
        have "execute_commands (logged env) msg rv cs replies1 ?st = (r, st')"
          using Cons.prems True call \<open>r1 = Inr reply\<close> items Inr by simp
        from Cons.IH [OF this] obtain out where
          out: "snd (ps_vpp st') = snd s1 @ out" "first_sent cs out" "ps_history st' = ps_history st"
            "\<forall>ds. r = Inr ds \<longrightarrow> all_sent cs out \<and> (retvals_ok rv replies1 \<longrightarrow> retvals_ok rv ds)"
          by auto
        moreover have "retvals_ok rv replies \<longrightarrow> retvals_ok rv replies1"
          using process_items_retvals items Inr by blast
        ultimately show ?thesis
          using n by (intro exI [of _ "replicate n c @ out"]) (auto intro: first_sent_Cons all_sent_Cons)
      qed
    qed
  qed
qed

section \<open>Sessions and the history\<close>

lemma connect_attempts_logged: "snd (snd (connect_attempts n (logged env) s)) = snd s"
proof (induction n arbitrary: s)
  case (Suc n)
  obtain r1 w1 where c: "connect_sync env (fst s) = (r1, w1)" by (cases "connect_sync env (fst s)") blast
  obtain r2 w2 where d: "disconnect env w1 = (r2, w2)" by (cases "disconnect env w1") blast
  show ?case using Suc [of "(w2, snd s)"] c d by (cases r1; cases r2) (auto simp: lift_w_def)
qed simp

lemma papi_enter_logged: "snd (snd (papi_enter (logged env) node socket s)) = snd s"
proof -
  obtain r w where t: "open_tunnel env node socket (fst s) = (r, w)"
    by (cases "open_tunnel env node socket (fst s)") blast
  show ?thesis
    using connect_attempts_logged [of 2 env "(w, snd s)"] t by (cases r) (auto simp: papi_enter_def lift_w_def)
qed

lemma papi_exit_logged: "snd (snd (papi_exit (logged env) s)) = snd s"
proof -
  obtain r w where d: "disconnect env (fst s) = (r, w)" by (cases "disconnect env (fst s)") blast
  then show ?thesis by (cases r) (auto simp: papi_exit_def lift_w_def)
qed

lemma add_to_history_run:
  assumes "map_of node ''host'' = Some host" and "hashable host" and "map_of h host = Some lines"
  shows "add_to_papi_history node cmd papi kwargs h =
    (Inr (), AList.update host (lines @ [history_item cmd papi kwargs]) h)"
  using assms by (simp add: add_to_papi_history_def getitem_def)

definition command_of :: "string \<times> pyobj \<Rightarrow> papi_command" where
  "command_of r = \<lparr>api_name = fst r, api_args = snd r\<rparr>"

definition line_of :: "string \<times> pyobj \<Rightarrow> string" where
  "line_of r = history_item (fst r) True (snd r)"

text \<open>One command: its line in the history, unless old conflicts are raised first.\<close>

lemma papi_add_run:
  assumes "papi_add ex (fst c) True (snd c) st = (r, ex', st')"
    and "map_of (pe_node ex) ''host'' = Some host" and "hashable host" and "map_of (ps_history st) host = Some lines"
  shows "ps_vpp st' = ps_vpp st \<and> pe_node ex' = pe_node ex \<and>
    (if r = Inr () then api_command_list ex' = api_command_list ex @ [command_of c] \<and>
        map_of (ps_history st') host = Some (lines @ [line_of c])
     else map_of (ps_history st') host \<in> {Some lines, Some (lines @ [line_of c])})"
proof -
  obtain r1 ck1 where rep: "report_initial_conflicts (ps_checker st) False = (r1, ck1)" by fastforce
  obtain r2 ck2 where chk: "check_api_name ck1 (VStr (fst c)) = (r2, ck2)" by fastforce
  have hist: "add_to_papi_history (pe_node ex) (fst c) True (snd c) (ps_history st) =
      (Inr (), AList.update host (lines @ [line_of c]) (ps_history st))"
    using add_to_history_run [OF assms(2-4)] by (simp add: line_of_def)
  show ?thesis
    using assms(1,4) rep chk hist
    by (cases r1; cases r2) (auto simp: papi_add_def command_of_def pd.lookup_store)
qed

text \<open>All commands of a request: the lines of the commands tried, and the commands on the list.\<close>

lemma add_all_run:
  assumes "add_all (map (\<lambda>c. (fst c, True, snd c)) cs) ex st = (r, ex', st')"
    and "map_of (pe_node ex) ''host'' = Some host" and "hashable host" and "map_of (ps_history st) host = Some lines"
  shows "ps_vpp st' = ps_vpp st \<and>
    (\<exists>k\<le>length cs. map_of (ps_history st') host = Some (lines @ map line_of (take k cs)) \<and>
      (r = Inr () \<longrightarrow> k = length cs \<and> api_command_list ex' = api_command_list ex @ map command_of cs))"
  using assms
proof (induction cs arbitrary: ex st lines)
  case (Cons c cs)
  obtain r1 ex1 st1 where add: "papi_add ex (fst c) True (snd c) st = (r1, ex1, st1)"
    by (cases "papi_add ex (fst c) True (snd c) st") blast
  note step = papi_add_run [OF add Cons.prems(2-4)]
  show ?case
  proof (cases r1)
    case (Inl e)
    with Cons.prems(1) add have "r = Inl e" "st' = st1" by simp_all
    then show ?thesis using step Inl
      by (auto intro: exI [of _ "0 :: nat"] exI [of _ "1 :: nat"])
  next
    case (Inr u)
    then have hist: "map_of (ps_history st1) host = Some (lines @ [line_of c])" using step by simp
    have "add_all (map (\<lambda>c. (fst c, True, snd c)) cs) ex1 st1 = (r, ex', st')"
      using Cons.prems(1) add Inr by simp
    from Cons.IH [OF this _ _ hist] obtain k where "k \<le> length cs"
      "map_of (ps_history st') host = Some ((lines @ [line_of c]) @ map line_of (take k cs))"
      "ps_vpp st' = ps_vpp st1"
      "r = Inr () \<longrightarrow> k = length cs \<and> api_command_list ex' = api_command_list ex1 @ map command_of cs"
      using step Cons.prems(2,3) by auto
    then show ?thesis using step Inr by (intro conjI exI [of _ "Suc k"]) auto
  qed
qed auto

lemma run_requests_logged:
  assumes "run_requests (\<lambda>ex. get_replies (logged env) ex msg) (map (\<lambda>c. (fst c, True, snd c)) cs)
      (PapiSocketExecutor node socket) st = (r, ex', st')"
    and "map_of node ''host'' = Some host" and "hashable host" and "map_of (ps_history st) host = Some lines"
  shows "\<exists>k out. k \<le> length cs \<and> map_of (ps_history st') host = Some (lines @ map line_of (take k cs)) \<and>
    snd (ps_vpp st') = snd (ps_vpp st) @ out \<and> first_sent (map command_of cs) out \<and> (out \<noteq> [] \<longrightarrow> k = length cs) \<and>
    (\<forall>ds. r = Inr ds \<longrightarrow> k = length cs \<and> all_sent (map command_of cs) out \<and> retvals_ok 0 ds)"
proof -
  obtain r1 ex1 st1 where
    add: "add_all (map (\<lambda>c. (fst c, True, snd c)) cs) (PapiSocketExecutor node socket) st = (r1, ex1, st1)"
    by (cases "add_all (map (\<lambda>c. (fst c, True, snd c)) cs) (PapiSocketExecutor node socket) st") blast
  have "map_of (pe_node (PapiSocketExecutor node socket)) ''host'' = Some host"
    using assms(2) by (simp add: PapiSocketExecutor_def)
  from add_all_run [OF add this assms(3,4)] obtain k where
    k: "k \<le> length cs" "map_of (ps_history st1) host = Some (lines @ map line_of (take k cs))"
      "ps_vpp st1 = ps_vpp st" "r1 = Inr () \<longrightarrow> k = length cs \<and> api_command_list ex1 = map command_of cs"
    by (auto simp: PapiSocketExecutor_def)
  show ?thesis
  proof (cases r1)
    case (Inl e)
    then have "r = Inl e" "st' = st1" using assms(1) add by (simp_all add: run_requests_def)
    with k show ?thesis by (intro exI [of _ k] exI [of _ "[]"]) (auto intro: first_sent_Nil)
  next
    case (Inr u)
    then have cmds: "k = length cs" "api_command_list ex1 = map command_of cs" using k(4) by auto
    have "execute_commands (logged env) msg 0 (map command_of cs) [] st1 = (r, st')"
      using assms(1) add Inr cmds
      by (auto simp: run_requests_def get_replies_def papi_execute_def split: prod.splits)
    from execute_commands_logged [OF this] obtain out where
      "snd (ps_vpp st') = snd (ps_vpp st1) @ out" "first_sent (map command_of cs) out"
      "ps_history st' = ps_history st1"
      "\<forall>ds. r = Inr ds \<longrightarrow> all_sent (map command_of cs) out \<and> (retvals_ok 0 [] \<longrightarrow> retvals_ok 0 ds)"
      by blast
    with k cmds show ?thesis
      by (intro exI [of _ k] exI [of _ out]) (auto simp: retvals_ok_def)
  qed
qed

lemma request_replies_logged:
  assumes "map_of node ''host'' = Some host" and "hashable host" and "map_of (ps_history st) host = Some lines"
    and "request_replies (logged env) node (Inr cs) msg st = (r, st')"
  shows "\<exists>k out. k \<le> length cs \<and> map_of (ps_history st') host = Some (lines @ map line_of (take k cs)) \<and>
    snd (ps_vpp st') = snd (ps_vpp st) @ out \<and> first_sent (map command_of cs) out \<and> (out \<noteq> [] \<longrightarrow> k = length cs) \<and>
    (\<forall>ds. r = Inr ds \<longrightarrow> k = length cs \<and> all_sent (map command_of cs) out \<and> retvals_ok 0 ds)"
proof -
  let ?rs = "map (\<lambda>c. (fst c, True, snd c)) cs"
  have rs: "map (\<lambda>(cmd, kwargs). (cmd, True, kwargs)) cs = ?rs" by (simp add: case_prod_beta)
  obtain r0 w0 where enter: "papi_enter (logged env) node SOCKSVR_PATH (ps_vpp st) = (r0, w0)"
    by (cases "papi_enter (logged env) node SOCKSVR_PATH (ps_vpp st)") blast
  have log0: "snd w0 = snd (ps_vpp st)"
    using papi_enter_logged [of env node SOCKSVR_PATH "ps_vpp st"] enter by simp
  show ?thesis
  proof (cases r0)
    case (Inl e)
    then have "r = Inl e" "st' = st\<lparr>ps_vpp := w0\<rparr>"
      using assms(4) enter by (simp_all add: request_replies_def requests_def with_papi_def)
    with assms(3) log0 show ?thesis
      by (intro exI [of _ "0 :: nat"] exI [of _ "[]"]) (auto intro: first_sent_Nil)
  next
    case (Inr u)
    let ?body = "run_requests (\<lambda>ex. get_replies (logged env) ex msg) ?rs"
    obtain r1 ex1 st1 where body: "?body (PapiSocketExecutor node SOCKSVR_PATH) (st\<lparr>ps_vpp := w0\<rparr>) = (r1, ex1, st1)"
      by (cases "?body (PapiSocketExecutor node SOCKSVR_PATH) (st\<lparr>ps_vpp := w0\<rparr>)") blast
    obtain r2 w2 where leave: "papi_exit (logged env) (ps_vpp st1) = (r2, w2)"
      by (cases "papi_exit (logged env) (ps_vpp st1)") blast
    have st': "st' = st1\<lparr>ps_vpp := w2\<rparr>" and r: "\<forall>ds. r = Inr ds \<longrightarrow> r1 = Inr ds"
      using assms(4) enter Inr body leave
      by (cases r2; auto simp: request_replies_def requests_def with_papi_def rs)+
    have "snd w2 = snd (ps_vpp st1)" using papi_exit_logged [of env "ps_vpp st1"] leave by simp
    moreover have "map_of (ps_history (st\<lparr>ps_vpp := w0\<rparr>)) host = Some lines" using assms(3) by simp
    ultimately obtain k out where "k \<le> length cs" "snd w2 = snd w0 @ out"
      "map_of (ps_history st1) host = Some (lines @ map line_of (take k cs))" "first_sent (map command_of cs) out"
      "out \<noteq> [] \<longrightarrow> k = length cs"
      "\<forall>ds. r1 = Inr ds \<longrightarrow> k = length cs \<and> all_sent (map command_of cs) out \<and> retvals_ok 0 ds"
      using run_requests_logged [OF body assms(1,2)] by auto
    then show ?thesis using log0 st' r by (intro exI [of _ k] exI [of _ out]) auto
  qed
qed

text \<open>
  C18. Commands given to a session of \<open>PapiSocketExecutor\<close> are sent in their order, each once or,
  after a reconnection, twice, and only after every one of them has its line in the history of the
  node; a failure leaves the first commands recorded or the first commands sent. When replies are returned, every command was sent and recorded and no reply has
  a return value other than zero.
\<close>

theorem requests_recorded_and_sent:
  assumes "map_of node ''host'' = Some host" and "hashable host" and "map_of (ps_history st) host = Some lines"
    and "request_replies (logged env) node (Inr cs) msg st = (r, st')"
  shows "\<exists>k out. k \<le> length cs \<and> map_of (ps_history st') host = Some (lines @ map line_of (take k cs)) \<and>
    snd (ps_vpp st') = snd (ps_vpp st) @ out \<and> first_sent (map command_of cs) out \<and> (out \<noteq> [] \<longrightarrow> k = length cs) \<and>
    (\<forall>ds. r = Inr ds \<longrightarrow> k = length cs \<and> all_sent (map command_of cs) out \<and> retvals_ok 0 ds)"
  using assms by (rule request_replies_logged)

text \<open>A VPP whose connection breaks at the first command of a session.\<close>

definition flaky_env :: "nat vpp_env" where
  "flaky_env =
     \<lparr>has_message = (\<lambda>name. True),
      send = (\<lambda>name args n.
        if n = 0 then (Inl PapiIOError, 1)
        else (Inr (Single \<lparr>msg_class = name @ ''_reply'', msg_fields = Some [(''retval'', VInt 0)]\<rparr>), n + 1)),
      disconnect = (\<lambda>n. (Inr (), n)), connect_sync = (\<lambda>n. (Inr (), n)), sleep = (\<lambda>n. n),
      open_tunnel = (\<lambda>node socket n. (Inr (), n)), close_tunnel = (\<lambda>n. (Inr (), n))\<rparr>"

definition plug_checker :: crc_checker where
  "plug_checker =
     (let crcs = [(VStr ''show_version'', VStr ''0x1''), (VStr ''show_version_reply'', VStr ''0x2'')]
      in \<lparr>fail_on_mismatch = True, expected = [(''20.01'', crcs)], missing = [(''20.01'', [])], found = crcs,
          reported = [], initial_conflicts_reported = True\<rparr>)"

definition plug_state :: "(nat \<times> papi_command list) papi_state" where
  "plug_state = \<lparr>ps_checker = plug_checker, ps_history = [(VStr ''10.0.0.1'', [])], ps_vpp = (0, [])\<rparr>"

lemmas papi_eval = request_replies_def requests_def with_papi_def papi_enter_def numeral_2_eq_2 lift_w_def
  flaky_env_def run_requests_def papi_add_def report_initial_conflicts_def add_to_papi_history_def getitem_def
  check_api_name_def knows_def log_and_raise_def get_replies_def papi_execute_def call_api_def reconnectable_def
  is_int_def papi_exit_def PapiSocketExecutor_def plug_state_def plug_checker_def logged_def Let_def

theorem requests_recorded_and_sent_witness:
  "\<exists>st'. request_replies (logged flaky_env) [(''host'', VStr ''10.0.0.1'')] (Inr [(''show_version'', [])]) ''msg''
       plug_state = (Inr [[(''retval'', VInt 0)]], st') \<and>
     map_of (ps_history st') (VStr ''10.0.0.1'') = Some [''show_version()''] \<and>
     set (snd (ps_vpp st')) = {\<lparr>api_name = ''show_version'', api_args = []\<rparr>}"
proof -
  let ?node = "[(''host'', VStr ''10.0.0.1'')]" and ?cs = "[(''show_version'', [])] :: (string \<times> pyobj) list"
  obtain r st' where run: "request_replies (logged flaky_env) ?node (Inr ?cs) ''msg'' plug_state = (r, st')"
    by (cases "request_replies (logged flaky_env) ?node (Inr ?cs) ''msg'' plug_state") blast
  have r: "r = Inr [[(''retval'', VInt 0)]]"
    using run by (simp add: papi_eval)
  have pre: "map_of ?node ''host'' = Some (VStr ''10.0.0.1'')" "hashable (VStr ''10.0.0.1'')"
    "map_of (ps_history plug_state) (VStr ''10.0.0.1'') = Some []"
    by (simp_all add: plug_state_def)
  from requests_recorded_and_sent [OF pre run] r obtain k out where
    "k = 1" "map_of (ps_history st') (VStr ''10.0.0.1'') = Some (map line_of (take k ?cs))"
    "snd (ps_vpp st') = out" "all_sent (map command_of ?cs) out"
    by (auto simp: plug_state_def)
  moreover from this have "set out = {command_of (''show_version'', [])}"
    by (auto elim!: all_sent_ConsE simp: all_sent.simps [of "[]"])
  ultimately show ?thesis
    using run r by (auto simp: line_of_def history_item_def command_of_def)
qed

section \<open>Only checked commands\<close>

definition crc_known :: "crc_checker \<Rightarrow> string \<Rightarrow> bool" where
  "crc_known ck cmd \<longleftrightarrow>
     (\<exists>c. map_of (found ck) (VStr cmd) = Some c \<and> c \<noteq> VNone \<and>
        (\<exists>(name, m)\<in>set (expected ck). map_of m (VStr cmd) = Some c))"

lemma check_api_name_known:
  assumes "crc_inv ck" and "fail_on_mismatch ck" and "check_api_name ck (VStr cmd) = (Inr u, ck')"
  shows "crc_known ck' cmd \<or> map_of (reported ck') (VStr cmd) \<noteq> None"
proof (cases "map_of (reported ck) (VStr cmd)")
  case None
  show ?thesis
    using assms(2,3) unfolding check_api_name_run [OF assms(1) None]
    by (auto simp: crc_known_def Let_def log_and_raise_def split: if_splits option.splits)
next
  case (Some c)
  then show ?thesis using assms(3) by (simp add: check_api_name_def)
qed

text \<open>
  \<open>PapiSocketExecutor.add\<close> never sends anything and keeps the checker's invariant. It appends
  the command to the list exactly when it returns; with a checker that fails on mismatch, the message
  then has, in a collection that is still active, the checksum that was found for it, or was reported
  before. When it raises, the list is unchanged.
\<close>

theorem papi_add_checked:
  assumes "crc_inv (ps_checker st)" and "papi_add ex cmd history kwargs st = (r, ex', st')"
  shows "crc_inv (ps_checker st') \<and> ps_vpp st' = ps_vpp st \<and>
    (if r = Inr ()
     then ex' = ex\<lparr>api_command_list := api_command_list ex @ [\<lparr>api_name = cmd, api_args = kwargs\<rparr>]\<rparr> \<and>
       (fail_on_mismatch (ps_checker st) \<longrightarrow>
          crc_known (ps_checker st') cmd \<or> map_of (reported (ps_checker st')) (VStr cmd) \<noteq> None)
     else ex' = ex)"
proof -
  obtain r1 ck1 where rep: "report_initial_conflicts (ps_checker st) False = (r1, ck1)" by fastforce
  have inv1: "crc_inv ck1" "fail_on_mismatch ck1 = fail_on_mismatch (ps_checker st)"
    using report_initial_conflicts_frame [of "ps_checker st" False] rep assms(1) by (auto simp: crc_inv_def)
  obtain r2 h where hist: "(if history then add_to_papi_history (pe_node ex) cmd True kwargs (ps_history st)
      else (Inr (), ps_history st)) = (r2, h)"
    by (cases "if history then add_to_papi_history (pe_node ex) cmd True kwargs (ps_history st)
      else (Inr (), ps_history st)") blast
  obtain r3 ck3 where chk: "check_api_name ck1 (VStr cmd) = (r3, ck3)" by fastforce
  have inv3: "crc_inv ck3" using check_api_name_inv [OF inv1(1), of "VStr cmd"] chk by simp
  show ?thesis
  proof (cases r1)
    case (Inl e)
    then show ?thesis using assms(2) rep inv1 by (auto simp: papi_add_def)
  next
    case (Inr u)
    note ok1 = this
    show ?thesis
    proof (cases r2)
      case (Inl e)
      then show ?thesis using assms(2) rep hist ok1 inv1 by (auto simp: papi_add_def)
    next
      case (Inr u)
      then show ?thesis
        using assms(2) rep hist chk ok1 inv1 inv3 check_api_name_known [OF inv1(1), of cmd u ck3]
        by (cases r3) (auto simp: papi_add_def)
    qed
  qed
qed

theorem papi_add_checked_witness:
  "\<exists>ex' st'. papi_add (PapiSocketExecutor [] ''s'') ''show_version'' False [] plug_state = (Inr (), ex', st') \<and>
     crc_known (ps_checker st') ''show_version''"
proof -
  obtain r ex' st' where run: "papi_add (PapiSocketExecutor [] ''s'') ''show_version'' False [] plug_state = (r, ex', st')"
    by (cases "papi_add (PapiSocketExecutor [] ''s'') ''show_version'' False [] plug_state") blast
  then have r: "r = Inr ()" "map_of (reported (ps_checker st')) (VStr ''show_version'') = None"
    by (auto simp: papi_eval)
  have "crc_inv (ps_checker plug_state)"
    by (simp add: crc_inv_def plug_state_def plug_checker_def dict_wf_def Let_def)
  from papi_add_checked [OF this run] r have "crc_known (ps_checker st') ''show_version''"
    by (simp add: plug_state_def plug_checker_def Let_def)
  with run r show ?thesis by blast
qed

section \<open>Sessions of logged keywords\<close>

lemma with_papi_logged:
  assumes "with_papi (logged env) node socket body st = (Inr x, st')"
  shows "\<exists>st0 ex1 st1. snd (ps_vpp st0) = snd (ps_vpp st) \<and>
    body (PapiSocketExecutor node socket) st0 = (Inr x, ex1, st1) \<and> snd (ps_vpp st') = snd (ps_vpp st1)"
proof -
  obtain r0 w0 where enter: "papi_enter (logged env) node socket (ps_vpp st) = (r0, w0)"
    by (cases "papi_enter (logged env) node socket (ps_vpp st)") blast
  let ?st = "st\<lparr>ps_vpp := w0\<rparr>"
  obtain r1 ex1 st1 where body: "body (PapiSocketExecutor node socket) ?st = (r1, ex1, st1)"
    by (cases "body (PapiSocketExecutor node socket) ?st") blast
  obtain r2 w2 where leave: "papi_exit (logged env) (ps_vpp st1) = (r2, w2)"
    by (cases "papi_exit (logged env) (ps_vpp st1)") blast
  have "snd w0 = snd (ps_vpp st)" using papi_enter_logged [of env node socket "ps_vpp st"] enter by simp
  moreover have "snd w2 = snd (ps_vpp st1)" using papi_exit_logged [of env "ps_vpp st1"] leave by simp
  moreover have "r1 = Inr x \<and> st' = st1\<lparr>ps_vpp := w2\<rparr>"
    using assms enter body leave by (cases r0; cases r2) (simp_all add: with_papi_def)
  ultimately show ?thesis using body by (intro exI [of _ ?st] exI [of _ ex1] exI [of _ st1]) simp
qed

lemma papi_add_returns:
  assumes "papi_add ex cmd history kwargs st = (Inr u, ex', st')"
  shows "ps_vpp st' = ps_vpp st \<and>
    ex' = ex\<lparr>api_command_list := api_command_list ex @ [\<lparr>api_name = cmd, api_args = kwargs\<rparr>]\<rparr>"
proof -
  obtain r1 ck1 where rep: "report_initial_conflicts (ps_checker st) False = (r1, ck1)" by fastforce
  obtain r2 h where hist: "(if history then add_to_papi_history (pe_node ex) cmd True kwargs (ps_history st)
      else (Inr (), ps_history st)) = (r2, h)"
    by (cases "if history then add_to_papi_history (pe_node ex) cmd True kwargs (ps_history st)
      else (Inr (), ps_history st)") blast
  obtain r3 ck3 where chk: "check_api_name ck1 (VStr cmd) = (r3, ck3)" by fastforce
  show ?thesis using assms rep hist chk by (cases r1; cases r2; cases r3) (auto simp: papi_add_def)
qed

lemma replies_all_sent:
  assumes "get_replies (logged env) ex msg st = (Inr ds, ex', st')"
  shows "\<exists>out. snd (ps_vpp st') = snd (ps_vpp st) @ out \<and> all_sent (api_command_list ex) out"
proof -
  have "execute_commands (logged env) msg 0 (api_command_list ex) [] st = (Inr ds, st')"
    using assms by (auto simp: get_replies_def papi_execute_def split: prod.splits)
  from execute_commands_logged [OF this] show ?thesis by auto
qed

lemma get_reply_all_sent:
  assumes "get_reply (logged env) ex msg st = (Inr d, ex', st')"
  shows "\<exists>out. snd (ps_vpp st') = snd (ps_vpp st) @ out \<and> all_sent (api_command_list ex) out"
  using assms replies_all_sent [of env ex msg st _ ex' st']
  by (auto simp: get_reply_def split: prod.splits)

lemma request_reply_all_sent:
  assumes "request_reply (logged env) node cmd (Inr kwargs) msg st = (Inr d, st')"
  shows "\<exists>out. snd (ps_vpp st') = snd (ps_vpp st) @ out \<and> all_sent [\<lparr>api_name = cmd, api_args = kwargs\<rparr>] out"
proof -
  let ?body = "run_requests (\<lambda>ex. get_reply (logged env) ex msg) [(cmd, True, kwargs)]"
  have "with_papi (logged env) node SOCKSVR_PATH ?body st = (Inr d, st')"
    using assms by (simp add: request_reply_def requests_def)
  from with_papi_logged [OF this] obtain st0 ex st1 where
    body: "?body (PapiSocketExecutor node SOCKSVR_PATH) st0 = (Inr d, ex, st1)"
    and logs: "snd (ps_vpp st0) = snd (ps_vpp st)" "snd (ps_vpp st') = snd (ps_vpp st1)" by blast
  obtain r2 ex2 st2 where add: "papi_add (PapiSocketExecutor node SOCKSVR_PATH) cmd True kwargs st0 = (r2, ex2, st2)"
    by (cases "papi_add (PapiSocketExecutor node SOCKSVR_PATH) cmd True kwargs st0") blast
  have r2: "r2 = Inr ()" and reply: "get_reply (logged env) ex2 msg st2 = (Inr d, ex, st1)"
    using body add by (cases r2; auto simp: run_requests_def)+
  from papi_add_returns [OF add [unfolded r2]] have
    "ps_vpp st2 = ps_vpp st0" "api_command_list ex2 = [\<lparr>api_name = cmd, api_args = kwargs\<rparr>]"
    by (simp_all add: PapiSocketExecutor_def)
  with get_reply_all_sent [OF reply] logs show ?thesis by simp
qed

lemma all_sent_append: "all_sent cs out \<Longrightarrow> all_sent cs' out' \<Longrightarrow> all_sent (cs @ cs') (out @ out')"
  by (induction rule: all_sent.induct) (auto intro: all_sent.intros)

end
