(* ===== verification/Effects.thy ===== *)
theory Effects
  imports Prelude
begin

text \<open>
  Keywords that act on the testbed: functions from a state to a result, which may be an exception,
  and a new state. The combinators are sequencing, loops, \<^verbatim>\<open>try\<close>/\<^verbatim>\<open>except\<close> and \<^verbatim>\<open>try\<close>/\<^verbatim>\<open>finally\<close>, with two kinds
  of facts about them: how a run that returns is taken apart (\<open>run_elims\<close>), and the rules by which
  a relation between the states before and after holds of a whole keyword (\<open>along_rules\<close>).
\<close>

type_synonym ('s, 'a) act = "'s \<Rightarrow> 'a res \<times> 's"

named_theorems act_simps \<open>evaluation of keywords\<close>

definition returnS :: "'a \<Rightarrow> ('s, 'a) act" where
  "returnS x s = (Inr x, s)"

definition liftS :: "'a res \<Rightarrow> ('s, 'a) act" where
  "liftS r s = (r, s)"

definition bindS :: "('s, 'a) act \<Rightarrow> ('a \<Rightarrow> ('s, 'b) act) \<Rightarrow> ('s, 'b) act" where
  "bindS m f s = (case m s of (Inl e, s1) \<Rightarrow> (Inl e, s1) | (Inr x, s1) \<Rightarrow> f x s1)"

definition thenS :: "('s, 'a) act \<Rightarrow> ('s, 'b) act \<Rightarrow> ('s, 'b) act" where
  "thenS m n = bindS m (\<lambda>_. n)"

definition whenS :: "bool \<Rightarrow> ('s, unit) act \<Rightarrow> ('s, unit) act" where
  "whenS c m = (if c then m else returnS ())"

text \<open>\<^verbatim>\<open>try: m except ...: handler\<close>; the handler raises again what it does not catch.\<close>

definition catchS :: "('s, 'a) act \<Rightarrow> (py_error \<Rightarrow> ('s, 'a) act) \<Rightarrow> ('s, 'a) act" where
  "catchS m h s = (case m s of (Inl e, s1) \<Rightarrow> h e s1 | (Inr x, s1) \<Rightarrow> (Inr x, s1))"

text \<open>\<^verbatim>\<open>try: m finally: k\<close>.\<close>

definition finallyS :: "('s, 'a) act \<Rightarrow> ('s, unit) act \<Rightarrow> ('s, 'a) act" where
  "finallyS m k s = (case m s of (r, s1) \<Rightarrow> (case k s1 of (Inl e, s2) \<Rightarrow> (Inl e, s2) | (Inr u, s2) \<Rightarrow> (r, s2)))"

fun forS :: "('a \<Rightarrow> ('s, unit) act) \<Rightarrow> 'a list \<Rightarrow> ('s, unit) act" where
  "forS f [] = returnS ()"
| "forS f (x # xs) = thenS (f x) (forS f xs)"

fun collectS :: "('a \<Rightarrow> ('s, 'b) act) \<Rightarrow> 'a list \<Rightarrow> ('s, 'b list) act" where
  "collectS f [] = returnS []"
| "collectS f (x # xs) = bindS (f x) (\<lambda>y. bindS (collectS f xs) (\<lambda>ys. returnS (y # ys)))"

fun foldS :: "('b \<Rightarrow> 'a \<Rightarrow> ('s, 'b) act) \<Rightarrow> 'b \<Rightarrow> 'a list \<Rightarrow> ('s, 'b) act" where
  "foldS f b [] = returnS b"
| "foldS f b (x # xs) = bindS (f b x) (\<lambda>b'. foldS f b' xs)"

text \<open>The keyword is run for its effect.\<close>

definition voidS :: "('s, 'a) act \<Rightarrow> ('s, unit) act" where
  "voidS m = bindS m (\<lambda>_. returnS ())"

lemma bindS_simps [simp, act_simps]:
  "m s = (Inr x, s1) \<Longrightarrow> bindS m f s = f x s1"
  "m s = (Inl e, s1) \<Longrightarrow> bindS m f s = (Inl e, s1)"
  "bindS (returnS x) f = f x"
  "bindS (liftS (Inr x)) f = f x"
  by (simp_all add: bindS_def returnS_def liftS_def fun_eq_iff)

lemma bindS_assoc [simp]: "bindS (bindS m f) g = bindS m (\<lambda>x. bindS (f x) g)"
  by (auto simp: bindS_def fun_eq_iff split: prod.splits sum.splits)

lemma bindS_returnS [simp]: "bindS m returnS = m"
  by (auto simp: bindS_def returnS_def fun_eq_iff split: prod.splits sum.splits)

lemma returnS_eq [simp]: "returnS x s = (r, s') \<longleftrightarrow> r = Inr x \<and> s' = s"
  by (auto simp: returnS_def)

lemma liftS_eq [simp]: "liftS x s = (r, s') \<longleftrightarrow> x = r \<and> s' = s"
  by (auto simp: liftS_def)

lemma bindE_assoc: "bindE (bindE m f) g = bindE m (\<lambda>x. bindE (f x) g)"
  by (cases m) simp_all

lemma Inr_eq_bindE: "Inr y = bindE m f \<longleftrightarrow> (\<exists>x. m = Inr x \<and> f x = Inr y)"
  using bindE_eq_Inr [of m f y] by metis

lemma bindS_eq_Inr:
  "bindS m f s = (Inr y, s') \<longleftrightarrow> (\<exists>x s1. m s = (Inr x, s1) \<and> f x s1 = (Inr y, s'))"
  by (auto simp: bindS_def split: prod.splits sum.splits)

lemma bindS_eq_Inl:
  "bindS m f s = (Inl e, s') \<longleftrightarrow>
     m s = (Inl e, s') \<or> (\<exists>x s1. m s = (Inr x, s1) \<and> f x s1 = (Inl e, s'))"
  by (auto simp: bindS_def split: prod.splits sum.splits)

lemma thenS_eq_Inr:
  "thenS m n s = (Inr y, s') \<longleftrightarrow> (\<exists>x s1. m s = (Inr x, s1) \<and> n s1 = (Inr y, s'))"
  by (simp add: thenS_def bindS_eq_Inr)

lemma thenS_eq_Inl:
  "thenS m n s = (Inl e, s') \<longleftrightarrow> m s = (Inl e, s') \<or> (\<exists>x s1. m s = (Inr x, s1) \<and> n s1 = (Inl e, s'))"
  by (simp add: thenS_def bindS_eq_Inl)

lemma voidS_eq_Inr: "voidS m s = (Inr u, s') \<longleftrightarrow> (\<exists>x. m s = (Inr x, s'))"
  by (auto simp: voidS_def bindS_eq_Inr)

lemmas run_elims = bindS_eq_Inr thenS_eq_Inr voidS_eq_Inr

lemma forS_append: "forS f (xs @ ys) = thenS (forS f xs) (forS f ys)"
  by (induction xs) (simp_all add: thenS_def)

lemma collectS_length: "collectS f xs s = (Inr ys, s') \<Longrightarrow> length ys = length xs"
  by (induction xs arbitrary: s ys) (auto simp: bindS_eq_Inr)

section \<open>Relations between the states before and after\<close>

text \<open>
  \<open>along R m\<close>: whatever the keyword \<open>m\<close> does, also when it raises, the states before and after are
  related by \<open>R\<close>. For a reflexive and transitive \<open>R\<close> (\<open>a\<close> part of the state is unchanged, a log only
  grows) this follows from the same fact about the steps.
\<close>

definition along :: "('s \<Rightarrow> 's \<Rightarrow> bool) \<Rightarrow> ('s, 'a) act \<Rightarrow> bool" where
  "along R m \<longleftrightarrow> (\<forall>s. R s (snd (m s)))"

lemma alongD: "along R m \<Longrightarrow> m s = (r, s') \<Longrightarrow> R s s'"
  unfolding along_def by (metis snd_conv)

lemma alongI: "(\<And>s r s'. m s = (r, s') \<Longrightarrow> R s s') \<Longrightarrow> along R m"
  unfolding along_def by (metis prod.collapse)

text \<open>The frame of a keyword: a preorder on the states.\<close>

locale frame =
  fixes R :: "'s \<Rightarrow> 's \<Rightarrow> bool"
  assumes refl: "R s s" and trans: "R s t \<Longrightarrow> R t u \<Longrightarrow> R s u"
begin

lemma along_returnS: "along R (returnS x)"
  by (simp add: along_def returnS_def refl)

lemma along_liftS: "along R (liftS r)"
  by (simp add: along_def liftS_def refl)

lemma along_bindS:
  assumes "along R m" and "\<And>x. along R (f x)"
  shows "along R (bindS m f)"
proof (rule alongI)
  fix s r s'
  assume run: "bindS m f s = (r, s')"
  obtain r1 s1 where m: "m s = (r1, s1)" by fastforce
  have "R s s1" using alongD [OF assms(1) m] .
  moreover have "R s1 s'"
    using run m alongD [OF assms(2)] by (cases r1) (auto simp: refl)
  ultimately show "R s s'" by (rule trans)
qed

lemma along_thenS: "along R m \<Longrightarrow> along R n \<Longrightarrow> along R (thenS m n)"
  unfolding thenS_def by (rule along_bindS)

lemma along_voidS: "along R m \<Longrightarrow> along R (voidS m)"
  unfolding voidS_def by (rule along_bindS) (simp_all add: along_returnS)

lemma along_whenS: "(c \<Longrightarrow> along R m) \<Longrightarrow> along R (whenS c m)"
  unfolding whenS_def by (simp add: along_returnS)

lemma along_catchS:
  assumes "along R m" and "\<And>e. along R (h e)"
  shows "along R (catchS m h)"
proof (rule alongI)
  fix s r s'
  assume run: "catchS m h s = (r, s')"
  obtain r1 s1 where m: "m s = (r1, s1)" by fastforce
  have "R s s1" using alongD [OF assms(1) m] .
  moreover have "R s1 s'"
    using run m alongD [OF assms(2)] by (cases r1) (auto simp: refl catchS_def)
  ultimately show "R s s'" by (rule trans)
qed

lemma along_finallyS:
  assumes "along R m" and "along R k"
  shows "along R (finallyS m k)"
proof (rule alongI)
  fix s r s'
  assume run: "finallyS m k s = (r, s')"
  obtain r1 s1 where m: "m s = (r1, s1)" by fastforce
  obtain r2 s2 where k: "k s1 = (r2, s2)" by fastforce
  have "s' = s2" using run m k by (cases r2) (auto simp: finallyS_def)
  then show "R s s'" using alongD [OF assms(1) m] alongD [OF assms(2) k] trans by blast
qed

lemma along_forS: "(\<And>x. x \<in> set xs \<Longrightarrow> along R (f x)) \<Longrightarrow> along R (forS f xs)"
  by (induction xs) (simp_all add: along_returnS along_thenS)

lemma along_collectS: "(\<And>x. x \<in> set xs \<Longrightarrow> along R (f x)) \<Longrightarrow> along R (collectS f xs)"
  by (induction xs) (simp_all add: along_returnS along_bindS)

lemma along_foldS: "(\<And>b x. x \<in> set xs \<Longrightarrow> along R (f b x)) \<Longrightarrow> along R (foldS f b xs)"
  by (induction xs arbitrary: b) (simp_all add: along_returnS along_bindS)

lemma along_if: "(c \<Longrightarrow> along R m) \<Longrightarrow> (\<not> c \<Longrightarrow> along R n) \<Longrightarrow> along R (if c then m else n)"
  by simp

lemmas along_rules = along_returnS along_liftS along_bindS along_thenS along_voidS along_whenS
  along_catchS along_finallyS along_forS along_collectS along_foldS along_if

end

section \<open>Polling\<close>

text \<open>
  \<open>unsuccessful attempt result pause k s t\<close>: from \<open>s\<close>, \<open>k\<close> attempts that return without a result, each
  followed by a pause, lead to \<open>t\<close>.
\<close>

inductive unsuccessful ::
    "('s, 'a) act \<Rightarrow> ('a \<Rightarrow> 'b option) \<Rightarrow> ('s \<Rightarrow> 's) \<Rightarrow> nat \<Rightarrow> 's \<Rightarrow> 's \<Rightarrow> bool"
  for attempt result pause where
  unsuccessful_0: "unsuccessful attempt result pause 0 s s"
| unsuccessful_Suc: "attempt s = (Inr x, s1) \<Longrightarrow> result x = None \<Longrightarrow>
    unsuccessful attempt result pause k (pause s1) t \<Longrightarrow> unsuccessful attempt result pause (Suc k) s t"

inductive_cases unsuccessful_0E: "unsuccessful attempt result pause 0 s t"
inductive_cases unsuccessful_SucE: "unsuccessful attempt result pause (Suc k) s t"

text \<open>
  A loop that makes at most \<open>n\<close> attempts: an exception of an attempt ends it, a result is returned, and
  otherwise it pauses and goes on, remembering something of the attempt for its error message.
\<close>

locale polling =
  fixes attempt :: "('s, 'a) act"
    and result :: "'a \<Rightarrow> 'b option"
    and pause :: "'s \<Rightarrow> 's"
    and poll :: "'p \<Rightarrow> nat \<Rightarrow> ('s, 'b) act"
    and seen :: "'a \<Rightarrow> 'p"
  assumes poll_0: "\<exists>e. poll p 0 s = (Inl e, s)"
    and poll_raise: "attempt s = (Inl e, s1) \<Longrightarrow> poll p (Suc n) s = (Inl e, s1)"
    and poll_done: "attempt s = (Inr x, s1) \<Longrightarrow> result x = Some y \<Longrightarrow> poll p (Suc n) s = (Inr y, s1)"
    and poll_next: "attempt s = (Inr x, s1) \<Longrightarrow> result x = None \<Longrightarrow> poll p (Suc n) s = poll (seen x) n (pause s1)"
begin

lemma poll_returns:
  assumes "poll p n s = (Inr y, s')"
  shows "\<exists>k t x. k < n \<and> unsuccessful attempt result pause k s t \<and> attempt t = (Inr x, s') \<and> result x = Some y"
  using assms
proof (induction n arbitrary: p s)
  case 0
  then show ?case using poll_0 [of p s] by auto
next
  case (Suc n)
  obtain r s1 where run: "attempt s = (r, s1)" by fastforce
  show ?case
  proof (cases r)
    case (Inl e)
    then show ?thesis using poll_raise run Suc.prems by fastforce
  next
    case (Inr x)
    show ?thesis
    proof (cases "result x")
      case None
      from Suc.IH Suc.prems poll_next [OF run [unfolded Inr] None] obtain k t z where
        "k < n" "unsuccessful attempt result pause k (pause s1) t" "attempt t = (Inr z, s')" "result z = Some y"
        by fastforce
      with run Inr None show ?thesis
        by (intro exI [of _ "Suc k"] exI [of _ t] exI [of _ z]) (auto intro: unsuccessful_Suc)
    next
      case (Some z)
      then show ?thesis using Suc.prems poll_done [OF run [unfolded Inr] Some] run Inr
        by (intro exI [of _ 0] exI [of _ s] exI [of _ x]) (auto intro: unsuccessful_0)
    qed
  qed
qed

lemma poll_reaches:
  assumes "unsuccessful attempt result pause k s t" and "k < n" and "attempt t = (Inr x, s')" and "result x = Some y"
  shows "poll p n s = (Inr y, s')"
  using assms
proof (induction k arbitrary: s n p)
  case 0
  then obtain m where "n = Suc m" by (cases n) auto
  with 0 show ?case by (auto elim: unsuccessful_0E intro: poll_done)
next
  case (Suc k)
  then obtain m where n: "n = Suc m" "k < m" by (cases n) auto
  from Suc.prems(1) obtain z s1 where step: "attempt s = (Inr z, s1)" "result z = None"
    "unsuccessful attempt result pause k (pause s1) t"
    by (rule unsuccessful_SucE) blast
  show ?case unfolding n(1) poll_next [OF step(1,2)]
    by (rule Suc.IH [OF step(3) n(2) Suc.prems(3,4)])
qed

lemma first_success:
  "poll p n s = (Inr y, s') \<longleftrightarrow>
     (\<exists>k t x. k < n \<and> unsuccessful attempt result pause k s t \<and> attempt t = (Inr x, s') \<and> result x = Some y)"
  using poll_returns poll_reaches by blast

end

end
