(* ===== verification/Ssh.thy ===== *)
theory Ssh
  imports Effects Topology
begin

text \<open>
  Commands run on the nodes over SSH (\<^verbatim>\<open>ssh.py\<close>): the connections shared by all objects of the class
  \<open>SSH\<close>, connecting with a bounded number of attempts, running a command on a channel, and the
  functions \<open>exec_cmd\<close>, \<open>exec_cmd_no_error\<close> and \<open>scp_node\<close>. The library paramiko is a parameter: a record
  of what it does to the world \<open>'w\<close>.

  A connection is filed under \<^verbatim>\<open>hash(frozenset([host, port]))\<close>; the model uses the set itself as the key,
  which leaves out collisions of the hash.
\<close>

section \<open>Waiting for a command on a channel\<close>

text \<open>
  What a channel offers: whether the exit status has arrived, the pending output (\<open>None\<close> when there is
  none), the exit status (waiting for it), the clock, and sleeping for a tenth of a second.
\<close>

record 'w channel =
  exit_status_ready :: "'w \<Rightarrow> bool"
  recv :: "'w \<Rightarrow> string option \<times> 'w"
  recv_stderr :: "'w \<Rightarrow> string option \<times> 'w"
  recv_exit_status :: "'w \<Rightarrow> int \<times> 'w"
  clock :: "'w \<Rightarrow> real"
  pause :: "'w \<Rightarrow> 'w"

definition received :: "string option \<Rightarrow> string" where
  "received r = (case r of None \<Rightarrow> [] | Some s \<Rightarrow> s)"

partial_function (option) await_exit ::
    "'w channel \<Rightarrow> real \<Rightarrow> real \<Rightarrow> string \<Rightarrow> string \<Rightarrow> 'w \<Rightarrow> ((string \<times> string) res \<times> 'w) option" where
  "await_exit ch timeout start out err w =
     (if exit_status_ready ch w then Some (Inr (out, err), w)
      else case recv ch w of (s_out, w1) \<Rightarrow>
           (case recv_stderr ch w1 of (s_err, w2) \<Rightarrow>
              if clock ch w2 - start > timeout then Some (Inl (PyException ''SSHTimeout''), w2)
              else await_exit ch timeout start (out @ received s_out) (err @ received s_err) (pause ch w2)))"

partial_function (option) drain :: "('w \<Rightarrow> string option \<times> 'w) \<Rightarrow> string \<Rightarrow> 'w \<Rightarrow> (string \<times> 'w) option" where
  "drain receive buffer w =
     (case receive w of
        (None, w1) \<Rightarrow> Some (buffer, w1)
      | (Some s, w1) \<Rightarrow> drain receive (buffer @ s) w1)"

definition channel_run ::
    "'w channel \<Rightarrow> real \<Rightarrow> 'w \<Rightarrow> ((int \<times> string \<times> string) res \<times> 'w) option" where
  "channel_run ch timeout w =
     (case await_exit ch timeout (clock ch w) [] [] w of
        None \<Rightarrow> None
      | Some (Inl e, w1) \<Rightarrow> Some (Inl e, w1)
      | Some (Inr (out, err), w1) \<Rightarrow>
          (case recv_exit_status ch w1 of
             (return_code, w2) \<Rightarrow>
               (case drain (recv ch) out w2 of
                  None \<Rightarrow> None
                | Some (stdout, w3) \<Rightarrow>
                    (case drain (recv_stderr ch) err w3 of
                       None \<Rightarrow> None
                     | Some (stderr, w4) \<Rightarrow> Some (Inr (return_code, stdout, stderr), w4)))))"

section \<open>Connections\<close>

record 'w paramiko =
  pk_connect :: "pyval \<Rightarrow> pyval \<Rightarrow> pyval \<Rightarrow> pyval \<Rightarrow> pyval \<Rightarrow> 'w \<Rightarrow> nat res \<times> 'w"
  pk_active :: "nat \<Rightarrow> 'w \<Rightarrow> bool"
  pk_close :: "nat \<Rightarrow> 'w \<Rightarrow> 'w"
  pk_open_session :: "nat \<Rightarrow> 'w \<Rightarrow> nat res \<times> 'w"
  pk_run :: "nat \<Rightarrow> string \<Rightarrow> int \<Rightarrow> 'w \<Rightarrow> (int \<times> string \<times> string) res \<times> 'w"
  pk_scp :: "nat \<Rightarrow> string \<Rightarrow> string \<Rightarrow> bool \<Rightarrow> int \<Rightarrow> 'w \<Rightarrow> unit res \<times> 'w"
  pk_sleep :: "real \<Rightarrow> 'w \<Rightarrow> 'w"

text \<open>The open connections, a class attribute, and the world; an object of the class.\<close>

record 'w ssh_state =
  existing_connections :: "(pyval set, nat) pydict"
  ssh_world :: 'w

record ssh_object =
  ssh_client :: "nat option"
  ssh_node :: "node option"

definition SSH :: ssh_object where
  "SSH = \<lparr>ssh_client = None, ssh_node = None\<rparr>"

definition node_hash :: "node \<Rightarrow> pyval set res" where
  "node_hash node = bindE (getitem node ''host'') (\<lambda>h. bindE (getitem node ''port'') (\<lambda>p. Inr {h, p}))"

abbreviation "IOError \<equiv> PyException ''IOError''"
abbreviation "SSHException \<equiv> PyException ''SSHException''"
abbreviation "NoValidConnectionsError \<equiv> PyException ''NoValidConnectionsError''"

definition node_get :: "node \<Rightarrow> string \<Rightarrow> pyval" where
  "node_get node k = (case map_of node k of None \<Rightarrow> VNone | Some v \<Rightarrow> v)"

definition open_connection :: "'w paramiko \<Rightarrow> node \<Rightarrow> pyval set \<Rightarrow> ('w ssh_state, nat) act" where
  "open_connection pk node h s =
     (case bindE (getitem node ''host'') (\<lambda>host. bindE (getitem node ''username'') (\<lambda>user.
           bindE (getitem node ''port'') (\<lambda>port. Inr (host, user, port)))) of
        Inl e \<Rightarrow> (Inl e, s)
      | Inr (host, user, port) \<Rightarrow>
          (case pk_connect pk host user (node_get node ''password'') (node_get node ''priv_key'') port (ssh_world s) of
             (Inl e, w) \<Rightarrow>
               (Inl (if e \<in> {SSHException, NoValidConnectionsError} then IOError else e), s\<lparr>ssh_world := w\<rparr>)
           | (Inr c, w) \<Rightarrow>
               (Inr c, s\<lparr>existing_connections := AList.update h c (existing_connections s), ssh_world := w\<rparr>)))"

definition ssh_disconnect :: "'w paramiko \<Rightarrow> node \<Rightarrow> ('w ssh_state, unit) act" where
  "ssh_disconnect pk node s =
     (case node_hash node of
        Inl e \<Rightarrow> (Inl e, s)
      | Inr h \<Rightarrow>
          (case map_of (existing_connections s) h of
             None \<Rightarrow> (Inr (), s)
           | Some c \<Rightarrow>
               (Inr (), s\<lparr>existing_connections := AList.delete h (existing_connections s),
                         ssh_world := pk_close pk c (ssh_world s)\<rparr>)))"

text \<open>\<open>connect\<close> and \<open>_reconnect\<close> call each other; the number of attempts decreases.\<close>

fun ssh_connect :: "'w paramiko \<Rightarrow> node \<Rightarrow> nat \<Rightarrow> ('w ssh_state, ssh_object) act" where
  "ssh_connect pk node attempts s =
     (case node_hash node of
        Inl e \<Rightarrow> (Inl e, s)
      | Inr h \<Rightarrow>
          (case map_of (existing_connections s) h of
             Some c \<Rightarrow>
               if pk_active pk c (ssh_world s) then (Inr \<lparr>ssh_client = Some c, ssh_node = Some node\<rparr>, s)
               else (case attempts of
                       0 \<Rightarrow> (Inl IOError, s)
                     | Suc n \<Rightarrow>
                         (case ssh_disconnect pk node s of
                            (Inl e, s1) \<Rightarrow> (Inl e, s1)
                          | (Inr u, s1) \<Rightarrow> ssh_connect pk node n s1))
           | None \<Rightarrow>
               bindS (open_connection pk node h)
                 (\<lambda>c. returnS \<lparr>ssh_client = Some c, ssh_node = Some node\<rparr>) s))"

declare ssh_connect.simps [simp del]

definition ssh_reconnect :: "'w paramiko \<Rightarrow> ssh_object \<Rightarrow> nat \<Rightarrow> ('w ssh_state, ssh_object) act" where
  "ssh_reconnect pk obj attempts =
     (case ssh_node obj of
        None \<Rightarrow> liftS (Inl (TypeError ''NoneType''))
      | Some node \<Rightarrow> thenS (ssh_disconnect pk node) (ssh_connect pk node attempts))"

section \<open>Running commands\<close>

definition on_world :: "('w \<Rightarrow> 'a res \<times> 'w) \<Rightarrow> ('w ssh_state, 'a) act" where
  "on_world m s = (case m (ssh_world s) of (r, w) \<Rightarrow> (r, s\<lparr>ssh_world := w\<rparr>))"

definition open_session :: "'w paramiko \<Rightarrow> ssh_object \<Rightarrow> ('w ssh_state, nat) act" where
  "open_session pk obj =
     (case ssh_client obj of
        None \<Rightarrow> liftS (Inl AttributeError)
      | Some c \<Rightarrow> on_world (pk_open_session pk c))"

definition exec_command :: "'w paramiko \<Rightarrow> ssh_object \<Rightarrow> string \<Rightarrow> int \<Rightarrow> ('w ssh_state, int \<times> string \<times> string) act" where
  "exec_command pk obj cmd timeout =
     bindS (catchS (open_session pk obj) (\<lambda>e.
         if e \<in> {AttributeError, SSHException}
         then bindS (ssh_reconnect pk obj 0) (\<lambda>obj1. open_session pk obj1)
         else liftS (Inl e)))
       (\<lambda>chan. on_world (pk_run pk chan cmd timeout))"

definition exec_command_sudo ::
    "'w paramiko \<Rightarrow> ssh_object \<Rightarrow> string \<Rightarrow> string option \<Rightarrow> int \<Rightarrow> ('w ssh_state, int \<times> string \<times> string) act" where
  "exec_command_sudo pk obj cmd cmd_input timeout =
     exec_command pk obj
       (''sudo -E -S '' @ cmd @ (case cmd_input of None \<Rightarrow> [] | Some i \<Rightarrow> '' <<< '' @ [CHR 34] @ i @ [CHR 34])) timeout"

definition exec_command_lxc ::
    "'w paramiko \<Rightarrow> ssh_object \<Rightarrow> string \<Rightarrow> string \<Rightarrow> string \<Rightarrow> bool \<Rightarrow> int \<Rightarrow> ('w ssh_state, int \<times> string \<times> string) act" where
  "exec_command_lxc pk obj lxc_cmd lxc_name lxc_params sudo timeout =
     (let command = ''lxc-attach '' @ lxc_params @ '' --name '' @ lxc_name @ '' -- /bin/sh -c '' @
            [CHR 34] @ lxc_cmd @ [CHR 34]
      in exec_command pk obj (if sudo then ''sudo -E -S '' @ command else command) timeout)"

text \<open>
  \<open>exec_cmd\<close> returns \<open>None\<close> for the three values \<^verbatim>\<open>None\<close>. The object is disconnected in the end when
  the caller asks for it; a failed connection is not.
\<close>

definition exec_cmd ::
    "'w paramiko \<Rightarrow> node \<Rightarrow> string \<Rightarrow> int \<Rightarrow> bool \<Rightarrow> bool \<Rightarrow> ('w ssh_state, (int \<times> string \<times> string) option) act" where
  "exec_cmd pk node cmd timeout sudo disconnect_after =
     (if cmd = [] then liftS (Inl (ValueError ''Empty command parameter''))
      else bindS (catchS (bindS (ssh_connect pk node 5) (\<lambda>obj. returnS (Some obj)))
                    (\<lambda>e. if e = SSHException then returnS None else liftS (Inl e)))
             (\<lambda>connected. case connected of
                None \<Rightarrow> returnS None
              | Some obj \<Rightarrow>
                  finallyS
                    (catchS
                       (bindS (if sudo then exec_command_sudo pk obj cmd None timeout
                               else exec_command pk obj cmd timeout) (\<lambda>r. returnS (Some r)))
                       (\<lambda>e. if e = SSHException then returnS None else liftS (Inl e)))
                    (whenS disconnect_after (ssh_disconnect pk node))))"

definition failure_text :: "string \<Rightarrow> (int \<times> string \<times> string) option \<Rightarrow> string \<Rightarrow> bool \<Rightarrow> string" where
  "failure_text cmd r message include_reason =
     (let (rc, err) = (case r of None \<Rightarrow> (''None'', ''None'') | Some (rc, out, err) \<Rightarrow> (str_of_int rc, err));
          msg = ''Command execution failed: '' @ [CHR 39] @ cmd @ [CHR 39, CHR 10] @ ''RC: '' @ rc @ [CHR 10] @ err
      in if message = [] then msg else if include_reason then message @ [CHR 10] @ msg else message)"

fun exec_attempts ::
    "'w paramiko \<Rightarrow> node \<Rightarrow> string \<Rightarrow> int \<Rightarrow> bool \<Rightarrow> bool \<Rightarrow> string \<Rightarrow> bool \<Rightarrow> (int \<times> string \<times> string) option \<Rightarrow> nat \<Rightarrow>
     ('w ssh_state, string \<times> string) act" where
  "exec_attempts pk node cmd timeout sudo disc message include_reason prev 0 =
     liftS (Inl (RuntimeError (failure_text cmd prev message include_reason)))"
| "exec_attempts pk node cmd timeout sudo disc message include_reason prev (Suc n) =
     bindS (exec_cmd pk node cmd timeout sudo disc) (\<lambda>r.
       case r of
         Some (rc, out, err) \<Rightarrow>
           if rc = 0 then returnS (out, err)
           else thenS (on_world (\<lambda>w. (Inr (), pk_sleep pk 1 w)))
                  (exec_attempts pk node cmd timeout sudo disc message include_reason r n)
       | None \<Rightarrow>
           thenS (on_world (\<lambda>w. (Inr (), pk_sleep pk 1 w)))
             (exec_attempts pk node cmd timeout sudo disc message include_reason r n))"

definition ssh_exec_cmd_no_error ::
    "'w paramiko \<Rightarrow> node \<Rightarrow> string \<Rightarrow> int \<Rightarrow> bool \<Rightarrow> string \<Rightarrow> bool \<Rightarrow> nat \<Rightarrow> bool \<Rightarrow> ('w ssh_state, string \<times> string) act" where
  "ssh_exec_cmd_no_error pk node cmd timeout sudo message disc retries include_reason =
     exec_attempts pk node cmd timeout sudo disc message include_reason None (retries + 1)"

text \<open>The two ways most keywords call it: with and without \<^verbatim>\<open>sudo\<close>, the other parameters left at their defaults.\<close>

abbreviation run_sudo :: "'w paramiko \<Rightarrow> node \<Rightarrow> string \<Rightarrow> int \<Rightarrow> string \<Rightarrow> ('w ssh_state, string \<times> string) act" where
  "run_sudo pk node cmd timeout message \<equiv> ssh_exec_cmd_no_error pk node cmd timeout True message False 0 False"

abbreviation run_plain :: "'w paramiko \<Rightarrow> node \<Rightarrow> string \<Rightarrow> int \<Rightarrow> string \<Rightarrow> ('w ssh_state, string \<times> string) act" where
  "run_plain pk node cmd timeout message \<equiv> ssh_exec_cmd_no_error pk node cmd timeout False message False 0 False"

definition ssh_scp :: "'w paramiko \<Rightarrow> ssh_object \<Rightarrow> string \<Rightarrow> string \<Rightarrow> bool \<Rightarrow> int \<Rightarrow> ('w ssh_state, unit) act" where
  "ssh_scp pk obj local_path remote_path get timeout =
     (case ssh_client obj of
        None \<Rightarrow> liftS (Inl AttributeError)
      | Some c \<Rightarrow> on_world (pk_scp pk c local_path remote_path get timeout))"

definition scp_node ::
    "'w paramiko \<Rightarrow> node \<Rightarrow> string \<Rightarrow> string \<Rightarrow> bool \<Rightarrow> int \<Rightarrow> bool \<Rightarrow> ('w ssh_state, unit) act" where
  "scp_node pk node local_path remote_path get timeout disc =
     bindS (catchS (ssh_connect pk node 5)
              (\<lambda>e. liftS (Inl (if e = SSHException then RuntimeError ''Failed to connect'' else e))))
       (\<lambda>obj. finallyS
          (catchS (ssh_scp pk obj local_path remote_path get timeout)
             (\<lambda>e. liftS (Inl (if e = PyException ''SCPException'' then RuntimeError ''SCP execution failed'' else e))))
          (whenS disc (ssh_disconnect pk node)))"

text \<open>Loops over the nodes under test, and texts that name the host of a node.\<close>

definition on_duts :: "(node \<Rightarrow> ('s, unit) act) \<Rightarrow> nodes \<Rightarrow> ('s, unit) act" where
  "on_duts f nodes =
     forS (\<lambda>node. bindS (liftS (getitem node ''type'')) (\<lambda>t. whenS (t = VStr ''DUT'') (f node))) (map snd nodes)"

definition with_host :: "node \<Rightarrow> (string \<Rightarrow> ('s, 'a) act) \<Rightarrow> ('s, 'a) act" where
  "with_host node f = bindS (liftS (getitem node ''host'')) (\<lambda>host. f (py_str host))"

section \<open>The interactive terminal\<close>

text \<open>
  What a channel with a shell offers: sending text, the next piece of output (a timeout of the socket is
  the exception \<^verbatim>\<open>socket.timeout\<close>, an empty piece means that the channel is closed), whether the exit
  status has arrived, and closing.
\<close>

record 'w terminal =
  tm_open :: "nat \<Rightarrow> int \<Rightarrow> 'w \<Rightarrow> unit res \<times> 'w"
  tm_sendall :: "string \<Rightarrow> 'w \<Rightarrow> unit res \<times> 'w"
  tm_recv :: "'w \<Rightarrow> string res \<times> 'w"
  tm_exit_status_ready :: "'w \<Rightarrow> bool"
  tm_close :: "'w \<Rightarrow> unit res \<times> 'w"

abbreviation "socket_timeout \<equiv> PyException ''socket.timeout''"

definition ends_with_any :: "string \<Rightarrow> string list \<Rightarrow> bool" where
  "ends_with_any s ps \<longleftrightarrow> (\<exists>p\<in>set ps. endswith s p)"

partial_function (option) read_until :: "'w terminal \<Rightarrow> string list \<Rightarrow> string \<Rightarrow> 'w \<Rightarrow> (string res \<times> 'w) option" where
  "read_until tm prompts buf w =
     (if ends_with_any buf prompts then Some (Inr buf, w)
      else case tm_recv tm w of
             (Inl e, w1) \<Rightarrow> Some (Inl (if e = socket_timeout then PyException ''Exception'' else e), w1)
           | (Inr s_out, w1) \<Rightarrow>
               if s_out = [] then Some (Inr buf, w1)
               else if tm_exit_status_ready tm w1 then Some (Inr (buf @ s_out), w1)
               else read_until tm prompts (buf @ s_out) w1)"

definition linux_prompts :: "string list" where
  "linux_prompts = ['':~# '', '':~$ '', ''~]$ '', ''~]# '']"

definition interactive_terminal_open :: "'w terminal \<Rightarrow> ssh_object \<Rightarrow> int \<Rightarrow> 'w \<Rightarrow> (unit res \<times> 'w) option" where
  "interactive_terminal_open tm obj time_out w =
     (case ssh_client obj of
        None \<Rightarrow> Some (Inl AttributeError, w)
      | Some c \<Rightarrow>
          (case tm_open tm c time_out w of
             (Inl e, w1) \<Rightarrow> Some (Inl e, w1)
           | (Inr u, w1) \<Rightarrow>
               (case read_until tm linux_prompts [] w1 of
                  None \<Rightarrow> None
                | Some (r, w2) \<Rightarrow> Some (bindE r (\<lambda>_. Inr ()), w2))))"

text \<open>The command is cut out of what came back; the prompt stays.\<close>

definition interactive_terminal_exec_command ::
    "'w terminal \<Rightarrow> string \<Rightarrow> string list \<Rightarrow> 'w \<Rightarrow> (string res \<times> 'w) option" where
  "interactive_terminal_exec_command tm cmd prompt w =
     (case tm_sendall tm (cmd @ [CHR 10]) w of
        (Inl e, w1) \<Rightarrow> Some (Inl e, w1)
      | (Inr u, w1) \<Rightarrow>
          (case read_until tm prompt [] w1 of
             None \<Rightarrow> None
           | Some (r, w2) \<Rightarrow> Some (bindE r (\<lambda>buf. Inr (replace_all (filter (\<lambda>c. c \<noteq> CHR 10) cmd) [] buf)), w2)))"

definition interactive_terminal_close :: "'w terminal \<Rightarrow> 'w \<Rightarrow> unit res \<times> 'w" where
  "interactive_terminal_close tm w = tm_close tm w"

text \<open>
  Reading ends as soon as the pieces received so far end with a prompt, whatever the channel would
  deliver afterwards.
\<close>

lemma read_until_prompt:
  assumes "\<And>k. k < length chunks \<Longrightarrow> tm_recv tm (world k) = (Inr (chunks ! k), world (Suc k))"
    and "\<And>k. k < length chunks \<Longrightarrow> chunks ! k \<noteq> [] \<and> \<not> tm_exit_status_ready tm (world (Suc k))"
    and "ends_with_any (concat chunks) prompts"
    and "\<And>k. k < length chunks \<Longrightarrow> \<not> ends_with_any (concat (take k chunks)) prompts"
  shows "read_until tm prompts [] (world 0) = Some (Inr (concat chunks), world (length chunks))"
proof -
  have "read_until tm prompts (concat (take k chunks)) (world k) = Some (Inr (concat chunks), world (length chunks))"
    if "k \<le> length chunks" for k
    using that
  proof (induction "length chunks - k" arbitrary: k)
    case 0
    then show ?case using assms(3) by (subst read_until.simps) simp
  next
    case (Suc m)
    then have k: "k < length chunks" by simp
    from Suc.hyps(1) [of "Suc k"] Suc.hyps(2) k
    have "read_until tm prompts (concat (take (Suc k) chunks)) (world (Suc k)) =
        Some (Inr (concat chunks), world (length chunks))" by simp
    then show ?case
      using assms(1,2) [OF k] assms(4) [OF k] k by (subst read_until.simps) (simp add: take_Suc_conv_app_nth)
  qed
  from this [of 0] show ?thesis by simp
qed

section \<open>Waiting ends\<close>

text \<open>Within \<open>n\<close> pauses of at least \<open>d\<close> seconds the time that is left has passed.\<close>

lemma await_exit_within:
  assumes "\<And>w. clock ch w \<le> clock ch (snd (recv ch w))"
    and "\<And>w. clock ch w \<le> clock ch (snd (recv_stderr ch w))"
    and "\<And>w. clock ch w + d \<le> clock ch (pause ch w)" and "0 < d"
    and "timeout - (clock ch w - start) < real n * d"
  shows "\<exists>r w'. await_exit ch timeout start out err w = Some (r, w') \<and>
    (case r of Inl e \<Rightarrow> e = PyException ''SSHTimeout'' \<and> clock ch w' - start > timeout
             | Inr x \<Rightarrow> exit_status_ready ch w')"
  using assms(5)
proof (induction n arbitrary: out err w)
  case 0
  obtain s1 w1 where r1: "recv ch w = (s1, w1)" by fastforce
  obtain s2 w2 where r2: "recv_stderr ch w1 = (s2, w2)" by fastforce
  have "clock ch w \<le> clock ch w2" using assms(1) [of w] assms(2) [of w1] r1 r2 by simp
  then show ?case using 0 r1 r2 by (subst await_exit.simps) simp
next
  case (Suc n)
  obtain s1 w1 where r1: "recv ch w = (s1, w1)" by fastforce
  obtain s2 w2 where r2: "recv_stderr ch w1 = (s2, w2)" by fastforce
  have "clock ch w \<le> clock ch w2" using assms(1) [of w] assms(2) [of w1] r1 r2 by simp
  then have "timeout - (clock ch (pause ch w2) - start) < real n * d"
    using Suc.prems assms(3) [of w2] by (simp add: algebra_simps)
  from Suc.IH [OF this, of "out @ received s1" "err @ received s2"] show ?case
    using r1 r2 by (subst await_exit.simps) auto
qed

text \<open>
  C24. Waiting for a command ends, provided that every pause advances the clock by at least \<open>d\<close>
  seconds and receiving does not turn it back: either the command is done, or the waiting is given up
  with \<^verbatim>\<open>SSHTimeout\<close>, and then more than the timeout has passed.
\<close>

theorem waiting_ends:
  assumes "\<And>w. clock ch w \<le> clock ch (snd (recv ch w))"
    and "\<And>w. clock ch w \<le> clock ch (snd (recv_stderr ch w))"
    and "\<And>w. clock ch w + d \<le> clock ch (pause ch w)" and "0 < d"
  shows "\<exists>r w'. await_exit ch timeout (clock ch w) [] [] w = Some (r, w') \<and>
    (case r of Inl e \<Rightarrow> e = PyException ''SSHTimeout'' \<and> clock ch w' - clock ch w > timeout
             | Inr x \<Rightarrow> exit_status_ready ch w')"
proof -
  obtain n where "timeout / d < real n" using reals_Archimedean2 by blast
  then have "timeout - (clock ch w - clock ch w) < real n * d"
    using assms(4) by (simp add: divide_less_eq)
  from await_exit_within [OF assms this] show ?thesis .
qed

text \<open>A channel whose command ends after ten seconds and has written a line.\<close>

definition slow_channel :: "real channel" where
  "slow_channel =
     \<lparr>exit_status_ready = (\<lambda>w. w \<ge> 10), recv = (\<lambda>w. (if w < 1 then Some ''ok'' else None, w)),
      recv_stderr = (\<lambda>w. (None, w)), recv_exit_status = (\<lambda>w. (0, w)), clock = (\<lambda>w. w), pause = (\<lambda>w. w + 1)\<rparr>"

theorem waiting_ends_witness:
  "\<exists>r w'. await_exit slow_channel 3 (clock slow_channel 0) [] [] 0 = Some (r, w') \<and>
     (case r of Inl e \<Rightarrow> e = PyException ''SSHTimeout'' \<and> clock slow_channel w' - clock slow_channel 0 > 3
              | Inr x \<Rightarrow> exit_status_ready slow_channel w')"
  by (rule waiting_ends [of slow_channel 1]) (simp_all add: slow_channel_def)

section \<open>Shared connections\<close>

text \<open>
  What holds after every operation: no connection is filed twice, and the other nodes' connections are
  as they were.
\<close>

definition others_kept :: "node \<Rightarrow> 'w ssh_state \<Rightarrow> 'w ssh_state \<Rightarrow> bool" where
  "others_kept node s s' \<longleftrightarrow>
     (dict_wf (existing_connections s) \<longrightarrow> dict_wf (existing_connections s')) \<and>
     (\<forall>h. node_hash node \<noteq> Inr h \<longrightarrow> map_of (existing_connections s') h = map_of (existing_connections s) h)"

interpretation ssh_frame: frame "others_kept node" for node
  by unfold_locales (auto simp: others_kept_def)

lemma dict_wf_update: "dict_wf d \<Longrightarrow> dict_wf (AList.update k v d)"
  by (simp add: dict_wf_def distinct_update)

lemma dict_wf_delete: "dict_wf d \<Longrightarrow> dict_wf (AList.delete k d)"
  by (simp add: dict_wf_def distinct_delete)

lemma ssh_disconnect_kept: "along (others_kept node) (ssh_disconnect pk node)"
  by (rule alongI)
     (auto simp: ssh_disconnect_def others_kept_def dict_wf_delete delete_conv' split: sum.splits option.splits)

lemma open_connection_kept: "node_hash node = Inr h \<Longrightarrow> along (others_kept node) (open_connection pk node h)"
  by (rule alongI)
     (auto simp: open_connection_def others_kept_def dict_wf_update update_conv'
        split: sum.splits option.splits prod.splits)

lemma ssh_connect_kept: "along (others_kept node) (ssh_connect pk node n)"
proof (rule alongI)
  show "others_kept node s s'" if "ssh_connect pk node n s = (r, s')" for s r s'
    using that
  proof (induction n arbitrary: s)
    case 0
    then show ?case
      by (subst (asm) ssh_connect.simps)
         (auto simp: ssh_frame.refl intro: alongD [OF ssh_frame.along_bindS [OF open_connection_kept ssh_frame.along_returnS]]
            split: sum.splits option.splits if_splits)
  next
    case (Suc n)
    have step: "others_kept node s s1 \<Longrightarrow> ssh_connect pk node n s1 = (r, s') \<Longrightarrow> others_kept node s s'" for s1
      using Suc.IH [of s1] ssh_frame.trans by blast
    from Suc.prems show ?case
      by (subst (asm) ssh_connect.simps)
         (auto simp: ssh_frame.refl
            intro: step alongD [OF ssh_frame.along_bindS [OF open_connection_kept ssh_frame.along_returnS]]
              alongD [OF ssh_disconnect_kept]
            split: sum.splits option.splits if_splits prod.splits)
  qed
qed

lemma on_world_kept: "along (others_kept node) (on_world m)"
  by (rule alongI) (auto simp: on_world_def others_kept_def split: prod.splits)

lemma open_session_kept: "along (others_kept node) (open_session pk obj)"
  unfolding open_session_def by (cases "ssh_client obj") (simp_all add: ssh_frame.along_liftS on_world_kept)

lemma exec_command_kept:
  "ssh_node obj = Some node \<Longrightarrow> along (others_kept node) (exec_command pk obj cmd timeout)"
  unfolding exec_command_def ssh_reconnect_def
  by (auto intro!: ssh_frame.along_rules open_session_kept on_world_kept ssh_disconnect_kept ssh_connect_kept)

lemma ssh_connect_files:
  assumes "ssh_connect pk node n s = (Inr obj, s')"
  shows "\<exists>h c. node_hash node = Inr h \<and> obj = \<lparr>ssh_client = Some c, ssh_node = Some node\<rparr> \<and>
    map_of (existing_connections s') h = Some c"
  using assms
proof (induction n arbitrary: s)
  case 0
  then show ?case
    by (subst (asm) ssh_connect.simps)
       (auto simp: bindS_eq_Inr open_connection_def update_conv'
          split: sum.splits option.splits if_splits prod.splits)
next
  case (Suc n)
  from Suc.prems Suc.IH show ?case
    by (subst (asm) ssh_connect.simps)
       (auto simp: bindS_eq_Inr open_connection_def update_conv'
          split: sum.splits option.splits if_splits prod.splits)
qed

text \<open>
  C23. Connecting to a node either returns an object that uses the connection filed for the node,
  or raises; in both cases no connection is filed twice and the connections of the other nodes are left
  alone. An active connection is reused: nothing changes.
\<close>

theorem connect_shares_connections:
  assumes "ssh_connect pk node n s = (r, s')" and "dict_wf (existing_connections s)"
  shows "dict_wf (existing_connections s') \<and>
    (\<forall>h. node_hash node \<noteq> Inr h \<longrightarrow> map_of (existing_connections s') h = map_of (existing_connections s) h) \<and>
    (\<forall>obj. r = Inr obj \<longrightarrow> (\<exists>h c. node_hash node = Inr h \<and> map_of (existing_connections s') h = Some c \<and>
       ssh_client obj = Some c \<and> ssh_node obj = Some node)) \<and>
    (\<forall>h c. node_hash node = Inr h \<longrightarrow> map_of (existing_connections s) h = Some c \<longrightarrow>
       pk_active pk c (ssh_world s) \<longrightarrow> s' = s \<and> (\<exists>obj. r = Inr obj \<and> ssh_client obj = Some c))"
proof (intro conjI)
  show "dict_wf (existing_connections s')"
    "\<forall>h. node_hash node \<noteq> Inr h \<longrightarrow> map_of (existing_connections s') h = map_of (existing_connections s) h"
    using alongD [OF ssh_connect_kept assms(1)] assms(2) by (auto simp: others_kept_def)
  show "\<forall>obj. r = Inr obj \<longrightarrow> (\<exists>h c. node_hash node = Inr h \<and> map_of (existing_connections s') h = Some c \<and>
       ssh_client obj = Some c \<and> ssh_node obj = Some node)"
    using ssh_connect_files assms(1) by fastforce
  show "\<forall>h c. node_hash node = Inr h \<longrightarrow> map_of (existing_connections s) h = Some c \<longrightarrow>
       pk_active pk c (ssh_world s) \<longrightarrow> s' = s \<and> (\<exists>obj. r = Inr obj \<and> ssh_client obj = Some c)"
    using assms(1) by (subst (asm) ssh_connect.simps) auto
qed

text \<open>A command on an active connection.\<close>

definition sudo_text :: "bool \<Rightarrow> string \<Rightarrow> string" where
  "sudo_text sudo cmd = (if sudo then ''sudo -E -S '' @ cmd else cmd)"

lemma exec_cmd_connected:
  assumes "node_hash node = Inr h" and "map_of (existing_connections s) h = Some c" and "pk_active pk c (ssh_world s)"
    and "pk_open_session pk c (ssh_world s) = (Inr ch, w1)" and "cmd \<noteq> []"
    and "pk_run pk ch (sudo_text sudo cmd) timeout w1 = (Inr r, w2)"
  shows "exec_cmd pk node cmd timeout sudo False s = (Inr (Some r), s\<lparr>ssh_world := w2\<rparr>)"
  unfolding exec_cmd_def exec_command_sudo_def exec_command_def using assms
  by (cases sudo) (simp_all add: bindS_def catchS_def finallyS_def ssh_connect.simps open_session_def on_world_def returnS_def
      whenS_def sudo_text_def)

lemma exec_no_error_connected:
  assumes "exec_cmd pk node cmd timeout sudo disc s = (Inr (Some (0, out, err)), s')"
  shows "ssh_exec_cmd_no_error pk node cmd timeout sudo message disc retries reason s = (Inr (out, err), s')"
  using assms by (simp add: ssh_exec_cmd_no_error_def bindS_def returnS_def)

text \<open>A library whose only client is active, runs every command at once and fails every second time.\<close>

definition lab_paramiko :: "nat paramiko" where
  "lab_paramiko =
     \<lparr>pk_connect = (\<lambda>host user password key port w. (Inr 7, w)), pk_active = (\<lambda>c w. c = 7),
      pk_close = (\<lambda>c w. w), pk_open_session = (\<lambda>c w. (Inr 1, w)),
      pk_run = (\<lambda>ch cmd timeout w. (Inr (if even w then 1 else 0, cmd, ''''), w + 1)),
      pk_scp = (\<lambda>c l r get timeout w. (Inr (), w)), pk_sleep = (\<lambda>t w. w)\<rparr>"

definition lab_node :: node where
  "lab_node = [(''host'', VStr ''10.0.0.1''), (''port'', VInt 22), (''username'', VStr ''csit'')]"

lemma lab_node_items:
  "getitem lab_node ''host'' = Inr (VStr ''10.0.0.1'')" "getitem lab_node ''port'' = Inr (VInt 22)"
  "getitem lab_node ''username'' = Inr (VStr ''csit'')"
  by (simp_all add: lab_node_def getitem_def)

theorem connect_shares_connections_witness:
  "\<exists>obj s'. ssh_connect lab_paramiko lab_node 5 \<lparr>existing_connections = [({VInt 1, VInt 2}, 3)], ssh_world = 0\<rparr> =
      (Inr obj, s') \<and>
    map_of (existing_connections s') {VStr ''10.0.0.1'', VInt 22} = Some 7 \<and>
    map_of (existing_connections s') {VInt 1, VInt 2} = Some 3 \<and> ssh_client obj = Some 7"
proof -
  let ?s = "\<lparr>existing_connections = [({VInt 1, VInt 2}, 3)], ssh_world = 0\<rparr>"
  have h: "node_hash lab_node = Inr {VStr ''10.0.0.1'', VInt 22}"
    by (simp add: node_hash_def lab_node_items)
  obtain r s' where run: "ssh_connect lab_paramiko lab_node 5 ?s = (r, s')" by fastforce
  have ne: "{VStr ''10.0.0.1'', VInt 22} \<noteq> {VInt 1, VInt 2}" by auto
  have "fst (ssh_connect lab_paramiko lab_node 5 ?s) = Inr \<lparr>ssh_client = Some 7, ssh_node = Some lab_node\<rparr>"
    using ne by (subst ssh_connect.simps)
      (simp add: h lab_node_items open_connection_def bindS_def returnS_def lab_paramiko_def)
  with run have r: "r = Inr \<lparr>ssh_client = Some 7, ssh_node = Some lab_node\<rparr>" by simp
  have "dict_wf (existing_connections ?s)" by (simp add: dict_wf_def)
  from connect_shares_connections [OF run this] r h ne
  have "map_of (existing_connections s') {VStr ''10.0.0.1'', VInt 22} = Some 7"
    "map_of (existing_connections s') {VInt 1, VInt 2} = Some 3"
    by auto
  with run r show ?thesis by auto
qed

section \<open>Retries\<close>

definition success_of :: "(int \<times> string \<times> string) option \<Rightarrow> (string \<times> string) option" where
  "success_of r = (case r of None \<Rightarrow> None | Some (rc, out, err) \<Rightarrow> if rc = 0 then Some (out, err) else None)"

definition pause_second :: "'w paramiko \<Rightarrow> 'w ssh_state \<Rightarrow> 'w ssh_state" where
  "pause_second pk s = s\<lparr>ssh_world := pk_sleep pk 1 (ssh_world s)\<rparr>"

interpretation retried: polling "exec_cmd pk node cmd timeout sudo disc" success_of "pause_second pk"
    "exec_attempts pk node cmd timeout sudo disc message reason" "\<lambda>r. r"
  for pk :: "'w paramiko" and node cmd timeout sudo disc message reason
proof
  show "\<exists>e. exec_attempts pk node cmd timeout sudo disc message reason p 0 s = (Inl e, s)" for p s
    by (simp add: liftS_def)
  show "exec_cmd pk node cmd timeout sudo disc s = (Inl e, s1) \<Longrightarrow>
      exec_attempts pk node cmd timeout sudo disc message reason p (Suc n) s = (Inl e, s1)" for s e s1 p n
    by (simp add: bindS_def)
  show "exec_cmd pk node cmd timeout sudo disc s = (Inr x, s1) \<Longrightarrow> success_of x = Some y \<Longrightarrow>
      exec_attempts pk node cmd timeout sudo disc message reason p (Suc n) s = (Inr y, s1)" for s x s1 y p n
    by (auto simp: bindS_def success_of_def split: option.splits if_splits)
  show "exec_cmd pk node cmd timeout sudo disc s = (Inr x, s1) \<Longrightarrow> success_of x = None \<Longrightarrow>
      exec_attempts pk node cmd timeout sudo disc message reason p (Suc n) s =
      exec_attempts pk node cmd timeout sudo disc message reason x n (pause_second pk s1)" for s x s1 p n
    by (cases x) (auto simp: bindS_def thenS_def on_world_def pause_second_def success_of_def split: if_splits)
qed

text \<open>
  C22. \<open>exec_cmd_no_error\<close> returns the output of a command exactly when one of the first
  \<open>retries + 1\<close> runs ends with return code zero, and then it is the output of the first such run; all
  runs before it ended otherwise and were followed by a pause of a second.
\<close>

theorem exec_no_error_first_success:
  "ssh_exec_cmd_no_error pk node cmd timeout sudo message disc retries reason s = (Inr (out, err), s') \<longleftrightarrow>
     (\<exists>k t. k \<le> retries \<and>
        unsuccessful (exec_cmd pk node cmd timeout sudo disc) success_of (pause_second pk) k s t \<and>
        exec_cmd pk node cmd timeout sudo disc t = (Inr (Some (0, out, err)), s'))"
proof -
  have some: "success_of x = Some (out, err) \<longleftrightarrow> x = Some (0, out, err)" for x
    by (auto simp: success_of_def split: option.splits if_splits)
  have le: "k < retries + 1 \<longleftrightarrow> k \<le> retries" for k by auto
  show ?thesis unfolding ssh_exec_cmd_no_error_def retried.first_success some le by simp
qed

end
