(* ===== verification/L2Util.thy ===== *)
theory L2Util
  imports Papi Ssh
begin

text \<open>
  \<open>L2Util.py\<close>: conversions of MAC addresses, and the keywords that configure bridge domains, cross
  connects and VLAN tag rewriting through the VPP API (\<open>Papi\<close>), with \<open>get_interface_index\<close> of
  \<open>InterfaceUtil.py\<close>. Commands run over ssh are the argument \<open>exec\<close>.
\<close>

section \<open>MAC addresses\<close>

definition mac_to_int :: "string \<Rightarrow> int res" where
  "mac_to_int mac = int_base16 (replace_all '':'' '''' mac)"

definition hex_groups :: "string \<Rightarrow> string list" where
  "hex_groups s = map (\<lambda>i. py_slice i (i + 2) s) [0, 2, 4, 6, 8, 10]"

definition int_to_mac :: "int \<Rightarrow> string" where
  "int_to_mac n = join '':'' (hex_groups (pad_left 12 (drop 2 (py_hex n))))"

definition mac_to_bin :: "string \<Rightarrow> byte list res" where
  "mac_to_bin mac = fromhex (replace_all '':'' '''' mac)"

definition bin_to_mac :: "byte list \<Rightarrow> string" where
  "bin_to_mac mac_bin = join '':'' (hex_groups (bytes_hex mac_bin))"

section \<open>Interfaces\<close>

text \<open>Indices are taken as they are, strings are looked up.\<close>

definition sw_index_of :: "node \<Rightarrow> pyval \<Rightarrow> pyval res" where
  "sw_index_of node interface =
     (case interface of VStr k \<Rightarrow> get_interface_sw_index node (VStr k) | v \<Rightarrow> Inr v)"

definition get_interface_index :: "node \<Rightarrow> pyval \<Rightarrow> pyval res" where
  "get_interface_index node interface =
     (case py_int interface of
        Inr i \<Rightarrow> Inr (VInt i)
      | Inl (ValueError m) \<Rightarrow>
          bindE (get_interface_sw_index node interface) (\<lambda>index.
          if index = VNone then get_interface_sw_index_by_name node interface else Inr index)
      | Inl (TypeError m) \<Rightarrow> Inl (TypeError ''Wrong interface format'')
      | Inl e \<Rightarrow> Inl e)"

definition py_int_val :: "pyval \<Rightarrow> pyval res" where
  "py_int_val v = bindE (py_int v) (\<lambda>i. Inr (VInt i))"

text \<open>\<open>==\<close> of numbers, truth values and strings.\<close>

fun number_of :: "pyval \<Rightarrow> int option" where
  "number_of (VInt i) = Some i"
| "number_of (VBool b) = Some (if b then 1 else 0)"
| "number_of v = None"

definition py_eq :: "pyval \<Rightarrow> pyval \<Rightarrow> bool" where
  "py_eq a b = (case (number_of a, number_of b) of (Some i, Some j) \<Rightarrow> i = j | _ \<Rightarrow> a = b)"

section \<open>Forwarding entries and bridge domains\<close>

definition vpp_add_l2fib_entry ::
    "'w vpp_env \<Rightarrow> node \<Rightarrow> string \<Rightarrow> pyval \<Rightarrow> pyval \<Rightarrow> pyval \<Rightarrow> pyval \<Rightarrow> pyval \<Rightarrow> 'w papi_state \<Rightarrow> unit res \<times> 'w papi_state" where
  "vpp_add_l2fib_entry env node mac interface bd_id static_mac filter_mac bvi_mac st =
     nothing (request_reply env node ''l2fib_add_del''
       (bindE (sw_index_of node interface) (\<lambda>sw_if_index.
        bindE (getitem node ''host'') (\<lambda>host.
        bindE (mac_to_bin mac) (\<lambda>m.
        bindE (py_int_val bd_id) (\<lambda>bd.
        bindE (py_int_val static_mac) (\<lambda>s.
        bindE (py_int_val filter_mac) (\<lambda>f.
        bindE (py_int_val bvi_mac) (\<lambda>b.
        Inr [(''mac'', VBytes m), (''bd_id'', bd), (''sw_if_index'', sw_if_index), (''is_add'', VBool True),
             (''static_mac'', s), (''filter_mac'', f), (''bvi_mac'', b)]))))))))
       ''Failed to add L2FIB entry'' st)"

definition bridge_domain_args :: "pyval \<Rightarrow> pyval \<Rightarrow> pyval \<Rightarrow> pyval \<Rightarrow> pyval \<Rightarrow> pyval \<Rightarrow> pyobj" where
  "bridge_domain_args bd flood uu_flood forward learn arp_term =
     [(''bd_id'', bd), (''flood'', flood), (''uu_flood'', uu_flood), (''forward'', forward), (''learn'', learn),
      (''arp_term'', arp_term), (''is_add'', VBool True)]"

definition create_l2_bd ::
    "'w vpp_env \<Rightarrow> node \<Rightarrow> pyval \<Rightarrow> pyval \<Rightarrow> pyval \<Rightarrow> pyval \<Rightarrow> pyval \<Rightarrow> pyval \<Rightarrow> 'w papi_state \<Rightarrow> unit res \<times> 'w papi_state" where
  "create_l2_bd env node bd_id flood uu_flood forward learn arp_term st =
     nothing (request_reply env node ''bridge_domain_add_del''
       (bindE (getitem node ''host'') (\<lambda>host.
        bindE (py_int_val bd_id) (\<lambda>bd.
        Inr (bridge_domain_args bd flood uu_flood forward learn arp_term))))
       ''Failed to create L2 bridge domain'' st)"

definition bridge_port_args :: "pyval \<Rightarrow> pyval \<Rightarrow> pyval \<Rightarrow> pyval \<Rightarrow> pyobj" where
  "bridge_port_args sw_if_index bd shg port_type =
     [(''rx_sw_if_index'', sw_if_index), (''bd_id'', bd), (''shg'', shg), (''port_type'', port_type),
      (''enable'', VBool True)]"

definition add_interface_to_l2_bd ::
    "'w vpp_env \<Rightarrow> node \<Rightarrow> pyval \<Rightarrow> pyval \<Rightarrow> pyval \<Rightarrow> pyval \<Rightarrow> 'w papi_state \<Rightarrow> unit res \<times> 'w papi_state" where
  "add_interface_to_l2_bd env node interface bd_id shg port_type st =
     nothing (request_reply env node ''sw_interface_set_l2_bridge''
       (bindE (get_interface_sw_index node interface) (\<lambda>sw_if_index.
        bindE (getitem node ''host'') (\<lambda>host.
        bindE (py_int_val bd_id) (\<lambda>bd.
        bindE (py_int_val shg) (\<lambda>s.
        bindE (py_int_val port_type) (\<lambda>p. Inr (bridge_port_args sw_if_index bd s p)))))))
       ''Failed to add interface to L2 bridge domain'' st)"

definition l2_bridge_commands :: "node \<Rightarrow> pyval \<Rightarrow> pyval \<Rightarrow> pyval \<Rightarrow> pyval \<Rightarrow> (string \<times> pyobj) list res" where
  "l2_bridge_commands node bd_id port_1 port_2 learn =
     bindE (get_interface_sw_index node port_1) (\<lambda>sw_if_index1.
     bindE (get_interface_sw_index node port_2) (\<lambda>sw_if_index2.
     bindE (py_int_val bd_id) (\<lambda>bd.
     bindE (getitem node ''host'') (\<lambda>host.
     Inr [(''bridge_domain_add_del'',
             bridge_domain_args bd (VBool True) (VBool True) (VBool True) learn (VBool False)),
          (''sw_interface_set_l2_bridge'', bridge_port_args sw_if_index1 bd (VInt 0) (VInt 0)),
          (''sw_interface_set_l2_bridge'', bridge_port_args sw_if_index2 bd (VInt 0) (VInt 0))]))))"

definition vpp_add_l2_bridge_domain ::
    "'w vpp_env \<Rightarrow> node \<Rightarrow> pyval \<Rightarrow> pyval \<Rightarrow> pyval \<Rightarrow> pyval \<Rightarrow> 'w papi_state \<Rightarrow> unit res \<times> 'w papi_state" where
  "vpp_add_l2_bridge_domain env node bd_id port_1 port_2 learn st =
     nothing (request_replies env node (l2_bridge_commands node bd_id port_1 port_2 learn)
       ''Failed to add L2 bridge domain with 2 interfaces'' st)"

section \<open>Connections of two interfaces\<close>

definition pair_commands :: "string \<Rightarrow> string \<Rightarrow> node \<Rightarrow> pyval \<Rightarrow> pyval \<Rightarrow> (string \<times> pyobj) list res" where
  "pair_commands cmd flag node interface1 interface2 =
     bindE (sw_index_of node interface1) (\<lambda>sw_iface1.
     bindE (sw_index_of node interface2) (\<lambda>sw_iface2.
     bindE (getitem node ''host'') (\<lambda>host.
     Inr [(cmd, [(''rx_sw_if_index'', sw_iface1), (''tx_sw_if_index'', sw_iface2), (flag, VBool True)]),
          (cmd, [(''rx_sw_if_index'', sw_iface2), (''tx_sw_if_index'', sw_iface1), (flag, VBool True)])])))"

definition vpp_setup_bidirectional_cross_connect ::
    "'w vpp_env \<Rightarrow> node \<Rightarrow> pyval \<Rightarrow> pyval \<Rightarrow> 'w papi_state \<Rightarrow> unit res \<times> 'w papi_state" where
  "vpp_setup_bidirectional_cross_connect env node interface1 interface2 st =
     nothing (request_replies env node
       (pair_commands ''sw_interface_set_l2_xconnect'' ''enable'' node interface1 interface2)
       ''Failed to add L2 cross-connect between two interfaces'' st)"

definition vpp_setup_bidirectional_l2_patch ::
    "'w vpp_env \<Rightarrow> node \<Rightarrow> pyval \<Rightarrow> pyval \<Rightarrow> 'w papi_state \<Rightarrow> unit res \<times> 'w papi_state" where
  "vpp_setup_bidirectional_l2_patch env node interface1 interface2 st =
     nothing (request_replies env node
       (pair_commands ''l2_patch_add_del'' ''is_add'' node interface1 interface2)
       ''Failed to add L2 patch between two interfaces'' st)"

section \<open>Linux bridges\<close>

definition sudo_all :: "'w paramiko \<Rightarrow> node \<Rightarrow> string list \<Rightarrow> ('w ssh_state, unit) act" where
  "sudo_all pk node cmds = forS (\<lambda>cmd. voidS (run_sudo pk node cmd 600 [])) cmds"

definition linux_add_bridge ::
    "'w paramiko \<Rightarrow> node \<Rightarrow> string \<Rightarrow> string \<Rightarrow> string \<Rightarrow> bool \<Rightarrow> ('w ssh_state, unit) act" where
  "linux_add_bridge pk node br_name if_1 if_2 set_up =
     sudo_all pk node
       ([''brctl addbr '' @ br_name, ''brctl addif '' @ br_name @ '' '' @ if_1,
         ''brctl addif '' @ br_name @ '' '' @ if_2] @
        (if set_up then [''ip link set dev '' @ br_name @ '' up''] else []))"

definition linux_del_bridge :: "'w paramiko \<Rightarrow> node \<Rightarrow> string \<Rightarrow> bool \<Rightarrow> ('w ssh_state, unit) act" where
  "linux_del_bridge pk node br_name set_down =
     sudo_all pk node
       ((if set_down then [''ip link set dev '' @ br_name @ '' down''] else []) @ [''brctl delbr '' @ br_name])"

section \<open>Tables\<close>

definition vpp_get_bridge_domain_data ::
    "'w vpp_env \<Rightarrow> node \<Rightarrow> pyval \<Rightarrow> 'w papi_state \<Rightarrow> pyval res \<times> 'w papi_state" where
  "vpp_get_bridge_domain_data env node bd_id st =
     mapS (\<lambda>details.
       foldE (\<lambda>retval bridge_domain. bindE (getitem bridge_domain ''bd_id'') (\<lambda>bd.
           Inr (if py_eq bd bd_id then VDict bridge_domain else retval)))
         (if py_eq bd_id (VInt BITWISE_NON_ZERO) then VList (map VDict details) else VNone) details)
     (request_details env node ''bridge_domain_dump''
       (bindE (py_int_val bd_id) (\<lambda>bd.
        bindE (getitem node ''host'') (\<lambda>host. Inr [(''bd_id'', bd)])))
       ''Failed to get L2FIB dump'' st)"

definition L2VtrOp :: "(string \<times> int) list" where
  "L2VtrOp =
     [(''L2_VTR_DISABLED'', 0), (''L2_VTR_PUSH_1'', 1), (''L2_VTR_PUSH_2'', 2), (''L2_VTR_POP_1'', 3),
      (''L2_VTR_POP_2'', 4), (''L2_VTR_TRANSLATE_1_1'', 5), (''L2_VTR_TRANSLATE_1_2'', 6),
      (''L2_VTR_TRANSLATE_2_1'', 7), (''L2_VTR_TRANSLATE_2_2'', 8)]"

definition tag_id :: "pyval \<Rightarrow> pyval res" where
  "tag_id v = (if truthy_val v then py_int_val v else Inr (VInt 0))"

definition l2_vlan_tag_rewrite ::
    "'w vpp_env \<Rightarrow> node \<Rightarrow> pyval \<Rightarrow> string \<Rightarrow> pyval \<Rightarrow> pyval \<Rightarrow> pyval \<Rightarrow> 'w papi_state \<Rightarrow> unit res \<times> 'w papi_state" where
  "l2_vlan_tag_rewrite env node interface tag_rewrite_method push_dot1q tag1_id tag2_id st =
     nothing (request_reply env node ''l2_interface_vlan_tag_rewrite''
       (bindE (tag_id tag1_id) (\<lambda>tag1.
        bindE (tag_id tag2_id) (\<lambda>tag2.
        bindE (case map_of L2VtrOp (''L2_VTR_'' @ upper (replace_all ''-'' ''_'' tag_rewrite_method)) of
                 None \<Rightarrow> Inl AttributeError | Some n \<Rightarrow> Inr n) (\<lambda>vtr_oper.
        bindE (case interface of
                 VStr s \<Rightarrow>
                   bindE (get_interface_by_name node (VStr s)) (\<lambda>iface_key. get_interface_sw_index node iface_key)
               | v \<Rightarrow> Inr v) (\<lambda>sw_if_index.
        bindE (py_int_val push_dot1q) (\<lambda>push.
        bindE (getitem node ''host'') (\<lambda>host.
        Inr [(''sw_if_index'', sw_if_index), (''vtr_op'', VInt vtr_oper), (''push_dot1q'', push),
             (''tag1'', tag1), (''tag2'', tag2)])))))))
       ''Failed to set VLAN TAG rewrite'' st)"

definition readable_mac :: "pyobj \<Rightarrow> pyobj res" where
  "readable_mac fib_item =
     bindE (getitem fib_item ''mac'') (\<lambda>mac.
     case mac of
       VBytes b \<Rightarrow> Inr (AList.update ''mac'' (VStr (bin_to_mac b)) fib_item)
     | _ \<Rightarrow> Inl AttributeError)"

definition get_l2_fib_table ::
    "'w vpp_env \<Rightarrow> node \<Rightarrow> pyval \<Rightarrow> 'w papi_state \<Rightarrow> pyobj list res \<times> 'w papi_state" where
  "get_l2_fib_table env node bd_id st =
     mapS (mapE readable_mac)
     (request_details env node ''l2_fib_table_dump''
       (bindE (py_int_val bd_id) (\<lambda>bd.
        bindE (getitem node ''host'') (\<lambda>host. Inr [(''bd_id'', bd)])))
       ''Failed to get L2FIB dump'' st)"

fun entry_by_mac :: "string \<Rightarrow> pyobj list \<Rightarrow> pyobj res" where
  "entry_by_mac mac [] = Inr []"
| "entry_by_mac mac (entry # table) =
     bindE (getitem entry ''mac'') (\<lambda>m. if m = VStr mac then Inr entry else entry_by_mac mac table)"

definition get_l2_fib_entry_by_mac ::
    "'w vpp_env \<Rightarrow> node \<Rightarrow> int \<Rightarrow> string \<Rightarrow> 'w papi_state \<Rightarrow> pyobj res \<times> 'w papi_state" where
  "get_l2_fib_entry_by_mac env node bd_index mac st =
     (case vpp_get_bridge_domain_data env node (VInt BITWISE_NON_ZERO) st of
        (Inl e, st1) \<Rightarrow> (Inl e, st1)
      | (Inr bd_data, st1) \<Rightarrow>
          (case bindE (sub_key bd_data (VInt (bd_index - 1))) (\<lambda>bd. sub bd ''bd_id'') of
             Inl e \<Rightarrow> (Inl e, st1)
           | Inr bd_id \<Rightarrow> mapS (entry_by_mac mac) (get_l2_fib_table env node bd_id st1)))"

section \<open>MAC addresses are read back\<close>

lemma replace_char: "replace_all [c] [] s = filter (\<lambda>x. x \<noteq> c) s"
  by (induction s) (simp_all add: replace_all.simps [of "[c]"] startswith_def)

lemma filter_join: "\<forall>p\<in>set parts. c \<notin> set p \<Longrightarrow> filter (\<lambda>x. x \<noteq> c) (join [c] parts) = concat parts"
proof (induction parts)
  case (Cons p parts)
  have "filter (\<lambda>x. x \<noteq> c) p = p" using Cons.prems by (intro filter_True) auto
  then show ?case using Cons by (cases parts) simp_all
qed simp

text \<open>Bytes as digits in base sixteen.\<close>

definition nibbles :: "byte list \<Rightarrow> nat list" where
  "nibbles bs = concat (map (\<lambda>b. [unat b div 16, unat b mod 16]) bs)"

lemma bytes_hex_nibbles: "bytes_hex bs = map hex_char (nibbles bs)"
  by (induction bs) (simp_all add: bytes_hex_def hex_byte_def nibbles_def)

lemma nibbles_less: "d \<in> set (nibbles bs) \<Longrightarrow> d < 16"
  by (induction bs) (auto simp: nibbles_def byte_digits)

lemma length_nibbles [simp]: "length (nibbles bs) = 2 * length bs"
  by (induction bs) (simp_all add: nibbles_def)

lemma nibbles_snoc: "nibbles (bs @ [b]) = (nibbles bs @ [unat b div 16]) @ [unat b mod 16]"
  by (simp add: nibbles_def)

lemma nibbles_value: "of_digits 16 (nibbles bs) = of_digits 256 (map unat bs)"
  by (induction bs rule: rev_induct) (simp_all only: nibbles_snoc of_digits_snoc map_append list.map,
    simp_all add: nibbles_def)

lemma concat_hex_groups:
  assumes "length s = 12"
  shows "concat (hex_groups s) = s"
proof -
  obtain a b c d e f g h i j k l where "s = [a, b, c, d, e, f, g, h, i, j, k, l]"
    using assms by (auto simp: length_Suc_conv numeral_eq_Suc)
  then show ?thesis by (simp add: hex_groups_def py_slice_def)
qed

lemma hex_groups_chars: "p \<in> set (hex_groups s) \<Longrightarrow> set p \<subseteq> set s"
  using set_slice_subset by (fastforce simp: hex_groups_def)

lemma remove_colons:
  assumes "length ds = 12" and "\<forall>d\<in>set ds. d < 16"
  shows "replace_all '':'' '''' (join '':'' (hex_groups (map hex_char ds))) = map hex_char ds"
proof -
  have "CHR '':'' \<notin> set p" if "p \<in> set (hex_groups (map hex_char ds))" for p
    using hex_groups_chars [OF that] assms(2) hex_char_not_special(1) by fastforce
  then show ?thesis using assms(1) by (simp add: replace_char filter_join concat_hex_groups)
qed

text \<open>
  C20. The four conversions of MAC addresses agree: for every six bytes, \<open>mac_to_bin\<close> and
  \<open>mac_to_int\<close> read from the text of \<open>bin_to_mac\<close> the bytes and their value in network order, and
  \<open>int_to_mac\<close> prints that value as the same text.
\<close>

theorem mac_conversions_agree:
  assumes "length b = 6"
  shows "mac_to_bin (bin_to_mac b) = Inr b \<and>
    mac_to_int (bin_to_mac b) = Inr (int (of_digits 256 (map unat b))) \<and>
    int_to_mac (int (of_digits 256 (map unat b))) = bin_to_mac b"
proof -
  let ?ds = "nibbles b" and ?n = "of_digits 256 (map unat b)"
  have ds: "length ?ds = 12" "\<forall>d\<in>set ?ds. d < 16" using assms nibbles_less by auto
  have ne: "?ds \<noteq> []" using ds(1) by (metis list.size(3) zero_neq_numeral)
  have plain: "replace_all '':'' '''' (bin_to_mac b) = bytes_hex b"
    using remove_colons [OF ds] by (simp add: bin_to_mac_def bytes_hex_nibbles)
  have val: "of_digits 16 ?ds = ?n" by (rule nibbles_value)
  have "?n < 16 ^ 12" using of_digits_less [of ?ds 16] ds val by simp
  moreover have "digits_of 16 12 ?n = ?ds" using digits_of_of_digits [OF ds(2)] ds(1) val by simp
  ultimately have "pad_left 12 (hex_of_nat ?n) = bytes_hex b"
    by (simp add: pad_left_hex_of_nat bytes_hex_nibbles)
  then have "int_to_mac (int ?n) = bin_to_mac b"
    by (simp add: int_to_mac_def py_hex_def bin_to_mac_def)
  moreover have "mac_to_int (bin_to_mac b) = Inr (int ?n)"
    using int_base16_digits [OF ds(2) ne] val
    by (simp add: mac_to_int_def plain bytes_hex_nibbles)
  moreover have "mac_to_bin (bin_to_mac b) = Inr b" by (simp add: mac_to_bin_def plain)
  ultimately show ?thesis by simp
qed

theorem mac_conversions_agree_witness:
  "mac_to_bin (bin_to_mac [1, 2, 3, 4, 5, 6]) = Inr [1, 2, 3, 4, 5, 6] \<and>
   mac_to_int (bin_to_mac [1, 2, 3, 4, 5, 6]) = Inr 1108152157446"
  using mac_conversions_agree [of "[1, 2, 3, 4, 5, 6]"] by (simp add: of_digits_def)

section \<open>Commands of the keywords\<close>

lemma nothing_Inr: "nothing r = (Inr (), s) \<longleftrightarrow> (\<exists>x. r = (Inr x, s))"
  by (cases r; cases "fst r") (auto simp: nothing_def mapS_def)

text \<open>A keyword that returns has computed its commands, and all of them were sent and recorded.\<close>

lemma keyword_sent:
  assumes "map_of node ''host'' = Some host" and "hashable host" and "map_of (ps_history st) host = Some lines"
    and "nothing (request_replies (logged env) node prepared msg st) = (Inr (), st')"
  shows "\<exists>cs out. prepared = Inr cs \<and> snd (ps_vpp st') = snd (ps_vpp st) @ out \<and>
    all_sent (map command_of cs) out \<and> map_of (ps_history st') host = Some (lines @ map line_of cs)"
proof -
  obtain ds where run: "request_replies (logged env) node prepared msg st = (Inr ds, st')"
    using assms(4) unfolding nothing_Inr by blast
  then obtain cs where cs: "prepared = Inr cs"
    by (cases prepared) (auto simp: request_replies_def requests_def)
  from request_replies_logged [OF assms(1-3) run [unfolded cs]] cs show ?thesis by auto
qed

text \<open>
  When \<open>vpp_add_l2_bridge_domain\<close> returns, VPP was asked, in this order, to create the
  bridge domain and to add to it the interfaces of the two ports, under the indices the topology has for
  them, and the three commands are in the history of the node.
\<close>

theorem l2_bridge_commands_sent:
  assumes "map_of node ''host'' = Some host" and "hashable host" and "map_of (ps_history st) host = Some lines"
    and "vpp_add_l2_bridge_domain (logged env) node bd_id port_1 port_2 learn st = (Inr (), st')"
  shows "\<exists>sw1 sw2 bd out cs. get_interface_sw_index node port_1 = Inr sw1 \<and>
    get_interface_sw_index node port_2 = Inr sw2 \<and> py_int bd_id = Inr bd \<and>
    cs = [(''bridge_domain_add_del'',
            bridge_domain_args (VInt bd) (VBool True) (VBool True) (VBool True) learn (VBool False)),
          (''sw_interface_set_l2_bridge'', bridge_port_args sw1 (VInt bd) (VInt 0) (VInt 0)),
          (''sw_interface_set_l2_bridge'', bridge_port_args sw2 (VInt bd) (VInt 0) (VInt 0))] \<and>
    snd (ps_vpp st') = snd (ps_vpp st) @ out \<and> all_sent (map command_of cs) out \<and>
    map_of (ps_history st') host = Some (lines @ map line_of cs)"
  using keyword_sent [OF assms(1-3) assms(4) [unfolded vpp_add_l2_bridge_domain_def]]
  unfolding l2_bridge_commands_def py_int_val_def by auto

definition bridge_node :: node where
  "bridge_node = [(''host'', VStr ''10.0.0.1''),
     (''interfaces'', VDict [(''port1'', VDict [(''vpp_sw_index'', VInt 1)]),
                             (''port2'', VDict [(''vpp_sw_index'', VInt 2)])])]"

definition bridge_state :: "(nat \<times> papi_command list) papi_state" where
  "bridge_state =
     (let crcs = [(VStr ''bridge_domain_add_del'', VStr ''0x1''), (VStr ''bridge_domain_add_del_reply'', VStr ''0x2''),
                  (VStr ''sw_interface_set_l2_bridge'', VStr ''0x3''), (VStr ''sw_interface_set_l2_bridge_reply'', VStr ''0x4'')]
      in \<lparr>ps_checker = plug_checker\<lparr>expected := [(''20.01'', crcs)], found := crcs\<rparr>,
          ps_history = [(VStr ''10.0.0.1'', [])], ps_vpp = (1, [])\<rparr>)"

theorem l2_bridge_commands_sent_witness:
  "\<exists>st' out. vpp_add_l2_bridge_domain (logged flaky_env) bridge_node (VInt 7) (VStr ''port1'') (VStr ''port2'')
      (VBool True) bridge_state = (Inr (), st') \<and> snd (ps_vpp st') = out \<and>
     all_sent (map command_of
       [(''bridge_domain_add_del'',
          bridge_domain_args (VInt 7) (VBool True) (VBool True) (VBool True) (VBool True) (VBool False)),
        (''sw_interface_set_l2_bridge'', bridge_port_args (VInt 1) (VInt 7) (VInt 0) (VInt 0)),
        (''sw_interface_set_l2_bridge'', bridge_port_args (VInt 2) (VInt 7) (VInt 0) (VInt 0))]) out"
proof -
  let ?run = "vpp_add_l2_bridge_domain (logged flaky_env) bridge_node (VInt 7) (VStr ''port1'') (VStr ''port2'')
      (VBool True) bridge_state"
  have sw: "get_interface_sw_index bridge_node (VStr ''port1'') = Inr (VInt 1)"
    "get_interface_sw_index bridge_node (VStr ''port2'') = Inr (VInt 2)"
    by (simp_all add: get_interface_sw_index_def bridge_node_def interface_get_def interfaces_def getitem_def)
  have host: "map_of bridge_node ''host'' = Some (VStr ''10.0.0.1'')" by (simp add: bridge_node_def)
  have cmds: "l2_bridge_commands bridge_node (VInt 7) (VStr ''port1'') (VStr ''port2'') (VBool True) = Inr
       [(''bridge_domain_add_del'',
          bridge_domain_args (VInt 7) (VBool True) (VBool True) (VBool True) (VBool True) (VBool False)),
        (''sw_interface_set_l2_bridge'', bridge_port_args (VInt 1) (VInt 7) (VInt 0) (VInt 0)),
        (''sw_interface_set_l2_bridge'', bridge_port_args (VInt 2) (VInt 7) (VInt 0) (VInt 0))]"
    by (simp add: l2_bridge_commands_def sw py_int_val_def host)
  have "fst ?run = Inr ()"
    unfolding vpp_add_l2_bridge_domain_def cmds nothing_def mapS_def
    by (simp add: papi_eval bridge_state_def host)
  then obtain st' where run: "?run = (Inr (), st')" by (cases ?run) auto
  have "hashable (VStr ''10.0.0.1'')" "map_of (ps_history bridge_state) (VStr ''10.0.0.1'') = Some []"
    by (simp_all add: bridge_state_def Let_def)
  from l2_bridge_commands_sent [OF host this run] sw show ?thesis
    using run by (auto simp: bridge_state_def Let_def)
qed

end
