(* ===== verification/Classify.thy ===== *)
theory Classify
  imports L2Util
begin

text \<open>
  \<open>Classify.py\<close>: masks and matches of classifier tables as byte strings, the keywords that create
  tables and sessions, and the rules of the ACL plugin parsed from text. Commands go through
  \<open>Papi\<close>.
\<close>

unbundle bit_operations_syntax

section \<open>Masks and matches\<close>

definition build_mac_mask :: "string \<Rightarrow> string \<Rightarrow> string \<Rightarrow> byte list res" where
  "build_mac_mask dst_mac src_mac ether_type =
     bindE (fromhex (pad_left 12 (replace_all '':'' '''' dst_mac) @ pad_left 12 (replace_all '':'' '''' src_mac) @
        pad_left 4 ether_type)) (\<lambda>bs. Inr (rstrip0 bs))"

definition build_ip_mask :: "string \<Rightarrow> string \<Rightarrow> string \<Rightarrow> string \<Rightarrow> string \<Rightarrow> byte list res" where
  "build_ip_mask proto src_ip dst_ip src_port dst_port =
     bindE (fromhex (pad_left 20 proto @ pad_left 12 src_ip @ pad_left 8 dst_ip @ pad_left 4 src_port @
        pad_left 4 dst_port)) (\<lambda>bs. Inr (rstrip0 bs))"

definition build_ip6_mask :: "string \<Rightarrow> string \<Rightarrow> string \<Rightarrow> string \<Rightarrow> string \<Rightarrow> byte list res" where
  "build_ip6_mask next_hdr src_ip dst_ip src_port dst_port =
     bindE (fromhex (pad_left 14 next_hdr @ pad_left 34 src_ip @ pad_left 32 dst_ip @ pad_left 4 src_port @
        pad_left 4 dst_port)) (\<lambda>bs. Inr (rstrip0 bs))"

definition build_mac_match :: "string \<Rightarrow> string \<Rightarrow> string \<Rightarrow> byte list res" where
  "build_mac_match dst_mac src_mac ether_type =
     bindE (fromhex (pad_left 12 (replace_all '':'' '''' dst_mac) @ pad_left 12 (replace_all '':'' '''' src_mac) @
        pad_left 4 ether_type)) (\<lambda>bs. Inr (rstrip0 bs))"

definition hex_field :: "int \<Rightarrow> string" where
  "hex_field n = drop 2 (py_hex n)"

definition build_ip_match :: "int \<Rightarrow> byte list \<Rightarrow> byte list \<Rightarrow> int \<Rightarrow> int \<Rightarrow> byte list res" where
  "build_ip_match proto src_ip dst_ip src_port dst_port =
     bindE (fromhex (pad_left 20 (hex_field proto) @ pad_left 12 (bytes_hex src_ip) @
        pad_left 8 (bytes_hex dst_ip) @ pad_left 4 (hex_field src_port) @ pad_left 4 (hex_field dst_port)))
       (\<lambda>bs. Inr (rstrip0 bs))"

definition build_ip6_match :: "int \<Rightarrow> byte list \<Rightarrow> byte list \<Rightarrow> int \<Rightarrow> int \<Rightarrow> byte list res" where
  "build_ip6_match next_hdr src_ip dst_ip src_port dst_port =
     bindE (fromhex (pad_left 14 (hex_field next_hdr) @ pad_left 34 (bytes_hex src_ip) @
        pad_left 32 (bytes_hex dst_ip) @ pad_left 4 (hex_field src_port) @ pad_left 4 (hex_field dst_port)))
       (\<lambda>bs. Inr (rstrip0 bs))"

text \<open>The arguments of the table: mask, vectors to skip and vectors to match.\<close>

definition zeros :: "nat \<Rightarrow> byte list" where
  "zeros n = replicate n 0"

definition classify_mask :: "string \<Rightarrow> string \<Rightarrow> string \<Rightarrow> (byte list \<times> nat \<times> nat) res" where
  "classify_mask ip_version direction netmask =
     bindE (if ip_version \<in> {''ip4'', ''ip6''} then ip_address netmask
            else Inl (ValueError ''IP version is not supported.'')) (\<lambda>addr.
     let nm = bytes_hex (packed addr);
         mask_f = (if ip_version = ''ip4'' then build_ip_mask else build_ip6_mask)
     in bindE (if direction = ''src'' then mask_f '''' nm '''' '''' ''''
               else if direction = ''dst'' then mask_f '''' '''' nm '''' ''''
               else Inl (ValueError ''Direction is not supported.'')) (\<lambda>field.
        let msk = zeros 14 @ field;
            i = length msk - length (lstrip0 msk);
            skip_n = i div 16;
            mask1 = drop (skip_n * 16) msk;
            mask2 = mask1 @ zeros (if length mask1 mod 16 \<noteq> 0 then 16 - length mask1 mod 16 else 0)
        in Inr (mask2, skip_n, length mask2 div 16)))"

definition classify_match :: "string \<Rightarrow> string \<Rightarrow> string \<Rightarrow> int \<Rightarrow> int \<Rightarrow> byte list res" where
  "classify_match ip_version direction address skip_n match_n =
     bindE (if ip_version \<in> {''ip4'', ''ip6''} then ip_address address
            else Inl (ValueError ''IP version is not supported.'')) (\<lambda>addr.
     let a = packed addr;
         match_f = (if ip_version = ''ip4'' then build_ip_match else build_ip6_match);
         none = zeros (if ip_version = ''ip4'' then 4 else 16)
     in bindE (if direction = ''src'' then match_f 0 a none 0 0
               else if direction = ''dst'' then match_f 0 none a 0 0
               else Inl (ValueError ''Direction is not supported.'')) (\<lambda>field.
        let m = zeros 14 @ field; size = (match_n + skip_n) * 16
        in Inr (m @ zeros (if int (length m) < size then nat (size - int (length m)) else 0))))"

section \<open>Tables and sessions\<close>

definition classify_add_del_table ::
    "'w vpp_env \<Rightarrow> node \<Rightarrow> bool \<Rightarrow> byte list \<Rightarrow> int \<Rightarrow> int \<Rightarrow> int \<Rightarrow> int \<Rightarrow> int \<Rightarrow> int \<Rightarrow> int \<Rightarrow> int \<Rightarrow> int \<Rightarrow>
     'w papi_state \<Rightarrow> (int \<times> int \<times> int) res \<times> 'w papi_state" where
  "classify_add_del_table env node is_add msk match_n_vectors table_index nbuckets memory_size skip_n_vectors
       next_table_index miss_next_index current_data_flag current_data_offset st =
     mapS (\<lambda>reply.
       bindE (bindE (getitem reply ''new_table_index'') py_int) (\<lambda>t.
       bindE (bindE (getitem reply ''skip_n_vectors'') py_int) (\<lambda>s.
       bindE (bindE (getitem reply ''match_n_vectors'') py_int) (\<lambda>m. Inr (t, s, m)))))
     (request_reply env node ''classify_add_del_table''
       (bindE (getitem node ''host'') (\<lambda>host. Inr
         [(''is_add'', VBool is_add), (''del_chain'', VBool False), (''table_index'', VInt table_index),
          (''nbuckets'', VInt nbuckets), (''memory_size'', VInt memory_size),
          (''skip_n_vectors'', VInt skip_n_vectors), (''match_n_vectors'', VInt match_n_vectors),
          (''next_table_index'', VInt next_table_index), (''miss_next_index'', VInt miss_next_index),
          (''current_data_flag'', VInt current_data_flag), (''current_data_offset'', VInt current_data_offset),
          (''mask_len'', VInt (int (length msk))), (''mask'', VBytes msk)]))
       ''Failed to create a classify table'' st)"

definition classify_add_del_session ::
    "'w vpp_env \<Rightarrow> node \<Rightarrow> bool \<Rightarrow> pyval \<Rightarrow> byte list \<Rightarrow> pyval \<Rightarrow> pyval \<Rightarrow> pyval \<Rightarrow> pyval \<Rightarrow> pyval \<Rightarrow>
     'w papi_state \<Rightarrow> unit res \<times> 'w papi_state" where
  "classify_add_del_session env node is_add table_index match_bytes opaque_index hit_next_index advance action metadata st =
     nothing (request_reply env node ''classify_add_del_session''
       (bindE (getitem node ''host'') (\<lambda>host. Inr
         [(''is_add'', VBool is_add), (''table_index'', table_index), (''hit_next_index'', hit_next_index),
          (''opaque_index'', opaque_index), (''advance'', advance), (''action'', action), (''metadata'', metadata),
          (''match_len'', VInt (int (length match_bytes))), (''match'', VBytes match_bytes)]))
       ''Failed to create a classify session'' st)"

definition vpp_creates_classify_table_l3 ::
    "'w vpp_env \<Rightarrow> node \<Rightarrow> string \<Rightarrow> string \<Rightarrow> string \<Rightarrow> 'w papi_state \<Rightarrow> (int \<times> int \<times> int) res \<times> 'w papi_state" where
  "vpp_creates_classify_table_l3 env node ip_version direction netmask st =
     (case classify_mask ip_version direction netmask of
        Inl e \<Rightarrow> (Inl e, st)
      | Inr (msk, skip_n, match_n) \<Rightarrow>
          classify_add_del_table env node True msk (int match_n) BITWISE_NON_ZERO 2 2097152 (int skip_n)
            BITWISE_NON_ZERO BITWISE_NON_ZERO 0 0 st)"

definition acl_hit_next_index :: "(string \<times> pyval) list" where
  "acl_hit_next_index = [(''permit'', VInt BITWISE_NON_ZERO), (''deny'', VInt 0)]"

definition vpp_configures_classify_session_l3 ::
    "'w vpp_env \<Rightarrow> node \<Rightarrow> string \<Rightarrow> pyval \<Rightarrow> int \<Rightarrow> int \<Rightarrow> string \<Rightarrow> string \<Rightarrow> string \<Rightarrow> pyval \<Rightarrow> pyval \<Rightarrow> pyval \<Rightarrow> pyval \<Rightarrow>
     'w papi_state \<Rightarrow> unit res \<times> 'w papi_state" where
  "vpp_configures_classify_session_l3 env node acl_method table_index skip_n match_n ip_version direction address
       hit_next_index opaque_index action metadata st =
     (case bindE (classify_match ip_version direction address skip_n match_n) (\<lambda>m.
           bindE (if hit_next_index \<noteq> VNone then Inr hit_next_index else getitem acl_hit_next_index acl_method)
             (\<lambda>hit. Inr (m, hit))) of
        Inl e \<Rightarrow> (Inl e, st)
      | Inr (m, hit) \<Rightarrow>
          classify_add_del_session env node True table_index m opaque_index hit (VInt 0) action metadata st)"

definition get_classify_table_data :: "'w vpp_env \<Rightarrow> node \<Rightarrow> pyval \<Rightarrow> 'w papi_state \<Rightarrow> pyobj res \<times> 'w papi_state" where
  "get_classify_table_data env node table_index st =
     request_reply env node ''classify_table_info''
       (bindE (getitem node ''host'') (\<lambda>host. bindE (py_int_val table_index) (\<lambda>t. Inr [(''table_id'', t)])))
       ''Failed to get classify_table_info'' st"

definition get_classify_session_data ::
    "'w vpp_env \<Rightarrow> node \<Rightarrow> pyval \<Rightarrow> 'w papi_state \<Rightarrow> pyobj list res \<times> 'w papi_state" where
  "get_classify_session_data env node table_index st =
     request_details env node ''classify_session_dump''
       (bindE (py_int_val table_index) (\<lambda>t. Inr [(''table_id'', t)])) ''Failed to get dump details.'' st"

definition show_classify_tables_verbose :: "'w vpp_env \<Rightarrow> node \<Rightarrow> 'w papi_state \<Rightarrow> pyval res \<times> 'w papi_state" where
  "show_classify_tables_verbose env node st =
     run_cli_cmd env node ''show classify tables verbose'' SOCKSVR_PATH st"

definition vpp_log_plugin_acl_settings :: "'w vpp_env \<Rightarrow> node \<Rightarrow> 'w papi_state \<Rightarrow> unit res \<times> 'w papi_state" where
  "vpp_log_plugin_acl_settings env node st = dump_and_log env node [''acl_dump''] st"

definition vpp_log_plugin_acl_interface_assignment ::
    "'w vpp_env \<Rightarrow> node \<Rightarrow> 'w papi_state \<Rightarrow> unit res \<times> 'w papi_state" where
  "vpp_log_plugin_acl_interface_assignment env node st = dump_and_log env node [''acl_interface_list_dump''] st"

definition vpp_log_macip_acl_settings :: "'w vpp_env \<Rightarrow> node \<Rightarrow> 'w papi_state \<Rightarrow> unit res \<times> 'w papi_state" where
  "vpp_log_macip_acl_settings env node st = dump_and_log env node [''macip_acl_dump''] st"

section \<open>Access lists\<close>

definition acl_interface_set_acl_list ::
    "'w vpp_env \<Rightarrow> node \<Rightarrow> pyval \<Rightarrow> string \<Rightarrow> pyval list \<Rightarrow> 'w papi_state \<Rightarrow> unit res \<times> 'w papi_state" where
  "acl_interface_set_acl_list env node sw_if_index acl_type acls st =
     nothing (request_reply env node ''acl_interface_set_acl_list''
       (bindE (getitem node ''host'') (\<lambda>host. Inr
         [(''sw_if_index'', sw_if_index), (''acls'', VList acls),
          (''n_input'', VInt (if acl_type = ''input'' then int (length acls) else 0)),
          (''count'', VInt (int (length acls)))]))
       ''Failed to set acl list for interface'' st)"

definition interface_number :: "node \<Rightarrow> pyval \<Rightarrow> pyval res" where
  "interface_number node interface = bindE (get_interface_index node interface) py_int_val"

definition set_acl_list_for_interface ::
    "'w vpp_env \<Rightarrow> node \<Rightarrow> pyval \<Rightarrow> string \<Rightarrow> pyval \<Rightarrow> 'w papi_state \<Rightarrow> unit res \<times> 'w papi_state" where
  "set_acl_list_for_interface env node interface acl_type acl_idx st =
     (case interface_number node interface of
        Inl e \<Rightarrow> (Inl e, st)
      | Inr i \<Rightarrow>
          acl_interface_set_acl_list env node i acl_type (case acl_idx of VList acls \<Rightarrow> acls | _ \<Rightarrow> []) st)"

definition acl_add_replace ::
    "'w vpp_env \<Rightarrow> node \<Rightarrow> pyval \<Rightarrow> pyobj list \<Rightarrow> string \<Rightarrow> 'w papi_state \<Rightarrow> unit res \<times> 'w papi_state" where
  "acl_add_replace env node acl_idx rules tag st =
     nothing (request_reply env node ''acl_add_replace''
       (bindE (getitem node ''host'') (\<lambda>host. Inr
         [(''tag'', VStr tag), (''acl_index'', if acl_idx = VNone then VInt 4294967295 else acl_idx),
          (''count'', VInt (int (length rules))), (''r'', VList (map VDict rules))]))
       ''Failed to add/replace ACLs'' st)"

definition macip_acl_add ::
    "'w vpp_env \<Rightarrow> node \<Rightarrow> pyobj list \<Rightarrow> string \<Rightarrow> 'w papi_state \<Rightarrow> unit res \<times> 'w papi_state" where
  "macip_acl_add env node rules tag st =
     nothing (request_reply env node ''macip_acl_add''
       (bindE (getitem node ''host'') (\<lambda>host. Inr
         [(''r'', VList (map VDict rules)), (''count'', VInt (int (length rules))), (''tag'', VStr tag)]))
       ''Failed to add MACIP ACL'' st)"

definition add_del_macip_acl_interface ::
    "'w vpp_env \<Rightarrow> node \<Rightarrow> pyval \<Rightarrow> string \<Rightarrow> pyval \<Rightarrow> 'w papi_state \<Rightarrow> unit res \<times> 'w papi_state" where
  "add_del_macip_acl_interface env node interface action acl_idx st =
     nothing (request_reply env node ''macip_acl_interface_add_del''
       (bindE (getitem node ''host'') (\<lambda>host.
        bindE (interface_number node interface) (\<lambda>i.
        bindE (py_int_val acl_idx) (\<lambda>a.
        Inr [(''is_add'', VBool (action = ''add'')), (''sw_if_index'', i), (''acl_index'', a)]))))
       ''Failed to get macip_acl_interface'' st)"

definition vpp_log_macip_acl_interface_assignment ::
    "'w vpp_env \<Rightarrow> node \<Rightarrow> 'w papi_state \<Rightarrow> unit res \<times> 'w papi_state" where
  "vpp_log_macip_acl_interface_assignment env node st =
     nothing (request_reply env node ''macip_acl_interface_get''
       (bindE (getitem node ''host'') (\<lambda>host. Inr [])) ''Failed to get macip_acl_interface'' st)"

section \<open>Rules\<close>

text \<open>\<^verbatim>\<open>s.split(sep)\<close> for a separator of several characters.\<close>

function split_str :: "string \<Rightarrow> string \<Rightarrow> string \<Rightarrow> string list" where
  "split_str sep acc s =
     (if s = [] then [acc]
      else if sep \<noteq> [] \<and> startswith s sep then acc # split_str sep [] (drop (length sep) s)
      else split_str sep (acc @ [hd s]) (tl s))"
  by pat_completeness auto
termination
  by (relation "measure (\<lambda>(sep, acc, s). length s)") (auto simp: neq_Nil_conv)

declare split_str.simps [simp del]

text \<open>
  The regular expressions: a key word followed by the characters of addresses, by one to five
  digits, or by six pairs of characters that are not white space, at the leftmost place where this is
  found.
\<close>

definition address_char :: "char \<Rightarrow> bool" where
  "address_char c \<longleftrightarrow> hex_value c \<noteq> None \<or> c \<in> set ''.:/{,}''"

fun search_address :: "string \<Rightarrow> string \<Rightarrow> string option" where
  "search_address key [] = None"
| "search_address key (c # cs) =
     (if startswith (c # cs) key then Some (takeWhile address_char (drop (length key) (c # cs)))
      else search_address key cs)"

fun search_number :: "string \<Rightarrow> string \<Rightarrow> string option" where
  "search_number key [] = None"
| "search_number key (c # cs) =
     (let digits = takeWhile is_digit (drop (length key) (c # cs))
      in if startswith (c # cs) key \<and> digits \<noteq> [] then Some (take 5 digits) else search_number key cs)"

definition mac_pattern :: "(char \<Rightarrow> bool) list" where
  "mac_pattern =
     (let pair = replicate 2 (\<lambda>c. \<not> is_space c); colon = [(=) CHR '':'']
      in pair @ colon @ pair @ colon @ pair @ colon @ pair @ colon @ pair @ colon @ pair)"

fun search_mac :: "string \<Rightarrow> string \<Rightarrow> string option" where
  "search_mac key [] = None"
| "search_mac key (c # cs) =
     (let candidate = take 17 (drop (length key) (c # cs))
      in if startswith (c # cs) key \<and> list_all2 (\<lambda>p c. p c) mac_pattern candidate then Some candidate
         else search_mac key cs)"

definition permit_of :: "string \<Rightarrow> pyval" where
  "permit_of rule =
     VInt (if str_contains ''permit+reflect'' rule then 2 else if str_contains ''permit'' rule then 1 else 0)"

text \<open>\<^verbatim>\<open>grp = ...split("/"); create_prefix_object(ip_address(grp[0]), int(grp[1]))\<close>\<close>

definition prefix_of :: "string \<Rightarrow> pyval res" where
  "prefix_of s =
     (let grp = split_on CHR ''/'' s
      in bindE (ip_address (hd grp)) (\<lambda>a.
         bindE (list_get grp 1) (\<lambda>len. bindE (py_int (VStr len)) (\<lambda>n. create_prefix_object a (VInt n)))))"

definition set_prefix :: "string \<Rightarrow> string \<Rightarrow> string \<Rightarrow> pyobj \<Rightarrow> pyobj res" where
  "set_prefix key field rule acl_rule =
     (case search_address key rule of
        None \<Rightarrow> Inr acl_rule
      | Some s \<Rightarrow> bindE (prefix_of s) (\<lambda>p. Inr (AList.update field p acl_rule)))"

definition set_number :: "string \<Rightarrow> string list \<Rightarrow> string \<Rightarrow> pyobj \<Rightarrow> pyobj res" where
  "set_number key names rule acl_rule =
     (case search_number key rule of
        None \<Rightarrow> Inr acl_rule
      | Some s \<Rightarrow>
          bindE (py_int_val (VStr s)) (\<lambda>n. Inr (foldl (\<lambda>r field. AList.update field n r) acl_rule names)))"

definition acl_rule_of :: "string \<Rightarrow> pyobj res" where
  "acl_rule_of rule =
     bindE (set_prefix ''src '' ''src_prefix'' rule
       [(''is_permit'', permit_of rule), (''src_prefix'', VInt 0), (''dst_prefix'', VInt 0), (''proto'', VInt 0),
        (''srcport_or_icmptype_first'', VInt 0), (''srcport_or_icmptype_last'', VInt 65535),
        (''dstport_or_icmpcode_first'', VInt 0), (''dstport_or_icmpcode_last'', VInt 65535),
        (''tcp_flags_mask'', VInt 0), (''tcp_flags_value'', VInt 0)]) (\<lambda>r1.
     bindE (set_prefix ''dst '' ''dst_prefix'' rule r1) (\<lambda>r2.
     bindE (set_number ''sport '' [''srcport_or_icmptype_first'', ''srcport_or_icmptype_last''] rule r2) (\<lambda>r3.
     bindE (set_number ''dport '' [''dstport_or_icmpcode_first'', ''dstport_or_icmpcode_last''] rule r3) (\<lambda>r4.
     set_number ''proto '' [''proto''] rule r4))))"

definition add_replace_acl_multi_entries ::
    "'w vpp_env \<Rightarrow> node \<Rightarrow> pyval \<Rightarrow> string \<Rightarrow> string \<Rightarrow> 'w papi_state \<Rightarrow> unit res \<times> 'w papi_state" where
  "add_replace_acl_multi_entries env node acl_idx rules tag st =
     (case mapE acl_rule_of (split_str '', '' [] rules) of
        Inl e \<Rightarrow> (Inl e, st)
      | Inr acl_rules \<Rightarrow> acl_add_replace env node acl_idx acl_rules tag st)"

definition set_mac :: "string \<Rightarrow> string \<Rightarrow> string \<Rightarrow> pyobj \<Rightarrow> pyobj res" where
  "set_mac key field rule acl_rule =
     (case search_mac key rule of
        None \<Rightarrow> Inr acl_rule
      | Some s \<Rightarrow> bindE (fromhex (replace_all '':'' '''' s)) (\<lambda>b. Inr (AList.update field (VBytes b) acl_rule)))"

definition macip_rule_of :: "string \<Rightarrow> pyobj res" where
  "macip_rule_of rule =
     bindE (set_mac ''mac '' ''src_mac'' rule
       [(''is_permit'', permit_of rule), (''src_mac'', VBytes (replicate 6 48)),
        (''src_mac_mask'', VBytes (replicate 6 48)), (''prefix'', VInt 0)]) (\<lambda>r1.
     bindE (set_mac ''mask '' ''src_mac_mask'' rule r1) (\<lambda>r2.
     set_prefix ''ip '' ''src_prefix'' rule r2))"

definition add_macip_acl_multi_entries ::
    "'w vpp_env \<Rightarrow> node \<Rightarrow> string \<Rightarrow> 'w papi_state \<Rightarrow> unit res \<times> 'w papi_state" where
  "add_macip_acl_multi_entries env node rules st =
     (case mapE macip_rule_of (split_str '', '' [] rules) of
        Inl e \<Rightarrow> (Inl e, st)
      | Inr acl_rules \<Rightarrow> macip_acl_add env node acl_rules '''' st)"

section \<open>Tables and sessions select an address\<close>

lemma pad_even: "pad_left (2 * w) (bytes_hex bs) = bytes_hex (zeros (w - length bs) @ bs)"
  by (simp add: pad_left_hex zeros_def)

lemma hex_field_0: "hex_field 0 = ''0''"
  by (simp add: hex_field_def py_hex_def hex_of_nat.simps hex_char_0)

lemma pad_number_0:
  assumes "0 < w"
  shows "pad_left (2 * w) (hex_field 0) = bytes_hex (zeros w)"
proof -
  have "2 * w = Suc (2 * w - 1)" using assms by simp
  then have "replicate (2 * w - 1) CHR ''0'' @ ''0'' = replicate (2 * w) CHR ''0''"
    by (metis replicate_Suc replicate_append_same)
  then show ?thesis by (simp add: hex_field_0 pad_left_def zeros_def bytes_hex_zeros)
qed

lemmas pad_widths = pad_left_empty [of 2, simplified] pad_left_empty [of 4, simplified] pad_left_empty [of 6, simplified]
  pad_left_empty [of 7, simplified] pad_left_empty [of 10, simplified] pad_left_empty [of 16, simplified]
  pad_left_empty [of 17, simplified]
  pad_even [of 4, simplified] pad_even [of 6, simplified] pad_even [of 16, simplified] pad_even [of 17, simplified]
  pad_number_0 [of 2, simplified] pad_number_0 [of 7, simplified] pad_number_0 [of 10, simplified]

text \<open>The number of bytes of the header before and after an address.\<close>

definition field_place :: "string \<Rightarrow> string \<Rightarrow> (nat \<times> nat) option" where
  "field_place ip_version direction =
     map_of [((''ip4'', ''src''), (12, 8)), ((''ip4'', ''dst''), (16, 4)), ((''ip6'', ''src''), (8, 20)),
             ((''ip6'', ''dst''), (24, 4))] (ip_version, direction)"

definition address_fits :: "string \<Rightarrow> ipaddr \<Rightarrow> bool" where
  "address_fits ip_version a \<longleftrightarrow> version a = (if ip_version = ''ip4'' then 4 else 6)"

lemma fits_length:
  "address_fits ''ip4'' a \<Longrightarrow> length (packed a) = 4" "address_fits ''ip6'' a \<Longrightarrow> length (packed a) = 16"
  by (simp_all add: address_fits_def length_packed)

lemma field_place_cases:
  assumes "field_place v d = Some (b, a)"
  obtains "v = ''ip4''" "d = ''src''" "b = 12" "a = 8" | "v = ''ip4''" "d = ''dst''" "b = 16" "a = 4"
    | "v = ''ip6''" "d = ''src''" "b = 8" "a = 20" | "v = ''ip6''" "d = ''dst''" "b = 24" "a = 4"
  using assms by (auto simp: field_place_def split: if_splits)

lemma zeros_append: "zeros a @ zeros b = zeros (a + b)" "zeros a @ zeros b @ s = zeros (a + b) @ s"
  by (simp_all add: zeros_def replicate_add)

lemma length_zeros [simp]: "length (zeros n) = n"
  by (simp add: zeros_def)

lemma mask_field:
  assumes "field_place v d = Some (before, after)" and "address_fits v a"
  shows "(let nm = bytes_hex (packed a); mask_f = (if v = ''ip4'' then build_ip_mask else build_ip6_mask)
      in if d = ''src'' then mask_f '''' nm '''' '''' '''' else if d = ''dst'' then mask_f '''' '''' nm '''' ''''
         else Inl (ValueError ''Direction is not supported.'')) =
    Inr (rstrip0 (zeros before @ packed a @ zeros after))"
  using assms(1) fits_length assms(2)
  by (cases rule: field_place_cases)
    (simp_all add: build_ip_mask_def build_ip6_mask_def pad_widths bytes_hex_append [symmetric] zeros_append
      flip: zeros_def)

lemma match_field:
  assumes "field_place v d = Some (before, after)" and "address_fits v a"
  shows "(let match_f = (if v = ''ip4'' then build_ip_match else build_ip6_match);
          none = zeros (if v = ''ip4'' then 4 else 16)
      in if d = ''src'' then match_f 0 (packed a) none 0 0 else if d = ''dst'' then match_f 0 none (packed a) 0 0
         else Inl (ValueError ''Direction is not supported.'')) =
    Inr (rstrip0 (zeros before @ packed a @ zeros after))"
  using assms(1) fits_length assms(2)
  by (cases rule: field_place_cases)
    (simp_all add: build_ip_match_def build_ip6_match_def pad_widths bytes_hex_append [symmetric] zeros_append
      length_zeros flip: zeros_def)

text \<open>The frame as a byte string: the link layer header, then the field at its place.\<close>

definition frame_of :: "nat \<Rightarrow> byte list \<Rightarrow> nat \<Rightarrow> byte list" where
  "frame_of before field after = zeros 14 @ rstrip0 (zeros before @ field @ zeros after)"

lemma byte_at_frame:
  "byte_at (frame_of before field after) i =
     (if 14 + before \<le> i \<and> i < 14 + before + length field then field ! (i - 14 - before) else 0)"
  by (auto simp: frame_of_def zeros_def byte_at_zeros_append byte_at_append)

lemma restore_zeros:
  assumes "\<And>j. j < n \<Longrightarrow> m ! j = 0" and "n \<le> length m"
  shows "zeros n @ drop n m = m"
proof -
  have "take n m = zeros n" using assms by (intro nth_equalityI) (simp_all add: zeros_def)
  then show ?thesis by (metis append_take_drop_id)
qed

lemma pad_to_vector: "(n + (if n mod 16 \<noteq> 0 then 16 - n mod 16 else 0)) mod 16 = 0" for n :: nat
  by (cases "n mod 16 = 0") presburger+

text \<open>Skipping vectors and padding change nothing but the zeros at the end.\<close>

lemma classify_mask_frame:
  assumes "field_place v d = Some (before, after)" and "ip_address netmask = Inr a" and "address_fits v a"
  shows "\<exists>m skip n k. classify_mask v d netmask = Inr (m, skip, n) \<and> length m = 16 * n \<and>
    zeros (16 * skip) @ m = frame_of before (packed a) after @ zeros k"
proof -
  let ?f = "frame_of before (packed a) after"
  let ?skip = "(length ?f - length (lstrip0 ?f)) div 16"
  let ?m1 = "drop (?skip * 16) ?f"
  let ?k = "if length ?m1 mod 16 \<noteq> 0 then 16 - length ?m1 mod 16 else 0"
  have ver: "v \<in> {''ip4'', ''ip6''}" using assms(1) by (cases rule: field_place_cases) simp_all
  have "classify_mask v d netmask = Inr (?m1 @ zeros ?k, ?skip, length (?m1 @ zeros ?k) div 16)"
    using ver assms(2) mask_field [OF assms(1,3)] unfolding classify_mask_def Let_def frame_of_def
    by (simp only: bindE_simps if_True)
  moreover have "length (?m1 @ zeros ?k) mod 16 = 0"
    unfolding length_append length_zeros by (rule pad_to_vector)
  then have "length (?m1 @ zeros ?k) = 16 * (length (?m1 @ zeros ?k) div 16)" by presburger
  moreover have "?skip * 16 \<le> length ?f - length (lstrip0 ?f)" by simp
  then have "zeros (?skip * 16) @ ?m1 = ?f"
    by (intro restore_zeros) (auto intro!: lstrip0_zeros)
  then have "zeros (16 * ?skip) @ ?m1 @ zeros ?k = ?f @ zeros ?k"
    by (metis append.assoc mult.commute)
  ultimately show ?thesis by blast
qed

lemma classify_match_frame:
  assumes "field_place v d = Some (before, after)" and "ip_address address = Inr a" and "address_fits v a"
  shows "\<exists>m k. classify_match v d address (int skip) (int n) = Inr m \<and>
    m = frame_of before (packed a) after @ zeros k \<and> 16 * (skip + n) \<le> length m"
proof -
  let ?f = "frame_of before (packed a) after"
  let ?size = "(int n + int skip) * 16"
  let ?k = "if int (length ?f) < ?size then nat (?size - int (length ?f)) else 0"
  have ver: "v \<in> {''ip4'', ''ip6''}" using assms(1) by (cases rule: field_place_cases) simp_all
  have "classify_match v d address (int skip) (int n) = Inr (?f @ zeros ?k)"
    using ver assms(2) match_field [OF assms(1,3)] unfolding classify_match_def Let_def frame_of_def
    by (simp only: bindE_simps if_True)
  moreover have "16 * (skip + n) \<le> length (?f @ zeros ?k)" by (simp add: zeros_def) linarith
  ultimately show ?thesis by blast
qed

text \<open>
  The comparison of the classifier: the bytes of the packet under the mask of the table, whose first
  vectors are skipped, against the match of the session.
\<close>

definition classifier_hits :: "byte list \<Rightarrow> nat \<Rightarrow> byte list \<Rightarrow> byte list \<Rightarrow> bool" where
  "classifier_hits msk skip m packet \<longleftrightarrow>
     (\<forall>i<length msk. byte_at packet (16 * skip + i) AND msk ! i = byte_at m (16 * skip + i) AND msk ! i)"

lemma classifier_hits_alt:
  "classifier_hits msk skip m packet \<longleftrightarrow>
     (\<forall>i. byte_at packet i AND byte_at (zeros (16 * skip) @ msk) i = byte_at m i AND byte_at (zeros (16 * skip) @ msk) i)"
  (is "?hits \<longleftrightarrow> (\<forall>i. ?eq i)")
proof
  assume hits: ?hits
  show "\<forall>i. ?eq i"
  proof
    fix i
    show "?eq i"
    proof (cases "16 * skip \<le> i \<and> i < 16 * skip + length msk")
      case True
      then obtain j where j: "i = 16 * skip + j" "j < length msk" by (metis add_less_cancel_left le_Suc_ex)
      with hits show ?thesis by (simp add: classifier_hits_def zeros_def byte_at_zeros_append byte_at_def [of msk])
    next
      case False
      then have "byte_at (zeros (16 * skip) @ msk) i = 0"
        by (auto simp: zeros_def byte_at_zeros_append byte_at_def [of msk])
      then show ?thesis by simp
    qed
  qed
next
  assume all: "\<forall>i. ?eq i"
  show ?hits
    unfolding classifier_hits_def
  proof (intro allI impI)
    fix i assume "i < length msk"
    with all [rule_format, of "16 * skip + i"]
    show "byte_at packet (16 * skip + i) AND msk ! i = byte_at m (16 * skip + i) AND msk ! i"
      by (simp add: zeros_def byte_at_zeros_append byte_at_def [of msk])
  qed
qed

text \<open>
  C19. For a direction and an IP version the keywords support, with a netmask and an address of that
  version, \<open>vpp_creates_classify_table_l3\<close> computes a mask of whole vectors and
  \<open>vpp_configures_classify_session_l3\<close> a match that covers them, such that the classifier hits
  exactly the packets whose source or destination address, at its place in the header, agrees with
  the address under the netmask.
\<close>

theorem classify_selects_address:
  assumes "field_place v d = Some (before, after)"
    and "ip_address netmask = Inr nm" and "address_fits v nm"
    and "ip_address address = Inr a" and "address_fits v a"
  shows "\<exists>msk skip n m. classify_mask v d netmask = Inr (msk, skip, n) \<and> length msk = 16 * n \<and>
    classify_match v d address (int skip) (int n) = Inr m \<and> 16 * (skip + n) \<le> length m \<and>
    (\<forall>packet. classifier_hits msk skip m packet \<longleftrightarrow>
       (\<forall>j<length (packed nm). byte_at packet (14 + before + j) AND packed nm ! j = packed a ! j AND packed nm ! j))"
proof -
  obtain msk skip n k where t: "classify_mask v d netmask = Inr (msk, skip, n)" "length msk = 16 * n"
    "zeros (16 * skip) @ msk = frame_of before (packed nm) after @ zeros k"
    using classify_mask_frame [OF assms(1-3)] by blast
  obtain m l where s: "classify_match v d address (int skip) (int n) = Inr m"
    "m = frame_of before (packed a) after @ zeros l" "16 * (skip + n) \<le> length m"
    using classify_match_frame [OF assms(1,4,5)] by blast
  have len: "length (packed nm) = length (packed a)"
    using assms(3,5) by (simp add: address_fits_def length_packed)
  have "classifier_hits msk skip m packet \<longleftrightarrow>
      (\<forall>j<length (packed nm). byte_at packet (14 + before + j) AND packed nm ! j = packed a ! j AND packed nm ! j)"
    (is "_ \<longleftrightarrow> ?field") for packet
  proof -
    have "classifier_hits msk skip m packet \<longleftrightarrow>
        (\<forall>i. 14 + before \<le> i \<longrightarrow> i < 14 + before + length (packed nm) \<longrightarrow>
          byte_at packet i AND packed nm ! (i - 14 - before) =
          packed a ! (i - 14 - before) AND packed nm ! (i - 14 - before))"
      unfolding classifier_hits_alt t(3) s(2) using len by (auto simp: byte_at_frame zeros_def)
    also have "\<dots> \<longleftrightarrow> ?field"
    proof (intro iffI allI impI)
      fix j assume "\<forall>i. 14 + before \<le> i \<longrightarrow> i < 14 + before + length (packed nm) \<longrightarrow>
          byte_at packet i AND packed nm ! (i - 14 - before) =
          packed a ! (i - 14 - before) AND packed nm ! (i - 14 - before)" and "j < length (packed nm)"
      from this(1) [rule_format, of "14 + before + j"] this(2)
      show "byte_at packet (14 + before + j) AND packed nm ! j = packed a ! j AND packed nm ! j" by simp
    next
      fix i assume f: ?field and i: "14 + before \<le> i" "i < 14 + before + length (packed nm)"
      from f [rule_format, of "i - 14 - before"] i
      show "byte_at packet i AND packed nm ! (i - 14 - before) =
          packed a ! (i - 14 - before) AND packed nm ! (i - 14 - before)" by simp
    qed
    finally show ?thesis .
  qed
  with t s show ?thesis by blast
qed

lemma digits_of_4: "digits_of b 4 n = [n div b div b div b mod b, n div b div b mod b, n div b mod b, n mod b]"
  by (simp add: numeral_eq_Suc)

lemma sample_address: "ip_address ''10.1.2.3'' = Inr (IPv4Address 167838211)"
  "ip_address ''255.255.0.0'' = Inr (IPv4Address 4294901760)"
  by (simp_all add: ip_address_def parse_ipv4_def parse_octet_def parse_nat_def is_digit_def digit_value_def of_digits_def)

theorem classify_selects_address_witness:
  "\<exists>msk skip n m. classify_mask ''ip4'' ''dst'' ''255.255.0.0'' = Inr (msk, skip, n) \<and>
     classify_match ''ip4'' ''dst'' ''10.1.2.3'' (int skip) (int n) = Inr m \<and>
     classifier_hits msk skip m (replicate 30 0 @ [10, 1, 77, 5])"
proof -
  let ?nm = "IPv4Address 4294901760" and ?a = "IPv4Address 167838211"
  have fp: "field_place ''ip4'' ''dst'' = Some (16, 4)" by (simp add: field_place_def)
  have fits: "address_fits ''ip4'' ?nm" "address_fits ''ip4'' ?a" by (simp_all add: address_fits_def)
  have packed: "packed ?nm = [255, 255, 0, 0]" "packed ?a = [10, 1, 2, 3]" by (simp_all add: digits_of_4)
  have "\<forall>j<4. byte_at (replicate 30 0 @ [10, 1, 77, 5]) (30 + j) AND [255, 255, 0, 0] ! j =
      [10, 1, 2, 3] ! j AND [255, 255, 0, 0 :: byte] ! j"
    by (simp add: byte_at_zeros_append byte_at_def numeral_eq_Suc All_less_Suc)
  with classify_selects_address [OF fp sample_address(2) fits(1) sample_address(1) fits(2)] packed
  show ?thesis by fastforce
qed

section \<open>Rules of MACIP lists\<close>

lemma set_prefix_frame:
  "set_prefix key field rule r = Inr r' \<Longrightarrow> k \<noteq> field \<Longrightarrow> map_of r' k = map_of r k"
  by (auto simp: set_prefix_def pd.lookup_store split: option.splits)

lemma set_mac_frame:
  "set_mac key field rule r = Inr r' \<Longrightarrow> k \<noteq> field \<Longrightarrow> map_of r' k = map_of r k"
  by (auto simp: set_mac_def pd.lookup_store split: option.splits)

text \<open>
  However a rule of \<open>add_macip_acl_multi_entries\<close> reads, the field \<open>prefix\<close> of the message
  stays 0: the parsed address goes to a field \<open>src_prefix\<close>. A rule without a MAC address has six
  times the byte \<open>0x30\<close>, the character zero, as its address.
\<close>

theorem macip_prefix_never_set:
  assumes "macip_rule_of rule = Inr r"
  shows "map_of r ''prefix'' = Some (VInt 0) \<and> map_of r ''is_permit'' = Some (permit_of rule) \<and>
    (search_mac ''mac '' rule = None \<longrightarrow> map_of r ''src_mac'' = Some (VBytes (replicate 6 0x30))) \<and>
    (\<forall>s p. search_address ''ip '' rule = Some s \<longrightarrow> prefix_of s = Inr p \<longrightarrow> map_of r ''src_prefix'' = Some p)"
proof -
  let ?r0 = "[(''is_permit'', permit_of rule), (''src_mac'', VBytes (replicate 6 48)),
    (''src_mac_mask'', VBytes (replicate 6 48)), (''prefix'', VInt 0)]"
  obtain r1 r2 where r1: "set_mac ''mac '' ''src_mac'' rule ?r0 = Inr r1"
    and r2: "set_mac ''mask '' ''src_mac_mask'' rule r1 = Inr r2"
    and r: "set_prefix ''ip '' ''src_prefix'' rule r2 = Inr r"
    using assms unfolding macip_rule_of_def by auto
  have "map_of r k = map_of ?r0 k" if "k \<noteq> ''src_mac''" "k \<noteq> ''src_mac_mask''" "k \<noteq> ''src_prefix''" for k
    using set_mac_frame [OF r1 that(1)] set_mac_frame [OF r2 that(2)] set_prefix_frame [OF r that(3)] by (simp only:)
  from this [of "''prefix''"] this [of "''is_permit''"]
  have "map_of r ''prefix'' = Some (VInt 0)" "map_of r ''is_permit'' = Some (permit_of rule)" by simp_all
  moreover have "map_of r ''src_mac'' = Some (VBytes (replicate 6 0x30))" if "search_mac ''mac '' rule = None"
    using that r1 set_mac_frame [OF r2, of "''src_mac''"] set_prefix_frame [OF r, of "''src_mac''"]
    by (auto simp: set_mac_def)
  moreover have "map_of r ''src_prefix'' = Some p" if "search_address ''ip '' rule = Some s" "prefix_of s = Inr p" for s p
    using that r by (auto simp: set_prefix_def pd.lookup_store)
  ultimately show ?thesis by blast
qed

theorem macip_prefix_never_set_witness:
  "\<exists>r. macip_rule_of ''permit ip 10.1.2.3/32'' = Inr r \<and> map_of r ''prefix'' = Some (VInt 0)"
proof -
  have "search_mac ''mac '' ''permit ip 10.1.2.3/32'' = None" "search_mac ''mask '' ''permit ip 10.1.2.3/32'' = None"
    by (simp_all add: startswith_def)
  moreover have "search_address ''ip '' ''permit ip 10.1.2.3/32'' = Some ''10.1.2.3/32''"
    by (simp add: startswith_def address_char_def hex_value_def)
  moreover have "prefix_of ''10.1.2.3/32'' = create_prefix_object (IPv4Address 167838211) (VInt 32)"
    by (simp add: prefix_of_def sample_address list_get_def parse_int_def strip_def is_space_def parse_nat_def
        is_digit_def digit_value_def)
  ultimately obtain r where r: "macip_rule_of ''permit ip 10.1.2.3/32'' = Inr r"
    by (auto simp: macip_rule_of_def set_mac_def set_prefix_def create_prefix_object_def)
  with macip_prefix_never_set [OF r] show ?thesis by blast
qed

end
