(* ===== verification/IPUtil.thy ===== *)
theory IPUtil
  imports L2Util
begin

text \<open>
  \<open>IPUtil.py\<close>: addresses, neighbours, tables and routes of VPP through the API (\<open>Papi\<close>), and the
  commands for Linux interfaces. The conversions of addresses are in \<open>IpAddress\<close>.
\<close>

section \<open>Queries of VPP\<close>

text \<open>\<^verbatim>\<open>if not sw_if_index: return list()\<close>: an interface with index 0 has no addresses.\<close>

definition vpp_get_interface_ip_addresses ::
    "'w vpp_env \<Rightarrow> node \<Rightarrow> pyval \<Rightarrow> string \<Rightarrow> 'w papi_state \<Rightarrow> pyobj list res \<times> 'w papi_state" where
  "vpp_get_interface_ip_addresses env node interface ip_version st =
     (case get_interface_index node interface of
        Inl e \<Rightarrow> (Inl e, st)
      | Inr sw_if_index \<Rightarrow>
          if \<not> truthy_val sw_if_index then (Inr [], st)
          else request_details env node ''ip_address_dump''
                 (bindE (getitem node ''host'') (\<lambda>host.
                    Inr [(''sw_if_index'', sw_if_index), (''is_ipv6'', VBool (ip_version = ''ipv6''))]))
                 ''Failed to get L2FIB dump'' st)"

fun run_cli_cmds :: "'w vpp_env \<Rightarrow> node \<Rightarrow> string list \<Rightarrow> 'w papi_state \<Rightarrow> unit res \<times> 'w papi_state" where
  "run_cli_cmds env node [] st = (Inr (), st)"
| "run_cli_cmds env node (cmd # cmds) st =
     (case run_cli_cmd env node cmd SOCKSVR_PATH st of
        (Inl e, st1) \<Rightarrow> (Inl e, st1)
      | (Inr v, st1) \<Rightarrow> run_cli_cmds env node cmds st1)"

definition vpp_get_ip_tables :: "'w vpp_env \<Rightarrow> node \<Rightarrow> 'w papi_state \<Rightarrow> unit res \<times> 'w papi_state" where
  "vpp_get_ip_tables env node st =
     run_cli_cmds env node [''show ip fib'', ''show ip fib summary'', ''show ip6 fib'', ''show ip6 fib summary''] st"

definition vpp_get_ip_table_summary :: "'w vpp_env \<Rightarrow> node \<Rightarrow> 'w papi_state \<Rightarrow> unit res \<times> 'w papi_state" where
  "vpp_get_ip_table_summary env node st = run_cli_cmds env node [''show ip fib summary''] st"

definition vpp_get_ip_table :: "'w vpp_env \<Rightarrow> node \<Rightarrow> 'w papi_state \<Rightarrow> unit res \<times> 'w papi_state" where
  "vpp_get_ip_table env node st = run_cli_cmds env node [''show ip fib''] st"

definition vpp_get_ip_tables_prefix :: "'w vpp_env \<Rightarrow> node \<Rightarrow> string \<Rightarrow> 'w papi_state \<Rightarrow> unit res \<times> 'w papi_state" where
  "vpp_get_ip_tables_prefix env node address st =
     (case ip_address address of
        Inl e \<Rightarrow> (Inl e, st)
      | Inr addr \<Rightarrow>
          run_cli_cmds env node
            [''show '' @ (if version addr = 6 then ''ip6'' else ''ip'') @ '' fib '' @ ip_str addr @ ''/'' @
             (if version addr = 6 then ''128'' else ''32'')] st)"

definition get_interface_vrf_table ::
    "'w vpp_env \<Rightarrow> node \<Rightarrow> pyval \<Rightarrow> string \<Rightarrow> 'w papi_state \<Rightarrow> pyval res \<times> 'w papi_state" where
  "get_interface_vrf_table env node interface ip_version st =
     mapS (\<lambda>reply. getitem reply ''vrf_id'')
     (request_reply env node ''sw_interface_get_table''
       (bindE (get_interface_index node interface) (\<lambda>i.
        Inr [(''sw_if_index'', i), (''is_ipv6'', VBool (ip_version = ''ipv6''))]))
       ''Failed to get VRF id assigned to interface'' st)"

section \<open>Configuration of VPP\<close>

definition vpp_ip_source_check_setup ::
    "'w vpp_env \<Rightarrow> node \<Rightarrow> pyval \<Rightarrow> 'w papi_state \<Rightarrow> unit res \<times> 'w papi_state" where
  "vpp_ip_source_check_setup env node if_name st =
     nothing (request_reply env node ''ip_source_check_interface_add_del''
       (bindE (get_interface_index node if_name) (\<lambda>i.
        Inr [(''sw_if_index'', i), (''is_add'', VInt 1), (''loose'', VInt 0)]))
       ''Failed to enable source check on interface'' st)"

definition vpp_ip_probe :: "'w vpp_env \<Rightarrow> node \<Rightarrow> pyval \<Rightarrow> pyval \<Rightarrow> 'w papi_state \<Rightarrow> unit res \<times> 'w papi_state" where
  "vpp_ip_probe env node interface addr st =
     nothing (request_reply env node ''ip_probe_neighbor''
       (bindE (get_interface_index node interface) (\<lambda>i.
        bindE (getitem node ''host'') (\<lambda>host. Inr [(''sw_if_index'', i), (''dst'', VStr (py_str addr))])))
       ''VPP ip probe failed'' st)"

definition vpp_interface_set_ip_address ::
    "'w vpp_env \<Rightarrow> node \<Rightarrow> pyval \<Rightarrow> string \<Rightarrow> pyval \<Rightarrow> 'w papi_state \<Rightarrow> unit res \<times> 'w papi_state" where
  "vpp_interface_set_ip_address env node interface address prefix_length st =
     nothing (request_reply env node ''sw_interface_add_del_address''
       (bindE (ip_address address) (\<lambda>ip_addr.
        bindE (get_interface_index node interface) (\<lambda>i.
        bindE (create_prefix_object ip_addr
                 (if truthy_val prefix_length then prefix_length
                  else if version ip_addr = 6 then VInt 128 else VInt 32)) (\<lambda>p.
        Inr [(''sw_if_index'', i), (''is_add'', VBool True), (''del_all'', VBool False), (''prefix'', p)]))))
       ''Failed to add IP address on interface'' st)"

fun vpp_interface_set_ip_addresses ::
    "'w vpp_env \<Rightarrow> node \<Rightarrow> pyval \<Rightarrow> string list \<Rightarrow> pyval \<Rightarrow> 'w papi_state \<Rightarrow> unit res \<times> 'w papi_state" where
  "vpp_interface_set_ip_addresses env node interface [] prefix_length st = (Inr (), st)"
| "vpp_interface_set_ip_addresses env node interface (ip_addr # ip_addr_list) prefix_length st =
     (case vpp_interface_set_ip_address env node interface ip_addr prefix_length st of
        (Inl e, st1) \<Rightarrow> (Inl e, st1)
      | (Inr u, st1) \<Rightarrow> vpp_interface_set_ip_addresses env node interface ip_addr_list prefix_length st1)"

definition vpp_add_ip_neighbor ::
    "'w vpp_env \<Rightarrow> node \<Rightarrow> pyval \<Rightarrow> string \<Rightarrow> pyval \<Rightarrow> 'w papi_state \<Rightarrow> unit res \<times> 'w papi_state" where
  "vpp_add_ip_neighbor env node iface_key ip_addr mac_addr st =
     nothing (request_reply env node ''ip_neighbor_add_del''
       (bindE (ip_address ip_addr) (\<lambda>dst_ip.
        bindE (get_interface_sw_index node iface_key) (\<lambda>i.
        Inr [(''is_add'', VBool True),
             (''neighbor'', VDict [(''sw_if_index'', i), (''flags'', VInt 0),
                (''mac_address'', VStr (py_str mac_addr)), (''ip_address'', VStr (ip_str dst_ip))])])))
       ''Failed to add IP neighbor on interface'' st)"

definition flush_ip_addresses :: "'w vpp_env \<Rightarrow> node \<Rightarrow> pyval \<Rightarrow> 'w papi_state \<Rightarrow> unit res \<times> 'w papi_state" where
  "flush_ip_addresses env node interface st =
     nothing (request_reply env node ''sw_interface_add_del_address''
       (bindE (get_interface_index node interface) (\<lambda>i.
        Inr [(''sw_if_index'', i), (''is_add'', VBool False), (''del_all'', VBool True)]))
       ''Failed to flush IP address on interface'' st)"

definition add_fib_table :: "'w vpp_env \<Rightarrow> node \<Rightarrow> pyval \<Rightarrow> pyval \<Rightarrow> 'w papi_state \<Rightarrow> unit res \<times> 'w papi_state" where
  "add_fib_table env node table_id ipv6 st =
     nothing (request_reply env node ''ip_table_add_del''
       (bindE (py_int_val table_id) (\<lambda>t.
        bindE (getitem node ''host'') (\<lambda>host.
        Inr [(''table'', VDict [(''table_id'', t), (''is_ip6'', ipv6)]), (''is_add'', VBool True)])))
       ''Failed to add FIB table'' st)"

section \<open>Routes\<close>

definition kwarg :: "pyobj \<Rightarrow> string \<Rightarrow> pyval \<Rightarrow> pyval" where
  "kwarg kwargs k dflt = (case map_of kwargs k of None \<Rightarrow> dflt | Some v \<Rightarrow> v)"

text \<open>\<open>ip_address(v)\<close> of a value that is a string or an integer.\<close>

fun ip_address_val :: "pyval \<Rightarrow> ipaddr res" where
  "ip_address_val (VStr s) = ip_address s"
| "ip_address_val (VInt n) = ip_address_of_int n"
| "ip_address_val (VBool b) = ip_address_of_int (if b then 1 else 0)"
| "ip_address_val v = Inl (ValueError ''does not appear to be an IPv4 or IPv6 address'')"

definition MPLS_LABEL_INVALID :: int where
  "MPLS_LABEL_INVALID = 0xfffff + 1"

definition compose_vpp_route_structure :: "node \<Rightarrow> string \<Rightarrow> pyval \<Rightarrow> pyobj \<Rightarrow> pyval res" where
  "compose_vpp_route_structure node network prefix_len kwargs =
     (let interface = kwarg kwargs ''interface'' (VStr ''''); gateway = kwarg kwargs ''gateway'' (VStr '''')
      in bindE (ip_address network) (\<lambda>net_addr.
         bindE (create_prefix_object net_addr prefix_len) (\<lambda>prefix.
         bindE (if truthy_val gateway then bindE (ip_address_val gateway) (\<lambda>g. Inr (union_addr g)) else Inr (VInt 0))
           (\<lambda>nh_address.
         bindE (if truthy_val interface then get_interface_index node interface else Inr (VInt BITWISE_NON_ZERO))
           (\<lambda>sw_if_index.
         bindE (py_int_val (kwarg kwargs ''lookup_vrf'' (VInt 0))) (\<lambda>lookup.
         bindE (py_int_val (kwarg kwargs ''weight'' (VInt 1))) (\<lambda>weight.
         bindE (py_int_val (kwarg kwargs ''vrf'' (VInt 0))) (\<lambda>vrf.
         let n_hop = VDict [(''address'', nh_address), (''via_label'', VInt MPLS_LABEL_INVALID),
                            (''obj_id'', VInt BITWISE_NON_ZERO)];
             path = VDict
               [(''sw_if_index'', sw_if_index), (''table_id'', lookup), (''rpf_id'', VInt BITWISE_NON_ZERO),
                (''weight'', weight), (''preference'', VInt 1),
                (''type'', VInt (if truthy_val (kwarg kwargs ''local'' (VBool False)) then 1 else 0)),
                (''flags'', VInt 0), (''proto'', VInt (if version net_addr = 6 then 1 else 0)), (''nh'', n_hop),
                (''n_labels'', VInt 0), (''label_stack'', VList (replicate 16 (VInt 0)))]
         in Inr (VDict [(''table_id'', vrf), (''prefix'', prefix), (''n_paths'', VInt 1),
                        (''paths'', VList [path])])))))))))"

text \<open>
  The routes of a request: one for each of \<open>n\<close> consecutive addresses, added one after the other; only
  the first two are recorded in the history.
\<close>

definition route_args :: "pyobj \<Rightarrow> pyval \<Rightarrow> pyobj" where
  "route_args kwargs route =
     [(''is_add'', VBool True), (''is_multipath'', kwarg kwargs ''multipath'' (VBool False)), (''route'', route)]"

fun add_routes ::
    "ipaddr \<Rightarrow> pyval \<Rightarrow> pyobj \<Rightarrow> nat list \<Rightarrow> papi_executor \<Rightarrow> 'w papi_state \<Rightarrow> unit res \<times> papi_executor \<times> 'w papi_state" where
  "add_routes net_addr prefix_len kwargs [] ex st = (Inr (), ex, st)"
| "add_routes net_addr prefix_len kwargs (i # is) ex st =
     (case bindE (ip_add net_addr (int i)) (\<lambda>a.
           compose_vpp_route_structure (pe_node ex) (ip_str a) prefix_len kwargs) of
        Inl e \<Rightarrow> (Inl e, ex, st)
      | Inr route \<Rightarrow>
          (case papi_add ex ''ip_route_add_del'' (\<not> 1 < i) (route_args kwargs route) st of
             (Inl e, ex1, st1) \<Rightarrow> (Inl e, ex1, st1)
           | (Inr u, ex1, st1) \<Rightarrow> add_routes net_addr prefix_len kwargs is ex1 st1))"

text \<open>\<open>vat\<close> stands for the terminal that takes more than a hundred routes at once.\<close>

definition vpp_route_add ::
    "'w vpp_env \<Rightarrow> (node \<Rightarrow> string \<Rightarrow> pyval \<Rightarrow> pyobj \<Rightarrow> 'w papi_state \<Rightarrow> unit res \<times> 'w papi_state) \<Rightarrow>
     node \<Rightarrow> string \<Rightarrow> pyval \<Rightarrow> pyobj \<Rightarrow> 'w papi_state \<Rightarrow> unit res \<times> 'w papi_state" where
  "vpp_route_add env vat node network prefix_len kwargs st =
     (case number_of (kwarg kwargs ''count'' (VInt 1)) of
        None \<Rightarrow> (Inl type_error, st)
      | Some count \<Rightarrow>
          if count > 100 then vat node network prefix_len kwargs st
          else case bindE (ip_address network) (\<lambda>net_addr.
                 bindE (getitem node ''host'') (\<lambda>host. Inr net_addr)) of
                 Inl e \<Rightarrow> (Inl e, st)
               | Inr net_addr \<Rightarrow>
                   with_papi env node SOCKSVR_PATH
                     (\<lambda>ex st. case add_routes net_addr prefix_len kwargs [0..<nat count] ex st of
                        (Inl e, ex1, st1) \<Rightarrow> (Inl e, ex1, st1)
                      | (Inr u, ex1, st1) \<Rightarrow>
                          (case get_replies env ex1 ''Failed to add route(s)'' st1 of
                             (r, ex2, st2) \<Rightarrow> (bindE r (\<lambda>_. Inr ()), ex2, st2))) st)"

section \<open>Linux interfaces\<close>

definition netns :: "string option \<Rightarrow> string" where
  "netns namespace = (case namespace of None \<Rightarrow> '''' | Some n \<Rightarrow> ''ip netns exec '' @ n @ '' '')"

definition linux_enable_forwarding :: "'w paramiko \<Rightarrow> node \<Rightarrow> string \<Rightarrow> ('w ssh_state, unit) act" where
  "linux_enable_forwarding pk node ip_ver =
     voidS (run_sudo pk node (''sysctl -w net.'' @ ip_ver @ ''.ip_forward=1'') 600 [])"

definition set_linux_interface_up :: "'w paramiko \<Rightarrow> node \<Rightarrow> string \<Rightarrow> string option \<Rightarrow> ('w ssh_state, unit) act" where
  "set_linux_interface_up pk node interface namespace =
     voidS (run_sudo pk node (netns namespace @ ''ip link set dev '' @ interface @ '' up'') 30 [])"

definition set_linux_interface_ip ::
    "'w paramiko \<Rightarrow> node \<Rightarrow> string \<Rightarrow> string \<Rightarrow> pyval \<Rightarrow> string option \<Rightarrow> ('w ssh_state, unit) act" where
  "set_linux_interface_ip pk node interface ip_addr prefix namespace =
     voidS (run_sudo pk node
       (netns namespace @ ''ip addr add '' @ ip_addr @ ''/'' @ py_str prefix @ '' dev '' @ interface) 5 [])"

definition delete_linux_interface_ip ::
    "'w paramiko \<Rightarrow> node \<Rightarrow> string \<Rightarrow> string \<Rightarrow> pyval \<Rightarrow> string option \<Rightarrow> ('w ssh_state, unit) act" where
  "delete_linux_interface_ip pk node interface ip_addr prefix_length namespace =
     voidS (run_sudo pk node
       (netns namespace @ ''ip addr del '' @ ip_addr @ ''/'' @ py_str prefix_length @ '' dev '' @ interface) 5 [])"

definition linux_interface_has_ip ::
    "'w paramiko \<Rightarrow> node \<Rightarrow> string \<Rightarrow> string \<Rightarrow> pyval \<Rightarrow> string option \<Rightarrow> ('w ssh_state, bool) act" where
  "linux_interface_has_ip pk node interface ip_addr prefix_length namespace =
     (let wanted = ip_addr @ ''/'' @ py_str prefix_length; q = [CHR 39];
          cmd = netns namespace @ ''ip addr show dev '' @ interface @
            '' | grep '' @ q @ ''inet '' @ q @ '' | awk -e '' @ q @ ''{print $2}'' @ q @
            '' | grep '' @ q @ wanted @ q
      in bindS (exec_cmd pk node cmd 5 True False) (\<lambda>r.
           case r of
             None \<Rightarrow> liftS (Inl AttributeError)
           | Some (rc, out, err) \<Rightarrow> returnS (rstrip out = wanted)))"

definition add_linux_route ::
    "'w paramiko \<Rightarrow> node \<Rightarrow> string \<Rightarrow> pyval \<Rightarrow> string \<Rightarrow> string option \<Rightarrow> ('w ssh_state, unit) act" where
  "add_linux_route pk node ip_addr prefix gateway namespace =
     voidS (run_sudo pk node
       (netns namespace @ ''ip route add '' @ ip_addr @ ''/'' @ py_str prefix @ '' via '' @ gateway) 600 [])"

text \<open>
  The pattern \<^verbatim>\<open>pci@(address)\s*(name)\s*network\<close> in a line of \<^verbatim>\<open>lshw\<close>: the first place where it matches; the
  name is as long as possible.
\<close>

definition is_hex :: "char \<Rightarrow> bool" where
  "is_hex c \<longleftrightarrow> is_digit c \<or> 97 \<le> (of_char c :: nat) \<and> (of_char c :: nat) \<le> 102"

definition is_alnum :: "char \<Rightarrow> bool" where
  "is_alnum c \<longleftrightarrow> is_digit c \<or> (65 \<le> (of_char c :: nat) \<and> (of_char c :: nat) \<le> 90) \<or>
     (97 \<le> (of_char c :: nat) \<and> (of_char c :: nat) \<le> 122)"

definition pci_text :: "string \<Rightarrow> bool" where
  "pci_text s \<longleftrightarrow> length s = 12 \<and> s ! 4 = CHR '':'' \<and> s ! 7 = CHR '':'' \<and> s ! 10 \<noteq> CHR 10 \<and>
     list_all (\<lambda>i. is_hex (s ! i)) [0, 1, 2, 3, 5, 6, 8, 9, 11]"

fun name_before_network :: "nat \<Rightarrow> string \<Rightarrow> string option" where
  "name_before_network 0 s = (if startswith (dropWhile is_space s) ''network'' then Some [] else None)"
| "name_before_network (Suc k) s =
     (if startswith (dropWhile is_space (drop (Suc k) s)) ''network'' then Some (take (Suc k) s)
      else name_before_network k s)"

definition intf_at :: "string \<Rightarrow> (string \<times> string) option" where
  "intf_at s =
     (if startswith s ''pci@'' \<and> pci_text (take 12 (drop 4 s))
      then (let rest = dropWhile is_space (drop 16 s)
            in map_option (\<lambda>name. (take 12 (drop 4 s), name))
                 (name_before_network (length (takeWhile is_alnum rest)) rest))
      else None)"

fun search_intf :: "string \<Rightarrow> (string \<times> string) option" where
  "search_intf [] = None"
| "search_intf (c # cs) = (case intf_at (c # cs) of Some r \<Rightarrow> Some r | None \<Rightarrow> search_intf cs)"

fun name_of_pci :: "string \<Rightarrow> string list \<Rightarrow> string option" where
  "name_of_pci pci_addr [] = None"
| "name_of_pci pci_addr (line # lines) =
     (case search_intf line of
        Some (addr, name) \<Rightarrow> if addr = pci_addr then Some name else name_of_pci pci_addr lines
      | None \<Rightarrow> name_of_pci pci_addr lines)"

definition get_linux_interface_name :: "'w paramiko \<Rightarrow> node \<Rightarrow> string \<Rightarrow> ('w ssh_state, string option) act" where
  "get_linux_interface_name pk node pci_addr =
     bindS (exec_cmd pk node ''lshw -class network -businfo'' 30 True False) (\<lambda>r.
       case r of
         Some (rc, out, err) \<Rightarrow>
           if rc = 0 then returnS (name_of_pci pci_addr (drop 2 (splitlines out)))
           else liftS (Inl (RuntimeError (''Could not get information about interfaces:'' @ [CHR 10] @ err)))
       | None \<Rightarrow> liftS (Inl (RuntimeError (''Could not get information about interfaces:'' @ [CHR 10] @ ''None''))))"

section \<open>Consecutive routes\<close>

definition route_command :: "pyobj \<Rightarrow> pyval \<Rightarrow> papi_command" where
  "route_command kwargs route = \<lparr>api_name = ''ip_route_add_del'', api_args = route_args kwargs route\<rparr>"

lemma add_routes_run:
  assumes "add_routes net prefix_len kwargs is ex st = (Inr u, ex', st')"
  shows "ps_vpp st' = ps_vpp st \<and>
    (\<exists>routes. list_all2 (\<lambda>i r. \<exists>a. ip_add net (int i) = Inr a \<and>
         compose_vpp_route_structure (pe_node ex) (ip_str a) prefix_len kwargs = Inr r) is routes \<and>
       api_command_list ex' = api_command_list ex @ map (route_command kwargs) routes)"
  using assms
proof (induction "is" arbitrary: ex st)
  case (Cons i "is")
  obtain route where route: "bindE (ip_add net (int i)) (\<lambda>a.
      compose_vpp_route_structure (pe_node ex) (ip_str a) prefix_len kwargs) = Inr route"
    using Cons.prems by (auto split: sum.splits)
  obtain r1 ex1 st1 where
    add: "papi_add ex ''ip_route_add_del'' (\<not> 1 < i) (route_args kwargs route) st = (r1, ex1, st1)"
    by (cases "papi_add ex ''ip_route_add_del'' (\<not> 1 < i) (route_args kwargs route) st") blast
  have rest: "r1 = Inr () \<and> add_routes net prefix_len kwargs is ex1 st1 = (Inr u, ex', st')"
    using Cons.prems route add by (cases r1) simp_all
  then have "papi_add ex ''ip_route_add_del'' (\<not> 1 < i) (route_args kwargs route) st = (Inr (), ex1, st1)"
    using add by simp
  from papi_add_returns [OF this] have step: "ps_vpp st1 = ps_vpp st"
      "ex1 = ex\<lparr>api_command_list := api_command_list ex @ [route_command kwargs route]\<rparr>"
    by (auto simp: route_command_def)
  from Cons.IH [of ex1 st1] rest step obtain routes where
    "ps_vpp st' = ps_vpp st1" "list_all2 (\<lambda>i r. \<exists>a. ip_add net (int i) = Inr a \<and>
         compose_vpp_route_structure (pe_node ex) (ip_str a) prefix_len kwargs = Inr r) is routes"
    "api_command_list ex' = api_command_list ex1 @ map (route_command kwargs) routes"
    by auto
  then show ?case using step route by (intro conjI exI [of _ "route # routes"]) auto
qed simp

lemma unat_sum:
  fixes w :: "'a::len word"
  assumes "uint w + int i < 2 ^ LENGTH('a)"
  shows "unat (word_of_int (uint w + int i) :: 'a word) = unat w + i"
proof -
  have "uint (word_of_int (uint w + int i) :: 'a word) = uint w + int i"
    unfolding uint_word_of_int_eq using assms by (intro take_bit_int_eq_self) simp_all
  then show ?thesis unfolding unat_eq_nat_uint by (simp only: nat_add_distrib uint_ge_0 of_nat_0_le_iff nat_int)
qed

lemma ip_add_value:
  assumes "ip_add net (int i) = Inr a"
  shows "version a = version net \<and> address_int a = address_int net + i"
proof (cases net)
  case (IPv4Address w)
  then show ?thesis using assms unat_sum [of w i] by (auto simp: Let_def split: if_splits)
next
  case (IPv6Address w)
  then show ?thesis using assms unat_sum [of w i] by (auto simp: Let_def split: if_splits)
qed

lemma compose_prefix:
  assumes "compose_vpp_route_structure node (ip_str a) prefix_len kwargs = Inr route"
  shows "lookup_path route [''prefix'', ''address''] = Some (create_ip_address_object a)"
  using assms unfolding compose_vpp_route_structure_def Let_def
  by (auto simp: create_prefix_object_def)

text \<open>
  C21. When \<open>vpp_route_add\<close> returns for at most a hundred routes, VPP was asked, in order, to add
  one route for each of the consecutive addresses from the network on: the address in the prefix of
  the route with number \<open>i\<close> is the network plus \<open>i\<close>, of the same version, without overflow.
\<close>

theorem route_add_consecutive:
  assumes "vpp_route_add (logged env) vat node network prefix_len kwargs st = (Inr (), st')"
    and "number_of (kwarg kwargs ''count'' (VInt 1)) = Some (int n)" and "n \<le> 100"
  shows "\<exists>net routes out. ip_address network = Inr net \<and> length routes = n \<and>
    (\<forall>i<n. \<exists>a. version a = version net \<and> address_int a = address_int net + i \<and>
       lookup_path (routes ! i) [''prefix'', ''address''] = Some (create_ip_address_object a)) \<and>
    snd (ps_vpp st') = snd (ps_vpp st) @ out \<and> all_sent (map (route_command kwargs) routes) out"
proof -
  let ?body = "\<lambda>net ex st. case add_routes net prefix_len kwargs [0..<n] ex st of
      (Inl e, ex1, st1) \<Rightarrow> (Inl e, ex1, st1)
    | (Inr u, ex1, st1) \<Rightarrow>
        (case get_replies (logged env) ex1 ''Failed to add route(s)'' st1 of
           (r, ex2, st2) \<Rightarrow> (bindE r (\<lambda>_. Inr ()), ex2, st2))"
  obtain net where net: "ip_address network = Inr net"
    and run: "with_papi (logged env) node SOCKSVR_PATH (?body net) st = (Inr (), st')"
    using assms unfolding vpp_route_add_def
    by (cases "ip_address network"; cases "getitem node ''host''") auto
  from with_papi_logged [OF run] obtain st0 ex3 st3 where
    body: "?body net (PapiSocketExecutor node SOCKSVR_PATH) st0 = (Inr (), ex3, st3)"
    and logs: "snd (ps_vpp st0) = snd (ps_vpp st)" "snd (ps_vpp st') = snd (ps_vpp st3)"
    by blast
  obtain r1 ex1 st1 where
    add: "add_routes net prefix_len kwargs [0..<n] (PapiSocketExecutor node SOCKSVR_PATH) st0 = (r1, ex1, st1)"
    by (cases "add_routes net prefix_len kwargs [0..<n] (PapiSocketExecutor node SOCKSVR_PATH) st0") blast
  obtain r2 ex2 st2 where replies: "get_replies (logged env) ex1 ''Failed to add route(s)'' st1 = (r2, ex2, st2)"
    by (cases "get_replies (logged env) ex1 ''Failed to add route(s)'' st1") blast
  obtain ds where ok: "r1 = Inr ()" "r2 = Inr ds" "st3 = st2"
    using body add replies by (cases r1; cases r2) auto
  from add_routes_run [OF add [unfolded ok(1)]] obtain routes where
    rel: "list_all2 (\<lambda>i r. \<exists>a. ip_add net (int i) = Inr a \<and>
         compose_vpp_route_structure node (ip_str a) prefix_len kwargs = Inr r) [0..<n] routes"
    and cmds: "api_command_list ex1 = map (route_command kwargs) routes" "ps_vpp st1 = ps_vpp st0"
    by (auto simp: PapiSocketExecutor_def)
  from replies_all_sent [OF replies [unfolded ok(2)]] obtain out where
    out: "snd (ps_vpp st2) = snd (ps_vpp st1) @ out" "all_sent (map (route_command kwargs) routes) out"
    unfolding cmds(1) by blast
  have len: "length routes = n" using rel by (auto dest: list_all2_lengthD)
  have "\<exists>a. version a = version net \<and> address_int a = address_int net + i \<and>
      lookup_path (routes ! i) [''prefix'', ''address''] = Some (create_ip_address_object a)" if "i < n" for i
    using list_all2_nthD [OF rel, of i] that ip_add_value compose_prefix by fastforce
  with net len logs ok(3) out cmds(2) show ?thesis by auto
qed

definition route_state :: "(nat \<times> papi_command list) papi_state" where
  "route_state =
     (let crcs = [(VStr ''ip_route_add_del'', VStr ''0x1''), (VStr ''ip_route_add_del_reply'', VStr ''0x2'')]
      in \<lparr>ps_checker = plug_checker\<lparr>expected := [(''20.01'', crcs)], found := crcs\<rparr>,
          ps_history = [(VStr ''10.0.0.1'', [])], ps_vpp = (1, [])\<rparr>)"

lemma sample_network: "ip_address ''10.0.0.255'' = Inr (IPv4Address 167772415)"
  by (simp add: ip_address_def parse_ipv4_def parse_octet_def parse_nat_def is_digit_def digit_value_def of_digits_def)

lemma compose_sample:
  "\<exists>r. compose_vpp_route_structure node (ip_str a) (VInt 32) [(''count'', n)] = Inr r"
  by (simp add: compose_vpp_route_structure_def create_prefix_object_def py_int_val_def kwarg_def)

theorem route_add_consecutive_witness:
  "\<exists>st' routes out. vpp_route_add (logged flaky_env) (\<lambda>_ _ _ _ st. (Inr (), st)) [(''host'', VStr ''10.0.0.1'')]
      ''10.0.0.255'' (VInt 32) [(''count'', VInt 2)] route_state = (Inr (), st') \<and>
    snd (ps_vpp st') = out \<and> all_sent (map (route_command [(''count'', VInt 2)]) routes) out \<and>
    (\<exists>a. address_int a = 167772416 \<and>
       lookup_path (routes ! 1) [''prefix'', ''address''] = Some (create_ip_address_object a))"
proof -
  let ?kw = "[(''count'', VInt 2)]" and ?node = "[(''host'', VStr ''10.0.0.1'')]"
  let ?run = "vpp_route_add (logged flaky_env) (\<lambda>_ _ _ _ st. (Inr (), st)) ?node ''10.0.0.255'' (VInt 32) ?kw route_state"
  have count: "number_of (kwarg ?kw ''count'' (VInt 1)) = Some (int 2)" by (simp add: kwarg_def)
  obtain a b where addrs: "ip_address ''10.0.0.255'' = Inr a" "ip_add a 0 = Inr a" "ip_add a 1 = Inr b"
    using sample_network by fastforce
  obtain r0 where r0: "compose_vpp_route_structure ?node (ip_str a) (VInt 32) ?kw = Inr r0"
    using compose_sample by blast
  obtain r1 where r1: "compose_vpp_route_structure ?node (ip_str b) (VInt 32) ?kw = Inr r1"
    using compose_sample by blast
  have "fst ?run = Inr ()"
    unfolding vpp_route_add_def count addrs route_args_def
    by (simp add: addrs r0 r1 papi_eval route_state_def)
  then obtain st' where run: "?run = (Inr (), st')" by (cases ?run) auto
  have "snd (ps_vpp route_state) = []" by (simp add: route_state_def Let_def)
  with route_add_consecutive [OF run count] sample_network obtain routes where
    routes: "\<forall>i<2. \<exists>a. version a = 4 \<and> address_int a = 167772415 + i \<and>
       lookup_path (routes ! i) [''prefix'', ''address''] = Some (create_ip_address_object a)"
    "all_sent (map (route_command ?kw) routes) (snd (ps_vpp st'))"
    by auto
  from routes(1) obtain b' where "address_int b' = 167772416"
    "lookup_path (routes ! 1) [''prefix'', ''address''] = Some (create_ip_address_object b')"
    by (auto dest: spec [of _ 1])
  with run routes(2) show ?thesis by blast
qed

end
