(* ===== verification/Namespaces.thy ===== *)
theory Namespaces
  imports Ssh "HOL-Library.Multiset"
begin

text \<open>
  \<open>Namespaces.py\<close>: network namespaces on the nodes. The names that were created are kept in a class
  attribute for the clean-up; it is part of the state.
\<close>

record 'w ns_state =
  ns_list :: "string list"
  ns_ssh :: "'w ssh_state"

definition on_ssh :: "('w ssh_state, 'a) act \<Rightarrow> ('w ns_state, 'a) act" where
  "on_ssh m s = (case m (ns_ssh s) of (r, t) \<Rightarrow> (r, s\<lparr>ns_ssh := t\<rparr>))"

definition edit_list :: "(string list \<Rightarrow> string list) \<Rightarrow> ('w ns_state, unit) act" where
  "edit_list f s = (Inr (), s\<lparr>ns_list := f (ns_list s)\<rparr>)"

definition delete_namespace :: "'w paramiko \<Rightarrow> node \<Rightarrow> string \<Rightarrow> ('w ns_state, unit) act" where
  "delete_namespace pk node namespace =
     bindS (on_ssh (exec_cmd pk node (''ip netns delete '' @ namespace) 5 True False)) (\<lambda>r.
       let (failed, errmsg) = (case r of None \<Rightarrow> (True, ''None'') | Some (rc, out, err) \<Rightarrow> (rc \<noteq> 0, err))
       in thenS
         (whenS failed
            (bindS (on_ssh (run_sudo pk node (''ip netns list '' @ namespace) 5 [])) (\<lambda>(stdout, _).
               whenS (stdout = namespace)
                 (liftS (Inl (RuntimeError (''Could not delete namespace ('' @ namespace @ ''): '' @ errmsg)))))))
         (edit_list (remove1 namespace)))"

definition create_namespace :: "'w paramiko \<Rightarrow> node \<Rightarrow> string \<Rightarrow> bool \<Rightarrow> ('w ns_state, unit) act" where
  "create_namespace pk node namespace delete_before_create =
     thenS (whenS delete_before_create (delete_namespace pk node namespace))
       (thenS (on_ssh (run_sudo pk node (''ip netns add '' @ namespace) 600 []))
          (edit_list (\<lambda>ns. ns @ [namespace])))"

definition check_rc :: "string \<Rightarrow> (int \<times> string \<times> string) option \<Rightarrow> unit res" where
  "check_rc message r =
     (case r of
        None \<Rightarrow> Inl (RuntimeError (message @ ''None''))
      | Some (rc, out, err) \<Rightarrow> assert_py (rc = 0) (RuntimeError (message @ err)))"

definition attach_interface_to_namespace :: "'w paramiko \<Rightarrow> node \<Rightarrow> string \<Rightarrow> string \<Rightarrow> ('w ssh_state, unit) act" where
  "attach_interface_to_namespace pk node namespace interface =
     thenS
       (bindS (exec_cmd pk node (''ip link set '' @ interface @ '' netns '' @ namespace) 5 True False)
          (\<lambda>r. liftS (check_rc (''Could not attach interface, reason:'' @ [CHR 10]) r)))
       (bindS (exec_cmd pk node (''ip netns exec '' @ namespace @ '' ip link set '' @ interface @ '' up'') 5 True False)
          (\<lambda>r. liftS (check_rc (''Could not set interface state, reason:'' @ [CHR 10]) r)))"

definition add_default_route_to_namespace :: "'w paramiko \<Rightarrow> node \<Rightarrow> string \<Rightarrow> string \<Rightarrow> ('w ssh_state, unit) act" where
  "add_default_route_to_namespace pk node namespace default_route =
     voidS (run_sudo pk node (''ip netns exec '' @ namespace @ '' ip route add default via '' @ default_route) 600 [])"

definition create_bridge_for_int_in_namespace ::
    "'w paramiko \<Rightarrow> node \<Rightarrow> string \<Rightarrow> string \<Rightarrow> string list \<Rightarrow> ('w ssh_state, unit) act" where
  "create_bridge_for_int_in_namespace pk node namespace bridge_name ifcs =
     (let ns = ''ip netns exec '' @ namespace @ '' ''
      in thenS (run_sudo pk node (ns @ ''brctl addbr '' @ bridge_name) 600 [])
         (thenS (forS (\<lambda>i. voidS (run_sudo pk node (ns @ ''brctl addif '' @ bridge_name @ '' '' @ i) 600 [])) ifcs)
            (voidS (run_sudo pk node (ns @ ''ip link set dev '' @ bridge_name @ '' up'') 600 []))))"

text \<open>The loop runs over a copy of the list, since every deletion removes a name.\<close>

definition clean_up_namespaces :: "'w paramiko \<Rightarrow> node \<Rightarrow> string option \<Rightarrow> ('w ns_state, unit) act" where
  "clean_up_namespaces pk node namespace s =
     (case namespace of
        Some n \<Rightarrow> delete_namespace pk node n s
      | None \<Rightarrow> forS (delete_namespace pk node) (ns_list s) s)"

section \<open>Nothing is left behind\<close>

lemma on_ssh_list: "on_ssh m s = (r, s') \<Longrightarrow> ns_list s' = ns_list s"
  by (auto simp: on_ssh_def split: prod.splits)

lemma delete_namespace_list:
  assumes "delete_namespace pk node n s = (r, s')"
  shows "ns_list s' = (case r of Inl e \<Rightarrow> ns_list s | Inr u \<Rightarrow> remove1 n (ns_list s))"
  using assms
  by (auto simp: delete_namespace_def bindS_def thenS_def whenS_def edit_list_def returnS_def liftS_def Let_def
      split: prod.splits sum.splits option.splits if_splits dest!: on_ssh_list)

lemma delete_all:
  assumes "forS (delete_namespace pk node) ns s = (Inr u, s')" and "ns_list s = ns @ rest"
  shows "ns_list s' = rest"
  using assms
proof (induction ns arbitrary: s)
  case (Cons n ns)
  then obtain v s1 where "delete_namespace pk node n s = (Inr v, s1)"
    "forS (delete_namespace pk node) ns s1 = (Inr u, s')"
    by (auto simp: thenS_eq_Inr)
  with Cons.IH [of s1] Cons.prems(2) delete_namespace_list [of pk node n s "Inr v" s1] show ?case by simp
qed simp

text \<open>
  C37. When the clean-up of all namespaces returns, no created namespace is remembered any more;
  when it raises, the namespaces that are remembered are among those remembered before.
\<close>

theorem clean_up_forgets_all:
  assumes "clean_up_namespaces pk node None s = (r, s')"
  shows "case r of Inr u \<Rightarrow> ns_list s' = [] | Inl e \<Rightarrow> mset (ns_list s') \<subseteq># mset (ns_list s)"
proof (cases r)
  case (Inr u)
  then show ?thesis using assms delete_all [of pk node "ns_list s" s u s' "[]"]
    by (simp add: clean_up_namespaces_def)
next
  case (Inl e)
  have "mset (ns_list s') \<subseteq># mset (ns_list t)" if "forS (delete_namespace pk node) ns t = (r', s')" for ns t r'
    using that
  proof (induction ns arbitrary: t)
    case (Cons n ns)
    obtain v t1 where run: "delete_namespace pk node n t = (v, t1)" by fastforce
    have "mset (ns_list t1) \<subseteq># mset (ns_list t)"
      using delete_namespace_list [OF run] by (cases v) auto
    then show ?case using Cons run by (cases v) (auto simp: thenS_def intro: subset_mset.order_trans)
  qed simp
  then show ?thesis using assms Inl by (auto simp: clean_up_namespaces_def)
qed

text \<open>One namespace, and a connection whose next command succeeds.\<close>

definition lab_namespaces :: "nat ns_state" where
  "lab_namespaces = \<lparr>ns_list = [''ns1''], ns_ssh = \<lparr>existing_connections = [({VStr ''10.0.0.1'', VInt 22}, 7)], ssh_world = 1\<rparr>\<rparr>"

lemma lab_exec_cmd:
  "existing_connections s = [({VStr ''10.0.0.1'', VInt 22}, 7)] \<Longrightarrow> odd (ssh_world s) \<Longrightarrow> cmd \<noteq> [] \<Longrightarrow>
     exec_cmd lab_paramiko lab_node cmd timeout True False s =
       (Inr (Some (0, ''sudo -E -S '' @ cmd, [])), s\<lparr>ssh_world := ssh_world s + 1\<rparr>)"
  by (rule exec_cmd_connected) (auto simp: node_hash_def lab_node_items lab_paramiko_def sudo_text_def)

theorem clean_up_forgets_all_witness:
  "\<exists>s'. clean_up_namespaces lab_paramiko lab_node None lab_namespaces = (Inr (), s') \<and> ns_list s' = []"
proof -
  obtain r s' where run: "clean_up_namespaces lab_paramiko lab_node None lab_namespaces = (r, s')" by fastforce
  have "fst (clean_up_namespaces lab_paramiko lab_node None lab_namespaces) = Inr ()"
    by (simp add: clean_up_namespaces_def lab_namespaces_def delete_namespace_def on_ssh_def lab_exec_cmd
        bindS_def thenS_def whenS_def edit_list_def returnS_def)
  with run have "r = Inr ()" by simp
  with clean_up_forgets_all [OF run] run show ?thesis by simp
qed

end
