(* ===== verification/DUTSetup.thy ===== *)
theory DUTSetup
  imports Ssh
begin

text \<open>
  \<open>DUTSetup.py\<close>: services, processes, PCI devices and their drivers, kernel modules, installation of VPP
  and huge pages on the nodes under test, all through commands over SSH.
\<close>

definition VPP_UNIT :: string where
  "VPP_UNIT = ''vpp''"

definition dq :: "string \<Rightarrow> string" where
  "dq s = [CHR 34] @ s @ [CHR 34]"

definition sq :: "string \<Rightarrow> string" where
  "sq s = [CHR 39] @ s @ [CHR 39]"

text \<open>\<^verbatim>\<open>pci.replace(":", r"\:")\<close>.\<close>

definition escape_colons :: "string \<Rightarrow> string" where
  "escape_colons pci = replace_all '':'' [CHR 92, CHR '':''] pci"

definition stdout_int :: "(int \<times> string \<times> string) option \<Rightarrow> int res" where
  "stdout_int r = (case r of None \<Rightarrow> Inl type_error | Some (rc, out, err) \<Rightarrow> py_int (VStr out))"

section \<open>Services\<close>

definition is_runtime_error :: "py_error \<Rightarrow> bool" where
  "is_runtime_error e \<longleftrightarrow> (case e of RuntimeError m \<Rightarrow> True | _ \<Rightarrow> False)"

definition running_in_container :: "'w paramiko \<Rightarrow> node \<Rightarrow> ('w ssh_state, bool) act" where
  "running_in_container pk node =
     catchS (bindS (run_plain pk node ''fgrep docker /proc/1/cgroup'' 30 ''Failed to get cgroup settings.'')
               (\<lambda>_. returnS True))
       (\<lambda>e. if is_runtime_error e then returnS False else liftS (Inl e))"

definition get_service_logs :: "'w paramiko \<Rightarrow> node \<Rightarrow> string \<Rightarrow> ('w ssh_state, unit) act" where
  "get_service_logs pk node service =
     bindS (running_in_container pk node) (\<lambda>container.
     with_host node (\<lambda>host.
       voidS (run_sudo pk node
         (if container then ''cat /tmp/*supervisor*.log''
          else ''journalctl --no-pager _SYSTEMD_INVOCATION_ID=$(systemctl show -p InvocationID --value '' @ service @ '')'')
         30 (''Node '' @ host @ '' failed to get logs from unit '' @ service))))"

definition get_service_logs_on_all_duts :: "'w paramiko \<Rightarrow> nodes \<Rightarrow> string \<Rightarrow> ('w ssh_state, unit) act" where
  "get_service_logs_on_all_duts pk nodes service = on_duts (\<lambda>node. get_service_logs pk node service) nodes"

text \<open>\<^verbatim>\<open>supervisorctl verb service\<close> in a container, \<^verbatim>\<open>service service verb\<close> otherwise.\<close>

definition service_command :: "'w paramiko \<Rightarrow> node \<Rightarrow> string \<Rightarrow> string \<Rightarrow> string \<Rightarrow> ('w ssh_state, unit) act" where
  "service_command pk node verb told service =
     bindS (running_in_container pk node) (\<lambda>container.
     with_host node (\<lambda>host.
       voidS (run_sudo pk node
         (if container then ''supervisorctl '' @ verb @ '' '' @ service else ''service '' @ service @ '' '' @ verb)
         180 (''Node '' @ host @ '' failed to '' @ told @ '' service '' @ service))))"

definition restart_service :: "'w paramiko \<Rightarrow> node \<Rightarrow> string \<Rightarrow> ('w ssh_state, unit) act" where
  "restart_service pk node service =
     thenS (service_command pk node ''restart'' ''restart'' service) (get_service_logs pk node service)"

definition restart_service_on_all_duts :: "'w paramiko \<Rightarrow> nodes \<Rightarrow> string \<Rightarrow> ('w ssh_state, unit) act" where
  "restart_service_on_all_duts pk nodes service = on_duts (\<lambda>node. restart_service pk node service) nodes"

definition start_service :: "'w paramiko \<Rightarrow> node \<Rightarrow> string \<Rightarrow> ('w ssh_state, unit) act" where
  "start_service pk node service =
     thenS (service_command pk node ''restart'' ''start'' service) (get_service_logs pk node service)"

definition start_service_on_all_duts :: "'w paramiko \<Rightarrow> nodes \<Rightarrow> string \<Rightarrow> ('w ssh_state, unit) act" where
  "start_service_on_all_duts pk nodes service = on_duts (\<lambda>node. start_service pk node service) nodes"

definition stop_service :: "'w paramiko \<Rightarrow> node \<Rightarrow> string \<Rightarrow> ('w ssh_state, unit) act" where
  "stop_service pk node service =
     thenS (get_service_logs pk node service) (service_command pk node ''stop'' ''stop'' service)"

definition stop_service_on_all_duts :: "'w paramiko \<Rightarrow> nodes \<Rightarrow> string \<Rightarrow> ('w ssh_state, unit) act" where
  "stop_service_on_all_duts pk nodes service = on_duts (\<lambda>node. stop_service pk node service) nodes"

section \<open>Processes\<close>

text \<open>Up to \<open>n\<close> more looks whether the program is dead; the result says whether it is.\<close>

fun wait_dead :: "'w paramiko \<Rightarrow> node \<Rightarrow> string \<Rightarrow> nat \<Rightarrow> ('w ssh_state, bool) act" where
  "wait_dead pk node pgrep_cmd 0 = returnS False"
| "wait_dead pk node pgrep_cmd (Suc n) =
     bindS (exec_cmd pk node pgrep_cmd 5 True False) (\<lambda>r.
     bindS (liftS (stdout_int r)) (\<lambda>count.
       if count = 0 then returnS True
       else thenS (on_world (\<lambda>w. (Inr (), pk_sleep pk 1 w))) (wait_dead pk node pgrep_cmd n)))"

definition kill_program :: "'w paramiko \<Rightarrow> node \<Rightarrow> string \<Rightarrow> string option \<Rightarrow> ('w ssh_state, unit) act" where
  "kill_program pk node program namespace =
     with_host node (\<lambda>host.
       let shell_cmd = (if namespace = None \<or> namespace = Some ''default'' then ''sh -c''
                        else ''ip netns exec '' @ the namespace @ '' sh -c'');
           pgrep_cmd = shell_cmd @ '' '' @ sq (''pgrep -c '' @ program)
       in bindS (exec_cmd pk node pgrep_cmd 5 True False) (\<lambda>r.
          bindS (liftS (stdout_int r)) (\<lambda>count.
            whenS (count \<noteq> 0)
              (thenS (exec_cmd pk node (shell_cmd @ '' '' @ sq (''pkill '' @ program)) 5 True False)
                (bindS (wait_dead pk node pgrep_cmd 5) (\<lambda>dead.
                   whenS (\<not> dead)
                     (voidS (exec_cmd pk node (shell_cmd @ '' '' @ sq (''pkill -9 '' @ program)) 5 True False))))))))"

definition verify_program_installed :: "'w paramiko \<Rightarrow> node \<Rightarrow> string \<Rightarrow> ('w ssh_state, unit) act" where
  "verify_program_installed pk node program =
     voidS (run_plain pk node (''command -v '' @ program) 600 (program @ '' is not installed''))"

text \<open>Three tries; several processes are remembered but asked for again.\<close>

fun get_pid_from :: "'w paramiko \<Rightarrow> ssh_object \<Rightarrow> string \<Rightarrow> nat \<Rightarrow> int list option \<Rightarrow> ('w ssh_state, int list option) act" where
  "get_pid_from pk obj process 0 retval = returnS retval"
| "get_pid_from pk obj process (Suc n) retval =
     bindS (exec_command pk obj (''pidof '' @ process) 10) (\<lambda>(ret_code, stdout, stderr).
       if ret_code \<noteq> 0 then liftS (Inl (RuntimeError (''Not possible to get PID of '' @ process)))
       else case split_ws stdout of
              [] \<Rightarrow> get_pid_from pk obj process n retval
            | [pid] \<Rightarrow> bindS (liftS (py_int (VStr stdout))) (\<lambda>i. returnS (Some [i]))
            | pids \<Rightarrow> bindS (liftS (mapE (\<lambda>p. py_int (VStr p)) pids)) (\<lambda>is.
                        get_pid_from pk obj process n (Some is)))"

definition get_pid :: "'w paramiko \<Rightarrow> node \<Rightarrow> string \<Rightarrow> ('w ssh_state, int list option) act" where
  "get_pid pk node process = bindS (ssh_connect pk node 5) (\<lambda>obj. get_pid_from pk obj process 3 None)"

definition get_vpp_pids :: "'w paramiko \<Rightarrow> nodes \<Rightarrow> ('w ssh_state, (pyval, int list option) pydict) act" where
  "get_vpp_pids pk nodes =
     foldS (\<lambda>pids node.
       bindS (liftS (getitem node ''type'')) (\<lambda>t.
         if t \<noteq> VStr ''DUT'' then returnS pids
         else bindS (get_pid pk node ''vpp'') (\<lambda>p.
              bindS (liftS (getitem node ''host'')) (\<lambda>host. returnS (AList.update host p pids)))))
       [] (map snd nodes)"

section \<open>PCI devices\<close>

definition get_virtfn_pci_addr :: "'w paramiko \<Rightarrow> node \<Rightarrow> string \<Rightarrow> string \<Rightarrow> ('w ssh_state, string) act" where
  "get_virtfn_pci_addr pk node pf_pci_addr vf_id =
     bindS (run_sudo pk node
         (''sh -c '' @ dq (''basename $(readlink /sys/bus/pci/devices/'' @ pf_pci_addr @ ''/virtfn'' @ vf_id @ '')''))
         30 ''Failed to get virtual function PCI address.'')
       (\<lambda>(stdout, _). returnS (strip stdout))"

fun sriov_numvfs_tries :: "'w paramiko \<Rightarrow> node \<Rightarrow> string \<Rightarrow> string \<Rightarrow> nat \<Rightarrow> ('w ssh_state, int option) act" where
  "sriov_numvfs_tries pk node command message 0 = returnS None"
| "sriov_numvfs_tries pk node command message (Suc n) =
     bindS (run_sudo pk node command 30 message) (\<lambda>(stdout, _).
       case py_int (VStr stdout) of
         Inr i \<Rightarrow> returnS (Some i)
       | Inl e \<Rightarrow> sriov_numvfs_tries pk node command message n)"

definition get_sriov_numvfs :: "'w paramiko \<Rightarrow> node \<Rightarrow> string \<Rightarrow> ('w ssh_state, int option) act" where
  "get_sriov_numvfs pk node pf_pci_addr =
     sriov_numvfs_tries pk node (''cat /sys/bus/pci/devices/'' @ escape_colons pf_pci_addr @ ''/sriov_numvfs'')
       (''PCI device '' @ pf_pci_addr @ '' is not a SR-IOV device.'') 3"

definition set_sriov_numvfs :: "'w paramiko \<Rightarrow> node \<Rightarrow> string \<Rightarrow> int \<Rightarrow> ('w ssh_state, unit) act" where
  "set_sriov_numvfs pk node pf_pci_addr numvfs =
     with_host node (\<lambda>host.
       voidS (run_sudo pk node
         (''sh -c '' @ dq (''echo '' @ str_of_int numvfs @ '' | tee /sys/bus/pci/devices/'' @
            escape_colons pf_pci_addr @ ''/sriov_numvfs''))
         120 (''Failed to create '' @ str_of_int numvfs @ '' VFs on '' @ pf_pci_addr @ '' device on '' @ host)))"

definition pci_driver_unbind :: "'w paramiko \<Rightarrow> node \<Rightarrow> string \<Rightarrow> ('w ssh_state, unit) act" where
  "pci_driver_unbind pk node pci_addr =
     with_host node (\<lambda>host.
       voidS (run_sudo pk node
         (''sh -c '' @ dq (''echo '' @ pci_addr @ '' | tee /sys/bus/pci/devices/'' @ escape_colons pci_addr @
            ''/driver/unbind''))
         120 (''Failed to unbind PCI device '' @ pci_addr @ '' on '' @ host)))"

definition pci_driver_unbind_list :: "'w paramiko \<Rightarrow> node \<Rightarrow> string list \<Rightarrow> ('w ssh_state, unit) act" where
  "pci_driver_unbind_list pk node pci_addrs = forS (pci_driver_unbind pk node) pci_addrs"

text \<open>The three commands of a binding: override the driver, bind, remove the override.\<close>

definition bind_commands :: "string \<Rightarrow> string \<Rightarrow> string \<Rightarrow> string list" where
  "bind_commands path pci_addr driver =
     [''sh -c '' @ dq (''echo '' @ driver @ '' | tee '' @ path @ ''/driver_override''),
      ''sh -c '' @ dq (''echo '' @ pci_addr @ '' | tee /sys/bus/pci/drivers/'' @ driver @ ''/bind''),
      ''sh -c '' @ dq (''echo  | tee '' @ path @ ''/driver_override'')]"

definition pci_driver_bind :: "'w paramiko \<Rightarrow> node \<Rightarrow> string \<Rightarrow> string \<Rightarrow> ('w ssh_state, unit) act" where
  "pci_driver_bind pk node pci_addr driver =
     with_host node (\<lambda>host.
       let message = ''Failed to bind PCI device '' @ pci_addr @ '' to '' @ driver @ '' on host '' @ host
       in forS (\<lambda>command. voidS (run_sudo pk node command 120 message))
            (bind_commands (''/sys/bus/pci/devices/'' @ escape_colons pci_addr) pci_addr driver))"

definition virtfn_path :: "string \<Rightarrow> string \<Rightarrow> string" where
  "virtfn_path pf_pci_addr vf_id = ''/sys/bus/pci/devices/'' @ escape_colons pf_pci_addr @ ''/virtfn'' @ vf_id"

definition pci_vf_driver_unbind :: "'w paramiko \<Rightarrow> node \<Rightarrow> string \<Rightarrow> string \<Rightarrow> ('w ssh_state, unit) act" where
  "pci_vf_driver_unbind pk node pf_pci_addr vf_id =
     bindS (get_virtfn_pci_addr pk node pf_pci_addr vf_id) (\<lambda>vf_pci_addr.
     with_host node (\<lambda>host.
       voidS (run_sudo pk node
         (''sh -c '' @ dq (''echo '' @ vf_pci_addr @ '' | tee '' @ virtfn_path pf_pci_addr vf_id @ ''/driver/unbind''))
         120 (''Failed to unbind VF '' @ vf_pci_addr @ '' on '' @ host))))"

definition pci_vf_driver_bind :: "'w paramiko \<Rightarrow> node \<Rightarrow> string \<Rightarrow> string \<Rightarrow> string \<Rightarrow> ('w ssh_state, unit) act" where
  "pci_vf_driver_bind pk node pf_pci_addr vf_id driver =
     bindS (get_virtfn_pci_addr pk node pf_pci_addr vf_id) (\<lambda>vf_pci_addr.
     with_host node (\<lambda>host.
       let message = ''Failed to bind VF '' @ vf_pci_addr @ '' to '' @ driver @ '' on '' @ host
       in forS (\<lambda>command. voidS (run_sudo pk node command 120 message))
            (bind_commands (virtfn_path pf_pci_addr vf_id) vf_pci_addr driver)))"

text \<open>
  The value of the line \<^verbatim>\<open>Driver:\<close> of \<^verbatim>\<open>lspci\<close>, when it has one; name and value are separated by the first
  tabulator.
\<close>

fun driver_line :: "string list \<Rightarrow> string option" where
  "driver_line [] = None"
| "driver_line (line # lines) =
     (let name = takeWhile (\<lambda>c. c \<noteq> CHR 9) line
      in if length name < length line \<and> name = ''Driver:'' then Some (drop (length name + 1) line)
         else driver_line lines)"

fun pci_dev_driver_tries :: "'w paramiko \<Rightarrow> ssh_object \<Rightarrow> string \<Rightarrow> nat \<Rightarrow> ('w ssh_state, string option) act" where
  "pci_dev_driver_tries pk obj pci_addr 0 = returnS None"
| "pci_dev_driver_tries pk obj pci_addr (Suc n) =
     bindS (exec_command pk obj (''lspci -vmmks '' @ pci_addr) 10) (\<lambda>(ret_code, stdout, _).
       if ret_code \<noteq> 0 then liftS (Inl (RuntimeError (''lspci -vmmks '' @ pci_addr @ '' failed'')))
       else case driver_line (splitlines stdout) of
              Some driver \<Rightarrow> returnS (Some driver)
            | None \<Rightarrow>
                thenS
                  (whenS (0 < n)
                     (bindS (exec_command_sudo pk obj (''sh -c '' @ dq ''echo 1 > /sys/bus/pci/rescan'') None 30)
                        (\<lambda>(rc, _, _). liftS (assert_py (rc = 0) (RuntimeError ''pci rescan failed'')))))
                  (pci_dev_driver_tries pk obj pci_addr n))"

definition get_pci_dev_driver :: "'w paramiko \<Rightarrow> node \<Rightarrow> string \<Rightarrow> ('w ssh_state, string option) act" where
  "get_pci_dev_driver pk node pci_addr =
     bindS (ssh_connect pk node 5) (\<lambda>obj. pci_dev_driver_tries pk obj pci_addr 3)"

section \<open>Kernel modules and crypto devices\<close>

definition load_kernel_module :: "'w paramiko \<Rightarrow> node \<Rightarrow> string \<Rightarrow> ('w ssh_state, unit) act" where
  "load_kernel_module pk node kmod =
     with_host node (\<lambda>host.
       voidS (run_sudo pk node (''modprobe '' @ kmod) 30 (''Failed to load '' @ kmod @ '' on host '' @ host)))"

definition verify_kernel_module :: "'w paramiko \<Rightarrow> node \<Rightarrow> string \<Rightarrow> bool \<Rightarrow> ('w ssh_state, unit) act" where
  "verify_kernel_module pk node kmod force_load =
     with_host node (\<lambda>host.
       catchS (voidS (run_plain pk node (''grep -w '' @ kmod @ '' /proc/modules'') 30
                 (''Kernel kmod '' @ kmod @ '' is not loaded on host '' @ host)))
         (\<lambda>e. if is_runtime_error e \<and> force_load then load_kernel_module pk node kmod else liftS (Inl e)))"

definition verify_kernel_module_on_all_duts :: "'w paramiko \<Rightarrow> nodes \<Rightarrow> string \<Rightarrow> bool \<Rightarrow> ('w ssh_state, unit) act" where
  "verify_kernel_module_on_all_duts pk nodes kmod force_load =
     on_duts (\<lambda>node. verify_kernel_module pk node kmod force_load) nodes"

definition verify_uio_driver_on_all_duts :: "'w paramiko \<Rightarrow> nodes \<Rightarrow> ('w ssh_state, unit) act" where
  "verify_uio_driver_on_all_duts pk nodes =
     on_duts (\<lambda>node. bindS (liftS (get_uio_driver node)) (\<lambda>d.
       verify_kernel_module pk node (py_str d) True)) nodes"

definition crypto_driver :: "string \<Rightarrow> (string \<times> string) res" where
  "crypto_driver crypto_type =
     (if crypto_type = ''HW_DH895xcc'' then Inr (''qat_dh895xcc'', ''dh895xcc'')
      else if crypto_type = ''HW_C3xxx'' then Inr (''qat_c3xxx'', ''c3xxx'')
      else Inl (RuntimeError ''Unsupported crypto device type''))"

definition text_of :: "pyval \<Rightarrow> string res" where
  "text_of v = (case v of VStr s \<Rightarrow> Inr s | _ \<Rightarrow> Inl AttributeError)"

definition crypto_device_init :: "'w paramiko \<Rightarrow> node \<Rightarrow> string \<Rightarrow> int \<Rightarrow> ('w ssh_state, unit) act" where
  "crypto_device_init pk node crypto_type numvfs =
     bindS (liftS (crypto_driver crypto_type)) (\<lambda>(kernel_mod, kernel_drv).
     bindS (liftS (get_cryptodev node)) (\<lambda>dev.
     thenS (verify_kernel_module pk node kernel_mod True)
     (thenS (stop_service pk node VPP_UNIT)
     (bindS (liftS (text_of dev)) (\<lambda>pci_addr.
      bindS (get_pci_dev_driver pk node (escape_colons pci_addr)) (\<lambda>current_driver.
      thenS (whenS (current_driver \<noteq> None) (pci_driver_unbind pk node pci_addr))
      (thenS (pci_driver_bind pk node pci_addr kernel_drv)
      (whenS (0 < numvfs) (set_sriov_numvfs pk node pci_addr numvfs)))))))))"

definition crypto_device_verify :: "'w paramiko \<Rightarrow> node \<Rightarrow> string \<Rightarrow> int \<Rightarrow> bool \<Rightarrow> ('w ssh_state, unit) act" where
  "crypto_device_verify pk node crypto_type numvfs force_init =
     bindS (liftS (get_cryptodev node)) (\<lambda>dev.
     bindS (liftS (text_of dev)) (\<lambda>pci_addr.
     bindS (get_sriov_numvfs pk node pci_addr) (\<lambda>sriov_numvfs.
       whenS (sriov_numvfs \<noteq> Some numvfs)
         (if force_init then crypto_device_init pk node crypto_type numvfs
          else with_host node (\<lambda>host. liftS (Inl (RuntimeError (''QAT device failed to create VFs on '' @ host))))))))"

section \<open>Installation\<close>

text \<open>
  The package of the Python API is not removed: the command is an ordinary string, so the directory is
  not filled in.
\<close>

definition install_vpp :: "'w paramiko \<Rightarrow> string \<Rightarrow> string \<Rightarrow> node \<Rightarrow> ('w ssh_state, unit) act" where
  "install_vpp pk vpp_pkg_dir message node =
     (let run = (\<lambda>command timeout msg. voidS (run_sudo pk node command timeout msg))
      in thenS (run ''ln -s /dev/null /etc/sysctl.d/80-vpp.conf || true'' 600 [])
         (bindS (run_plain pk node (''. /etc/lsb-release; echo '' @ dq ''${DISTRIB_ID}'') 600 []) (\<lambda>(stdout, _).
           if strip stdout = ''Ubuntu'' then
             thenS (run (''apt-get purge -y '' @ sq ''*vpp*'' @ '' || true'') 120 [])
             (thenS (run ''rm -f {vpp_pkg_dir}vpp-api-python.deb'' 120 [])
             (thenS (run (''dpkg -i --force-all '' @ vpp_pkg_dir @ ''*.deb'') 120 message)
             (thenS (run ''dpkg -l | grep vpp'' 600 [])
             (bindS (running_in_container pk node) (\<lambda>container.
                whenS container (restart_service pk node VPP_UNIT))))))
           else
             thenS (run (''yum -y remove '' @ sq ''*vpp*'' @ '' || true'') 120 [])
             (thenS (run ''rm -f {vpp_pkg_dir}vpp-api-python.rpm'' 120 [])
             (thenS (run (''rpm -ivh '' @ vpp_pkg_dir @ ''*.rpm'') 120 message)
             (thenS (run (''rpm -qai '' @ sq ''*vpp*'') 600 [])
             (restart_service pk node VPP_UNIT)))))))"

definition install_vpp_on_all_duts :: "'w paramiko \<Rightarrow> nodes \<Rightarrow> string \<Rightarrow> ('w ssh_state, unit) act" where
  "install_vpp_on_all_duts pk nodes vpp_pkg_dir =
     forS (\<lambda>node. with_host node (\<lambda>host.
       bindS (liftS (getitem node ''type'')) (\<lambda>t.
         whenS (t = VStr ''DUT'')
           (install_vpp pk vpp_pkg_dir (''Failed to install VPP on host '' @ host @ ''!'') node)))) (map snd nodes)"

definition get_docker_mergeddir :: "'w paramiko \<Rightarrow> node \<Rightarrow> string \<Rightarrow> ('w ssh_state, string) act" where
  "get_docker_mergeddir pk node uuid =
     with_host node (\<lambda>host.
       bindS (run_sudo pk node (''docker inspect --format='' @ sq ''{{.GraphDriver.Data.MergedDir}}'' @ '' '' @ uuid) 600
           (''Failed to get directory of '' @ uuid @ '' on host '' @ host))
         (\<lambda>(stdout, _). returnS (strip stdout)))"

section \<open>Huge pages\<close>

definition hugepage_keys :: "string list" where
  "hugepage_keys = [''free_hugepages'', ''nr_hugepages'', ''nr_hugepages_mempolicy'', ''nr_overcommit_hugepages'',
     ''resv_hugepages'', ''surplus_hugepages'']"

text \<open>
  The six numbers of \<^verbatim>\<open>/sys/kernel/mm/hugepages\<close>, in the order of the file names. Text instead of a
  number gives \<^verbatim>\<open>None\<close>, a missing line an exception.
\<close>

definition parse_hugepages :: "string \<Rightarrow> (string, int) pydict option res" where
  "parse_hugepages stdout =
     (let lines = splitlines stdout
      in case mapE (\<lambda>(i, k). bindE (list_get lines i) (\<lambda>line. bindE (py_int (VStr line)) (\<lambda>n. Inr (k, n))))
            (zip [0..5] hugepage_keys) of
           Inl (ValueError m) \<Rightarrow> Inr None
         | Inl e \<Rightarrow> Inl e
         | Inr d \<Rightarrow> Inr (Some d))"

definition get_hugepages_info :: "'w paramiko \<Rightarrow> node \<Rightarrow> int \<Rightarrow> ('w ssh_state, (string, int) pydict option) act" where
  "get_hugepages_info pk node hugesize =
     bindS (run_plain pk node
         (''cat /sys/kernel/mm/hugepages/hugepages-'' @
          (if hugesize = 0 then ''$(grep Hugepagesize /proc/meminfo | awk '' @ sq ''{ print $2 }'' @ '')''
           else str_of_int hugesize) @ ''kB/*'') 600 [])
       (\<lambda>(stdout, _). liftS (parse_hugepages stdout))"

text \<open>How many pages can be had now, and how many must be configured so that \<open>needed\<close> are available.\<close>

definition huge_available :: "(string, int) pydict \<Rightarrow> int res" where
  "huge_available h =
     bindE (getitem h ''nr_overcommit_hugepages'') (\<lambda>over.
       if over \<noteq> 0 then bindE (getitem h ''surplus_hugepages'') (\<lambda>surplus. Inr (over - surplus))
       else getitem h ''free_hugepages'')"

definition huge_to_allocate :: "int \<Rightarrow> int \<Rightarrow> int \<Rightarrow> int" where
  "huge_to_allocate requested available nr = (requested - available) + nr"

definition huge_shortage :: "int \<Rightarrow> int \<Rightarrow> (string, int) pydict \<Rightarrow> int option res" where
  "huge_shortage mem_size hugesize h =
     bindE (huge_available h) (\<lambda>available.
     bindE (if hugesize = 0 then Inl ZeroDivisionError else Inr ((mem_size * 1024) div hugesize)) (\<lambda>requested.
       if requested > available
       then bindE (getitem h ''nr_hugepages'') (\<lambda>nr. Inr (Some (huge_to_allocate requested available nr)))
       else Inr None))"

definition check_huge_page ::
    "'w paramiko \<Rightarrow> node \<Rightarrow> string \<Rightarrow> int \<Rightarrow> int \<Rightarrow> bool \<Rightarrow> ('w ssh_state, unit) act" where
  "check_huge_page pk node huge_mnt mem_size hugesize allocate =
     bindS (get_hugepages_info pk node hugesize) (\<lambda>info.
     bindS (liftS (case info of None \<Rightarrow> Inl type_error | Some h \<Rightarrow> huge_shortage mem_size hugesize h)) (\<lambda>shortage.
       case shortage of
         None \<Rightarrow> returnS ()
       | Some to_allocate \<Rightarrow>
           if \<not> allocate then liftS (Inl (RuntimeError ''Not enough availablehuge pages''))
           else
             thenS
               (catchS (voidS (run_plain pk node (''fgrep '' @ sq ''hugetlbfs'' @ '' /proc/mounts'') 600 []))
                 (\<lambda>e. if is_runtime_error e
                      then thenS (run_sudo pk node (''mkdir -p '' @ huge_mnt) 600 [])
                             (voidS (run_sudo pk node
                                (''mount -t hugetlbfs -o pagesize='' @ str_of_int hugesize @ ''k none '' @ huge_mnt) 600 []))
                      else liftS (Inl e)))
               (with_host node (\<lambda>host.
                 thenS (run_plain pk node
                     (''echo '' @ dq (str_of_int (to_allocate * 4)) @ '' | sudo tee /proc/sys/vm/max_map_count'') 600
                     (''Increase map count failed on '' @ host @ ''!''))
                 (voidS (run_plain pk node
                     (''echo '' @ dq (str_of_int to_allocate) @ '' | sudo tee /proc/sys/vm/nr_hugepages'') 600
                     (''Mount huge pages failed on '' @ host @ ''!'')))))))"

section \<open>Enough huge pages\<close>

lemma str_of_int_no_line_end: "\<forall>c\<in>set (str_of_int i). \<not> is_line_end c"
proof
  fix c assume "c \<in> set (str_of_int i)"
  then have "is_digit c \<or> c = CHR ''-''"
    using str_of_nat_digits by (auto simp: str_of_int_def split: if_splits)
  then show "\<not> is_line_end c" by (auto simp: is_digit_def is_line_end_def)
qed

lemma parse_hugepages_lines:
  assumes "stdout = concat (map (\<lambda>n. str_of_int n @ [CHR 10]) [free, nr, pol, over, resv, surplus])"
  shows "parse_hugepages stdout = Inr (Some (zip hugepage_keys [free, nr, pol, over, resv, surplus]))"
proof -
  let ?ns = "[free, nr, pol, over, resv, surplus]"
  have "stdout = concat (map (\<lambda>l. l @ [CHR 10]) (map str_of_int ?ns))" using assms by (simp add: comp_def)
  then have "splitlines stdout = map str_of_int ?ns"
    using splitlines_lines [of "map str_of_int ?ns"] str_of_int_no_line_end by simp
  moreover have "[0..5] = [0, 1, 2, 3, 4, 5::int]" by (simp add: upto_rec1)
  ultimately show ?thesis
    by (simp add: parse_hugepages_def hugepage_keys_def list_get_def py_int_str del: py_int.simps)
qed

lemma huge_page_check_run:
  assumes "hugesize \<noteq> 0"
    and "run_plain pk node (''cat /sys/kernel/mm/hugepages/hugepages-'' @ str_of_int hugesize @ ''kB/*'') 600 [] s =
      (Inr (concat (map (\<lambda>n. str_of_int n @ [CHR 10]) [free, nr, pol, over, resv, surplus]), err), s')"
  shows "check_huge_page pk node mnt mem_size hugesize False s =
    (if mem_size * 1024 div hugesize \<le> (if over \<noteq> 0 then over - surplus else free)
     then Inr () else Inl (RuntimeError ''Not enough availablehuge pages''), s')"
proof -
  have "get_hugepages_info pk node hugesize s =
      (Inr (Some (zip hugepage_keys [free, nr, pol, over, resv, surplus])), s')"
    unfolding get_hugepages_info_def using assms parse_hugepages_lines [OF refl]
    by (simp add: bindS_def liftS_def)
  moreover have "huge_shortage mem_size hugesize (zip hugepage_keys [free, nr, pol, over, resv, surplus]) =
      (let available = (if over \<noteq> 0 then over - surplus else free); requested = mem_size * 1024 div hugesize
       in Inr (if requested > available then Some (huge_to_allocate requested available nr) else None))"
    using assms(1) by (simp add: huge_shortage_def huge_available_def hugepage_keys_def getitem_def)
  ultimately show ?thesis
    by (simp add: check_huge_page_def bindS_def liftS_def returnS_def Let_def)
qed

text \<open>
  C28. When the node reports its six numbers of huge pages, the check without allocation, for an amount of memory that is a
  whole number of pages, returns exactly if the memory asked for fits: into the pages that may still be allocated over
  the configured number, if there are such, and otherwise into the free pages; if it does not fit, it
  raises. It runs no further command. (An amount that is not a whole number of pages is rounded down first.)
\<close>

theorem huge_page_check_decides:
  assumes "0 < hugesize" and "hugesize dvd mem_size * 1024"
    and "run_plain pk node (''cat /sys/kernel/mm/hugepages/hugepages-'' @ str_of_int hugesize @ ''kB/*'') 600 [] s =
      (Inr (concat (map (\<lambda>n. str_of_int n @ [CHR 10]) [free, nr, pol, over, resv, surplus]), err), s')"
  shows "check_huge_page pk node mnt mem_size hugesize False s =
    (if mem_size * 1024 \<le> (if over \<noteq> 0 then over - surplus else free) * hugesize
     then Inr () else Inl (RuntimeError ''Not enough availablehuge pages''), s')"
proof -
  have "mem_size * 1024 div hugesize \<le> available \<longleftrightarrow> mem_size * 1024 \<le> available * hugesize" for available
    using assms(1,2) by (auto simp: dvd_def mult.commute)
  with huge_page_check_run [OF _ assms(3)] assms(1) show ?thesis by simp
qed

text \<open>A node with 1024 free pages of two megabytes.\<close>

definition huge_paramiko :: "nat paramiko" where
  "huge_paramiko = lab_paramiko\<lparr>pk_run := (\<lambda>ch cmd timeout w.
     (Inr (0, concat (map (\<lambda>n. str_of_int n @ [CHR 10]) [1024, 2048, 2048, 0, 0, 0]), []), w))\<rparr>"

theorem huge_page_check_decides_witness:
  "\<exists>s'. check_huge_page huge_paramiko lab_node ''/mnt'' 4096 2048 False
      \<lparr>existing_connections = [({VStr ''10.0.0.1'', VInt 22}, 7)], ssh_world = 1\<rparr> =
    (Inl (RuntimeError ''Not enough availablehuge pages''), s')"
proof -
  let ?s = "\<lparr>existing_connections = [({VStr ''10.0.0.1'', VInt 22}, 7)], ssh_world = 1 :: nat\<rparr>"
  have run: "run_plain huge_paramiko lab_node
      (''cat /sys/kernel/mm/hugepages/hugepages-'' @ str_of_int 2048 @ ''kB/*'') 600 [] ?s =
    (Inr (concat (map (\<lambda>n. str_of_int n @ [CHR 10]) [1024, 2048, 2048, 0, 0, 0]), []), ?s)"
    by (rule exec_no_error_connected, subst exec_cmd_connected)
       (auto simp: node_hash_def lab_node_items huge_paramiko_def lab_paramiko_def)
  from huge_page_check_decides [OF _ _ run, of 4096 "''/mnt''"] show ?thesis by auto
qed

end
