(* ===== verification/Testbed.thy ===== *)
theory Testbed
  imports Papi Ssh
begin

text \<open>
  Keywords that talk to VPP, run commands over SSH and change the description of the node they work on:
  the state is the node and the state of the API (\<open>Papi\<close>), whose world holds the SSH connections.
  Keywords for all nodes update each node in turn.
\<close>

record 'w testbed =
  tb_node :: node
  tb_papi :: "'w papi_state"

text \<open>A keyword that only reads the node.\<close>

definition papiS :: "(node \<Rightarrow> ('w papi_state, 'a) act) \<Rightarrow> ('w testbed, 'a) act" where
  "papiS f s = (case f (tb_node s) (tb_papi s) of (r, p) \<Rightarrow> (r, s\<lparr>tb_papi := p\<rparr>))"

text \<open>A query of the node, and a change of it.\<close>

definition askS :: "(node \<Rightarrow> 'a res) \<Rightarrow> ('w testbed, 'a) act" where
  "askS f s = (f (tb_node s), s)"

definition editS :: "(node \<Rightarrow> ('a \<times> node) res) \<Rightarrow> ('w testbed, 'a) act" where
  "editS f s = (case f (tb_node s) of Inl e \<Rightarrow> (Inl e, s) | Inr (x, n) \<Rightarrow> (Inr x, s\<lparr>tb_node := n\<rparr>))"

definition changeS :: "(node \<Rightarrow> node res) \<Rightarrow> ('w testbed, unit) act" where
  "changeS f = editS (\<lambda>node. bindE (f node) (\<lambda>n. Inr ((), n)))"

text \<open>A keyword over SSH.\<close>

definition sshP :: "('w ssh_state, 'a) act \<Rightarrow> ('w ssh_state papi_state, 'a) act" where
  "sshP m st = (case m (ps_vpp st) of (r, w) \<Rightarrow> (r, st\<lparr>ps_vpp := w\<rparr>))"

definition sshS :: "(node \<Rightarrow> ('w ssh_state, 'a) act) \<Rightarrow> ('w ssh_state testbed, 'a) act" where
  "sshS f = papiS (\<lambda>node. sshP (f node))"

text \<open>A loop over the nodes; the first exception ends it.\<close>

fun for_nodes ::
    "(string \<Rightarrow> ('w testbed, unit) act) \<Rightarrow> nodes \<Rightarrow> 'w papi_state \<Rightarrow> unit res \<times> nodes \<times> 'w papi_state" where
  "for_nodes f [] p = (Inr (), [], p)"
| "for_nodes f ((k, node) # ns) p =
     (case f k \<lparr>tb_node = node, tb_papi = p\<rparr> of
        (Inl e, s) \<Rightarrow> (Inl e, (k, tb_node s) # ns, tb_papi s)
      | (Inr u, s) \<Rightarrow>
          (case for_nodes f ns (tb_papi s) of (r, ns', p') \<Rightarrow> (r, (k, tb_node s) # ns', p')))"

definition dutS :: "('w testbed, unit) act \<Rightarrow> ('w testbed, unit) act" where
  "dutS m = bindS (askS (\<lambda>node. getitem node ''type'')) (\<lambda>t. whenS (t = VStr ''DUT'') m)"

section \<open>Frames\<close>

text \<open>Queries and keywords that only read the node leave it unchanged.\<close>

definition same_node :: "'w testbed \<Rightarrow> 'w testbed \<Rightarrow> bool" where
  "same_node s t \<longleftrightarrow> tb_node t = tb_node s"

interpretation tb_frame: frame same_node
  by unfold_locales (simp_all add: same_node_def)

lemma papiS_same_node: "along same_node (papiS f)"
  by (rule alongI) (auto simp: papiS_def same_node_def split: prod.splits)

lemma askS_same_node: "along same_node (askS f)"
  by (rule alongI) (auto simp: askS_def same_node_def)

lemma sshS_same_node: "along same_node (sshS f)"
  unfolding sshS_def by (rule papiS_same_node)

lemmas same_node_intros = tb_frame.along_rules papiS_same_node askS_same_node sshS_same_node

text \<open>Changes of the node leave the rest alone.\<close>

lemma editS_eq_Inr:
  "editS f s = (Inr x, s') \<longleftrightarrow> (\<exists>n. f (tb_node s) = Inr (x, n) \<and> s' = s\<lparr>tb_node := n\<rparr>)"
  by (auto simp: editS_def split: sum.splits prod.splits)

lemma changeS_eq_Inr:
  "changeS f s = (Inr u, s') \<longleftrightarrow> (\<exists>n. f (tb_node s) = Inr n \<and> s' = s\<lparr>tb_node := n\<rparr>)"
  by (auto simp: changeS_def editS_eq_Inr)

lemma askS_eq: "askS f s = (r, s') \<longleftrightarrow> r = f (tb_node s) \<and> s' = s"
  by (auto simp: askS_def)

lemma for_nodes_names: "for_nodes f ns p = (r, ns', p') \<Longrightarrow> map fst ns' = map fst ns"
  by (induction ns arbitrary: p ns' p' r) (auto split: prod.splits sum.splits)

section \<open>Sessions\<close>

text \<open>
  \<^verbatim>\<open>with PapiSocketExecutor(node) as papi_exec:\<close> with a body in which commands are added and executed in several
  steps; the state of the body is the executor and the state of the API.
\<close>

type_synonym ('w, 'a) session = "(papi_executor \<times> 'w papi_state, 'a) act"

definition addX :: "string \<Rightarrow> bool \<Rightarrow> pyobj \<Rightarrow> ('w, unit) session" where
  "addX cmd history kwargs = (\<lambda>(ex, st). case papi_add ex cmd history kwargs st of (r, ex1, st1) \<Rightarrow> (r, ex1, st1))"

definition repliesX :: "'w vpp_env \<Rightarrow> string \<Rightarrow> ('w, pyobj list) session" where
  "repliesX env err_msg = (\<lambda>(ex, st). get_replies env ex err_msg st)"

definition replyX :: "'w vpp_env \<Rightarrow> string \<Rightarrow> ('w, pyobj) session" where
  "replyX env err_msg = (\<lambda>(ex, st). get_reply env ex err_msg st)"

definition sw_if_indexX :: "'w vpp_env \<Rightarrow> string \<Rightarrow> ('w, pyval) session" where
  "sw_if_indexX env err_msg = (\<lambda>(ex, st). get_sw_if_index env ex err_msg st)"

definition in_session :: "'w vpp_env \<Rightarrow> node \<Rightarrow> ('w, 'a) session \<Rightarrow> ('w papi_state, 'a) act" where
  "in_session env node m = with_papi env node SOCKSVR_PATH (\<lambda>ex st. m (ex, st))"

text \<open>A keyword, with sessions of its own, in the middle of a session.\<close>

definition inX :: "('w papi_state, 'a) act \<Rightarrow> ('w, 'a) session" where
  "inX m = (\<lambda>(ex, st). case m st of (r, st1) \<Rightarrow> (r, ex, st1))"

text \<open>
  What a part of a session that returns has added: the commands are appended to the list of the
  executor, and VPP has seen nothing.
\<close>

definition adds :: "('w \<times> papi_command list, 'a) session \<Rightarrow> papi_command list \<Rightarrow> bool" where
  "adds m cs \<longleftrightarrow> (\<forall>ex st r ex' st'. m (ex, st) = (Inr r, ex', st') \<longrightarrow>
     api_command_list ex' = api_command_list ex @ cs \<and> snd (ps_vpp st') = snd (ps_vpp st) \<and> pe_node ex' = pe_node ex)"

lemma addsD:
  assumes "adds m cs" and "m (ex, st) = (Inr r, ex', st')"
  shows "api_command_list ex' = api_command_list ex @ cs" "snd (ps_vpp st') = snd (ps_vpp st)" "pe_node ex' = pe_node ex"
  using assms by (auto simp: adds_def)

lemma adds_addX: "adds (addX cmd history kwargs) [\<lparr>api_name = cmd, api_args = kwargs\<rparr>]"
  unfolding adds_def addX_def by (auto dest!: papi_add_returns split: prod.splits)

lemma adds_returnS: "adds (returnS x) []"
  by (simp add: adds_def returnS_def)

lemma adds_bindS: "adds m cs \<Longrightarrow> (\<And>x. adds (f x) ds) \<Longrightarrow> adds (bindS m f) (cs @ ds)"
  unfolding adds_def by (fastforce simp: bindS_eq_Inr)

lemma adds_thenS: "adds m cs \<Longrightarrow> adds n ds \<Longrightarrow> adds (thenS m n) (cs @ ds)"
  unfolding thenS_def by (rule adds_bindS)

lemma adds_liftS: "(\<And>x. r = Inr x \<Longrightarrow> adds (f x) cs) \<Longrightarrow> adds (bindS (liftS r) f) cs"
  unfolding adds_def by (auto simp: bindS_eq_Inr)

lemma adds_forS: "(\<And>x. x \<in> set xs \<Longrightarrow> adds (f x) (g x)) \<Longrightarrow> adds (forS f xs) (concat (map g xs))"
  by (induction xs) (simp_all add: adds_returnS adds_thenS)

text \<open>A session that adds commands and reads the replies sends them in this order.\<close>

lemma session_all_sent:
  assumes "in_session (logged env) node (thenS m (voidS (repliesX (logged env) msg))) st = (Inr u, st')" and "adds m cs"
  shows "\<exists>out. snd (ps_vpp st') = snd (ps_vpp st) @ out \<and> all_sent cs out"
proof -
  let ?body = "\<lambda>ex st. thenS m (voidS (repliesX (logged env) msg)) (ex, st)"
  from with_papi_logged [of env node SOCKSVR_PATH ?body st u st'] assms(1)
  obtain st0 ex1 st1 where logs: "snd (ps_vpp st0) = snd (ps_vpp st)" "snd (ps_vpp st') = snd (ps_vpp st1)"
    and body: "?body (PapiSocketExecutor node SOCKSVR_PATH) st0 = (Inr u, ex1, st1)"
    by (auto simp: in_session_def)
  from body obtain v ex2 st2 ds where m: "m (PapiSocketExecutor node SOCKSVR_PATH, st0) = (Inr v, ex2, st2)"
    and replies: "get_replies (logged env) ex2 msg st2 = (Inr ds, ex1, st1)"
    by (auto simp: run_elims repliesX_def)
  from addsD [OF assms(2) m] have "api_command_list ex2 = cs" "snd (ps_vpp st2) = snd (ps_vpp st0)"
    by (simp_all add: PapiSocketExecutor_def)
  with replies_all_sent [OF replies] logs show ?thesis by simp
qed

section \<open>The log of VPP grows\<close>

definition log_grows :: "('w \<times> papi_command list) papi_state \<Rightarrow> ('w \<times> papi_command list) papi_state \<Rightarrow> bool" where
  "log_grows s t \<longleftrightarrow> (\<exists>out. snd (ps_vpp t) = snd (ps_vpp s) @ out)"

definition session_grows :: "papi_executor \<times> ('w \<times> papi_command list) papi_state \<Rightarrow>
    papi_executor \<times> ('w \<times> papi_command list) papi_state \<Rightarrow> bool" where
  "session_grows s t \<longleftrightarrow> log_grows (snd s) (snd t)"

interpretation log_frame: frame log_grows
  by unfold_locales (auto simp: log_grows_def)

interpretation session_frame: frame session_grows
  by unfold_locales (auto simp: session_grows_def intro: log_frame.refl log_frame.trans)

lemma log_growsI: "snd (ps_vpp t) = snd (ps_vpp s) \<Longrightarrow> log_grows s t"
  by (simp add: log_grows_def)

lemma log_grows_set: "log_grows s t \<Longrightarrow> set (snd (ps_vpp s)) \<subseteq> set (snd (ps_vpp t))"
  by (auto simp: log_grows_def)

lemma addX_grows: "along session_grows (addX cmd history kwargs)"
  by (rule alongI)
     (auto simp: session_grows_def addX_def papi_add_def intro!: log_growsI split: prod.splits sum.splits if_splits)

lemma papi_execute_grows: "papi_execute (logged env) ex msg rv st = (r, ex', st') \<Longrightarrow> log_grows st st'"
  by (auto simp: papi_execute_def log_grows_def split: prod.splits dest!: execute_commands_logged)

lemma repliesX_grows: "along session_grows (repliesX (logged env) msg)"
  by (rule alongI) (auto simp: session_grows_def repliesX_def get_replies_def dest: papi_execute_grows)

lemma replyX_grows: "along session_grows (replyX (logged env) msg)"
  by (rule alongI)
     (auto simp: session_grows_def replyX_def get_reply_def get_replies_def dest: papi_execute_grows split: prod.splits)

lemma sw_if_indexX_grows: "along session_grows (sw_if_indexX (logged env) msg)"
  by (rule alongI)
     (auto simp: session_grows_def sw_if_indexX_def get_sw_if_index_def get_reply_def get_replies_def
        dest: papi_execute_grows split: prod.splits)

lemma inX_grows: "along log_grows m \<Longrightarrow> along session_grows (inX m)"
  by (rule alongI) (auto simp: session_grows_def inX_def dest: alongD split: prod.splits)

lemma in_session_grows:
  assumes "along session_grows m"
  shows "along log_grows (in_session (logged env) node m)"
proof (rule alongI)
  fix st r st'
  assume run: "in_session (logged env) node m st = (r, st')"
  obtain r0 w0 where enter: "papi_enter (logged env) node SOCKSVR_PATH (ps_vpp st) = (r0, w0)"
    by (cases "papi_enter (logged env) node SOCKSVR_PATH (ps_vpp st)") blast
  let ?st = "st\<lparr>ps_vpp := w0\<rparr>"
  obtain r1 ex1 st1 where body: "m (PapiSocketExecutor node SOCKSVR_PATH, ?st) = (r1, ex1, st1)"
    by (cases "m (PapiSocketExecutor node SOCKSVR_PATH, ?st)") auto
  obtain r2 w2 where leave: "papi_exit (logged env) (ps_vpp st1) = (r2, w2)"
    by (cases "papi_exit (logged env) (ps_vpp st1)") blast
  have same: "snd w0 = snd (ps_vpp st)" "snd w2 = snd (ps_vpp st1)"
    using papi_enter_logged [of env node SOCKSVR_PATH "ps_vpp st"] papi_exit_logged [of env "ps_vpp st1"] enter leave
    by simp_all
  have "log_grows ?st st1" using alongD [OF assms body] by (simp add: session_grows_def)
  then have "log_grows st st1" using same by (simp add: log_grows_def)
  moreover have "snd (ps_vpp st') = snd (ps_vpp st) \<or> snd (ps_vpp st') = snd (ps_vpp st1)"
    using run enter body leave same by (cases r0; cases r2) (auto simp: in_session_def with_papi_def)
  ultimately show "log_grows st st'" by (auto simp: log_grows_def)
qed

lemmas grows_rules = session_frame.along_rules log_frame.along_rules addX_grows repliesX_grows replyX_grows
  sw_if_indexX_grows inX_grows in_session_grows

text \<open>What was sent within a session stays in the log after it.\<close>

lemma session_logged:
  assumes "in_session (logged env) node m st = (Inr x, st')"
  obtains st0 ex1 st1 where "m (PapiSocketExecutor node SOCKSVR_PATH, st0) = (Inr x, ex1, st1)"
    and "snd (ps_vpp st0) = snd (ps_vpp st)" and "snd (ps_vpp st') = snd (ps_vpp st1)"
  using with_papi_logged [of env node SOCKSVR_PATH "\<lambda>ex st. m (ex, st)" st x st'] assms
  by (auto simp: in_session_def)

end
