(* ===== verification/VPPUtil.thy ===== *)
theory VPPUtil
  imports DUTSetup Testbed L2Util
begin

text \<open>
  \<open>VPPUtil.py\<close>: the VPP service and its sockets, checks that it runs, and queries through the API.
  A reply's value of an enumeration of the API is represented by its number.
\<close>

definition SOCKSTAT_PATH :: string where
  "SOCKSTAT_PATH = ''/run/vpp/stats.sock''"

section \<open>The service\<close>

definition default_settings :: "(string, string) pydict" where
  "default_settings =
     [(''IPv6 FIB'', ''ip6 fib''), (''IPv4 FIB'', ''ip fib''), (''Interface IP'', ''int addr''),
      (''Interfaces'', ''int''), (''ARP'', ''ip arp''), (''Errors'', ''err'')]"

definition show_vpp_settings :: "'w paramiko \<Rightarrow> node \<Rightarrow> string list \<Rightarrow> ('w ssh_state, unit) act" where
  "show_vpp_settings pk node additional_cmds =
     forS (\<lambda>(_, cmd). voidS (run_sudo pk node (''vppctl sh '' @ cmd) 30 []))
       (fold (\<lambda>cmd d. AList.update (''Custom Setting: '' @ cmd) cmd d) additional_cmds default_settings)"

text \<open>An empty key stands for a missing one: nothing is recorded.\<close>

definition restart_vpp_service :: "'w paramiko \<Rightarrow> string \<Rightarrow> ('w ssh_state testbed, unit) act" where
  "restart_vpp_service pk node_key =
     thenS (sshS (\<lambda>node. restart_service pk node VPP_UNIT))
       (whenS (node_key \<noteq> [])
          (thenS (changeS (\<lambda>node. add_new_socket node ''PAPI'' node_key SOCKSVR_PATH))
             (changeS (\<lambda>node. add_new_socket node ''STATS'' node_key SOCKSTAT_PATH))))"

definition restart_vpp_service_on_all_duts ::
    "'w paramiko \<Rightarrow> nodes \<Rightarrow> 'w ssh_state papi_state \<Rightarrow> unit res \<times> nodes \<times> 'w ssh_state papi_state" where
  "restart_vpp_service_on_all_duts pk nodes p = for_nodes (\<lambda>key. dutS (restart_vpp_service pk key)) nodes p"

definition stop_vpp_service :: "'w paramiko \<Rightarrow> string \<Rightarrow> ('w ssh_state testbed, unit) act" where
  "stop_vpp_service pk node_key =
     thenS (sshS (\<lambda>node. stop_service pk node VPP_UNIT))
       (whenS (node_key \<noteq> [])
          (thenS (changeS (\<lambda>node. del_node_socket_id node ''PAPI'' node_key))
             (changeS (\<lambda>node. del_node_socket_id node ''STATS'' node_key))))"

definition stop_vpp_service_on_all_duts ::
    "'w paramiko \<Rightarrow> nodes \<Rightarrow> 'w ssh_state papi_state \<Rightarrow> unit res \<times> nodes \<times> 'w ssh_state papi_state" where
  "stop_vpp_service_on_all_duts pk nodes p = for_nodes (\<lambda>key. dutS (stop_vpp_service pk key)) nodes p"

section \<open>Checks\<close>

definition verify_vpp_installed :: "'w paramiko \<Rightarrow> node \<Rightarrow> ('w ssh_state, unit) act" where
  "verify_vpp_installed pk node = verify_program_installed pk node ''vpp''"

definition adjust_privileges :: "'w paramiko \<Rightarrow> node \<Rightarrow> ('w ssh_state, unit) act" where
  "adjust_privileges pk node =
     voidS (ssh_exec_cmd_no_error pk node ''chmod -R o+rwx /run/vpp'' 600 True ''Failed to adjust privileges!'' False 120 False)"

definition verify_vpp_started :: "'w paramiko \<Rightarrow> node \<Rightarrow> ('w ssh_state, unit) act" where
  "verify_vpp_started pk node =
     thenS (ssh_exec_cmd_no_error pk node
         (''echo '' @ dq ''show pci'' @ '' | sudo socat - UNIX-CONNECT:/run/vpp/cli.sock'') 600 False
         ''VPP failed to start!'' False 120 False)
     (thenS (ssh_exec_cmd_no_error pk node
         (''vppctl show pci 2>&1 | fgrep -v '' @ dq ''Connection refused'' @ '' | fgrep -v '' @
          dq ''No such file or directory'') 600 True ''VPP failed to start!'' False 120 False)
     (voidS (exec_cmd pk node
         (''for i in $(sudo vppctl sho int | grep Eth | cut -d'' @ sq '' '' @ '' -f1); do sudo vppctl set int sta $i up; done'')
         600 False False)))"

definition show_log :: "'w vpp_env \<Rightarrow> node \<Rightarrow> ('w papi_state, pyval) act" where
  "show_log env node = run_cli_cmd env node ''show logging'' SOCKSVR_PATH"

definition vpp_show_version :: "'w vpp_env \<Rightarrow> node \<Rightarrow> ('w papi_state, string) act" where
  "vpp_show_version env node =
     bindS (request_reply env node ''show_version'' (Inr []) ''Failed to get reply.'') (\<lambda>reply.
     bindS (liftS (getitem reply ''version'')) (\<lambda>v. returnS (py_str v)))"

definition verify_vpp ::
    "'w paramiko \<Rightarrow> 'w ssh_state vpp_env \<Rightarrow> node \<Rightarrow> ('w ssh_state papi_state, unit) act" where
  "verify_vpp pk env node =
     thenS (sshP (verify_program_installed pk node ''vpp''))
       (finallyS
          (thenS (sshP (verify_vpp_started pk node))
          (thenS (sshP (adjust_privileges pk node))
          (thenS (show_log env node)
          (voidS (vpp_show_version env node)))))
          (sshP (get_service_logs pk node VPP_UNIT)))"

definition verify_vpp_on_all_duts ::
    "'w paramiko \<Rightarrow> 'w ssh_state vpp_env \<Rightarrow> nodes \<Rightarrow> ('w ssh_state papi_state, unit) act" where
  "verify_vpp_on_all_duts pk env nodes = on_duts (verify_vpp pk env) nodes"

section \<open>Queries\<close>

definition show_vpp_version_on_all_duts :: "'w vpp_env \<Rightarrow> nodes \<Rightarrow> ('w papi_state, unit) act" where
  "show_vpp_version_on_all_duts env nodes = on_duts (\<lambda>node. voidS (vpp_show_version env node)) nodes"

definition enum_value :: "pyval \<Rightarrow> pyval res" where
  "enum_value v = (case v of VInt i \<Rightarrow> Inr (VInt i) | _ \<Rightarrow> Inl AttributeError)"

text \<open>Addresses become text, enumerations numbers.\<close>

definition put_field :: "string \<Rightarrow> (pyval \<Rightarrow> pyval res) \<Rightarrow> pyobj \<Rightarrow> pyobj res" where
  "put_field k f d = bindE (getitem d k) (\<lambda>v. bindE (f v) (\<lambda>v'. Inr (AList.update k v' d)))"

definition process_if_dump :: "pyobj \<Rightarrow> pyobj res" where
  "process_if_dump d =
     foldE (\<lambda>d (k, f). put_field k f d) d
       [(''l2_address'', \<lambda>v. Inr (VStr (py_str v))), (''b_dmac'', \<lambda>v. Inr (VStr (py_str v))),
        (''b_smac'', \<lambda>v. Inr (VStr (py_str v))), (''flags'', enum_value), (''type'', enum_value),
        (''link_duplex'', enum_value), (''sub_if_flags'', py_int_val)]"

definition interface_dump :: "'w vpp_env \<Rightarrow> node \<Rightarrow> ('w papi_state, pyobj list) act" where
  "interface_dump env node =
     with_host node (\<lambda>host.
       request_details env node ''sw_interface_dump'' (Inr [(''name_filter_valid'', VBool False), (''name_filter'', VStr '''')])
         (''Failed to get interface dump on host '' @ host))"

definition vpp_show_interfaces :: "'w vpp_env \<Rightarrow> node \<Rightarrow> ('w papi_state, unit) act" where
  "vpp_show_interfaces env node =
     bindS (interface_dump env node) (\<lambda>details. voidS (liftS (mapE process_if_dump details)))"

definition is_assertion_error :: "py_error \<Rightarrow> bool" where
  "is_assertion_error e \<longleftrightarrow> (case e of AssertionError m \<Rightarrow> True | _ \<Rightarrow> False)"

definition vpp_enable_traces_on_dut :: "'w vpp_env \<Rightarrow> node \<Rightarrow> bool \<Rightarrow> ('w papi_state, unit) act" where
  "vpp_enable_traces_on_dut env node fail_on_error =
     forS (\<lambda>cmd. catchS (run_cli_cmd_on_all_sockets env node cmd)
         (\<lambda>e. if is_assertion_error e \<and> \<not> fail_on_error then returnS () else liftS (Inl e)))
       [''trace add dpdk-input 50'', ''trace add vhost-user-input 50'', ''trace add memif-input 50'',
        ''trace add avf-input 50'']"

definition vpp_enable_traces_on_all_duts :: "'w vpp_env \<Rightarrow> nodes \<Rightarrow> bool \<Rightarrow> ('w papi_state, unit) act" where
  "vpp_enable_traces_on_all_duts env nodes fail_on_error =
     on_duts (\<lambda>node. vpp_enable_traces_on_dut env node fail_on_error) nodes"

definition vpp_enable_elog_traces :: "'w vpp_env \<Rightarrow> node \<Rightarrow> ('w papi_state, unit) act" where
  "vpp_enable_elog_traces env node = run_cli_cmd_on_all_sockets env node ''elog trace api cli barrier''"

definition vpp_enable_elog_traces_on_all_duts :: "'w vpp_env \<Rightarrow> nodes \<Rightarrow> ('w papi_state, unit) act" where
  "vpp_enable_elog_traces_on_all_duts env nodes = on_duts (vpp_enable_elog_traces env) nodes"

definition show_event_logger :: "'w vpp_env \<Rightarrow> node \<Rightarrow> ('w papi_state, unit) act" where
  "show_event_logger env node = run_cli_cmd_on_all_sockets env node ''show event-logger''"

definition show_event_logger_on_all_duts :: "'w vpp_env \<Rightarrow> nodes \<Rightarrow> ('w papi_state, unit) act" where
  "show_event_logger_on_all_duts env nodes = on_duts (show_event_logger env) nodes"

definition show_log_on_all_duts :: "'w vpp_env \<Rightarrow> nodes \<Rightarrow> ('w papi_state, unit) act" where
  "show_log_on_all_duts env nodes = on_duts (\<lambda>node. voidS (show_log env node)) nodes"

definition vpp_show_threads :: "'w vpp_env \<Rightarrow> node \<Rightarrow> ('w papi_state, pyval list) act" where
  "vpp_show_threads env node =
     bindS (request_reply env node ''show_threads'' (Inr []) ''Failed to get reply.'') (\<lambda>reply.
     bindS (liftS (getitem reply ''thread_data'')) (\<lambda>d.
       liftS (case d of VList xs \<Rightarrow> Inr xs | _ \<Rightarrow> Inl type_error)))"

section \<open>Sockets of a running VPP\<close>

lemma add_new_socket_stores:
  assumes "add_new_socket node t key path = Inr node'"
  shows "lookup_path (VDict node') [''sockets'', t, key] = Some (VStr path)"
    and "diverge [''sockets'', t, key] q \<Longrightarrow> lookup_path (VDict node) q = Some y \<Longrightarrow>
      lookup_path (VDict node') q = Some y"
proof -
  obtain v where v: "add_node_item (VDict node) (VStr path) [''sockets'', t, key] = Inr v" "items v = Inr node'"
    using assms by (auto simp: add_new_socket_def)
  then have node': "v = VDict node'" by (cases v) simp_all
  show "lookup_path (VDict node') [''sockets'', t, key] = Some (VStr path)"
    using node_items.store_lookup [OF v(1)] node' by simp
  show "diverge [''sockets'', t, key] q \<Longrightarrow> lookup_path (VDict node) q = Some y \<Longrightarrow>
      lookup_path (VDict node') q = Some y"
    using node_items.store_frame [OF v(1)] node' by simp
qed

text \<open>
  After a restart of VPP for a node with a key, the sockets of the API and of the statistics
  are recorded under the key, and everything recorded elsewhere in the node is as before.
\<close>

theorem restart_records_sockets:
  assumes "restart_vpp_service pk key s = (Inr (), s')" and "key \<noteq> []"
  shows "lookup_path (VDict (tb_node s')) [''sockets'', ''PAPI'', key] = Some (VStr SOCKSVR_PATH) \<and>
    lookup_path (VDict (tb_node s')) [''sockets'', ''STATS'', key] = Some (VStr SOCKSTAT_PATH) \<and>
    (\<forall>q y. diverge [''sockets'', ''PAPI'', key] q \<longrightarrow> diverge [''sockets'', ''STATS'', key] q \<longrightarrow>
       lookup_path (VDict (tb_node s)) q = Some y \<longrightarrow> lookup_path (VDict (tb_node s')) q = Some y)"
proof -
  from assms obtain s1 n1 n2 where run: "sshS (\<lambda>node. restart_service pk node VPP_UNIT) s = (Inr (), s1)"
    and papi: "add_new_socket (tb_node s1) ''PAPI'' key SOCKSVR_PATH = Inr n1"
    and stats: "add_new_socket n1 ''STATS'' key SOCKSTAT_PATH = Inr n2" and s': "tb_node s' = n2"
    by (auto simp: restart_vpp_service_def thenS_eq_Inr whenS_def changeS_eq_Inr)
  have same: "tb_node s1 = tb_node s" using alongD [OF sshS_same_node run] by (simp add: same_node_def)
  have div: "diverge [''sockets'', ''STATS'', key] [''sockets'', ''PAPI'', key]" by simp
  show ?thesis unfolding s'
  proof (intro conjI allI impI)
    show "lookup_path (VDict n2) [''sockets'', ''PAPI'', key] = Some (VStr SOCKSVR_PATH)"
      by (rule add_new_socket_stores(2) [OF stats div add_new_socket_stores(1) [OF papi]])
    show "lookup_path (VDict n2) [''sockets'', ''STATS'', key] = Some (VStr SOCKSTAT_PATH)"
      by (rule add_new_socket_stores(1) [OF stats])
    fix q y
    assume q: "diverge [''sockets'', ''PAPI'', key] q" "diverge [''sockets'', ''STATS'', key] q"
      "lookup_path (VDict (tb_node s)) q = Some y"
    show "lookup_path (VDict n2) q = Some y"
      by (rule add_new_socket_stores(2) [OF stats q(2) add_new_socket_stores(2) [OF papi q(1)]])
         (simp add: same q(3))
  qed
qed

text \<open>A node whose commands all succeed.\<close>

definition ready_paramiko :: "nat paramiko" where
  "ready_paramiko = lab_paramiko\<lparr>pk_run := (\<lambda>ch cmd timeout w. (Inr (0, [], []), w + 1))\<rparr>"

lemma ready_run:
  assumes "existing_connections s = [({VStr ''10.0.0.1'', VInt 22}, 7)]" and "cmd \<noteq> []"
  shows "ssh_exec_cmd_no_error ready_paramiko lab_node cmd timeout sudo message False retries reason s =
    (Inr ([], []), s\<lparr>ssh_world := ssh_world s + 1\<rparr>)"
  by (rule exec_no_error_connected, subst exec_cmd_connected)
     (use assms in \<open>auto simp: node_hash_def lab_node_items ready_paramiko_def lab_paramiko_def\<close>)

definition ready_state :: "nat ssh_state testbed" where
  "ready_state =
     \<lparr>tb_node = lab_node,
      tb_papi = \<lparr>ps_checker = plug_checker, ps_history = [],
                 ps_vpp = \<lparr>existing_connections = [({VStr ''10.0.0.1'', VInt 22}, 7)], ssh_world = 0\<rparr>\<rparr>\<rparr>"

theorem restart_records_sockets_witness:
  "\<exists>s'. restart_vpp_service ready_paramiko ''DUT1'' ready_state = (Inr (), s') \<and>
     lookup_path (VDict (tb_node s')) [''sockets'', ''PAPI'', ''DUT1''] = Some (VStr SOCKSVR_PATH) \<and>
     lookup_path (VDict (tb_node s')) [''port''] = Some (VInt 22)"
proof -
  let ?run = "restart_vpp_service ready_paramiko ''DUT1'' ready_state"
  have container: "existing_connections s = [({VStr ''10.0.0.1'', VInt 22}, 7)] \<Longrightarrow>
      running_in_container ready_paramiko lab_node s = (Inr True, s\<lparr>ssh_world := ssh_world s + 1\<rparr>)" for s
    by (simp add: running_in_container_def catchS_def bindS_def ready_run returnS_def)
  have restart: "existing_connections s = [({VStr ''10.0.0.1'', VInt 22}, 7)] \<Longrightarrow>
      restart_service ready_paramiko lab_node VPP_UNIT s = (Inr (), s\<lparr>ssh_world := ssh_world s + 4\<rparr>)" for s
    by (simp add: restart_service_def service_command_def get_service_logs_def container with_host_def lab_node_items
        ready_run bindS_def thenS_def voidS_def returnS_def liftS_def)
  have "\<exists>n1. add_new_socket lab_node ''PAPI'' ''DUT1'' SOCKSVR_PATH = Inr n1 \<and>
      (\<exists>n2. add_new_socket n1 ''STATS'' ''DUT1'' SOCKSTAT_PATH = Inr n2)"
    by (simp add: add_new_socket_def lab_node_def Let_def)
  then obtain n1 n2 where socks: "add_new_socket lab_node ''PAPI'' ''DUT1'' SOCKSVR_PATH = Inr n1"
    "add_new_socket n1 ''STATS'' ''DUT1'' SOCKSTAT_PATH = Inr n2" by blast
  have "fst ?run = Inr ()"
    by (simp add: restart_vpp_service_def sshS_def papiS_def sshP_def ready_state_def restart thenS_def bindS_def
        whenS_def changeS_def editS_def socks)
  then obtain s' where run: "?run = (Inr (), s')" by (cases ?run) auto
  have "lookup_path (VDict (tb_node ready_state)) [''port''] = Some (VInt 22)"
    by (simp add: ready_state_def lab_node_def)
  moreover have "diverge [''sockets'', ''PAPI'', ''DUT1''] [''port'']" "diverge [''sockets'', ''STATS'', ''DUT1''] [''port'']"
    by simp_all
  ultimately show ?thesis using restart_records_sockets [OF run] run by blast
qed

end
