(* ===== verification/InterfaceUtil.thy ===== *)
theory InterfaceUtil
  imports VPPUtil
begin

unbundle bit_operations_syntax

text \<open>
  \<open>InterfaceUtil.py\<close>: addresses and states of interfaces, waiting until they are up, reading their data from
  VPP into the description of the node, creating interfaces of all kinds, virtual functions, and the
  placement of receive queues on worker threads.
\<close>

section \<open>PCI addresses\<close>

definition pci_fields :: "string \<Rightarrow> string list res" where
  "pci_fields pci_str =
     (let parts = split_on (CHR '':'') pci_str
      in bindE (list_get parts 2) (\<lambda>rest. Inr (take 2 parts @ split_on (CHR ''.'') rest)))"

definition pci_to_int :: "string \<Rightarrow> int res" where
  "pci_to_int pci_str =
     bindE (pci_fields pci_str) (\<lambda>pci.
     bindE (bindE (list_get pci 0) int_base16) (\<lambda>domain.
     bindE (bindE (list_get pci 1) int_base16) (\<lambda>bus.
     bindE (bindE (list_get pci 2) int_base16) (\<lambda>slot.
     bindE (bindE (list_get pci 3) int_base16) (\<lambda>func.
     Inr (domain OR push_bit 16 bus OR push_bit 24 slot OR push_bit 29 func))))))"

definition pci_to_eth :: "'w paramiko \<Rightarrow> node \<Rightarrow> string \<Rightarrow> ('w ssh_state, string) act" where
  "pci_to_eth pk node pci_str =
     catchS (bindS (run_plain pk node (''basename /sys/bus/pci/devices/'' @ pci_str @ ''/net/*'') 600 [])
               (\<lambda>(stdout, _). returnS (strip stdout)))
       (\<lambda>e. liftS (Inl (if is_runtime_error e then RuntimeError (''Cannot convert '' @ pci_str @ '' to ethernet name!'')
                        else e)))"

section \<open>State and MTU\<close>

text \<open>A local variable that is read before it is assigned.\<close>

definition bound :: "'a option \<Rightarrow> 'a res" where
  "bound v = (case v of None \<Rightarrow> Inl (PyException ''UnboundLocalError'') | Some x \<Rightarrow> Inr x)"

definition state_target :: "node \<Rightarrow> pyval \<Rightarrow> string \<Rightarrow> (pyval option \<times> pyval option) res" where
  "state_target node interface if_type =
     (if if_type = ''key'' then
        (case interface of
           VStr k \<Rightarrow> bindE (get_interface_sw_index node interface) (\<lambda>i.
                     bindE (get_interface_name node interface) (\<lambda>n. Inr (Some i, Some n)))
         | _ \<Rightarrow> Inr (Some interface, None))
      else if if_type = ''name'' then
        bindE (get_interface_by_name node interface) (\<lambda>key.
          if key = VNone then Inr (None, Some interface)
          else bindE (get_interface_sw_index node key) (\<lambda>i. Inr (Some i, Some interface)))
      else Inl (ValueError (''Unknown if_type: '' @ if_type)))"

definition set_interface_state ::
    "'w paramiko \<Rightarrow> 'w ssh_state vpp_env \<Rightarrow> node \<Rightarrow> pyval \<Rightarrow> string \<Rightarrow> string \<Rightarrow> ('w ssh_state papi_state, unit) act" where
  "set_interface_state pk env node interface state if_type =
     bindS (liftS (state_target node interface if_type)) (\<lambda>(sw_if_index, iface_name).
     bindS (liftS (getitem node ''type'')) (\<lambda>t.
       if t = VStr ''DUT'' then
         bindS (liftS (if state = ''up'' then Inr 1 else if state = ''down'' then Inr 0
                       else Inl (ValueError (''Unexpected interface state: '' @ state)))) (\<lambda>flags.
         with_host node (\<lambda>host.
           voidS (request_reply env node ''sw_interface_set_flags''
             (bindE (bound sw_if_index) (\<lambda>i. bindE (py_int_val i) (\<lambda>index.
                Inr [(''sw_if_index'', index), (''flags'', VInt flags)])))
             (''Failed to set interface state on host '' @ host))))
       else if t = VStr ''TG'' \<or> t = VStr ''VM'' then
         bindS (liftS (bound iface_name)) (\<lambda>name.
           voidS (sshP (run_sudo pk node (''ip link set '' @ py_str name @ '' '' @ state) 600 [])))
       else with_host node (\<lambda>host. liftS (Inl (ValueError (''Node '' @ host @ '' has unknown NodeType: '' @ py_str t))))))"

definition set_interface_mtu :: "'w paramiko \<Rightarrow> node \<Rightarrow> string list \<Rightarrow> int \<Rightarrow> ('w ssh_state, unit) act" where
  "set_interface_mtu pk node pf_pcis mtu =
     forS (\<lambda>pf_pci. bindS (pci_to_eth pk node pf_pci) (\<lambda>pf_eth.
       voidS (run_sudo pk node (''ip link set '' @ pf_eth @ '' mtu '' @ str_of_int mtu) 600 []))) pf_pcis"

text \<open>The parameters for both directions are not used: flow control is always switched off.\<close>

definition set_interface_flow_control ::
    "'w paramiko \<Rightarrow> node \<Rightarrow> string list \<Rightarrow> string \<Rightarrow> string \<Rightarrow> ('w ssh_state, unit) act" where
  "set_interface_flow_control pk node pf_pcis rx tx =
     forS (\<lambda>pf_pci. bindS (pci_to_eth pk node pf_pci) (\<lambda>pf_eth.
       bindS (exec_cmd pk node (''ethtool -A '' @ pf_eth @ '' rx off tx off'') 600 True False) (\<lambda>r.
         liftS (case r of
                  None \<Rightarrow> Inl type_error
                | Some (rc, _, _) \<Rightarrow> assert_py (rc \<in> {0, 78}) (RuntimeError ''Failed to set MTU on {pf_eth}!''))))) pf_pcis"

definition set_pci_parameter :: "'w paramiko \<Rightarrow> node \<Rightarrow> string list \<Rightarrow> string \<Rightarrow> string \<Rightarrow> ('w ssh_state, unit) act" where
  "set_pci_parameter pk node pf_pcis key val =
     forS (\<lambda>pf_pci. voidS (run_sudo pk node (''setpci -s '' @ pf_pci @ '' '' @ key @ ''='' @ val) 600 [])) pf_pcis"

text \<open>A refusal of VPP (\<^verbatim>\<open>AssertionError\<close>) is tolerated.\<close>

definition vpp_set_interface_mtu :: "'w vpp_env \<Rightarrow> node \<Rightarrow> pyval \<Rightarrow> pyval \<Rightarrow> ('w papi_state, unit) act" where
  "vpp_set_interface_mtu env node interface mtu =
     bindS (liftS (sw_index_of node interface)) (\<lambda>sw_if_index.
     with_host node (\<lambda>host.
     bindS (liftS (py_int_val mtu)) (\<lambda>m.
       catchS (voidS (request_reply env node ''hw_interface_set_mtu''
             (Inr [(''sw_if_index'', sw_if_index), (''mtu'', m)]) (''Failed to set interface MTU on host '' @ host)))
         (\<lambda>e. if is_assertion_error e then returnS () else liftS (Inl e)))))"

definition vpp_set_interfaces_mtu_on_node :: "'w vpp_env \<Rightarrow> node \<Rightarrow> pyval \<Rightarrow> ('w papi_state, unit) act" where
  "vpp_set_interfaces_mtu_on_node env node mtu =
     bindS (liftS (interface_items node)) (\<lambda>ifs.
       forS (\<lambda>(key, _). vpp_set_interface_mtu env node (VStr key) mtu) ifs)"

definition vpp_set_interfaces_mtu_on_all_duts :: "'w vpp_env \<Rightarrow> nodes \<Rightarrow> pyval \<Rightarrow> ('w papi_state, unit) act" where
  "vpp_set_interfaces_mtu_on_all_duts env nodes mtu =
     on_duts (\<lambda>node. vpp_set_interfaces_mtu_on_node env node mtu) nodes"

section \<open>Data of interfaces\<close>

definition without_nul :: "string \<Rightarrow> string" where
  "without_nul s = rev (dropWhile (\<lambda>c. c = CHR 0x00) (rev s))"

definition dump_get :: "pyobj \<Rightarrow> string \<Rightarrow> pyval" where
  "dump_get d k = (case map_of d k of None \<Rightarrow> VNone | Some v \<Rightarrow> v)"

fun find_dump :: "string \<Rightarrow> string \<Rightarrow> pyobj list \<Rightarrow> pyobj res" where
  "find_dump param wanted [] = Inr []"
| "find_dump param wanted (d # ds) =
     (if without_nul (py_str (dump_get d param)) = wanted then process_if_dump d else find_dump param wanted ds)"

definition dump_param :: "pyval \<Rightarrow> string res" where
  "dump_param interface =
     (case interface of
        VStr s \<Rightarrow> Inr ''interface_name''
      | VInt i \<Rightarrow> Inr ''sw_if_index''
      | VBool b \<Rightarrow> Inr ''sw_if_index''
      | _ \<Rightarrow> Inl (TypeError ''Wrong interface format''))"

definition all_interface_data :: "'w vpp_env \<Rightarrow> node \<Rightarrow> ('w papi_state, pyobj list) act" where
  "all_interface_data env node =
     bindS (interface_dump env node) (\<lambda>details. liftS (mapE process_if_dump details))"

definition one_interface_data :: "'w vpp_env \<Rightarrow> node \<Rightarrow> pyval \<Rightarrow> ('w papi_state, pyobj) act" where
  "one_interface_data env node interface =
     bindS (liftS (dump_param interface)) (\<lambda>param.
     bindS (interface_dump env node) (\<lambda>details. liftS (find_dump param (py_str interface) details)))"

definition vpp_get_interface_data :: "'w vpp_env \<Rightarrow> node \<Rightarrow> pyval \<Rightarrow> ('w papi_state, pyval) act" where
  "vpp_get_interface_data env node interface =
     (if interface = VNone
      then bindS (all_interface_data env node) (\<lambda>ds. returnS (VList (map VDict ds)))
      else bindS (one_interface_data env node interface) (\<lambda>d. returnS (VDict d)))"

text \<open>Waiting until no interface is up for the administrator but without link.\<close>

definition not_ready :: "pyobj list \<Rightarrow> pyval list" where
  "not_ready data =
     map (\<lambda>d. dump_get d ''interface_name'') (filter (\<lambda>d. py_eq (dump_get d ''flags'') (VInt 1)) data)"

fun ready_wait :: "'w vpp_env \<Rightarrow> node \<Rightarrow> nat \<Rightarrow> pyval list option \<Rightarrow> ('w papi_state, unit) act" where
  "ready_wait env node 0 seen =
     liftS (Inl (RuntimeError (case seen of
         None \<Rightarrow> ''No check executed!''
       | Some names \<Rightarrow> ''Timeout, interfaces not up:'' @ [CHR 10] @ py_repr (VList names))))"
| "ready_wait env node (Suc n) seen =
     bindS (all_interface_data env node) (\<lambda>out.
       if not_ready out = [] then returnS ()
       else thenS (\<lambda>st. (Inr (), st\<lparr>ps_vpp := sleep env (ps_vpp st)\<rparr>)) (ready_wait env node n (Some (not_ready out))))"

definition vpp_node_interfaces_ready_wait :: "'w vpp_env \<Rightarrow> node \<Rightarrow> nat \<Rightarrow> ('w papi_state, unit) act" where
  "vpp_node_interfaces_ready_wait env node retries = ready_wait env node retries None"

definition all_vpp_interfaces_ready_wait :: "'w vpp_env \<Rightarrow> nodes \<Rightarrow> nat \<Rightarrow> ('w papi_state, unit) act" where
  "all_vpp_interfaces_ready_wait env nodes retries =
     on_duts (\<lambda>node. vpp_node_interfaces_ready_wait env node retries) nodes"

text \<open>The name or address of an interface, or of the one it belongs to.\<close>

definition super_data :: "'w vpp_env \<Rightarrow> node \<Rightarrow> pyval \<Rightarrow> ('w papi_state, pyval) act" where
  "super_data env node interface =
     bindS (vpp_get_interface_data env node interface) (\<lambda>if_data.
     bindS (liftS (sub if_data ''sup_sw_if_index'')) (\<lambda>sup.
     bindS (liftS (sub if_data ''sw_if_index'')) (\<lambda>index.
       if py_eq sup index then returnS if_data else vpp_get_interface_data env node sup)))"

definition vpp_get_interface_name :: "'w vpp_env \<Rightarrow> node \<Rightarrow> pyval \<Rightarrow> ('w papi_state, pyval) act" where
  "vpp_get_interface_name env node sw_if_index =
     bindS (super_data env node sw_if_index) (\<lambda>d. liftS (dget d ''interface_name''))"

definition vpp_get_interface_sw_index :: "'w vpp_env \<Rightarrow> node \<Rightarrow> pyval \<Rightarrow> ('w papi_state, pyval) act" where
  "vpp_get_interface_sw_index env node interface_name =
     bindS (vpp_get_interface_data env node interface_name) (\<lambda>d. liftS (dget d ''sw_if_index''))"

definition vpp_get_interface_mac :: "'w vpp_env \<Rightarrow> node \<Rightarrow> pyval \<Rightarrow> ('w papi_state, pyval) act" where
  "vpp_get_interface_mac env node interface =
     bindS (super_data env node interface) (\<lambda>d. liftS (dget d ''l2_address''))"

definition iu_get_sw_if_index :: "'w vpp_env \<Rightarrow> node \<Rightarrow> pyval \<Rightarrow> ('w papi_state, pyval) act" where
  "iu_get_sw_if_index env node interface_name =
     bindS (vpp_get_interface_data env node interface_name) (\<lambda>d. liftS (dget d ''sw_if_index''))"

definition vpp_set_interface_mac :: "'w vpp_env \<Rightarrow> node \<Rightarrow> pyval \<Rightarrow> string \<Rightarrow> ('w papi_state, unit) act" where
  "vpp_set_interface_mac env node interface mac =
     voidS (request_reply env node ''sw_interface_set_mac_address''
       (bindE (get_interface_index node interface) (\<lambda>index.
        bindE (mac_to_bin mac) (\<lambda>bin.
        bindE (getitem node ''host'') (\<lambda>host.
        Inr [(''sw_if_index'', index), (''mac_address'', VBytes bin)]))))
       ''Failed to set MAC address of interface'')"

section \<open>Drivers and names\<close>

definition tg_get_interface_driver :: "'w paramiko \<Rightarrow> node \<Rightarrow> string \<Rightarrow> ('w ssh_state, string option) act" where
  "tg_get_interface_driver pk node pci_addr = get_pci_dev_driver pk node pci_addr"

definition sudo_or_fail :: "'w paramiko \<Rightarrow> node \<Rightarrow> ssh_object \<Rightarrow> string \<Rightarrow> ('w ssh_state, unit) act" where
  "sudo_or_fail pk node obj cmd =
     bindS (exec_command_sudo pk obj cmd None 30) (\<lambda>(ret_code, _, _).
       whenS (ret_code \<noteq> 0)
         (with_host node (\<lambda>host. liftS (Inl (RuntimeError (sq cmd @ '' failed on '' @ sq host))))))"

definition tg_set_interface_driver :: "'w paramiko \<Rightarrow> node \<Rightarrow> string \<Rightarrow> string \<Rightarrow> ('w ssh_state, unit) act" where
  "tg_set_interface_driver pk node pci_addr driver =
     bindS (tg_get_interface_driver pk node pci_addr) (\<lambda>old_driver.
       whenS (old_driver \<noteq> Some driver)
         (bindS (ssh_connect pk node 5) (\<lambda>obj.
            thenS
              (case old_driver of
                 None \<Rightarrow> returnS ()
               | Some old \<Rightarrow>
                   sudo_or_fail pk node obj
                     (''sh -c '' @ dq (''echo '' @ pci_addr @ '' > /sys/bus/pci/drivers/'' @ old @ ''/unbind'')))
              (sudo_or_fail pk node obj
                 (''sh -c '' @ dq (''echo '' @ pci_addr @ '' > /sys/bus/pci/drivers/'' @ driver @ ''/bind''))))))"

definition tg_set_interfaces_default_driver :: "'w paramiko \<Rightarrow> node \<Rightarrow> ('w ssh_state, unit) act" where
  "tg_set_interfaces_default_driver pk node =
     bindS (liftS (interface_items node)) (\<lambda>ifs.
       forS (\<lambda>(_, interface).
         bindS (liftS (sub interface ''pci_address'')) (\<lambda>pci.
         bindS (liftS (sub interface ''driver'')) (\<lambda>driver.
           tg_set_interface_driver pk node (py_str pci) (py_str driver)))) ifs)"

definition field_of :: "node \<Rightarrow> string \<Rightarrow> string \<Rightarrow> pyval res" where
  "field_of node key field = bindE (interfaces node) (\<lambda>ifs. bindE (sub ifs key) (\<lambda>i. sub i field))"

definition setS :: "string \<Rightarrow> string \<Rightarrow> pyval \<Rightarrow> ('w testbed, unit) act" where
  "setS key field v = changeS (\<lambda>node. set_interface_field node key field v)"

definition first_of :: "pyval \<Rightarrow> pyval res" where
  "first_of v = (case v of VList (x # xs) \<Rightarrow> Inr x | VList [] \<Rightarrow> Inl IndexError | _ \<Rightarrow> Inl type_error)"

definition update_from_dump :: "(pyval, pyobj) pydict \<Rightarrow> string \<Rightarrow> ('w testbed, unit) act" where
  "update_from_dump interface_dict key =
     bindS (askS (\<lambda>node. field_of node key ''mac_address'')) (\<lambda>mac.
       if \<not> hashable mac then liftS (Inl (TypeError ''unhashable type''))
       else case map_of interface_dict mac of
              None \<Rightarrow> setS key ''vpp_sw_index'' VNone
            | Some ifc \<Rightarrow>
                thenS (bindS (liftS (getitem ifc ''interface_name'')) (setS key ''name''))
                (thenS (bindS (liftS (getitem ifc ''sw_if_index'')) (setS key ''vpp_sw_index''))
                (bindS (liftS (bindE (getitem ifc ''mtu'') first_of)) (setS key ''mtu''))))"

definition by_address :: "pyobj list \<Rightarrow> (pyval, pyobj) pydict res" where
  "by_address ifcs =
     foldE (\<lambda>d ifc. bindE (getitem ifc ''l2_address'') (\<lambda>a. Inr (AList.update a ifc d))) [] ifcs"

definition update_vpp_interface_data_on_node :: "'w vpp_env \<Rightarrow> ('w testbed, unit) act" where
  "update_vpp_interface_data_on_node env =
     bindS (papiS (all_interface_data env)) (\<lambda>interface_list.
     bindS (liftS (by_address interface_list)) (\<lambda>interface_dict.
     bindS (askS interface_items) (\<lambda>ifs.
       forS (\<lambda>(key, _). update_from_dump interface_dict key) ifs)))"

definition hexfmt :: "int \<Rightarrow> string" where
  "hexfmt i = (if i < 0 then CHR ''-'' # hex_of_nat (nat (- i)) else hex_of_nat (nat i))"

definition nic_prefix :: "pyval \<Rightarrow> string" where
  "nic_prefix model =
     (if model \<in> {VStr ''Intel-XL710'', VStr ''Cisco-VIC-1385''} then ''FortyGigabitEthernet''
      else if model \<in> {VStr ''Intel-X710'', VStr ''Intel-X520-DA2'', VStr ''Cisco-VIC-1227''} then ''TenGigabitEthernet''
      else ''UnknownEthernet'')"

definition nic_location :: "string \<Rightarrow> string res" where
  "nic_location pci_address =
     (let if_pci = split_on (CHR '':'') (replace_all ''.'' '':'' pci_address);
          part = (\<lambda>i. bindE (list_get if_pci i) (\<lambda>s. bindE (int_base16 s) (\<lambda>n. Inr (hexfmt n))))
      in bindE (part 1) (\<lambda>b. bindE (part 2) (\<lambda>s. bindE (part 3) (\<lambda>f. Inr (b @ ''/'' @ s @ ''/'' @ f)))))"

definition update_nic_interface_names :: "('w testbed, unit) act" where
  "update_nic_interface_names =
     bindS (askS interface_items) (\<lambda>ifs.
       forS (\<lambda>(key, ifc).
         bindS (liftS (bindE (sub ifc ''pci_address'') (\<lambda>v. bindE (text_of v) nic_location))) (\<lambda>loc.
         bindS (liftS (sub ifc ''model'')) (\<lambda>model.
           setS key ''name'' (VStr (nic_prefix model @ loc))))) ifs)"

definition update_nic_interface_names_on_all_duts ::
    "nodes \<Rightarrow> 'w papi_state \<Rightarrow> unit res \<times> nodes \<times> 'w papi_state" where
  "update_nic_interface_names_on_all_duts nodes p = for_nodes (\<lambda>_. dutS update_nic_interface_names) nodes p"

text \<open>\<open>json\<close> stands for the parser of JSON texts.\<close>

definition name_command :: string where
  "name_command =
     ''for dev in `ls /sys/class/net/`; do echo '' @
       dq ([CHR 92, CHR 34] @ ''`cat /sys/class/net/$dev/address`'' @ [CHR 92, CHR 34] @ '': '' @
           [CHR 92, CHR 34] @ ''$dev'' @ [CHR 92, CHR 34]) @ ''; done;''"

definition update_tg_interface_data_on_node ::
    "'w paramiko \<Rightarrow> (string \<Rightarrow> pyval res) \<Rightarrow> ('w ssh_state testbed, unit) act" where
  "update_tg_interface_data_on_node pk json =
     thenS (sshS (tg_set_interfaces_default_driver pk))
     (bindS (sshS (\<lambda>node. bindS (ssh_connect pk node 5) (\<lambda>obj. exec_command pk obj name_command 10)))
        (\<lambda>(ret_code, stdout, _).
       if ret_code \<noteq> 0 then liftS (Inl (RuntimeError ''Get interface name and MAC failed''))
       else bindS (liftS (json (''{'' @ replace_all [CHR 10] '','' (rstrip stdout) @ ''}''))) (\<lambda>names.
            bindS (askS interface_items) (\<lambda>ifs.
              forS (\<lambda>(key, ifc).
                bindS (liftS (sub ifc ''mac_address'')) (\<lambda>mac.
                bindS (liftS (case mac of VStr m \<Rightarrow> dget names m
                              | _ \<Rightarrow> if hashable mac then Inr VNone else Inl (TypeError ''unhashable type''))) (\<lambda>name.
                  whenS (name \<noteq> VNone) (setS key ''name'' name)))) ifs))))"

fun numa_tries :: "'w paramiko \<Rightarrow> ssh_object \<Rightarrow> string \<Rightarrow> nat \<Rightarrow> ('w ssh_state, int) act" where
  "numa_tries pk obj if_pci 0 = liftS (Inl (RuntimeError (''Update numa node failed for: '' @ if_pci)))"
| "numa_tries pk obj if_pci (Suc n) =
     bindS (exec_command pk obj (''cat /sys/bus/pci/devices/'' @ if_pci @ ''/numa_node'') 10) (\<lambda>(ret, out, _).
       if ret = 0 then
         (case py_int (VStr out) of
            Inl e \<Rightarrow> numa_tries pk obj if_pci n
          | Inr i \<Rightarrow> returnS (if i < 0 then 0 else i))
       else numa_tries pk obj if_pci n)"

definition iface_update_numa_node :: "'w paramiko \<Rightarrow> ('w ssh_state testbed, unit) act" where
  "iface_update_numa_node pk =
     bindS (askS get_node_interfaces) (\<lambda>keys.
       forS (\<lambda>if_key.
         bindS (askS (\<lambda>node. get_interface_pci_addr node (VStr if_key))) (\<lambda>if_pci.
         bindS (sshS (\<lambda>node. bindS (ssh_connect pk node 5) (\<lambda>obj. numa_tries pk obj (py_str if_pci) 3))) (\<lambda>numa_node.
           voidS (editS (\<lambda>node. set_interface_numa_node node if_key (VInt numa_node)))))) keys)"

definition update_all_interface_data_on_all_nodes ::
    "'w paramiko \<Rightarrow> 'w ssh_state vpp_env \<Rightarrow> (string \<Rightarrow> pyval res) \<Rightarrow> bool \<Rightarrow> bool \<Rightarrow>
     nodes \<Rightarrow> 'w ssh_state papi_state \<Rightarrow> unit res \<times> nodes \<times> 'w ssh_state papi_state" where
  "update_all_interface_data_on_all_nodes pk env json skip_tg skip_vpp nodes p =
     for_nodes (\<lambda>_.
       bindS (askS (\<lambda>node. getitem node ''type'')) (\<lambda>t.
         thenS
           (if t = VStr ''DUT'' \<and> \<not> skip_vpp then update_vpp_interface_data_on_node env
            else whenS (t = VStr ''TG'' \<and> \<not> skip_tg) (update_tg_interface_data_on_node pk json))
           (iface_update_numa_node pk))) nodes p"

section \<open>Creating interfaces\<close>

definition request_sw_if_index ::
    "'w vpp_env \<Rightarrow> node \<Rightarrow> string \<Rightarrow> pyobj res \<Rightarrow> string \<Rightarrow> ('w papi_state, pyval) act" where
  "request_sw_if_index env node cmd prepared err_msg =
     requests env node (\<lambda>ex. get_sw_if_index env ex err_msg) (bindE prepared (\<lambda>kwargs. Inr [(cmd, True, kwargs)]))"

definition new_key :: "string \<Rightarrow> ('w testbed, string) act" where
  "new_key ptype =
     bindS (editS (\<lambda>node. add_new_port node ptype)) (\<lambda>key.
       liftS (case key of None \<Rightarrow> Inl (KeyError ''None'') | Some k \<Rightarrow> Inr k))"

text \<open>The steps after VPP has created an interface: a new port with its index and the name VPP gave it.\<close>

definition register_port :: "'w vpp_env \<Rightarrow> string \<Rightarrow> pyval \<Rightarrow> ('w testbed, string \<times> pyval) act" where
  "register_port env ptype sw_if_index =
     bindS (new_key ptype) (\<lambda>if_key.
     thenS (changeS (\<lambda>node. update_interface_sw_if_index node if_key sw_if_index))
     (bindS (papiS (\<lambda>node. vpp_get_interface_name env node sw_if_index)) (\<lambda>ifc_name.
      thenS (changeS (\<lambda>node. update_interface_name node if_key (py_str ifc_name)))
        (returnS (if_key, ifc_name)))))"


definition create_vxlan_interface ::
    "'w vpp_env \<Rightarrow> pyval \<Rightarrow> string \<Rightarrow> string \<Rightarrow> ('w testbed, pyval) act" where
  "create_vxlan_interface env vni source_ip destination_ip =
     bindS (papiS (\<lambda>node. request_sw_if_index env node ''vxlan_add_del_tunnel''
         (bindE (ip_address source_ip) (\<lambda>src.
          bindE (ip_address destination_ip) (\<lambda>dst.
          bindE (py_int_val vni) (\<lambda>v.
          bindE (getitem node ''host'') (\<lambda>host.
          Inr [(''is_add'', VBool True), (''instance'', VInt BITWISE_NON_ZERO),
               (''src_address'', create_ip_address_object src), (''dst_address'', create_ip_address_object dst),
               (''mcast_sw_if_index'', VInt BITWISE_NON_ZERO), (''encap_vrf_id'', VInt 0),
               (''decap_next_index'', VInt BITWISE_NON_ZERO), (''vni'', v)])))))
         ''Failed to create VXLAN tunnel interface'')) (\<lambda>sw_if_index.
     bindS (register_port env ''vxlan_tunnel'' sw_if_index) (\<lambda>_. returnS sw_if_index))"

definition set_vxlan_bypass :: "'w vpp_env \<Rightarrow> node \<Rightarrow> pyval \<Rightarrow> ('w papi_state, unit) act" where
  "set_vxlan_bypass env node interface =
     voidS (request_replies env node
       (bindE (get_interface_index node interface) (\<lambda>i.
        bindE (getitem node ''host'') (\<lambda>host.
        Inr [(''sw_interface_set_vxlan_bypass'',
              [(''is_ipv6'', VBool False), (''sw_if_index'', i), (''enable'', VBool True)])])))
       ''Failed to set VXLAN bypass on interface'')"

definition process_vxlan_dump :: "pyobj \<Rightarrow> pyobj res" where
  "process_vxlan_dump d =
     foldE (\<lambda>d k. put_field k (\<lambda>v. Inr (VStr (py_str v))) d) d [''src_address'', ''dst_address'']"

fun find_tunnel :: "pyval \<Rightarrow> pyobj list \<Rightarrow> pyobj res" where
  "find_tunnel index [] = Inr []"
| "find_tunnel index (d # ds) =
     bindE (getitem d ''sw_if_index'') (\<lambda>i. if py_eq i index then process_vxlan_dump d else find_tunnel index ds)"

definition vxlan_dump :: "'w vpp_env \<Rightarrow> node \<Rightarrow> pyval \<Rightarrow> ('w papi_state, pyval) act" where
  "vxlan_dump env node interface =
     bindS (liftS (if interface = VNone then Inr (VInt BITWISE_NON_ZERO) else get_interface_index node interface)) (\<lambda>index.
     bindS (request_details env node ''vxlan_tunnel_dump''
         (bindE (getitem node ''host'') (\<lambda>host. Inr [(''sw_if_index'', index)])) ''Failed to get VXLAN dump'') (\<lambda>details.
       liftS (if interface = VNone then bindE (mapE process_vxlan_dump details) (\<lambda>ds. Inr (VList (map VDict ds)))
              else bindE (find_tunnel index details) (\<lambda>d. Inr (VDict d)))))"

definition SubInterfaceFlags :: "(string \<times> int) list" where
  "SubInterfaceFlags =
     [(''no_tags'', 1), (''one_tag'', 2), (''two_tags'', 4), (''dot1ad'', 8), (''exact_match'', 16), (''default_sub'', 32)]"

definition subif_flags :: "string \<Rightarrow> int" where
  "subif_flags type_subif =
     (let types = split_ws type_subif;
          flags = foldl (\<lambda>acc (name, bit). if name \<in> set types then acc OR bit else acc) 0 SubInterfaceFlags
      in if type_subif = ''default_sub'' then flags OR 128 OR 64 else flags)"

definition create_subinterface ::
    "'w vpp_env \<Rightarrow> pyval \<Rightarrow> pyval \<Rightarrow> pyval \<Rightarrow> pyval \<Rightarrow> string option \<Rightarrow> ('w testbed, string \<times> pyval) act" where
  "create_subinterface env interface sub_id outer_vlan_id inner_vlan_id type_subif =
     (case type_subif of
        None \<Rightarrow> liftS (Inl AttributeError)
      | Some type_name \<Rightarrow>
          bindS (papiS (\<lambda>node. request_sw_if_index env node ''create_subif''
              (bindE (get_interface_index node interface) (\<lambda>i.
               bindE (py_int_val sub_id) (\<lambda>sid.
               bindE (tag_id outer_vlan_id) (\<lambda>outer.
               bindE (tag_id inner_vlan_id) (\<lambda>inner.
               bindE (getitem node ''host'') (\<lambda>host.
               Inr [(''sw_if_index'', i), (''sub_id'', sid), (''sub_if_flags'', VInt (subif_flags type_name)),
                    (''outer_vlan_id'', outer), (''inner_vlan_id'', inner)]))))))
              ''Failed to create sub-interface'')) (\<lambda>sw_if_index.
          bindS (register_port env ''subinterface'' sw_if_index) (\<lambda>_.
            returnS (py_str interface @ ''.'' @ py_str sub_id, sw_if_index))))"

definition create_gre_tunnel_interface :: "'w vpp_env \<Rightarrow> pyval \<Rightarrow> pyval \<Rightarrow> ('w testbed, pyval \<times> pyval) act" where
  "create_gre_tunnel_interface env source_ip destination_ip =
     bindS (papiS (\<lambda>node. request_sw_if_index env node ''gre_tunnel_add_del''
         (bindE (getitem node ''host'') (\<lambda>host.
          Inr [(''is_add'', VInt 1),
               (''tunnel'', VDict [(''type'', VInt 0), (''instance'', VInt BITWISE_NON_ZERO),
                  (''src'', VStr (py_str source_ip)), (''dst'', VStr (py_str destination_ip)),
                  (''outer_fib_id'', VInt 0), (''session_id'', VInt 0)])]))
         ''Failed to create GRE tunnel interface'')) (\<lambda>sw_if_index.
     bindS (register_port env ''gre_tunnel'' sw_if_index) (\<lambda>(_, ifc_name). returnS (ifc_name, sw_if_index)))"

text \<open>An empty text stands for a missing MAC address.\<close>

definition vpp_create_loopback :: "'w vpp_env \<Rightarrow> string \<Rightarrow> ('w testbed, pyval) act" where
  "vpp_create_loopback env mac =
     bindS (papiS (\<lambda>node. request_sw_if_index env node ''create_loopback''
         (bindE (if mac = [] then Inr (VInt 0) else bindE (mac_to_bin mac) (\<lambda>b. Inr (VBytes b))) (\<lambda>m.
          bindE (getitem node ''host'') (\<lambda>host. Inr [(''mac_address'', m)])))
         ''Failed to create loopback interface'')) (\<lambda>sw_if_index.
     bindS (register_port env ''loopback'' sw_if_index) (\<lambda>(if_key, ifc_name).
     thenS
       (whenS (mac \<noteq> [])
          (bindS (papiS (\<lambda>node. vpp_get_interface_mac env node ifc_name)) (\<lambda>m.
             changeS (\<lambda>node. update_interface_mac_address node if_key (py_str m)))))
       (returnS sw_if_index)))"

section \<open>Ethernet interfaces\<close>

definition add_eth_interface ::
    "'w vpp_env \<Rightarrow> pyval \<Rightarrow> pyval \<Rightarrow> string \<Rightarrow> string option \<Rightarrow> ('w testbed, unit) act" where
  "add_eth_interface env ifc_name sw_if_index ifc_pfx host_if_key =
     bindS (new_key ifc_pfx) (\<lambda>if_key.
     bindS (if truthy_val ifc_name \<and> sw_if_index = VNone
            then papiS (\<lambda>node. vpp_get_interface_sw_index env node ifc_name) else returnS sw_if_index) (\<lambda>index.
     thenS (changeS (\<lambda>node. update_interface_sw_if_index node if_key index))
     (bindS (if truthy_val index \<and> ifc_name = VNone
             then papiS (\<lambda>node. vpp_get_interface_name env node index) else returnS ifc_name) (\<lambda>name.
      thenS (changeS (\<lambda>node. update_interface_name node if_key (py_str name)))
      (bindS (papiS (\<lambda>node. vpp_get_interface_mac env node index)) (\<lambda>mac.
       thenS (changeS (\<lambda>node. update_interface_mac_address node if_key (py_str mac)))
       (case host_if_key of
          None \<Rightarrow> returnS ()
        | Some host \<Rightarrow>
            thenS (bindS (askS (\<lambda>node. get_interface_numa_node node (VStr host))) (\<lambda>numa.
                     voidS (editS (\<lambda>node. set_interface_numa_node node if_key numa))))
              (bindS (askS (\<lambda>node. get_interface_pci_addr node (VStr host))) (\<lambda>pci.
                 changeS (\<lambda>node. update_interface_pci_address node if_key (py_str pci)))))))))))"

definition LinkBondMode :: "(string \<times> int) list" where
  "LinkBondMode =
     [(''BOND_API_MODE_ROUND_ROBIN'', 1), (''BOND_API_MODE_ACTIVE_BACKUP'', 2), (''BOND_API_MODE_XOR'', 3),
      (''BOND_API_MODE_BROADCAST'', 4), (''BOND_API_MODE_LACP'', 5)]"

definition LinkBondLoadBalanceAlgo :: "(string \<times> int) list" where
  "LinkBondLoadBalanceAlgo =
     [(''BOND_API_LB_ALGO_L2'', 0), (''BOND_API_LB_ALGO_L34'', 1), (''BOND_API_LB_ALGO_L23'', 2),
      (''BOND_API_LB_ALGO_RR'', 3), (''BOND_API_LB_ALGO_BC'', 4), (''BOND_API_LB_ALGO_AB'', 5)]"

definition RdmaMode :: "(string \<times> int) list" where
  "RdmaMode = [(''RDMA_API_MODE_AUTO'', 0), (''RDMA_API_MODE_IBV'', 1), (''RDMA_API_MODE_DV'', 2)]"

definition member_value :: "(string \<times> int) list \<Rightarrow> string \<Rightarrow> pyval res" where
  "member_value enum name = (case map_of enum name of None \<Rightarrow> Inl AttributeError | Some i \<Rightarrow> Inr (VInt i))"

definition vpp_create_bond_interface ::
    "'w vpp_env \<Rightarrow> string \<Rightarrow> string option \<Rightarrow> string option \<Rightarrow> ('w testbed, pyval) act" where
  "vpp_create_bond_interface env mode load_balance mac =
     bindS (papiS (\<lambda>node. request_sw_if_index env node ''bond_create''
         (bindE (case mac of None \<Rightarrow> Inr VNone | Some [] \<Rightarrow> Inr VNone | Some m \<Rightarrow> bindE (mac_to_bin m) (\<lambda>b. Inr (VBytes b)))
            (\<lambda>m.
          bindE (member_value LinkBondMode (''BOND_API_MODE_'' @ upper (replace_all ''-'' ''_'' mode))) (\<lambda>md.
          bindE (case load_balance of None \<Rightarrow> Inr (VInt 0)
                 | Some l \<Rightarrow> member_value LinkBondLoadBalanceAlgo (''BOND_API_LB_ALGO_'' @ upper l)) (\<lambda>lb.
          bindE (getitem node ''host'') (\<lambda>host.
          Inr [(''id'', VInt BITWISE_NON_ZERO), (''use_custom_mac'', VBool (mac \<noteq> None)), (''mac_address'', m),
               (''mode'', md), (''lb'', lb), (''numa_only'', VBool False)])))))
         ''Failed to create bond interface'')) (\<lambda>sw_if_index.
     thenS (add_eth_interface env VNone sw_if_index ''eth_bond'' None)
       (askS (\<lambda>node. get_interface_by_sw_index node sw_if_index)))"

definition queue_count :: "pyval \<Rightarrow> pyval res" where
  "queue_count n = (if truthy_val n then py_int_val n else Inr (VInt 0))"

definition vpp_create_avf_interface ::
    "'w vpp_env \<Rightarrow> string \<Rightarrow> pyval \<Rightarrow> pyval \<Rightarrow> pyval \<Rightarrow> ('w testbed, pyval) act" where
  "vpp_create_avf_interface env if_key num_rx_queues rxq_size txq_size =
     thenS (papiS (\<lambda>node. run_cli_cmd env node ''set logging class avf level debug'' SOCKSVR_PATH))
     (bindS (papiS (\<lambda>node. request_sw_if_index env node ''avf_create''
         (bindE (get_interface_pci_addr node (VStr if_key)) (\<lambda>v.
          bindE (bindE (text_of v) pci_to_int) (\<lambda>pci.
          bindE (queue_count num_rx_queues) (\<lambda>rxq.
          bindE (getitem node ''host'') (\<lambda>host.
          Inr [(''pci_addr'', VInt pci), (''enable_elog'', VInt 0), (''rxq_num'', rxq), (''rxq_size'', rxq_size),
               (''txq_size'', txq_size)])))))
         ''Failed to create AVF interface'')) (\<lambda>sw_if_index.
      thenS (add_eth_interface env VNone sw_if_index ''eth_avf'' (Some if_key))
        (askS (\<lambda>node. get_interface_by_sw_index node sw_if_index))))"

definition vpp_create_rdma_interface ::
    "'w paramiko \<Rightarrow> 'w ssh_state vpp_env \<Rightarrow> string \<Rightarrow> pyval \<Rightarrow> pyval \<Rightarrow> pyval \<Rightarrow> string \<Rightarrow>
     ('w ssh_state testbed, pyval) act" where
  "vpp_create_rdma_interface pk env if_key num_rx_queues rxq_size txq_size mode =
     thenS (papiS (\<lambda>node. run_cli_cmd env node ''set logging class rdma level debug'' SOCKSVR_PATH))
     (bindS (askS (\<lambda>node. get_interface_pci_addr node (VStr if_key))) (\<lambda>pci.
      bindS (sshS (\<lambda>node. pci_to_eth pk node (py_str pci))) (\<lambda>name.
      bindS (sshS (\<lambda>node. pci_to_eth pk node (py_str pci))) (\<lambda>host_if.
      bindS (papiS (\<lambda>node. request_sw_if_index env node ''rdma_create''
          (bindE (queue_count num_rx_queues) (\<lambda>rxq.
           bindE (member_value RdmaMode (''RDMA_API_MODE_'' @ upper mode)) (\<lambda>md.
           bindE (getitem node ''host'') (\<lambda>host.
           Inr [(''name'', VStr name), (''host_if'', VStr host_if), (''rxq_num'', rxq), (''rxq_size'', rxq_size),
                (''txq_size'', txq_size), (''mode'', md)]))))
          ''Failed to create RDMA interface'')) (\<lambda>sw_if_index.
      bindS (askS (\<lambda>node. get_interface_mac node (VStr if_key))) (\<lambda>mac.
      thenS (papiS (\<lambda>node. bindS (liftS (text_of mac)) (\<lambda>m. vpp_set_interface_mac env node sw_if_index m)))
      (thenS (add_eth_interface env VNone sw_if_index ''eth_rdma'' (Some if_key))
        (askS (\<lambda>node. get_interface_by_sw_index node sw_if_index)))))))))"

definition vpp_enslave_physical_interface :: "'w vpp_env \<Rightarrow> node \<Rightarrow> pyval \<Rightarrow> pyval \<Rightarrow> ('w papi_state, unit) act" where
  "vpp_enslave_physical_interface env node interface bond_if =
     voidS (request_reply env node ''bond_enslave''
       (bindE (get_interface_sw_index node interface) (\<lambda>i.
        bindE (get_interface_sw_index node bond_if) (\<lambda>b.
        bindE (getitem node ''host'') (\<lambda>host.
        Inr [(''sw_if_index'', i), (''bond_sw_if_index'', b), (''is_passive'', VBool False),
             (''is_long_timeout'', VBool False)]))))
       ''Failed to enslave physical interface'')"

definition vpp_bond_slave_dump :: "'w vpp_env \<Rightarrow> node \<Rightarrow> pyval \<Rightarrow> ('w papi_state, pyobj list) act" where
  "vpp_bond_slave_dump env node interface =
     request_details env node ''sw_interface_slave_dump''
       (bindE (get_interface_sw_index node interface) (\<lambda>i.
        bindE (getitem node ''host'') (\<lambda>host. Inr [(''sw_if_index'', i)])))
       ''Failed to get slave dump''"

section \<open>ACLs and tables\<close>

definition vpp_enable_input_acl_interface ::
    "'w vpp_env \<Rightarrow> node \<Rightarrow> pyval \<Rightarrow> string \<Rightarrow> pyval \<Rightarrow> ('w papi_state, unit) act" where
  "vpp_enable_input_acl_interface env node interface ip_version table_index =
     (let table = (\<lambda>v. if ip_version = v then table_index else VInt BITWISE_NON_ZERO)
      in voidS (request_reply env node ''input_acl_set_interface''
           (bindE (get_interface_index node interface) (\<lambda>i.
            Inr [(''sw_if_index'', i), (''ip4_table_index'', table ''ip4''), (''ip6_table_index'', table ''ip6''),
                 (''l2_table_index'', table ''l2''), (''is_add'', VInt 1)]))
           ''Failed to enable input acl on interface''))"

definition get_interface_classify_table :: "'w vpp_env \<Rightarrow> node \<Rightarrow> pyval \<Rightarrow> ('w papi_state, pyobj) act" where
  "get_interface_classify_table env node interface =
     bindS (case interface of VStr s \<Rightarrow> iu_get_sw_if_index env node interface | _ \<Rightarrow> returnS interface) (\<lambda>index.
       request_reply env node ''classify_table_by_interface'' (Inr [(''sw_if_index'', index)])
         ''Failed to get classify table name by interface'')"

definition assign_interface_to_fib_table :: "'w vpp_env \<Rightarrow> node \<Rightarrow> pyval \<Rightarrow> pyval \<Rightarrow> pyval \<Rightarrow> ('w papi_state, unit) act" where
  "assign_interface_to_fib_table env node interface table_id ipv6 =
     voidS (request_reply env node ''sw_interface_set_table''
       (bindE (get_interface_index node interface) (\<lambda>i.
        bindE (py_int_val table_id) (\<lambda>t.
        Inr [(''sw_if_index'', i), (''is_ipv6'', ipv6), (''vrf_id'', t)])))
       ''Failed to assign interface to FIB table'')"

section \<open>Linux interfaces and virtual functions\<close>

definition ns_text :: "string option \<Rightarrow> string" where
  "ns_text namespace =
     (case namespace of None \<Rightarrow> [] | Some n \<Rightarrow> if n = [] then [] else ''ip netns exec '' @ n)"

definition vf_text :: "int option \<Rightarrow> string" where
  "vf_text vf_id = (case vf_id of None \<Rightarrow> [] | Some i \<Rightarrow> ''vf '' @ str_of_int i @ '' '')"

definition set_linux_interface_mac ::
    "'w paramiko \<Rightarrow> node \<Rightarrow> string \<Rightarrow> string \<Rightarrow> string option \<Rightarrow> int option \<Rightarrow> ('w ssh_state, unit) act" where
  "set_linux_interface_mac pk node interface mac namespace vf_id =
     voidS (run_sudo pk node
       (ns_text namespace @ '' ip link set '' @ interface @ '' '' @
        (case vf_id of None \<Rightarrow> ''address '' @ mac | Some i \<Rightarrow> ''vf '' @ str_of_int i @ '' mac '' @ mac)) 600 [])"

definition set_linux_interface_trust_on ::
    "'w paramiko \<Rightarrow> node \<Rightarrow> string \<Rightarrow> string option \<Rightarrow> int option \<Rightarrow> ('w ssh_state, unit) act" where
  "set_linux_interface_trust_on pk node interface namespace vf_id =
     voidS (run_sudo pk node
       (ns_text namespace @ '' ip link set dev '' @ interface @ '' '' @ vf_text vf_id @ ''trust on'') 600 [])"

definition set_linux_interface_spoof_off ::
    "'w paramiko \<Rightarrow> node \<Rightarrow> string \<Rightarrow> string option \<Rightarrow> int option \<Rightarrow> ('w ssh_state, unit) act" where
  "set_linux_interface_spoof_off pk node interface namespace vf_id =
     voidS (run_sudo pk node
       (ns_text namespace @ '' ip link set dev '' @ interface @ '' '' @ vf_text vf_id @ ''spoof off'') 600 [])"

definition set_linux_interface_state ::
    "'w paramiko \<Rightarrow> node \<Rightarrow> string \<Rightarrow> string option \<Rightarrow> string \<Rightarrow> ('w ssh_state, unit) act" where
  "set_linux_interface_state pk node interface namespace state =
     voidS (run_sudo pk node (ns_text namespace @ '' ip link set dev '' @ interface @ '' '' @ state) 600 [])"

text \<open>The address of a virtual function: the device's without its second byte, and the number at the end.\<close>

definition vf_mac :: "string list \<Rightarrow> nat \<Rightarrow> string res" where
  "vf_mac pf_mac_addr vf_id =
     bindE (mapE (list_get pf_mac_addr) [0, 2, 3, 4, 5]) (\<lambda>bytes.
       Inr (join '':'' (bytes @ [pad_left 2 (hex_of_nat vf_id)])))"

definition init_vf ::
    "'w paramiko \<Rightarrow> string \<Rightarrow> string \<Rightarrow> string list \<Rightarrow> string \<Rightarrow> string \<Rightarrow> nat \<Rightarrow> ('w ssh_state testbed, string) act" where
  "init_vf pk ifc_key pf_pci_addr pf_mac_addr uio_driver osi_layer vf_id =
     (let vf = str_of_nat vf_id; pf_dev = ''`basename /sys/bus/pci/devices/'' @ pf_pci_addr @ ''/net/*`'';
          vf_ifc_name = ifc_key @ ''_vif''
      in bindS (liftS (vf_mac pf_mac_addr vf_id)) (\<lambda>vf_mac_addr.
         thenS (sshS (\<lambda>node. set_linux_interface_trust_on pk node pf_dev None (Some (int vf_id))))
         (thenS (whenS (osi_layer = ''L2'')
                   (sshS (\<lambda>node. set_linux_interface_spoof_off pk node pf_dev None (Some (int vf_id)))))
         (thenS (sshS (\<lambda>node. set_linux_interface_mac pk node pf_dev vf_mac_addr None (Some (int vf_id))))
         (thenS (sshS (\<lambda>node. set_linux_interface_state pk node pf_dev None ''up''))
         (thenS (sshS (\<lambda>node. pci_vf_driver_unbind pk node pf_pci_addr vf))
         (thenS (sshS (\<lambda>node. pci_vf_driver_bind pk node pf_pci_addr vf uio_driver))
         (bindS (sshS (\<lambda>node. get_virtfn_pci_addr pk node pf_pci_addr vf)) (\<lambda>vf_pci_addr.
          bindS (new_key vf_ifc_name) (\<lambda>vf_ifc_key.
          thenS (changeS (\<lambda>node. update_interface_name node vf_ifc_key (vf_ifc_name @ str_of_nat (vf_id + 1))))
          (thenS (changeS (\<lambda>node. update_interface_mac_address node vf_ifc_key vf_mac_addr))
          (thenS (changeS (\<lambda>node. update_interface_pci_address node vf_ifc_key vf_pci_addr))
          (thenS (bindS (askS (\<lambda>node. get_interface_numa_node node (VStr ifc_key))) (\<lambda>numa.
                    voidS (editS (\<lambda>node. set_interface_numa_node node vf_ifc_key numa))))
             (returnS vf_ifc_key))))))))))))))"

definition init_avf_interface ::
    "'w paramiko \<Rightarrow> string \<Rightarrow> nat \<Rightarrow> string \<Rightarrow> ('w ssh_state testbed, string list) act" where
  "init_avf_interface pk ifc_key numvfs osi_layer =
     bindS (askS (\<lambda>node. get_interface_pci_addr node (VStr ifc_key))) (\<lambda>pci.
     bindS (askS (\<lambda>node. bindE (get_interface_mac node (VStr ifc_key)) text_of)) (\<lambda>mac.
     bindS (askS get_uio_driver) (\<lambda>uio_driver.
     bindS (askS (\<lambda>node. get_interface_driver node (VStr ifc_key))) (\<lambda>kernel_driver.
       if kernel_driver \<notin> VStr ` {''ice'', ''iavf'', ''i40e'', ''i40evf''}
       then bindS (askS (\<lambda>node. getitem node ''host'')) (\<lambda>host.
              liftS (Inl (RuntimeError (''AVF needs ice or i40e compatible driver, not '' @ py_str kernel_driver))))
       else
         bindS (liftS (text_of pci)) (\<lambda>pf_pci_addr.
         bindS (sshS (\<lambda>node. get_pci_dev_driver pk node (escape_colons pf_pci_addr))) (\<lambda>current_driver.
         thenS (stop_vpp_service pk [])
         (thenS
           (whenS (map_option VStr current_driver \<noteq> Some kernel_driver)
              (thenS (sshS (\<lambda>node. verify_kernel_module pk node (py_str kernel_driver) True))
              (thenS (sshS (\<lambda>node. pci_driver_unbind pk node pf_pci_addr))
              (sshS (\<lambda>node. pci_driver_bind pk node pf_pci_addr (py_str kernel_driver))))))
         (thenS (sshS (\<lambda>node. set_sriov_numvfs pk node pf_pci_addr (int numvfs)))
           (collectS
              (init_vf pk ifc_key pf_pci_addr (split_on (CHR '':'') mac) (py_str uio_driver) osi_layer)
              [0..<numvfs])))))))))"

section \<open>Placement of receive queues\<close>

fun add_placements ::
    "pyobj \<Rightarrow> papi_executor \<Rightarrow> 'w papi_state \<Rightarrow> unit res \<times> papi_executor \<times> 'w papi_state" where
  "add_placements [] ex st = (Inr (), ex, st)"
| "add_placements ((key, ifc) # ifs) ex st =
     (case sub ifc ''vpp_sw_index'' of
        Inl e \<Rightarrow> (Inl e, ex, st)
      | Inr index \<Rightarrow>
          if index = VNone then add_placements ifs ex st
          else case papi_add ex ''sw_interface_rx_placement_dump'' True [(''sw_if_index'', index)] st of
                 (Inl e, ex1, st1) \<Rightarrow> (Inl e, ex1, st1)
               | (Inr u, ex1, st1) \<Rightarrow> add_placements ifs ex1 st1)"

text \<open>\<^verbatim>\<open>sorted(details, key=lambda k: k["sw_if_index"])\<close>.\<close>

definition sort_by_index :: "pyobj list \<Rightarrow> pyobj list res" where
  "sort_by_index details =
     bindE (mapE (\<lambda>d. bindE (getitem d ''sw_if_index'') (\<lambda>v.
         case number_of v of None \<Rightarrow> Inl type_error | Some i \<Rightarrow> Inr (i, d))) details)
       (\<lambda>keyed. Inr (map snd (sort_key fst keyed)))"

definition vpp_sw_interface_rx_placement_dump :: "'w vpp_env \<Rightarrow> node \<Rightarrow> ('w papi_state, pyobj list) act" where
  "vpp_sw_interface_rx_placement_dump env node =
     with_host node (\<lambda>host.
       bindS (with_papi env node SOCKSVR_PATH
           (\<lambda>ex st. case interface_items node of
              Inl e \<Rightarrow> (Inl e, ex, st)
            | Inr ifs \<Rightarrow>
                (case add_placements ifs ex st of
                   (Inl e, ex1, st1) \<Rightarrow> (Inl e, ex1, st1)
                 | (Inr u, ex1, st1) \<Rightarrow>
                     get_details env ex1
                       (''Failed to run '' @ sq ''sw_interface_rx_placement_dump'' @ '' PAPI command on host '' @ host @ ''!'') st1)))
         (\<lambda>details. liftS (sort_by_index details)))"

definition placement_args :: "pyval \<Rightarrow> pyval \<Rightarrow> int \<Rightarrow> pyobj" where
  "placement_args sw_if_index queue_id worker_id =
     [(''sw_if_index'', sw_if_index), (''queue_id'', queue_id), (''worker_id'', VInt worker_id), (''is_main'', VBool False)]"

definition vpp_sw_interface_set_rx_placement ::
    "'w vpp_env \<Rightarrow> node \<Rightarrow> pyval \<Rightarrow> pyval \<Rightarrow> int \<Rightarrow> ('w papi_state, unit) act" where
  "vpp_sw_interface_set_rx_placement env node sw_if_index queue_id worker_id =
     with_host node (\<lambda>host.
       voidS (request_reply env node ''sw_interface_set_rx_placement''
         (Inr (placement_args sw_if_index queue_id worker_id))
         (''Failed to set interface RX placement to worker on host '' @ host @ ''!'')))"

text \<open>Whether a queue belongs to an interface with the prefix in its name.\<close>

definition placed_on :: "string \<Rightarrow> pyval \<Rightarrow> pyval \<Rightarrow> bool res" where
  "placed_on prefix index interface =
     bindE (sub interface ''vpp_sw_index'') (\<lambda>i.
       if \<not> py_eq index i then Inr False
       else bindE (sub interface ''name'') (\<lambda>name.
            case name of VStr s \<Rightarrow> Inr (str_contains prefix s) | VDict d \<Rightarrow> Inr (map_of d prefix \<noteq> None)
                       | _ \<Rightarrow> Inl type_error))"

definition place_queue ::
    "'w vpp_env \<Rightarrow> node \<Rightarrow> string \<Rightarrow> int \<Rightarrow> pyobj \<Rightarrow> int \<Rightarrow> pyval \<Rightarrow> ('w papi_state, int) act" where
  "place_queue env node prefix worker_cnt placement worker_id interface =
     bindS (liftS (bindE (getitem placement ''sw_if_index'') (\<lambda>index.
         bindE (placed_on prefix index interface) (\<lambda>p. Inr (index, p))))) (\<lambda>(index, p).
       if \<not> p then returnS worker_id
       else bindS (liftS (getitem placement ''queue_id'')) (\<lambda>queue.
            thenS (vpp_sw_interface_set_rx_placement env node index queue (worker_id mod worker_cnt))
              (returnS (worker_id + 1))))"

definition vpp_round_robin_rx_placement :: "'w vpp_env \<Rightarrow> node \<Rightarrow> string \<Rightarrow> ('w papi_state, unit) act" where
  "vpp_round_robin_rx_placement env node prefix =
     bindS (vpp_show_threads env node) (\<lambda>threads.
       let worker_cnt = int (length threads) - 1
       in whenS (worker_cnt \<noteq> 0)
            (bindS (vpp_sw_interface_rx_placement_dump env node) (\<lambda>placements.
             bindS (liftS (interface_items node)) (\<lambda>ifs.
               voidS (foldS (\<lambda>worker_id placement.
                   foldS (place_queue env node prefix worker_cnt placement) worker_id (map snd ifs)) 0 placements)))))"

definition vpp_round_robin_rx_placement_on_all_duts :: "'w vpp_env \<Rightarrow> nodes \<Rightarrow> string \<Rightarrow> ('w papi_state, unit) act" where
  "vpp_round_robin_rx_placement_on_all_duts env nodes prefix =
     on_duts (\<lambda>node. vpp_round_robin_rx_placement env node prefix) nodes"

section \<open>Waiting for interfaces\<close>

definition sleep_on :: "'w vpp_env \<Rightarrow> 'w papi_state \<Rightarrow> 'w papi_state" where
  "sleep_on env st = st\<lparr>ps_vpp := sleep env (ps_vpp st)\<rparr>"

definition all_up :: "pyobj list \<Rightarrow> unit option" where
  "all_up data = (if not_ready data = [] then Some () else None)"

interpretation ready: polling "all_interface_data env node" all_up "sleep_on env" "\<lambda>p n. ready_wait env node n p"
    "\<lambda>data. Some (not_ready data)"
  for env :: "'w vpp_env" and node
  by unfold_locales
     (auto simp: liftS_def bindS_def thenS_def all_up_def sleep_on_def returnS_def split: if_splits)

text \<open>
  C26. The wait for the interfaces of a node returns exactly when one of the first \<open>retries\<close> dumps
  shows no interface that is up for the administrator but has no link; it stops at the first such dump,
  after a pause for each dump before.
\<close>

theorem ready_wait_returns:
  "vpp_node_interfaces_ready_wait env node retries st = (Inr (), st') \<longleftrightarrow>
     (\<exists>k t data. k < retries \<and> unsuccessful (all_interface_data env node) all_up (sleep_on env) k st t \<and>
        all_interface_data env node t = (Inr data, st') \<and> not_ready data = [])"
  unfolding vpp_node_interfaces_ready_wait_def ready.first_success all_up_def by (simp split: if_splits) blast

section \<open>Addresses of devices\<close>

lemma or_disjoint: "n < 2 ^ k \<Longrightarrow> int n OR push_bit k (int m) = int (n + 2 ^ k * m)"
proof -
  assume n: "n < 2 ^ k"
  have "int n OR push_bit k (int m) = int n + push_bit k (int m)"
  proof (rule disjunctive_add_eq_or [symmetric])
    show "int n AND push_bit k (int m) = 0"
    proof (rule bit_eqI)
      fix i
      have "bit (int n) i \<Longrightarrow> i < k"
        using n by (metis bit_take_bit_iff of_nat_take_bit take_bit_nat_eq_self)
      then show "bit (int n AND push_bit k (int m)) i = bit 0 i"
        by (auto simp: bit_simps)
    qed
  qed
  then show ?thesis by (simp add: push_bit_eq_mult)
qed

definition pci_address :: "nat \<Rightarrow> nat \<Rightarrow> nat \<Rightarrow> nat \<Rightarrow> string" where
  "pci_address domain bus slot func =
     pad_left 4 (hex_of_nat domain) @ '':'' @ pad_left 2 (hex_of_nat bus) @ '':'' @
     pad_left 2 (hex_of_nat slot) @ ''.'' @ hex_of_nat func"

lemma int_base16_padded: "n < 16 ^ k \<Longrightarrow> 0 < k \<Longrightarrow> int_base16 (pad_left k (hex_of_nat n)) = Inr (int n)"
proof -
  assume n: "n < 16 ^ k" and k: "0 < k"
  have "length (digits_of 16 k n) = k" by simp
  then have "digits_of 16 k n \<noteq> []" using k by fastforce
  then show ?thesis
    using int_base16_digits [of "digits_of 16 k n"] digits_of_less [of 16 _ k n] n k
    by (simp add: pad_left_hex_of_nat of_digits_of)
qed

lemma int_base16_hex: "int_base16 (hex_of_nat n) = Inr (int n)"
proof -
  obtain ds where "hex_of_nat n = map hex_char ds" "ds \<noteq> []" "\<forall>d\<in>set ds. d < 16" "of_digits 16 ds = n"
    using hex_of_nat_digits by blast
  then show ?thesis using int_base16_digits [of ds] by simp
qed

lemma hex_no_separator:
  assumes "sep \<in> {CHR '':'', CHR ''.''}"
  shows "sep \<notin> set (hex_of_nat n)" "sep \<notin> set (pad_left k (hex_of_nat n))"
proof -
  obtain ds where ds: "hex_of_nat n = map hex_char ds" "\<forall>d\<in>set ds. d < 16" using hex_of_nat_digits by blast
  have "hex_char d \<noteq> sep" if "d < 16" for d
    using that assms hex_char_not_special(1) [OF that] by (auto simp: hex_char_def char_of_eq_iff take_bit_eq_mod split: if_splits)
  then show "sep \<notin> set (hex_of_nat n)" using ds by auto
  then show "sep \<notin> set (pad_left k (hex_of_nat n))" using assms by (auto simp: pad_left_def)
qed

lemma pci_fields_address:
  "pci_fields (pci_address domain bus slot func) =
     Inr [pad_left 4 (hex_of_nat domain), pad_left 2 (hex_of_nat bus), pad_left 2 (hex_of_nat slot), hex_of_nat func]"
proof -
  have "split_on (CHR '':'') (pci_address domain bus slot func) =
      [pad_left 4 (hex_of_nat domain), pad_left 2 (hex_of_nat bus), pad_left 2 (hex_of_nat slot) @ ''.'' @ hex_of_nat func]"
    unfolding pci_address_def
    by (simp add: split_on_append split_on_absent hex_no_separator)
  then show ?thesis
    by (simp add: pci_fields_def list_get_def split_on_append split_on_absent hex_no_separator)
qed

lemma packed_parts:
  fixes a b c d :: nat
  assumes "a < 2 ^ 16" and "b < 2 ^ 8" and "c < 2 ^ 5"
  defines "n \<equiv> a + 2 ^ 16 * (b + 2 ^ 8 * (c + 2 ^ 5 * d))"
  shows "n mod 2 ^ 16 = a" "n div 2 ^ 16 mod 2 ^ 8 = b" "n div 2 ^ 24 mod 2 ^ 5 = c" "n div 2 ^ 29 = d"
proof -
  have q: "n div 2 ^ 16 = b + 2 ^ 8 * (c + 2 ^ 5 * d)" unfolding n_def using assms(1) by simp
  have "n div 2 ^ 24 = n div 2 ^ 16 div 2 ^ 8" unfolding div_mult2_eq [symmetric] by simp
  then have r: "n div 2 ^ 24 = c + 2 ^ 5 * d" unfolding q using assms(2) by simp
  have "n div 2 ^ 29 = n div 2 ^ 24 div 2 ^ 5" unfolding div_mult2_eq [symmetric] by simp
  then show "n div 2 ^ 29 = d" unfolding r using assms(3) by simp
  show "n mod 2 ^ 16 = a" unfolding n_def mod_mult_self2 using assms(1) by (rule mod_less)
  show "n div 2 ^ 16 mod 2 ^ 8 = b" unfolding q mod_mult_self2 using assms(2) by (rule mod_less)
  show "n div 2 ^ 24 mod 2 ^ 5 = c" unfolding r mod_mult_self2 using assms(3) by (rule mod_less)
qed

text \<open>
  The integer for a PCI address has the domain in its lowest sixteen bits, the bus in the next
  eight, the slot in the next five and the function in the top three; it fits into 32 bits, and each
  part can be read back.
\<close>

theorem pci_to_int_layout:
  assumes "domain < 2 ^ 16" and "bus < 2 ^ 8" and "slot < 2 ^ 5" and "func < 2 ^ 3"
  shows "\<exists>n. pci_to_int (pci_address domain bus slot func) = Inr (int n) \<and> n < 2 ^ 32 \<and>
    n mod 2 ^ 16 = domain \<and> n div 2 ^ 16 mod 2 ^ 8 = bus \<and> n div 2 ^ 24 mod 2 ^ 5 = slot \<and> n div 2 ^ 29 = func"
proof -
  let ?a = "domain + 2 ^ 16 * bus"
  let ?b = "?a + 2 ^ 24 * slot"
  let ?n = "?b + 2 ^ 29 * func"
  have ab: "?a < 2 ^ 24" "?b < 2 ^ 29" using assms by auto
  have "int domain OR push_bit 16 (int bus) OR push_bit 24 (int slot) OR push_bit 29 (int func) = int ?n"
    unfolding or.assoc [symmetric] or_disjoint [OF assms(1)] or_disjoint [OF ab(1)] or_disjoint [OF ab(2)] ..
  then have "pci_to_int (pci_address domain bus slot func) = Inr (int ?n)"
    using assms int_base16_padded [of domain 4] int_base16_padded [of bus 2] int_base16_padded [of slot 2]
    by (simp add: pci_to_int_def pci_fields_address list_get_def int_base16_hex)
  moreover have "?n < 2 ^ 32" using assms by auto
  moreover have "?n mod 2 ^ 16 = domain" "?n div 2 ^ 16 mod 2 ^ 8 = bus" "?n div 2 ^ 24 mod 2 ^ 5 = slot"
    "?n div 2 ^ 29 = func"
    using packed_parts [OF assms(1-3), of func] by (simp_all add: algebra_simps)
  ultimately show ?thesis by blast
qed

theorem pci_to_int_layout_witness:
  "\<exists>n. pci_to_int ''0000:18:0a.0'' = Inr (int n) \<and> n div 2 ^ 24 mod 2 ^ 5 = 10"
proof -
  have "pci_address 0 24 10 0 = ''0000:18:0a.0''"
    by code_simp
  then show ?thesis using pci_to_int_layout [of 0 24 10 0] by auto
qed

section \<open>Round robin\<close>

text \<open>
  The queues that are placed: for every placement, once for each interface it belongs to. The commands
  of the reference: the queue with number \<open>i\<close> goes to worker \<open>(first + i) mod workers\<close>.
\<close>

definition matches :: "string \<Rightarrow> pyobj \<Rightarrow> pyval \<Rightarrow> (pyval \<times> pyval) list" where
  "matches prefix placement interface =
     (case (map_of placement ''sw_if_index'', map_of placement ''queue_id'') of
        (Some index, Some queue) \<Rightarrow> if placed_on prefix index interface = Inr True then [(index, queue)] else []
      | _ \<Rightarrow> [])"

definition queues :: "string \<Rightarrow> pyobj list \<Rightarrow> pyval list \<Rightarrow> (pyval \<times> pyval) list" where
  "queues prefix placements ifcs = concat (map (\<lambda>p. concat (map (matches prefix p) ifcs)) placements)"

definition placement_command :: "pyval \<times> pyval \<Rightarrow> int \<Rightarrow> papi_command" where
  "placement_command q worker =
     \<lparr>api_name = ''sw_interface_set_rx_placement'', api_args = placement_args (fst q) (snd q) worker\<rparr>"

definition round_robin :: "int \<Rightarrow> int \<Rightarrow> (pyval \<times> pyval) list \<Rightarrow> papi_command list" where
  "round_robin workers first qs =
     map (\<lambda>i. placement_command (qs ! i) ((first + int i) mod workers)) [0..<length qs]"

lemma round_robin_Nil [simp]: "round_robin workers first [] = []"
  by (simp add: round_robin_def)

lemma round_robin_append:
  "round_robin workers first (qs @ qs') =
     round_robin workers first qs @ round_robin workers (first + int (length qs)) qs'"
proof -
  have "[0..<length (qs @ qs')] = [0..<length qs] @ map (\<lambda>i. i + length qs) [0..<length qs']"
    unfolding map_add_upt by (simp add: upt_add_eq_append [of 0] add.commute)
  moreover have "map (\<lambda>i. placement_command ((qs @ qs') ! i) ((first + int i) mod workers)) [0..<length qs] =
      round_robin workers first qs"
    unfolding round_robin_def by (rule map_cong) (simp_all add: nth_append)
  moreover have "first + int (i + length qs) = first + int (length qs) + int i" for i by simp
  moreover have "(qs @ qs') ! (i + length qs) = qs' ! i" for i by (simp add: nth_append)
  ultimately show ?thesis by (simp only: round_robin_def map_append map_map comp_def)
qed

abbreviation sent :: "('w \<times> papi_command list) papi_state \<Rightarrow> papi_command list" where
  "sent st \<equiv> snd (ps_vpp st)"

text \<open>What a part of the loop has done when it returns.\<close>

definition placed ::
    "int \<Rightarrow> (pyval \<times> pyval) list \<Rightarrow> int \<Rightarrow> ('w \<times> papi_command list) papi_state \<Rightarrow> int \<Rightarrow>
     ('w \<times> papi_command list) papi_state \<Rightarrow> bool" where
  "placed workers qs worker st worker' st' \<longleftrightarrow>
     worker' = worker + int (length qs) \<and> (\<exists>out. sent st' = sent st @ out \<and> all_sent (round_robin workers worker qs) out)"

lemma placed_Nil: "placed workers [] worker st worker st"
  by (auto simp: placed_def intro: all_sent_Nil)

lemma placed_append:
  assumes "placed workers qs a st b st1" and "placed workers qs' b st1 c st2"
  shows "placed workers (qs @ qs') a st c st2"
proof -
  obtain out where 1: "b = a + int (length qs)" "sent st1 = sent st @ out" "all_sent (round_robin workers a qs) out"
    using assms(1) by (auto simp: placed_def)
  obtain out' where 2: "c = b + int (length qs')" "sent st2 = sent st1 @ out'" "all_sent (round_robin workers b qs') out'"
    using assms(2) by (auto simp: placed_def)
  have "all_sent (round_robin workers a (qs @ qs')) (out @ out')"
    unfolding round_robin_append using 1 2 by (auto intro: all_sent_append)
  then show ?thesis using 1 2 by (auto simp: placed_def)
qed

lemma place_queue_placed:
  assumes "place_queue (logged env) node prefix workers p worker i st = (Inr worker', st')"
  shows "placed workers (matches prefix p i) worker st worker' st'"
proof -
  from assms obtain index b where index: "map_of p ''sw_if_index'' = Some index" "placed_on prefix index i = Inr b"
    and rest: "(if \<not> b then returnS worker
        else bindS (liftS (getitem p ''queue_id'')) (\<lambda>queue.
             thenS (vpp_sw_interface_set_rx_placement (logged env) node index queue (worker mod workers))
               (returnS (worker + 1)))) st = (Inr worker', st')"
    by (auto simp: place_queue_def bindS_eq_Inr Inr_eq_bindE getitem_def split: option.splits)
  show ?thesis
  proof (cases b)
    case False
    then have "matches prefix p i = []" "worker' = worker" "st' = st"
      using rest index by (auto simp: matches_def split: option.splits)
    then show ?thesis by (simp add: placed_Nil)
  next
    case True
    then obtain queue msg d where queue: "map_of p ''queue_id'' = Some queue" and w: "worker' = worker + 1"
      and run: "request_reply (logged env) node ''sw_interface_set_rx_placement''
        (Inr (placement_args index queue (worker mod workers))) msg st = (Inr d, st')"
      using rest by (auto simp: bindS_eq_Inr thenS_eq_Inr voidS_eq_Inr with_host_def vpp_sw_interface_set_rx_placement_def
          getitem_def split: option.splits)
    have "matches prefix p i = [(index, queue)]" using index queue True by (simp add: matches_def)
    with request_reply_all_sent [OF run] w show ?thesis
      by (simp add: placed_def round_robin_def placement_command_def)
  qed
qed

lemma place_queues_placed:
  assumes "foldS (place_queue (logged env) node prefix workers p) worker ifcs st = (Inr worker', st')"
  shows "placed workers (concat (map (matches prefix p) ifcs)) worker st worker' st'"
  using assms
proof (induction ifcs arbitrary: worker st)
  case Nil
  then show ?case by (simp add: placed_Nil)
next
  case (Cons i ifcs)
  then obtain w1 st1 where "place_queue (logged env) node prefix workers p worker i st = (Inr w1, st1)"
    "foldS (place_queue (logged env) node prefix workers p) w1 ifcs st1 = (Inr worker', st')"
    by (auto simp: bindS_eq_Inr)
  then show ?case using Cons.IH place_queue_placed placed_append by fastforce
qed

lemma place_all_placed:
  assumes "foldS (\<lambda>w p. foldS (place_queue (logged env) node prefix workers p) w ifcs) worker ps st = (Inr worker', st')"
  shows "placed workers (queues prefix ps ifcs) worker st worker' st'"
  using assms
proof (induction ps arbitrary: worker st)
  case Nil
  then show ?case by (simp add: placed_Nil queues_def)
next
  case (Cons p ps)
  then obtain w1 st1 where "foldS (place_queue (logged env) node prefix workers p) worker ifcs st = (Inr w1, st1)"
    "foldS (\<lambda>w p. foldS (place_queue (logged env) node prefix workers p) w ifcs) w1 ps st1 = (Inr worker', st')"
    by (auto simp: bindS_eq_Inr)
  then show ?case using Cons.IH place_queues_placed placed_append by (fastforce simp: queues_def)
qed

text \<open>Each of \<open>c\<close> workers gets its share of \<open>n\<close> queues, rounded down or up.\<close>

lemma residue_count:
  assumes "w < c"
  shows "length (filter (\<lambda>i. i mod c = w) [0..<n]) = (n + (c - 1 - w)) div c"
proof (induction n)
  case 0
  then show ?case using assms by simp
next
  case (Suc n)
  have "Suc (n + (c - 1 - w)) mod c = 0 \<longleftrightarrow> n mod c = w"
  proof -
    have "Suc (n + (c - 1 - w)) mod c = (n mod c + (c - w)) mod c"
    proof -
      have "Suc (n + (c - 1 - w)) = n + (c - w)" using assms by linarith
      then show ?thesis by (simp only: mod_add_left_eq)
    qed
    moreover have "(n mod c + (c - w)) mod c = 0 \<longleftrightarrow> n mod c = w"
    proof -
      let ?r = "n mod c"
      have r: "?r < c" using assms by simp
      show ?thesis
      proof (cases "w \<le> ?r")
        case True
        then have "(?r + (c - w)) mod c = (?r - w) mod c" using assms r
          by (metis Nat.add_diff_assoc2 add.commute le_add_diff_inverse2 less_imp_le_nat mod_add_self2 diff_add_assoc)
        then show ?thesis using True r by simp
      next
        case False
        then have "?r + (c - w) < c" using assms by linarith
        then show ?thesis using False assms by simp
      qed
    qed
    ultimately show ?thesis by simp
  qed
  then show ?case using Suc by (simp add: div_Suc)
qed

lemma residue_share:
  assumes "w < c"
  shows "length (filter (\<lambda>i. i mod c = w) [0..<n]) \<in> {n div c, n div c + 1}"
proof -
  have "n div c \<le> (n + (c - 1 - w)) div c" by (rule div_le_mono) simp
  moreover have "(n + (c - 1 - w)) div c \<le> (n + c) div c" using assms by (intro div_le_mono) simp
  moreover have "(n + c) div c = n div c + 1" using assms by simp
  ultimately show ?thesis using residue_count [OF assms, of n] by auto
qed

definition worker_load :: "nat \<Rightarrow> papi_command list \<Rightarrow> nat" where
  "worker_load w cmds = length (filter (\<lambda>c. map_of (api_args c) ''worker_id'' = Some (VInt (int w))) cmds)"

lemma round_robin_load:
  assumes "w < c"
  shows "worker_load w (round_robin (int c) 0 qs) \<in> {length qs div c, length qs div c + 1}"
proof -
  have "worker_load w (round_robin (int c) 0 qs) = length (filter (\<lambda>i. i mod c = w) [0..<length qs])"
    by (simp add: worker_load_def round_robin_def filter_map comp_def placement_command_def placement_args_def
        zmod_int [symmetric])
  then show ?thesis using residue_share [OF assms, of "length qs"] by simp
qed

text \<open>
  C25. When the placement of receive queues returns and VPP has worker threads, the queues of the
  interfaces with the prefix were placed in the order of the dump, the queue with number \<open>i\<close> on the worker
  \<open>i\<close> modulo the number of workers, and the numbers of queues of two workers differ by at most one: each is
  the number of queues per worker, rounded down or up. Without workers nothing is placed.
\<close>

theorem round_robin_balanced:
  assumes "vpp_round_robin_rx_placement (logged env) node prefix st = (Inr (), st')"
  shows "\<exists>threads st1. vpp_show_threads (logged env) node st = (Inr threads, st1) \<and>
    (length threads = 1 \<longrightarrow> st' = st1) \<and>
    (1 < length threads \<longrightarrow>
      (\<exists>ps ifs st2 out. let c = length threads - 1; qs = queues prefix ps (map snd ifs); cmds = round_robin (int c) 0 qs
         in vpp_sw_interface_rx_placement_dump (logged env) node st1 = (Inr ps, st2) \<and>
            map_of node ''interfaces'' = Some (VDict ifs) \<and>
            sent st' = sent st2 @ out \<and> all_sent cmds out \<and>
            (\<forall>w<c. worker_load w cmds \<in> {length qs div c, length qs div c + 1})))"
proof -
  from assms obtain threads st1 where threads: "vpp_show_threads (logged env) node st = (Inr threads, st1)"
    and rest: "whenS (int (length threads) - 1 \<noteq> 0)
       (bindS (vpp_sw_interface_rx_placement_dump (logged env) node) (\<lambda>placements.
        bindS (liftS (interface_items node)) (\<lambda>ifs.
          voidS (foldS (\<lambda>worker_id placement.
              foldS (place_queue (logged env) node prefix (int (length threads) - 1) placement) worker_id (map snd ifs))
              0 placements)))) st1 = (Inr (), st')"
    by (auto simp: vpp_round_robin_rx_placement_def bindS_eq_Inr Let_def)
  have "st' = st1" if "length threads = 1" using that rest by (simp add: whenS_def)
  moreover have "\<exists>ps ifs st2 out. let c = length threads - 1; qs = queues prefix ps (map snd ifs); cmds = round_robin (int c) 0 qs
         in vpp_sw_interface_rx_placement_dump (logged env) node st1 = (Inr ps, st2) \<and>
            map_of node ''interfaces'' = Some (VDict ifs) \<and>
            sent st' = sent st2 @ out \<and> all_sent cmds out \<and>
            (\<forall>w<c. worker_load w cmds \<in> {length qs div c, length qs div c + 1})" if many: "1 < length threads"
  proof -
    obtain k where k: "length threads = Suc k" "0 < k" using many by (cases "length threads") auto
    then have c: "int (length threads) - 1 = int k" "length threads - 1 = k" by simp_all
    from rest [unfolded c] k obtain ps st2 ifs w' where
      dump: "vpp_sw_interface_rx_placement_dump (logged env) node st1 = (Inr ps, st2)"
      and ifs: "interface_items node = Inr ifs"
      and loop: "foldS (\<lambda>w p. foldS (place_queue (logged env) node prefix (int k) p) w (map snd ifs)) 0 ps st2 = (Inr w', st')"
      by (auto simp: whenS_def bindS_eq_Inr voidS_eq_Inr)
    from place_all_placed [OF loop] obtain out where
      "sent st' = sent st2 @ out" "all_sent (round_robin (int k) 0 (queues prefix ps (map snd ifs))) out"
      by (auto simp: placed_def)
    moreover have "map_of node ''interfaces'' = Some (VDict ifs)"
    proof -
      from ifs obtain v where "map_of node ''interfaces'' = Some v" "items v = Inr ifs"
        by (auto simp: interface_items_def interfaces_def getitem_def split: option.splits)
      then show ?thesis by (cases v) simp_all
    qed
    moreover have "\<forall>w<k. worker_load w (round_robin (int k) 0 (queues prefix ps (map snd ifs))) \<in>
        {length (queues prefix ps (map snd ifs)) div k, length (queues prefix ps (map snd ifs)) div k + 1}"
      using round_robin_load by blast
    ultimately show ?thesis unfolding Let_def c using dump by blast
  qed
  ultimately show ?thesis using threads by blast
qed

text \<open>A VPP with two workers and an interface with three receive queues.\<close>

definition rx_reply :: "string \<Rightarrow> papi_reply" where
  "rx_reply name =
     (let item = (\<lambda>fs. \<lparr>msg_class = name @ ''_reply'', msg_fields = Some fs\<rparr>)
      in if name = ''show_threads'' then Single (item [(''retval'', VInt 0), (''thread_data'', VList [VInt 0, VInt 1, VInt 2])])
         else if name = ''sw_interface_rx_placement_dump''
         then Several (map (\<lambda>q. item [(''sw_if_index'', VInt 1), (''queue_id'', VInt q)]) [0, 1, 2])
         else Single (item [(''retval'', VInt 0)]))"

definition rx_env :: "unit vpp_env" where
  "rx_env =
     \<lparr>has_message = (\<lambda>name. True), send = (\<lambda>name args w. (Inr (rx_reply name), w)),
      disconnect = (\<lambda>w. (Inr (), w)), connect_sync = (\<lambda>w. (Inr (), w)), sleep = (\<lambda>w. w),
      open_tunnel = (\<lambda>node socket w. (Inr (), w)), close_tunnel = (\<lambda>w. (Inr (), w))\<rparr>"

definition rx_node :: node where
  "rx_node =
     [(''host'', VStr ''10.0.0.1''), (''type'', VStr ''DUT''),
      (''interfaces'', VDict [(''port1'', VDict [(''name'', VStr ''avf-0''), (''vpp_sw_index'', VInt 1)])])]"

definition rx_checker :: crc_checker where
  "rx_checker =
     (let crcs = concat (map (\<lambda>n. [(VStr n, VStr ''0x1''), (VStr (n @ ''_reply''), VStr ''0x2'')])
        [''show_threads'', ''sw_interface_rx_placement_dump'', ''sw_interface_set_rx_placement''])
      in \<lparr>fail_on_mismatch = True, expected = [(''20.01'', crcs)], missing = [(''20.01'', [])], found = crcs,
          reported = [], initial_conflicts_reported = True\<rparr>)"

definition rx_state :: "string list \<Rightarrow> papi_command list \<Rightarrow> (unit \<times> papi_command list) papi_state" where
  "rx_state h l = \<lparr>ps_checker = rx_checker, ps_history = [(VStr ''10.0.0.1'', h)], ps_vpp = ((), l)\<rparr>"

lemma rx_items:
  "getitem rx_node ''host'' = Inr (VStr ''10.0.0.1'')"
  "interface_items rx_node = Inr [(''port1'', VDict [(''name'', VStr ''avf-0''), (''vpp_sw_index'', VInt 1)])]"
  by (simp_all add: rx_node_def getitem_def interface_items_def interfaces_def)

lemma rx_known:
  "report_initial_conflicts rx_checker b = (Inr (), rx_checker)"
  "name \<in> {''show_threads'', ''sw_interface_rx_placement_dump'', ''sw_interface_set_rx_placement''} \<Longrightarrow>
     check_api_name rx_checker (VStr name) = (Inr (), rx_checker)"
  "name \<in> {''show_threads'', ''sw_interface_rx_placement_dump'', ''sw_interface_set_rx_placement''} \<Longrightarrow>
     check_api_name rx_checker (VStr (name @ ''_reply'')) = (Inr (), rx_checker)"
  by (simp add: report_initial_conflicts_def rx_checker_def Let_def)
     (elim insertE emptyE; simp add: check_api_name_def rx_checker_def knows_def Let_def)+

lemma rx_add:
  assumes "name \<in> {''show_threads'', ''sw_interface_rx_placement_dump'', ''sw_interface_set_rx_placement''}"
    and "pe_node ex = rx_node"
  shows "papi_add ex name True kwargs (rx_state h l) =
    (Inr (), ex\<lparr>api_command_list := api_command_list ex @ [\<lparr>api_name = name, api_args = kwargs\<rparr>]\<rparr>,
     rx_state (h @ [history_item name True kwargs]) l)"
  using assms by (simp add: papi_add_def rx_known add_to_papi_history_def rx_items rx_state_def)

lemma unit_pair: "((), snd x) = x"
  by (cases x) simp

lemma rx_session:
  "with_papi (logged rx_env) rx_node SOCKSVR_PATH body (rx_state h l) =
     (case body (PapiSocketExecutor rx_node SOCKSVR_PATH) (rx_state h l) of (r, ex, st) \<Rightarrow> (r, st))"
  by (cases "body (PapiSocketExecutor rx_node SOCKSVR_PATH) (rx_state h l)")
     (simp add: with_papi_def papi_enter_def papi_exit_def rx_env_def logged_def lift_w_def rx_state_def numeral_2_eq_2
        unit_pair)

lemma rx_call:
  "has_message rx_env name"
  "call_api (logged rx_env) c ((), l) = (Inr (rx_reply (api_name c)), ((), l @ [c]))"
  by (simp_all add: call_api_def rx_env_def logged_def)

lemma rx_execute:
  assumes "api_name c \<in> {''show_threads'', ''sw_interface_rx_placement_dump'', ''sw_interface_set_rx_placement''}"
  shows "execute_commands (logged rx_env) msg 0 [c] [] (rx_state h l) =
    (Inr (map (\<lambda>i. the (msg_fields i)) (reply_items (rx_reply (api_name c)))), rx_state h (l @ [c]))"
  using assms rx_known(3) [of "''show_threads''"] rx_known(3) [of "''sw_interface_rx_placement_dump''"]
    rx_known(3) [of "''sw_interface_set_rx_placement''"]
  by (elim insertE emptyE; simp add: rx_state_def rx_call rx_reply_def is_int_def Let_def)

lemma rx_reply_run:
  assumes "name \<in> {''show_threads'', ''sw_interface_set_rx_placement''}"
  shows "request_reply (logged rx_env) rx_node name (Inr kwargs) msg (rx_state h l) =
    (Inr (the (msg_fields (hd (reply_items (rx_reply name))))),
     rx_state (h @ [history_item name True kwargs]) (l @ [\<lparr>api_name = name, api_args = kwargs\<rparr>]))"
  using assms
  by (elim insertE emptyE; simp add: request_reply_def requests_def rx_session run_requests_def rx_add
      PapiSocketExecutor_def get_reply_def get_replies_def papi_execute_def rx_execute del: execute_commands.simps)
     (simp_all add: rx_reply_def Let_def)

lemma rx_threads:
  "\<exists>h' l'. vpp_show_threads (logged rx_env) rx_node (rx_state h l) = (Inr [VInt 0, VInt 1, VInt 2], rx_state h' l')"
  by (simp add: vpp_show_threads_def bindS_def rx_reply_run rx_reply_def getitem_def liftS_def Let_def) blast

lemma rx_dump:
  "\<exists>h' l'. vpp_sw_interface_rx_placement_dump (logged rx_env) rx_node (rx_state h l) =
     (Inr (map (\<lambda>q. [(''sw_if_index'', VInt 1), (''queue_id'', VInt q)]) [0, 1, 2]), rx_state h' l')"
proof -
  let ?ds = "map (\<lambda>q. [(''sw_if_index'', VInt 1), (''queue_id'', VInt q)]) [0, 1, 2]"
  have fields: "map (\<lambda>i. the (msg_fields i)) (reply_items (rx_reply ''sw_interface_rx_placement_dump'')) = ?ds"
    by (simp add: rx_reply_def Let_def)
  have index: "getitem [(''name'', VStr ''avf-0''), (''vpp_sw_index'', VInt 1)] ''vpp_sw_index'' = Inr (VInt 1)"
    by (simp add: getitem_def)
  have "sort_by_index ?ds = Inr ?ds" by (simp add: sort_by_index_def getitem_def)
  then show ?thesis
    unfolding vpp_sw_interface_rx_placement_dump_def with_host_def
    by (simp add: rx_items index bindS_def rx_session rx_add PapiSocketExecutor_def get_details_def papi_execute_def
        rx_execute fields [simplified] liftS_def del: execute_commands.simps) blast
qed

lemma rx_place:
  "\<exists>h' l'. place_queue (logged rx_env) rx_node ''avf'' workers [(''sw_if_index'', VInt 1), (''queue_id'', q)] worker
       (VDict [(''name'', VStr ''avf-0''), (''vpp_sw_index'', VInt 1)]) (rx_state h l) = (Inr (worker + 1), rx_state h' l')"
proof -
  let ?p = "[(''sw_if_index'', VInt 1), (''queue_id'', q)]"
  have p: "getitem ?p ''sw_if_index'' = Inr (VInt 1)" "getitem ?p ''queue_id'' = Inr q" by (simp_all add: getitem_def)
  have "placed_on ''avf'' (VInt 1) (VDict [(''name'', VStr ''avf-0''), (''vpp_sw_index'', VInt 1)]) = Inr True"
    by (simp add: placed_on_def py_eq_def getitem_def startswith_def)
  then show ?thesis
    unfolding place_queue_def vpp_sw_interface_set_rx_placement_def with_host_def
    by (simp add: p rx_items bindS_def thenS_def voidS_def returnS_def rx_reply_run) blast
qed

theorem round_robin_balanced_witness:
  "\<exists>st' out. vpp_round_robin_rx_placement (logged rx_env) rx_node ''avf'' (rx_state [] []) = (Inr (), st') \<and>
     (\<exists>l. sent st' = l @ out) \<and>
     all_sent (map (\<lambda>(q, w). placement_command (VInt 1, VInt q) w) [(0, 0), (1, 1), (2, 0)]) out"
proof -
  let ?ps = "map (\<lambda>q. [(''sw_if_index'', VInt 1), (''queue_id'', VInt q)]) [0, 1, 2]"
  let ?i = "VDict [(''name'', VStr ''avf-0''), (''vpp_sw_index'', VInt 1)]"
  obtain h1 l1 where 1: "vpp_show_threads (logged rx_env) rx_node (rx_state [] []) =
      (Inr [VInt 0, VInt 1, VInt 2], rx_state h1 l1)"
    using rx_threads by blast
  obtain h2 l2 where 2: "vpp_sw_interface_rx_placement_dump (logged rx_env) rx_node (rx_state h1 l1) =
      (Inr ?ps, rx_state h2 l2)"
    using rx_dump by blast
  have place: "\<exists>h' l'. place_queue (logged rx_env) rx_node ''avf'' 2 [(''sw_if_index'', VInt 1), (''queue_id'', VInt q)] w ?i
      (rx_state h l) = (Inr (w + 1), rx_state h' l')" for q w h l
    by (rule rx_place)
  obtain h3 l3 where 3: "place_queue (logged rx_env) rx_node ''avf'' 2 [(''sw_if_index'', VInt 1), (''queue_id'', VInt 0)] 0 ?i
      (rx_state h2 l2) = (Inr 1, rx_state h3 l3)" using place [of 0 0 h2 l2] by auto
  obtain h4 l4 where 4: "place_queue (logged rx_env) rx_node ''avf'' 2 [(''sw_if_index'', VInt 1), (''queue_id'', VInt 1)] 1 ?i
      (rx_state h3 l3) = (Inr 2, rx_state h4 l4)" using place [of 1 1 h3 l3] by auto
  obtain h5 l5 where 5: "place_queue (logged rx_env) rx_node ''avf'' 2 [(''sw_if_index'', VInt 1), (''queue_id'', VInt 2)] 2 ?i
      (rx_state h4 l4) = (Inr 3, rx_state h5 l5)" using place [of 2 2 h4 l4] by auto
  have run: "vpp_round_robin_rx_placement (logged rx_env) rx_node ''avf'' (rx_state [] []) = (Inr (), rx_state h5 l5)"
    by (simp add: vpp_round_robin_rx_placement_def bindS_def 1 2 3 4 5 rx_items liftS_def whenS_def voidS_def returnS_def Let_def)
  from round_robin_balanced [OF run] 1 2 obtain out where
    "sent (rx_state h5 l5) = sent (rx_state h2 l2) @ out"
    "all_sent (round_robin 2 0 (queues ''avf'' ?ps [?i])) out"
    by (auto simp: Let_def rx_node_def)
  moreover have "queues ''avf'' ?ps [?i] = [(VInt 1, VInt 0), (VInt 1, VInt 1), (VInt 1, VInt 2)]"
    by (simp add: queues_def matches_def placed_on_def py_eq_def getitem_def startswith_def)
  ultimately show ?thesis using run by (auto simp: round_robin_def)
qed

section \<open>New ports\<close>



























end
