(* ===== verification/Vat.thy ===== *)
theory Vat
  imports DUTSetup Testbed
begin

text \<open>
  \<^verbatim>\<open>VatExecutor.py\<close>: running scripts of the VPP API test tool on a node. The object keeps the result of the
  last script; the lines of a copied script go into the history of the API (\<open>Papi\<close>). Files on the
  executor are a parameter.
\<close>

record 'w local_files =
  lf_write :: "string \<Rightarrow> string \<Rightarrow> 'w \<Rightarrow> unit res \<times> 'w"
  lf_read :: "string \<Rightarrow> 'w \<Rightarrow> string res \<times> 'w"
  lf_remove :: "string \<Rightarrow> 'w \<Rightarrow> unit res \<times> 'w"

definition on_files :: "('w \<Rightarrow> 'a res \<times> 'w) \<Rightarrow> ('w ssh_state papi_state, 'a) act" where
  "on_files m = sshP (on_world m)"

definition REMOTE_FW_DIR :: string where
  "REMOTE_FW_DIR = ''/tmp/openvpp-testing''"

definition RESOURCES_TPL_VAT :: string where
  "RESOURCES_TPL_VAT = ''resources/templates/vat''"

definition VAT_BIN_NAME :: string where
  "VAT_BIN_NAME = ''vpp_api_test''"

definition vat_script_path :: "string \<Rightarrow> string" where
  "vat_script_path vat_name = REMOTE_FW_DIR @ ''/'' @ RESOURCES_TPL_VAT @ ''/'' @ vat_name"

definition cleanup_vat_json_output :: "string \<Rightarrow> string \<Rightarrow> string" where
  "cleanup_vat_json_output json_output vat_name =
     fold (\<lambda>garbage s. replace_all garbage [] s)
       ([''vat#'', ''dump_interface_table error: Misc''] @
        (if vat_name = [] then [] else [vat_script_path vat_name @ ''(2):''])) json_output"

definition get_vpp_pid :: "'w paramiko \<Rightarrow> node \<Rightarrow> ('w ssh_state, int list option) act" where
  "get_vpp_pid pk node = get_pid pk node ''vpp''"

record vat_executor =
  vat_result :: "(int \<times> string \<times> string) option"
  vat_script_name :: "string option"

definition VatExecutor :: vat_executor where
  "VatExecutor = \<lparr>vat_result = None, vat_script_name = None\<rparr>"

definition historyS :: "node \<Rightarrow> string \<Rightarrow> ('w papi_state, unit) act" where
  "historyS node line st =
     (case add_to_papi_history node line False [] (ps_history st) of (r, h) \<Rightarrow> (r, st\<lparr>ps_history := h\<rparr>))"

text \<open>The lines of a file, without their ends.\<close>

definition file_lines :: "string \<Rightarrow> string list" where
  "file_lines s = (let ls = split_on (CHR 0x0A) s in if last ls = [] then butlast ls else ls)"

definition is_timeout :: "py_error \<Rightarrow> bool" where
  "is_timeout e \<longleftrightarrow> e = PyException ''SSHTimeout''"

definition execute_script ::
    "'w paramiko \<Rightarrow> 'w local_files \<Rightarrow> string \<Rightarrow> node \<Rightarrow> int \<Rightarrow> bool \<Rightarrow> bool \<Rightarrow> bool \<Rightarrow> ('w ssh_state papi_state, vat_executor) act" where
  "execute_script pk lf vat_name node timeout json_out copy_on_execute history =
     bindS (catchS (sshP (ssh_connect pk node 5)) (\<lambda>e. liftS (Inl SSHException))) (\<lambda>ssh.
     bindS (if copy_on_execute
            then thenS (sshP (ssh_scp pk ssh vat_name vat_name False 30))
                 (thenS (whenS history
                    (bindS (on_files (lf_read lf vat_name)) (\<lambda>text. forS (historyS node) (file_lines text))))
                  (returnS vat_name))
            else returnS (vat_script_path vat_name)) (\<lambda>remote_file_path.
     bindS (catchS (sshP (exec_command_sudo pk ssh
              (VAT_BIN_NAME @ (if json_out then '' json'' else []) @ '' in '' @ remote_file_path @ '' script'')
              None timeout))
         (\<lambda>e. liftS (Inl (if is_timeout e then e else RuntimeError ''VAT script execution failed'')))) (\<lambda>r.
       returnS \<lparr>vat_result = Some r, vat_script_name = Some vat_name\<rparr>)))"

definition write_and_execute_script ::
    "'w paramiko \<Rightarrow> 'w local_files \<Rightarrow> node \<Rightarrow> string \<Rightarrow> string list \<Rightarrow> int \<Rightarrow> bool \<Rightarrow> ('w ssh_state papi_state, vat_executor) act" where
  "write_and_execute_script pk lf node tmp_fn commands timeout json_out =
     thenS (on_files (lf_write lf tmp_fn (concat commands)))
     (bindS (execute_script pk lf tmp_fn node timeout json_out True True) (\<lambda>vat.
      thenS (on_files (lf_remove lf tmp_fn)) (returnS vat)))"

definition execute_script_json_out ::
    "'w paramiko \<Rightarrow> 'w local_files \<Rightarrow> string \<Rightarrow> node \<Rightarrow> int \<Rightarrow> ('w ssh_state papi_state, vat_executor) act" where
  "execute_script_json_out pk lf vat_name node timeout =
     bindS (execute_script pk lf vat_name node timeout True False True) (\<lambda>vat.
       returnS (vat\<lparr>vat_result := map_option (\<lambda>(rc, out, err). (rc, cleanup_vat_json_output out vat_name, err)) (vat_result vat)\<rparr>))"

definition script_should_have_failed :: "vat_executor \<Rightarrow> unit res" where
  "script_should_have_failed vat =
     (case vat_result vat of
        None \<Rightarrow> Inl (PyException ''Exception'')
      | Some (rc, _) \<Rightarrow> if rc = 0 then Inl (AssertionError ''VAT Script execution passed, but failure was expected'') else Inr ())"

definition script_should_have_passed :: "vat_executor \<Rightarrow> unit res" where
  "script_should_have_passed vat =
     (case vat_result vat of
        None \<Rightarrow> Inl (PyException ''Exception'')
      | Some (rc, _) \<Rightarrow> if rc \<noteq> 0 then Inl (AssertionError ''VAT Script execution failed, but success was expected'') else Inr ())"

definition get_script_stdout :: "vat_executor \<Rightarrow> string option" where
  "get_script_stdout vat = map_option (\<lambda>(rc, out, err). out) (vat_result vat)"

definition get_script_stderr :: "vat_executor \<Rightarrow> string option" where
  "get_script_stderr vat = map_option (\<lambda>(rc, out, err). err) (vat_result vat)"

section \<open>Scripts as the other keywords use them\<close>

text \<open>
  Keywords that configure many objects write a script, run it and remove it; those that generate keys
  draw random letters; and some copy a file to a node. The rest of such a keyword is the same for every world, so
  they take these operations as an argument: \<open>vat_host\<close> gives them the definitions above.
\<close>

record 'w executor_host =
  run_script :: "node \<Rightarrow> string \<Rightarrow> string \<Rightarrow> int \<Rightarrow> bool \<Rightarrow> ('w papi_state, unit) act"
  put_file :: "node \<Rightarrow> string \<Rightarrow> string \<Rightarrow> ('w papi_state, unit) act"
  choice :: "string \<Rightarrow> ('w papi_state, char) act"

definition vat_host :: "'w paramiko \<Rightarrow> 'w local_files \<Rightarrow> (string \<Rightarrow> 'w \<Rightarrow> char res \<times> 'w) \<Rightarrow> 'w ssh_state executor_host" where
  "vat_host pk lf rnd =
     \<lparr>run_script = (\<lambda>node tmp_fn text timeout history.
        thenS (on_files (lf_write lf tmp_fn text))
        (thenS (execute_script pk lf tmp_fn node timeout False True history)
         (on_files (lf_remove lf tmp_fn)))),
      put_file = (\<lambda>node path text. thenS (on_files (lf_write lf path text)) (sshP (scp_node pk node path path False 30 False))),
      choice = (\<lambda>letters. on_files (rnd letters))\<rparr>"

lemma write_and_execute_is_run_script:
  "voidS (write_and_execute_script pk lf node tmp_fn commands timeout False) =
     run_script (vat_host pk lf rnd) node tmp_fn (concat commands) timeout True"
proof -
  have "bindS m (\<lambda>_ :: unit. returnS ()) = m" for m :: "('w ssh_state papi_state, unit) act"
    using bindS_returnS [of m] by simp
  then show ?thesis by (simp add: write_and_execute_script_def vat_host_def voidS_def thenS_def)
qed

end
