(* ===== verification/Lab.thy ===== *)
theory Lab
  imports Testbed
begin

text \<open>
  A concrete VPP for examples: every command of a list is known and gets one reply, whose fields depend on the
  command. The state keeps the history of one host and the list of the commands VPP has received,
  and each step of a session is an equation between such states.
\<close>

definition lab_checker :: "string list \<Rightarrow> crc_checker" where
  "lab_checker names =
     \<lparr>fail_on_mismatch = False, expected = [], missing = [], found = [],
      reported = map (\<lambda>n. (VStr n, VStr ''0x1'')) (names @ map (\<lambda>n. n @ ''_reply'') names),
      initial_conflicts_reported = True\<rparr>"

definition lab_env :: "(string \<Rightarrow> pyobj) \<Rightarrow> unit vpp_env" where
  "lab_env answer =
     \<lparr>has_message = (\<lambda>name. True),
      send = (\<lambda>name args w. (Inr (Single \<lparr>msg_class = name @ ''_reply'', msg_fields = Some (answer name)\<rparr>), w)),
      disconnect = (\<lambda>w. (Inr (), w)), connect_sync = (\<lambda>w. (Inr (), w)), sleep = (\<lambda>w. w),
      open_tunnel = (\<lambda>node socket w. (Inr (), w)), close_tunnel = (\<lambda>w. (Inr (), w))\<rparr>"

definition lab_state :: "string list \<Rightarrow> string \<Rightarrow> string list \<Rightarrow> papi_command list \<Rightarrow> (unit \<times> papi_command list) papi_state" where
  "lab_state names host h l = \<lparr>ps_checker = lab_checker names, ps_history = [(VStr host, h)], ps_vpp = ((), l)\<rparr>"

lemma lab_sent [simp]: "snd (ps_vpp (lab_state names host h l)) = l"
  by (simp add: lab_state_def)

lemma map_of_keys: "map_of (map (\<lambda>n. (VStr n, v)) ns) (VStr k) = None \<longleftrightarrow> k \<notin> set ns"
  by (auto simp: map_of_eq_None_iff image_image)

lemma lab_known [simp]:
  "report_initial_conflicts (lab_checker names) b = (Inr (), lab_checker names)"
  "name \<in> set names \<Longrightarrow> check_api_name (lab_checker names) (VStr name) = (Inr (), lab_checker names)"
  "name \<in> set names \<Longrightarrow> check_api_name (lab_checker names) (VStr (name @ ''_reply'')) = (Inr (), lab_checker names)"
proof -
  show "report_initial_conflicts (lab_checker names) b = (Inr (), lab_checker names)"
    by (simp add: report_initial_conflicts_def lab_checker_def)
  have known: "check_api_name (lab_checker names) (VStr m) = (Inr (), lab_checker names)"
    if "m \<in> set (names @ map (\<lambda>n. n @ ''_reply'') names)" for m
  proof -
    have "map_of (reported (lab_checker names)) (VStr m) \<noteq> None"
      using that by (simp only: lab_checker_def crc_checker.simps map_of_keys not_not)
    then show ?thesis by (simp only: check_api_name_def if_True not_False_eq_True simp_thms)
  qed
  show "check_api_name (lab_checker names) (VStr name) = (Inr (), lab_checker names)" if "name \<in> set names"
    using that by (intro known) simp
  show "check_api_name (lab_checker names) (VStr (name @ ''_reply'')) = (Inr (), lab_checker names)" if "name \<in> set names"
    using that by (intro known) simp
qed

definition written :: "bool \<Rightarrow> string \<Rightarrow> pyobj \<Rightarrow> string list \<Rightarrow> string list" where
  "written history cmd kwargs h = (if history then h @ [history_item cmd True kwargs] else h)"

lemma lab_add:
  assumes "cmd \<in> set names" and "map_of (pe_node ex) ''host'' = Some (VStr host)"
  shows "papi_add ex cmd history kwargs (lab_state names host h l) =
    (Inr (), ex\<lparr>api_command_list := api_command_list ex @ [\<lparr>api_name = cmd, api_args = kwargs\<rparr>]\<rparr>,
     lab_state names host (written history cmd kwargs h) l)"
  using assms by (simp add: papi_add_def add_to_papi_history_def lab_state_def written_def getitem_def)

lemma lab_addX:
  "cmd \<in> set names \<Longrightarrow> map_of (pe_node ex) ''host'' = Some (VStr host) \<Longrightarrow>
    addX cmd history kwargs (ex, lab_state names host h l) =
      (Inr (), ex\<lparr>api_command_list := api_command_list ex @ [\<lparr>api_name = cmd, api_args = kwargs\<rparr>]\<rparr>,
       lab_state names host (written history cmd kwargs h) l)"
  by (simp add: addX_def lab_add)

lemma lab_execute:
  assumes "api_name ` set cs \<subseteq> set names" and "\<And>n. map_of (answer n) ''retval'' \<in> {None, Some (VInt 0)}"
  shows "execute_commands (logged (lab_env answer)) msg 0 cs rs (lab_state names host h l) =
    (Inr (rs @ map (\<lambda>c. answer (api_name c)) cs), lab_state names host h (l @ cs))"
  using assms(1)
proof (induction cs arbitrary: rs l)
  case Nil
  then show ?case by simp
next
  case (Cons c cs)
  have "has_message (logged (lab_env answer)) (api_name c)"
    by (simp add: logged_def lab_env_def)
  moreover have "call_api (logged (lab_env answer)) c ((), l) =
      (Inr (Single \<lparr>msg_class = api_name c @ ''_reply'', msg_fields = Some (answer (api_name c))\<rparr>), ((), l @ [c]))"
    by (simp add: call_api_def logged_def lab_env_def)
  ultimately show ?case
    using Cons assms(2) [of "api_name c"]
    by (cases "map_of (answer (api_name c)) ''retval''") (auto simp: lab_state_def is_int_def)
qed

lemma lab_repliesX:
  assumes "api_name ` set (api_command_list ex) \<subseteq> set names" and "\<And>n. map_of (answer n) ''retval'' \<in> {None, Some (VInt 0)}"
  shows "repliesX (logged (lab_env answer)) msg (ex, lab_state names host h l) =
    (Inr (map (\<lambda>c. answer (api_name c)) (api_command_list ex)), ex\<lparr>api_command_list := []\<rparr>,
     lab_state names host h (l @ api_command_list ex))"
  using assms by (simp add: repliesX_def get_replies_def papi_execute_def lab_execute)

lemma unit_first: "((), snd x) = x"
  by (cases x) simp

lemma lab_session:
  "in_session (logged (lab_env answer)) node m (lab_state names host h l) =
     (case m (PapiSocketExecutor node SOCKSVR_PATH, lab_state names host h l) of (r, ex, st) \<Rightarrow> (r, st))"
  by (cases "m (PapiSocketExecutor node SOCKSVR_PATH, lab_state names host h l)")
     (simp add: in_session_def with_papi_def papi_enter_def papi_exit_def lab_env_def logged_def lift_w_def lab_state_def
        numeral_2_eq_2 unit_first)

lemmas lab_steps = lab_addX lab_repliesX lab_session

text \<open>A host whose scripts do nothing and whose random letters are all the same.\<close>

definition ok_answer :: "string \<Rightarrow> pyobj" where
  "ok_answer name = [(''retval'', VInt 0), (''sw_if_index'', VInt 7)]"

lemma ok_answer_retval [simp]: "map_of (ok_answer n) ''retval'' \<in> {None, Some (VInt 0)}"
  by (simp add: ok_answer_def)

definition lab_dut :: node where
  "lab_dut = [(''type'', VStr ''DUT''), (''host'', VStr ''10.10.0.1''),
     (''interfaces'', VDict [(''port1'', VDict [(''name'', VStr ''eth1''), (''vpp_sw_index'', VInt 1),
        (''mac_address'', VStr ''02:00:00:00:00:01'')])])]"

lemma lab_dut_host [simp]: "map_of lab_dut ''host'' = Some (VStr ''10.10.0.1'')" "getitem lab_dut ''host'' = Inr (VStr ''10.10.0.1'')"
  by (simp_all add: lab_dut_def getitem_def)

lemmas lab_ok = lab_repliesX [where answer = ok_answer, OF _ ok_answer_retval]

lemma lab_replyX:
  assumes "api_command_list ex = [c]" and "api_name c \<in> set names"
  shows "replyX (logged (lab_env ok_answer)) msg (ex, lab_state names host h l) =
      (Inr (ok_answer (api_name c)), ex\<lparr>api_command_list := []\<rparr>, lab_state names host h (l @ [c]))"
    and "sw_if_indexX (logged (lab_env ok_answer)) msg (ex, lab_state names host h l) =
      (Inr (VInt 7), ex\<lparr>api_command_list := []\<rparr>, lab_state names host h (l @ [c]))"
proof -
  have "get_replies (logged (lab_env ok_answer)) ex msg (lab_state names host h l) =
      (Inr [ok_answer (api_name c)], ex\<lparr>api_command_list := []\<rparr>, lab_state names host h (l @ [c]))"
    using lab_ok [of ex names msg host h l] assms by (simp add: repliesX_def)
  moreover have "getitem (ok_answer n) ''sw_if_index'' = Inr (VInt 7)" for n
    by (simp add: ok_answer_def getitem_def)
  ultimately show "replyX (logged (lab_env ok_answer)) msg (ex, lab_state names host h l) =
      (Inr (ok_answer (api_name c)), ex\<lparr>api_command_list := []\<rparr>, lab_state names host h (l @ [c]))"
    and "sw_if_indexX (logged (lab_env ok_answer)) msg (ex, lab_state names host h l) =
      (Inr (VInt 7), ex\<lparr>api_command_list := []\<rparr>, lab_state names host h (l @ [c]))"
    by (simp_all add: replyX_def sw_if_indexX_def get_sw_if_index_def get_reply_def)
qed

lemmas lab_eval = lab_session lab_addX lab_ok lab_replyX PapiSocketExecutor_def bindS_def thenS_def liftS_def returnS_def
  voidS_def whenS_def with_host_def

end
