(* ===== verification/IPsecUtil.thy ===== *)
theory IPsecUtil
  imports Vat IPUtil InterfaceUtil Lab
begin

unbundle bit_operations_syntax

text \<open>
  \<^verbatim>\<open>IPsecUtil.py\<close>: security associations, policies and tunnel interfaces, each configured through the API when there
  are few of them and by a script of the test tool when there are many (\<open>Vat\<close>). The two ways
  are compared with one list of associations, and the two ends of the tunnel interfaces with each other.
\<close>

section \<open>Enumerations\<close>

datatype policy_action = BYPASS | DISCARD | PROTECT

fun policy_int_repr :: "policy_action \<Rightarrow> int" where
  "policy_int_repr BYPASS = 0"
| "policy_int_repr DISCARD = 1"
| "policy_int_repr PROTECT = 3"

datatype crypto_alg = AES_CBC_128 | AES_CBC_256 | AES_GCM_128 | AES_GCM_256

text \<open>The name, the number, the name in scapy and the length of the key.\<close>

fun crypto_value :: "crypto_alg \<Rightarrow> string \<times> int \<times> string \<times> nat" where
  "crypto_value AES_CBC_128 = (''aes-cbc-128'', 1, ''AES-CBC'', 16)"
| "crypto_value AES_CBC_256 = (''aes-cbc-256'', 3, ''AES-CBC'', 32)"
| "crypto_value AES_GCM_128 = (''aes-gcm-128'', 7, ''AES-GCM'', 16)"
| "crypto_value AES_GCM_256 = (''aes-gcm-256'', 9, ''AES-GCM'', 32)"

datatype integ_alg = SHA_256_128 | SHA_512_256

fun integ_value :: "integ_alg \<Rightarrow> string \<times> int \<times> string \<times> nat" where
  "integ_value SHA_256_128 = (''sha-256-128'', 4, ''SHA2-256-128'', 32)"
| "integ_value SHA_512_256 = (''sha-512-256'', 6, ''SHA2-512-256'', 64)"

definition alg_name :: "string \<times> int \<times> string \<times> nat \<Rightarrow> string" where
  "alg_name a = fst a"

definition alg_int_repr :: "string \<times> int \<times> string \<times> nat \<Rightarrow> int" where
  "alg_int_repr a = fst (snd a)"

definition get_crypto_alg_scapy_name :: "crypto_alg \<Rightarrow> string" where
  "get_crypto_alg_scapy_name a = fst (snd (snd (crypto_value a)))"

definition get_crypto_alg_key_len :: "crypto_alg \<Rightarrow> nat" where
  "get_crypto_alg_key_len a = snd (snd (snd (crypto_value a)))"

definition get_integ_alg_scapy_name :: "integ_alg \<Rightarrow> string" where
  "get_integ_alg_scapy_name a = fst (snd (snd (integ_value a)))"

definition get_integ_alg_key_len :: "integ_alg \<Rightarrow> nat" where
  "get_integ_alg_key_len a = snd (snd (snd (integ_value a)))"

definition integ_int :: "integ_alg option \<Rightarrow> int" where
  "integ_int a = (case a of None \<Rightarrow> 0 | Some i \<Rightarrow> alg_int_repr (integ_value i))"

definition IPSEC_API_PROTO_ESP :: int where
  "IPSEC_API_PROTO_ESP = 50"

definition IPSEC_API_PROTO_AH :: int where
  "IPSEC_API_PROTO_AH = 51"

definition ascii_letters :: string where
  "ascii_letters = ''abcdefghijklmnopqrstuvwxyzABCDEFGHIJKLMNOPQRSTUVWXYZ''"

text \<open>\<^verbatim>\<open>encode(encoding="utf-8")\<close> of a string with code points below 256.\<close>

definition utf8 :: "string \<Rightarrow> 8 word list" where
  "utf8 s = concat (map (\<lambda>c. let n = of_char c :: nat in
     if n < 128 then [of_nat n] else [of_nat (192 + n div 64), of_nat (128 + n mod 64)]) s)"

definition gen_key :: "'w executor_host \<Rightarrow> nat \<Rightarrow> ('w papi_state, 8 word list) act" where
  "gen_key host len = bindS (collectS (\<lambda>_. choice host ascii_letters) [0..<len]) (\<lambda>cs. returnS (utf8 cs))"

section \<open>Backend and mode\<close>

definition vpp_ipsec_select_backend :: "'w vpp_env \<Rightarrow> node \<Rightarrow> pyval \<Rightarrow> pyval \<Rightarrow> ('w papi_state, unit) act" where
  "vpp_ipsec_select_backend env node protocol index =
     with_host node (\<lambda>host. voidS (request_reply env node ''ipsec_select_backend''
       (Inr [(''protocol'', protocol), (''index'', index)]) (''Failed to select IPsec backend on host '' @ host)))"

definition vpp_ipsec_set_async_mode :: "'w vpp_env \<Rightarrow> node \<Rightarrow> pyval \<Rightarrow> ('w papi_state, unit) act" where
  "vpp_ipsec_set_async_mode env node async_enable =
     with_host node (\<lambda>host. voidS (request_reply env node ''ipsec_set_async_mode''
       (Inr [(''async_enable'', async_enable)]) (''Failed to set IPsec async mode on host '' @ host)))"

section \<open>Security associations\<close>

definition ckey_dict :: "8 word list \<Rightarrow> pyval" where
  "ckey_dict k = VDict [(''length'', VInt (int (length k))), (''data'', VBytes k)]"

definition ikey_dict :: "8 word list \<Rightarrow> pyval" where
  "ikey_dict k = VDict [(''length'', VInt (int (length k))), (''data'', if k = [] then VInt 0 else VBytes k)]"

text \<open>A key that is a string is encoded.\<close>

definition key_bytes :: "pyval \<Rightarrow> 8 word list res" where
  "key_bytes v = (case v of VStr s \<Rightarrow> Inr (utf8 s) | VBytes b \<Rightarrow> Inr b | _ \<Rightarrow> Inl type_error)"

definition sad_flags :: "nat option \<Rightarrow> int" where
  "sad_flags tunnel_version = (case tunnel_version of None \<Rightarrow> 0 | Some v \<Rightarrow> if v = 6 then 12 else 4)"

definition sad_entry ::
    "crypto_alg \<Rightarrow> 8 word list \<Rightarrow> integ_alg option \<Rightarrow> 8 word list \<Rightarrow> int \<Rightarrow> int \<Rightarrow> int \<Rightarrow> string \<Rightarrow> string \<Rightarrow> pyobj" where
  "sad_entry alg ckey integ ikey flags sad_id spi src dst =
     [(''is_add'', VBool True),
      (''entry'', VDict
         [(''sad_id'', VInt sad_id), (''spi'', VInt spi), (''crypto_algorithm'', VInt (alg_int_repr (crypto_value alg))),
          (''crypto_key'', ckey_dict ckey), (''integrity_algorithm'', VInt (integ_int integ)),
          (''integrity_key'', ikey_dict ikey), (''flags'', VInt flags), (''tunnel_src'', VStr src), (''tunnel_dst'', VStr dst),
          (''protocol'', VInt IPSEC_API_PROTO_ESP), (''udp_src_port'', VInt 4500), (''udp_dst_port'', VInt 4500)])]"

definition vpp_ipsec_add_sad_entry ::
    "'w vpp_env \<Rightarrow> node \<Rightarrow> pyval \<Rightarrow> pyval \<Rightarrow> crypto_alg \<Rightarrow> pyval \<Rightarrow> integ_alg option \<Rightarrow> pyval \<Rightarrow> string \<Rightarrow> string \<Rightarrow> ('w papi_state, unit) act" where
  "vpp_ipsec_add_sad_entry env node sad_id spi alg crypto_key integ integ_key tunnel_src tunnel_dst =
     voidS (request_reply env node ''ipsec_sad_entry_add_del''
       (bindE (key_bytes crypto_key) (\<lambda>ckey.
        bindE (key_bytes integ_key) (\<lambda>ikey.
        bindE (if tunnel_src \<noteq> [] \<and> tunnel_dst \<noteq> []
               then bindE (ip_address tunnel_src) (\<lambda>s. bindE (ip_address tunnel_dst) (\<lambda>d.
                      Inr (sad_flags (Some (version s)), ip_str s, ip_str d)))
               else Inr (sad_flags None, [], [])) (\<lambda>(flags, src, dst).
        bindE (getitem node ''host'') (\<lambda>host.
        bindE (py_int sad_id) (\<lambda>n.
        bindE (py_int spi) (\<lambda>p.
        Inr (sad_entry alg ckey integ ikey flags n p src dst))))))))
       ''Failed to add Security Association Database entry'')"

text \<open>
  Many entries: identifiers and indices count up and the tunnel addresses advance by one subnet (a /24 or a /96) for
  each. Without tunnel addresses the address is the empty string, which has no version. Only the
  first two and the last two commands go into the history. A script whose lines cannot all be computed is
  not run; the file with its first lines, which then stays behind on the executor, is left out.
\<close>

definition noted :: "int \<Rightarrow> nat \<Rightarrow> bool" where
  "noted n i \<longleftrightarrow> \<not> (1 < int i \<and> int i < n - 2)"

definition sad_line ::
    "crypto_alg \<Rightarrow> 8 word list \<Rightarrow> integ_alg option \<Rightarrow> 8 word list \<Rightarrow> int \<Rightarrow> int \<Rightarrow> ipaddr \<Rightarrow> ipaddr \<Rightarrow> string" where
  "sad_line alg ckey integ ikey sad_id spi src dst =
     (let integ_text = (case integ of None \<Rightarrow> []
            | Some i \<Rightarrow> ''integ-alg '' @ alg_name (integ_value i) @ '' integ-key '' @ bytes_hex ikey);
          tunnel = ''tunnel-src '' @ ip_str src @ '' tunnel-dst '' @ ip_str dst
      in ''exec ipsec sa add '' @ str_of_int sad_id @ '' esp spi '' @ str_of_int spi @ '' crypto-alg '' @
         alg_name (crypto_value alg) @ '' crypto-key '' @ bytes_hex ckey @ '' '' @ integ_text @ '' '' @ tunnel @ [CHR 10])"

definition vpp_ipsec_add_sad_entries ::
    "'w vpp_env \<Rightarrow> 'w executor_host \<Rightarrow> node \<Rightarrow> int \<Rightarrow> int \<Rightarrow> int \<Rightarrow> crypto_alg \<Rightarrow> pyval \<Rightarrow> integ_alg option \<Rightarrow> pyval \<Rightarrow>
     string \<Rightarrow> string \<Rightarrow> ('w papi_state, unit) act" where
  "vpp_ipsec_add_sad_entries env host node n_entries sad_id spi alg crypto_key integ integ_key tunnel_src tunnel_dst =
     bindS (liftS (key_bytes crypto_key)) (\<lambda>ckey.
     bindS (liftS (key_bytes integ_key)) (\<lambda>ikey.
     if tunnel_src = [] \<or> tunnel_dst = [] then liftS (Inl AttributeError)
     else bindS (liftS (ip_address tunnel_src)) (\<lambda>src_addr.
     bindS (liftS (ip_address tunnel_dst)) (\<lambda>dst_addr.
       let addr_incr = (if version src_addr = 6 then 2 ^ 32 else 2 ^ 8 :: int)
       in if n_entries > 10
          then bindS (liftS (mapE (\<lambda>i.
                 bindE (ip_add src_addr (int i * addr_incr)) (\<lambda>s.
                 bindE (ip_add dst_addr (int i * addr_incr)) (\<lambda>d.
                 Inr (sad_line alg ckey integ ikey (sad_id + int i) (spi + int i) s d)))) [0..<nat n_entries])) (\<lambda>ls.
               run_script host node (''/tmp/ipsec_sad_'' @ str_of_int sad_id @ ''_add_del_entry.script'') (concat ls) 300 True)
          else with_host node (\<lambda>h.
               in_session env node (thenS
                 (forS (\<lambda>i.
                    bindS (liftS (bindE (ip_add src_addr (int i * addr_incr)) (\<lambda>s.
                        bindE (ip_add dst_addr (int i * addr_incr)) (\<lambda>d. Inr (s, d))))) (\<lambda>(s, d).
                      addX ''ipsec_sad_entry_add_del'' (noted n_entries i)
                        (sad_entry alg ckey integ ikey (sad_flags (Some (version src_addr)))
                           (sad_id + int i) (spi + int i) (ip_str s) (ip_str d))))
                    [0..<nat n_entries])
                 (voidS (repliesX env (''Failed to add Security Association Database entry on host '' @ h)))))))))"

section \<open>Addresses and routes of the tunnels\<close>

text \<open>\<^verbatim>\<open>1 << n\<close>.\<close>

definition shift_one :: "int \<Rightarrow> int res" where
  "shift_one n = (if n < 0 then Inl (ValueError ''negative shift count'') else Inr (2 ^ nat n))"

definition subnet_step :: "ipaddr \<Rightarrow> int \<Rightarrow> int res" where
  "subnet_step a prefix_len = shift_one ((if version a = 6 then 128 else 32) - prefix_len)"

definition host_len :: "ipaddr \<Rightarrow> int" where
  "host_len a = (if version a = 6 then 128 else 32)"

definition route_line :: "string \<Rightarrow> int \<Rightarrow> ipaddr \<Rightarrow> ipaddr \<Rightarrow> ipaddr \<Rightarrow> string" where
  "route_line if_name raddr_range s t d =
     ''exec set interface ip address '' @ if_name @ '' '' @ ip_str s @ ''/'' @ str_of_int raddr_range @ [CHR 10] @
     ''exec ip route add '' @ ip_str t @ ''/'' @ str_of_int (host_len t) @ '' via '' @ ip_str d @ '' '' @ if_name @ [CHR 10]"

definition vpp_ipsec_set_ip_route ::
    "'w vpp_env \<Rightarrow> 'w executor_host \<Rightarrow> node \<Rightarrow> int \<Rightarrow> string \<Rightarrow> string \<Rightarrow> string \<Rightarrow> string \<Rightarrow> int \<Rightarrow> ('w papi_state, unit) act" where
  "vpp_ipsec_set_ip_route env host node n_tunnels tunnel_src traffic_addr tunnel_dst interface raddr_range =
     bindS (liftS (ip_address tunnel_src)) (\<lambda>src.
     bindS (liftS (ip_address tunnel_dst)) (\<lambda>dst.
     bindS (liftS (ip_address traffic_addr)) (\<lambda>traffic.
     bindS (liftS (subnet_step src raddr_range)) (\<lambda>addr_incr.
     let step = (\<lambda>i. bindE (ip_add src (int i * addr_incr)) (\<lambda>s.
                 bindE (ip_add traffic (int i)) (\<lambda>t.
                 bindE (ip_add dst (int i * addr_incr)) (\<lambda>d. Inr (s, t, d)))))
     in if n_tunnels > 10
        then bindS (liftS (get_interface_name node (VStr interface))) (\<lambda>if_name.
             bindS (liftS (mapE (\<lambda>i. bindE (step i) (\<lambda>(s, t, d). Inr (route_line (py_str if_name) raddr_range s t d)))
                             [0..<nat n_tunnels])) (\<lambda>ls.
               run_script host node ''/tmp/ipsec_set_ip.script'' (concat ls) 300 True))
        else bindS (liftS (get_interface_index node (VStr interface))) (\<lambda>index.
             with_host node (\<lambda>h.
               in_session env node (thenS
                 (forS (\<lambda>i.
                    bindS (liftS (bindE (step i) (\<lambda>(s, t, d).
                        bindE (create_prefix_object s (VInt raddr_range)) (\<lambda>prefix.
                        bindE (compose_vpp_route_structure node (ip_str t) (VInt (host_len traffic))
                           [(''interface'', VStr interface), (''gateway'', VStr (ip_str d))]) (\<lambda>route.
                        Inr (prefix, route)))))) (\<lambda>(prefix, route).
                      thenS (addX ''sw_interface_add_del_address'' (noted n_tunnels i)
                               [(''sw_if_index'', index), (''is_add'', VBool True), (''del_all'', VBool False), (''prefix'', prefix)])
                        (addX ''ip_route_add_del'' (noted n_tunnels i)
                           [(''is_add'', VInt 1), (''is_multipath'', VInt 0), (''route'', route)])))
                    [0..<nat n_tunnels])
                 (voidS (repliesX env (''Failed to configure IP addresses and IP routes on interface '' @ interface @ '' on host '' @ h))))))))))"

section \<open>Policies\<close>

text \<open>\<^verbatim>\<open>ip_network(s, strict=False)\<close>: an address with an optional prefix length, netmask or host mask.\<close>

definition mask_value :: "nat \<Rightarrow> nat" where
  "mask_value p = 2 ^ 32 - 2 ^ (32 - p)"

definition mask_prefix :: "nat \<Rightarrow> nat option" where
  "mask_prefix m = (case List.find (\<lambda>p. mask_value p = m) [0..<33] of
     Some p \<Rightarrow> Some p | None \<Rightarrow> List.find (\<lambda>p. mask_value p = 2 ^ 32 - 1 - m) [0..<33])"

definition prefix_length :: "ipaddr \<Rightarrow> string \<Rightarrow> nat option" where
  "prefix_length a s =
     (if s \<noteq> [] \<and> list_all is_digit s
      then (case parse_nat s of Some n \<Rightarrow> if n \<le> (if version a = 6 then 128 else 32) then Some n else None | None \<Rightarrow> None)
      else if version a = 6 then None
      else case parse_ipv4 s of Some m \<Rightarrow> mask_prefix m | None \<Rightarrow> None)"

definition ip_network :: "string \<Rightarrow> (ipaddr \<times> nat) res" where
  "ip_network s =
     (case split_on (CHR ''/'') s of
        [a] \<Rightarrow> bindE (ip_address a) (\<lambda>x. Inr (x, if version x = 6 then 128 else 32))
      | [a, m] \<Rightarrow> bindE (ip_address a) (\<lambda>x.
          case prefix_length x m of
            None \<Rightarrow> Inl (ValueError ''does not appear to be an IPv4 or IPv6 network'')
          | Some p \<Rightarrow> Inr (x, p))
      | _ \<Rightarrow> Inl (ValueError ''does not appear to be an IPv4 or IPv6 network''))"

fun network_address :: "ipaddr \<times> nat \<Rightarrow> ipaddr" where
  "network_address (IPv4Address w, p) = IPv4Address (push_bit (32 - p) (drop_bit (32 - p) w))"
| "network_address (IPv6Address w, p) = IPv6Address (push_bit (128 - p) (drop_bit (128 - p) w))"

fun broadcast_address :: "ipaddr \<times> nat \<Rightarrow> ipaddr" where
  "broadcast_address (IPv4Address w, p) = IPv4Address (w OR (2 ^ (32 - p) - 1))"
| "broadcast_address (IPv6Address w, p) = IPv6Address (w OR (2 ^ (128 - p) - 1))"

definition vpp_ipsec_add_spd :: "'w vpp_env \<Rightarrow> node \<Rightarrow> pyval \<Rightarrow> ('w papi_state, unit) act" where
  "vpp_ipsec_add_spd env node spd_id =
     voidS (request_reply env node ''ipsec_spd_add_del''
       (bindE (getitem node ''host'') (\<lambda>host. bindE (py_int_val spd_id) (\<lambda>i.
          Inr [(''is_add'', VBool True), (''spd_id'', i)])))
       ''Failed to add Security Policy Database'')"

definition vpp_ipsec_spd_add_if :: "'w vpp_env \<Rightarrow> node \<Rightarrow> pyval \<Rightarrow> pyval \<Rightarrow> ('w papi_state, unit) act" where
  "vpp_ipsec_spd_add_if env node spd_id interface =
     voidS (request_reply env node ''ipsec_interface_add_del_spd''
       (bindE (getitem node ''host'') (\<lambda>host.
        bindE (get_interface_index node interface) (\<lambda>index.
        bindE (py_int_val spd_id) (\<lambda>i.
        Inr [(''is_add'', VBool True), (''sw_if_index'', index), (''spd_id'', i)]))))
       ''Failed to add interface to Security Policy Database'')"

text \<open>A bound of a port range; whether it is read depends on another argument in one place.\<close>

definition port_bound :: "string \<Rightarrow> bool \<Rightarrow> int \<Rightarrow> int \<Rightarrow> int res" where
  "port_bound rng given k dflt =
     (if given then bindE (list_get (split_on (CHR ''-'') rng) k) (\<lambda>t. py_int (VStr t)) else Inr dflt)"

definition int_or_zero :: "pyval \<Rightarrow> int res" where
  "int_or_zero v = (if truthy_val v then py_int v else Inr 0)"

definition vpp_ipsec_policy_add ::
    "'w vpp_env \<Rightarrow> node \<Rightarrow> pyval \<Rightarrow> pyval \<Rightarrow> policy_action \<Rightarrow> bool \<Rightarrow> pyval \<Rightarrow> string option \<Rightarrow> string option \<Rightarrow> pyval \<Rightarrow>
     string \<Rightarrow> string \<Rightarrow> bool \<Rightarrow> ('w papi_state, unit) act" where
  "vpp_ipsec_policy_add env node spd_id priority action inbound sa_id laddr_range raddr_range proto lport_range rport_range is_ipv6 =
     (let whole = (if is_ipv6 then ''::/0'' else ''0.0.0.0/0'');
          laddr = (case laddr_range of None \<Rightarrow> whole | Some r \<Rightarrow> r);
          raddr = (case raddr_range of None \<Rightarrow> whole | Some r \<Rightarrow> r);
          obj = (\<lambda>f net. create_ip_address_object (f net))
      in voidS (request_reply env node ''ipsec_spd_entry_add_del''
           (bindE (getitem node ''host'') (\<lambda>host.
            bindE (py_int_val spd_id) (\<lambda>i.
            bindE (py_int_val priority) (\<lambda>prio.
            bindE (int_or_zero sa_id) (\<lambda>sa.
            bindE (int_or_zero proto) (\<lambda>pr.
            bindE (ip_network raddr) (\<lambda>rnet.
            bindE (ip_network laddr) (\<lambda>lnet.
            bindE (port_bound rport_range (rport_range \<noteq> []) 0 0) (\<lambda>r0.
            bindE (port_bound rport_range (rport_range \<noteq> []) 1 65535) (\<lambda>r1.
            bindE (port_bound lport_range (lport_range \<noteq> []) 0 0) (\<lambda>l0.
            bindE (port_bound lport_range (rport_range \<noteq> []) 1 65535) (\<lambda>l1.
            Inr [(''is_add'', VBool True), (''entry'', VDict
              [(''spd_id'', i), (''priority'', prio), (''is_outbound'', VBool (\<not> inbound)), (''sa_id'', VInt sa),
               (''policy'', VInt (policy_int_repr action)), (''protocol'', VInt pr),
               (''remote_address_start'', obj network_address rnet), (''remote_address_stop'', obj broadcast_address rnet),
               (''local_address_start'', obj network_address lnet), (''local_address_stop'', obj broadcast_address lnet),
               (''remote_port_start'', VInt r0), (''remote_port_stop'', VInt r1),
               (''local_port_start'', VInt l0), (''local_port_stop'', VInt l1)])]))))))))))))
           ''Failed to add entry to Security Policy Database''))"

text \<open>
  Many policies. Through the API every policy is for a single address and all refer to the first association; in
  the script they are for ranges and the associations count up.
\<close>

definition spd_line :: "int \<Rightarrow> int \<Rightarrow> bool \<Rightarrow> int \<Rightarrow> ipaddr \<Rightarrow> ipaddr \<Rightarrow> string" where
  "spd_line spd_id priority inbound sa_id first_ip last_ip =
     ''exec ipsec policy add spd '' @ str_of_int spd_id @ '' priority '' @ str_of_int priority @ '' '' @
     (if inbound then ''inbound'' else ''outbound'') @ '' action protect sa '' @ str_of_int sa_id @
     '' remote-ip-range '' @ ip_str first_ip @ '' - '' @ ip_str last_ip @
     '' local-ip-range 0.0.0.0 - 255.255.255.255'' @ [CHR 10]"

definition spd_entry :: "int \<Rightarrow> int \<Rightarrow> bool \<Rightarrow> int \<Rightarrow> ipaddr \<Rightarrow> ipaddr \<times> nat \<Rightarrow> pyobj" where
  "spd_entry spd_id priority inbound sa_id a lnet =
     [(''is_add'', VBool True), (''entry'', VDict
        [(''spd_id'', VInt spd_id), (''priority'', VInt priority), (''is_outbound'', VBool (\<not> inbound)),
         (''sa_id'', VInt sa_id), (''policy'', VInt (policy_int_repr PROTECT)), (''protocol'', VInt 0),
         (''remote_address_start'', create_ip_address_object a), (''remote_address_stop'', create_ip_address_object a),
         (''local_address_start'', create_ip_address_object (network_address lnet)),
         (''local_address_stop'', create_ip_address_object (broadcast_address lnet)),
         (''remote_port_start'', VInt 0), (''remote_port_stop'', VInt 65535),
         (''local_port_start'', VInt 0), (''local_port_stop'', VInt 65535)])]"

definition vpp_ipsec_spd_add_entries ::
    "'w vpp_env \<Rightarrow> 'w executor_host \<Rightarrow> node \<Rightarrow> int \<Rightarrow> int \<Rightarrow> int \<Rightarrow> bool \<Rightarrow> int \<Rightarrow> string \<Rightarrow> int \<Rightarrow> ('w papi_state, unit) act" where
  "vpp_ipsec_spd_add_entries env host node n_entries spd_id priority inbound sa_id raddr_ip raddr_range =
     bindS (liftS (ip_address raddr_ip)) (\<lambda>raddr.
       if n_entries > 10
       then bindS (liftS (mapE (\<lambda>i.
              bindE (ip_add raddr (int i * (raddr_range + 1))) (\<lambda>a.
              bindE (ip_add raddr ((int i + 1) * raddr_range + int i)) (\<lambda>b.
              Inr (spd_line spd_id priority inbound (sa_id + int i) a b)))) [0..<nat n_entries])) (\<lambda>ls.
            run_script host node (''/tmp/ipsec_spd_'' @ str_of_int sa_id @ ''_add_del_entry.script'') (concat ls) 300 True)
       else bindS (liftS (ip_network (if version raddr = 6 then ''::/0'' else ''0.0.0.0/0''))) (\<lambda>lnet.
            with_host node (\<lambda>h.
              in_session env node (thenS
                (forS (\<lambda>i. bindS (liftS (ip_add raddr (int i))) (\<lambda>a.
                   addX ''ipsec_spd_entry_add_del'' (noted n_entries i) (spd_entry spd_id priority inbound sa_id a lnet)))
                   [0..<nat n_entries])
                (voidS (repliesX env (''ailed to add entry to Security Policy Database '' @ [CHR 0x27] @ str_of_int spd_id @
                   '' on host '' @ h)))))))"

section \<open>Tunnel interfaces by scripts\<close>

text \<open>The node at the other end: the second node under test, or the traffic generator.\<close>

definition peer_mac :: "nodes \<Rightarrow> string \<Rightarrow> pyval res" where
  "peer_mac nodes if2_key =
     bindE (getitem nodes (if map_of nodes ''DUT2'' \<noteq> None then ''DUT2'' else ''TG'')) (\<lambda>node.
       get_interface_mac node (VStr if2_key))"

text \<open>The keys of the tunnels from \<open>existing_tunnels\<close> on; those that exist have empty keys.\<close>

definition make_keys ::
    "'w executor_host \<Rightarrow> crypto_alg \<Rightarrow> integ_alg option \<Rightarrow> nat \<Rightarrow> ('w papi_state, 8 word list \<times> 8 word list) act" where
  "make_keys host alg integ i =
     bindS (gen_key host (get_crypto_alg_key_len alg)) (\<lambda>c.
     bindS (case integ of None \<Rightarrow> returnS [] | Some a \<Rightarrow> gen_key host (get_integ_alg_key_len a)) (\<lambda>k.
       returnS (c, k)))"

definition tunnel_line ::
    "crypto_alg \<Rightarrow> integ_alg option \<Rightarrow> 8 word list \<Rightarrow> 8 word list \<Rightarrow> int \<Rightarrow> int \<Rightarrow> ipaddr \<Rightarrow> ipaddr \<Rightarrow> nat \<Rightarrow> string" where
  "tunnel_line alg integ ckey ikey local_spi remote_spi local_ip remote_ip i =
     (let integ_text = (case integ of None \<Rightarrow> []
            | Some a \<Rightarrow> ''integ_alg '' @ alg_name (integ_value a) @ '' local_integ_key '' @ bytes_hex ikey @
                '' remote_integ_key '' @ bytes_hex ikey @ '' '')
      in ''ipsec_tunnel_if_add_del local_spi '' @ str_of_int local_spi @ '' remote_spi '' @ str_of_int remote_spi @
         '' crypto_alg '' @ alg_name (crypto_value alg) @ '' local_crypto_key '' @ bytes_hex ckey @
         '' remote_crypto_key '' @ bytes_hex ckey @ '' '' @ integ_text @ '' local_ip '' @ ip_str local_ip @
         '' remote_ip '' @ ip_str remote_ip @ '' instance '' @ str_of_nat i @ [CHR 10])"

definition unnumbered_line :: "string \<Rightarrow> ipaddr \<Rightarrow> ipaddr \<Rightarrow> nat \<Rightarrow> string" where
  "unnumbered_line if_name a raddr i =
     ''exec set interface unnumbered ipip'' @ str_of_nat i @ '' use '' @ if_name @ [CHR 10] @
     ''exec set interface state ipip'' @ str_of_nat i @ '' up'' @ [CHR 10] @
     ''exec ip route add '' @ ip_str a @ ''/'' @ str_of_int (host_len raddr) @ '' via ipip'' @ str_of_nat i @ [CHR 10]"

definition unnumbered_lines :: "string \<Rightarrow> ipaddr \<Rightarrow> nat list \<Rightarrow> string list res" where
  "unnumbered_lines if_name raddr is =
     mapE (\<lambda>i. bindE (ip_add raddr (int i)) (\<lambda>a. Inr (unnumbered_line if_name a raddr i))) is"

definition loopback_lines :: "string \<Rightarrow> ipaddr \<Rightarrow> pyval \<Rightarrow> string res" where
  "loopback_lines if_name ip2 rmac =
     bindE (ip_add ip2 (-1)) (\<lambda>a.
       Inr (''exec create loopback interface'' @ [CHR 10] @ ''exec set interface state loop0 up'' @ [CHR 10] @
         ''exec set interface ip address '' @ if_name @ '' '' @ ip_str a @ ''/'' @
         str_of_int (int (length (packed ip2)) * 8 * 3 div 4) @ [CHR 10] @
         ''exec set ip neighbor '' @ if_name @ '' '' @ ip_str ip2 @ '' '' @ py_str rmac @ '' static'' @ [CHR 10]))"

definition create_tunnel_interfaces_dut1_vat ::
    "'w executor_host \<Rightarrow> nodes \<Rightarrow> ipaddr \<Rightarrow> ipaddr \<Rightarrow> string \<Rightarrow> string \<Rightarrow> nat \<Rightarrow> crypto_alg \<Rightarrow> integ_alg option \<Rightarrow> ipaddr \<Rightarrow>
     int \<Rightarrow> int \<Rightarrow> int \<Rightarrow> nat \<Rightarrow> ('w papi_state, (8 word list \<times> 8 word list) list) act" where
  "create_tunnel_interfaces_dut1_vat host nodes ip1 ip2 if1_key if2_key n_tunnels alg integ raddr_ip2 addr_incr spi_1 spi_2 existing_tunnels =
     bindS (liftS (getitem nodes ''DUT1'')) (\<lambda>dut1.
     bindS (liftS (get_interface_name dut1 (VStr if1_key))) (\<lambda>if1_n.
     bindS (liftS (peer_mac nodes if2_key)) (\<lambda>rmac.
     bindS (liftS (if existing_tunnels = 0 then loopback_lines (py_str if1_n) ip2 rmac else Inr [])) (\<lambda>head.
     bindS (collectS (\<lambda>i.
         bindS (make_keys host alg integ i) (\<lambda>(c, k).
         bindS (liftS (ip_add ip1 (int i * addr_incr))) (\<lambda>a.
           returnS ((c, k), ''exec set interface ip address loop0 '' @ ip_str a @ ''/32'' @ [CHR 10] @
             tunnel_line alg integ c k (spi_1 + int i) (spi_2 + int i) a ip2 i))))
         [existing_tunnels..<n_tunnels]) (\<lambda>made.
     thenS (run_script host dut1 ''/tmp/ipsec_create_tunnel_dut1.config'' (head @ concat (map snd made)) 1800 (n_tunnels < 100))
     (bindS (liftS (unnumbered_lines (py_str if1_n) raddr_ip2 [existing_tunnels..<n_tunnels])) (\<lambda>ls.
      thenS (run_script host dut1 ''/tmp/ipsec_create_tunnel_dut1.config'' (concat ls) 1800 (n_tunnels < 100))
        (returnS (replicate existing_tunnels ([], []) @ map fst made)))))))))"

text \<open>
  The second node gets the keys of the first. Its prefix length is the result of a division, a float.
\<close>

definition create_tunnel_interfaces_dut2_vat ::
    "'w executor_host \<Rightarrow> nodes \<Rightarrow> ipaddr \<Rightarrow> ipaddr \<Rightarrow> string \<Rightarrow> nat \<Rightarrow> crypto_alg \<Rightarrow> (8 word list \<times> 8 word list) list \<Rightarrow>
     integ_alg option \<Rightarrow> ipaddr \<Rightarrow> int \<Rightarrow> int \<Rightarrow> int \<Rightarrow> nat \<Rightarrow> ('w papi_state, unit) act" where
  "create_tunnel_interfaces_dut2_vat host nodes ip1 ip2 if2_key n_tunnels alg keys integ raddr_ip1 addr_incr spi_1 spi_2 existing_tunnels =
     bindS (liftS (getitem nodes ''DUT2'')) (\<lambda>dut2.
     bindS (liftS (get_interface_name dut2 (VStr if2_key))) (\<lambda>if2_n.
     let head = (if existing_tunnels = 0
           then ''exec set interface ip address '' @ py_str if2_n @ '' '' @ ip_str ip2 @ ''/'' @
             str_of_int (int (length (packed ip2)) * 8 * 3 div 4) @ ''.0'' @ [CHR 10] else [])
     in bindS (liftS (mapE (\<lambda>i.
          bindE (list_get keys (int i)) (\<lambda>(c, k).
          bindE (ip_add ip1 (int i * addr_incr)) (\<lambda>a.
            Inr (tunnel_line alg integ c k (spi_2 + int i) (spi_1 + int i) ip2 a i))))
          [existing_tunnels..<n_tunnels])) (\<lambda>ls.
        thenS (run_script host dut2 ''/tmp/ipsec_create_tunnel_dut2.config'' (head @ concat ls) 1800 (n_tunnels < 100))
        (bindS (liftS (if existing_tunnels = 0
             then bindE (ip_add ip2 (-1)) (\<lambda>g. Inr (''exec ip route add '' @ ip_str ip1 @ ''/8 via '' @ ip_str g @ '' '' @
                    py_str if2_n @ [CHR 10])) else Inr [])) (\<lambda>route.
         bindS (liftS (unnumbered_lines (py_str if2_n) raddr_ip1 [existing_tunnels..<n_tunnels])) (\<lambda>us.
           run_script host dut2 ''/tmp/ipsec_create_tunnel_dut2.config'' (route @ concat us) 1800 (n_tunnels < 100)))))))"

section \<open>Tunnel interfaces through the API\<close>

text \<open>The interfaces of the replies that have one.\<close>

definition reply_interfaces :: "pyobj list \<Rightarrow> pyval list" where
  "reply_interfaces replies = concat (map (\<lambda>r. case map_of r ''sw_if_index'' of None \<Rightarrow> [] | Some v \<Rightarrow> [v]) replies)"

definition address_args :: "pyval \<Rightarrow> pyval \<Rightarrow> pyobj" where
  "address_args index prefix = [(''sw_if_index'', index), (''is_add'', VBool True), (''del_all'', VBool False), (''prefix'', prefix)]"

definition route_args_of :: "pyval \<Rightarrow> pyobj" where
  "route_args_of route = [(''is_add'', VInt 1), (''is_multipath'', VInt 0), (''route'', route)]"

definition tunnel_args ::
    "crypto_alg \<Rightarrow> integ_alg option \<Rightarrow> 8 word list \<Rightarrow> 8 word list \<Rightarrow> int \<Rightarrow> int \<Rightarrow> ipaddr \<Rightarrow> ipaddr \<Rightarrow> pyobj" where
  "tunnel_args alg integ ckey ikey local_spi remote_spi local_ip remote_ip =
     (let len = (\<lambda>k. VInt (int (length k)));
          ilen = (if integ = None then VInt 0 else len ikey); ikey_val = (if integ = None then VNone else VBytes ikey)
      in [(''is_add'', VBool True), (''local_ip'', create_ip_address_object local_ip),
          (''remote_ip'', create_ip_address_object remote_ip), (''local_spi'', VInt local_spi), (''remote_spi'', VInt remote_spi),
          (''crypto_alg'', VInt (alg_int_repr (crypto_value alg))),
          (''local_crypto_key_len'', len ckey), (''local_crypto_key'', VBytes ckey),
          (''remote_crypto_key_len'', len ckey), (''remote_crypto_key'', VBytes ckey), (''integ_alg'', VInt (integ_int integ)),
          (''local_integ_key_len'', ilen), (''local_integ_key'', ikey_val),
          (''remote_integ_key_len'', ilen), (''remote_integ_key'', ikey_val), (''tx_table_id'', VInt 0)])"

definition net_len :: "ipaddr \<Rightarrow> int" where
  "net_len a = (if version a = 6 then 96 else 24)"

definition create_loopback_dut1_papi ::
    "'w vpp_env \<Rightarrow> nodes \<Rightarrow> ipaddr \<Rightarrow> string \<Rightarrow> string \<Rightarrow> ('w papi_state, pyval) act" where
  "create_loopback_dut1_papi env nodes ip2 if1_key if2_key =
     bindS (liftS (getitem nodes ''DUT1'')) (\<lambda>dut1.
       in_session env dut1
         (thenS (addX ''create_loopback'' True [(''mac_address'', VInt 0)])
         (bindS (sw_if_indexX env ''Failed to create loopback interface'') (\<lambda>loop_sw_if_idx.
          thenS (addX ''sw_interface_set_flags'' True [(''sw_if_index'', loop_sw_if_idx), (''flags'', VInt 1)])
          (thenS (replyX env ''Failed to set loopback interface state up'')
          (bindS (liftS (bindE (get_interface_index dut1 (VStr if1_key)) (\<lambda>index.
              bindE (ip_add ip2 (-1)) (\<lambda>a. bindE (create_prefix_object a (VInt (net_len ip2))) (\<lambda>prefix.
              Inr (address_args index prefix)))))) (\<lambda>args.
           thenS (addX ''sw_interface_add_del_address'' True args)
           (thenS (replyX env ''Failed to set IP address on interface'')
           (bindS (liftS (bindE (get_interface_sw_index dut1 (VStr if1_key)) (\<lambda>index.
               bindE (peer_mac nodes if2_key) (\<lambda>mac.
               Inr [(''is_add'', VInt 1), (''neighbor'', VDict
                 [(''sw_if_index'', index), (''flags'', VInt 1), (''mac_address'', VStr (py_str mac)),
                  (''ip_address'', VStr (ip_str ip2))])])))) (\<lambda>args2.
            thenS (addX ''ip_neighbor_add_del'' True args2)
            (thenS (replyX env ''Failed to add IP neighbor on interface'')
              (returnS loop_sw_if_idx))))))))))))"

text \<open>The steps both nodes have in common after the tunnels exist.\<close>

definition connect_tunnels ::
    "'w vpp_env \<Rightarrow> node \<Rightarrow> node \<Rightarrow> string \<Rightarrow> nat \<Rightarrow> nat \<Rightarrow> pyval list \<Rightarrow> ipaddr \<Rightarrow> ('w, unit) session" where
  "connect_tunnels env node route_node if_key n_tunnels existing_tunnels ipsec_tunnels raddr =
     bindS (liftS (get_interface_index node (VStr if_key))) (\<lambda>index.
     thenS (forS (\<lambda>i. bindS (liftS (list_get ipsec_tunnels (int i))) (\<lambda>t.
              addX ''sw_interface_set_unnumbered'' (noted (int n_tunnels) i)
                [(''is_add'', VBool True), (''sw_if_index'', index), (''unnumbered_sw_if_index'', t)]))
            [existing_tunnels..<n_tunnels])
     (thenS (forS (\<lambda>i. bindS (liftS (list_get ipsec_tunnels (int i))) (\<lambda>t.
              addX ''sw_interface_set_flags'' (noted (int n_tunnels) i) [(''sw_if_index'', t), (''flags'', VInt 1)]))
            [existing_tunnels..<n_tunnels])
     (thenS (forS (\<lambda>i. bindS (liftS (bindE (ip_add raddr (int i)) (\<lambda>a.
                bindE (list_get ipsec_tunnels (int i)) (\<lambda>t.
                compose_vpp_route_structure route_node (ip_str a) (VInt (host_len raddr)) [(''interface'', t)])))) (\<lambda>route.
              addX ''ip_route_add_del'' (noted (int n_tunnels) i) (route_args_of route)))
            [existing_tunnels..<n_tunnels])
       (voidS (repliesX env ''Failed to add IP routes'')))))"

definition create_tunnel_interfaces_dut1_papi ::
    "'w vpp_env \<Rightarrow> 'w executor_host \<Rightarrow> nodes \<Rightarrow> ipaddr \<Rightarrow> ipaddr \<Rightarrow> string \<Rightarrow> string \<Rightarrow> nat \<Rightarrow> crypto_alg \<Rightarrow> integ_alg option \<Rightarrow>
     ipaddr \<Rightarrow> int \<Rightarrow> int \<Rightarrow> int \<Rightarrow> nat \<Rightarrow> ('w papi_state, (8 word list \<times> 8 word list) list) act" where
  "create_tunnel_interfaces_dut1_papi env host nodes ip1 ip2 if1_key if2_key n_tunnels alg integ raddr_ip2 addr_incr spi_1 spi_2 existing_tunnels =
     bindS (liftS (getitem nodes ''DUT1'')) (\<lambda>dut1.
     bindS (if existing_tunnels = 0 then create_loopback_dut1_papi env nodes ip2 if1_key if2_key
            else vpp_get_interface_sw_index env dut1 (VStr ''loop0'')) (\<lambda>loop_sw_if_idx.
       in_session env dut1
         (thenS (forS (\<lambda>i. bindS (liftS (bindE (ip_add ip1 (int i * addr_incr)) (\<lambda>a.
                    create_prefix_object a (VInt (host_len ip1))))) (\<lambda>prefix.
                  addX ''sw_interface_add_del_address'' (noted (int n_tunnels) i) (address_args loop_sw_if_idx prefix)))
                [existing_tunnels..<n_tunnels])
         (bindS (collectS (\<lambda>i.
              bindS (inX (make_keys host alg integ i)) (\<lambda>(c, k).
              bindS (liftS (ip_add ip1 (int i * addr_incr))) (\<lambda>a.
              thenS (addX ''ipsec_tunnel_if_add_del'' (noted (int n_tunnels) i)
                       (tunnel_args alg integ c k (spi_1 + int i) (spi_2 + int i) a ip2))
                (returnS (c, k)))))
              [existing_tunnels..<n_tunnels]) (\<lambda>made.
          bindS (repliesX env ''Failed to add IPsec tunnel interfaces'') (\<lambda>replies.
          thenS (connect_tunnels env dut1 dut1 if1_key n_tunnels existing_tunnels
                   (replicate existing_tunnels VNone @ reply_interfaces replies) raddr_ip2)
            (returnS (replicate existing_tunnels ([], []) @ made))))))))"

definition create_tunnel_interfaces_dut2_papi ::
    "'w vpp_env \<Rightarrow> nodes \<Rightarrow> ipaddr \<Rightarrow> ipaddr \<Rightarrow> string \<Rightarrow> nat \<Rightarrow> crypto_alg \<Rightarrow> (8 word list \<times> 8 word list) list \<Rightarrow>
     integ_alg option \<Rightarrow> ipaddr \<Rightarrow> int \<Rightarrow> int \<Rightarrow> int \<Rightarrow> nat \<Rightarrow> ('w papi_state, unit) act" where
  "create_tunnel_interfaces_dut2_papi env nodes ip1 ip2 if2_key n_tunnels alg keys integ raddr_ip1 addr_incr spi_1 spi_2 existing_tunnels =
     bindS (liftS (getitem nodes ''DUT2'')) (\<lambda>dut2.
       in_session env dut2
         (thenS (whenS (existing_tunnels = 0)
            (bindS (liftS (bindE (get_interface_index dut2 (VStr if2_key)) (\<lambda>index.
                bindE (create_prefix_object ip2 (VInt (net_len ip2))) (\<lambda>prefix. Inr (address_args index prefix))))) (\<lambda>args.
             thenS (addX ''sw_interface_add_del_address'' True args)
               (voidS (replyX env ''Failed to set IP address on interface'')))))
         (thenS (forS (\<lambda>i. bindS (liftS (bindE (ip_add ip1 (int i * addr_incr)) (\<lambda>a.
                    bindE (list_get keys (int i)) (\<lambda>k. Inr (a, k))))) (\<lambda>(a, c, k).
                  addX ''ipsec_tunnel_if_add_del'' (noted (int n_tunnels) i)
                    (tunnel_args alg integ c k (spi_2 + int i) (spi_1 + int i) ip2 a)))
                [existing_tunnels..<n_tunnels])
         (bindS (repliesX env ''Failed to add IPsec tunnel interfaces'') (\<lambda>replies.
          thenS (whenS (existing_tunnels = 0)
             (bindS (liftS (bindE (ip_add ip2 (-1)) (\<lambda>g.
                 compose_vpp_route_structure dut2 (ip_str ip1) (VInt (if version ip1 = 6 then 32 else 8))
                   [(''interface'', VStr if2_key), (''gateway'', VStr (ip_str g))]))) (\<lambda>route.
               addX ''ip_route_add_del'' True (route_args_of route))))
           (bindS (liftS (getitem nodes ''DUT1'')) (\<lambda>dut1.
              connect_tunnels env dut2 dut1 if2_key n_tunnels existing_tunnels
                (replicate existing_tunnels VNone @ reply_interfaces replies) raddr_ip1)))))))"

section \<open>Both ends\<close>

text \<open>
  The result is made of the first keys and the two indices when there is no second node, and of \<open>None\<close>
  otherwise; without an integrity algorithm there is no first integrity key.
\<close>

definition first_keys ::
    "integ_alg option \<Rightarrow> nat \<Rightarrow> (8 word list \<times> 8 word list) list \<Rightarrow> (8 word list \<times> 8 word list) res" where
  "first_keys integ existing_tunnels keys =
     (if integ = None \<and> existing_tunnels = 0 then Inl IndexError else list_get keys 0)"

definition vpp_ipsec_create_tunnel_interfaces ::
    "'w vpp_env \<Rightarrow> 'w executor_host \<Rightarrow> nodes \<Rightarrow> string \<Rightarrow> string \<Rightarrow> string \<Rightarrow> string \<Rightarrow> nat \<Rightarrow> crypto_alg \<Rightarrow> integ_alg option \<Rightarrow>
     string \<Rightarrow> string \<Rightarrow> int \<Rightarrow> nat \<Rightarrow> ('w papi_state, ((8 word list \<times> 8 word list) \<times> int \<times> int) option) act" where
  "vpp_ipsec_create_tunnel_interfaces env host nodes tun_if1_ip_addr tun_if2_ip_addr if1_key if2_key n_tunnels alg integ
     raddr_ip1 raddr_ip2 raddr_range existing_tunnels =
     (let spi_1 = 100000; spi_2 = 200000
      in bindS (liftS (ip_address tun_if1_ip_addr)) (\<lambda>ip1.
         bindS (liftS (ip_address tun_if2_ip_addr)) (\<lambda>ip2.
         bindS (liftS (ip_address raddr_ip1)) (\<lambda>raddr1.
         bindS (liftS (ip_address raddr_ip2)) (\<lambda>raddr2.
         bindS (liftS (subnet_step ip1 raddr_range)) (\<lambda>addr_incr.
         bindS (if int n_tunnels - int existing_tunnels > 10
                then create_tunnel_interfaces_dut1_vat host nodes ip1 ip2 if1_key if2_key n_tunnels alg integ raddr2
                       addr_incr spi_1 spi_2 existing_tunnels
                else create_tunnel_interfaces_dut1_papi env host nodes ip1 ip2 if1_key if2_key n_tunnels alg integ raddr2
                       addr_incr spi_1 spi_2 existing_tunnels) (\<lambda>keys.
         if map_of nodes ''DUT2'' = None
         then bindS (liftS (first_keys integ existing_tunnels keys)) (\<lambda>k. returnS (Some (k, spi_1, spi_2)))
         else thenS (if int n_tunnels - int existing_tunnels > 10
                     then create_tunnel_interfaces_dut2_vat host nodes ip1 ip2 if2_key n_tunnels alg keys integ raddr1
                            addr_incr spi_1 spi_2 existing_tunnels
                     else create_tunnel_interfaces_dut2_papi env nodes ip1 ip2 if2_key n_tunnels alg keys integ raddr1
                            addr_incr spi_1 spi_2 existing_tunnels)
                (returnS None))))))))"

section \<open>Tunnels with policies\<close>

definition bypass_policies :: "'w vpp_env \<Rightarrow> node \<Rightarrow> ('w papi_state, unit) act" where
  "bypass_policies env node =
     forS (\<lambda>inbound. vpp_ipsec_policy_add env node (VInt 1) (VInt 100) BYPASS inbound VNone (Some ''100.0.0.0/8'')
              (Some ''100.0.0.0/8'') (VInt 50) [] [] False) [False, True]"

definition vpp_ipsec_add_multiple_tunnels ::
    "'w vpp_env \<Rightarrow> 'w executor_host \<Rightarrow> nodes \<Rightarrow> string \<Rightarrow> string \<Rightarrow> int \<Rightarrow> crypto_alg \<Rightarrow> integ_alg option \<Rightarrow>
     string \<Rightarrow> string \<Rightarrow> string \<Rightarrow> string \<Rightarrow> int \<Rightarrow> ('w papi_state, unit) act" where
  "vpp_ipsec_add_multiple_tunnels env host nodes interface1 interface2 n_tunnels alg integ
     tunnel_ip1 tunnel_ip2 raddr_ip1 raddr_ip2 raddr_range =
     (let spd_id = 1; p_lo = 10; sa_id_1 = 100000; sa_id_2 = 200000; spi_1 = 300000; spi_2 = 400000
      in bindS (make_keys host alg integ 0) (\<lambda>(ckey, ikey).
         bindS (liftS (getitem nodes ''DUT1'')) (\<lambda>dut1.
         thenS (vpp_ipsec_set_ip_route env host dut1 n_tunnels tunnel_ip1 raddr_ip2 tunnel_ip2 interface1 raddr_range)
         (bindS (liftS (getitem nodes ''DUT2'')) (\<lambda>dut2.
          let sad = (\<lambda>node sa_id spi src dst. vpp_ipsec_add_sad_entries env host node n_tunnels sa_id spi alg
                 (VBytes ckey) integ (VBytes ikey) src dst);
              spd = (\<lambda>node inbound sa_id raddr. vpp_ipsec_spd_add_entries env host node n_tunnels spd_id p_lo inbound sa_id raddr 0)
          in thenS (vpp_ipsec_set_ip_route env host dut2 n_tunnels tunnel_ip2 raddr_ip1 tunnel_ip1 interface2 raddr_range)
             (thenS (vpp_ipsec_add_spd env dut1 (VInt spd_id))
             (thenS (vpp_ipsec_spd_add_if env dut1 (VInt spd_id) (VStr interface1))
             (thenS (bypass_policies env dut1)
             (thenS (vpp_ipsec_add_spd env dut2 (VInt spd_id))
             (thenS (vpp_ipsec_spd_add_if env dut2 (VInt spd_id) (VStr interface2))
             (thenS (bypass_policies env dut2)
             (thenS (sad dut1 sa_id_1 spi_1 tunnel_ip1 tunnel_ip2)
             (thenS (spd dut1 False sa_id_1 raddr_ip2)
             (thenS (sad dut2 sa_id_1 spi_1 tunnel_ip1 tunnel_ip2)
             (thenS (spd dut2 True sa_id_1 raddr_ip2)
             (thenS (sad dut2 sa_id_2 spi_2 tunnel_ip2 tunnel_ip1)
             (thenS (spd dut2 False sa_id_2 raddr_ip1)
             (thenS (sad dut1 sa_id_2 spi_2 tunnel_ip2 tunnel_ip1)
             (spd dut1 True sa_id_2 raddr_ip1)))))))))))))))))))"

definition vpp_ipsec_show :: "'w vpp_env \<Rightarrow> node \<Rightarrow> ('w papi_state, pyval) act" where
  "vpp_ipsec_show env node = run_cli_cmd env node ''show ipsec'' SOCKSVR_PATH"

section \<open>Tunnels between containers\<close>

text \<open>
  A script for each pair of containers, whose tunnels are dealt out in turn. The keys in the scripts are
  the texts of bound methods, because \<^verbatim>\<open>hex\<close> is not called (\<open>method_text\<close>).
\<close>

definition script_filename :: "string \<Rightarrow> nat \<Rightarrow> string" where
  "script_filename dut cnf = ''/tmp/ipsec_create_tunnel_cnf_'' @ dut @ ''_'' @ str_of_nat (cnf + 1) @ ''.config''"

definition copy_ipsec_script_files :: "'w executor_host \<Rightarrow> string \<Rightarrow> nodes \<Rightarrow> string list \<Rightarrow> ('w papi_state, unit) act" where
  "copy_ipsec_script_files host dut nodes scripts =
     forS (\<lambda>cnf. bindS (liftS (getitem nodes dut)) (\<lambda>node. put_file host node (script_filename dut cnf) (scripts ! cnf)))
       [0..<length scripts]"

definition container_integ :: "(8 word list \<Rightarrow> string) \<Rightarrow> integ_alg option \<Rightarrow> 8 word list \<Rightarrow> string" where
  "container_integ method_text integ ikey =
     (case integ of None \<Rightarrow> [] | Some a \<Rightarrow> ''integ-alg '' @ alg_name (integ_value a) @ '' local-integ-key '' @ method_text ikey @
        '' remote-integ-key '' @ method_text ikey @ '' '')"

definition container_tunnel :: "string \<Rightarrow> int \<Rightarrow> string \<Rightarrow> int \<Rightarrow> crypto_alg \<Rightarrow> string \<Rightarrow> nat \<Rightarrow> string \<Rightarrow> string" where
  "container_tunnel local_ip local_spi remote_ip remote_spi alg key inst integ =
     ''create ipsec tunnel local-ip '' @ local_ip @ '' local-spi '' @ str_of_int local_spi @ '' remote-ip '' @ remote_ip @
     '' remote-spi '' @ str_of_int remote_spi @ '' crypto-alg '' @ alg_name (crypto_value alg) @
     '' local-crypto-key '' @ key @ '' remote-crypto-key '' @ key @ '' instance '' @ str_of_nat inst @ '' salt 0x0 '' @ integ"

definition hex2 :: "nat \<Rightarrow> string" where
  "hex2 n = map (\<lambda>c. if c \<in> set ''abcdef'' then char_of (of_char c - 32 :: nat) else c) (pad_left 2 (hex_of_nat n))"

definition container_texts ::
    "(8 word list \<Rightarrow> string) \<Rightarrow> ipaddr \<Rightarrow> ipaddr \<Rightarrow> ipaddr \<Rightarrow> ipaddr \<Rightarrow> int \<Rightarrow> nat \<Rightarrow> crypto_alg \<Rightarrow> integ_alg option \<Rightarrow>
     8 word list \<times> 8 word list \<Rightarrow> nat \<Rightarrow> (string \<times> string) res" where
  "container_texts method_text ip1 ip2 raddr1 raddr2 addr_incr n_instances alg integ keys tnl =
     (let cnf = tnl mod n_instances; inst = tnl div n_instances; key = method_text (fst keys);
          integ_text = container_integ method_text integ (snd keys); nl = [CHR 10]; ipip = ''ipip'' @ str_of_nat inst;
          memif = ''memif1/'' @ str_of_nat (cnf + 1)
      in bindE (ip_add ip1 (int tnl * addr_incr)) (\<lambda>a.
         bindE (ip_add ip2 (int cnf)) (\<lambda>b.
         bindE (ip_add raddr2 (int tnl)) (\<lambda>r2.
         bindE (ip_add raddr1 (int tnl)) (\<lambda>r1.
         Inr (''set interface ip address loop0 '' @ ip_str a @ ''/32'' @ nl @
              container_tunnel (ip_str a) (100000 + int tnl) (ip_str b) (200000 + int tnl) alg key inst (integ_text @ '' '') @ nl @
              ''set interface unnumbered '' @ ipip @ '' use loop0'' @ nl @ ''set interface state '' @ ipip @ '' up'' @ nl @
              ''ip route add '' @ ip_str r2 @ ''/32 via '' @ ipip @ nl @ nl,
              ''set ip neighbor '' @ memif @ '' '' @ ip_str a @ '' 02:02:00:00:11:'' @ hex2 cnf @ '' static'' @ nl @
              container_tunnel (ip_str b) (200000 + int tnl) (ip_str a) (100000 + int tnl) alg key inst integ_text @ nl @
              ''set interface unnumbered '' @ ipip @ '' use '' @ memif @ nl @ ''set interface state '' @ ipip @ '' up'' @ nl @
              ''ip route add '' @ ip_str r1 @ ''/32 via '' @ ipip @ nl @ nl))))))"

definition write_to :: "nat \<Rightarrow> string \<Rightarrow> string list \<Rightarrow> string list" where
  "write_to cnf text scripts = scripts[cnf := scripts ! cnf @ text]"

definition vpp_ipsec_create_tunnel_interfaces_in_containers ::
    "(8 word list \<Rightarrow> string) \<Rightarrow> 'w executor_host \<Rightarrow> nodes \<Rightarrow> string \<Rightarrow> string \<Rightarrow> nat \<Rightarrow> crypto_alg \<Rightarrow> integ_alg option \<Rightarrow>
     string \<Rightarrow> string \<Rightarrow> int \<Rightarrow> nat \<Rightarrow> ('w papi_state, unit) act" where
  "vpp_ipsec_create_tunnel_interfaces_in_containers method_text host nodes if1_ip_addr if2_ip_addr n_tunnels alg integ
     raddr_ip1 raddr_ip2 raddr_range n_instances =
     bindS (liftS (shift_one (32 - raddr_range))) (\<lambda>addr_incr.
     bindS (liftS (mapE (\<lambda>cnf. bindE (ip_address if2_ip_addr) (\<lambda>ip2. bindE (ip_add ip2 (int cnf + 100)) (\<lambda>via.
         Inr (''ip route add '' @ if1_ip_addr @ ''/8 via '' @ ip_str via @ '' memif1/'' @ str_of_nat (cnf + 1) @ [CHR 10, CHR 10]))))
         [0..<n_instances])) (\<lambda>heads2.
     bindS (foldS (\<lambda>(s1, s2) tnl.
         if n_instances = 0 then liftS (Inl ZeroDivisionError)
         else bindS (make_keys host alg integ tnl) (\<lambda>keys.
              bindS (liftS (bindE (ip_address if1_ip_addr) (\<lambda>ip1. bindE (ip_address if2_ip_addr) (\<lambda>ip2.
                  bindE (ip_address raddr_ip1) (\<lambda>raddr1. bindE (ip_address raddr_ip2) (\<lambda>raddr2.
                  container_texts method_text ip1 ip2 raddr1 raddr2 addr_incr n_instances alg integ keys tnl)))))) (\<lambda>(t1, t2).
              returnS (write_to (tnl mod n_instances) t1 s1, write_to (tnl mod n_instances) t2 s2))))
         (replicate n_instances (''create loopback interface'' @ [CHR 10] @ ''set interface state loop0 up'' @ [CHR 10, CHR 10]), heads2)
         [0..<n_tunnels]) (\<lambda>(s1, s2).
       thenS (copy_ipsec_script_files host ''DUT1'' nodes s1) (copy_ipsec_script_files host ''DUT2'' nodes s2))))"

section \<open>The associations that are configured\<close>

text \<open>A security association without the keys, and the list that the arguments describe.\<close>

record association =
  sa_id :: int
  sa_spi :: int
  sa_src :: ipaddr
  sa_dst :: ipaddr

definition associations :: "int \<Rightarrow> int \<Rightarrow> int \<Rightarrow> ipaddr \<Rightarrow> ipaddr \<Rightarrow> association list res" where
  "associations n first_id first_spi src dst =
     (let addr_incr = (if version src = 6 then 2 ^ 32 else 2 ^ 8)
      in mapE (\<lambda>i. bindE (ip_add src (int i * addr_incr)) (\<lambda>s.
                  bindE (ip_add dst (int i * addr_incr)) (\<lambda>d.
                  Inr \<lparr>sa_id = first_id + int i, sa_spi = first_spi + int i, sa_src = s, sa_dst = d\<rparr>))) [0..<nat n])"

definition sad_command ::
    "crypto_alg \<Rightarrow> 8 word list \<Rightarrow> integ_alg option \<Rightarrow> 8 word list \<Rightarrow> nat \<Rightarrow> association \<Rightarrow> papi_command" where
  "sad_command alg ckey integ ikey v sa =
     \<lparr>api_name = ''ipsec_sad_entry_add_del'',
      api_args = sad_entry alg ckey integ ikey (sad_flags (Some v)) (sa_id sa) (sa_spi sa) (ip_str (sa_src sa)) (ip_str (sa_dst sa))\<rparr>"

definition sad_script_line ::
    "crypto_alg \<Rightarrow> 8 word list \<Rightarrow> integ_alg option \<Rightarrow> 8 word list \<Rightarrow> association \<Rightarrow> string" where
  "sad_script_line alg ckey integ ikey sa = sad_line alg ckey integ ikey (sa_id sa) (sa_spi sa) (sa_src sa) (sa_dst sa)"

lemma mapE_map2:
  "mapE f xs = Inr ys \<Longrightarrow> mapE (\<lambda>x. bindE (f x) (\<lambda>y. Inr (g x y))) xs = Inr (map2 g xs ys)"
  by (induction xs arbitrary: ys) auto

lemma mapE_map2I:
  "mapE (\<lambda>x. bindE (f x) (\<lambda>y. Inr (g x y))) xs = Inr zs \<Longrightarrow> \<exists>ys. mapE f xs = Inr ys \<and> zs = map2 g xs ys"
  by (induction xs arbitrary: zs) fastforce+

text \<open>
  A session that computes the arguments of a command for every element of a list and adds it: all
  computations succeed when it returns, and the commands have been sent in order.
\<close>

lemma computed_adds:
  assumes "forS (\<lambda>i. bindS (liftS (f i)) (\<lambda>x. addX cmd (hist i) (g i x))) is (ex, st) = (Inr u, ex', st')"
  shows "\<exists>xs. mapE f is = Inr xs \<and> ps_vpp st' = ps_vpp st \<and> pe_node ex' = pe_node ex \<and>
    api_command_list ex' = api_command_list ex @ map (\<lambda>a. \<lparr>api_name = cmd, api_args = a\<rparr>) (map2 g is xs)"
  using assms
proof (induction "is" arbitrary: ex st)
  case Nil
  then show ?case by simp
next
  case (Cons i "is")
  from Cons.prems obtain x ex1 st1 where x: "f i = Inr x"
    and add: "papi_add ex cmd (hist i) (g i x) st = (Inr (), ex1, st1)"
    and rest: "forS (\<lambda>i. bindS (liftS (f i)) (\<lambda>x. addX cmd (hist i) (g i x))) is (ex1, st1) = (Inr u, ex', st')"
    by (auto simp: run_elims addX_def split: prod.splits)
  from Cons.IH [OF rest] papi_add_returns [OF add] x show ?case by auto
qed

lemma session_of_loop:
  assumes "in_session (logged env) node (thenS (forS (\<lambda>i. bindS (liftS (f i)) (\<lambda>x. addX cmd (hist i) (g i x))) is)
      (voidS (repliesX (logged env) msg))) st = (Inr u, st')"
  shows "\<exists>xs out. mapE f is = Inr xs \<and> snd (ps_vpp st') = snd (ps_vpp st) @ out \<and>
    all_sent (map (\<lambda>a. \<lparr>api_name = cmd, api_args = a\<rparr>) (map2 g is xs)) out"
proof -
  let ?loop = "forS (\<lambda>i. bindS (liftS (f i)) (\<lambda>x. addX cmd (hist i) (g i x))) is"
  from with_papi_logged [of env node SOCKSVR_PATH "\<lambda>ex st. thenS ?loop (voidS (repliesX (logged env) msg)) (ex, st)" st u st'] assms
  obtain st0 ex1 st1 where logs: "snd (ps_vpp st0) = snd (ps_vpp st)" "snd (ps_vpp st') = snd (ps_vpp st1)"
    and body: "thenS ?loop (voidS (repliesX (logged env) msg)) (PapiSocketExecutor node SOCKSVR_PATH, st0) = (Inr u, ex1, st1)"
    by (auto simp: in_session_def)
  from body obtain v ex2 st2 ds where loop: "?loop (PapiSocketExecutor node SOCKSVR_PATH, st0) = (Inr v, ex2, st2)"
    and replies: "get_replies (logged env) ex2 msg st2 = (Inr ds, ex1, st1)"
    by (auto simp: run_elims repliesX_def)
  from computed_adds [OF loop] replies_all_sent [OF replies] logs show ?thesis
    by (auto simp: PapiSocketExecutor_def)
qed

lemma associations_pairs:
  assumes "mapE (\<lambda>i. bindE (ip_add src (int i * (if version src = 6 then 2 ^ 32 else 2 ^ 8))) (\<lambda>s.
      bindE (ip_add dst (int i * (if version src = 6 then 2 ^ 32 else 2 ^ 8))) (\<lambda>d. Inr (s, d)))) [0..<nat n] = Inr xs"
  shows "associations n first_id first_spi src dst =
    Inr (map2 (\<lambda>i (s, d). \<lparr>sa_id = first_id + int i, sa_spi = first_spi + int i, sa_src = s, sa_dst = d\<rparr>) [0..<nat n] xs)"
  using mapE_map2 [OF assms, of "\<lambda>i (s, d). \<lparr>sa_id = first_id + int i, sa_spi = first_spi + int i, sa_src = s, sa_dst = d\<rparr>"]
  by (simp add: associations_def Let_def bindE_assoc)

text \<open>
  C30. \<open>IPsecUtil.vpp_ipsec_add_sad_entries\<close> configures the associations of its arguments: when it returns,
  the identifiers, the indices and the addresses of all \<open>n\<close> associations exist within the address space, and up to
  ten of them have been sent to VPP in order as commands, while more than ten have been written to
  one script, a line for each, that has been run on the node.
\<close>

theorem sad_entries_refine:
  assumes "vpp_ipsec_add_sad_entries (logged env) host node n first_id first_spi alg ckey integ ikey tunnel_src tunnel_dst st = (Inr (), st')"
  shows "\<exists>ck ik src dst sas. key_bytes ckey = Inr ck \<and> key_bytes ikey = Inr ik \<and>
    ip_address tunnel_src = Inr src \<and> ip_address tunnel_dst = Inr dst \<and> associations n first_id first_spi src dst = Inr sas \<and>
    (if n \<le> 10
     then \<exists>out. snd (ps_vpp st') = snd (ps_vpp st) @ out \<and> all_sent (map (sad_command alg ck integ ik (version src)) sas) out
     else run_script host node (''/tmp/ipsec_sad_'' @ str_of_int first_id @ ''_add_del_entry.script'')
            (concat (map (sad_script_line alg ck integ ik) sas)) 300 True st = (Inr (), st'))"
proof -
  let ?incr = "\<lambda>a. if version a = 6 then 2 ^ 32 else 2 ^ 8 :: int"
  let ?pairs = "\<lambda>src dst i. bindE (ip_add src (int i * ?incr src)) (\<lambda>s. bindE (ip_add dst (int i * ?incr src)) (\<lambda>d. Inr (s, d)))"
  have given: "tunnel_src \<noteq> []" "tunnel_dst \<noteq> []"
    using assms by (auto simp: vpp_ipsec_add_sad_entries_def run_elims split: if_splits)
  then obtain ck ik src dst where args: "key_bytes ckey = Inr ck" "key_bytes ikey = Inr ik"
    "ip_address tunnel_src = Inr src" "ip_address tunnel_dst = Inr dst"
    using assms by (auto simp: vpp_ipsec_add_sad_entries_def run_elims)
  show ?thesis
  proof (cases "n \<le> 10")
    case True
    then obtain h where
      "in_session (logged env) node (thenS
         (forS (\<lambda>i. bindS (liftS (?pairs src dst i)) (\<lambda>(s, d).
            addX ''ipsec_sad_entry_add_del'' (noted n i)
              (sad_entry alg ck integ ik (sad_flags (Some (version src))) (first_id + int i) (first_spi + int i) (ip_str s) (ip_str d))))
            [0..<nat n])
         (voidS (repliesX (logged env) (''Failed to add Security Association Database entry on host '' @ h)))) st = (Inr (), st')"
      using assms given args by (auto simp: vpp_ipsec_add_sad_entries_def with_host_def run_elims Let_def)
    then have "in_session (logged env) node (thenS
         (forS (\<lambda>i. bindS (liftS (?pairs src dst i)) (\<lambda>x.
            addX ''ipsec_sad_entry_add_del'' (noted n i) ((\<lambda>i (s, d). sad_entry alg ck integ ik (sad_flags (Some (version src)))
              (first_id + int i) (first_spi + int i) (ip_str s) (ip_str d)) i x))) [0..<nat n])
         (voidS (repliesX (logged env) (''Failed to add Security Association Database entry on host '' @ h)))) st = (Inr (), st')"
      by (simp add: case_prod_unfold)
    from session_of_loop [OF this] obtain xs out where xs: "mapE (?pairs src dst) [0..<nat n] = Inr xs"
      and out: "snd (ps_vpp st') = snd (ps_vpp st) @ out" "all_sent (map (\<lambda>a. \<lparr>api_name = ''ipsec_sad_entry_add_del'', api_args = a\<rparr>)
        (map2 (\<lambda>i (s, d). sad_entry alg ck integ ik (sad_flags (Some (version src))) (first_id + int i) (first_spi + int i)
          (ip_str s) (ip_str d)) [0..<nat n] xs)) out" by blast
    from associations_pairs [OF xs, of first_id first_spi] out args True show ?thesis
      by (force simp: sad_command_def comp_def case_prod_unfold)
  next
    case False
    then obtain ls where ls: "mapE (\<lambda>i. bindE (ip_add src (int i * ?incr src)) (\<lambda>s. bindE (ip_add dst (int i * ?incr src)) (\<lambda>d.
          Inr (sad_line alg ck integ ik (first_id + int i) (first_spi + int i) s d)))) [0..<nat n] = Inr ls"
      and run: "run_script host node (''/tmp/ipsec_sad_'' @ str_of_int first_id @ ''_add_del_entry.script'') (concat ls) 300 True st =
        (Inr (), st')"
      using assms given args by (auto simp: vpp_ipsec_add_sad_entries_def run_elims Let_def)
    have "mapE (\<lambda>i. bindE (?pairs src dst i) (\<lambda>x.
        Inr ((\<lambda>i (s, d). sad_line alg ck integ ik (first_id + int i) (first_spi + int i) s d) i x))) [0..<nat n] = Inr ls"
      using ls by (simp add: bindE_assoc)
    from mapE_map2I [OF this] obtain xs where xs: "mapE (?pairs src dst) [0..<nat n] = Inr xs"
      "ls = map2 (\<lambda>i (s, d). sad_line alg ck integ ik (first_id + int i) (first_spi + int i) s d) [0..<nat n] xs" by blast
    from associations_pairs [OF xs(1), of first_id first_spi] run args False show ?thesis
      by (force simp: xs(2) sad_script_line_def comp_def case_prod_unfold)
  qed
qed

definition lab_host :: "'w executor_host" where
  "lab_host = \<lparr>run_script = (\<lambda>node path text timeout history. returnS ()), put_file = (\<lambda>node path text. returnS ()),
     choice = (\<lambda>letters. returnS (CHR ''a''))\<rparr>"

theorem sad_entries_refine_witness:
  "\<exists>st' sas out. vpp_ipsec_add_sad_entries (logged (lab_env ok_answer)) lab_host lab_dut 2 10 1000 AES_GCM_128
       (VStr ''key'') None (VStr []) ''10.0.0.1'' ''20.0.0.1'' (lab_state [''ipsec_sad_entry_add_del''] ''10.10.0.1'' [] []) =
         (Inr (), st') \<and>
     map (\<lambda>sa. (sa_id sa, sa_spi sa, sa_src sa)) sas =
       [(10, 1000, IPv4Address 0x0A000001), (11, 1001, IPv4Address 0x0A000101)] \<and>
     snd (ps_vpp st') = out \<and> all_sent (map (sad_command AES_GCM_128 (utf8 ''key'') None [] 4) sas) out"
proof -
  let ?a = "IPv4Address 0x0A000001" and ?b = "IPv4Address 0x14000001"
  have ips: "ip_address ''10.0.0.1'' = Inr ?a" "ip_address ''20.0.0.1'' = Inr ?b"
    by (simp_all add: ip_address_def parse_ipv4_def parse_octet_def parse_nat_def is_digit_def digit_value_def of_digits_def)
  have adds: "ip_add ?a 0 = Inr ?a" "ip_add ?b 0 = Inr ?b" "ip_add ?a 256 = Inr (IPv4Address 0x0A000101)"
    "ip_add ?b 256 = Inr (IPv4Address 0x14000101)" by simp_all
  have two: "[0..<2] = [0, 1::nat]" by (simp add: numeral_2_eq_2)
  have keys: "key_bytes (VStr ''key'') = Inr (utf8 ''key'')" "key_bytes (VStr []) = Inr []"
    by (simp_all add: key_bytes_def utf8_def)
  let ?st = "lab_state [''ipsec_sad_entry_add_del''] ''10.10.0.1'' [] []"
  obtain st' where run: "vpp_ipsec_add_sad_entries (logged (lab_env ok_answer)) lab_host lab_dut 2 10 1000 AES_GCM_128
       (VStr ''key'') None (VStr []) ''10.0.0.1'' ''20.0.0.1'' ?st = (Inr (), st')"
    by (simp add: vpp_ipsec_add_sad_entries_def keys ips adds two with_host_def lab_session bindS_def thenS_def liftS_def
        returnS_def voidS_def lab_addX lab_ok PapiSocketExecutor_def)
  let ?sas = "[\<lparr>sa_id = 10, sa_spi = 1000, sa_src = ?a, sa_dst = ?b\<rparr>,
       \<lparr>sa_id = 11, sa_spi = 1001, sa_src = IPv4Address 0x0A000101, sa_dst = IPv4Address 0x14000101\<rparr>]"
  have "associations 2 10 1000 ?a ?b = Inr ?sas"
    by (simp add: associations_def two adds)
  with sad_entries_refine [OF run]
  have "all_sent (map (sad_command AES_GCM_128 (utf8 ''key'') None [] 4) ?sas) (snd (ps_vpp st'))"
    by (simp add: keys ips)
  with run show ?thesis by (intro exI [of _ st'] exI [of _ ?sas]) simp
qed

section \<open>The two ends of a tunnel\<close>

abbreviation tunnel_command :: "pyobj \<Rightarrow> papi_command" where
  "tunnel_command args \<equiv> \<lparr>api_name = ''ipsec_tunnel_if_add_del'', api_args = args\<rparr>"

lemma addX_run:
  "addX cmd h kw (ex, st) = (Inr u, ex', st') \<Longrightarrow>
     set (api_command_list ex') = insert \<lparr>api_name = cmd, api_args = kw\<rparr> (set (api_command_list ex))"
  by (auto simp: addX_def dest!: papi_add_returns split: prod.splits)

lemma repliesX_run:
  assumes "repliesX (logged env) msg (ex, st) = (Inr ds, ex', st')"
  shows "set (api_command_list ex) \<subseteq> set (snd (ps_vpp st'))"
proof -
  from assms replies_all_sent obtain out where "snd (ps_vpp st') = snd (ps_vpp st) @ out" "all_sent (api_command_list ex) out"
    unfolding repliesX_def by fastforce
  moreover have "all_sent cs out \<Longrightarrow> set cs \<subseteq> set out" for cs out
    by (induction rule: all_sent.induct) auto
  ultimately show ?thesis by auto
qed

lemma connect_tunnels_grows: "along session_grows (connect_tunnels (logged env) node route_node k n e ts raddr)"
  unfolding connect_tunnels_def by (intro grows_rules)

text \<open>The first end: the keys are made on the way.\<close>

lemma tunnels_added:
  assumes "collectS (\<lambda>i. bindS (inX (make_keys host alg integ i)) (\<lambda>(c, k).
        bindS (liftS (ip_add ip1 (int i * addr_incr))) (\<lambda>a.
        thenS (addX ''ipsec_tunnel_if_add_del'' (hist i) (tunnel_args alg integ c k (spi_1 + int i) (spi_2 + int i) a ip2))
          (returnS (c, k))))) is (ex, st) = (Inr made, ex', st')"
  shows "length made = length is \<and> set (api_command_list ex) \<subseteq> set (api_command_list ex') \<and>
    (\<forall>j<length is. \<exists>a. ip_add ip1 (int (is ! j) * addr_incr) = Inr a \<and>
       tunnel_command (tunnel_args alg integ (fst (made ! j)) (snd (made ! j)) (spi_1 + int (is ! j)) (spi_2 + int (is ! j)) a ip2)
         \<in> set (api_command_list ex'))"
  using assms
proof (induction "is" arbitrary: ex st made)
  case Nil
  then show ?case by simp
next
  case (Cons i "is")
  from Cons.prems obtain c k a ex1 st1 ex2 st2 made' where keys: "inX (make_keys host alg integ i) (ex, st) = (Inr (c, k), ex1, st1)"
    and a: "ip_add ip1 (int i * addr_incr) = Inr a"
    and add: "addX ''ipsec_tunnel_if_add_del'' (hist i) (tunnel_args alg integ c k (spi_1 + int i) (spi_2 + int i) a ip2) (ex1, st1) =
      (Inr (), ex2, st2)"
    and rest: "collectS (\<lambda>i. bindS (inX (make_keys host alg integ i)) (\<lambda>(c, k).
        bindS (liftS (ip_add ip1 (int i * addr_incr))) (\<lambda>a.
        thenS (addX ''ipsec_tunnel_if_add_del'' (hist i) (tunnel_args alg integ c k (spi_1 + int i) (spi_2 + int i) a ip2))
          (returnS (c, k))))) is (ex2, st2) = (Inr made', ex', st')"
    and made: "made = (c, k) # made'"
    by (auto simp: run_elims split: prod.splits)
  have "ex1 = ex" using keys by (auto simp: inX_def split: prod.splits)
  with addX_run [OF add] Cons.IH [OF rest] a made show ?case
    by (auto simp: less_Suc_eq_0_disj nth_Cons')
qed

lemma dut1_sends:
  assumes "create_tunnel_interfaces_dut1_papi (logged env) host nodes ip1 ip2 k1 k2 n alg integ raddr addr_incr spi_1 spi_2 e st = (Inr keys, st')"
  shows "\<forall>i. e \<le> i \<longrightarrow> i < n \<longrightarrow> i < length keys \<and> (\<exists>a. ip_add ip1 (int i * addr_incr) = Inr a \<and>
    tunnel_command (tunnel_args alg integ (fst (keys ! i)) (snd (keys ! i)) (spi_1 + int i) (spi_2 + int i) a ip2)
      \<in> set (snd (ps_vpp st')))"
proof -
  from assms obtain dut1 index s1 st0 ex1 st1 ex2 st2 ex3 st3 ds made ex4 st4 where
    logs: "snd (ps_vpp st') = snd (ps_vpp st4)"
    and made: "collectS (\<lambda>i. bindS (inX (make_keys host alg integ i)) (\<lambda>(c, k).
        bindS (liftS (ip_add ip1 (int i * addr_incr))) (\<lambda>a.
        thenS (addX ''ipsec_tunnel_if_add_del'' (noted (int n) i) (tunnel_args alg integ c k (spi_1 + int i) (spi_2 + int i) a ip2))
          (returnS (c, k))))) [e..<n] (ex1, st1) = (Inr made, ex2, st2)"
    and replies: "repliesX (logged env) ''Failed to add IPsec tunnel interfaces'' (ex2, st2) = (Inr ds, ex3, st3)"
    and "connect": "connect_tunnels (logged env) dut1 dut1 k1 n e (replicate e VNone @ reply_interfaces ds) raddr (ex3, st3) = (Inr (), ex4, st4)"
    and keys: "keys = replicate e ([], []) @ made"
    unfolding create_tunnel_interfaces_dut1_papi_def by (auto simp: run_elims elim!: session_logged)
  have "set (snd (ps_vpp st3)) \<subseteq> set (snd (ps_vpp st4))"
    using alongD [OF connect_tunnels_grows "connect"] log_grows_set by (auto simp: session_grows_def)
  with repliesX_run [OF replies] logs have sent: "set (api_command_list ex2) \<subseteq> set (snd (ps_vpp st'))" by auto
  show ?thesis
  proof (intro allI impI)
    fix i assume i: "e \<le> i" "i < n"
    then have "i - e < length [e..<n]" "[e..<n] ! (i - e) = i" by simp_all
    with tunnels_added [OF made] have "length made = n - e" and "\<exists>a. ip_add ip1 (int i * addr_incr) = Inr a \<and>
       tunnel_command (tunnel_args alg integ (fst (made ! (i - e))) (snd (made ! (i - e))) (spi_1 + int i) (spi_2 + int i) a ip2)
         \<in> set (api_command_list ex2)"
      by (simp, metis)
    with i sent keys show "i < length keys \<and> (\<exists>a. ip_add ip1 (int i * addr_incr) = Inr a \<and>
        tunnel_command (tunnel_args alg integ (fst (keys ! i)) (snd (keys ! i)) (spi_1 + int i) (spi_2 + int i) a ip2)
          \<in> set (snd (ps_vpp st')))"
      by (auto simp: nth_append)
  qed
qed

text \<open>The second end uses the keys of the first.\<close>

lemma mapE_nth: "mapE f xs = Inr ys \<Longrightarrow> j < length xs \<Longrightarrow> f (xs ! j) = Inr (ys ! j)"
  by (induction xs arbitrary: ys j) (auto simp: less_Suc_eq_0_disj)

lemma dut2_sends:
  assumes "create_tunnel_interfaces_dut2_papi (logged env) nodes ip1 ip2 k2 n alg keys integ raddr addr_incr spi_1 spi_2 e st = (Inr u, st')"
  shows "\<forall>i. e \<le> i \<longrightarrow> i < n \<longrightarrow> (\<exists>a. ip_add ip1 (int i * addr_incr) = Inr a \<and>
    tunnel_command (tunnel_args alg integ (fst (keys ! i)) (snd (keys ! i)) (spi_2 + int i) (spi_1 + int i) ip2 a)
      \<in> set (snd (ps_vpp st')))"
proof -
  let ?f = "\<lambda>i. bindE (ip_add ip1 (int i * addr_incr)) (\<lambda>a. bindE (list_get keys (int i)) (\<lambda>k. Inr (a, k)))"
  let ?g = "\<lambda>i (a, c, k). tunnel_args alg integ c k (spi_2 + int i) (spi_1 + int i) ip2 a"
  let ?route = "\<lambda>dut2. whenS (e = 0) (bindS (liftS (bindE (ip_add ip2 (-1)) (\<lambda>g.
                 compose_vpp_route_structure dut2 (ip_str ip1) (VInt (if version ip1 = 6 then 32 else 8))
                   [(''interface'', VStr k2), (''gateway'', VStr (ip_str g))]))) (\<lambda>route.
               addX ''ip_route_add_del'' True (route_args_of route)))"
  from assms obtain dut2 ex1 st1 ex2 st2 ex3 st3 ds ex4 st4 dut1 ex5 st5 where
    logs: "snd (ps_vpp st') = snd (ps_vpp st5)"
    and loop: "forS (\<lambda>i. bindS (liftS (?f i)) (\<lambda>(a, c, k). addX ''ipsec_tunnel_if_add_del'' (noted (int n) i)
        (tunnel_args alg integ c k (spi_2 + int i) (spi_1 + int i) ip2 a))) [e..<n] (ex1, st1) = (Inr (), ex2, st2)"
    and replies: "repliesX (logged env) ''Failed to add IPsec tunnel interfaces'' (ex2, st2) = (Inr ds, ex3, st3)"
    and route: "?route dut2 (ex3, st3) = (Inr (), ex4, st4)"
    and conn: "connect_tunnels (logged env) dut2 dut1 k2 n e (replicate e VNone @ reply_interfaces ds) raddr (ex4, st4) = (Inr u, ex5, st5)"
    unfolding create_tunnel_interfaces_dut2_papi_def
    by (auto simp only: bindS_eq_Inr thenS_eq_Inr liftS_eq elim!: session_logged)
  have "along session_grows (?route dut2)" by (intro grows_rules)
  from alongD [OF this route] alongD [OF connect_tunnels_grows conn]
  have "set (snd (ps_vpp st3)) \<subseteq> set (snd (ps_vpp st5))"
    using log_grows_set [of st3 st4] log_grows_set [of st4 st5] by (auto simp: session_grows_def)
  with repliesX_run [OF replies] logs have sent: "set (api_command_list ex2) \<subseteq> set (snd (ps_vpp st'))" by auto
  have "forS (\<lambda>i. bindS (liftS (?f i)) (\<lambda>x. addX ''ipsec_tunnel_if_add_del'' (noted (int n) i) (?g i x))) [e..<n] (ex1, st1) =
      (Inr (), ex2, st2)"
    using loop by (simp add: case_prod_unfold)
  from computed_adds [OF this] obtain xs where xs: "mapE ?f [e..<n] = Inr xs"
    and list: "api_command_list ex2 = api_command_list ex1 @ map tunnel_command (map2 ?g [e..<n] xs)" by blast
  have cmds: "tunnel_command ` set (map2 ?g [e..<n] xs) \<subseteq> set (api_command_list ex2)"
    unfolding list set_append set_map by (rule Un_upper2)
  show ?thesis
  proof (intro allI impI)
    fix i assume i: "e \<le> i" "i < n"
    then have j: "i - e < length [e..<n]" "[e..<n] ! (i - e) = i" by simp_all
    from mapE_nth [OF xs j(1)] j(2) obtain a where a: "ip_add ip1 (int i * addr_incr) = Inr a"
      "list_get keys (int i) = Inr (snd (xs ! (i - e)))" "fst (xs ! (i - e)) = a" by (cases "xs ! (i - e)") auto
    then have "snd (xs ! (i - e)) = keys ! i" by (auto simp: list_get_def split: if_splits)
    moreover have "i - e < length (map2 ?g [e..<n] xs)" using j(1) mapE_Inr_length [OF xs] by simp
    then have "map2 ?g [e..<n] xs ! (i - e) \<in> set (map2 ?g [e..<n] xs)" by (rule nth_mem)
    then have "tunnel_command (?g i (xs ! (i - e))) \<in> set (api_command_list ex2)"
      using cmds j mapE_Inr_length [OF xs] by (auto simp: image_subset_iff)
    ultimately show "\<exists>a. ip_add ip1 (int i * addr_incr) = Inr a \<and>
        tunnel_command (tunnel_args alg integ (fst (keys ! i)) (snd (keys ! i)) (spi_2 + int i) (spi_1 + int i) ip2 a)
          \<in> set (snd (ps_vpp st'))"
      using a sent by (auto simp: case_prod_unfold)
  qed
qed

text \<open>
  C29. \<open>IPsecUtil.vpp_ipsec_create_tunnel_interfaces\<close> with two nodes under test and at most ten new tunnels: when it
  returns, VPP has received for every new tunnel two commands that are mirror images of each
  other. They have the same algorithms and keys, the index, which counts up from 100000 for one and from 200000
  for the other, and the address that are local in one are remote in the other.
\<close>

theorem tunnel_ends_mirror:
  assumes "vpp_ipsec_create_tunnel_interfaces (logged env) host nodes addr1 addr2 k1 k2 n alg integ raddr1 raddr2 raddr_range e st = (Inr None, st')"
    and "int n - int e \<le> 10" and "e \<le> i" and "i < n"
  shows "\<exists>ip1 ip2 incr a c k. ip_address addr1 = Inr ip1 \<and> ip_address addr2 = Inr ip2 \<and> subnet_step ip1 raddr_range = Inr incr \<and>
    ip_add ip1 (int i * incr) = Inr a \<and>
    {tunnel_command (tunnel_args alg integ c k (100000 + int i) (200000 + int i) a ip2),
     tunnel_command (tunnel_args alg integ c k (200000 + int i) (100000 + int i) ip2 a)} \<subseteq> set (snd (ps_vpp st'))"
proof -
  from assms(1,2) obtain ip1 ip2 r1 r2 incr keys s1 u where
    ips: "ip_address addr1 = Inr ip1" "ip_address addr2 = Inr ip2" "subnet_step ip1 raddr_range = Inr incr"
    and 1: "create_tunnel_interfaces_dut1_papi (logged env) host nodes ip1 ip2 k1 k2 n alg integ r2 incr 100000 200000 e st = (Inr keys, s1)"
    and 2: "create_tunnel_interfaces_dut2_papi (logged env) nodes ip1 ip2 k2 n alg keys integ r1 incr 100000 200000 e s1 = (Inr u, st')"
    by (auto simp: vpp_ipsec_create_tunnel_interfaces_def run_elims Let_def split: if_splits)
  have "along log_grows (create_tunnel_interfaces_dut2_papi (logged env) nodes ip1 ip2 k2 n alg keys integ r1 incr 100000 200000 e)"
    unfolding create_tunnel_interfaces_dut2_papi_def case_prod_unfold by (intro grows_rules connect_tunnels_grows)
  from log_grows_set [OF alongD [OF this 2]] have grown: "set (snd (ps_vpp s1)) \<subseteq> set (snd (ps_vpp st'))" .
  let ?c = "fst (keys ! i)" and ?k = "snd (keys ! i)"
  obtain a where a: "ip_add ip1 (int i * incr) = Inr a"
    "tunnel_command (tunnel_args alg integ ?c ?k (100000 + int i) (200000 + int i) a ip2) \<in> set (snd (ps_vpp s1))"
    using dut1_sends [OF 1] assms(3,4) by blast
  obtain b where b: "ip_add ip1 (int i * incr) = Inr b"
    "tunnel_command (tunnel_args alg integ ?c ?k (200000 + int i) (100000 + int i) ip2 b) \<in> set (snd (ps_vpp st'))"
    using dut2_sends [OF 2] assms(3,4) by blast
  have "b = a" using a(1) b(1) by simp
  with a b grown have "{tunnel_command (tunnel_args alg integ ?c ?k (100000 + int i) (200000 + int i) a ip2),
     tunnel_command (tunnel_args alg integ ?c ?k (200000 + int i) (100000 + int i) ip2 a)} \<subseteq> set (snd (ps_vpp st'))"
    by blast
  with a(1) ips show ?thesis
    by (intro exI [of _ ip1] exI [of _ ip2] exI [of _ incr] exI [of _ a] exI [of _ ?c] exI [of _ ?k] conjI)
qed

lemma gen_key_lab: "gen_key lab_host m st = (Inr (utf8 (replicate m (CHR ''a''))), st)"
proof -
  have "collectS (\<lambda>_. choice lab_host letters) xs st = (Inr (replicate (length xs) (CHR ''a'')), st)" for letters and xs :: "nat list"
    by (induction xs) (simp_all add: lab_host_def bindS_def returnS_def)
  then show ?thesis by (simp add: gen_key_def bindS_def returnS_def)
qed

definition ipsec_names :: "string list" where
  "ipsec_names = [''create_loopback'', ''sw_interface_set_flags'', ''sw_interface_add_del_address'', ''ip_neighbor_add_del'',
     ''ipsec_tunnel_if_add_del'', ''sw_interface_set_unnumbered'', ''ip_route_add_del'']"

lemma ipsec_known: "name \<in> {''create_loopback'', ''sw_interface_set_flags'', ''sw_interface_add_del_address'', ''ip_neighbor_add_del'',
     ''ipsec_tunnel_if_add_del'', ''sw_interface_set_unnumbered'', ''ip_route_add_del''} \<Longrightarrow> name \<in> set ipsec_names"
  by (simp add: ipsec_names_def)

text \<open>A run with one tunnel between two nodes.\<close>

lemma lab_route:
  "\<exists>r. compose_vpp_route_structure lab_dut (ip_str x) (VInt m) [(''interface'', VInt 7)] = Inr r"
  "\<exists>r. compose_vpp_route_structure lab_dut (ip_str x) (VInt m) [(''interface'', VStr ''port1''), (''gateway'', VStr (ip_str g))] = Inr r"
proof -
  have "get_interface_index lab_dut (VInt 7) = Inr (VInt 7)" "get_interface_index lab_dut (VStr ''port1'') = Inr (VInt 1)" by code_simp+
  then show "\<exists>r. compose_vpp_route_structure lab_dut (ip_str x) (VInt m) [(''interface'', VInt 7)] = Inr r"
   "\<exists>r. compose_vpp_route_structure lab_dut (ip_str x) (VInt m) [(''interface'', VStr ''port1''), (''gateway'', VStr (ip_str g))] = Inr r"
    by (simp_all add: compose_vpp_route_structure_def kwarg_def create_prefix_object_def py_int_val_def)
qed

lemma lab_dut_index:
  "get_interface_index lab_dut (VStr ''port1'') = Inr (VInt 1)" "get_interface_sw_index lab_dut (VStr ''port1'') = Inr (VInt 1)"
  by code_simp+

abbreviation lab_st :: "string list \<Rightarrow> papi_command list \<Rightarrow> (unit \<times> papi_command list) papi_state" where
  "lab_st \<equiv> lab_state ipsec_names ''10.10.0.1''"

lemma lab_connect:
  assumes "api_name ` set (api_command_list ex) \<subseteq> set ipsec_names" and "map_of (pe_node ex) ''host'' = Some (VStr ''10.10.0.1'')"
   and a: "ip_add r 0 = Inr r"
  shows "\<exists>h' l'. connect_tunnels (logged (lab_env ok_answer)) lab_dut lab_dut ''port1'' 1 0 (VInt 7 # ts) r (ex, lab_st h l) =
    (Inr (), ex\<lparr>api_command_list := []\<rparr>, lab_st h' l')"
proof -
  obtain rt where rt: "compose_vpp_route_structure lab_dut (ip_str r) (VInt (host_len r)) [(''interface'', VInt 7)] = Inr rt"
    using lab_route(1) by blast
  show ?thesis
    using assms by (simp add: connect_tunnels_def lab_eval lab_dut_index ipsec_known list_get_def rt) (intro exI, rule refl)
qed

lemma lab_connects:
  assumes "ip_add r 0 = Inr r"
  obtains c where "\<And>ex h l. api_name ` set (api_command_list ex) \<subseteq> set ipsec_names \<Longrightarrow> map_of (pe_node ex) ''host'' = Some (VStr ''10.10.0.1'') \<Longrightarrow>
     connect_tunnels (logged (lab_env ok_answer)) lab_dut lab_dut ''port1'' 1 0 (VInt 7 # ts) r (ex, lab_st h l) =
       (Inr (), ex\<lparr>api_command_list := []\<rparr>, lab_st (fst (c (ex, h, l))) (snd (c (ex, h, l))))"
proof -
  have "\<forall>x. \<exists>y. api_name ` set (api_command_list (fst x)) \<subseteq> set ipsec_names \<longrightarrow> map_of (pe_node (fst x)) ''host'' = Some (VStr ''10.10.0.1'') \<longrightarrow>
     connect_tunnels (logged (lab_env ok_answer)) lab_dut lab_dut ''port1'' 1 0 (VInt 7 # ts) r (fst x, lab_st (fst (snd x)) (snd (snd x))) =
       (Inr (), (fst x)\<lparr>api_command_list := []\<rparr>, lab_st (fst y) (snd y))"
    using lab_connect [OF _ _ assms] by simp
  from choice_iff [THEN iffD1, OF this] obtain c where
    c: "\<And>ex h l. api_name ` set (api_command_list ex) \<subseteq> set ipsec_names \<Longrightarrow> map_of (pe_node ex) ''host'' = Some (VStr ''10.10.0.1'') \<Longrightarrow>
     connect_tunnels (logged (lab_env ok_answer)) lab_dut lab_dut ''port1'' 1 0 (VInt 7 # ts) r (ex, lab_st h l) =
       (Inr (), ex\<lparr>api_command_list := []\<rparr>, lab_st (fst (c (ex, h, l))) (snd (c (ex, h, l))))" by auto
  then show thesis using that by blast
qed

abbreviation lab_nodes :: nodes where
  "lab_nodes \<equiv> [(''DUT1'', lab_dut), (''DUT2'', lab_dut)]"

lemma lab_loopback:
  assumes "ip_add b (-1) = Inr b'"
  shows "\<exists>h' l'. create_loopback_dut1_papi (logged (lab_env ok_answer)) lab_nodes b ''port1'' ''port1'' (lab_st h l) =
    (Inr (VInt 7), lab_st h' l')"
proof -
  have mac: "peer_mac lab_nodes ''port1'' = Inr (VStr ''02:00:00:00:00:01'')" by code_simp
  have nodes: "getitem lab_nodes ''DUT1'' = Inr lab_dut" by (simp add: getitem_def)
  show ?thesis
    by (simp add: create_loopback_dut1_papi_def lab_eval lab_dut_index ipsec_known mac nodes assms create_prefix_object_def net_len_def)
      (intro conjI impI; intro exI; rule refl)
qed

lemma lab_dut1:
  assumes "ip_add b (-1) = Inr b'" "ip_add a 0 = Inr a" "ip_add r 0 = Inr r"
  shows "\<exists>k h' l'. create_tunnel_interfaces_dut1_papi (logged (lab_env ok_answer)) lab_host lab_nodes a b ''port1'' ''port1'' 1
     AES_GCM_128 None r incr 100000 200000 0 (lab_st h l) = (Inr [k], lab_st h' l')"
proof -
  obtain h1 l1 where loop: "create_loopback_dut1_papi (logged (lab_env ok_answer)) lab_nodes b ''port1'' ''port1'' (lab_st h l) =
    (Inr (VInt 7), lab_st h1 l1)" using lab_loopback [OF assms(1)] by blast
  from lab_connects [OF assms(3), of "[VInt 7]"] obtain c where
    c: "\<And>ex h l. api_name ` set (api_command_list ex) \<subseteq> set ipsec_names \<Longrightarrow> map_of (pe_node ex) ''host'' = Some (VStr ''10.10.0.1'') \<Longrightarrow>
     connect_tunnels (logged (lab_env ok_answer)) lab_dut lab_dut ''port1'' 1 0 [VInt 7, VInt 7] r (ex, lab_st h l) =
       (Inr (), ex\<lparr>api_command_list := []\<rparr>, lab_st (fst (c (ex, h, l))) (snd (c (ex, h, l))))" by blast
  have reply: "reply_interfaces [ok_answer x, ok_answer y] = [VInt 7, VInt 7]" for x y by (simp add: reply_interfaces_def ok_answer_def)
  have nodes: "getitem lab_nodes ''DUT1'' = Inr lab_dut" by (simp add: getitem_def)
  show ?thesis
    by (simp add: create_tunnel_interfaces_dut1_papi_def lab_eval nodes loop lab_dut_index ipsec_known assms(2) create_prefix_object_def
       make_keys_def gen_key_lab inX_def reply c [unfolded One_nat_def]) (intro exI; rule refl)
qed

lemma lab_dut2:
  assumes "ip_add b (-1) = Inr b'" "ip_add a 0 = Inr a" "ip_add r 0 = Inr r"
  shows "\<exists>h' l'. create_tunnel_interfaces_dut2_papi (logged (lab_env ok_answer)) lab_nodes a b ''port1'' 1
     AES_GCM_128 [(ck, ik)] None r incr 100000 200000 0 (lab_st h l) = (Inr (), lab_st h' l')"
proof -
  obtain rt where rt: "\<And>x m. compose_vpp_route_structure lab_dut (ip_str x) (VInt m)
      [(''interface'', VStr ''port1''), (''gateway'', VStr (ip_str b'))] = Inr (rt x m)"
    using lab_route(2) [of _ _ b'] by metis
  from lab_connects [OF assms(3), of "[]"] obtain c where
    c: "\<And>ex h l. api_name ` set (api_command_list ex) \<subseteq> set ipsec_names \<Longrightarrow> map_of (pe_node ex) ''host'' = Some (VStr ''10.10.0.1'') \<Longrightarrow>
     connect_tunnels (logged (lab_env ok_answer)) lab_dut lab_dut ''port1'' 1 0 [VInt 7] r (ex, lab_st h l) =
       (Inr (), ex\<lparr>api_command_list := []\<rparr>, lab_st (fst (c (ex, h, l))) (snd (c (ex, h, l))))" by blast
  have reply: "reply_interfaces [ok_answer x] = [VInt 7]" for x
    by (simp add: reply_interfaces_def ok_answer_def)
  have nodes: "getitem lab_nodes ''DUT1'' = Inr lab_dut" "getitem lab_nodes ''DUT2'' = Inr lab_dut" by (simp_all add: getitem_def)
  show ?thesis
    by (simp add: create_tunnel_interfaces_dut2_papi_def lab_eval nodes lab_dut_index ipsec_known assms create_prefix_object_def
       list_get_def rt reply c [unfolded One_nat_def])
      (intro conjI impI; intro exI; rule refl)
qed

theorem tunnel_ends_mirror_witness:
  "\<exists>st' c k. vpp_ipsec_create_tunnel_interfaces (logged (lab_env ok_answer)) lab_host lab_nodes
       ''10.0.0.1'' ''20.0.0.1'' ''port1'' ''port1'' 1 AES_GCM_128 None ''30.0.0.1'' ''40.0.0.1'' 24 0
       (lab_st [] []) = (Inr None, st') \<and>
     {tunnel_command (tunnel_args AES_GCM_128 None c k 100000 200000 (IPv4Address 0x0A000001) (IPv4Address 0x14000001)),
      tunnel_command (tunnel_args AES_GCM_128 None c k 200000 100000 (IPv4Address 0x14000001) (IPv4Address 0x0A000001))}
       \<subseteq> set (snd (ps_vpp st'))"
proof -
  let ?a = "IPv4Address 0x0A000001" and ?b = "IPv4Address 0x14000001"
  let ?r1 = "IPv4Address 0x1E000001" and ?r2 = "IPv4Address 0x28000001"
  have ips: "ip_address ''10.0.0.1'' = Inr ?a" "ip_address ''20.0.0.1'' = Inr ?b" "ip_address ''30.0.0.1'' = Inr ?r1"
    "ip_address ''40.0.0.1'' = Inr ?r2"
    by (simp_all add: ip_address_def parse_ipv4_def parse_octet_def parse_nat_def is_digit_def digit_value_def of_digits_def)
  have adds: "ip_add ?b (-1) = Inr (IPv4Address 0x14000000)" "ip_add ?a 0 = Inr ?a" "ip_add ?r1 0 = Inr ?r1" "ip_add ?r2 0 = Inr ?r2"
    by simp_all
  have step: "subnet_step ?a 24 = Inr 256" by (simp add: subnet_step_def shift_one_def)
  obtain k h1 l1 h2 l2 where
    "create_tunnel_interfaces_dut1_papi (logged (lab_env ok_answer)) lab_host lab_nodes ?a ?b ''port1'' ''port1'' 1
       AES_GCM_128 None ?r2 256 100000 200000 0 (lab_st [] []) = (Inr [k], lab_st h1 l1)"
    "create_tunnel_interfaces_dut2_papi (logged (lab_env ok_answer)) lab_nodes ?a ?b ''port1'' 1
     AES_GCM_128 [k] None ?r1 256 100000 200000 0 (lab_st h1 l1) = (Inr (), lab_st h2 l2)"
    using lab_dut1 [OF adds(1,2,4)] lab_dut2 [OF adds(1,2,3)] by (metis surj_pair)
  then have run: "vpp_ipsec_create_tunnel_interfaces (logged (lab_env ok_answer)) lab_host lab_nodes
       ''10.0.0.1'' ''20.0.0.1'' ''port1'' ''port1'' 1 AES_GCM_128 None ''30.0.0.1'' ''40.0.0.1'' 24 0
       (lab_st [] []) = (Inr None, lab_st h2 l2)"
    by (simp add: vpp_ipsec_create_tunnel_interfaces_def ips step bindS_def thenS_def liftS_def returnS_def Let_def)
  from tunnel_ends_mirror [OF run, of 0] run show ?thesis
    by (auto simp: ips step adds)
qed


section \<open>The policies refer to associations\<close>

lemma map2_of_second: "length xs = length ys \<Longrightarrow> map2 (\<lambda>x. f) xs ys = map f ys"
  by (induction xs ys rule: list_induct2) simp_all

text \<open>
  The two ways of \<open>vpp_ipsec_spd_add_entries\<close>: up to ten policies are messages, which all name the first association
  and ignore the range, more are the lines of a script.
\<close>

lemma spd_entries_both_ways:
  assumes "vpp_ipsec_spd_add_entries (logged env) host node n spd_id prio inbound first raddr_ip rng st = (Inr (), st')"
  shows "\<exists>raddr. ip_address raddr_ip = Inr raddr \<and>
    (if n \<le> 10
     then \<exists>as lnet out. ip_network (if version raddr = 6 then ''::/0'' else ''0.0.0.0/0'') = Inr lnet \<and>
            mapE (\<lambda>i. ip_add raddr (int i)) [0..<nat n] = Inr as \<and>
            snd (ps_vpp st') = snd (ps_vpp st) @ out \<and>
            all_sent (map (\<lambda>a. \<lparr>api_name = ''ipsec_spd_entry_add_del'', api_args = spd_entry spd_id prio inbound first a lnet\<rparr>) as) out
     else \<exists>rs. mapE (\<lambda>i. bindE (ip_add raddr (int i * (rng + 1))) (\<lambda>a.
              bindE (ip_add raddr ((int i + 1) * rng + int i)) (\<lambda>b. Inr (a, b)))) [0..<nat n] = Inr rs \<and>
            run_script host node (''/tmp/ipsec_spd_'' @ str_of_int first @ ''_add_del_entry.script'')
              (concat (map2 (\<lambda>i (a, b). spd_line spd_id prio inbound (first + int i) a b) [0..<nat n] rs)) 300 True st = (Inr (), st'))"
proof -
  from assms obtain raddr where raddr: "ip_address raddr_ip = Inr raddr"
    by (auto simp: vpp_ipsec_spd_add_entries_def run_elims)
  show ?thesis
  proof (cases "n \<le> 10")
    case True
    let ?entry = "\<lambda>lnet a. spd_entry spd_id prio inbound first a lnet"
    from True assms raddr obtain lnet msg where lnet: "ip_network (if version raddr = 6 then ''::/0'' else ''0.0.0.0/0'') = Inr lnet"
      and sent: "in_session (logged env) node (thenS
         (forS (\<lambda>i. bindS (liftS (ip_add raddr (int i))) (\<lambda>a.
            addX ''ipsec_spd_entry_add_del'' (noted n i) ((\<lambda>i. ?entry lnet) i a))) [0..<nat n])
         (voidS (repliesX (logged env) msg))) st = (Inr (), st')"
      by (auto simp: vpp_ipsec_spd_add_entries_def with_host_def run_elims)
    from session_of_loop [OF sent] obtain as out where as: "mapE (\<lambda>i. ip_add raddr (int i)) [0..<nat n] = Inr as"
      and out: "snd (ps_vpp st') = snd (ps_vpp st) @ out"
        "all_sent (map (\<lambda>a. \<lparr>api_name = ''ipsec_spd_entry_add_del'', api_args = a\<rparr>) (map2 (\<lambda>i. ?entry lnet) [0..<nat n] as)) out"
      by blast
    have "map2 (\<lambda>i. ?entry lnet) [0..<nat n] as = map (?entry lnet) as"
      using mapE_Inr_length [OF as] by (simp add: map2_of_second)
    with out have sent: "all_sent (map (\<lambda>a. \<lparr>api_name = ''ipsec_spd_entry_add_del'', api_args = ?entry lnet a\<rparr>) as) out"
      by (simp add: comp_def)
    show ?thesis
      unfolding if_P [OF True] by (intro exI conjI) (rule raddr lnet as out(1) sent)+
  next
    case False
    let ?pair = "\<lambda>i. bindE (ip_add raddr (int i * (rng + 1))) (\<lambda>a.
        bindE (ip_add raddr ((int i + 1) * rng + int i)) (\<lambda>b. Inr (a, b)))"
    let ?line = "\<lambda>i (a, b). spd_line spd_id prio inbound (first + int i) a b"
    from False assms raddr obtain ls where
      ls: "mapE (\<lambda>i. bindE (?pair i) (\<lambda>x. Inr (?line i x))) [0..<nat n] = Inr ls"
      and run: "run_script host node (''/tmp/ipsec_spd_'' @ str_of_int first @ ''_add_del_entry.script'') (concat ls) 300 True st = (Inr (), st')"
      by (auto simp: vpp_ipsec_spd_add_entries_def run_elims bindE_assoc)
    from mapE_map2I [OF ls] run raddr False show ?thesis by auto
  qed
qed

lemma uint_of_int_range:
  fixes i :: int
  assumes "0 \<le> i" and "i < 2 ^ LENGTH('a)"
  shows "uint (of_int i :: 'a :: len word) = i"
  using assms by (simp add: unsigned_of_int take_bit_int_eq_self)

lemma ip_add_add:
  assumes "ip_add x k = Inr y"
  shows "ip_add y m = ip_add x (k + m)"
proof (cases x)
  case (IPv4Address w)
  with assms have y: "y = IPv4Address (of_int (uint w + k))" and "0 \<le> uint w + k" "uint w + k < 2 ^ 32"
    by (auto simp: Let_def split: if_splits)
  then have "uint (of_int (uint w + k) :: 32 word) = uint w + k" by (intro uint_of_int_range) simp_all
  then show ?thesis by (simp only: y IPv4Address ip_add.simps add.assoc)
next
  case (IPv6Address w)
  with assms have y: "y = IPv6Address (of_int (uint w + k))" and "0 \<le> uint w + k" "uint w + k < 2 ^ 128"
    by (auto simp: Let_def split: if_splits)
  then have "uint (of_int (uint w + k) :: 128 word) = uint w + k" by (intro uint_of_int_range) simp_all
  then show ?thesis by (simp only: y IPv6Address ip_add.simps add.assoc)
qed

lemma ip_add_0 [simp]: "ip_add x 0 = Inr x"
proof (cases x)
  case (IPv4Address w)
  then show ?thesis using uint_lt2p [of w] by (simp add: Let_def)
next
  case (IPv6Address w)
  then show ?thesis using uint_lt2p [of w] by (simp add: Let_def)
qed

text \<open>
  C31. \<open>IPsecUtil.vpp_ipsec_spd_add_entries\<close> with more than ten entries: when it returns, it has run a script with one
  policy per entry, in order. Policy \<open>i\<close> protects with the association \<open>first + i\<close> a range of remote addresses of the size
  asked for; the first range starts at the given address and each other one directly after
  the end of the range before.
\<close>

theorem spd_entries_protect:
  assumes "vpp_ipsec_spd_add_entries env host node n spd_id prio inbound first raddr_ip rng st = (Inr (), st')" and "10 < n"
  shows "\<exists>ranges. length ranges = nat n \<and> ip_address raddr_ip = Inr (fst (ranges ! 0)) \<and>
    (\<forall>i < nat n. ip_add (fst (ranges ! i)) rng = Inr (snd (ranges ! i))) \<and>
    (\<forall>i. Suc i < nat n \<longrightarrow> ip_add (snd (ranges ! i)) 1 = Inr (fst (ranges ! Suc i))) \<and>
    run_script host node (''/tmp/ipsec_spd_'' @ str_of_int first @ ''_add_del_entry.script'')
      (concat (map (\<lambda>i. spd_line spd_id prio inbound (first + int i) (fst (ranges ! i)) (snd (ranges ! i))) [0..<nat n]))
      300 True st = (Inr (), st')"
proof -
  from assms(1) obtain raddr where raddr: "ip_address raddr_ip = Inr raddr"
    by (auto simp: vpp_ipsec_spd_add_entries_def run_elims)
  let ?pair = "\<lambda>i. bindE (ip_add raddr (int i * (rng + 1))) (\<lambda>a.
      bindE (ip_add raddr ((int i + 1) * rng + int i)) (\<lambda>b. Inr (a, b)))"
  let ?line = "\<lambda>i (a, b). spd_line spd_id prio inbound (first + int i) a b"
  from assms raddr obtain ls where
    ls: "mapE (\<lambda>i. bindE (?pair i) (\<lambda>x. Inr (?line i x))) [0..<nat n] = Inr ls"
    and run: "run_script host node (''/tmp/ipsec_spd_'' @ str_of_int first @ ''_add_del_entry.script'') (concat ls) 300 True st = (Inr (), st')"
    by (auto simp: vpp_ipsec_spd_add_entries_def run_elims bindE_assoc)
  from mapE_map2I [OF ls] obtain rs where rs: "mapE ?pair [0..<nat n] = Inr rs" and map2: "ls = map2 ?line [0..<nat n] rs" by blast
  have len: "length rs = nat n" using mapE_Inr_length [OF rs] by simp
  have lines: "ls = map (\<lambda>i. spd_line spd_id prio inbound (first + int i) (fst (rs ! i)) (snd (rs ! i))) [0..<nat n]"
    unfolding map2 by (rule nth_equalityI) (simp_all add: len case_prod_unfold)
  have range: "ip_add raddr (int i * (rng + 1)) = Inr (fst (rs ! i))" "ip_add raddr ((int i + 1) * rng + int i) = Inr (snd (rs ! i))"
    if "i < nat n" for i
    using mapE_nth [OF rs, of i] that by (auto simp del: ip_add.simps dest!: sym [of "(_, _)"])
  have "ip_add (fst (rs ! i)) rng = Inr (snd (rs ! i))" if "i < nat n" for i
    using ip_add_add [OF range(1) [OF that], of rng] range(2) [OF that] by (simp add: algebra_simps)
  moreover have "ip_add (snd (rs ! i)) 1 = Inr (fst (rs ! Suc i))" if "Suc i < nat n" for i
    using ip_add_add [OF range(2), of i 1] range(1) [OF that] that by (simp add: algebra_simps)
  moreover have "raddr = fst (rs ! 0)" using range(1) [of 0] assms(2) by simp
  ultimately show ?thesis using len raddr run [unfolded lines] by blast
qed

theorem spd_entries_protect_witness:
  "\<exists>ranges. length ranges = 11 \<and> fst (ranges ! 0) = IPv4Address 0x14000001 \<and> ip_add (fst (ranges ! 10)) 5 = Inr (snd (ranges ! 10)) \<and>
     ip_add (snd (ranges ! 0)) 1 = Inr (fst (ranges ! 1))"
proof -
  let ?st = "lab_state [''ipsec_spd_entry_add_del''] ''10.10.0.1'' [] []"
  have ip: "ip_address ''20.0.0.1'' = Inr (IPv4Address 0x14000001)"
    by (simp add: ip_address_def parse_ipv4_def parse_octet_def parse_nat_def is_digit_def digit_value_def of_digits_def)
  have upt: "[0..<nat 11] = [0, 1, 2, 3, 4, 5, 6, 7, 8, 9, 10]" by (simp add: upt_rec)
  have run: "vpp_ipsec_spd_add_entries (logged (lab_env ok_answer)) lab_host lab_dut 11 1 10 True 100000 ''20.0.0.1'' 5 ?st = (Inr (), ?st)"
    unfolding vpp_ipsec_spd_add_entries_def upt by (simp add: ip bindS_def liftS_def lab_host_def returnS_def)
  have zless: "(10::int) < 11" by simp
  obtain ranges where "length ranges = nat 11" "ip_address ''20.0.0.1'' = Inr (fst (ranges ! 0))"
    "\<forall>i < nat 11. ip_add (fst (ranges ! i)) 5 = Inr (snd (ranges ! i))"
    "\<forall>i. Suc i < nat 11 \<longrightarrow> ip_add (snd (ranges ! i)) 1 = Inr (fst (ranges ! Suc i))"
    using spd_entries_protect [OF run zless] by blast
  then show ?thesis by (intro exI [of _ ranges]) (simp add: ip del: ip_add.simps)
qed
end
