(* ===== verification/DpdkUtil.thy ===== *)
theory DpdkUtil
  imports OptionString Ssh
begin

text \<open>
  \<open>DpdkUtil.py\<close>: the command lines of DPDK applications, built by the methods of \<open>OptionString\<close> from the
  keyword arguments of the caller. A method is a list of steps that are applied in order.
\<close>

type_synonym dpdk_kwargs = "(string, option_arg) pydict"

definition build :: "(option_string \<Rightarrow> option_string) list \<Rightarrow> option_string \<Rightarrow> option_string" where
  "build steps os = fold (\<lambda>step. step) steps os"

text \<open>The default \<^verbatim>\<open>u""\<close> of the methods that take a value from a dictionary.\<close>

abbreviation no_value :: option_arg where
  "no_value \<equiv> AStr []"

definition get_eal_options :: "dpdk_kwargs \<Rightarrow> option_string" where
  "get_eal_options kw =
     build
       [\<lambda>os. add os (AStr ''v''),
        \<lambda>os. add_with_value_from_dict os (AStr ''l'') ''eal_corelist'' kw no_value,
        \<lambda>os. add_with_value_from_dict os (AStr ''w'') ''eal_pci_whitelist0'' kw no_value,
        \<lambda>os. add_with_value_from_dict os (AStr ''w'') ''eal_pci_whitelist1'' kw no_value,
        \<lambda>os. add_with_value_if_from_dict os (AStr ''d'') (AStr ''/usr/lib/librte_pmd_virtio.so'') ''eal_driver'' kw (ABool True),
        \<lambda>os. add_if_from_dict os (AStr ''-in-memory'') ''eal_in_memory'' kw (ABool False)]
       (OptionString [] (AStr ''-''))"

definition get_testpmd_pmd_options :: "dpdk_kwargs \<Rightarrow> option_string" where
  "get_testpmd_pmd_options kw =
     build
       [\<lambda>os. add_equals_from_dict os (AStr ''forward-mode'') ''pmd_fwd_mode'' kw (AStr ''io''),
        \<lambda>os. add_equals os (AStr ''burst'') (AInt 64),
        \<lambda>os. add_equals_from_dict os (AStr ''txd'') ''pmd_txd'' kw (AInt 1024),
        \<lambda>os. add_equals_from_dict os (AStr ''rxd'') ''pmd_rxd'' kw (AInt 1024),
        \<lambda>os. add_equals_from_dict os (AStr ''txq'') ''pmd_txq'' kw (AInt 1),
        \<lambda>os. add_equals_from_dict os (AStr ''rxq'') ''pmd_rxq'' kw (AInt 1),
        \<lambda>os. add_equals_from_dict os (AStr ''tx-offloads'') ''pmd_tx_offloads'' kw (AStr ''0x0''),
        \<lambda>os. add_if_from_dict os (AStr ''numa'') ''pmd_numa'' kw (ABool True),
        \<lambda>os. add_if_from_dict os (AStr ''auto-start'') ''pmd_auto_start'' kw (ABool True),
        \<lambda>os. add_equals_from_dict os (AStr ''total-num-mbufs'') ''pmd_num_mbufs'' kw no_value,
        \<lambda>os. add_equals_from_dict os (AStr ''nb-ports'') ''pmd_nb_ports'' kw no_value,
        \<lambda>os. add_equals_from_dict os (AStr ''portmask'') ''pmd_portmask'' kw no_value,
        \<lambda>os. add_if_from_dict os (AStr ''disable-link-check'') ''pmd_disable_link_check'' kw (ABool True),
        \<lambda>os. add_equals_from_dict os (AStr ''eth-peer'') ''pmd_eth_peer_0'' kw no_value,
        \<lambda>os. add_equals_from_dict os (AStr ''eth-peer'') ''pmd_eth_peer_1'' kw no_value,
        \<lambda>os. add_equals_from_dict os (AStr ''max-pkt-len'') ''pmd_max_pkt_len'' kw no_value,
        \<lambda>os. add_equals_from_dict os (AStr ''mbuf-size'') ''pmd_mbuf_size'' kw no_value,
        \<lambda>os. add_equals_from_dict os (AStr ''nb-cores'') ''pmd_nb_cores'' kw no_value]
       (OptionString [] (AStr ''--''))"

text \<open>An optional command, the options of the environment, two dashes, and those of the application.\<close>

definition dpdk_line :: "string option \<Rightarrow> option_string \<Rightarrow> option_string \<Rightarrow> option_string" where
  "dpdk_line cmd eal pmd =
     (let start = OptionString [] (AStr []);
          os = (case cmd of None \<Rightarrow> start | Some c \<Rightarrow> add start (AStr c))
      in OptionString.extend (add (OptionString.extend os eal) (AStr ''--'')) pmd)"

definition get_testpmd_args :: "dpdk_kwargs \<Rightarrow> option_string" where
  "get_testpmd_args kw = dpdk_line None (get_eal_options kw) (get_testpmd_pmd_options kw)"

definition get_testpmd_cmdline :: "dpdk_kwargs \<Rightarrow> option_string" where
  "get_testpmd_cmdline kw = dpdk_line (Some ''testpmd'') (get_eal_options kw) (get_testpmd_pmd_options kw)"

definition dpdk_testpmd_start :: "'w paramiko \<Rightarrow> node \<Rightarrow> dpdk_kwargs \<Rightarrow> ('w ssh_state, unit) act" where
  "dpdk_testpmd_start pk node kw =
     voidS (ssh_exec_cmd_no_error pk node
       (option_str (dpdk_line (Some ''/start-testpmd.sh'') (get_eal_options kw) (get_testpmd_pmd_options kw)))
       600 True [] True 0 False)"

definition dpdk_testpmd_stop :: "'w paramiko \<Rightarrow> node \<Rightarrow> ('w ssh_state, unit) act" where
  "dpdk_testpmd_stop pk node = voidS (ssh_exec_cmd_no_error pk node ''/stop-testpmd.sh'' 600 True [] True 0 False)"

definition get_l3fwd_pmd_options :: "dpdk_kwargs \<Rightarrow> option_string" where
  "get_l3fwd_pmd_options kw =
     build
       [\<lambda>os. add_if_from_dict os (AStr ''parse-ptype'') ''pmd_parse_ptype'' kw (ABool True),
        \<lambda>os. add_equals_from_dict os (AStr ''eth-dest'') ''pmd_eth_dest_0'' kw no_value,
        \<lambda>os. add_equals_from_dict os (AStr ''eth-dest'') ''pmd_eth_dest_1'' kw no_value,
        \<lambda>os. add_equals_from_dict os (AStr ''config'') ''pmd_config'' kw no_value,
        \<lambda>os. add_if_from_dict os (AStr ''enable-jumbo'') ''pmd_enable_jumbo'' kw (ABool False),
        \<lambda>os. add_with_value_if_from_dict os (AStr ''max-pkt-len'') (AStr ''9200'') ''pmd_max_pkt_len'' kw (ABool False)]
       (OptionString [] (AStr ''--''))"

definition get_l3fwd_args :: "dpdk_kwargs \<Rightarrow> option_string" where
  "get_l3fwd_args kw = dpdk_line None (get_eal_options kw) (get_l3fwd_pmd_options kw)"

section \<open>The command lines are well formed\<close>

lemma option_if_from_dict_wf:
  assumes "option_wf os"
  shows "option_wf (add_with_value_from_dict os a k d x)" "option_wf (add_equals_from_dict os a k d x)"
    "option_wf (add_if_from_dict os a k d x)" "option_wf (add_with_value_if_from_dict os a v k d x)"
  using assms by (simp_all add: add_with_value_from_dict_def add_equals_from_dict_def add_if_from_dict_def
      add_with_value_if_from_dict_def add_if_def add_with_value_if_def add_wf add_with_value_wf add_equals_wf)

lemma build_wf: "option_wf os \<Longrightarrow> (\<And>step o'. step \<in> set steps \<Longrightarrow> option_wf o' \<Longrightarrow> option_wf (step o')) \<Longrightarrow> option_wf (build steps os)"
  unfolding build_def by (induction steps arbitrary: os) auto

lemmas dpdk_wf_intros = option_if_from_dict_wf option_wf_intros OptionString_wf

lemma get_eal_options_wf: "option_wf (get_eal_options kw)"
  unfolding get_eal_options_def by (rule build_wf) (auto intro: dpdk_wf_intros)

lemma get_testpmd_pmd_options_wf: "option_wf (get_testpmd_pmd_options kw)"
  unfolding get_testpmd_pmd_options_def by (rule build_wf) (auto intro: dpdk_wf_intros)

lemma get_l3fwd_pmd_options_wf: "option_wf (get_l3fwd_pmd_options kw)"
  unfolding get_l3fwd_pmd_options_def by (rule build_wf) (auto intro: dpdk_wf_intros)

lemma dpdk_line_wf: "option_wf eal \<Longrightarrow> option_wf pmd \<Longrightarrow> option_wf (dpdk_line cmd eal pmd)"
  by (auto simp: dpdk_line_def Let_def intro!: dpdk_wf_intros split: option.splits)

definition dashed :: "option_string \<Rightarrow> bool" where
  "dashed os \<longleftrightarrow> option_wf os \<and> prefix os = ''--'' \<and> (\<forall>p \<in> set (parts os). take 2 p = ''--'')"

lemma dashed_start: "dashed (OptionString [] (AStr ''--''))"
proof -
  have "prefix (OptionString [] (AStr ''--'')) = ''--''" "parts (OptionString [] (AStr ''--'')) = []" by code_simp+
  then show ?thesis by (simp add: dashed_def OptionString_wf)
qed

lemma dashed_steps:
  assumes "dashed os"
  shows "dashed (add_equals os a v)" "dashed (add os a)" "dashed (add_equals_from_dict os a k d x)" "dashed (add_if_from_dict os a k d x)"
proof -
  from assms have wf: "option_wf os" and st: "stripped (prefix os)" and pre: "prefix os = ''--''"
    and ps: "\<forall>p \<in> set (parts os). take 2 p = ''--''" unfolding dashed_def option_wf_def by blast+
  have two: "take 2 (''--'' @ x) = ''--''" for x by simp
  show eq: "dashed (add_equals os a v)" for a v
    unfolding dashed_def using ps add_equals_wf [OF wf, of a v]
    by (simp only: add_equals_eq [OF st] pre two split: if_split) (simp add: pre)
  show add: "dashed (add os a)" for a
    unfolding dashed_def using ps add_wf [OF wf, of a]
    by (simp only: add_eq pre two split: if_split) (simp add: pre)
  show "dashed (add_equals_from_dict os a k d x)" "dashed (add_if_from_dict os a k d x)"
    by (simp_all add: add_equals_from_dict_def add_if_from_dict_def add_if_def eq add assms)
qed

lemma dashed_build: "dashed os \<Longrightarrow> (\<And>step o'. step \<in> set steps \<Longrightarrow> dashed o' \<Longrightarrow> dashed (step o')) \<Longrightarrow> dashed (build steps os)"
  unfolding build_def by (induction steps arbitrary: os) auto

lemma get_testpmd_pmd_options_dashed: "dashed (get_testpmd_pmd_options kw)"
  unfolding get_testpmd_pmd_options_def by (rule dashed_build) (auto intro: dashed_steps dashed_start)

text \<open>
  Whatever the caller asks for, the command line of \<^verbatim>\<open>testpmd\<close> is well formed: the words are not empty and
  have no blanks at their ends, the program is the first of them, and the options of the environment are separated by
  \<^verbatim>\<open>--\<close> from those of the application, each of which starts with two dashes.
\<close>

theorem testpmd_cmdline_well_formed:
  "option_wf (get_testpmd_cmdline kw) \<and>
   parts (get_testpmd_cmdline kw) =
     [''testpmd''] @ parts (get_eal_options kw) @ [''--''] @ parts (get_testpmd_pmd_options kw) \<and>
   (\<forall>p \<in> set (parts (get_testpmd_pmd_options kw)). take 2 p = ''--'')"
proof -
  have "arg_text (AStr ''testpmd'') = ''testpmd''" "arg_text (AStr ''--'') = ''--''"
    "prefix (OptionString [] (AStr [])) = []" "parts (OptionString [] (AStr [])) = []" by code_simp+
  then have "parts (get_testpmd_cmdline kw) =
     [''testpmd''] @ parts (get_eal_options kw) @ [''--''] @ parts (get_testpmd_pmd_options kw)"
    by (simp add: get_testpmd_cmdline_def dpdk_line_def add_eq OptionString.extend_def Let_def)
  moreover have "option_wf (get_testpmd_cmdline kw)"
    unfolding get_testpmd_cmdline_def by (intro dpdk_line_wf get_eal_options_wf get_testpmd_pmd_options_wf)
  ultimately show ?thesis
    using get_testpmd_pmd_options_dashed [of kw] by (simp add: dashed_def)
qed

text \<open>A word that one step adds stays in the command line.\<close>

lemma build_has:
  assumes "dashed os" and "\<And>step o'. step \<in> set steps \<Longrightarrow> dashed o' \<Longrightarrow> dashed (step o') \<and> set (parts o') \<subseteq> set (parts (step o'))"
    and "step \<in> set steps" and "\<And>o'. dashed o' \<Longrightarrow> p \<in> set (parts (step o'))"
  shows "p \<in> set (parts (build steps os))"
proof -
  have keep: "set (parts os) \<subseteq> set (parts (build ss os))"
    if "dashed os" "\<And>step o'. step \<in> set ss \<Longrightarrow> dashed o' \<Longrightarrow> dashed (step o') \<and> set (parts o') \<subseteq> set (parts (step o'))" for ss os
    using that unfolding build_def
  proof (induction ss arbitrary: os)
    case (Cons s ss)
    then have "dashed (s os)" "set (parts os) \<subseteq> set (parts (s os))" by simp_all
    with Cons.IH [of "s os"] Cons.prems(2) show ?case by force
  qed simp
  from assms(3) obtain ss ss' where steps: "steps = ss @ step # ss'" by (auto simp: in_set_conv_decomp)
  have build: "build steps os = build ss' (step (build ss os))" by (simp add: steps build_def)
  have "dashed (build ss os)" using assms(1,2) by (intro dashed_build) (auto simp: steps)
  moreover from this have "dashed (step (build ss os))" using assms(2,3) by blast
  ultimately show ?thesis using keep [of "step (build ss os)" ss'] assms(2,4) unfolding build by (auto simp: steps)
qed

lemma dashed_keeps:
  assumes "dashed os"
  shows "set (parts os) \<subseteq> set (parts (add_equals os a v))" "set (parts os) \<subseteq> set (parts (add os a))"
    "set (parts os) \<subseteq> set (parts (add_equals_from_dict os a k d x))" "set (parts os) \<subseteq> set (parts (add_if_from_dict os a k d x))"
proof -
  from assms have st: "stripped (prefix os)" unfolding dashed_def option_wf_def by blast
  show "set (parts os) \<subseteq> set (parts (add_equals os a v))" for a v
    by (auto simp: add_equals_eq [OF st])
  then show "set (parts os) \<subseteq> set (parts (add_equals_from_dict os a k d x))" by (simp add: add_equals_from_dict_def)
  show "set (parts os) \<subseteq> set (parts (add os a))" for a by (auto simp: add_eq)
  then show "set (parts os) \<subseteq> set (parts (add_if_from_dict os a k d x))" by (simp add: add_if_from_dict_def add_if_def)
qed

lemma testpmd_peers:
  assumes "k = ''pmd_eth_peer_0'' \<or> k = ''pmd_eth_peer_1''" and "map_of kw k = Some (AStr (c # s))" and "\<not> is_space c"
  shows "''--eth-peer='' @ strip (c # s) \<in> set (parts (get_testpmd_cmdline kw))"
proof -
  have val: "arg_text (AStr (c # s)) \<noteq> []" "arg_text (AStr (c # s)) = strip (c # s)"
    using assms(3) by (simp_all add: arg_text_def strip_def)
  have word: "arg_text (AStr ''eth-peer'') = ''eth-peer''" by code_simp
  have adds: "''--eth-peer='' @ strip (c # s) \<in> set (parts (add_equals_from_dict os (AStr ''eth-peer'') k kw no_value))" if "dashed os" for os
  proof -
    from that have st: "stripped (prefix os)" and pre: "prefix os = ''--''" unfolding dashed_def option_wf_def by blast+
    show ?thesis
      using assms(2) val unfolding add_equals_from_dict_def add_equals_eq [OF st] pre word by (simp add: dict_get_default_def)
  qed
  have "''--eth-peer='' @ strip (c # s) \<in> set (parts (get_testpmd_pmd_options kw))"
    unfolding get_testpmd_pmd_options_def
  proof (rule build_has [where step = "\<lambda>os. add_equals_from_dict os (AStr ''eth-peer'') k kw no_value"], goal_cases)
    case 3
    show ?case using assms(1) by auto
  qed (auto intro: dashed_start dashed_steps dest: subsetD [OF dashed_keeps(1)] subsetD [OF dashed_keeps(2)]
      subsetD [OF dashed_keeps(3)] subsetD [OF dashed_keeps(4)] adds)
  moreover have "parts (get_testpmd_cmdline kw) = [''testpmd''] @ parts (get_eal_options kw) @ [''--''] @ parts (get_testpmd_pmd_options kw)"
    using testpmd_cmdline_well_formed by blast
  ultimately show ?thesis by simp
qed

end
