(* ===== verification/QemuUtils.thy ===== *)
theory QemuUtils
  imports DpdkUtil Vat VppConfigGenerator
begin

text \<open>
  \<open>QemuUtils.py\<close>: one virtual machine under QEMU. The object holds the command line (\<open>OptionString\<close>), the options, the
  temporary files and the description of the machine; the state of a keyword is the object and the state of the
  SSH connections. Template files on the executor and the parser of JSON texts are parameters.
\<close>

section \<open>The object\<close>

definition QEMU_BIN_PATH :: string where "QEMU_BIN_PATH = ''/usr/bin''"
definition QEMU_VM_KERNEL :: string where "QEMU_VM_KERNEL = ''/opt/boot/vmlinuz''"
definition QEMU_VM_KERNEL_INITRD :: string where "QEMU_VM_KERNEL_INITRD = ''/opt/boot/initrd.img''"
definition QEMU_VM_IMAGE :: string where "QEMU_VM_IMAGE = ''/var/lib/vm/image.iso''"
definition QEMU_VM_DPDK :: string where "QEMU_VM_DPDK = ''/opt/dpdk-20.02''"
definition RESOURCES_TPL :: string where "RESOURCES_TPL = ''resources/templates''"

record qemu =
  nic_id :: nat
  q_node :: node
  q_arch :: pyval
  q_opt :: pyobj
  q_temp :: pyobj
  q_testpmd :: string
  vm_info :: pyobj
  q_params :: option_string

record 'w vm_state =
  vs_qemu :: qemu
  vs_ssh :: "'w ssh_state"

definition sshQ :: "(node \<Rightarrow> ('w ssh_state, 'a) act) \<Rightarrow> ('w vm_state, 'a) act" where
  "sshQ f st = (case f (q_node (vs_qemu st)) (vs_ssh st) of (r, w) \<Rightarrow> (r, st\<lparr>vs_ssh := w\<rparr>))"

definition askQ :: "(qemu \<Rightarrow> 'a res) \<Rightarrow> ('w vm_state, 'a) act" where
  "askQ f st = (f (vs_qemu st), st)"

definition editQ :: "(qemu \<Rightarrow> qemu) \<Rightarrow> ('w vm_state, unit) act" where
  "editQ f st = (Inr (), st\<lparr>vs_qemu := f (vs_qemu st)\<rparr>)"

text \<open>\<^verbatim>\<open>self._opt.get(k)\<close> and \<^verbatim>\<open>self._temp.get(k)\<close>, as values, in texts and as values of options.\<close>

definition oget :: "qemu \<Rightarrow> string \<Rightarrow> pyval" where
  "oget q k = (case map_of (q_opt q) k of None \<Rightarrow> VNone | Some v \<Rightarrow> v)"

definition tget :: "qemu \<Rightarrow> string \<Rightarrow> pyval" where
  "tget q k = (case map_of (q_temp q) k of None \<Rightarrow> VNone | Some v \<Rightarrow> v)"

abbreviation otext :: "qemu \<Rightarrow> string \<Rightarrow> string" where "otext q k \<equiv> py_str (oget q k)"
abbreviation ttext :: "qemu \<Rightarrow> string \<Rightarrow> string" where "ttext q k \<equiv> py_str (tget q k)"

fun option_val :: "pyval \<Rightarrow> option_arg" where
  "option_val VNone = ANone"
| "option_val (VBool b) = ABool b"
| "option_val (VInt i) = AInt i"
| "option_val v = AStr (py_str v)"

fun int_val :: "pyval \<Rightarrow> int res" where
  "int_val (VInt i) = Inr i"
| "int_val (VBool b) = Inr (if b then 1 else 0)"
| "int_val v = Inl type_error"

text \<open>\<^verbatim>\<open>f"{i:02x}"\<close>.\<close>

definition fmt02x :: "int \<Rightarrow> string" where
  "fmt02x i = (if i < 0 then ''-'' @ hex_of_nat (nat (- i)) else pad_left 2 (hex_of_nat (nat i)))"

definition qemu_arch_options :: "pyval \<Rightarrow> string \<times> pyobj" where
  "qemu_arch_options arch =
     (if arch = VStr ''aarch64''
      then (''arm64-armv8a'', [(''machine_args'', VStr ''virt,accel=kvm,usb=off,mem-merge=off,gic-version=3''), (''console'', VStr ''ttyAMA0'')])
      else (''x86_64-native'', [(''machine_args'', VStr ''pc,accel=kvm,usb=off,mem-merge=off''), (''console'', VStr ''ttyS0'')]))"

definition qemu_vm_info :: "node \<Rightarrow> int \<Rightarrow> pyobj res" where
  "qemu_vm_info node qemu_id =
     bindE (getitem node ''host'') (\<lambda>host.
     bindE (getitem node ''port'') (\<lambda>port.
     let info = [(''host'', host), (''type'', VStr ''VM''), (''port'', VInt (10021 + qemu_id)), (''serial'', VInt (4555 + qemu_id)),
           (''username'', VStr ''cisco''), (''password'', VStr ''cisco''), (''interfaces'', VDict [])]
     in if port = VInt 22 then Inr info
        else bindE (getitem node ''username'') (\<lambda>user. bindE (getitem node ''password'') (\<lambda>password.
             Inr (info @ [(''host_port'', port), (''host_username'', user), (''host_password'', password)])))))"

text \<open>The node that is looked at may get its architecture; \<open>q_node\<close> is the node afterwards.\<close>

definition QemuUtils :: "'w paramiko \<Rightarrow> node \<Rightarrow> int \<Rightarrow> int \<Rightarrow> int \<Rightarrow> pyval \<Rightarrow> string \<Rightarrow> ('w ssh_state, qemu) act" where
  "QemuUtils pk node0 qemu_id smp mem vnf img =
     (let (arch, node) = get_node_arch node0;
          (target, arch_opts) = qemu_arch_options arch;
          id = str_of_int qemu_id;
          opts = arch_opts @ [(''qemu_id'', VInt qemu_id), (''mem'', VInt mem), (''smp'', VInt smp), (''img'', VStr img), (''vnf'', vnf)];
          temp = [(''log'', VStr (''/tmp/serial_'' @ id @ ''.log'')), (''pidfile'', VStr (''/run/qemu_'' @ id @ ''.pid''))];
          qemu = (\<lambda>info opts temp. \<lparr>nic_id = 0, q_node = node, q_arch = arch, q_opt = opts, q_temp = temp,
             q_testpmd = QEMU_VM_DPDK @ ''/'' @ target @ ''-linux-gcc/app'', vm_info = info, q_params = OptionString [] (AStr ''-'')\<rparr>)
      in bindS (liftS (qemu_vm_info node qemu_id)) (\<lambda>info.
         if img = QEMU_VM_IMAGE
         then returnS (qemu info opts (temp @ [(''qmp'', VStr (''/run/qmp_'' @ id @ ''.sock'')), (''qga'', VStr (''/run/qga_'' @ id @ ''.sock''))]))
         else if img = QEMU_VM_KERNEL
         then bindS (run_plain pk node (''ls -1 '' @ QEMU_VM_KERNEL @ ''* | tail -1'') 600 ''Qemu Kernel VM image not found!'') (\<lambda>(kernel, _).
              bindS (run_plain pk node (''ls -1 '' @ QEMU_VM_KERNEL_INITRD @ ''* | tail -1'') 600 ''Qemu Kernel initrd image not found!'') (\<lambda>(initrd, _).
              returnS (qemu info (AList.update ''img'' (VStr kernel) opts @ [(''initrd'', VStr initrd)])
                (temp @ [(''ini'', VStr (''/etc/vm_init_'' @ id @ ''.conf''))]))))
         else liftS (Inl (RuntimeError (''QEMU: Unknown VM image option: '' @ img)))))"

section \<open>Parameters of the command line\<close>

definition with_param :: "string \<Rightarrow> option_arg \<Rightarrow> qemu \<Rightarrow> qemu" where
  "with_param parameter val q = q\<lparr>q_params := add_with_value (q_params q) (AStr parameter) val\<rparr>"

definition plain_param :: "string \<Rightarrow> qemu \<Rightarrow> qemu" where
  "plain_param parameter q = q\<lparr>q_params := add (q_params q) (AStr parameter)\<rparr>"

definition steps :: "(qemu \<Rightarrow> qemu) list \<Rightarrow> qemu \<Rightarrow> qemu" where
  "steps fs q = fold (\<lambda>f. f) fs q"

definition add_default_params :: "qemu \<Rightarrow> qemu" where
  "add_default_params q =
     steps
       [plain_param ''daemonize'', plain_param ''nodefaults'',
        with_param ''name'' (AStr (''vnf'' @ otext q ''qemu_id'' @ '',debug-threads=on'')),
        plain_param ''no-user-config'', plain_param ''nographic'', plain_param ''enable-kvm'',
        with_param ''pidfile'' (option_val (tget q ''pidfile'')), with_param ''cpu'' (AStr ''host''),
        with_param ''machine'' (option_val (oget q ''machine_args'')),
        with_param ''smp'' (AStr (otext q ''smp'' @ '',sockets=1,cores='' @ otext q ''smp'' @ '',threads=1'')),
        with_param ''object'' (AStr (''memory-backend-file,id=mem,size='' @ otext q ''mem'' @ ''M,mem-path=/dev/hugepages,share=on'')),
        with_param ''m'' (AStr (otext q ''mem'' @ ''M'')), with_param ''numa'' (AStr ''node,memdev=mem''),
        with_param ''balloon'' (AStr ''none'')] q"

definition vm_text :: "qemu \<Rightarrow> string \<Rightarrow> string res" where
  "vm_text q k = bindE (getitem (vm_info q) k) (\<lambda>v. Inr (py_str v))"

definition add_net_user :: "('w vm_state, unit) act" where
  "add_net_user =
     bindS (askQ (\<lambda>q. vm_text q ''port'')) (\<lambda>port.
       editQ (steps [with_param ''netdev'' (AStr (''user,id=mgmt,net=172.16.255.0/24,hostfwd=tcp::'' @ port @ ''-:22'')),
                     with_param ''device'' (AStr ''virtio-net,netdev=mgmt'')]))"

definition add_qmp_qga :: "qemu \<Rightarrow> qemu" where
  "add_qmp_qga q =
     steps
       [with_param ''chardev'' (AStr (''socket,path='' @ ttext q ''qga'' @ '',server,nowait,id=qga0'')),
        with_param ''device'' (AStr ''isa-serial,chardev=qga0''),
        with_param ''qmp'' (AStr (''unix:'' @ ttext q ''qmp'' @ '',server,nowait''))] q"

definition add_serial :: "('w vm_state, unit) act" where
  "add_serial =
     bindS (askQ (\<lambda>q. vm_text q ''serial'')) (\<lambda>serial.
       editQ (\<lambda>q. steps
         [with_param ''chardev'' (AStr (''socket,host=127.0.0.1,port='' @ serial @ '',id=gnc0,server,nowait'')),
          with_param ''device'' (AStr ''isa-serial,chardev=gnc0''),
          with_param ''serial'' (AStr (''file:'' @ ttext q ''log''))] q))"

definition add_drive_cdrom :: "string \<Rightarrow> pyval \<Rightarrow> qemu \<Rightarrow> qemu" where
  "add_drive_cdrom drive_file index =
     with_param ''drive'' (AStr (''file='' @ drive_file @ '','' @
       (if truthy_val index then ''index='' @ py_str index @ '','' else []) @ ''media=cdrom''))"

definition add_drive :: "string \<Rightarrow> string \<Rightarrow> qemu \<Rightarrow> qemu" where
  "add_drive drive_file drive_format =
     with_param ''drive'' (AStr (''file='' @ drive_file @ '',format='' @ drive_format @ '',cache=none,if=virtio,file.locking=off''))"

definition add_kernelvm_params :: "qemu \<Rightarrow> qemu" where
  "add_kernelvm_params q =
     steps
       [with_param ''serial'' (AStr (''file:'' @ ttext q ''log'')),
        with_param ''fsdev'' (AStr ''local,id=root9p,path=/,security_model=none''),
        with_param ''device'' (AStr ''virtio-9p-pci,fsdev=root9p,mount_tag=virtioroot''),
        with_param ''kernel'' (AStr (otext q ''img'')), with_param ''initrd'' (AStr (otext q ''initrd'')),
        with_param ''append'' (AStr (sq (''ro rootfstype=9p rootflags=trans=virtio root=virtioroot console='' @ otext q ''console'' @
          '' tsc=reliable hugepages=512 init='' @ ttext q ''ini'' @ '' fastboot'')))] q"

section \<open>Interfaces\<close>

text \<open>\<^verbatim>\<open>self._vm_info["interfaces"][if_name] = if_data\<close>.\<close>

definition set_vm_interface :: "string \<Rightarrow> pyval \<Rightarrow> pyobj \<Rightarrow> pyobj res" where
  "set_vm_interface name data info =
     bindE (getitem info ''interfaces'') (\<lambda>ifs. bindE (setitem ifs name data) (\<lambda>ifs'. Inr (AList.update ''interfaces'' ifs' info)))"

definition vhost_mac :: "int \<Rightarrow> nat \<Rightarrow> string" where
  "vhost_mac qemu_id n = ''52:54:00:00:'' @ fmt02x qemu_id @ '':'' @ fmt02x (int n)"

definition on_off :: "bool \<Rightarrow> string" where
  "on_off b = (if b then ''on'' else ''off'')"

definition vhost_device :: "nat \<Rightarrow> string \<Rightarrow> pyval \<Rightarrow> int \<Rightarrow> bool \<Rightarrow> bool \<Rightarrow> string" where
  "vhost_device n mac queue_size queues csum gso =
     ''virtio-net-pci,netdev=vhost'' @ str_of_nat n @ '',mac='' @ mac @ '',addr='' @ str_of_nat (n + 5) @ ''.0,mq=on,vectors='' @
     str_of_int (2 * queues + 2) @ '',csum='' @ on_off csum @ '',gso='' @ on_off gso @
     '',guest_tso4=off,guest_tso6=off,guest_ecn=off,'' @
     (if truthy_val queue_size then ''rx_queue_size='' @ py_str queue_size @ '',tx_queue_size='' @ py_str queue_size else [])"

definition add_vhost_user_if ::
    "string \<Rightarrow> bool \<Rightarrow> pyval \<Rightarrow> int \<Rightarrow> bool \<Rightarrow> bool \<Rightarrow> ('w vm_state, unit) act" where
  "add_vhost_user_if socket server queue_size queues csum gso =
     thenS (editQ (\<lambda>q. q\<lparr>nic_id := nic_id q + 1\<rparr>))
     (thenS (editQ (\<lambda>q. steps
         [with_param ''chardev'' (AStr (''socket,id=char'' @ str_of_nat (nic_id q) @ '',path='' @ socket @ (if server then '',server'' else []))),
          with_param ''netdev'' (AStr (''vhost-user,id=vhost'' @ str_of_nat (nic_id q) @ '',chardev=char'' @ str_of_nat (nic_id q) @
            '',queues='' @ str_of_int queues))] q))
     (bindS (askQ (\<lambda>q. bindE (int_val (oget q ''qemu_id'')) (\<lambda>i. Inr (nic_id q, vhost_mac i (nic_id q))))) (\<lambda>(n, mac).
        let if_name = ''vhost'' @ str_of_nat n; if_data = VDict [(''mac_address'', VStr mac), (''socket'', VStr socket)]
        in thenS (editQ (with_param ''device'' (AStr (vhost_device n mac queue_size queues csum gso))))
           (bindS (askQ (\<lambda>q. set_vm_interface if_name if_data (vm_info q))) (\<lambda>info.
              editQ (\<lambda>q. q\<lparr>vm_info := info, q_temp := AList.update if_name (VStr socket) (q_temp q)\<rparr>))))))"

definition add_vfio_pci_if :: "string \<Rightarrow> qemu \<Rightarrow> qemu" where
  "add_vfio_pci_if pci q =
     (let n = nic_id q + 1
      in with_param ''device'' (AStr (''vfio-pci,host='' @ pci @ '',addr='' @ str_of_nat (n + 5) @ ''.0'')) (q\<lparr>nic_id := n\<rparr>))"

section \<open>Templates\<close>

text \<open>
  \<^verbatim>\<open>string.Template(text).safe_substitute\<close>: \<^verbatim>\<open>$name\<close> and \<^verbatim>\<open>${name}\<close> are replaced when the name is known, \<^verbatim>\<open>$$\<close> is a
  dollar, and everything else stays.
\<close>

definition is_letter :: "char \<Rightarrow> bool" where
  "is_letter c \<longleftrightarrow> (let n = (of_char c :: nat) in 65 \<le> n \<and> n \<le> 90 \<or> 97 \<le> n \<and> n \<le> 122 \<or> c = CHR ''_'')"

definition name_char :: "char \<Rightarrow> bool" where
  "name_char c \<longleftrightarrow> is_letter c \<or> is_digit c"

definition template_value :: "pyobj \<Rightarrow> string \<Rightarrow> string \<Rightarrow> string" where
  "template_value kw unknown name = (case map_of kw name of None \<Rightarrow> unknown | Some v \<Rightarrow> py_str v)"

lemma template_rest [simp]: "length (dropWhile P (tl cs)) - Suc 0 \<le> length cs"
  using length_dropWhile_le [of P "tl cs"] by simp

function safe_substitute :: "pyobj \<Rightarrow> string \<Rightarrow> string" where
  "safe_substitute kw [] = []"
| "safe_substitute kw (c # cs) =
     (if c \<noteq> CHR ''$'' \<or> cs = [] then c # safe_substitute kw cs
      else if hd cs = CHR ''$'' then CHR ''$'' # safe_substitute kw (tl cs)
      else if is_letter (hd cs)
      then template_value kw (c # takeWhile name_char cs) (takeWhile name_char cs) @ safe_substitute kw (dropWhile name_char cs)
      else let name = takeWhile name_char (tl cs); rest = dropWhile name_char (tl cs)
           in if hd cs = CHR ''{'' \<and> name \<noteq> [] \<and> is_letter (hd name) \<and> rest \<noteq> [] \<and> hd rest = CHR ''}''
              then template_value kw (''${'' @ name @ ''}'') name @ safe_substitute kw (tl rest)
              else c # safe_substitute kw cs)"
  by pat_completeness auto
termination
proof (relation "measure (\<lambda>(kw, s). length s)")
  show "wf (Wellfounded.measure (\<lambda>(kw :: pyobj, s :: string). length s))" by (rule wf_measure)
qed (auto simp: less_Suc_eq_le length_dropWhile_le)

section \<open>Files of the machine\<close>

definition run_quiet :: "'w paramiko \<Rightarrow> string \<Rightarrow> bool \<Rightarrow> ('w vm_state, unit) act" where
  "run_quiet pk cmd sudo = sshQ (\<lambda>node. voidS (ssh_exec_cmd_no_error pk node cmd 600 sudo [] False 0 False))"

definition node_executor :: "'w paramiko \<Rightarrow> 'w ssh_state executor" where
  "node_executor pk = (\<lambda>n cmd sudo.
     case n of VDict node \<Rightarrow> bindS (ssh_exec_cmd_no_error pk node cmd 600 sudo [] False 0 False) (\<lambda>(out, err). returnS out)
     | _ \<Rightarrow> liftS (Inl type_error))"

definition read_local :: "'w local_files \<Rightarrow> string \<Rightarrow> ('w vm_state, string) act" where
  "read_local lf path = sshQ (\<lambda>node. on_world (lf_read lf path))"

text \<open>A template is filled in and written to a file on the node.\<close>

definition write_template :: "'w paramiko \<Rightarrow> 'w local_files \<Rightarrow> string \<Rightarrow> pyobj \<Rightarrow> string \<Rightarrow> ('w vm_state, unit) act" where
  "write_template pk lf template kw path =
     bindS (read_local lf template) (\<lambda>text.
       run_quiet pk (''echo '' @ sq (safe_substitute kw text) @ '' | sudo tee '' @ path) False)"

definition has_text :: "qemu \<Rightarrow> string \<Rightarrow> string \<Rightarrow> bool res" where
  "has_text q k s = py_in s (oget q k)"

text \<open>A step of the start-up configuration that depends on the kind of machine.\<close>

definition if_vnf :: "qemu \<Rightarrow> string \<Rightarrow> (config_generator, unit) act \<Rightarrow> (config_generator, unit) act" where
  "if_vnf q s m = bindS (liftS (has_text q ''vnf'' s)) (\<lambda>b. whenS b m)"

definition kernelvm_vpp_config :: "qemu \<Rightarrow> string \<Rightarrow> pyobj \<Rightarrow> (config_generator, unit) act" where
  "kernelvm_vpp_config q running kw =
     thenS (\<lambda>cg. set_node cg (q_node q) VNone)
     (thenS add_unix_nodaemon
     (thenS (\<lambda>cg. add_unix_cli_listen cg (VStr ''/run/vpp/cli.sock''))
     (thenS (\<lambda>cg. add_unix_exec cg (VStr running))
     (thenS (\<lambda>cg. add_socksvr cg (VStr SOCKSVR_PATH))
     (thenS (\<lambda>cg. add_main_heap_size cg (VStr ''512M''))
     (thenS (\<lambda>cg. add_main_heap_page_size cg (VStr ''2M''))
     (thenS (\<lambda>cg. add_statseg_size cg (VStr ''512M''))
     (thenS (\<lambda>cg. add_statseg_page_size cg (VStr ''2M''))
     (thenS (\<lambda>cg. add_statseg_per_node_counters cg (VStr ''on''))
     (thenS (\<lambda>cg. add_buffers_per_numa cg (VInt 107520))
     (thenS (\<lambda>cg. add_cpu_main_core cg (VStr ''0''))
     (thenS (bindS (liftS (int_val (oget q ''smp''))) (\<lambda>smp.
         whenS (smp > 1) (\<lambda>cg. add_cpu_corelist_workers cg (VStr (''1-'' @ str_of_int (smp - 1))))))
     (thenS (\<lambda>cg. add_plugin cg ''disable'' [''default''])
     (thenS (\<lambda>cg. add_plugin cg ''enable'' [''ping_plugin.so''])
     (thenS (if_vnf q ''2vfpt'' (\<lambda>cg. add_plugin cg ''enable'' [''avf_plugin.so'']))
     (thenS (if_vnf q ''vhost''
        (thenS (\<lambda>cg. add_plugin cg ''enable'' [''dpdk_plugin.so''])
        (thenS (\<lambda>cg. add_dpdk_dev cg [''0000:00:06.0'', ''0000:00:07.0''])
        (thenS (bindS (liftS (getitem kw ''queues'')) (\<lambda>queues cg. add_dpdk_dev_default_rxq cg queues))
        (thenS (\<lambda>cg. add_dpdk_log_level cg (VStr ''debug''))
        (bindS (liftS (getitem kw ''jumbo_frames'')) (\<lambda>jumbo.
           whenS (\<not> truthy_val jumbo) (thenS add_dpdk_no_multi_seg add_dpdk_no_tx_checksum_offload))))))))
     (thenS (if_vnf q ''ipsec''
        (thenS (\<lambda>cg. add_plugin cg ''enable'' [''crypto_native_plugin.so''])
        (thenS (\<lambda>cg. add_plugin cg ''enable'' [''crypto_ipsecmb_plugin.so''])
          (\<lambda>cg. add_plugin cg ''enable'' [''crypto_openssl_plugin.so'']))))
     (if_vnf q ''nat''
        (thenS (\<lambda>cg. add_nat cg ''endpoint-dependent'') (\<lambda>cg. add_plugin cg ''enable'' [''nat_plugin.so'']))))))))))))))))))))"

text \<open>The configuration is built and written by an object of its own.\<close>

definition write_vm_config :: "'w paramiko \<Rightarrow> (config_generator, unit) act \<Rightarrow> string \<Rightarrow> ('w ssh_state, unit) act" where
  "write_vm_config pk config startup w =
     (case config VppConfigGenerator_init of
        (Inl e, cg) \<Rightarrow> (Inl e, w)
      | (Inr u, cg) \<Rightarrow> (case write_config (node_executor pk) cg (Some startup) w of (r, cg1, w1) \<Rightarrow> (r, w1)))"

definition create_kernelvm_config_vpp :: "'w paramiko \<Rightarrow> 'w local_files \<Rightarrow> pyobj \<Rightarrow> ('w vm_state, unit) act" where
  "create_kernelvm_config_vpp pk lf kw =
     bindS (askQ (\<lambda>q. Inr (otext q ''qemu_id'', otext q ''vnf''))) (\<lambda>(id, vnf).
     let startup = ''/etc/vpp/vm_startup_'' @ id @ ''.conf''; running = ''/etc/vpp/vm_running_'' @ id @ ''.exec''
     in thenS (editQ (\<lambda>q. q\<lparr>q_temp := AList.update ''running'' (VStr running) (AList.update ''startup'' (VStr startup) (q_temp q)),
            q_opt := AList.update ''vnf_bin'' (VStr (''/usr/bin/vpp -c '' @ startup)) (q_opt q)\<rparr>))
        (bindS (askQ (\<lambda>q. Inr (kernelvm_vpp_config q running kw))) (\<lambda>config.
         thenS (sshQ (\<lambda>node. write_vm_config pk config startup))
         (thenS (run_quiet pk (''rm -f '' @ running) True)
            (write_template pk lf (RESOURCES_TPL @ ''/vm/'' @ vnf @ ''.exec'') kw running)))))"

definition testpmd_kwargs :: "qemu \<Rightarrow> string \<Rightarrow> pyobj \<Rightarrow> dpdk_kwargs \<Rightarrow> dpdk_kwargs res" where
  "testpmd_kwargs q fwd_mode kw peers =
     bindE (getitem kw ''jumbo_frames'') (\<lambda>jumbo.
     bindE (int_val (oget q ''smp'')) (\<lambda>smp.
     bindE (getitem kw ''queues'') (\<lambda>queues.
     Inr ([(''eal_corelist'', AStr (''0-'' @ str_of_int (smp - 1))), (''eal_driver'', ABool False),
           (''eal_pci_whitelist0'', AStr ''0000:00:06.0''), (''eal_pci_whitelist1'', AStr ''0000:00:07.0''),
           (''eal_in_memory'', ABool True), (''pmd_num_mbufs'', AInt 16384), (''pmd_fwd_mode'', AStr fwd_mode),
           (''pmd_nb_ports'', AStr ''2''), (''pmd_portmask'', AStr ''0x3''),
           (''pmd_max_pkt_len'', AStr (if truthy_val jumbo then ''9200'' else ''1518'')), (''pmd_mbuf_size'', AStr ''16384'')] @
          peers @
          [(''pmd_rxq'', option_val queues), (''pmd_txq'', option_val queues), (''pmd_tx_offloads'', AStr ''0x0''),
           (''pmd_nb_cores'', AStr (str_of_int (smp - 1)))]))))"

definition set_testpmd :: "dpdk_kwargs \<Rightarrow> qemu \<Rightarrow> qemu" where
  "set_testpmd kw q =
     q\<lparr>q_opt := AList.update ''vnf_bin'' (VStr (q_testpmd q @ ''/'' @ option_str (get_testpmd_cmdline kw))) (q_opt q)\<rparr>"

definition create_kernelvm_config_testpmd_io :: "pyobj \<Rightarrow> ('w vm_state, unit) act" where
  "create_kernelvm_config_testpmd_io kw =
     bindS (askQ (\<lambda>q. testpmd_kwargs q ''io'' kw [])) (\<lambda>args. editQ (set_testpmd args))"

definition create_kernelvm_config_testpmd_mac :: "pyobj \<Rightarrow> ('w vm_state, unit) act" where
  "create_kernelvm_config_testpmd_mac kw =
     bindS (askQ (\<lambda>q. bindE (getitem kw ''jumbo_frames'') (\<lambda>_. bindE (getitem kw ''vif1_mac'') (\<lambda>m1. bindE (getitem kw ''vif2_mac'') (\<lambda>m2.
         testpmd_kwargs q ''mac'' kw
           [(''pmd_eth_peer_0'', AStr (''0,'' @ py_str m1)), (''pmd_eth_peer_1'', AStr (''1,'' @ py_str m2))]))))) (\<lambda>args.
       editQ (set_testpmd args))"

definition create_kernelvm_init :: "'w paramiko \<Rightarrow> 'w local_files \<Rightarrow> pyobj \<Rightarrow> ('w vm_state, unit) act" where
  "create_kernelvm_init pk lf kw =
     bindS (askQ (\<lambda>q. Inr (ttext q ''ini''))) (\<lambda>init.
     thenS (run_quiet pk (''rm -f '' @ init) True)
     (thenS (write_template pk lf (RESOURCES_TPL @ ''/vm/init.sh'') kw init)
       (run_quiet pk (''chmod +x '' @ init) True)))"

definition configure_kernelvm_vnf :: "'w paramiko \<Rightarrow> 'w local_files \<Rightarrow> pyobj \<Rightarrow> ('w vm_state, unit) act" where
  "configure_kernelvm_vnf pk lf kw =
     (let init = bindS (askQ (\<lambda>q. Inr (oget q ''vnf_bin''))) (\<lambda>bin. create_kernelvm_init pk lf [(''vnf_bin'', bin)]);
          has = (\<lambda>s. askQ (\<lambda>q. has_text q ''vnf'' s))
      in bindS (has ''vpp'') (\<lambda>vpp.
         if vpp then thenS (create_kernelvm_config_vpp pk lf kw) init
         else bindS (has ''testpmd_io'') (\<lambda>io.
              if io then thenS (create_kernelvm_config_testpmd_io kw) init
              else bindS (has ''testpmd_mac'') (\<lambda>mac.
                   if mac then thenS (create_kernelvm_config_testpmd_mac kw) init
                   else liftS (Inl (RuntimeError ''QEMU: Unsupported VNF!''))))))"

section \<open>The process\<close>

definition caught :: "py_error \<Rightarrow> bool" where
  "caught e \<longleftrightarrow> (case e of RuntimeError m \<Rightarrow> True | ValueError m \<Rightarrow> True | _ \<Rightarrow> False)"

definition ignore_result :: "'w paramiko \<Rightarrow> string \<Rightarrow> ('w vm_state, unit) act" where
  "ignore_result pk cmd = sshQ (\<lambda>node. voidS (exec_cmd pk node cmd 600 True False))"

text \<open>The temporary files are shown and removed.\<close>

definition remove_temp :: "'w paramiko \<Rightarrow> ('w vm_state, unit) act" where
  "remove_temp pk =
     bindS (askQ (\<lambda>q. Inr (map (py_str \<circ> snd) (q_temp q)))) (\<lambda>files.
       forS (\<lambda>f. thenS (ignore_result pk (''cat '' @ f)) (ignore_result pk (''rm -f '' @ f))) files)"

definition qemu_kill :: "'w paramiko \<Rightarrow> ('w vm_state, unit) act" where
  "qemu_kill pk =
     bindS (askQ (\<lambda>q. Inr (ttext q ''pidfile''))) (\<lambda>pidfile.
     thenS (ignore_result pk (''chmod +r '' @ pidfile))
     (thenS (ignore_result pk (''kill -SIGKILL $(cat '' @ pidfile @ '')'')) (remove_temp pk)))"

definition qemu_kill_all :: "'w paramiko \<Rightarrow> ('w vm_state, unit) act" where
  "qemu_kill_all pk = thenS (ignore_result pk ''pkill -SIGKILL qemu'') (remove_temp pk)"

text \<open>\<^verbatim>\<open>except ...: self.qemu_kill_all(); raise\<close>.\<close>

definition or_kill :: "'w paramiko \<Rightarrow> (py_error \<Rightarrow> bool) \<Rightarrow> ('w vm_state, 'a) act \<Rightarrow> ('w vm_state, 'a) act" where
  "or_kill pk catches m = catchS m (\<lambda>e. if catches e then thenS (qemu_kill_all pk) (liftS (Inl e)) else liftS (Inl e))"

definition get_qemu_pids :: "'w paramiko \<Rightarrow> ('w vm_state, string list) act" where
  "get_qemu_pids pk =
     bindS (askQ (\<lambda>q. Inr (ttext q ''pidfile''))) (\<lambda>pidfile.
     bindS (sshQ (\<lambda>node. run_plain pk node
         (''grep -rwl '' @ sq ''CPU'' @ '' /proc/$(sudo cat '' @ pidfile @ '')/task/*/comm | xargs dirname | sed -e '' @
          sq (''s/'' @ [CHR 92] @ ''/.*'' @ [CHR 92] @ ''///g'') @ '' | uniq'') 600 [])) (\<lambda>(out, err).
       returnS (splitlines out)))"

definition sleepQ :: "'w paramiko \<Rightarrow> real \<Rightarrow> 'w vm_state \<Rightarrow> 'w vm_state" where
  "sleepQ pk d st = st\<lparr>vs_ssh := (vs_ssh st)\<lparr>ssh_world := pk_sleep pk d (ssh_world (vs_ssh st))\<rparr>\<rparr>"

definition pauseQ :: "'w paramiko \<Rightarrow> real \<Rightarrow> ('w vm_state, unit) act" where
  "pauseQ pk d st = (Inr (), sleepQ pk d st)"

definition with_vm_host :: "(string \<Rightarrow> ('w vm_state, 'a) act) \<Rightarrow> ('w vm_state, 'a) act" where
  "with_vm_host f = bindS (askQ (\<lambda>q. getitem (q_node q) ''host'')) (\<lambda>host. f (py_str host))"

text \<open>Every thread is put on the processor of the same position.\<close>

definition pin_threads :: "'w paramiko \<Rightarrow> (string \<times> int) list \<Rightarrow> ('w vm_state, unit) act" where
  "pin_threads pk pairs =
     forS (\<lambda>(qemu_cpu, host_cpu). with_vm_host (\<lambda>host. sshQ (\<lambda>node. voidS (run_sudo pk node
         (''taskset -pc '' @ str_of_int host_cpu @ '' '' @ qemu_cpu) 600 (''QEMU: Set affinity failed on '' @ host @ ''!'')))))
       pairs"

fun affinity_tries :: "'w paramiko \<Rightarrow> int list \<Rightarrow> nat \<Rightarrow> ('w vm_state, unit) act" where
  "affinity_tries pk host_cpus 0 =
     thenS (qemu_kill_all pk) (liftS (Inl (RuntimeError ''Failed to set Qemu threads affinity!'')))"
| "affinity_tries pk host_cpus (Suc n) =
     bindS (or_kill pk caught
         (bindS (get_qemu_pids pk) (\<lambda>pids.
            if length pids \<noteq> length host_cpus then thenS (pauseQ pk 1) (returnS False)
            else thenS (pin_threads pk (zip pids host_cpus)) (returnS True)))) (\<lambda>pinned.
       if pinned then returnS () else affinity_tries pk host_cpus n)"

definition qemu_set_affinity :: "'w paramiko \<Rightarrow> int list \<Rightarrow> ('w vm_state, unit) act" where
  "qemu_set_affinity pk host_cpus = affinity_tries pk host_cpus 3"

definition qemu_set_scheduler_policy :: "'w paramiko \<Rightarrow> ('w vm_state, unit) act" where
  "qemu_set_scheduler_policy pk =
     or_kill pk caught
       (bindS (get_qemu_pids pk) (\<lambda>pids.
          forS (\<lambda>qemu_cpu. with_vm_host (\<lambda>host. sshQ (\<lambda>node. voidS (run_sudo pk node
            (''chrt -r -p 1 '' @ qemu_cpu) 600 (''QEMU: Set SCHED_RR failed on '' @ host))))) pids))"

section \<open>Messages to the machine\<close>

text \<open>The braces are doubled: the texts are format strings without a call of \<^verbatim>\<open>format\<close>.\<close>

definition execute_text :: "string \<Rightarrow> string" where
  "execute_text cmd = (let q = [CHR 92, CHR 34] in ''{{ '' @ q @ ''execute'' @ q @ '': '' @ q @ cmd @ q @ '' }}'')"

definition qemu_qmp_exec :: "'w paramiko \<Rightarrow> (string \<Rightarrow> pyval res) \<Rightarrow> string \<Rightarrow> ('w vm_state, pyval) act" where
  "qemu_qmp_exec pk json cmd =
     bindS (askQ (\<lambda>q. Inr (ttext q ''qmp''))) (\<lambda>qmp.
     with_vm_host (\<lambda>host.
     bindS (sshQ (\<lambda>node. run_plain pk node
         (''echo '' @ dq (execute_text ''qmp_capabilities'' @ execute_text cmd) @ '' | sudo -S socat - UNIX-CONNECT:'' @ qmp) 600
         (''QMP execute '' @ sq cmd @ '' failed on '' @ host))) (\<lambda>(out, err).
       liftS (case splitlines out of
                a # b # c # _ \<Rightarrow> json c
              | _ \<Rightarrow> Inl (RuntimeError (''Invalid QMP output on '' @ host))))))"

definition first_json :: "(string \<Rightarrow> pyval res) \<Rightarrow> string \<Rightarrow> pyval res" where
  "first_json json out = (if out = [] then Inr (VDict []) else json (takeWhile (\<lambda>c. c \<noteq> CHR 10) out))"

definition qemu_qga_flush :: "'w paramiko \<Rightarrow> (string \<Rightarrow> pyval res) \<Rightarrow> ('w vm_state, pyval) act" where
  "qemu_qga_flush pk json =
     bindS (askQ (\<lambda>q. Inr (ttext q ''qga''))) (\<lambda>qga.
     with_vm_host (\<lambda>host.
     bindS (sshQ (\<lambda>node. run_plain pk node
         (''(printf '' @ dq [CHR 0xFF] @ ''; sleep 1) | sudo -S socat - UNIX-CONNECT:'' @ qga) 600 (''QGA flush failed on '' @ host)))
       (\<lambda>(out, err). liftS (first_json json out))))"

definition qemu_qga_exec :: "'w paramiko \<Rightarrow> (string \<Rightarrow> pyval res) \<Rightarrow> string \<Rightarrow> ('w vm_state, pyval) act" where
  "qemu_qga_exec pk json cmd =
     bindS (askQ (\<lambda>q. Inr (ttext q ''qga''))) (\<lambda>qga.
     with_vm_host (\<lambda>host.
     bindS (sshQ (\<lambda>node. run_plain pk node
         (''(echo '' @ dq (execute_text cmd) @ ''; sleep 1) | sudo -S socat - UNIX-CONNECT:'' @ qga) 600
         (''QGA execute '' @ sq cmd @ '' failed on '' @ host)))
       (\<lambda>(out, err). liftS (first_json json out))))"

section \<open>Waiting for the machine\<close>

text \<open>
  The last line of the log. When the command fails the line is \<open>None\<close>, in which nothing can be searched.
\<close>

definition last_line :: "'w paramiko \<Rightarrow> ('w vm_state, pyval) act" where
  "last_line pk =
     bindS (askQ (\<lambda>q. Inr (ttext q ''log''))) (\<lambda>log.
     catchS (bindS (sshQ (\<lambda>node. run_sudo pk node (''tail -1 '' @ log) 600 [])) (\<lambda>(out, err).
               thenS (pauseQ pk 1) (returnS (VStr out))))
       (\<lambda>e. if is_runtime_error e then returnS VNone else liftS (Inl e)))"

definition boot_verdict :: "pyval \<Rightarrow> bool option res" where
  "boot_verdict line =
     bindE (py_in ''vpp '' line) (\<lambda>vpp.
     bindE (if vpp then py_in ''built by'' line else Inr False) (\<lambda>banner.
     if banner then Inr (Some True)
     else bindE (py_in ''Press enter to exit'' line) (\<lambda>testpmd.
          if testpmd then Inr (Some True)
          else bindE (py_in ''reboot: Power down'' line) (\<lambda>down. Inr (if down then Some False else None)))))"

definition look_at_log :: "'w paramiko \<Rightarrow> ('w vm_state, unit option) act" where
  "look_at_log pk =
     bindS (last_line pk) (\<lambda>line.
     bindS (liftS (boot_verdict line)) (\<lambda>v. case v of
         None \<Rightarrow> returnS None
       | Some booted \<Rightarrow>
           if booted then returnS (Some ())
           else with_vm_host (\<lambda>host. liftS (Inl (RuntimeError (''QEMU: NF failed to run on '' @ host @ ''!''))))))"

definition boot_timeout :: "('w vm_state, 'a) act" where
  "boot_timeout = with_vm_host (\<lambda>host. liftS (Inl (RuntimeError (''QEMU: Timeout, VM not booted on '' @ host @ ''!''))))"

fun wait_default :: "'w paramiko \<Rightarrow> nat \<Rightarrow> ('w vm_state, unit) act" where
  "wait_default pk 0 = boot_timeout"
| "wait_default pk (Suc n) =
     bindS (look_at_log pk) (\<lambda>v. case v of Some u \<Rightarrow> returnS () | None \<Rightarrow> wait_default pk n)"

definition is_value_error :: "py_error \<Rightarrow> bool" where
  "is_value_error e \<longleftrightarrow> (case e of ValueError m \<Rightarrow> True | _ \<Rightarrow> False)"

definition quietly :: "('w vm_state, pyval) act \<Rightarrow> ('w vm_state, pyval) act" where
  "quietly m = catchS m (\<lambda>e. if is_value_error e then returnS VNone else liftS (Inl e))"

fun wait_flush :: "'w paramiko \<Rightarrow> (string \<Rightarrow> pyval res) \<Rightarrow> nat \<Rightarrow> ('w vm_state, unit) act" where
  "wait_flush pk json 0 = boot_timeout"
| "wait_flush pk json (Suc n) =
     bindS (quietly (qemu_qga_flush pk json)) (\<lambda>out.
       if truthy_val out then returnS () else thenS (pauseQ pk 5) (wait_flush pk json n))"

fun wait_ping :: "'w paramiko \<Rightarrow> (string \<Rightarrow> pyval res) \<Rightarrow> nat \<Rightarrow> ('w vm_state, unit) act" where
  "wait_ping pk json 0 = boot_timeout"
| "wait_ping pk json (Suc n) =
     bindS (quietly (qemu_qga_exec pk json ''guest-ping'')) (\<lambda>out.
       if \<not> truthy_val out then thenS (pauseQ pk 5) (wait_ping pk json n)
       else bindS (liftS (dget out ''return'')) (\<lambda>r.
            if r \<noteq> VNone then returnS ()
            else bindS (liftS (dget out ''error'')) (\<lambda>err.
                 thenS (whenS (err \<noteq> VNone) (pauseQ pk 5)) (wait_ping pk json n))))"

definition wait_nestedvm :: "'w paramiko \<Rightarrow> (string \<Rightarrow> pyval res) \<Rightarrow> nat \<Rightarrow> ('w vm_state, unit) act" where
  "wait_nestedvm pk json retries = thenS (wait_flush pk json retries) (wait_ping pk json retries)"

text \<open>
  The method \<^verbatim>\<open>_wait_<vnf>\<close> is looked up by name; there are three, the third being this one.
\<close>

definition wait_until_vm_boot :: "'w paramiko \<Rightarrow> (string \<Rightarrow> pyval res) \<Rightarrow> ('w vm_state, unit) act" where
  "wait_until_vm_boot pk json =
     bindS (askQ (\<lambda>q. Inr (otext q ''vnf''))) (\<lambda>vnf.
     catchS
       (if vnf = ''nestedvm'' then wait_nestedvm pk json 12
        else if vnf = ''default'' then wait_default pk 60
        else if vnf = ''until_vm_boot'' then liftS (Inl (RuntimeError ''maximum recursion depth exceeded''))
        else liftS (Inl AttributeError))
       (\<lambda>e. if e = AttributeError then wait_default pk 60 else liftS (Inl e)))"

text \<open>The names of the interfaces are found by their addresses.\<close>

definition mac_names :: "pyval list \<Rightarrow> (pyval, pyval) pydict res" where
  "mac_names ifs =
     foldE (\<lambda>d i. bindE (py_in ''hardware-address'' i) (\<lambda>has.
       if \<not> has then Inr d
       else bindE (sub i ''hardware-address'') (\<lambda>mac. bindE (sub i ''name'') (\<lambda>name. Inr (AList.update mac name d))))) [] ifs"

definition name_interface :: "(pyval, pyval) pydict \<Rightarrow> string \<times> pyval \<Rightarrow> (string \<times> pyval) res" where
  "name_interface names = (\<lambda>(key, i).
     bindE (dget i ''mac_address'') (\<lambda>mac.
     case map_of names mac of
       None \<Rightarrow> Inr (key, i)
     | Some name \<Rightarrow> if name = VNone then Inr (key, i) else bindE (setitem i ''name'' name) (\<lambda>j. Inr (key, j))))"

definition update_vm_interfaces :: "'w paramiko \<Rightarrow> (string \<Rightarrow> pyval res) \<Rightarrow> ('w vm_state, unit) act" where
  "update_vm_interfaces pk json =
     bindS (qemu_qga_exec pk json ''guest-network-get-interfaces'') (\<lambda>out.
     bindS (liftS (dget out ''return'')) (\<lambda>ifs.
     if \<not> truthy_val ifs
     then with_vm_host (\<lambda>host. liftS (Inl (RuntimeError (''Get VM interface list failed on '' @ host))))
     else bindS (liftS (case ifs of VList xs \<Rightarrow> mac_names xs | _ \<Rightarrow> Inl type_error)) (\<lambda>names.
          bindS (askQ (\<lambda>q. bindE (getitem (vm_info q) ''interfaces'') (\<lambda>v. bindE (items v) (mapE (name_interface names))))) (\<lambda>d.
            editQ (\<lambda>q. q\<lparr>vm_info := AList.update ''interfaces'' (VDict d) (vm_info q)\<rparr>)))))"

definition qemu_start :: "'w paramiko \<Rightarrow> (string \<Rightarrow> pyval res) \<Rightarrow> ('w vm_state, pyobj) act" where
  "qemu_start pk json =
     with_vm_host (\<lambda>host.
     bindS (askQ (\<lambda>q. Inr (option_str (OptionString.extend
         (add (OptionString [] (AStr [])) (AStr (QEMU_BIN_PATH @ ''/qemu-system-'' @ py_str (q_arch q)))) (q_params q))))) (\<lambda>cmd.
     thenS (or_kill pk is_runtime_error
         (thenS (bindS (askQ (\<lambda>q. int_val (oget q ''mem''))) (\<lambda>mem.
                   sshQ (\<lambda>node. check_huge_page pk node ''/dev/hugepages'' mem 2048 False)))
         (thenS (sshQ (\<lambda>node. voidS (run_sudo pk node cmd 300 (''QEMU: Start failed on '' @ host @ ''!''))))
            (wait_until_vm_boot pk json))))
       (askQ (\<lambda>q. Inr (vm_info q)))))"

definition qemu_version :: "'w paramiko \<Rightarrow> ('w vm_state, string) act" where
  "qemu_version pk =
     or_kill pk is_runtime_error
       (bindS (askQ (\<lambda>q. Inr (QEMU_BIN_PATH @ ''/qemu-system-'' @ py_str (q_arch q) @ '' --version''))) (\<lambda>cmd.
        bindS (sshQ (\<lambda>node. run_sudo pk node cmd 600 [])) (\<lambda>(out, err).
          liftS (let start = ''QEMU emulator version ''
                 in if startswith out start then Inr (takeWhile (\<lambda>c. is_digit c \<or> c = CHR ''.'') (drop (length start) out))
                    else Inl AttributeError))))"

section \<open>The interfaces of a machine\<close>

lemma fmt02x_inject:
  assumes "m < 256" and "n < 256" and "fmt02x (int m) = fmt02x (int n)"
  shows "m = n"
proof -
  have val: "parse_hex_digits (fmt02x (int k)) = Some k" if "k < 256" for k
  proof -
    have "fmt02x (int k) = map hex_char (digits_of 16 2 k)"
    proof -
      have "k < 16 ^ 2" using that by simp
      from pad_left_hex_of_nat [OF this] show ?thesis unfolding fmt02x_def by (simp only: of_nat_less_0_iff if_False nat_int zero_less_numeral)
    qed
    moreover have "digits_of 16 2 k \<noteq> []" by (metis length_digits_of list.size(3) zero_neq_numeral)
    moreover have "\<forall>d\<in>set (digits_of 16 2 k). d < 16" using digits_of_less [of 16] by simp
    moreover have "of_digits 16 (digits_of 16 2 k) = k" by (rule of_digits_of) (use that in simp)
    ultimately show ?thesis using parse_hex_digits_map [of "digits_of 16 2 k"] by metis
  qed
  from val [OF assms(1)] val [OF assms(2)] assms(3) show ?thesis by (metis option.inject)
qed

lemma vhost_mac_inject: "m < 256 \<Longrightarrow> n < 256 \<Longrightarrow> vhost_mac i m = vhost_mac i n \<Longrightarrow> m = n"
  using fmt02x_inject [of m n] by (simp add: vhost_mac_def)

text \<open>The ways to give a machine an interface, and the numbers and sockets of those for a vhost user.\<close>

datatype vm_interface = VhostUser string bool pyval int bool bool | VfioPci string

fun attach :: "vm_interface \<Rightarrow> ('w vm_state, unit) act" where
  "attach (VhostUser socket server queue_size queues csum gso) = add_vhost_user_if socket server queue_size queues csum gso"
| "attach (VfioPci pci) = editQ (add_vfio_pci_if pci)"

fun vhosts_from :: "nat \<Rightarrow> vm_interface list \<Rightarrow> (nat \<times> string) list" where
  "vhosts_from n [] = []"
| "vhosts_from n (VhostUser socket server queue_size queues csum gso # is) = (Suc n, socket) # vhosts_from (Suc n) is"
| "vhosts_from n (VfioPci pci # is) = vhosts_from (Suc n) is"

definition vhost_entry :: "int \<Rightarrow> nat \<times> string \<Rightarrow> string \<times> pyval" where
  "vhost_entry qemu_id v = (''vhost'' @ str_of_nat (fst v), VDict [(''mac_address'', VStr (vhost_mac qemu_id (fst v))), (''socket'', VStr (snd v))])"

lemma vhosts_from_numbers: "sorted_wrt (<) (map fst (vhosts_from n is)) \<and> (\<forall>v \<in> set (vhosts_from n is). n < fst v \<and> fst v \<le> n + length is)"
proof (induction "is" arbitrary: n)
  case (Cons x xs)
  then show ?case by (cases x) (fastforce dest: Cons [THEN conjunct2, THEN bspec])+
qed simp

text \<open>The invariant: the interfaces so far.\<close>

definition vm_has :: "int \<Rightarrow> (nat \<times> string) list \<Rightarrow> qemu \<Rightarrow> bool" where
  "vm_has qemu_id vs q \<longleftrightarrow>
     oget q ''qemu_id'' = VInt qemu_id \<and>
     getitem (vm_info q) ''interfaces'' = Inr (VDict (map (vhost_entry qemu_id) vs)) \<and>
     (\<forall>v \<in> set vs. fst v \<le> nic_id q \<and> map_of (q_temp q) (''vhost'' @ str_of_nat (fst v)) = Some (VStr (snd v)))"

lemma update_new: "k \<notin> fst ` set d \<Longrightarrow> AList.update k v d = d @ [(k, v)]"
  by (induction d) auto

lemma steps_params: "steps [with_param a v, with_param b w] q = q\<lparr>q_params := add_with_value (add_with_value (q_params q) (AStr a) v) (AStr b) w\<rparr>"
  by (simp add: steps_def with_param_def)

lemma editQ_then: "thenS (editQ f) m st = m (st\<lparr>vs_qemu := f (vs_qemu st)\<rparr>)"
  by (simp add: thenS_def editQ_def bindS_def)

lemma askQ_bind: "f (vs_qemu st) = Inr x \<Longrightarrow> bindS (askQ f) g st = g x st"
  by (simp add: askQ_def bindS_def)

text \<open>The texts of the options do not matter for the description of the machine.\<close>

lemma attach_vhost_run:
  assumes "oget (vs_qemu st) ''qemu_id'' = VInt i" and "n = Suc (nic_id (vs_qemu st))"
    and "getitem (vm_info (vs_qemu st)) ''interfaces'' = Inr (VDict d)"
  shows "thenS (editQ (\<lambda>q. q\<lparr>nic_id := nic_id q + 1\<rparr>))
     (thenS (editQ (\<lambda>q. q\<lparr>q_params := P q\<rparr>))
     (bindS (askQ (\<lambda>q. bindE (int_val (oget q ''qemu_id'')) (\<lambda>i. Inr (nic_id q, vhost_mac i (nic_id q))))) (\<lambda>(n, mac).
        thenS (editQ (\<lambda>q. q\<lparr>q_params := D n mac q\<rparr>))
           (bindS (askQ (\<lambda>q. set_vm_interface (name n) (data mac) (vm_info q))) (\<lambda>info.
              editQ (\<lambda>q. q\<lparr>vm_info := info, q_temp := AList.update (name n) socket (q_temp q)\<rparr>)))))) st =
    (Inr (), st\<lparr>vs_qemu := (vs_qemu st)\<lparr>nic_id := n, q_params := D n (vhost_mac i n) ((vs_qemu st)\<lparr>nic_id := n, q_params := P ((vs_qemu st)\<lparr>nic_id := n\<rparr>)\<rparr>),
       vm_info := AList.update ''interfaces'' (VDict (AList.update (name n) (data (vhost_mac i n)) d)) (vm_info (vs_qemu st)),
       q_temp := AList.update (name n) socket (q_temp (vs_qemu st))\<rparr>\<rparr>)"
proof -
  have ask: "oget ((vs_qemu st)\<lparr>nic_id := m, q_params := p\<rparr>) ''qemu_id'' = VInt i" for m p
    using assms(1) by (simp add: oget_def)
  show ?thesis
    using assms(2,3) by (simp add: editQ_then askQ_bind ask set_vm_interface_def) (simp add: editQ_def)
qed

lemma add_vhost_user_if_keeps:
  assumes "vm_has i vs (vs_qemu st)"
  shows "\<exists>q. add_vhost_user_if socket server qs queues csum gso st = (Inr (), st\<lparr>vs_qemu := q\<rparr>) \<and>
    nic_id q = Suc (nic_id (vs_qemu st)) \<and> vm_has i (vs @ [(nic_id q, socket)]) q"
proof -
  let ?q = "vs_qemu st"
  let ?n = "Suc (nic_id ?q)"
  let ?name = "''vhost'' @ str_of_nat ?n"
  let ?d = "map (vhost_entry i) vs"
  let ?data = "VDict [(''mac_address'', VStr (vhost_mac i ?n)), (''socket'', VStr socket)]"
  from assms have id: "oget ?q ''qemu_id'' = VInt i" and ifs: "getitem (vm_info ?q) ''interfaces'' = Inr (VDict ?d)"
    and vs: "\<forall>v \<in> set vs. fst v \<le> nic_id ?q \<and> map_of (q_temp ?q) (''vhost'' @ str_of_nat (fst v)) = Some (VStr (snd v))"
    by (auto simp: vm_has_def)
  have new: "?name \<notin> fst ` set ?d"
    using vs by (auto simp: vhost_entry_def str_of_nat_inject)
  obtain q where q: "add_vhost_user_if socket server qs queues csum gso st = (Inr (), st\<lparr>vs_qemu := q\<rparr>)"
    and n: "nic_id q = ?n" and o: "q_opt q = q_opt ?q"
    and info: "vm_info q = AList.update ''interfaces'' (VDict (?d @ [(?name, ?data)])) (vm_info ?q)"
    and temp: "q_temp q = AList.update ?name (VStr socket) (q_temp ?q)"
  proof -
    note run = attach_vhost_run [OF id refl ifs]
    show thesis
      apply (rule that)
      apply (unfold add_vhost_user_if_def Let_def steps_params with_param_def)
      apply (rule run)
      apply (simp_all only: update_new [OF new] qemu.simps)
      apply simp_all
      done
  qed
  have "vm_has i (vs @ [(?n, socket)]) q"
    using id vs by (auto simp: vm_has_def oget_def o info temp n getitem_def vhost_entry_def update_conv' str_of_nat_inject)
  with q n show ?thesis by metis
qed

lemma add_vfio_keeps: "vm_has i vs q \<Longrightarrow> vm_has i vs (add_vfio_pci_if pci q) \<and> nic_id (add_vfio_pci_if pci q) = Suc (nic_id q)"
  by (auto simp: vm_has_def add_vfio_pci_if_def with_param_def oget_def)

lemma attach_all:
  assumes "vm_has i vs (vs_qemu st)"
  shows "\<exists>q. forS attach is st = (Inr (), st\<lparr>vs_qemu := q\<rparr>) \<and> nic_id q = nic_id (vs_qemu st) + length is \<and>
    vm_has i (vs @ vhosts_from (nic_id (vs_qemu st)) is) q"
  using assms
proof (induction "is" arbitrary: vs st)
  case Nil
  then show ?case by (intro exI [of _ "vs_qemu st"]) simp
next
  case (Cons x xs)
  show ?case
  proof (cases x)
    case (VhostUser socket server qs queues csum gso)
    from add_vhost_user_if_keeps [OF Cons.prems] obtain q where
      q: "attach x st = (Inr (), st\<lparr>vs_qemu := q\<rparr>)" "nic_id q = Suc (nic_id (vs_qemu st))" "vm_has i (vs @ [(nic_id q, socket)]) q"
      unfolding VhostUser attach.simps by blast
    from Cons.IH [of "vs @ [(nic_id q, socket)]" "st\<lparr>vs_qemu := q\<rparr>"] q show ?thesis
      by (auto simp: VhostUser thenS_def)
  next
    case (VfioPci pci)
    from Cons.IH [of vs "st\<lparr>vs_qemu := add_vfio_pci_if pci (vs_qemu st)\<rparr>"] add_vfio_keeps [OF Cons.prems, of pci] show ?thesis
      by (auto simp: VfioPci editQ_then)
  qed
qed

lemma QemuUtils_fresh:
  assumes "QemuUtils pk node qemu_id smp mem vnf img s = (Inr q, s')"
  shows "vm_has qemu_id [] q \<and> nic_id q = 0"
proof -
  have info: "map_of info ''interfaces'' = Some (VDict [])" if "qemu_vm_info n i = Inr info" for n i info
    using that by (auto simp: qemu_vm_info_def Let_def split: if_splits)
  have arch: "map_of opts ''qemu_id'' = None" if "qemu_arch_options a = (t, opts)" for a t opts
    using that by (auto simp: qemu_arch_options_def split: if_splits)
  show ?thesis
    using assms unfolding QemuUtils_def
    by (auto simp: vm_has_def oget_def getitem_def Let_def bindS_eq_Inr info arch map_add_def update_conv' split: prod.splits if_splits option.splits dest!: arch)
qed

text \<open>
  C34. \<open>QemuUtils\<close>: whatever interfaces are given to a new machine, in whatever order, every one gets the next
  number, and the description of the machine lists exactly those for a vhost user under their
  numbers, with different names and (up to 255 of them) different hardware addresses; the socket of each is among the files
  that are removed when the machine is killed.
\<close>

theorem vm_interfaces_consistent:
  assumes "QemuUtils pk node qemu_id smp mem vnf img s = (Inr q, s')"
  shows "\<exists>q'. forS attach is \<lparr>vs_qemu = q, vs_ssh = s'\<rparr> = (Inr (), \<lparr>vs_qemu = q', vs_ssh = s'\<rparr>) \<and>
    nic_id q' = length is \<and>
    (let vs = vhosts_from 0 is; d = map (vhost_entry qemu_id) vs
     in getitem (vm_info q') ''interfaces'' = Inr (VDict d) \<and> distinct (map fst d) \<and>
        (length is < 256 \<longrightarrow> distinct (map (\<lambda>v. vhost_mac qemu_id (fst v)) vs)) \<and>
        (\<forall>v \<in> set vs. map_of (q_temp q') (''vhost'' @ str_of_nat (fst v)) = Some (VStr (snd v))))"
proof -
  from QemuUtils_fresh [OF assms] have fresh: "vm_has qemu_id [] q" "nic_id q = 0" by simp_all
  from attach_all [of qemu_id "[]" "\<lparr>vs_qemu = q, vs_ssh = s'\<rparr>" "is"] fresh obtain q' where
    q': "forS attach is \<lparr>vs_qemu = q, vs_ssh = s'\<rparr> = (Inr (), \<lparr>vs_qemu = q', vs_ssh = s'\<rparr>)" "nic_id q' = length is"
      "vm_has qemu_id (vhosts_from 0 is) q'" by auto
  let ?vs = "vhosts_from 0 is"
  let ?d = "map (vhost_entry qemu_id) ?vs"
  from vhosts_from_numbers [of 0 "is"] have nums: "sorted_wrt (<) (map fst ?vs)" "\<forall>v\<in>set ?vs. fst v \<le> length is" by auto
  have dist: "distinct (map fst ?vs)" using nums(1) strict_sorted_iff by blast
  have inj: "inj_on (\<lambda>n. ''vhost'' @ str_of_nat n) (set (map fst ?vs))" by (auto simp: inj_on_def str_of_nat_inject)
  have "map fst ?d = map (\<lambda>n. ''vhost'' @ str_of_nat n) (map fst ?vs)" by (simp add: vhost_entry_def)
  with dist inj have names: "distinct (map fst ?d)" by (simp only: distinct_map)
  have macs: "distinct (map (\<lambda>v. vhost_mac qemu_id (fst v)) ?vs)" if "length is < 256"
  proof -
    have "inj_on (vhost_mac qemu_id) (set (map fst ?vs))"
      using nums(2) that by (auto simp: inj_on_def dest!: vhost_mac_inject [rotated 2])
    with dist show ?thesis by (simp add: distinct_map [of "vhost_mac qemu_id" "map fst ?vs", unfolded list.map_comp comp_def])
  qed
  from q'(3) have "getitem (vm_info q') ''interfaces'' = Inr (VDict ?d)"
    "\<forall>v \<in> set ?vs. map_of (q_temp q') (''vhost'' @ str_of_nat (fst v)) = Some (VStr (snd v))" by (simp_all add: vm_has_def)
  with q' names macs show ?thesis unfolding Let_def by (intro exI [of _ q']) blast
qed

theorem vm_interfaces_consistent_witness:
  "\<exists>q q'. QemuUtils lab_paramiko lab_node 1 2 512 VNone QEMU_VM_IMAGE \<lparr>existing_connections = [], ssh_world = (0::nat)\<rparr> =
      (Inr q, \<lparr>existing_connections = [], ssh_world = (0::nat)\<rparr>) \<and>
    forS attach [VhostUser ''/a'' True (VInt 1024) 1 False False, VfioPci ''0000:00:06.0'', VhostUser ''/b'' True (VInt 1024) 1 False False]
      \<lparr>vs_qemu = q, vs_ssh = \<lparr>existing_connections = [], ssh_world = (0::nat)\<rparr>\<rparr> =
      (Inr (), \<lparr>vs_qemu = q', vs_ssh = \<lparr>existing_connections = [], ssh_world = (0::nat)\<rparr>\<rparr>) \<and>
    getitem (vm_info q') ''interfaces'' = Inr (VDict (map (vhost_entry 1) [(1, ''/a''), (3, ''/b'')]))"
proof -
  let ?s = "\<lparr>existing_connections = [], ssh_world = 0\<rparr> :: nat ssh_state"
  let ?is = "[VhostUser ''/a'' True (VInt 1024) 1 False False, VfioPci ''0000:00:06.0'', VhostUser ''/b'' True (VInt 1024) 1 False False]"
  have "get_node_arch lab_node = (VStr ''x86_64'', AList.update ''arch'' (VStr ''x86_64'') lab_node)"
    by (simp add: get_node_arch_def lab_node_def)
  moreover have "\<exists>info. qemu_vm_info (AList.update ''arch'' (VStr ''x86_64'') lab_node) 1 = Inr info"
    by (simp add: qemu_vm_info_def getitem_def lab_node_def update_conv')
  moreover obtain target opts where "qemu_arch_options (VStr ''x86_64'') = (target, opts)" by fastforce
  ultimately have "\<exists>q. QemuUtils lab_paramiko lab_node 1 2 512 VNone QEMU_VM_IMAGE ?s = (Inr q, ?s)"
    by (auto simp: QemuUtils_def returnS_def Let_def liftS_def bindS_def)
  then obtain q where q: "QemuUtils lab_paramiko lab_node 1 2 512 VNone QEMU_VM_IMAGE ?s = (Inr q, ?s)" ..
  have vs: "vhosts_from 0 ?is = [(1, ''/a''), (3, ''/b'')]" by (simp add: numeral_eq_Suc)
  from vm_interfaces_consistent [OF q, of ?is, unfolded vs Let_def] obtain q' where
    "forS attach ?is \<lparr>vs_qemu = q, vs_ssh = ?s\<rparr> = (Inr (), \<lparr>vs_qemu = q', vs_ssh = ?s\<rparr>)"
    "getitem (vm_info q') ''interfaces'' = Inr (VDict (map (vhost_entry 1) [(1, ''/a''), (3, ''/b'')]))" by blast
  with q show ?thesis by (intro exI conjI)
qed

section \<open>Waiting for the machine ends\<close>

lemma boot_timeout_raises: "\<exists>e. boot_timeout st = (Inl e, st)"
proof -
  have "\<exists>e. with_vm_host (\<lambda>host. liftS (Inl (f host))) st = (Inl e, st)" for f :: "string \<Rightarrow> py_error"
    by (simp add: with_vm_host_def bindS_def askQ_def liftS_def split: sum.splits)
  then show ?thesis unfolding boot_timeout_def .
qed

interpretation booted: polling "look_at_log pk" "\<lambda>v. v" "\<lambda>st. st" "\<lambda>_. wait_default pk" "\<lambda>_. ()"
  by unfold_locales (simp_all add: boot_timeout_raises)

lemma caught_text:
  assumes "catchS (bindS m (\<lambda>(out, err). thenS p (returnS (VStr out)))) (\<lambda>e. if c e then returnS VNone else liftS (Inl e)) t = (Inr line, t')"
  shows "line = VNone \<or> (\<exists>s. line = VStr s)"
  using assms by (auto simp: catchS_def bindS_def thenS_def returnS_def liftS_def split: prod.splits sum.splits if_splits)

lemma last_line_text:
  assumes "last_line pk t = (Inr line, t')"
  shows "line = VNone \<or> (\<exists>s. line = VStr s)"
proof -
  from assms have "catchS (bindS (sshQ (\<lambda>node. run_sudo pk node (''tail -1 '' @ ttext (vs_qemu t) ''log'') 600 []))
      (\<lambda>(out, err). thenS (pauseQ pk 1) (returnS (VStr out)))) (\<lambda>e. if is_runtime_error e then returnS VNone else liftS (Inl e)) t = (Inr line, t')"
    unfolding last_line_def by (subst (asm) bindS_def) (simp only: askQ_def prod.case sum.case)
  then show ?thesis by (rule caught_text)
qed

lemma boot_verdict_booted:
  assumes "last_line pk t = (Inr line, t')"
  shows "boot_verdict line = Inr (Some True) \<longleftrightarrow>
     (\<exists>s. line = VStr s \<and> (str_contains ''vpp '' s \<and> str_contains ''built by'' s \<or> str_contains ''Press enter to exit'' s))"
  using last_line_text [OF assms]
proof
  assume "\<exists>s. line = VStr s"
  then obtain s where line: "line = VStr s" ..
  have split: "bindE (if v then Inr b else Inr False) (\<lambda>banner. if banner then Inr (Some True)
      else bindE (Inr e) (\<lambda>testpmd. if testpmd then Inr (Some True) else bindE (Inr d) (\<lambda>down. Inr (if down then Some False else None)))) =
      Inr (Some True) \<longleftrightarrow> v \<and> b \<or> e" for v b d e
    by (cases v; cases b; cases d; cases e) simp_all
  show ?thesis unfolding line boot_verdict_def py_in.simps bindE_simps(2) [of _ "\<lambda>vpp. bindE (if vpp then _ else _) _"] split by blast
qed (simp add: boot_verdict_def)

text \<open>
  C36. \<open>QemuUtils._wait_default\<close> returns exactly when one of the at most \<open>n\<close> looks at the last line of the log shows the
  banner of VPP or the prompt of \<^verbatim>\<open>testpmd\<close>, and no earlier look shows one or raises.
\<close>

theorem vm_boot_seen:
  "wait_default pk n st = (Inr (), st') \<longleftrightarrow>
     (\<exists>k t s. k < n \<and> unsuccessful (look_at_log pk) (\<lambda>v. v) (\<lambda>st. st) k st t \<and> last_line pk t = (Inr (VStr s), st') \<and>
        (str_contains ''vpp '' s \<and> str_contains ''built by'' s \<or> str_contains ''Press enter to exit'' s))"
proof -
  have "look_at_log pk t = (Inr (Some ()), st') \<longleftrightarrow>
      (\<exists>s. last_line pk t = (Inr (VStr s), st') \<and>
         (str_contains ''vpp '' s \<and> str_contains ''built by'' s \<or> str_contains ''Press enter to exit'' s))" for t
  proof -
    have "look_at_log pk t = (Inr (Some ()), st') \<longleftrightarrow> (\<exists>line. last_line pk t = (Inr line, st') \<and> boot_verdict line = Inr (Some True))"
      by (auto simp: look_at_log_def bindS_eq_Inr with_vm_host_def split: option.splits if_splits)
    then show ?thesis using boot_verdict_booted [of pk t _ st'] by blast
  qed
  moreover have "x = Some ()" if "(\<lambda>v. v) x = Some ()" for x :: "unit option" using that by simp
  ultimately show ?thesis unfolding booted.first_success [of pk n st "()" st'] by (metis (no_types, lifting))
qed

section \<open>Threads are pinned or the machine is killed\<close>

abbreviation right_number :: "int list \<Rightarrow> string list \<Rightarrow> string list option" where
  "right_number cpus pids \<equiv> (if length pids = length cpus then Some pids else None)"

lemma or_kill_returns: "or_kill pk c m st = (Inr x, st') \<longleftrightarrow> m st = (Inr x, st')"
  by (auto simp: or_kill_def catchS_def thenS_def bindS_def liftS_def split: prod.splits sum.splits if_splits)

lemma or_kill_raises:
  assumes "or_kill pk c m st = (Inl e, st')" and "c e"
  shows "\<exists>t r. qemu_kill_all pk t = (r, st')"
  using assms by (auto simp: or_kill_def catchS_def thenS_def bindS_def liftS_def split: prod.splits sum.splits if_splits)

lemma affinity_tries_returns:
  assumes "affinity_tries pk cpus n st = (Inr u, st')"
  shows "\<exists>k t pids t1. k < n \<and> unsuccessful (get_qemu_pids pk) (right_number cpus) (sleepQ pk 1) k st t \<and>
      get_qemu_pids pk t = (Inr pids, t1) \<and> length pids = length cpus \<and> pin_threads pk (zip pids cpus) t1 = (Inr (), st')"
  using assms
proof (induction n arbitrary: st)
  case 0
  then show ?case by (simp add: thenS_def bindS_eq_Inr liftS_def)
next
  case (Suc n)
  from Suc.prems obtain pinned s1 where
    one: "bindS (get_qemu_pids pk) (\<lambda>pids.
            if length pids \<noteq> length cpus then thenS (pauseQ pk 1) (returnS False)
            else thenS (pin_threads pk (zip pids cpus)) (returnS True)) st = (Inr pinned, s1)"
    and rest: "(if pinned then returnS () else affinity_tries pk cpus n) s1 = (Inr u, st')"
    by (auto simp: bindS_eq_Inr or_kill_returns)
  from one obtain pids t1 where pids: "get_qemu_pids pk st = (Inr pids, t1)"
    and pin: "(if length pids \<noteq> length cpus then thenS (pauseQ pk 1) (returnS False)
            else thenS (pin_threads pk (zip pids cpus)) (returnS True)) t1 = (Inr pinned, s1)"
    by (auto simp: bindS_eq_Inr)
  show ?case
  proof (cases "length pids = length cpus")
    case True
    with pin rest have "pin_threads pk (zip pids cpus) t1 = (Inr (), st')"
      by (auto simp: thenS_def bindS_eq_Inr returnS_def)
    with pids True show ?thesis by (intro exI [of _ 0] exI [of _ st] exI [of _ pids] exI [of _ t1]) (simp add: unsuccessful_0)
  next
    case False
    with pin have "\<not> pinned" "s1 = sleepQ pk 1 t1" by (auto simp: thenS_def bindS_eq_Inr returnS_def pauseQ_def)
    with rest Suc.IH [of s1] obtain k t ps t2 where
      "k < n" "unsuccessful (get_qemu_pids pk) (right_number cpus) (sleepQ pk 1) k (sleepQ pk 1 t1) t"
      "get_qemu_pids pk t = (Inr ps, t2)" "length ps = length cpus" "pin_threads pk (zip ps cpus) t2 = (Inr (), st')" by auto
    with pids False show ?thesis
      by (intro exI [of _ "Suc k"] exI [of _ t] exI [of _ ps] exI [of _ t2]) (auto intro: unsuccessful_Suc)
  qed
qed

lemma affinity_tries_raises:
  assumes "affinity_tries pk cpus n st = (Inl e, st')" and "caught e"
  shows "\<exists>t r. qemu_kill_all pk t = (r, st')"
  using assms
proof (induction n arbitrary: st)
  case 0
  then show ?case by (auto simp: thenS_def bindS_def liftS_def split: prod.splits sum.splits)
next
  case (Suc n)
  then show ?case
    by (auto simp: bindS_def [of "or_kill _ _ _"] returnS_def split: prod.splits sum.splits if_splits dest: or_kill_raises)
qed

text \<open>
  C35. \<open>QemuUtils.qemu_set_affinity\<close>: when it returns, one of at most three looks found as many threads as there are processors,
  the looks before it did not and were each followed by a pause, and every thread was then pinned; when it raises a
  \<^verbatim>\<open>RuntimeError\<close> or a \<^verbatim>\<open>ValueError\<close>, the last thing done was to kill the machines of the node.
\<close>

theorem affinity_pinned_or_killed:
  assumes "qemu_set_affinity pk cpus st = (r, st')"
  shows "case r of
      Inr u \<Rightarrow> \<exists>k t pids t1. k < 3 \<and> unsuccessful (get_qemu_pids pk) (right_number cpus) (sleepQ pk 1) k st t \<and>
        get_qemu_pids pk t = (Inr pids, t1) \<and> length pids = length cpus \<and> pin_threads pk (zip pids cpus) t1 = (Inr (), st')
    | Inl e \<Rightarrow> caught e \<longrightarrow> (\<exists>t r1. qemu_kill_all pk t = (r1, st'))"
  using assms affinity_tries_returns [of pk cpus 3 st] affinity_tries_raises [of pk cpus 3 st]
  unfolding qemu_set_affinity_def by (cases r) simp_all

text \<open>A machine whose two threads are found, and a connection on which every command succeeds.\<close>

definition vm_paramiko :: "nat paramiko" where
  "vm_paramiko = lab_paramiko\<lparr>pk_run := (\<lambda>ch cmd timeout w. (Inr (0, ''101'' @ [CHR 10] @ ''102'' @ [CHR 10], []), w + 1))\<rparr>"

definition vm_lab :: "nat \<Rightarrow> nat vm_state" where
  "vm_lab w = \<lparr>vs_qemu = \<lparr>nic_id = 0, q_node = lab_node, q_arch = VStr ''x86_64'', q_opt = [],
     q_temp = [(''pidfile'', VStr ''/run/qemu_1.pid'')], q_testpmd = [], vm_info = [], q_params = OptionString [] (AStr ''-'')\<rparr>,
     vs_ssh = \<lparr>existing_connections = [({VStr ''10.0.0.1'', VInt 22}, 7)], ssh_world = w\<rparr>\<rparr>"

lemma vm_paramiko_runs:
  assumes "cmd \<noteq> []"
  shows "ssh_exec_cmd_no_error vm_paramiko lab_node cmd timeout sudo message False retries reason
      \<lparr>existing_connections = [({VStr ''10.0.0.1'', VInt 22}, 7)], ssh_world = w\<rparr> =
    (Inr (''101'' @ [CHR 10] @ ''102'' @ [CHR 10], []), \<lparr>existing_connections = [({VStr ''10.0.0.1'', VInt 22}, 7)], ssh_world = w + 1\<rparr>)"
  using assms by (intro exec_no_error_connected, subst exec_cmd_connected)
    (auto simp: node_hash_def lab_node_items vm_paramiko_def lab_paramiko_def sudo_text_def)

lemma vm_lab_runs:
  assumes "cmd \<noteq> []"
  shows "sshQ (\<lambda>node. ssh_exec_cmd_no_error vm_paramiko node cmd timeout sudo message False retries reason) (vm_lab w) =
    (Inr (''101'' @ [CHR 10] @ ''102'' @ [CHR 10], []), vm_lab (w + 1))"
  using vm_paramiko_runs [OF assms] by (simp add: sshQ_def vm_lab_def)

lemma vm_lab_pids: "get_qemu_pids vm_paramiko (vm_lab w) = (Inr [''101'', ''102''], vm_lab (w + 1))"
proof -
  have "splitlines (''101'' @ [CHR 10] @ ''102'' @ [CHR 10]) = [''101'', ''102'']" by code_simp
  then show ?thesis unfolding get_qemu_pids_def
    by (subst bindS_def) (simp add: askQ_def vm_lab_runs bindS_def returnS_def)
qed

lemma vm_lab_pins: "pin_threads vm_paramiko [(''101'', 4), (''102'', 5)] (vm_lab w) = (Inr (), vm_lab (w + 2))"
proof -
  have one: "with_vm_host (\<lambda>host. sshQ (\<lambda>node. voidS (run_sudo vm_paramiko node
      (''taskset -pc '' @ cpu) 600 (''QEMU: Set affinity failed on '' @ host @ ''!'')))) (vm_lab w) = (Inr (), vm_lab (w + 1))" for cpu w
  proof -
    have "voidS (run_sudo vm_paramiko lab_node (''taskset -pc '' @ cpu) 600 m)
        \<lparr>existing_connections = [({VStr ''10.0.0.1'', VInt 22}, 7)], ssh_world = w\<rparr> =
      (Inr (), \<lparr>existing_connections = [({VStr ''10.0.0.1'', VInt 22}, 7)], ssh_world = w + 1\<rparr>)" for m
      by (simp add: voidS_def bindS_def returnS_def vm_paramiko_runs)
    then show ?thesis by (simp add: with_vm_host_def bindS_def askQ_def sshQ_def vm_lab_def lab_node_items)
  qed
  define f where "f = (\<lambda>(qemu_cpu, host_cpu). with_vm_host (\<lambda>host. sshQ (\<lambda>node. voidS (run_sudo vm_paramiko node
      (''taskset -pc '' @ str_of_int host_cpu @ '' '' @ qemu_cpu) 600 (''QEMU: Set affinity failed on '' @ host @ ''!'')))))"
  have "f (c, h) (vm_lab w) = (Inr (), vm_lab (w + 1))" for c h w
    unfolding f_def prod.case by (rule one)
  then show ?thesis unfolding pin_threads_def f_def [symmetric] by (simp add: thenS_def bindS_def returnS_def)
qed

theorem affinity_pinned_or_killed_witness:
  "\<exists>st' k t pids t1. qemu_set_affinity vm_paramiko [4, 5] (vm_lab 0) = (Inr (), st') \<and> k < 3 \<and>
     unsuccessful (get_qemu_pids vm_paramiko) (right_number [4, 5]) (sleepQ vm_paramiko 1) k (vm_lab 0) t \<and>
     get_qemu_pids vm_paramiko t = (Inr pids, t1) \<and> length pids = 2 \<and>
     pin_threads vm_paramiko (zip pids [4, 5]) t1 = (Inr (), st')"
proof -
  have run: "qemu_set_affinity vm_paramiko [4, 5] (vm_lab 0) = (Inr (), vm_lab (0 + 1 + 2))"
    by (simp add: qemu_set_affinity_def numeral_3_eq_3 bindS_def [of "or_kill _ _ _"] or_kill_def catchS_def bindS_def
        vm_lab_pids thenS_def vm_lab_pins returnS_def)
  from affinity_pinned_or_killed [OF run] run show ?thesis by (auto simp: numeral_2_eq_2)
qed

end
