(* ===== verification/QemuManager.thy ===== *)
theory QemuManager
  imports QemuUtils CpuUtils
begin

text \<open>
  \<open>QemuManager.py\<close>: chains of virtual machines on the nodes under test. The manager holds the nodes, the machines and the
  processors of each machine; \<open>Initialize\<close> creates the two dictionaries. \<^verbatim>\<open>nodes.popitem(node)\<close> in
  \<open>kill_all_vms\<close> raises \<^verbatim>\<open>TypeError\<close> on a dictionary, which is ignored, so the nodes do not change.
\<close>

section \<open>The object\<close>

record 'w manager =
  mg_vms :: "((string, qemu) pydict \<times> (string, int list) pydict) option"
  mg_nodes :: nodes
  mg_ssh :: "'w ssh_state"

definition QemuManager :: "nodes \<Rightarrow> 'w ssh_state \<Rightarrow> 'w manager" where
  "QemuManager nodes w = \<lparr>mg_vms = None, mg_nodes = nodes, mg_ssh = w\<rparr>"

definition initialize :: "('w manager, unit) act" where
  "initialize m = (Inr (), m\<lparr>mg_vms := Some ([], [])\<rparr>)"

definition vms :: "'w manager \<Rightarrow> ((string, qemu) pydict \<times> (string, int list) pydict) res" where
  "vms m = (case mg_vms m of None \<Rightarrow> Inl type_error | Some v \<Rightarrow> Inr v)"

definition askM :: "('w manager \<Rightarrow> 'a res) \<Rightarrow> ('w manager, 'a) act" where
  "askM f m = (f m, m)"

definition sshM :: "('w ssh_state, 'a) act \<Rightarrow> ('w manager, 'a) act" where
  "sshM f m = (case f (mg_ssh m) of (r, w) \<Rightarrow> (r, m\<lparr>mg_ssh := w\<rparr>))"

definition set_affinity :: "string \<Rightarrow> int list \<Rightarrow> ('w manager, unit) act" where
  "set_affinity name cpus m =
     (case mg_vms m of
        None \<Rightarrow> (Inl type_error, m)
      | Some (ms, af) \<Rightarrow> (Inr (), m\<lparr>mg_vms := Some (ms, AList.update name cpus af)\<rparr>))"

text \<open>The new machine shares its node with the manager.\<close>

definition set_machine :: "string \<Rightarrow> string \<Rightarrow> qemu \<Rightarrow> ('w manager, unit) act" where
  "set_machine node name q m =
     (case mg_vms m of
        None \<Rightarrow> (Inl type_error, m)
      | Some (ms, af) \<Rightarrow> (Inr (), m\<lparr>mg_vms := Some (AList.update name q ms, af), mg_nodes := AList.update node (q_node q) (mg_nodes m)\<rparr>))"

text \<open>A method of one of the machines.\<close>

definition on_machine :: "string \<Rightarrow> ('w vm_state, 'a) act \<Rightarrow> ('w manager, 'a) act" where
  "on_machine name f m =
     (case mg_vms m of
        None \<Rightarrow> (Inl type_error, m)
      | Some (ms, af) \<Rightarrow>
          (case getitem ms name of
             Inl e \<Rightarrow> (Inl e, m)
           | Inr q \<Rightarrow>
               (case f \<lparr>vs_qemu = q, vs_ssh = mg_ssh m\<rparr> of
                  (r, st) \<Rightarrow> (r, m\<lparr>mg_vms := Some (AList.update name (vs_qemu st) ms, af), mg_ssh := vs_ssh st\<rparr>))))"

section \<open>Configurations\<close>

text \<open>The keyword arguments of \<open>Construct VMs\<close>; the two interfaces are only given for pass-through.\<close>

record vm_kwargs =
  vk_nf_chains :: nat
  vk_nf_nodes :: nat
  vk_jumbo :: bool
  vk_perf_qemu_qsz :: int
  vk_auto_scale :: bool
  vk_vnf :: string
  vk_tg_pf1_mac :: string
  vk_tg_pf2_mac :: string
  vk_vs_dtc :: nat
  vk_nf_dtc :: nf_dtc
  vk_nf_dtcr :: "nat option"
  vk_rxq_count_int :: int
  vk_enable_csum :: bool
  vk_enable_gso :: bool
  vk_ifs :: "(string \<times> string) option"

definition queues_of :: "vm_kwargs \<Rightarrow> int" where
  "queues_of kw = (if vk_auto_scale kw then vk_rxq_count_int kw else 1)"

definition new_machine :: "'w paramiko \<Rightarrow> string \<Rightarrow> string \<Rightarrow> nat \<Rightarrow> string \<Rightarrow> ('w manager, unit) act" where
  "new_machine pk node name qemu_id vnf =
     bindS (askM (\<lambda>m. bindE (getitem (mg_nodes m) node) (\<lambda>n. bindE (vms m) (\<lambda>(ms, af).
         bindE (getitem af name) (\<lambda>cpus. Inr (n, int (length cpus))))))) (\<lambda>(n, smp).
     bindS (sshM (QemuUtils pk n (int qemu_id) smp 4096 (VStr vnf) QEMU_VM_KERNEL)) (\<lambda>q.
     thenS (set_machine node name q)
       (on_machine name (editQ (\<lambda>q. add_kernelvm_params (add_default_params q))))))"

definition sock :: "nat \<Rightarrow> nat \<Rightarrow> string" where
  "sock qemu_id n = ''/run/vpp/sock-'' @ str_of_nat qemu_id @ ''-'' @ str_of_nat n"

definition vhost_pair :: "vm_kwargs \<Rightarrow> nat \<Rightarrow> ('w vm_state, unit) act" where
  "vhost_pair kw qemu_id =
     forS (\<lambda>n. add_vhost_user_if (sock qemu_id n) True (VInt (vk_perf_qemu_qsz kw)) (queues_of kw) (vk_enable_csum kw)
         (vk_enable_gso kw)) [1, 2]"

text \<open>Without the addresses of the neighbours the arguments are incomplete.\<close>

definition default_kernelvm_kwargs :: "vm_kwargs \<Rightarrow> nat \<Rightarrow> pyval \<times> pyval \<Rightarrow> pyobj" where
  "default_kernelvm_kwargs kw qemu_id = (\<lambda>(vif1, vif2).
     [(''mac1'', VStr (vhost_mac (int qemu_id) 1)), (''mac2'', VStr (vhost_mac (int qemu_id) 2)),
      (''vif1_mac'', vif1), (''vif2_mac'', vif2), (''queues'', VInt (queues_of kw)), (''jumbo_frames'', VBool (vk_jumbo kw))])"

definition c_default ::
    "'w paramiko \<Rightarrow> 'w local_files \<Rightarrow> vm_kwargs \<Rightarrow> string \<Rightarrow> string \<Rightarrow> nat \<Rightarrow> (pyval \<times> pyval) option \<Rightarrow> ('w manager, unit) act" where
  "c_default pk lf kw node name qemu_id vifs =
     thenS (new_machine pk node name qemu_id (vk_vnf kw))
     (case vifs of
        None \<Rightarrow> liftS (Inl (KeyError ''vif1_mac''))
      | Some v \<Rightarrow>
          thenS (on_machine name (configure_kernelvm_vnf pk lf (default_kernelvm_kwargs kw qemu_id v)))
            (on_machine name (vhost_pair kw qemu_id)))"

definition vfpt_kernelvm_kwargs :: "vm_kwargs \<Rightarrow> string \<Rightarrow> string \<Rightarrow> pyobj" where
  "vfpt_kernelvm_kwargs kw plen name =
     map (\<lambda>(k, v). (k, VStr v))
       (if str_contains ''DUT1'' name
        then [(''ip1'', ''2.2.2.1/30''), (''ip2'', ''1.1.1.2/30''), (''route1'', ''20.0.0.0/'' @ plen), (''routeif1'', ''avf-0/0/6/0''),
              (''nexthop1'', ''2.2.2.2''), (''route2'', ''10.0.0.0/'' @ plen), (''routeif2'', ''avf-0/0/7/0''), (''nexthop2'', ''1.1.1.1''),
              (''arpmac1'', ''3c:fd:fe:d1:5c:d8''), (''arpip1'', ''1.1.1.1''), (''arpif1'', ''avf-0/0/7/0'')]
        else [(''ip1'', ''3.3.3.2/30''), (''ip2'', ''2.2.2.2/30''), (''route1'', ''10.0.0.0/'' @ plen), (''routeif1'', ''avf-0/0/7/0''),
              (''nexthop1'', ''2.2.2.1''), (''route2'', ''20.0.0.0/'' @ plen), (''routeif2'', ''avf-0/0/6/0''), (''nexthop2'', ''3.3.3.1''),
              (''arpmac1'', ''3c:fd:fe:d1:5c:d9''), (''arpip1'', ''3.3.3.1''), (''arpif1'', ''avf-0/0/6/0'')]) @
     [(''queues'', VInt (queues_of kw)), (''jumbo_frames'', VBool (vk_jumbo kw))]"

definition pass_through :: "string \<Rightarrow> string \<Rightarrow> (vm_kwargs \<Rightarrow> string res) \<Rightarrow> vm_kwargs \<Rightarrow> ('w manager, unit) act" where
  "pass_through node name if_of kw =
     bindS (askM (\<lambda>m. bindE (getitem (mg_nodes m) node) (\<lambda>n. bindE (if_of kw) (\<lambda>i. get_interface_pci_addr n (VStr i))))) (\<lambda>pci.
       on_machine name (editQ (add_vfio_pci_if (py_str pci))))"

definition if_arg :: "bool \<Rightarrow> vm_kwargs \<Rightarrow> string res" where
  "if_arg second kw = (case vk_ifs kw of None \<Rightarrow> Inl (KeyError (if second then ''if2'' else ''if1'')) | Some (a, b) \<Rightarrow> Inr (if second then b else a))"

definition c_vpp_2vfpt ::
    "'w paramiko \<Rightarrow> 'w local_files \<Rightarrow> string \<Rightarrow> vm_kwargs \<Rightarrow> string \<Rightarrow> string \<Rightarrow> nat \<Rightarrow> ('w manager, unit) act" where
  "c_vpp_2vfpt pk lf plen kw node name qemu_id =
     thenS (new_machine pk node name qemu_id (vk_vnf kw))
     (thenS (on_machine name (configure_kernelvm_vnf pk lf (vfpt_kernelvm_kwargs kw plen name)))
     (thenS (pass_through node name (if_arg True) kw) (pass_through node name (if_arg False) kw)))"

text \<open>The methods \<^verbatim>\<open>_c_...\<close> there are.\<close>

definition vm_method ::
    "'w paramiko \<Rightarrow> 'w local_files \<Rightarrow> vm_kwargs \<Rightarrow> string \<Rightarrow> string \<Rightarrow> nat \<Rightarrow> ('w manager, unit) act" where
  "vm_method pk lf kw node name qemu_id =
     (if vk_vnf kw = ''default'' then c_default pk lf kw node name qemu_id None
      else if vk_vnf kw = ''vpp_2vfpt_ip4base_plen24'' then c_vpp_2vfpt pk lf ''24'' kw node name qemu_id
      else if vk_vnf kw \<in> {''vpp_2vfpt_ip4scale2k_plen30'', ''vpp_2vfpt_ip4scale20k_plen30'', ''vpp_2vfpt_ip4scale200k_plen30''}
      then c_vpp_2vfpt pk lf ''30'' kw node name qemu_id
      else liftS (Inl AttributeError))"

section \<open>Chains\<close>

definition vm_id :: "vm_kwargs \<Rightarrow> nat \<Rightarrow> nat \<Rightarrow> nat" where
  "vm_id kw nf_chain nf_node = (nf_chain - 1) * vk_nf_nodes kw + nf_node"

definition vm_name :: "string \<Rightarrow> nat \<Rightarrow> string" where
  "vm_name node qemu_id = node @ ''_'' @ str_of_nat qemu_id"

text \<open>The address the machine sends to on either side: a machine of the chain, or the traffic generator at the ends.\<close>

definition vif_mac :: "vm_kwargs \<Rightarrow> node \<Rightarrow> nat \<Rightarrow> nat \<Rightarrow> nat \<Rightarrow> pyval res" where
  "vif_mac kw n side nf_chain nf_node =
     (let qemu_id = vm_id kw nf_chain nf_node
      in if vk_vnf kw = ''testpmd_mac''
         then get_interface_mac n (VStr (''vhost'' @ str_of_int ((int nf_chain - 1) * int (vk_nf_nodes kw) * 2 + int nf_node * 2 - 2 + int side)))
         else if side = 1
         then Inr (VStr (if nf_node = 1 then vk_tg_pf1_mac kw else vhost_mac (int qemu_id - 1) 2))
         else Inr (VStr (if nf_node = vk_nf_nodes kw then vk_tg_pf2_mac kw else vhost_mac (int qemu_id + 1) 1)))"

definition construct_vm ::
    "'w paramiko \<Rightarrow> 'w local_files \<Rightarrow> (string \<Rightarrow> pyval) \<Rightarrow> vm_kwargs \<Rightarrow> string \<Rightarrow> nat \<times> nat \<Rightarrow> ('w manager, unit) act" where
  "construct_vm pk lf variables kw node = (\<lambda>(nf_chain, nf_node).
     let qemu_id = vm_id kw nf_chain nf_node; name = vm_name node qemu_id;
         vif = (\<lambda>side. if vk_vnf kw = ''testpmd_mac''
                then askM (\<lambda>m. bindE (getitem (mg_nodes m) node) (\<lambda>n. vif_mac kw n side nf_chain nf_node))
                else liftS (vif_mac kw [] side nf_chain nf_node))
     in bindS (vif 1) (\<lambda>vif1_mac.
        bindS (vif 2) (\<lambda>vif2_mac.
        bindS (askM (\<lambda>m. get_affinity_nf variables (mg_nodes m) node (vk_nf_chains kw) (vk_nf_nodes kw) nf_chain nf_node
             (vk_vs_dtc kw) (if vk_auto_scale kw then IntDtc (vk_vs_dtc kw) else vk_nf_dtc kw) 2
             (case vk_nf_dtcr kw of None \<Rightarrow> 2 | Some r \<Rightarrow> r))) (\<lambda>cpus.
        thenS (set_affinity name cpus)
          (catchS (vm_method pk lf kw node name qemu_id)
             (\<lambda>e. if e = AttributeError then c_default pk lf kw node name qemu_id (Some (vif1_mac, vif2_mac))
                  else liftS (Inl e)))))))"

definition vm_positions :: "vm_kwargs \<Rightarrow> (nat \<times> nat) list" where
  "vm_positions kw = List.product [1..<vk_nf_chains kw + 1] [1..<vk_nf_nodes kw + 1]"

definition construct_vms_on_node ::
    "'w paramiko \<Rightarrow> 'w local_files \<Rightarrow> (string \<Rightarrow> pyval) \<Rightarrow> string \<Rightarrow> vm_kwargs \<Rightarrow> ('w manager, unit) act" where
  "construct_vms_on_node pk lf variables node kw = forS (construct_vm pk lf variables kw node) (vm_positions kw)"

definition construct_vms_on_all_nodes ::
    "'w paramiko \<Rightarrow> 'w local_files \<Rightarrow> (string \<Rightarrow> pyval) \<Rightarrow> vm_kwargs \<Rightarrow> ('w manager, unit) act" where
  "construct_vms_on_all_nodes pk lf variables kw =
     thenS initialize
     (bindS (askM (\<lambda>m. Inr (map fst (mg_nodes m)))) (\<lambda>names.
        forS (\<lambda>node. bindS (askM (\<lambda>m. bindE (getitem (mg_nodes m) node) (\<lambda>n. getitem n ''type''))) (\<lambda>t.
          whenS (t = VStr ''DUT'') (construct_vms_on_node pk lf variables node kw))) names))"

section \<open>Running the machines\<close>

definition add_vm_node :: "string \<Rightarrow> node \<Rightarrow> ('w manager, unit) act" where
  "add_vm_node name info m = (Inr (), m\<lparr>mg_nodes := AList.update name info (mg_nodes m)\<rparr>)"

definition start_all_vms :: "'w paramiko \<Rightarrow> (string \<Rightarrow> pyval res) \<Rightarrow> bool \<Rightarrow> ('w manager, string) act" where
  "start_all_vms pk json pinning =
     bindS (askM (\<lambda>m. case mg_vms m of None \<Rightarrow> Inl AttributeError | Some (ms, af) \<Rightarrow> Inr (zip (map fst ms) (map snd af)))) (\<lambda>pairs.
     bindS (foldS (\<lambda>cpus (name, affinity).
         bindS (on_machine name (qemu_start pk json)) (\<lambda>info.
         thenS (add_vm_node name info)
           (if pinning then thenS (on_machine name (qemu_set_affinity pk affinity)) (returnS (cpus @ affinity))
            else returnS cpus))) [] pairs) (\<lambda>cpus.
       returnS (join '','' (map str_of_int cpus))))"

definition kill_all_vms :: "'w paramiko \<Rightarrow> bool \<Rightarrow> ('w manager, unit) act" where
  "kill_all_vms pk force =
     bindS (askM (\<lambda>m. mapE (\<lambda>n. getitem n ''type'') (map snd (mg_nodes m)))) (\<lambda>_.
     bindS (askM (\<lambda>m. case mg_vms m of None \<Rightarrow> Inl AttributeError | Some (ms, af) \<Rightarrow> Inr (map fst ms))) (\<lambda>names.
       forS (\<lambda>name. on_machine name (if force then qemu_kill_all pk else qemu_kill pk)) names))"

section \<open>The machines of a chain are linked\<close>

text \<open>What configuring a machine leaves alone: the interfaces, their number and the identifier.\<close>

definition same_vm :: "'w vm_state \<Rightarrow> 'w vm_state \<Rightarrow> bool" where
  "same_vm s t \<longleftrightarrow> vm_info (vs_qemu t) = vm_info (vs_qemu s) \<and> nic_id (vs_qemu t) = nic_id (vs_qemu s) \<and>
     oget (vs_qemu t) ''qemu_id'' = oget (vs_qemu s) ''qemu_id''"

interpretation vm_frame: frame same_vm
  by unfold_locales (auto simp: same_vm_def)

lemma askQ_same_vm: "along same_vm (askQ f)"
  by (simp add: along_def same_vm_def askQ_def)

lemma sshQ_same_vm: "along same_vm (sshQ f)"
  by (simp add: along_def same_vm_def sshQ_def split: prod.splits)

lemma editQ_same_vm: "(\<And>q. vm_info (f q) = vm_info q \<and> nic_id (f q) = nic_id q \<and> oget (f q) ''qemu_id'' = oget q ''qemu_id'') \<Longrightarrow>
    along same_vm (editQ f)"
  by (simp add: along_def same_vm_def editQ_def)

lemma run_quiet_same_vm: "along same_vm (run_quiet pk cmd sudo)"
  unfolding run_quiet_def by (rule sshQ_same_vm)

lemma write_template_same_vm: "along same_vm (write_template pk lf t kw path)"
  unfolding write_template_def read_local_def by (intro vm_frame.along_bindS sshQ_same_vm run_quiet_same_vm)

lemmas same_vm_steps = askQ_same_vm sshQ_same_vm run_quiet_same_vm write_template_same_vm

lemma configure_same_vm: "along same_vm (configure_kernelvm_vnf pk lf kw)"
proof -
  have init: "along same_vm (create_kernelvm_init pk lf d)" for d
    unfolding create_kernelvm_init_def by (intro vm_frame.along_rules same_vm_steps)
  have vpp: "along same_vm (create_kernelvm_config_vpp pk lf kw)"
    unfolding create_kernelvm_config_vpp_def Let_def case_prod_unfold
    by (intro vm_frame.along_rules same_vm_steps editQ_same_vm) (simp add: oget_def update_conv')
  have io: "along same_vm (create_kernelvm_config_testpmd_io kw)"
    unfolding create_kernelvm_config_testpmd_io_def
    by (intro vm_frame.along_rules same_vm_steps editQ_same_vm) (simp add: set_testpmd_def oget_def update_conv')
  have mac: "along same_vm (create_kernelvm_config_testpmd_mac kw)"
    unfolding create_kernelvm_config_testpmd_mac_def
    by (intro vm_frame.along_rules same_vm_steps editQ_same_vm) (simp add: set_testpmd_def oget_def update_conv')
  show ?thesis unfolding configure_kernelvm_vnf_def Let_def
    by (intro vm_frame.along_rules same_vm_steps init vpp io mac)
qed

text \<open>The machine of a name, and that nothing else is touched.\<close>

definition machine_of :: "'w manager \<Rightarrow> string \<Rightarrow> qemu option" where
  "machine_of m name = (case mg_vms m of None \<Rightarrow> None | Some (ms, af) \<Rightarrow> map_of ms name)"

definition others_vms :: "string \<Rightarrow> 'w manager \<Rightarrow> 'w manager \<Rightarrow> bool" where
  "others_vms name s t \<longleftrightarrow> (\<forall>n. n \<noteq> name \<longrightarrow> machine_of t n = machine_of s n)"

interpretation manager_frame: frame "others_vms name" for name
  by unfold_locales (auto simp: others_vms_def)

lemma askM_others: "along (others_vms name) (askM f)"
  by (simp add: along_def others_vms_def askM_def)

lemma sshM_others: "along (others_vms name) (sshM f)"
  by (simp add: along_def others_vms_def sshM_def machine_of_def split: prod.splits)

lemma set_affinity_others: "along (others_vms name) (set_affinity n cpus)"
  by (simp add: along_def others_vms_def set_affinity_def machine_of_def split: option.splits prod.splits)

lemma set_machine_others: "along (others_vms name) (set_machine node name q)"
  by (simp add: along_def others_vms_def set_machine_def machine_of_def update_conv' split: option.splits prod.splits)

lemma on_machine_others: "along (others_vms name) (on_machine name f)"
  by (auto simp: along_def others_vms_def on_machine_def machine_of_def update_conv' split: option.splits prod.splits sum.splits)

lemmas others_steps = askM_others sshM_others set_affinity_others set_machine_others on_machine_others

lemma new_machine_others: "along (others_vms name) (new_machine pk node name i vnf)"
  unfolding new_machine_def case_prod_unfold by (intro manager_frame.along_rules others_steps)

lemma c_default_others: "along (others_vms name) (c_default pk lf kw node name i vifs)"
  unfolding c_default_def
  by (cases vifs) (simp_all add: manager_frame.along_rules new_machine_others on_machine_others)

lemma on_machine_returns:
  assumes "on_machine name f m = (Inr x, m')"
  shows "\<exists>q st. machine_of m name = Some q \<and> f \<lparr>vs_qemu = q, vs_ssh = mg_ssh m\<rparr> = (Inr x, st) \<and> machine_of m' name = Some (vs_qemu st)"
  using assms by (auto simp: on_machine_def machine_of_def update_conv' split: option.splits prod.splits sum.splits)

lemma new_machine_has:
  assumes "new_machine pk node name i vnf m = (Inr u, m')"
  shows "\<exists>q. machine_of m' name = Some q \<and> vm_has (int i) [] q \<and> nic_id q = 0"
proof -
  from assms obtain n smp m1 q m2 m3 where q: "sshM (QemuUtils pk n (int i) smp 4096 (VStr vnf) QEMU_VM_KERNEL) m1 = (Inr q, m2)"
    and set: "set_machine node name q m2 = (Inr (), m3)"
    and edit: "on_machine name (editQ (\<lambda>q. add_kernelvm_params (add_default_params q))) m3 = (Inr u, m')"
    unfolding new_machine_def by (auto simp: bindS_eq_Inr thenS_eq_Inr)
  from q have "vm_has (int i) [] q \<and> nic_id q = 0"
    by (auto simp: sshM_def split: prod.splits dest: QemuUtils_fresh)
  moreover have "machine_of m3 name = Some q"
    using set by (auto simp: set_machine_def machine_of_def update_conv' split: option.splits prod.splits)
  moreover have "vm_info (add_kernelvm_params (add_default_params q)) = vm_info q \<and> nic_id (add_kernelvm_params (add_default_params q)) = nic_id q \<and>
      q_opt (add_kernelvm_params (add_default_params q)) = q_opt q" for q
    by (simp add: add_kernelvm_params_def add_default_params_def steps_def with_param_def plain_param_def)
  ultimately show ?thesis using on_machine_returns [OF edit]
    by (auto simp: editQ_def vm_has_def oget_def)
qed

definition linked :: "nat \<Rightarrow> qemu \<Rightarrow> bool" where
  "linked i q \<longleftrightarrow> getitem (vm_info q) ''interfaces'' =
     Inr (VDict [vhost_entry (int i) (1, sock i 1), vhost_entry (int i) (2, sock i 2)])"

lemma vhost_pair_attaches:
  "vhost_pair kw i = forS attach (map (\<lambda>n. VhostUser (sock i n) True (VInt (vk_perf_qemu_qsz kw)) (queues_of kw) (vk_enable_csum kw) (vk_enable_gso kw)) [1, 2])"
  by (simp add: vhost_pair_def)

lemma c_default_links:
  assumes "c_default pk lf kw node name i (Some v) m = (Inr u, m')"
  shows "\<exists>q. machine_of m' name = Some q \<and> linked i q"
proof -
  from assms obtain m1 m2 u1 u2 where new: "new_machine pk node name i (vk_vnf kw) m = (Inr u1, m1)"
    and conf: "on_machine name (configure_kernelvm_vnf pk lf (default_kernelvm_kwargs kw i v)) m1 = (Inr u2, m2)"
    and pair: "on_machine name (vhost_pair kw i) m2 = (Inr u, m')"
    unfolding c_default_def by (auto simp: thenS_eq_Inr)
  from new_machine_has [OF new] on_machine_returns [OF conf] obtain q1 st where
    q1: "vm_has (int i) [] q1" "nic_id q1 = 0" "configure_kernelvm_vnf pk lf (default_kernelvm_kwargs kw i v) \<lparr>vs_qemu = q1, vs_ssh = mg_ssh m1\<rparr> = (Inr u2, st)"
      "machine_of m2 name = Some (vs_qemu st)" by auto
  from alongD [OF configure_same_vm q1(3)] q1(1,2) have q2: "vm_has (int i) [] (vs_qemu st)" "nic_id (vs_qemu st) = 0"
    by (simp_all add: same_vm_def vm_has_def)
  from on_machine_returns [OF pair] q1(4) obtain st3 where
    run: "vhost_pair kw i \<lparr>vs_qemu = vs_qemu st, vs_ssh = mg_ssh m2\<rparr> = (Inr u, st3)" "machine_of m' name = Some (vs_qemu st3)" by auto
  define pair where "pair = map (\<lambda>n. VhostUser (sock i n) True (VInt (vk_perf_qemu_qsz kw)) (queues_of kw) (vk_enable_csum kw) (vk_enable_gso kw)) [1, 2]"
  let ?st = "\<lparr>vs_qemu = vs_qemu st, vs_ssh = mg_ssh m2\<rparr>"
  have vs: "vhosts_from 0 pair = [(1, sock i 1), (2, sock i 2)]" by (simp add: pair_def)
  obtain q3 where "forS attach pair ?st = (Inr (), ?st\<lparr>vs_qemu := q3\<rparr>)" "vm_has (int i) [(1, sock i 1), (2, sock i 2)] q3"
    using attach_all [of "int i" "[]" ?st pair] q2 vs by auto
  with run(1) have "vm_has (int i) [(1, sock i 1), (2, sock i 2)] (vs_qemu st3)"
    unfolding vhost_pair_attaches pair_def [symmetric] by auto
  with run(2) show ?thesis by (simp add: vm_has_def linked_def)
qed

definition own_method :: "string \<Rightarrow> bool" where
  "own_method vnf \<longleftrightarrow> vnf \<in> {''default'', ''vpp_2vfpt_ip4base_plen24'', ''vpp_2vfpt_ip4scale2k_plen30'', ''vpp_2vfpt_ip4scale20k_plen30'',
     ''vpp_2vfpt_ip4scale200k_plen30''}"

lemma vm_method_none: "\<not> own_method (vk_vnf kw) \<Longrightarrow> vm_method pk lf kw node name i = liftS (Inl AttributeError)"
  by (simp add: own_method_def vm_method_def)

lemma c_vpp_2vfpt_others: "along (others_vms name) (c_vpp_2vfpt pk lf plen kw node name i)"
  unfolding c_vpp_2vfpt_def pass_through_def by (intro manager_frame.along_rules new_machine_others on_machine_others askM_others)

lemma vm_method_others: "along (others_vms name) (vm_method pk lf kw node name i)"
  unfolding vm_method_def by (intro manager_frame.along_rules c_default_others c_vpp_2vfpt_others)

lemma construct_vm_others: "along (others_vms (vm_name node (vm_id kw c k))) (construct_vm pk lf variables kw node (c, k))"
  unfolding construct_vm_def prod.case Let_def
  by (intro manager_frame.along_rules others_steps vm_method_others c_default_others)

text \<open>The description of a node keeps its interfaces: a new machine may only note the architecture.\<close>

definition same_ports :: "'w manager \<Rightarrow> 'w manager \<Rightarrow> bool" where
  "same_ports s t \<longleftrightarrow> (\<forall>k. map_option (\<lambda>n. map_of n ''interfaces'') (map_of (mg_nodes t) k) =
     map_option (\<lambda>n. map_of n ''interfaces'') (map_of (mg_nodes s) k))"

interpretation ports_frame: frame same_ports
  by unfold_locales (simp_all add: same_ports_def)

lemma askM_ports: "along same_ports (askM f)"
  by (simp add: along_def same_ports_def askM_def)

lemma sshM_ports: "along same_ports (sshM f)"
  by (simp add: along_def same_ports_def sshM_def split: prod.splits)

lemma set_affinity_ports: "along same_ports (set_affinity n cpus)"
  by (simp add: along_def same_ports_def set_affinity_def split: option.splits prod.splits)

lemma on_machine_ports: "along same_ports (on_machine name f)"
  by (auto simp: along_def same_ports_def on_machine_def split: option.splits prod.splits sum.splits)

lemmas ports_steps = askM_ports sshM_ports set_affinity_ports on_machine_ports

lemma QemuUtils_made:
  assumes "QemuUtils pk n i smp mem vnf img s = (Inr q, s')"
  shows "map_of (q_node q) ''interfaces'' = map_of n ''interfaces'' \<and> oget q ''vnf'' = vnf"
proof -
  have arch: "map_of opts ''vnf'' = None" if "qemu_arch_options a = (t, opts)" for a t opts
    using that by (auto simp: qemu_arch_options_def split: if_splits)
  show ?thesis
    using assms unfolding QemuUtils_def get_node_arch_def
    by (auto simp: oget_def Let_def bindS_eq_Inr arch map_add_def update_conv' split: prod.splits if_splits option.splits dest!: arch)
qed

lemma new_machine_ports: "along same_ports (new_machine pk node name i vnf)"
proof (rule alongI)
  fix s r s' assume run: "new_machine pk node name i vnf s = (r, s')"
  show "same_ports s s'"
  proof (cases "bindE (getitem (mg_nodes s) node) (\<lambda>n. bindE (vms s) (\<lambda>(ms, af). bindE (getitem af name) (\<lambda>cpus. Inr (n, int (length cpus)))))")
    case (Inl e)
    with run have "s' = s" by (simp add: new_machine_def bindS_def askM_def)
    then show ?thesis by (simp add: same_ports_def)
  next
    case (Inr x)
    then obtain n smp where x: "x = (n, smp)" "map_of (mg_nodes s) node = Some n" by (cases x) (auto simp: vms_def split: option.splits)
    obtain r1 s1 where make: "sshM (QemuUtils pk n (int i) smp 4096 (VStr vnf) QEMU_VM_KERNEL) s = (r1, s1)" by fastforce
    then have s1: "mg_nodes s1 = mg_nodes s" by (auto simp: sshM_def split: prod.splits)
    have rest: "(case r1 of Inl e \<Rightarrow> (Inl e, s1) | Inr q \<Rightarrow> thenS (set_machine node name q)
        (on_machine name (editQ (\<lambda>q. add_kernelvm_params (add_default_params q)))) s1) = (r, s')"
      using run Inr x(1) make by (simp add: new_machine_def bindS_def askM_def)
    show ?thesis
    proof (cases r1)
      case (Inl e)
      with rest s1 show ?thesis by (simp add: same_ports_def)
    next
      case (Inr q)
      with make have "map_of (q_node q) ''interfaces'' = map_of n ''interfaces''"
        by (auto simp: sshM_def split: prod.splits dest!: QemuUtils_made)
      then have set: "same_ports s s2" if "set_machine node name q s1 = (r2, s2)" for r2 s2
        using that s1 x(2) by (auto simp: set_machine_def same_ports_def update_conv' split: option.splits prod.splits)
      obtain r2 s2 where s2: "set_machine node name q s1 = (r2, s2)" by fastforce
      with rest Inr have "s' = s2 \<or> on_machine name (editQ (\<lambda>q. add_kernelvm_params (add_default_params q))) s2 = (r, s')"
        by (cases r2) (auto simp: thenS_def)
      then show ?thesis
        using set [OF s2] alongD [OF on_machine_ports, of name _ s2 r s'] by (auto simp: same_ports_def)
    qed
  qed
qed

lemma vm_method_ports: "along same_ports (vm_method pk lf kw node name i)"
  unfolding vm_method_def c_default_def c_vpp_2vfpt_def pass_through_def option.case
  by (intro ports_frame.along_rules ports_steps new_machine_ports)

lemma construct_vm_ports: "along same_ports (construct_vm pk lf variables kw node p)"
  unfolding construct_vm_def case_prod_unfold Let_def c_default_def option.case
  by (intro ports_frame.along_rules ports_steps vm_method_ports new_machine_ports)

lemma same_ports_mac:
  assumes "same_ports s t" and "getitem (mg_nodes t) node = Inr n" and "get_interface_mac n k = Inr v"
  shows "\<exists>n0. getitem (mg_nodes s) node = Inr n0 \<and> get_interface_mac n0 k = Inr v"
proof -
  from assms(1,2) obtain n0 where "getitem (mg_nodes s) node = Inr n0" "map_of n0 ''interfaces'' = map_of n ''interfaces''"
    unfolding same_ports_def by (cases "map_of (mg_nodes s) node") (auto simp: getitem_def split: option.splits dest: spec [of _ node])
  with assms(3) show ?thesis by (auto simp: get_interface_mac_def interface_get_def Topology.interfaces_def getitem_def)
qed

text \<open>The words of the command line of \<^verbatim>\<open>testpmd\<close> with the addresses its two ports send to.\<close>

definition sends_to :: "qemu \<Rightarrow> pyval \<Rightarrow> pyval \<Rightarrow> bool" where
  "sends_to q v1 v2 \<longleftrightarrow>
     (\<exists>ws. oget q ''vnf_bin'' = VStr (q_testpmd q @ ''/'' @ join '' '' ws) \<and>
        ''--eth-peer='' @ strip (''0,'' @ py_str v1) \<in> set ws \<and> ''--eth-peer='' @ strip (''1,'' @ py_str v2) \<in> set ws)"

text \<open>Adding interfaces leaves the command line alone.\<close>

definition same_command :: "'w vm_state \<Rightarrow> 'w vm_state \<Rightarrow> bool" where
  "same_command s t \<longleftrightarrow> q_opt (vs_qemu t) = q_opt (vs_qemu s) \<and> q_testpmd (vs_qemu t) = q_testpmd (vs_qemu s)"

interpretation command_frame: frame same_command
  by unfold_locales (simp_all add: same_command_def)

lemma askQ_command: "along same_command (askQ f)"
  by (simp add: along_def same_command_def askQ_def)

lemma sshQ_command: "along same_command (sshQ f)"
  by (simp add: along_def same_command_def sshQ_def split: prod.splits)

lemma editQ_command: "(\<And>q. q_opt (f q) = q_opt q \<and> q_testpmd (f q) = q_testpmd q) \<Longrightarrow> along same_command (editQ f)"
  by (simp add: along_def same_command_def editQ_def)

lemma write_template_command: "along same_command (write_template pk lf t kw path)"
  unfolding write_template_def read_local_def run_quiet_def by (intro command_frame.along_bindS sshQ_command)

lemma init_command: "along same_command (create_kernelvm_init pk lf kw)"
  unfolding create_kernelvm_init_def run_quiet_def
  by (intro command_frame.along_rules askQ_command sshQ_command write_template_command)

lemma vhost_pair_command: "along same_command (vhost_pair kw i)"
  unfolding vhost_pair_def add_vhost_user_if_def case_prod_unfold Let_def
  by (intro command_frame.along_rules askQ_command editQ_command) (simp_all add: steps_def with_param_def)

lemma configure_mac_sends:
  assumes "configure_kernelvm_vnf pk lf kw st = (Inr u, st')" and "oget (vs_qemu st) ''vnf'' = VStr ''testpmd_mac''"
    and "map_of kw ''vif1_mac'' = Some v1" and "map_of kw ''vif2_mac'' = Some v2"
  shows "sends_to (vs_qemu st') v1 v2"
proof -
  have vnf: "has_text (vs_qemu st) ''vnf'' ''vpp'' = Inr False" "has_text (vs_qemu st) ''vnf'' ''testpmd_io'' = Inr False"
    "has_text (vs_qemu st) ''vnf'' ''testpmd_mac'' = Inr True"
    unfolding has_text_def assms(2) by (simp_all add: startswith_def)
  from assms(1) vnf obtain st1 where mac: "create_kernelvm_config_testpmd_mac kw st = (Inr (), st1)"
    and init: "bindS (askQ (\<lambda>q. Inr (oget q ''vnf_bin''))) (\<lambda>bin. create_kernelvm_init pk lf [(''vnf_bin'', bin)]) st1 = (Inr u, st')"
    by (auto simp: configure_kernelvm_vnf_def Let_def bindS_eq_Inr thenS_eq_Inr askQ_def)
  from mac assms(3,4) obtain args where
    args: "testpmd_kwargs (vs_qemu st) ''mac'' kw [(''pmd_eth_peer_0'', AStr (''0,'' @ py_str v1)), (''pmd_eth_peer_1'', AStr (''1,'' @ py_str v2))] = Inr args"
    and st1: "vs_qemu st1 = set_testpmd args (vs_qemu st)"
    by (auto simp: create_kernelvm_config_testpmd_mac_def bindS_eq_Inr askQ_def editQ_def getitem_def split: option.splits)
  have "map_of args ''pmd_eth_peer_0'' = Some (AStr (''0,'' @ py_str v1))" "map_of args ''pmd_eth_peer_1'' = Some (AStr (''1,'' @ py_str v2))"
    using args by (auto simp: testpmd_kwargs_def map_add_def)
  then have words: "''--eth-peer='' @ strip (''0,'' @ py_str v1) \<in> set (parts (get_testpmd_cmdline args))"
    "''--eth-peer='' @ strip (''1,'' @ py_str v2) \<in> set (parts (get_testpmd_cmdline args))"
    using testpmd_peers [of "''pmd_eth_peer_0''" args "CHR ''0''" "'','' @ py_str v1"]
      testpmd_peers [of "''pmd_eth_peer_1''" args "CHR ''1''" "'','' @ py_str v2"] by (simp_all add: is_space_def)
  have "along same_command (bindS (askQ (\<lambda>q. Inr (oget q ''vnf_bin''))) (\<lambda>bin. create_kernelvm_init pk lf [(''vnf_bin'', bin)]))"
    by (intro command_frame.along_rules askQ_command init_command)
  from alongD [OF this init] have "oget (vs_qemu st') ''vnf_bin'' = VStr (q_testpmd (vs_qemu st') @ ''/'' @ option_str (get_testpmd_cmdline args))"
    by (simp add: same_command_def st1 set_testpmd_def oget_def update_conv')
  with words show ?thesis by (auto simp: sends_to_def option_str_def)
qed

lemma new_machine_vnf:
  assumes "new_machine pk node name i vnf m = (Inr u, m')" and "machine_of m' name = Some q"
  shows "oget q ''vnf'' = VStr vnf"
proof -
  from assms obtain n smp m1 q0 m2 m3 where q: "sshM (QemuUtils pk n (int i) smp 4096 (VStr vnf) QEMU_VM_KERNEL) m1 = (Inr q0, m2)"
    and set: "set_machine node name q0 m2 = (Inr (), m3)"
    and edit: "on_machine name (editQ (\<lambda>q. add_kernelvm_params (add_default_params q))) m3 = (Inr u, m')"
    unfolding new_machine_def by (auto simp: bindS_eq_Inr thenS_eq_Inr)
  from q have "oget q0 ''vnf'' = VStr vnf" by (auto simp: sshM_def split: prod.splits dest: QemuUtils_made)
  moreover have "machine_of m3 name = Some q0"
    using set by (auto simp: set_machine_def machine_of_def update_conv' split: option.splits prod.splits)
  moreover have "q_opt (add_kernelvm_params (add_default_params q)) = q_opt q" for q
    by (simp add: add_kernelvm_params_def add_default_params_def steps_def with_param_def plain_param_def)
  ultimately show ?thesis using on_machine_returns [OF edit] assms(2) by (auto simp: editQ_def oget_def)
qed

lemma c_default_sends:
  assumes "c_default pk lf kw node name i (Some (v1, v2)) m = (Inr u, m')" and "vk_vnf kw = ''testpmd_mac''"
    and "machine_of m' name = Some q"
  shows "sends_to q v1 v2"
proof -
  from assms(1) obtain m1 m2 u1 u2 where new: "new_machine pk node name i (vk_vnf kw) m = (Inr u1, m1)"
    and conf: "on_machine name (configure_kernelvm_vnf pk lf (default_kernelvm_kwargs kw i (v1, v2))) m1 = (Inr u2, m2)"
    and pair: "on_machine name (vhost_pair kw i) m2 = (Inr u, m')"
    unfolding c_default_def by (auto simp: thenS_eq_Inr)
  from on_machine_returns [OF conf] obtain q1 st where q1: "machine_of m1 name = Some q1"
    and run: "configure_kernelvm_vnf pk lf (default_kernelvm_kwargs kw i (v1, v2)) \<lparr>vs_qemu = q1, vs_ssh = mg_ssh m1\<rparr> = (Inr u2, st)"
    and st: "machine_of m2 name = Some (vs_qemu st)" by blast
  have "oget q1 ''vnf'' = VStr (vk_vnf kw)"
    by (rule new_machine_vnf [OF new q1])
  with configure_mac_sends [OF run, of v1 v2] assms(2) have "sends_to (vs_qemu st) v1 v2" by (simp add: default_kernelvm_kwargs_def)
  moreover from on_machine_returns [OF pair] st obtain st3 where
    "vhost_pair kw i \<lparr>vs_qemu = vs_qemu st, vs_ssh = mg_ssh m2\<rparr> = (Inr u, st3)" "machine_of m' name = Some (vs_qemu st3)" by auto
  ultimately show ?thesis using alongD [OF vhost_pair_command] assms(3) by (fastforce simp: same_command_def sends_to_def oget_def)
qed

text \<open>
  A machine of kind \<^verbatim>\<open>testpmd_mac\<close> sends to the two vhost interfaces of the node that belong to it: their numbers are \<open>2 i - 1\<close> and \<open>2 i\<close>
  for the machine \<open>i\<close>.
\<close>

definition sends_to_vhosts :: "'w manager \<Rightarrow> string \<Rightarrow> nat \<Rightarrow> qemu \<Rightarrow> bool" where
  "sends_to_vhosts m node i q \<longleftrightarrow>
     (\<exists>n v1 v2. getitem (mg_nodes m) node = Inr n \<and> get_interface_mac n (VStr (''vhost'' @ str_of_int (2 * int i - 1))) = Inr v1 \<and>
        get_interface_mac n (VStr (''vhost'' @ str_of_int (2 * int i))) = Inr v2 \<and> sends_to q v1 v2)"

lemma same_ports_sends: "same_ports s t \<Longrightarrow> sends_to_vhosts t node i q \<Longrightarrow> sends_to_vhosts s node i q"
proof -
  assume same: "same_ports s t" and "sends_to_vhosts t node i q"
  then obtain n v1 v2 where t: "getitem (mg_nodes t) node = Inr n" "get_interface_mac n (VStr (''vhost'' @ str_of_int (2 * int i - 1))) = Inr v1"
    "get_interface_mac n (VStr (''vhost'' @ str_of_int (2 * int i))) = Inr v2" "sends_to q v1 v2" unfolding sends_to_vhosts_def by blast
  from same_ports_mac [OF same t(1,2)] obtain n0 where
    s: "getitem (mg_nodes s) node = Inr n0" "get_interface_mac n0 (VStr (''vhost'' @ str_of_int (2 * int i - 1))) = Inr v1" by blast
  from same_ports_mac [OF same t(1,3)] s(1) have "get_interface_mac n0 (VStr (''vhost'' @ str_of_int (2 * int i))) = Inr v2" by simp
  with s t(4) show ?thesis unfolding sends_to_vhosts_def by blast
qed

lemma construct_vm_links:
  assumes "construct_vm pk lf variables kw node (c, k) m = (Inr u, m')" and "\<not> own_method (vk_vnf kw)" and "1 \<le> c"
  shows "\<exists>q. machine_of m' (vm_name node (vm_id kw c k)) = Some q \<and> linked (vm_id kw c k) q \<and>
    (vk_vnf kw = ''testpmd_mac'' \<longrightarrow> sends_to_vhosts m node (vm_id kw c k) q)"
proof -
  let ?i = "vm_id kw c k" and ?name = "vm_name node (vm_id kw c k)"
  let ?vif = "\<lambda>side. if vk_vnf kw = ''testpmd_mac'' then askM (\<lambda>m. bindE (getitem (mg_nodes m) node) (\<lambda>n. vif_mac kw n side c k))
      else liftS (vif_mac kw [] side c k)"
  from assms(1) obtain v1 v2 ma mb m1 where vif: "?vif 1 m = (Inr v1, ma)" "?vif 2 ma = (Inr v2, mb)"
    and run: "catchS (vm_method pk lf kw node ?name ?i)
      (\<lambda>e. if e = AttributeError then c_default pk lf kw node ?name ?i (Some (v1, v2)) else liftS (Inl e)) m1 = (Inr u, m')"
    unfolding construct_vm_def prod.case Let_def bindS_eq_Inr thenS_eq_Inr by blast
  from run have default: "c_default pk lf kw node ?name ?i (Some (v1, v2)) m1 = (Inr u, m')"
    by (simp add: vm_method_none [OF assms(2)] catchS_def liftS_def)
  from c_default_links [OF this] obtain q where q: "machine_of m' ?name = Some q" "linked ?i q" by blast
  have "sends_to_vhosts m node ?i q" if mac: "vk_vnf kw = ''testpmd_mac''"
  proof -
    from vif mac have "ma = m" and n: "bindE (getitem (mg_nodes m) node) (\<lambda>n. vif_mac kw n 1 c k) = Inr v1"
      "bindE (getitem (mg_nodes m) node) (\<lambda>n. vif_mac kw n 2 c k) = Inr v2"
      by (auto simp: askM_def)
    have id: "int ?i = (int c - 1) * int (vk_nf_nodes kw) + int k" using assms(3) by (simp add: vm_id_def of_nat_diff)
    have keys: "(int c - 1) * int (vk_nf_nodes kw) * 2 + int k * 2 - 2 + int 1 = 2 * int ?i - 1"
      "(int c - 1) * int (vk_nf_nodes kw) * 2 + int k * 2 - 2 + int 2 = 2 * int ?i"
      unfolding id by (simp_all add: algebra_simps)
    from n obtain nd where "getitem (mg_nodes m) node = Inr nd" "vif_mac kw nd 1 c k = Inr v1" "vif_mac kw nd 2 c k = Inr v2" by auto
    then show ?thesis using c_default_sends [OF default mac q(1)]
      unfolding sends_to_vhosts_def vif_mac_def Let_def if_P [OF mac] keys by blast
  qed
  with q show ?thesis by blast
qed

text \<open>The identifiers of the positions are different.\<close>

lemma vm_positions_iff: "(c, k) \<in> set (vm_positions kw) \<longleftrightarrow> 1 \<le> c \<and> c \<le> vk_nf_chains kw \<and> 1 \<le> k \<and> k \<le> vk_nf_nodes kw"
  by (auto simp: vm_positions_def)

lemma vm_id_inject:
  assumes "(c, k) \<in> set (vm_positions kw)" and "(c', k') \<in> set (vm_positions kw)" and "vm_id kw c k = vm_id kw c' k'"
  shows "c = c' \<and> k = k'"
proof -
  let ?n = "vk_nf_nodes kw"
  have pos: "(vm_id kw c k - 1) div ?n = c - 1 \<and> (vm_id kw c k - 1) mod ?n = k - 1" if "(c, k) \<in> set (vm_positions kw)" for c k
  proof -
    from that have k: "1 \<le> k" "k - 1 < ?n" by (auto simp: vm_positions_iff)
    then have id: "vm_id kw c k - 1 = (k - 1) + (c - 1) * ?n" by (simp add: vm_id_def)
    show ?thesis unfolding id using k(2) by simp
  qed
  from pos [OF assms(1)] pos [OF assms(2)] assms(3) have "c - 1 = c' - 1" "k - 1 = k' - 1" by simp_all
  with assms(1,2) show ?thesis by (auto simp: vm_positions_iff)
qed

lemma vm_name_inject: "vm_name node i = vm_name node j \<longleftrightarrow> i = j"
  by (simp add: vm_name_def str_of_nat_inject)

text \<open>So a machine is not touched by the construction of another one.\<close>

definition same_machine :: "string \<Rightarrow> 'w manager \<Rightarrow> 'w manager \<Rightarrow> bool" where
  "same_machine name s t \<longleftrightarrow> machine_of t name = machine_of s name"

interpretation machine_frame: frame "same_machine name" for name
  by unfold_locales (auto simp: same_machine_def)

lemma others_same_machine: "along (others_vms n') m \<Longrightarrow> n \<noteq> n' \<Longrightarrow> along (same_machine n) m"
  by (simp add: along_def others_vms_def same_machine_def)

lemma construct_all_link:
  assumes "forS (construct_vm pk lf variables kw node) ps m = (Inr u, m')" and "\<not> own_method (vk_vnf kw)"
    and "set ps \<subseteq> set (vm_positions kw)" and "distinct ps" and "(c, k) \<in> set ps"
  shows "\<exists>q. machine_of m' (vm_name node (vm_id kw c k)) = Some q \<and> linked (vm_id kw c k) q \<and>
    (vk_vnf kw = ''testpmd_mac'' \<longrightarrow> sends_to_vhosts m node (vm_id kw c k) q)"
  using assms
proof (induction ps arbitrary: m)
  case (Cons p ps)
  obtain a b where p: "p = (a, b)" by fastforce
  from Cons.prems(1) obtain m1 where one: "construct_vm pk lf variables kw node (a, b) m = (Inr (), m1)"
    and rest: "forS (construct_vm pk lf variables kw node) ps m1 = (Inr u, m')" by (auto simp: p thenS_eq_Inr)
  show ?case
  proof (cases "(c, k) \<in> set ps")
    case True
    with Cons.IH [OF rest] Cons.prems alongD [OF construct_vm_ports one] show ?thesis using same_ports_sends by auto blast
  next
    case False
    with Cons.prems(5) p have ck: "a = c" "b = k" by auto
    have "along (same_machine (vm_name node (vm_id kw c k))) (construct_vm pk lf variables kw node x)" if x: "x \<in> set ps" for x
    proof -
      obtain c' k' where ck': "x = (c', k')" by fastforce
      with x False have "(c', k') \<noteq> (c, k)" by auto
      moreover have "(c', k') \<in> set (vm_positions kw)" "(c, k) \<in> set (vm_positions kw)" using Cons.prems(3,5) x ck' by auto
      ultimately have "vm_name node (vm_id kw c k) \<noteq> vm_name node (vm_id kw c' k')"
        using vm_id_inject vm_name_inject by blast
      then show ?thesis unfolding ck' by (rule others_same_machine [OF construct_vm_others])
    qed
    then have "along (same_machine (vm_name node (vm_id kw c k))) (forS (construct_vm pk lf variables kw node) ps)"
      by (rule machine_frame.along_forS)
    from alongD [OF this rest] construct_vm_links [OF one Cons.prems(2)] Cons.prems(3) show ?thesis
      by (simp add: p ck same_machine_def vm_positions_iff)
  qed
qed simp

text \<open>For the other kinds the addresses handed to a machine are those of the facing interfaces of its neighbours.\<close>

lemma vif_mac_neighbours:
  assumes "vk_vnf kw \<noteq> ''testpmd_mac''" and "1 \<le> k" and "k < vk_nf_nodes kw"
  shows "vif_mac kw n 2 c k = Inr (VStr (vhost_mac (int (vm_id kw c (k + 1))) 1))"
    and "vif_mac kw n 1 c (k + 1) = Inr (VStr (vhost_mac (int (vm_id kw c k)) 2))"
  using assms by (simp_all add: vif_mac_def Let_def vm_id_def ac_simps)

text \<open>
  C33. \<open>QemuManager.construct_vms_on_node\<close>: when it returns for one of the kinds of machine without a method of its own,
  every position of every chain has its machine, whose two interfaces have the sockets and the hardware addresses of its
  identifier. A machine of kind \<^verbatim>\<open>testpmd_mac\<close> is started with a command line in which its first and its second port send to the
  hardware addresses that the description of the node has for its two ends of these sockets,
  the vhost interfaces \<open>2 i - 1\<close> and \<open>2 i\<close> for the identifier \<open>i\<close>.
\<close>

theorem vm_chain_linked:
  assumes "construct_vms_on_node pk lf variables node kw m = (Inr u, m')" and "\<not> own_method (vk_vnf kw)"
    and "1 \<le> c" and "c \<le> vk_nf_chains kw" and "1 \<le> k" and "k \<le> vk_nf_nodes kw"
  shows "\<exists>q. machine_of m' (vm_name node (vm_id kw c k)) = Some q \<and> linked (vm_id kw c k) q \<and>
    (vk_vnf kw = ''testpmd_mac'' \<longrightarrow> sends_to_vhosts m node (vm_id kw c k) q)"
proof -
  have "distinct (vm_positions kw)" by (simp add: vm_positions_def distinct_product)
  with construct_all_link [of pk lf variables kw node "vm_positions kw" m u m' c k] assms show ?thesis
    by (simp add: construct_vms_on_node_def vm_positions_iff)
qed

text \<open>A node with four processors, on which every command succeeds, and two machines in one chain.\<close>

definition vm_node :: node where
  "vm_node = lab_node @
     [(''interfaces'', VDict ((''port1'', VDict [(''numa_node'', VInt 0)]) #
        map (\<lambda>(k, mac). (k, VDict [(''mac_address'', VStr mac)]))
          [(''vhost1'', ''02:fe:00:00:00:01''), (''vhost2'', ''02:fe:00:00:00:02''), (''vhost3'', ''02:fe:00:00:00:03''),
           (''vhost4'', ''02:fe:00:00:00:04'')]))] @
     sample_server @ [(''arch'', VStr ''x86_64'')]"

definition vm_files :: "nat local_files" where
  "vm_files = \<lparr>lf_write = (\<lambda>p c w. (Inr (), w)), lf_read = (\<lambda>p w. (Inr ''exec $vnf_bin'', w)), lf_remove = (\<lambda>p w. (Inr (), w))\<rparr>"

definition vm_conn :: "nat \<Rightarrow> nat ssh_state" where
  "vm_conn w = \<lparr>existing_connections = [({VStr ''10.0.0.1'', VInt 22}, 7)], ssh_world = w\<rparr>"

definition vm_manager :: "(string, qemu) pydict \<times> (string, int list) pydict \<Rightarrow> nat \<Rightarrow> nat manager" where
  "vm_manager ms w = \<lparr>mg_vms = Some ms, mg_nodes = [(''DUT1'', vm_node)], mg_ssh = vm_conn w\<rparr>"

definition chain_of_two :: vm_kwargs where
  "chain_of_two = \<lparr>vk_nf_chains = 1, vk_nf_nodes = 2, vk_jumbo = False, vk_perf_qemu_qsz = 1024, vk_auto_scale = False,
     vk_vnf = ''testpmd_mac'', vk_tg_pf1_mac = ''3c:fd:fe:00:00:01'', vk_tg_pf2_mac = ''3c:fd:fe:00:00:02'', vk_vs_dtc = 0,
     vk_nf_dtc = IntDtc 1, vk_nf_dtcr = None, vk_rxq_count_int = 1, vk_enable_csum = False, vk_enable_gso = False, vk_ifs = None\<rparr>"

text \<open>Its vhost interfaces, and the identifiers of the two machines.\<close>

lemma vm_node_macs:
  "get_interface_mac vm_node (VStr (''vhost'' @ str_of_int 1)) = Inr (VStr ''02:fe:00:00:00:01'')"
  "get_interface_mac vm_node (VStr (''vhost'' @ str_of_int 2)) = Inr (VStr ''02:fe:00:00:00:02'')"
  "get_interface_mac vm_node (VStr (''vhost'' @ str_of_int 3)) = Inr (VStr ''02:fe:00:00:00:03'')"
  "get_interface_mac vm_node (VStr (''vhost'' @ str_of_int 4)) = Inr (VStr ''02:fe:00:00:00:04'')"
  by code_simp+

lemma chain_of_two_id: "vm_id chain_of_two 1 k = k"
  by (simp add: vm_id_def chain_of_two_def)

lemma vm_node_runs:
  assumes "cmd \<noteq> []"
  shows "ssh_exec_cmd_no_error vm_paramiko vm_node cmd timeout sudo message False retries reason (vm_conn w) =
    (Inr (''101'' @ [CHR 10] @ ''102'' @ [CHR 10], []), vm_conn (w + 1))"
proof -
  have "node_hash vm_node = Inr {VStr ''10.0.0.1'', VInt 22}"
    by (simp add: node_hash_def vm_node_def lab_node_def getitem_def map_add_def)
  then show ?thesis using assms
    by (intro exec_no_error_connected, subst exec_cmd_connected) (auto simp: vm_paramiko_def lab_paramiko_def sudo_text_def vm_conn_def)
qed

definition ready_vm :: "qemu \<Rightarrow> bool" where
  "ready_vm q \<longleftrightarrow> q_node q = vm_node \<and> oget q ''vnf'' = VStr ''testpmd_mac'' \<and> (\<exists>smp. oget q ''smp'' = VInt smp)"

lemma new_ready:
  "\<exists>q. QemuUtils vm_paramiko vm_node i smp 4096 (VStr ''testpmd_mac'') QEMU_VM_KERNEL (vm_conn w) = (Inr q, vm_conn (w + 2)) \<and> ready_vm q"
proof -
  have arch: "get_node_arch vm_node = (VStr ''x86_64'', vm_node)"
    by (simp add: get_node_arch_def vm_node_def lab_node_def sample_server_def map_add_def)
  have "\<exists>info. qemu_vm_info vm_node i = Inr info"
    by (simp add: qemu_vm_info_def getitem_def vm_node_def lab_node_def map_add_def)
  then obtain info where info: "qemu_vm_info vm_node i = Inr info" ..
  have opts: "\<exists>t opt. qemu_arch_options (VStr ''x86_64'') = (t, opt) \<and> map_of opt ''vnf'' = None \<and> map_of opt ''smp'' = None"
    by (simp add: qemu_arch_options_def)
  have img: "QEMU_VM_KERNEL \<noteq> QEMU_VM_IMAGE" by (simp add: QEMU_VM_KERNEL_def QEMU_VM_IMAGE_def)
  from opts obtain t opt where o: "qemu_arch_options (VStr ''x86_64'') = (t, opt)" "map_of opt ''vnf'' = None" "map_of opt ''smp'' = None"
    by blast
  show ?thesis unfolding QemuUtils_def arch Let_def prod.case o(1) using img
    by (simp add: bindS_def liftS_def info vm_node_runs returnS_def ready_vm_def oget_def update_conv' o(2,3) map_add_def)
qed

lemma ready_quiet: "q_node q = vm_node \<Longrightarrow> cmd \<noteq> [] \<Longrightarrow>
    run_quiet vm_paramiko cmd sudo \<lparr>vs_qemu = q, vs_ssh = vm_conn w\<rparr> = (Inr (), \<lparr>vs_qemu = q, vs_ssh = vm_conn (w + 1)\<rparr>)"
  by (simp add: run_quiet_def sshQ_def voidS_def bindS_def returnS_def vm_node_runs)

lemma ready_template: "q_node q = vm_node \<Longrightarrow>
    write_template vm_paramiko vm_files t kw path \<lparr>vs_qemu = q, vs_ssh = vm_conn w\<rparr> = (Inr (), \<lparr>vs_qemu = q, vs_ssh = vm_conn (w + 1)\<rparr>)"
  by (simp add: write_template_def read_local_def sshQ_def bindS_def on_world_def vm_files_def connected_def
      ready_quiet [unfolded connected_def])

lemma ready_init: "q_node q = vm_node \<Longrightarrow>
    create_kernelvm_init vm_paramiko vm_files kw \<lparr>vs_qemu = q, vs_ssh = vm_conn w\<rparr> = (Inr (), \<lparr>vs_qemu = q, vs_ssh = vm_conn (w + 3)\<rparr>)"
  unfolding create_kernelvm_init_def
  by (subst bindS_def) (simp add: askQ_def thenS_def bindS_def ready_quiet ready_template numeral_3_eq_3)


lemma ready_configure:
  assumes "ready_vm q" and "map_of kw ''queues'' = Some queues" and "map_of kw ''jumbo_frames'' = Some jumbo"
    and "map_of kw ''vif1_mac'' = Some v1" and "map_of kw ''vif2_mac'' = Some v2"
  shows "\<exists>q'. configure_kernelvm_vnf vm_paramiko vm_files kw \<lparr>vs_qemu = q, vs_ssh = vm_conn w\<rparr> = (Inr (), \<lparr>vs_qemu = q', vs_ssh = vm_conn (w + 3)\<rparr>)"
proof -
  from assms(1) obtain smp where q: "q_node q = vm_node" "oget q ''vnf'' = VStr ''testpmd_mac''" "oget q ''smp'' = VInt smp"
    by (auto simp: ready_vm_def)
  have vnf: "has_text q ''vnf'' ''vpp'' = Inr False" "has_text q ''vnf'' ''testpmd_io'' = Inr False" "has_text q ''vnf'' ''testpmd_mac'' = Inr True"
    unfolding has_text_def q(2) by (simp_all add: startswith_def)
  have "\<exists>args. testpmd_kwargs q ''mac'' kw peers = Inr args" for peers
    using assms(2,3) q(3) by (simp add: testpmd_kwargs_def getitem_def)
  then obtain args where args: "testpmd_kwargs q ''mac'' kw [(''pmd_eth_peer_0'', AStr (''0,'' @ py_str v1)),
      (''pmd_eth_peer_1'', AStr (''1,'' @ py_str v2))] = Inr args" by blast
  have node: "q_node (set_testpmd args q) = vm_node" using q(1) by (simp add: set_testpmd_def)
  have got: "getitem kw ''jumbo_frames'' = Inr jumbo" "getitem kw ''vif1_mac'' = Inr v1" "getitem kw ''vif2_mac'' = Inr v2"
    using assms(3-5) by (simp_all add: getitem_def)
  have mac: "create_kernelvm_config_testpmd_mac kw \<lparr>vs_qemu = q, vs_ssh = vm_conn w\<rparr> =
      (Inr (), \<lparr>vs_qemu = set_testpmd args q, vs_ssh = vm_conn w\<rparr>)"
    unfolding create_kernelvm_config_testpmd_mac_def bindS_def askQ_def got bindE_simps vm_state.simps args
    by (simp add: editQ_def)
  show ?thesis
    by (simp add: configure_kernelvm_vnf_def Let_def thenS_def bindS_def askQ_def vnf mac ready_init [OF node])
qed

lemma pair_runs:
  assumes "vm_has (int i) [] q"
  shows "\<exists>q'. vhost_pair kw i \<lparr>vs_qemu = q, vs_ssh = s\<rparr> = (Inr (), \<lparr>vs_qemu = q', vs_ssh = s\<rparr>)"
proof -
  have "\<exists>q'. forS attach pair \<lparr>vs_qemu = q, vs_ssh = s\<rparr> = (Inr (), \<lparr>vs_qemu = q', vs_ssh = s\<rparr>)" for pair
    using attach_all [of "int i" "[]" "\<lparr>vs_qemu = q, vs_ssh = s\<rparr>" pair] assms by auto
  then show ?thesis unfolding vhost_pair_attaches .
qed

lemma chain_default_runs:
  assumes "map_of af name = Some cpus"
  shows "\<exists>ms'. c_default vm_paramiko vm_files chain_of_two ''DUT1'' name i (Some v) (vm_manager (ms, af) w) = (Inr (), vm_manager (ms', af) (w + 5))"
proof -
  obtain q where q: "QemuUtils vm_paramiko vm_node (int i) (int (length cpus)) 4096 (VStr ''testpmd_mac'') QEMU_VM_KERNEL (vm_conn w) =
      (Inr q, vm_conn (w + 2))" "ready_vm q"
    using new_ready by blast
  let ?q = "add_kernelvm_params (add_default_params q)"
  have q_node: "q_node q = vm_node" using q(2) by (simp add: ready_vm_def)
  have vnf: "vk_vnf chain_of_two = ''testpmd_mac''" by (simp add: chain_of_two_def)
  have new: "new_machine vm_paramiko ''DUT1'' name i (vk_vnf chain_of_two) (vm_manager (ms, af) w) =
      (Inr (), vm_manager (AList.update name ?q (AList.update name q ms), af) (w + 2))"
    unfolding new_machine_def vnf using q(1) assms q_node
    by (simp add: bindS_def thenS_def askM_def vm_manager_def vms_def getitem_def sshM_def set_machine_def on_machine_def editQ_def update_conv')
  obtain m1 where m1: "m1 = vm_manager (AList.update name ?q (AList.update name q ms), af) (w + 2)" by blast
  have "vm_has (int i) [] ?q" "nic_id ?q = 0" using new_machine_has [OF new] by (auto simp: machine_of_def vm_manager_def update_conv')
  have ready: "ready_vm ?q" using q(2)
    by (simp add: ready_vm_def add_kernelvm_params_def add_default_params_def steps_def with_param_def plain_param_def oget_def)
  obtain kw where kw: "default_kernelvm_kwargs chain_of_two i v = kw" "map_of kw ''queues'' = Some (VInt 1)" "map_of kw ''jumbo_frames'' = Some (VBool False)"
    "map_of kw ''vif1_mac'' = Some (fst v)" "map_of kw ''vif2_mac'' = Some (snd v)"
    by (cases v) (simp add: default_kernelvm_kwargs_def queues_of_def chain_of_two_def)
  from ready_configure [OF ready kw(2-5), of "w + 2"] obtain q2 where
    q2: "configure_kernelvm_vnf vm_paramiko vm_files kw \<lparr>vs_qemu = ?q, vs_ssh = vm_conn (w + 2)\<rparr> = (Inr (), \<lparr>vs_qemu = q2, vs_ssh = vm_conn (w + 5)\<rparr>)"
    by (auto simp: add.commute [of 5])
  have "vm_has (int i) [] q2" using alongD [OF configure_same_vm q2] \<open>vm_has (int i) [] ?q\<close> by (simp add: same_vm_def vm_has_def)
  from pair_runs [OF this, of chain_of_two "vm_conn (w + 5)"] obtain q3 where
    q3: "vhost_pair chain_of_two i \<lparr>vs_qemu = q2, vs_ssh = vm_conn (w + 5)\<rparr> = (Inr (), \<lparr>vs_qemu = q3, vs_ssh = vm_conn (w + 5)\<rparr>)" by blast
  have conf: "on_machine name (configure_kernelvm_vnf vm_paramiko vm_files kw) (vm_manager (AList.update name ?q ms0, af) (w + 2)) =
      (Inr (), vm_manager (AList.update name q2 (AList.update name ?q ms0), af) (w + 5))" for ms0
    using q2 by (simp add: on_machine_def vm_manager_def getitem_def update_conv')
  have pair: "on_machine name (vhost_pair chain_of_two i) (vm_manager (AList.update name q2 ms0, af) (w + 5)) =
      (Inr (), vm_manager (AList.update name q3 (AList.update name q2 ms0), af) (w + 5))" for ms0
    using q3 by (simp add: on_machine_def vm_manager_def getitem_def update_conv')
  show ?thesis unfolding c_default_def option.case kw(1) thenS_def bindS_def new prod.case sum.case conf pair
    by (intro exI) (rule refl)
qed


definition vm_variables :: "string \<Rightarrow> pyval" where
  "vm_variables name = VStr ''port1''"

lemma chain_affinity:
  assumes "k \<in> {1, 2}"
  shows "\<exists>cpus. get_affinity_nf vm_variables [(''DUT1'', vm_node)] ''DUT1'' 1 2 1 k 0 (IntDtc 1) 2 2 = Inr cpus"
proof -
  let ?rows = "[[0, 0, 0, 0, 0, 0, 0, 0], [1, 1, 0, 0, 1, 1, 1, 0], [2, 2, 0, 0, 2, 2, 2, 0], [3, 3, 0, 0, 3, 3, 3, 0]] :: cpu_info"
  have info: "getitem vm_node ''cpuinfo'' = Inr (encode_cpu_info ?rows)"
    by (simp add: getitem_def vm_node_def lab_node_def sample_server_def map_add_def)
  have smt: "\<not> is_smt_enabled ?rows" by (simp add: is_smt_enabled_def last_four_def NR_OF_THREADS_def)
  have node_info: "node_cpu_info vm_node = node_cpu_info sample_server"
    by (simp add: node_cpu_info_def vm_node_def lab_node_def sample_server_def map_add_def)
  have cpus: "cpu_list_per_node vm_node (VInt 0) False = Inr [0, 1, 2, 3]"
    using sample_server_cpus unfolding cpu_list_per_node_def node_info .
  have numa: "get_interfaces_numa_node vm_node [VStr ''port1'', VStr ''port1''] = Inr (VInt 0)"
  proof -
    have "interface_get vm_node (VStr ''port1'') ''numa_node'' = Inr (VInt 0)"
      by (simp add: interface_get_def Topology.interfaces_def getitem_def vm_node_def lab_node_def)
    then show ?thesis by (simp add: get_interfaces_numa_node_def most_common_def)
  qed
  show ?thesis using assms decode_encode [of ?rows]
    by (auto simp: get_affinity_nf_def vm_variables_def numa cpu_slice_of_list_for_nf_def info smt cpus getitem_def [of "[_]"] ceil_div_def dtc_is_integer_def Let_def)
qed

lemma chain_vm_runs:
  assumes "k \<in> {1, 2}"
  shows "\<exists>ms'. construct_vm vm_paramiko vm_files vm_variables chain_of_two ''DUT1'' (1, k) (vm_manager ms w) = (Inr (), vm_manager ms' (w + 5))"
proof -
  obtain vs af where ms: "ms = (vs, af)" by fastforce
  let ?i = "vm_id chain_of_two 1 k"
  from chain_affinity [OF assms] obtain cpus where
    cpus: "get_affinity_nf vm_variables [(''DUT1'', vm_node)] ''DUT1'' 1 2 1 k 0 (IntDtc 1) 2 2 = Inr cpus" ..
  have mac: "vk_vnf chain_of_two = ''testpmd_mac''" by (simp add: chain_of_two_def)
  have vif: "\<exists>v. vif_mac chain_of_two vm_node side 1 k = Inr v" if "side \<in> {1, 2}" for side
    using assms that by (auto simp: vif_mac_def Let_def mac chain_of_two_id vm_node_macs [simplified])
  have node: "getitem (mg_nodes (vm_manager (vs, af) w)) ''DUT1'' = Inr vm_node" by (simp add: vm_manager_def getitem_def)
  have "\<exists>v. askM (\<lambda>m. bindE (getitem (mg_nodes m) ''DUT1'') (\<lambda>n. vif_mac chain_of_two n side 1 k)) (vm_manager (vs, af) w) =
      (Inr v, vm_manager (vs, af) w)" if "side \<in> {1, 2}" for side
    using vif [OF that] by (auto simp: askM_def node)
  then obtain v1 v2 where vifs: "askM (\<lambda>m. bindE (getitem (mg_nodes m) ''DUT1'') (\<lambda>n. vif_mac chain_of_two n 1 1 k)) (vm_manager (vs, af) w) =
      (Inr v1, vm_manager (vs, af) w)"
    "askM (\<lambda>m. bindE (getitem (mg_nodes m) ''DUT1'') (\<lambda>n. vif_mac chain_of_two n 2 1 k)) (vm_manager (vs, af) w) =
      (Inr v2, vm_manager (vs, af) w)" by blast
  have own: "\<not> own_method (vk_vnf chain_of_two)" by (simp add: own_method_def chain_of_two_def)
  obtain ms' where run: "c_default vm_paramiko vm_files chain_of_two ''DUT1'' (vm_name ''DUT1'' ?i) ?i (Some (v1, v2))
      (vm_manager (vs, AList.update (vm_name ''DUT1'' ?i) cpus af) w) =
     (Inr (), vm_manager (ms', AList.update (vm_name ''DUT1'' ?i) cpus af) (w + 5))"
    using chain_default_runs [of "AList.update (vm_name ''DUT1'' ?i) cpus af" "vm_name ''DUT1'' ?i" cpus ?i "(v1, v2)" vs w]
    by (auto simp: update_conv')
  have set: "set_affinity name c (vm_manager (vs, af) w) = (Inr (), vm_manager (vs, AList.update name c af) w)" for name c
    by (simp add: set_affinity_def vm_manager_def)
  have aff: "askM (\<lambda>m. get_affinity_nf vm_variables (mg_nodes m) ''DUT1'' (vk_nf_chains chain_of_two) (vk_nf_nodes chain_of_two) 1 k
             (vk_vs_dtc chain_of_two) (if vk_auto_scale chain_of_two then IntDtc (vk_vs_dtc chain_of_two) else vk_nf_dtc chain_of_two) 2
             (case vk_nf_dtcr chain_of_two of None \<Rightarrow> 2 | Some r \<Rightarrow> r)) (vm_manager (vs, af) w) = (Inr cpus, vm_manager (vs, af) w)"
    using cpus by (simp add: askM_def vm_manager_def chain_of_two_def)
  show ?thesis unfolding construct_vm_def prod.case Let_def ms vm_method_none [OF own] if_P [OF mac]
    by (simp only: bindS_def aff set vifs liftS_def sum.case prod.case thenS_def catchS_def simp_thms if_True run) blast
qed

theorem vm_chain_linked_witness:
  "\<exists>m' q. construct_vms_on_node vm_paramiko vm_files vm_variables ''DUT1'' chain_of_two (vm_manager ([], []) 1) = (Inr (), m') \<and>
     machine_of m' (vm_name ''DUT1'' 1) = Some q \<and> linked 1 q \<and>
     sends_to q (VStr ''02:fe:00:00:00:01'') (VStr ''02:fe:00:00:00:02'')"
proof -
  have pos: "vm_positions chain_of_two = [(1, 1), (1, 2)]" by (simp add: vm_positions_def chain_of_two_def upt_rec)
  obtain ms1 where ms1: "construct_vm vm_paramiko vm_files vm_variables chain_of_two ''DUT1'' (1, 1) (vm_manager ([], []) 1) = (Inr (), vm_manager ms1 (1 + 5))"
    using chain_vm_runs by blast
  obtain ms2 where ms2: "construct_vm vm_paramiko vm_files vm_variables chain_of_two ''DUT1'' (1, 2) (vm_manager ms1 (1 + 5)) = (Inr (), vm_manager ms2 (1 + 5 + 5))"
    using chain_vm_runs by blast
  have run: "construct_vms_on_node vm_paramiko vm_files vm_variables ''DUT1'' chain_of_two (vm_manager ([], []) 1) = (Inr (), vm_manager ms2 (1 + 5 + 5))"
    by (simp add: construct_vms_on_node_def pos thenS_def bindS_def ms1 [simplified] ms2 [simplified] returnS_def)
  have kw: "\<not> own_method (vk_vnf chain_of_two)" "vk_nf_chains chain_of_two = 1" "vk_nf_nodes chain_of_two = 2" "vk_vnf chain_of_two = ''testpmd_mac''"
    by (simp_all add: own_method_def chain_of_two_def)
  have node: "getitem (mg_nodes (vm_manager ms w)) ''DUT1'' = Inr vm_node" for ms w by (simp add: vm_manager_def getitem_def)
  have sends: "sends_to q (VStr ''02:fe:00:00:00:01'') (VStr ''02:fe:00:00:00:02'')"
    if "sends_to_vhosts (vm_manager ([], []) 1) ''DUT1'' 1 q" for q
    using that by (auto simp: sends_to_vhosts_def node vm_node_macs [simplified])
  from vm_chain_linked [OF run kw(1), of 1 1] kw chain_of_two_id [of 1] sends run show ?thesis by auto
qed

end
