(* ===== verification/TestConfig.thy ===== *)
theory TestConfig
  imports IPsecUtil
begin

text \<open>
  \<^verbatim>\<open>TestConfig.py\<close>: many VXLAN tunnels at once. The tunnels and VLAN sub-interfaces are created, found in the dump of
  the interfaces, put into the description of the node, and joined in pairs by bridge domains; many of them by a
  script, a few through the API. The keywords read and change the node, so they act on the
  state of \<open>Testbed\<close>.
\<close>

section \<open>Sessions that change the node\<close>

type_synonym ('w, 'a) node_session = "(papi_executor \<times> 'w testbed, 'a) act"

definition apiN :: "('w, 'a) session \<Rightarrow> ('w, 'a) node_session" where
  "apiN m = (\<lambda>(ex, s). case m (ex, tb_papi s) of (r, ex1, p) \<Rightarrow> (r, ex1, s\<lparr>tb_papi := p\<rparr>))"

definition nodeN :: "('w testbed, 'a) act \<Rightarrow> ('w, 'a) node_session" where
  "nodeN m = (\<lambda>(ex, s). case m s of (r, s1) \<Rightarrow> (r, ex, s1))"

definition in_node_session :: "'w vpp_env \<Rightarrow> ('w, 'a) node_session \<Rightarrow> ('w testbed, 'a) act" where
  "in_node_session env m s =
     (case papi_enter env (tb_node s) SOCKSVR_PATH (ps_vpp (tb_papi s)) of
        (Inl e, w) \<Rightarrow> (Inl e, s\<lparr>tb_papi := (tb_papi s)\<lparr>ps_vpp := w\<rparr>\<rparr>)
      | (Inr u, w) \<Rightarrow>
          (case m (PapiSocketExecutor (tb_node s) SOCKSVR_PATH, s\<lparr>tb_papi := (tb_papi s)\<lparr>ps_vpp := w\<rparr>\<rparr>) of
             (r, ex, s1) \<Rightarrow>
               (case papi_exit env (ps_vpp (tb_papi s1)) of
                  (Inl e, w1) \<Rightarrow> (Inl e, s1\<lparr>tb_papi := (tb_papi s1)\<lparr>ps_vpp := w1\<rparr>\<rparr>)
                | (Inr u, w1) \<Rightarrow> (r, s1\<lparr>tb_papi := (tb_papi s1)\<lparr>ps_vpp := w1\<rparr>\<rparr>))))"

section \<open>Creating the interfaces\<close>

text \<open>
  The addresses of the tunnels, until the last address of the version is passed; \<open>AddressValueError\<close> is what
  the addition raises then.
\<close>

fun tunnel_addresses :: "ipaddr \<Rightarrow> ipaddr \<Rightarrow> int \<Rightarrow> nat \<Rightarrow> nat \<Rightarrow> (nat \<times> ipaddr \<times> ipaddr) list" where
  "tunnel_addresses src dst step i 0 = []"
| "tunnel_addresses src dst step i (Suc n) =
     (case (ip_add src (int i * step), ip_add dst (int i * step)) of
        (Inr s, Inr d) \<Rightarrow> (i, s, d) # tunnel_addresses src dst step (Suc i) n
      | _ \<Rightarrow> [])"

definition created_count :: "int \<Rightarrow> (nat \<times> ipaddr \<times> ipaddr) list \<Rightarrow> int" where
  "created_count n ts = (if length ts < nat n then int (length ts) else n)"

definition bits :: "ipaddr \<Rightarrow> int" where
  "bits a = (if version a = 6 then 128 else 32)"

definition vxlan_lines :: "string \<Rightarrow> string \<Rightarrow> int \<Rightarrow> nat \<times> ipaddr \<times> ipaddr \<Rightarrow> string" where
  "vxlan_lines vxlan_if vlan_if vni_start = (\<lambda>(i, s, d).
     ''sw_interface_add_del_address sw_if_index '' @ vxlan_if @ '' '' @ ip_str s @ ''/'' @ str_of_int (bits s) @ [CHR 10] @
     ''vxlan_add_del_tunnel src '' @ ip_str s @ '' dst '' @ ip_str d @ '' vni '' @ str_of_int (vni_start + int i) @ [CHR 10] @
     ''create_vlan_subif sw_if_index '' @ vlan_if @ '' vlan '' @ str_of_int (int i + 1) @ [CHR 10])"

definition tunnel_address_args :: "pyval \<Rightarrow> ipaddr \<Rightarrow> ipaddr \<Rightarrow> pyobj res" where
  "tunnel_address_args vxlan_if src_start s =
     bindE (create_prefix_object s (VInt (bits src_start))) (\<lambda>prefix.
     Inr [(''sw_if_index'', vxlan_if), (''is_add'', VBool True), (''del_all'', VBool False), (''prefix'', prefix)])"

definition vxlan_args :: "int \<Rightarrow> nat \<times> ipaddr \<times> ipaddr \<Rightarrow> pyobj" where
  "vxlan_args vni_start = (\<lambda>(i, s, d).
     [(''is_add'', VBool True), (''instance'', VInt BITWISE_NON_ZERO),
      (''src_address'', create_ip_address_object s), (''dst_address'', create_ip_address_object d),
      (''mcast_sw_if_index'', VInt BITWISE_NON_ZERO), (''encap_vrf_id'', VInt 0),
      (''decap_next_index'', VInt BITWISE_NON_ZERO), (''vni'', VInt (vni_start + int i))])"

definition vlan_args :: "pyval \<Rightarrow> nat \<Rightarrow> pyobj" where
  "vlan_args vlan_if i = [(''sw_if_index'', vlan_if), (''vlan_id'', VInt (int i + 1))]"

text \<open>Only the first two and the last command go into the history.\<close>

definition kept :: "int \<Rightarrow> nat \<Rightarrow> bool" where
  "kept n i \<longleftrightarrow> \<not> (1 < int i \<and> int i < n - 1)"

definition vpp_create_vxlan_and_vlan_interfaces ::
    "'w vpp_env \<Rightarrow> 'w executor_host \<Rightarrow> node \<Rightarrow> string \<Rightarrow> string \<Rightarrow> int \<Rightarrow> int \<Rightarrow> string \<Rightarrow> string \<Rightarrow> int \<Rightarrow> ('w papi_state, int) act" where
  "vpp_create_vxlan_and_vlan_interfaces env host node node_vxlan_if node_vlan_if vxlan_count vni_start src_ip_start dst_ip_start ip_step =
     bindS (liftS (ip_address src_ip_start)) (\<lambda>src.
     bindS (liftS (ip_address dst_ip_start)) (\<lambda>dst.
     let tunnels = tunnel_addresses src dst ip_step 0 (nat vxlan_count)
     in if vxlan_count > 10
        then bindS (liftS (mapE (\<lambda>t.
               bindE (get_interface_sw_index node (VStr node_vxlan_if)) (\<lambda>a.
               bindE (get_interface_sw_index node (VStr node_vlan_if)) (\<lambda>b.
               Inr (vxlan_lines (py_str a) (py_str b) vni_start t)))) tunnels)) (\<lambda>ls.
             thenS (run_script host node ''/tmp/create_vxlan_interfaces.config'' (concat ls) 300 True)
               (returnS (created_count vxlan_count tunnels)))
        else bindS (liftS (get_interface_index node (VStr node_vxlan_if))) (\<lambda>a.
             bindS (liftS (get_interface_index node (VStr node_vlan_if))) (\<lambda>b.
             thenS (in_session env node (thenS
                 (forS (\<lambda>t.
                    bindS (liftS (tunnel_address_args a src (fst (snd t)))) (\<lambda>args.
                    thenS (addX ''sw_interface_add_del_address'' (kept vxlan_count (fst t)) args)
                    (thenS (addX ''vxlan_add_del_tunnel'' (kept vxlan_count (fst t)) (vxlan_args vni_start t))
                      (addX ''create_vlan_subif'' (kept vxlan_count (fst t)) (vlan_args b (fst t)))))) tunnels)
                 (voidS (repliesX env ''Failed to get replies.''))))
               (returnS (created_count vxlan_count tunnels))))))"

section \<open>Putting the interfaces up\<close>

definition vxlan_tunnel_key :: "nat \<Rightarrow> string" where
  "vxlan_tunnel_key j = ''vxlan_tunnel'' @ str_of_nat j"

definition vlan_subif_key :: "nat \<Rightarrow> string" where
  "vlan_subif_key j = ''vlan_subif'' @ str_of_nat j"

text \<open>The indices of the two interfaces in the dump; the search ends when both are found.\<close>

fun find_pair :: "string \<Rightarrow> string \<Rightarrow> pyval option \<Rightarrow> pyval option \<Rightarrow> pyval list \<Rightarrow> (pyval \<times> pyval) res" where
  "find_pair vxlan vlan a b [] = Inr (case a of None \<Rightarrow> VNone | Some x \<Rightarrow> x, case b of None \<Rightarrow> VNone | Some x \<Rightarrow> x)"
| "find_pair vxlan vlan a b (d # ds) =
     bindE (sub d ''interface_name'') (\<lambda>name.
     bindE (if a = None \<and> name = VStr vxlan then bindE (sub d ''sw_if_index'') (\<lambda>i. Inr (Some i, b))
            else if b = None \<and> name = VStr vlan then bindE (sub d ''sw_if_index'') (\<lambda>i. Inr (a, Some i))
            else Inr (a, b)) (\<lambda>(a1, b1).
     case (a1, b1) of
       (Some x, Some y) \<Rightarrow> Inr (x, y)
     | _ \<Rightarrow> find_pair vxlan vlan a1 b1 ds))"

text \<open>A port of the description gets its index and its name; there is none when the numbers are used up.\<close>

definition add_port :: "string \<Rightarrow> ('w testbed, string option) act" where
  "add_port ptype = editS (\<lambda>node. add_new_port node ptype)"

definition describe_port :: "string option \<Rightarrow> pyval \<Rightarrow> string \<Rightarrow> ('w testbed, unit) act" where
  "describe_port key sw_if_index name =
     (case key of
        None \<Rightarrow> liftS (bindE (py_int sw_if_index) (\<lambda>_. Inl (KeyError ''None'')))
      | Some k \<Rightarrow>
          thenS (changeS (\<lambda>node. update_interface_sw_if_index node k sw_if_index))
            (changeS (\<lambda>node. update_interface_name node k name)))"

definition new_pair :: "pyval list \<Rightarrow> string \<Rightarrow> nat \<Rightarrow> ('w testbed, pyval \<times> pyval) act" where
  "new_pair if_data node_vlan_if i =
     bindS (add_port ''vxlan_tunnel'') (\<lambda>key1.
     bindS (add_port ''vlan_subif'') (\<lambda>key2.
     bindS (askS (\<lambda>node. get_interface_name node (VStr node_vlan_if))) (\<lambda>name.
     let vxlan_name = vxlan_tunnel_key i; vlan_name = py_str name @ ''.'' @ str_of_nat (i + 1)
     in bindS (liftS (find_pair vxlan_name vlan_name None None if_data)) (\<lambda>(vxlan_idx, vlan_idx).
        thenS (describe_port key1 vxlan_idx vxlan_name)
        (thenS (describe_port key2 vlan_idx vlan_name)
          (returnS (vxlan_idx, vlan_idx)))))))"

definition up_line :: "pyval \<Rightarrow> string" where
  "up_line i = ''sw_interface_set_flags sw_if_index '' @ py_str i @ '' admin-up link-up'' @ [CHR 10]"

definition up_args :: "pyval \<Rightarrow> pyobj" where
  "up_args i = [(''sw_if_index'', i), (''flags'', VInt 1)]"

definition vpp_put_vxlan_and_vlan_interfaces_up ::
    "'w vpp_env \<Rightarrow> 'w executor_host \<Rightarrow> int \<Rightarrow> string \<Rightarrow> ('w testbed, unit) act" where
  "vpp_put_vxlan_and_vlan_interfaces_up env host vxlan_count node_vlan_if =
     bindS (papiS (\<lambda>node. vpp_get_interface_data env node VNone)) (\<lambda>data.
     bindS (liftS (case data of VList ds \<Rightarrow> Inr ds | _ \<Rightarrow> Inl type_error)) (\<lambda>if_data.
     if vxlan_count > 10
     then bindS (collectS (new_pair if_data node_vlan_if) [0..<nat vxlan_count]) (\<lambda>pairs.
          papiS (\<lambda>node. run_script host node ''/tmp/put_subinterfaces_up.config''
            (concat (map (\<lambda>(a, b). up_line a @ up_line b) pairs)) 300 True))
     else in_node_session env (thenS
            (forS (\<lambda>i.
               bindS (nodeN (new_pair if_data node_vlan_if i)) (\<lambda>(a, b).
               thenS (apiN (addX ''sw_interface_set_flags'' (kept vxlan_count i) (up_args a)))
               (thenS (apiN (addX ''sw_interface_set_flags'' (kept vxlan_count i) (up_args b)))
               (thenS (apiN (addX ''sw_interface_set_flags'' True (up_args a)))
                 (apiN (addX ''sw_interface_set_flags'' True (up_args b))))))) [0..<nat vxlan_count])
            (apiN (voidS (repliesX env ''Failed to get replies.''))))))"

section \<open>Bridge domains\<close>

text \<open>Replacing an element deep inside a message: the keys lead to it, a number is a position in a list.\<close>

fun set_at :: "pyval list \<Rightarrow> pyval \<Rightarrow> pyval \<Rightarrow> pyval res" where
  "set_at [] x v = Inr x"
| "set_at (VStr k # ks) x v = bindE (if ks = [] then Inr VNone else sub v k) (\<lambda>w. bindE (set_at ks x w) (\<lambda>w'. setitem v k w'))"
| "set_at (VInt i # ks) x (VList vs) =
     (if 0 \<le> i \<and> nat i < length vs then bindE (set_at ks x (vs ! nat i)) (\<lambda>w. Inr (VList (vs[nat i := w]))) else Inl IndexError)"
| "set_at (k # ks) x v = Inl type_error"

text \<open>The indices of the two interfaces of a pair, by the keys under which they were described.\<close>

definition bridge_pair :: "node \<Rightarrow> nat \<Rightarrow> (pyval \<times> pyval) res" where
  "bridge_pair node i =
     bindE (get_interface_sw_index node (VStr (vxlan_tunnel_key (i + 1)))) (\<lambda>vxlan.
     bindE (get_interface_sw_index node (VStr (vlan_subif_key (i + 1)))) (\<lambda>vlan.
     Inr (vxlan, vlan)))"

definition bridge_lines ::
    "node \<Rightarrow> string \<Rightarrow> node \<Rightarrow> string \<Rightarrow> pyval \<Rightarrow> int \<Rightarrow> nat \<Rightarrow> ipaddr \<Rightarrow> string res" where
  "bridge_lines node node_vxlan_if op_node op_node_if idx_vxlan_if bd_id_start i dst_ip =
     bindE (get_interface_name node (VStr node_vxlan_if)) (\<lambda>name.
     bindE (get_interface_mac op_node (VStr op_node_if)) (\<lambda>mac.
     bindE (bridge_pair node i) (\<lambda>(vxlan, vlan).
     let ip = ip_str dst_ip; bridge = (\<lambda>idx. ''sw_interface_set_l2_bridge sw_if_index '' @ py_str idx @ '' bd_id '' @
           str_of_int (bd_id_start + int i) @ '' shg 0 enable'' @ [CHR 10])
     in Inr (''exec ip neighbor '' @ py_str name @ '' '' @ ip @ '' '' @ py_str mac @ '' static '' @ [CHR 10] @
             ''ip_route_add_del '' @ ip @ ''/'' @ str_of_int (bits dst_ip) @ '' count 1 via '' @ ip @ '' sw_if_index '' @
             py_str idx_vxlan_if @ [CHR 10] @ bridge vxlan @ bridge vlan))))"

definition neighbor_args :: "pyval \<Rightarrow> pyval \<Rightarrow> ipaddr \<Rightarrow> pyobj" where
  "neighbor_args sw_if_index mac dst_ip =
     [(''is_add'', VInt 1), (''neighbor'', VDict [(''sw_if_index'', sw_if_index), (''flags'', VInt 0), (''mac_address'', mac),
        (''ip_address'', VStr (ip_str dst_ip))])]"

definition bridge_args :: "pyval \<Rightarrow> int \<Rightarrow> pyobj" where
  "bridge_args rx_sw_if_index bd_id =
     [(''rx_sw_if_index'', rx_sw_if_index), (''bd_id'', VInt bd_id), (''shg'', VInt 0), (''port_type'', VInt 0), (''enable'', VInt 1)]"

definition route_to :: "pyval \<Rightarrow> ipaddr \<Rightarrow> pyobj res" where
  "route_to route dst_ip =
     bindE (set_at [VStr ''prefix'', VStr ''address'', VStr ''un''] (union_addr dst_ip) route) (\<lambda>r.
     bindE (set_at [VStr ''paths'', VInt 0, VStr ''nh'', VStr ''address''] (union_addr dst_ip) r) (\<lambda>r'.
     Inr [(''is_add'', VInt 1), (''is_multipath'', VInt 0), (''route'', r')]))"

definition vpp_put_vxlan_and_vlan_interfaces_to_bridge_domain ::
    "'w vpp_env \<Rightarrow> 'w executor_host \<Rightarrow> node \<Rightarrow> string \<Rightarrow> int \<Rightarrow> node \<Rightarrow> string \<Rightarrow> string \<Rightarrow> int \<Rightarrow> int \<Rightarrow> ('w papi_state, unit) act" where
  "vpp_put_vxlan_and_vlan_interfaces_to_bridge_domain env host node node_vxlan_if vxlan_count op_node op_node_if dst_ip_start ip_step bd_id_start =
     bindS (liftS (ip_address dst_ip_start)) (\<lambda>dst.
     bindS (liftS (get_interface_sw_index node (VStr node_vxlan_if))) (\<lambda>idx.
     if vxlan_count > 1
     then bindS (liftS (mapE (\<lambda>i.
            bindE (ip_add dst (int i * ip_step)) (bridge_lines node node_vxlan_if op_node op_node_if idx bd_id_start i))
            [0..<nat vxlan_count])) (\<lambda>ls.
          run_script host node ''/tmp/configure_routes_and_bridge_domains.config'' (concat ls) 300 True)
     else bindS (liftS (get_interface_mac op_node (VStr op_node_if))) (\<lambda>mac.
          bindS (liftS (compose_vpp_route_structure node (ip_str dst) (VInt (bits dst))
              [(''interface'', VStr node_vxlan_if), (''gateway'', VStr (ip_str dst))])) (\<lambda>route.
          in_session env node (thenS
            (forS (\<lambda>i.
               bindS (liftS (ip_add dst (int i * ip_step))) (\<lambda>dst_ip.
               bindS (liftS (route_to route dst_ip)) (\<lambda>route_args.
               bindS (liftS (bridge_pair node i)) (\<lambda>(vxlan, vlan).
               thenS (addX ''ip_neighbor_add_del'' (kept vxlan_count i) (neighbor_args idx mac dst_ip))
               (thenS (addX ''ip_route_add_del'' (kept vxlan_count i) route_args)
               (thenS (addX ''sw_interface_set_l2_bridge'' (kept vxlan_count i) (bridge_args vxlan (bd_id_start + int i)))
                 (addX ''sw_interface_set_l2_bridge'' (kept vxlan_count i) (bridge_args vlan (bd_id_start + int i)))))))))
               [0..<nat vxlan_count])
            (voidS (repliesX env ''Failed to get replies.'')))))))"

definition vpp_create_multiple_vxlan_ipv4_tunnels ::
    "'w vpp_env \<Rightarrow> 'w executor_host \<Rightarrow> string \<Rightarrow> string \<Rightarrow> node \<Rightarrow> string \<Rightarrow> int \<Rightarrow> int \<Rightarrow> string \<Rightarrow> string \<Rightarrow> int \<Rightarrow> int \<Rightarrow>
     ('w testbed, unit) act" where
  "vpp_create_multiple_vxlan_ipv4_tunnels env host node_vxlan_if node_vlan_if op_node op_node_if n_tunnels vni_start src_ip_start
     dst_ip_start ip_step bd_id_start =
     bindS (papiS (\<lambda>node. vpp_create_vxlan_and_vlan_interfaces env host node node_vxlan_if node_vlan_if n_tunnels vni_start
        src_ip_start dst_ip_start ip_step)) (\<lambda>vxlan_count.
     thenS (vpp_put_vxlan_and_vlan_interfaces_up env host vxlan_count node_vlan_if)
       (papiS (\<lambda>node. vpp_put_vxlan_and_vlan_interfaces_to_bridge_domain env host node node_vxlan_if vxlan_count op_node op_node_if
          dst_ip_start ip_step bd_id_start)))"

section \<open>Every pair is found again\<close>

text \<open>The index of the first interface of the dump with a name.\<close>

definition dump_index :: "pyval list \<Rightarrow> string \<Rightarrow> int res" where
  "dump_index ds name =
     (case find (\<lambda>d. sub d ''interface_name'' = Inr (VStr name)) ds of
        None \<Rightarrow> Inl (KeyError name)
      | Some d \<Rightarrow> bindE (sub d ''sw_if_index'') py_int)"

definition found :: "pyval list \<Rightarrow> string \<Rightarrow> pyval option \<Rightarrow> pyval \<Rightarrow> bool" where
  "found ds name given x \<longleftrightarrow>
     (case given of
        Some y \<Rightarrow> x = y
      | None \<Rightarrow> x = VNone \<or> (\<exists>d. find (\<lambda>d. sub d ''interface_name'' = Inr (VStr name)) ds = Some d \<and> sub d ''sw_if_index'' = Inr x))"

lemma find_pair_found:
  assumes "find_pair vxlan vlan a b ds = Inr (x, y)" and "vxlan \<noteq> vlan"
  shows "found ds vxlan a x \<and> found ds vlan b y"
  using assms
proof (induction ds arbitrary: a b)
  case Nil
  then show ?case by (auto simp: found_def split: option.splits)
next
  case (Cons d ds)
  from Cons.prems(1) obtain name where name: "sub d ''interface_name'' = Inr name" by auto
  note ih = Cons.IH [OF _ Cons.prems(2)]
  show ?case
  proof (cases "a = None \<and> name = VStr vxlan")
    case True
    with Cons.prems(1) name obtain i where "sub d ''sw_if_index'' = Inr i"
      "(case b of Some y' \<Rightarrow> Inr (i, y') | None \<Rightarrow> find_pair vxlan vlan (Some i) None ds) = Inr (x, y)"
      by (cases b) auto
    with True name Cons.prems(2) ih [of "Some i" None] show ?thesis by (cases b) (auto simp: found_def)
  next
    case False
    note a = False
    show ?thesis
    proof (cases "b = None \<and> name = VStr vlan")
      case True
      with a Cons.prems(1) name obtain i where "sub d ''sw_if_index'' = Inr i"
        "(case a of Some x' \<Rightarrow> Inr (x', i) | None \<Rightarrow> find_pair vxlan vlan None (Some i) ds) = Inr (x, y)"
        by (cases a) (auto simp: a)
      with True name Cons.prems(2) ih [of None "Some i"] show ?thesis by (cases a) (auto simp: found_def)
    next
      case False
      with a Cons.prems(1) name have "(case (a, b) of (Some x', Some y') \<Rightarrow> Inr (x', y') | _ \<Rightarrow> find_pair vxlan vlan a b ds) = Inr (x, y)"
        by auto
      with a False name ih [of a b] show ?thesis by (cases a; cases b) (auto simp: found_def)
    qed
  qed
qed

lemma found_index: "found ds name None x \<Longrightarrow> py_int x = Inr i \<Longrightarrow> dump_index ds name = Inr i"
  by (auto simp: found_def dump_index_def)

text \<open>The invariant: the first \<open>i\<close> pairs are described, the other keys are free.\<close>

definition described :: "pyobj \<Rightarrow> string \<Rightarrow> int \<Rightarrow> bool" where
  "described ifs key x \<longleftrightarrow> (\<exists>d. map_of ifs key = Some (VDict d) \<and> map_of d ''vpp_sw_index'' = Some (VInt x))"

definition pairs_ready :: "pyval list \<Rightarrow> string \<Rightarrow> pyval \<Rightarrow> nat \<Rightarrow> node \<Rightarrow> bool" where
  "pairs_ready ds vlan_if name i node \<longleftrightarrow>
     (\<exists>ifs. map_of node ''interfaces'' = Some (VDict ifs) \<and>
        (\<forall>j > i. port_free ifs (vxlan_tunnel_key j) \<and> port_free ifs (vlan_subif_key j) \<and> vlan_if \<noteq> vxlan_tunnel_key j \<and> vlan_if \<noteq> vlan_subif_key j) \<and>
        (\<forall>j < i. \<exists>x y. described ifs (vxlan_tunnel_key (Suc j)) x \<and> dump_index ds (vxlan_tunnel_key j) = Inr x \<and>
           described ifs (vlan_subif_key (Suc j)) y \<and> dump_index ds (py_str name @ ''.'' @ str_of_nat (Suc j)) = Inr y) \<and>
        get_interface_name node (VStr vlan_if) = Inr name)"

lemma name_of_interfaces:
  "map_of node ''interfaces'' = Some (VDict ifs) \<Longrightarrow> map_of node' ''interfaces'' = Some (VDict ifs') \<Longrightarrow>
     map_of ifs' k = map_of ifs k \<Longrightarrow> get_interface_name node' (VStr k) = get_interface_name node (VStr k)"
  by (simp add: get_interface_name_def interface_get_def interfaces_def getitem_def)

lemma set_field_run:
  assumes "set_interface_field node k f v = Inr node'" and "map_of node ''interfaces'' = Some (VDict ifs)"
  shows "\<exists>d. map_of ifs k = Some (VDict d) \<and>
    map_of node' ''interfaces'' = Some (VDict (AList.update k (VDict (AList.update f v d)) ifs))"
proof -
  from assms obtain iface iface' where "map_of ifs k = Some iface" "setitem iface f v = Inr iface'"
    and node': "node' = set_interfaces node (VDict (AList.update k iface' ifs))"
    by (auto simp: set_interface_field_def interfaces_def)
  then show ?thesis by (cases iface) (auto simp: set_interfaces_def update_conv')
qed

lemma describe_port_run:
  assumes "describe_port key idx name s = (Inr u, s')" and "map_of (tb_node s) ''interfaces'' = Some (VDict ifs)"
  shows "\<exists>k x d ifs'. key = Some k \<and> py_int idx = Inr x \<and> map_of ifs k \<noteq> None \<and> map_of (tb_node s') ''interfaces'' = Some (VDict ifs') \<and>
    map_of ifs' = (map_of ifs)(k \<mapsto> VDict d) \<and> map_of d ''vpp_sw_index'' = Some (VInt x)"
proof -
  from assms(1) obtain k n1 where key: "key = Some k"
    and idx: "update_interface_sw_if_index (tb_node s) k idx = Inr n1" and nm: "update_interface_name n1 k name = Inr (tb_node s')"
    by (auto simp: describe_port_def liftS_def thenS_eq_Inr changeS_eq_Inr split: option.splits)
  from idx obtain x where x: "py_int idx = Inr x" "set_interface_field (tb_node s) k ''vpp_sw_index'' (VInt x) = Inr n1"
    by (auto simp: update_interface_sw_if_index_def)
  from set_field_run [OF x(2) assms(2)] obtain d where
    d: "map_of ifs k = Some (VDict d)" "map_of n1 ''interfaces'' = Some (VDict (AList.update k (VDict (AList.update ''vpp_sw_index'' (VInt x) d)) ifs))"
    by blast
  from set_field_run [OF nm [unfolded update_interface_name_def] d(2)] show ?thesis
    by (fastforce simp: key x(1) d(1) update_conv')
qed

lemma describe_port_some: "describe_port key idx name s = (Inr u, s') \<Longrightarrow> key \<noteq> None"
  by (cases key; cases "py_int idx") (auto simp: describe_port_def liftS_def)

lemma add_port_run:
  assumes "add_port ptype s = (Inr key, s')" and "map_of (tb_node s) ''interfaces'' = Some (VDict ifs)"
    and "\<forall>j > i. port_free ifs (ptype @ str_of_nat j)" and "\<forall>j. 0 < j \<longrightarrow> j \<le> i \<longrightarrow> \<not> port_free ifs (ptype @ str_of_nat j)"
    and "key \<noteq> None"
  shows "key = Some (ptype @ str_of_nat (Suc i)) \<and>
    (\<exists>ifs'. map_of (tb_node s') ''interfaces'' = Some (VDict ifs') \<and> map_of ifs' = (map_of ifs)(ptype @ str_of_nat (Suc i) \<mapsto> VDict []))"
proof -
  from assms(1) have run: "add_new_port (tb_node s) ptype = Inr (key, tb_node s')" by (auto simp: add_port_def editS_eq_Inr)
  then obtain k where k: "key = Some k" "first_free_port ifs ptype 1 = Some k"
    "tb_node s' = set_interfaces (tb_node s) (VDict (AList.update k (VDict []) ifs))"
    using assms(2,5) by (auto simp: add_new_port_def interfaces_def split: option.splits)
  from first_free_port_Some [OF k(2)] obtain n where n: "1 \<le> n" "k = ptype @ str_of_nat n" "port_free ifs k"
    "\<forall>m. 1 \<le> m \<longrightarrow> m < n \<longrightarrow> \<not> port_free ifs (ptype @ str_of_nat m)" by blast
  have "\<not> n \<le> i" using n(1,2,3) assms(4) by auto
  moreover have "\<not> Suc i < n" using n(4) assms(3) by auto
  ultimately have "n = Suc i" by simp
  with k n(2) show ?thesis by (simp add: set_interfaces_def update_conv')
qed

lemma described_used: "described ifs k x \<Longrightarrow> \<not> port_free ifs k"
  by (auto simp: described_def port_free_def)

lemma keys_differ [simp]: "vxlan_tunnel_key i \<noteq> vlan_subif_key j" "vlan_subif_key j \<noteq> vxlan_tunnel_key i"
  by (simp_all add: vxlan_tunnel_key_def vlan_subif_key_def)

lemma keys_inject [simp]: "vxlan_tunnel_key i = vxlan_tunnel_key j \<longleftrightarrow> i = j" "vlan_subif_key i = vlan_subif_key j \<longleftrightarrow> i = j"
  by (simp_all add: vxlan_tunnel_key_def vlan_subif_key_def str_of_nat_inject)

lemmas add_vxlan_run = add_port_run [of "''vxlan_tunnel''", folded vxlan_tunnel_key_def]
lemmas add_vlan_run = add_port_run [of "''vlan_subif''", folded vlan_subif_key_def]

lemma dot_free: "CHR ''.'' \<notin> set (str_of_nat n)"
  using str_of_nat_digits [of n] by (auto simp: is_digit_def)

lemma new_pair_step:
  assumes "new_pair ds vlan_if i s = (Inr p, s')" and "pairs_ready ds vlan_if name i (tb_node s)"
  shows "pairs_ready ds vlan_if name (Suc i) (tb_node s')"
proof -
  from assms(2) obtain ifs where ifs: "map_of (tb_node s) ''interfaces'' = Some (VDict ifs)"
    and free: "\<forall>j > i. port_free ifs (vxlan_tunnel_key j) \<and> port_free ifs (vlan_subif_key j) \<and> vlan_if \<noteq> vxlan_tunnel_key j \<and> vlan_if \<noteq> vlan_subif_key j"
    and old: "\<forall>j < i. \<exists>x y. described ifs (vxlan_tunnel_key (Suc j)) x \<and> dump_index ds (vxlan_tunnel_key j) = Inr x \<and>
           described ifs (vlan_subif_key (Suc j)) y \<and> dump_index ds (py_str name @ ''.'' @ str_of_nat (Suc j)) = Inr y"
    and nm: "get_interface_name (tb_node s) (VStr vlan_if) = Inr name"
    unfolding pairs_ready_def by blast
  from assms(1) obtain k1 s1 k2 s2 name' x y s3 where
    add1: "add_port ''vxlan_tunnel'' s = (Inr k1, s1)" and add2: "add_port ''vlan_subif'' s1 = (Inr k2, s2)"
    and nm2: "Inr name' = get_interface_name (tb_node s2) (VStr vlan_if)"
    and pair: "find_pair (vxlan_tunnel_key i) (py_str name' @ ''.'' @ str_of_nat (i + 1)) None None ds = Inr (x, y)"
    and d1: "describe_port k1 x (vxlan_tunnel_key i) s2 = (Inr (), s3)"
    and d2: "describe_port k2 y (py_str name' @ ''.'' @ str_of_nat (i + 1)) s3 = (Inr (), s')"
    unfolding new_pair_def Let_def case_prod_unfold by (auto simp: run_elims askS_eq)
  have used: "\<not> port_free ifs (vxlan_tunnel_key j)" "\<not> port_free ifs (vlan_subif_key j)" if "0 < j" "j \<le> i" for j
  proof -
    from that obtain m where "j = Suc m" "m < i" by (cases j) auto
    with old show "\<not> port_free ifs (vxlan_tunnel_key j)" "\<not> port_free ifs (vlan_subif_key j)" by (blast dest: described_used)+
  qed
  have some: "k1 \<noteq> None" "k2 \<noteq> None" using describe_port_some [OF d1] describe_port_some [OF d2] by simp_all
  from add_vxlan_run [OF add1 ifs _ _ some(1), of i] free used obtain ifs1 where
    k1: "k1 = Some (vxlan_tunnel_key (Suc i))" and ifs1: "map_of (tb_node s1) ''interfaces'' = Some (VDict ifs1)"
      "map_of ifs1 = (map_of ifs)(vxlan_tunnel_key (Suc i) \<mapsto> VDict [])" by auto
  have same: "port_free ifs1 (vlan_subif_key j) = port_free ifs (vlan_subif_key j)" for j
    by (simp only: port_free_def ifs1(2) fun_upd_apply keys_differ if_False)
  from add_vlan_run [OF add2 ifs1(1) _ _ some(2), of i] free used obtain ifs2 where
    k2: "k2 = Some (vlan_subif_key (Suc i))" and ifs2: "map_of (tb_node s2) ''interfaces'' = Some (VDict ifs2)"
      "map_of ifs2 = (map_of ifs1)(vlan_subif_key (Suc i) \<mapsto> VDict [])" unfolding same by auto
  have "vlan_if \<noteq> vxlan_tunnel_key (Suc i)" "vlan_if \<noteq> vlan_subif_key (Suc i)" using free by auto
  then have keep: "map_of ifs2 vlan_if = map_of ifs vlan_if" by (simp only: ifs1(2) ifs2(2) fun_upd_apply if_False)
  have name': "name' = name" using name_of_interfaces [OF ifs ifs2(1) keep] nm nm2 by simp
  from describe_port_run [OF d1 ifs2(1)] k1 obtain a e1 ifs3 where
    a: "py_int x = Inr a" and ifs3: "map_of (tb_node s3) ''interfaces'' = Some (VDict ifs3)"
      "map_of ifs3 = (map_of ifs2)(vxlan_tunnel_key (Suc i) \<mapsto> VDict e1)" "map_of e1 ''vpp_sw_index'' = Some (VInt a)" by auto
  from describe_port_run [OF d2 ifs3(1)] k2 obtain b e2 ifs4 where
    b: "py_int y = Inr b" and ifs4: "map_of (tb_node s') ''interfaces'' = Some (VDict ifs4)"
      "map_of ifs4 = (map_of ifs3)(vlan_subif_key (Suc i) \<mapsto> VDict e2)" "map_of e2 ''vpp_sw_index'' = Some (VInt b)" by auto
  have all: "map_of ifs4 k = (if k = vlan_subif_key (Suc i) then Some (VDict e2) else if k = vxlan_tunnel_key (Suc i) then Some (VDict e1) else map_of ifs k)" for k
    by (simp only: ifs1(2) ifs2(2) ifs3(2) ifs4(2) fun_upd_apply) simp
  have "CHR ''.'' \<notin> set (vxlan_tunnel_key i)" using dot_free [of i] by (simp add: vxlan_tunnel_key_def)
  then have "vxlan_tunnel_key i \<noteq> py_str name' @ ''.'' @ str_of_nat (i + 1)" by (metis in_set_conv_decomp append_Cons append_Nil)
  from find_pair_found [OF pair this] found_index a b
  have index: "dump_index ds (vxlan_tunnel_key i) = Inr a" "dump_index ds (py_str name @ ''.'' @ str_of_nat (Suc i)) = Inr b"
    unfolding name' by auto
  have new: "described ifs4 (vxlan_tunnel_key (Suc i)) a" "described ifs4 (vlan_subif_key (Suc i)) b"
    using ifs3(3) ifs4(3) by (simp_all only: described_def all keys_differ if_True if_False refl) auto
  have later: "port_free ifs4 (vxlan_tunnel_key j) \<and> port_free ifs4 (vlan_subif_key j)" if "Suc i < j" for j
    using free that by (simp only: port_free_def all keys_differ if_False) simp
  have earlier: "described ifs4 k z" if "described ifs k z" "k = vxlan_tunnel_key (Suc j) \<or> k = vlan_subif_key (Suc j)" "j < i" for k j z
    using that by (auto simp only: described_def all keys_differ if_False) simp_all
  have "map_of ifs4 vlan_if = map_of ifs vlan_if" using \<open>vlan_if \<noteq> vxlan_tunnel_key (Suc i)\<close> \<open>vlan_if \<noteq> vlan_subif_key (Suc i)\<close> by (simp only: all if_False)
  then have nm4: "get_interface_name (tb_node s') (VStr vlan_if) = Inr name" using name_of_interfaces [OF ifs ifs4(1)] nm by simp
  have "\<exists>x y. described ifs4 (vxlan_tunnel_key (Suc j)) x \<and> dump_index ds (vxlan_tunnel_key j) = Inr x \<and>
           described ifs4 (vlan_subif_key (Suc j)) y \<and> dump_index ds (py_str name @ ''.'' @ str_of_nat (Suc j)) = Inr y" if "j < Suc i" for j
    using that new index old earlier by (cases "j = i") (blast, metis less_SucE)
  with ifs4(1) later free nm4 show ?thesis unfolding pairs_ready_def by (metis Suc_lessD)
qed

text \<open>Both ways to put the interfaces up describe one pair after the other.\<close>

lemma collect_pairs:
  assumes "collectS (new_pair ds vlan_if) [a..<b] s = (Inr ps, s')" and "pairs_ready ds vlan_if name a (tb_node s)" and "a \<le> b"
  shows "pairs_ready ds vlan_if name b (tb_node s')"
  using assms
proof (induction "b - a" arbitrary: a s ps)
  case (Suc k)
  then have "a < b" by simp
  then have "[a..<b] = a # [Suc a..<b]" by (rule upt_conv_Cons)
  with Suc.prems(1) obtain p s1 ps1 where one: "new_pair ds vlan_if a s = (Inr p, s1)"
    and rest: "collectS (new_pair ds vlan_if) [Suc a..<b] s1 = (Inr ps1, s')" by (auto simp: bindS_eq_Inr)
  from new_pair_step [OF one Suc.prems(2)] show ?case
    using Suc.hyps(1) [OF _ rest] Suc.hyps(2) \<open>a < b\<close> by simp
qed simp

lemma papiS_keeps: "papiS f s = (r, s') \<Longrightarrow> tb_node s' = tb_node s"
  by (auto simp: papiS_def split: prod.splits)

lemma apiN_node: "apiN m (ex, s) = (r, ex', s') \<Longrightarrow> tb_node s' = tb_node s"
  by (auto simp: apiN_def split: prod.splits)

lemma session_pairs:
  assumes "forS (\<lambda>i. bindS (nodeN (new_pair ds vlan_if i)) (\<lambda>p. rest i p)) [a..<b] (ex, s) = (Inr u, ex', s')"
    and "\<And>i p x ex s x' ex' s'. rest i p (ex, s) = (x', ex', s') \<Longrightarrow> tb_node s' = tb_node s"
    and "pairs_ready ds vlan_if name a (tb_node s)" and "a \<le> b"
  shows "pairs_ready ds vlan_if name b (tb_node s')"
  using assms(1,3,4)
proof (induction "b - a" arbitrary: a s ex)
  case (Suc k)
  then have "a < b" by simp
  then have "[a..<b] = a # [Suc a..<b]" by (rule upt_conv_Cons)
  with Suc.prems(1) obtain p s1 v ex2 s2 where one: "new_pair ds vlan_if a s = (Inr p, s1)"
    and two: "rest a p (ex, s1) = (Inr v, ex2, s2)"
    and more: "forS (\<lambda>i. bindS (nodeN (new_pair ds vlan_if i)) (\<lambda>p. rest i p)) [Suc a..<b] (ex2, s2) = (Inr u, ex', s')"
    by (auto simp: run_elims nodeN_def split: prod.splits)
  from new_pair_step [OF one Suc.prems(2)] assms(2) [OF two] have "pairs_ready ds vlan_if name (Suc a) (tb_node s2)" by simp
  then show ?case using Suc.hyps(1) [OF _ more] Suc.hyps(2) \<open>a < b\<close> by simp
qed (simp add: returnS_def)

lemma thenS_keeps:
  assumes "thenS m n (ex, s) = (x', ex', s')"
    and "\<And>ex s x' ex' s'. m (ex, s) = (x', ex', s') \<Longrightarrow> tb_node s' = tb_node s"
    and "\<And>ex s x' ex' s'. n (ex, s) = (x', ex', s') \<Longrightarrow> tb_node s' = tb_node s"
  shows "tb_node s' = tb_node s"
proof -
  obtain r ex1 s1 where m: "m (ex, s) = (r, ex1, s1)" by (cases "m (ex, s)") auto
  show ?thesis
    using assms(1) m assms(2) [OF m] assms(3) by (cases r) (fastforce simp: thenS_def)+
qed

lemma in_node_session_returns:
  assumes "in_node_session env m s = (Inr x, s')"
  shows "\<exists>ex s0 ex1 s1. tb_node s0 = tb_node s \<and> m (ex, s0) = (Inr x, ex1, s1) \<and> tb_node s' = tb_node s1"
proof -
  obtain r w where enter: "papi_enter env (tb_node s) SOCKSVR_PATH (ps_vpp (tb_papi s)) = (r, w)" by fastforce
  let ?s0 = "s\<lparr>tb_papi := (tb_papi s)\<lparr>ps_vpp := w\<rparr>\<rparr>" and ?ex = "PapiSocketExecutor (tb_node s) SOCKSVR_PATH"
  obtain r1 ex1 s1 where body: "m (?ex, ?s0) = (r1, ex1, s1)" by (cases "m (?ex, ?s0)") auto
  obtain r2 w2 where leave: "papi_exit env (ps_vpp (tb_papi s1)) = (r2, w2)" by fastforce
  have "r1 = Inr x" "tb_node s' = tb_node s1"
    using assms enter body leave by (cases r; cases r2; auto simp: in_node_session_def)+
  with body show ?thesis by (intro exI [of _ ?ex] exI [of _ ?s0] exI [of _ ex1] exI [of _ s1]) simp
qed

lemma bridge_pair_ready:
  assumes "map_of node ''interfaces'' = Some (VDict ifs)" and "described ifs (vxlan_tunnel_key (Suc i)) x" and "described ifs (vlan_subif_key (Suc i)) y"
  shows "bridge_pair node i = Inr (VInt x, VInt y)"
  using assms by (auto simp: bridge_pair_def described_def get_interface_sw_index_def interface_get_def interfaces_def getitem_def)

text \<open>
  C32. \<open>TestConfig\<close>: when putting the interfaces up returns on a node without earlier tunnels, whether by the script or through the
  API, what is later joined by bridge domain \<open>i\<close> are the tunnel that VPP has named by \<open>i\<close> and the VLAN
  sub-interface with the number \<open>i + 1\<close>, with the indices of the dump.
\<close>

theorem vxlan_pairs_bridged:
  assumes "vpp_put_vxlan_and_vlan_interfaces_up env host n vlan_if s = (Inr (), s')"
    and "map_of (tb_node s) ''interfaces'' = Some (VDict ifs)" and "get_interface_name (tb_node s) (VStr vlan_if) = Inr name"
    and "\<And>j. port_free ifs (vxlan_tunnel_key j) \<and> port_free ifs (vlan_subif_key j)" and "\<not> port_free ifs vlan_if"
  shows "\<exists>ds p. vpp_get_interface_data env (tb_node s) VNone (tb_papi s) = (Inr (VList ds), p) \<and>
    (\<forall>i < nat n. \<exists>x y. dump_index ds (vxlan_tunnel_key i) = Inr x \<and> dump_index ds (py_str name @ ''.'' @ str_of_nat (i + 1)) = Inr y \<and>
       bridge_pair (tb_node s') i = Inr (VInt x, VInt y))"
proof -
  from assms(1) obtain v ds s1 where dump: "papiS (\<lambda>node. vpp_get_interface_data env node VNone) s = (Inr v, s1)"
    and v: "(case v of VList ds \<Rightarrow> Inr ds | _ \<Rightarrow> Inl type_error) = Inr ds"
    and rest: "(if n > 10
     then bindS (collectS (new_pair ds vlan_if) [0..<nat n]) (\<lambda>pairs.
          papiS (\<lambda>node. run_script host node ''/tmp/put_subinterfaces_up.config''
            (concat (map (\<lambda>(a, b). up_line a @ up_line b) pairs)) 300 True))
     else in_node_session env (thenS
            (forS (\<lambda>i.
               bindS (nodeN (new_pair ds vlan_if i)) (\<lambda>(a, b).
               thenS (apiN (addX ''sw_interface_set_flags'' (kept n i) (up_args a)))
               (thenS (apiN (addX ''sw_interface_set_flags'' (kept n i) (up_args b)))
               (thenS (apiN (addX ''sw_interface_set_flags'' True (up_args a)))
                 (apiN (addX ''sw_interface_set_flags'' True (up_args b))))))) [0..<nat n])
            (apiN (voidS (repliesX env ''Failed to get replies.''))))) s1 = (Inr (), s')"
    unfolding vpp_put_vxlan_and_vlan_interfaces_up_def by (auto simp only: bindS_eq_Inr liftS_def prod.inject)
  from v have v: "v = VList ds" by (cases v) auto
  from dump v obtain p where data: "vpp_get_interface_data env (tb_node s) VNone (tb_papi s) = (Inr (VList ds), p)"
    and s1: "tb_node s1 = tb_node s" by (auto simp: papiS_def split: prod.splits)
  have start: "pairs_ready ds vlan_if name 0 (tb_node s1)"
    using assms(2-5) s1 unfolding pairs_ready_def by auto
  have "pairs_ready ds vlan_if name (nat n) (tb_node s')"
  proof (cases "n > 10")
    case True
    with rest obtain ps s2 where "collectS (new_pair ds vlan_if) [0..<nat n] s1 = (Inr ps, s2)" "tb_node s' = tb_node s2"
      by (auto simp: bindS_eq_Inr dest: papiS_keeps)
    with collect_pairs [OF _ start] show ?thesis by simp
  next
    case False
    let ?flags = "\<lambda>i p. thenS (apiN (addX ''sw_interface_set_flags'' (kept n i) (up_args (fst p))))
               (thenS (apiN (addX ''sw_interface_set_flags'' (kept n i) (up_args (snd p))))
               (thenS (apiN (addX ''sw_interface_set_flags'' True (up_args (fst p))))
                 (apiN (addX ''sw_interface_set_flags'' True (up_args (snd p))))))"
    have "in_node_session env (thenS (forS (\<lambda>i. bindS (nodeN (new_pair ds vlan_if i)) (\<lambda>p. ?flags i p)) [0..<nat n])
        (apiN (voidS (repliesX env ''Failed to get replies.'')))) s1 = (Inr (), s')"
      using False rest by (simp add: case_prod_unfold)
    from in_node_session_returns [OF this] obtain ex s0 ex1 s3 where s0: "tb_node s0 = tb_node s1" and s3: "tb_node s' = tb_node s3"
      and body: "thenS (forS (\<lambda>i. bindS (nodeN (new_pair ds vlan_if i)) (\<lambda>p. ?flags i p)) [0..<nat n])
        (apiN (voidS (repliesX env ''Failed to get replies.''))) (ex, s0) = (Inr (), ex1, s3)" by blast
    from body obtain u ex2 s2 where loop: "forS (\<lambda>i. bindS (nodeN (new_pair ds vlan_if i)) (\<lambda>p. ?flags i p)) [0..<nat n] (ex, s0) = (Inr u, ex2, s2)"
      and api: "apiN (voidS (repliesX env ''Failed to get replies.'')) (ex2, s2) = (Inr (), ex1, s3)"
      by (auto simp: thenS_eq_Inr)
    have s2: "tb_node s' = tb_node s2" using s3 apiN_node [OF api] by simp
    have "tb_node t' = tb_node t" if "?flags i p (e, t) = (x', e', t')" for i p e t x' e' t'
      using that by (elim thenS_keeps apiN_node)
    from session_pairs [OF loop this start [folded s0]] show ?thesis unfolding s2 by simp
  qed
  then obtain ifs' where ready: "map_of (tb_node s') ''interfaces'' = Some (VDict ifs')"
    "\<forall>i < nat n. \<exists>x y. described ifs' (vxlan_tunnel_key (Suc i)) x \<and> dump_index ds (vxlan_tunnel_key i) = Inr x \<and>
           described ifs' (vlan_subif_key (Suc i)) y \<and> dump_index ds (py_str name @ ''.'' @ str_of_nat (Suc i)) = Inr y"
    unfolding pairs_ready_def by blast
  have "\<exists>x y. dump_index ds (vxlan_tunnel_key i) = Inr x \<and> dump_index ds (py_str name @ ''.'' @ str_of_nat (i + 1)) = Inr y \<and>
       bridge_pair (tb_node s') i = Inr (VInt x, VInt y)" if "i < nat n" for i
    using ready(2) [rule_format, OF that] bridge_pair_ready [OF ready(1)] by (metis Suc_eq_plus1)
  with data show ?thesis by blast
qed

text \<open>A VPP with one tunnel and one VLAN sub-interface.\<close>

definition dump_entry :: "string \<Rightarrow> int \<Rightarrow> pyobj" where
  "dump_entry name i =
     [(''interface_name'', VStr name), (''sw_if_index'', VInt i), (''l2_address'', VStr ''02:00:00:00:00:01''),
      (''b_dmac'', VStr ''00:00:00:00:00:00''), (''b_smac'', VStr ''00:00:00:00:00:00''), (''flags'', VInt 0), (''type'', VInt 0),
      (''link_duplex'', VInt 0), (''sub_if_flags'', VInt 0)]"

definition vxlan_env :: "unit vpp_env" where
  "vxlan_env = (lab_env (\<lambda>name. [(''retval'', VInt 0)]))\<lparr>send := (\<lambda>name args w.
     (Inr (if name = ''sw_interface_dump''
           then Several (map (\<lambda>d. \<lparr>msg_class = ''sw_interface_dump_reply'', msg_fields = Some d\<rparr>)
                  [dump_entry ''eth0'' 1, dump_entry ''vxlan_tunnel0'' 5, dump_entry ''eth0.1'' 6])
           else Single \<lparr>msg_class = name @ ''_reply'', msg_fields = Some [(''retval'', VInt 0)]\<rparr>), w))\<rparr>"

definition vxlan_state :: "string list \<Rightarrow> unit papi_state" where
  "vxlan_state h = \<lparr>ps_checker = lab_checker [''sw_interface_dump'', ''sw_interface_set_flags''], ps_history = [(VStr ''10.10.0.1'', h)], ps_vpp = ()\<rparr>"

definition vxlan_node :: node where
  "vxlan_node = [(''host'', VStr ''10.10.0.1''), (''interfaces'', VDict [(''port1'', VDict [(''name'', VStr ''eth0''), (''vpp_sw_index'', VInt 1)])])]"

lemma vxlan_add:
  assumes "cmd \<in> {''sw_interface_dump'', ''sw_interface_set_flags''}" and "map_of (pe_node ex) ''host'' = Some (VStr ''10.10.0.1'')"
  shows "papi_add ex cmd history kwargs (vxlan_state h) =
    (Inr (), ex\<lparr>api_command_list := api_command_list ex @ [\<lparr>api_name = cmd, api_args = kwargs\<rparr>]\<rparr>, vxlan_state (written history cmd kwargs h))"
  using assms lab_known(2) [of cmd "[''sw_interface_dump'', ''sw_interface_set_flags'']"]
  by (simp add: papi_add_def add_to_papi_history_def vxlan_state_def written_def getitem_def)

lemma vxlan_same [simp]: "vxlan_state h\<lparr>ps_vpp := w\<rparr> = vxlan_state h"
  by (simp add: vxlan_state_def)

lemma vxlan_session:
  "papi_enter vxlan_env node socket () = (Inr (), ())" "papi_exit vxlan_env () = (Inr (), ())"
  by (simp_all add: papi_enter_def papi_exit_def vxlan_env_def lab_env_def numeral_2_eq_2)

lemma vxlan_flags:
  "\<forall>c \<in> set cs. api_name c = ''sw_interface_set_flags'' \<Longrightarrow>
     execute_commands vxlan_env msg 0 cs rs (vxlan_state h) = (Inr (rs @ map (\<lambda>c. [(''retval'', VInt 0)]) cs), vxlan_state h)"
proof (induction cs arbitrary: rs)
  case (Cons c cs)
  have "call_api vxlan_env c () = (Inr (Single \<lparr>msg_class = ''sw_interface_set_flags_reply'', msg_fields = Some [(''retval'', VInt 0)]\<rparr>), ())"
    using Cons.prems by (simp add: call_api_def vxlan_env_def)
  moreover have "has_message vxlan_env (api_name c)" by (simp add: vxlan_env_def lab_env_def)
  ultimately show ?case
    using Cons lab_known(3) [of "''sw_interface_set_flags''" "[''sw_interface_dump'', ''sw_interface_set_flags'']"]
    by (simp add: vxlan_state_def is_int_def)
qed simp

lemma vxlan_data:
  "\<exists>h'. vpp_get_interface_data vxlan_env vxlan_node VNone (vxlan_state h) =
     (Inr (VList (map VDict [dump_entry ''eth0'' 1, dump_entry ''vxlan_tunnel0'' 5, dump_entry ''eth0.1'' 6])), vxlan_state h')"
proof -
  let ?ds = "[dump_entry ''eth0'' 1, dump_entry ''vxlan_tunnel0'' 5, dump_entry ''eth0.1'' 6]"
  have process: "process_if_dump (dump_entry n i) = Inr (dump_entry n i)" for n i
    by (simp add: process_if_dump_def dump_entry_def put_field_def enum_value_def py_int_val_def getitem_def)
  have host: "map_of vxlan_node ''host'' = Some (VStr ''10.10.0.1'')" by (simp add: vxlan_node_def)
  have items: "process_items 0 (map (\<lambda>d. \<lparr>msg_class = ''sw_interface_dump_reply'', msg_fields = Some d\<rparr>) ds) rs
      (lab_checker [''sw_interface_dump'', ''sw_interface_set_flags'']) = (Inr (rs @ ds), lab_checker [''sw_interface_dump'', ''sw_interface_set_flags''])"
    if "\<forall>d \<in> set ds. map_of d ''retval'' = None" for ds rs
    using that lab_known(3) [of "''sw_interface_dump''" "[''sw_interface_dump'', ''sw_interface_set_flags'']"]
    by (induction ds arbitrary: rs) auto
  have call: "call_api vxlan_env \<lparr>api_name = ''sw_interface_dump'', api_args = a\<rparr> () =
      (Inr (Several (map (\<lambda>d. \<lparr>msg_class = ''sw_interface_dump_reply'', msg_fields = Some d\<rparr>) ?ds)), ())" for a
    by (simp add: call_api_def vxlan_env_def)
  have "\<forall>d \<in> set ?ds. map_of d ''retval'' = None" by (simp add: dump_entry_def)
  note items = items [OF this]
  have has: "has_message vxlan_env n" for n by (simp add: vxlan_env_def lab_env_def)
  have run: "execute_commands vxlan_env msg 0 [\<lparr>api_name = ''sw_interface_dump'', api_args = a\<rparr>] [] (vxlan_state h) = (Inr ?ds, vxlan_state h)" for msg a h
    using call [of a] has items [of "[]"] by (simp add: vxlan_state_def)
  have "interface_dump vxlan_env vxlan_node (vxlan_state h) = (Inr ?ds, vxlan_state (written True ''sw_interface_dump''
      [(''name_filter_valid'', VBool False), (''name_filter'', VStr [])] h))"
    unfolding interface_dump_def with_host_def request_details_def requests_def with_papi_def run_requests_def
    by (simp add: host bindS_def liftS_def getitem_def vxlan_session vxlan_add PapiSocketExecutor_def get_details_def papi_execute_def run del: execute_commands.simps)
  then show ?thesis
    by (auto simp: vpp_get_interface_data_def all_interface_data_def bindS_def liftS_def process returnS_def)
qed

definition vxlan_dumped :: "pyval list" where
  "vxlan_dumped = map VDict [dump_entry ''eth0'' 1, dump_entry ''vxlan_tunnel0'' 5, dump_entry ''eth0.1'' 6]"

definition vxlan_with :: "pyobj \<Rightarrow> node" where
  "vxlan_with ifs = [(''host'', VStr ''10.10.0.1''), (''interfaces'', VDict ((''port1'', VDict [(''name'', VStr ''eth0''), (''vpp_sw_index'', VInt 1)]) # ifs))]"

lemma vxlan_node_with: "vxlan_node = vxlan_with []"
  by (simp add: vxlan_with_def vxlan_node_def)

lemma update_appended: "map_of xs k = None \<Longrightarrow> AList.update k v xs = xs @ [(k, v)]"
  by (induction xs) (auto split: if_splits)

lemma vxlan_digits: "str_of_nat 0 = ''0''" "str_of_nat 1 = ''1''" "str_of_nat (Suc 0) = ''1''"
  by code_simp+

lemma vxlan_new_port:
  "map_of ifs (ptype @ ''1'') = None \<Longrightarrow> ptype @ ''1'' \<noteq> ''port1'' \<Longrightarrow>
     add_port ptype \<lparr>tb_node = vxlan_with ifs, tb_papi = p\<rparr> =
     (Inr (Some (ptype @ ''1'')), \<lparr>tb_node = vxlan_with (ifs @ [(ptype @ ''1'', VDict [])]), tb_papi = p\<rparr>)"
  using first_free_port.simps [of _ ptype "Suc 0"]
  by (simp add: add_port_def editS_def add_new_port_def interfaces_def getitem_def vxlan_with_def port_free_def
      max_ports_def set_interfaces_def update_appended vxlan_digits)

lemma vxlan_describe:
  "map_of ifs k = Some (VDict []) \<Longrightarrow> k \<noteq> ''port1'' \<Longrightarrow>
     describe_port (Some k) (VInt i) name \<lparr>tb_node = vxlan_with ifs, tb_papi = p\<rparr> =
     (Inr (), \<lparr>tb_node = vxlan_with (AList.update k (VDict [(''vpp_sw_index'', VInt i), (''name'', VStr name)]) ifs), tb_papi = p\<rparr>)"
  by (simp add: describe_port_def thenS_def changeS_def editS_def update_interface_sw_if_index_def update_interface_name_def 
    set_interface_field_def interfaces_def getitem_def vxlan_with_def set_interfaces_def update_conv')

definition vxlan_described :: node where
  "vxlan_described = vxlan_with [(''vxlan_tunnel1'', VDict [(''vpp_sw_index'', VInt 5), (''name'', VStr ''vxlan_tunnel0'')]),
      (''vlan_subif1'', VDict [(''vpp_sw_index'', VInt 6), (''name'', VStr ''eth0.1'')])]"

lemma vxlan_found:
  "find_pair (vxlan_tunnel_key 0) (''eth0.'' @ str_of_nat 1) None None vxlan_dumped = Inr (VInt 5, VInt 6)"
  by (simp add: vxlan_tunnel_key_def vxlan_dumped_def dump_entry_def getitem_def vxlan_digits)

lemma vxlan_new_pair:
  "new_pair vxlan_dumped ''port1'' 0 \<lparr>tb_node = vxlan_node, tb_papi = p\<rparr> =
   (Inr (VInt 5, VInt 6), \<lparr>tb_node = vxlan_described, tb_papi = p\<rparr>)"
proof -
  have name: "get_interface_name (vxlan_with ifs) (VStr ''port1'') = Inr (VStr ''eth0'')" for ifs
    by (simp add: get_interface_name_def interface_get_def interfaces_def getitem_def vxlan_with_def)
  show ?thesis
    using vxlan_found
    by (simp add: vxlan_node_with new_pair_def vxlan_new_port askS_def bindS_def name Let_def vxlan_describe thenS_def returnS_def liftS_def
      vxlan_described_def vxlan_tunnel_key_def vxlan_digits)
qed

lemma vxlan_up_step:
  "map_of (pe_node ex) ''host'' = Some (VStr ''10.10.0.1'') \<Longrightarrow>
     apiN (addX ''sw_interface_set_flags'' history kwargs) (ex, \<lparr>tb_node = n, tb_papi = vxlan_state h\<rparr>) =
       (Inr (), ex\<lparr>api_command_list := api_command_list ex @ [\<lparr>api_name = ''sw_interface_set_flags'', api_args = kwargs\<rparr>]\<rparr>,
        \<lparr>tb_node = n, tb_papi = vxlan_state (written history ''sw_interface_set_flags'' kwargs h)\<rparr>)"
  by (simp add: apiN_def addX_def vxlan_add)

lemma vxlan_replies:
  "\<forall>c \<in> set (api_command_list ex). api_name c = ''sw_interface_set_flags'' \<Longrightarrow>
     apiN (voidS (repliesX vxlan_env msg)) (ex, \<lparr>tb_node = n, tb_papi = vxlan_state h\<rparr>) =
       (Inr (), ex\<lparr>api_command_list := []\<rparr>, \<lparr>tb_node = n, tb_papi = vxlan_state h\<rparr>)"
  by (simp add: apiN_def voidS_def repliesX_def get_replies_def papi_execute_def vxlan_flags bindS_def returnS_def)

lemma vxlan_up:
  "\<exists>h. vpp_put_vxlan_and_vlan_interfaces_up vxlan_env host 1 ''port1'' \<lparr>tb_node = vxlan_node, tb_papi = vxlan_state []\<rparr> =
     (Inr (), \<lparr>tb_node = vxlan_described, tb_papi = vxlan_state h\<rparr>)"
proof -
  from vxlan_data [of "[]", folded vxlan_dumped_def] obtain h where
    data: "vpp_get_interface_data vxlan_env vxlan_node VNone (vxlan_state []) = (Inr (VList vxlan_dumped), vxlan_state h)" by blast
  have host: "map_of vxlan_node ''host'' = Some (VStr ''10.10.0.1'')" by (simp add: vxlan_node_def)
  have world: "ps_vpp (vxlan_state k) = ()" for k by simp
  have upt: "[0..<nat 1] = [0]" by simp
  show ?thesis
    unfolding vpp_put_vxlan_and_vlan_interfaces_up_def in_node_session_def upt
    by (simp add: bindS_def papiS_def data liftS_def world vxlan_session thenS_def nodeN_def vxlan_new_pair vxlan_up_step vxlan_replies host
      PapiSocketExecutor_def returnS_def) blast
qed

theorem vxlan_pairs_bridged_witness:
  "\<exists>ds p x y. vpp_get_interface_data vxlan_env vxlan_node VNone (vxlan_state []) = (Inr (VList ds), p) \<and>
     dump_index ds ''vxlan_tunnel0'' = Inr x \<and> dump_index ds ''eth0.1'' = Inr y \<and> bridge_pair vxlan_described 0 = Inr (VInt x, VInt y)"
proof -
  obtain h where run: "vpp_put_vxlan_and_vlan_interfaces_up vxlan_env lab_host 1 ''port1'' \<lparr>tb_node = vxlan_node, tb_papi = vxlan_state []\<rparr> =
     (Inr (), \<lparr>tb_node = vxlan_described, tb_papi = vxlan_state h\<rparr>)" using vxlan_up by blast
  have ifs: "map_of vxlan_node ''interfaces'' = Some (VDict [(''port1'', VDict [(''name'', VStr ''eth0''), (''vpp_sw_index'', VInt 1)])])"
    by (simp add: vxlan_node_def)
  have name: "get_interface_name vxlan_node (VStr ''port1'') = Inr (VStr ''eth0'')"
    by (simp add: get_interface_name_def interface_get_def interfaces_def getitem_def vxlan_node_def)
  show ?thesis
    using vxlan_pairs_bridged [OF run, simplified, OF ifs name]
    by (simp add: port_free_def vxlan_tunnel_key_def vlan_subif_key_def vxlan_digits)
qed

end
