(* ===== verification/Spec2Isabelle.thy ===== *)
theory Spec2Isabelle
  imports TrafficGenerator NodePath Jumpavg VppApiCrc VppConfigGenerator StatTrackers Autogen
    Classify IPUtil Namespaces InterfaceUtil IPsecUtil QemuManager TestConfig
begin

text \<open>
  \<^bold>\<open>The program.\<close> CSIT tests and measures the packet processor VPP. Robot Framework suites call a
  Python library (\<^verbatim>\<open>src/resources/libraries/python\<close>) which reads a description of the testbed, chooses
  the interfaces and CPU cores of a test, writes the start-up configuration of VPP on the node under
  test, drives the traffic generator T-Rex, searches for the rates without loss (NDR) and with
  a tolerated loss (PDR), checks that the VPP API has not changed, and detects jumps in series
  of results. The rest of the library consists of the keywords of the suites: they run commands on the
  nodes over SSH and send messages to VPP through its binary API, to set up devices, interfaces,
  addresses, routes, access lists, tunnels and virtual machines. A generator derives the suites from
  templates.

  \<^bold>\<open>Theories and sources\<close> (all under \<^verbatim>\<open>src/resources/libraries/python\<close>):

  \<^item> \<open>Prelude\<close>: exceptions (\<open>py_error\<close>) and fallible results (\<open>res\<close>, \<open>bindE\<close>, \<open>mapE\<close>, \<open>foldE\<close>),
    the insertion-ordered \<open>dict\<close> with its contract (locale \<open>ordered_dict\<close>), slices and the methods
    of \<open>str\<close> the sources use. \<open>PyMath\<close>: divisions and logarithms that raise. \<open>PyVal\<close>: nested
    dictionaries as YAML gives them, subscription and item assignment, \<open>str\<close> and \<open>repr\<close> of values,
    and the contract of an operation that stores a value along a path (locale \<open>item_store\<close>).
  \<^item> \<open>ReceiveRate\<close>, \<open>MLRsearch\<close>: \<^verbatim>\<open>MLRsearch/*.py\<close>. A record for each object; the search phases are the
    recursive \<open>ndrpdr\<close> around the loop \<open>ndrpdr_loop\<close>, whose body chooses the next trial
    (\<open>next_tr\<close>) and moves the bounds (\<open>new_interval\<close>). The measurer is the interface
    \<open>rate_provider\<close>, a locale in which validity of both intervals and the return of the
    search are proved.
  \<^item> \<open>DropRateSearch\<close>: \<^verbatim>\<open>DropRateSearch.py\<close>. The configuration methods, the linear, binary and combined
    search over an abstract trial \<open>measure_loss\<close>.
  \<^item> \<open>OptionString\<close>, \<open>TrafficGenerator\<close>: \<^verbatim>\<open>OptionString.py\<close>, \<^verbatim>\<open>TrafficGenerator.py\<close>. Command lines, starting and
    stopping T-Rex in both modes, parsing what it prints, verdicts on the loss; it interprets
    \<open>rate_provider\<close> and gives the drop rate search its trial.
  \<^item> \<open>Jumpavg\<close>: \<^verbatim>\<open>jumpavg/*.py\<close>. Statistics, bit counts, groups with their caches, and the dynamic
    programming of \<open>classify\<close>.
  \<^item> \<open>StatTrackers\<close>: \<^verbatim>\<open>PLRsearch/log_plus.py\<close>, \<^verbatim>\<open>PLRsearch/stat_trackers.py\<close>. Arithmetic on logarithms, with
    \<open>None\<close> for the logarithm of zero, and incremental averages, variances and covariances.
  \<^item> \<open>Topology\<close>, \<open>NodePath\<close>: \<^verbatim>\<open>topology.py\<close>, \<^verbatim>\<open>NodePath.py\<close>. Queries and updates of the dictionary of nodes; the
    path through the nodes of a test.
  \<^item> \<open>CpuUtils\<close>: \<^verbatim>\<open>CpuUtils.py\<close>. The parsed CPU layout and the placement of network functions.
  \<^item> \<open>VppConfigGenerator\<close>: \<^verbatim>\<open>VppConfigGenerator.py\<close>. The configuration tree and its text.
  \<^item> \<open>VppApiCrc\<close>: \<^verbatim>\<open>VppApiCrc.py\<close>. Collections of message checksums, what a message read from the installed
    files leaves of them, and the single report of a failure.
  \<^item> \<open>Autogen\<close>: \<^verbatim>\<open>autogen/*.py\<close> and the tables of \<^verbatim>\<open>Constants.py\<close> it reads. Replacements that check the number
    of occurrences, and the files written for all NICs and drivers.
  \<^item> \<open>PyBytes\<close>, \<open>IpAddress\<close>: Python's \<open>bytes\<close> as lists of 8-bit words, its module \<open>ipaddress\<close> on 32-bit and
    128-bit words, and \<^verbatim>\<open>IPAddress.py\<close>.
  \<^item> \<open>Papi\<close>: \<^verbatim>\<open>PapiHistory.py\<close> and the socket executor of \<^verbatim>\<open>PapiExecutor.py\<close>. An executor collects commands, each
    recorded in the history and checked by \<open>VppApiCrc\<close>, and runs them in a session (\<open>with_papi\<close>).
  \<^item> \<open>L2Util\<close>, \<open>Classify\<close>, \<open>IPUtil\<close>: \<^verbatim>\<open>L2Util.py\<close>, \<^verbatim>\<open>Classify.py\<close>, \<^verbatim>\<open>IPUtil.py\<close>. Bridges and conversions of MAC addresses;
    masks, matches and rules of access lists; addresses, neighbours and routes.
  \<^item> \<open>Effects\<close>: keywords as state-passing actions (\<open>act\<close>), relations that a whole keyword preserves
    (locale \<open>frame\<close>) and loops with a limited number of tries (locale \<open>polling\<close>).
  \<^item> \<open>Ssh\<close>: \<^verbatim>\<open>ssh.py\<close>. The dictionary of open connections, running a command with its waiting loop, retries,
    copying files and the interactive terminal.
  \<^item> \<open>Namespaces\<close>, \<open>DUTSetup\<close>: \<^verbatim>\<open>Namespaces.py\<close>, \<^verbatim>\<open>DUTSetup.py\<close>. Network namespaces with the list of those to clean up;
    services, drivers, virtual functions and huge pages of a node.
  \<^item> \<open>Testbed\<close>: the state of the keywords that use both ways to a node and change its description;
    it joins \<open>Papi\<close> and \<open>Ssh\<close> and has the rules for what such keywords leave alone.
  \<^item> \<open>VPPUtil\<close>, \<open>InterfaceUtil\<close>: \<^verbatim>\<open>VPPUtil.py\<close>, \<^verbatim>\<open>InterfaceUtil.py\<close>. The service of VPP and its sockets; states, names,
    addresses and creation of interfaces, and the placement of their queues on the worker threads.
  \<^item> \<open>Vat\<close>, \<open>IPsecUtil\<close>: the scripts of \<^verbatim>\<open>VatExecutor.py\<close>, and \<^verbatim>\<open>IPsecUtil.py\<close>, whose associations, policies and tunnels are
    made through the API when there are few and by a script otherwise. \<open>Lab\<close> is the concrete VPP of the
    examples.
  \<^item> \<open>DpdkUtil\<close>, \<open>QemuUtils\<close>, \<open>QemuManager\<close>: \<^verbatim>\<open>DpdkUtil.py\<close>, \<^verbatim>\<open>QemuUtils.py\<close>, \<^verbatim>\<open>QemuManager.py\<close>. The command lines of DPDK applications; a
    virtual machine with its options, files and interfaces, started, awaited, pinned and killed over
    SSH; the chains of machines of a node.
  \<^item> \<open>TestConfig\<close>: \<^verbatim>\<open>TestConfig.py\<close>. Many VXLAN tunnels and VLAN sub-interfaces, found in the dump of the interfaces,
    put into the description of the node and joined in pairs by bridge domains.

  \<^bold>\<open>Conventions.\<close> Floats are reals, Python integers unbounded. A string holds code points below 256.
  Every raise is the left side of a sum; the texts of exceptions are shortened. Where a caller can
  observe the object after an exception, the operation returns the state beside the result
  (\<open>DropRateSearch\<close>, \<open>TrafficGenerator\<close>, \<open>NodePath\<close>, \<open>VppApiCrc\<close>, \<open>VppConfigGenerator\<close>, \<open>Autogen\<close>); \<open>Topology\<close>,
  \<open>Jumpavg\<close> and \<open>StatTrackers\<close> return the state only on success. The outside world
  (commands run over ssh, T-Rex, the clock, files, Robot variables, the printing of floats, numpy) is
  an argument of the definitions, threaded as a state of type \<open>'w\<close> where it changes; what is assumed
  of it are hypotheses of the theorem, with a concrete world in the witness. Logging is left out.
  Keywords over SSH and the API are actions of \<open>Effects\<close>: their state is an explicit record (the open
  connections, the history of commands, the description of the node), and both exceptions and the
  state reached are part of the result. The library paramiko (\<open>paramiko\<close>), VPP (\<open>vpp_env\<close>), the files of the
  executor (\<open>local_files\<close>) and the parser of JSON are parameters.
  Loops that may not end are \<open>partial_function (option)\<close>, where \<open>None\<close> means that they do not
  return, and theorems that they return say so; all other functions are total and no definition
  uses fuel; the number of tries of a waiting loop is that of the source.

  \<^bold>\<open>What is shown.\<close>

  \<^item> Rates: the optimized search on T-Rex returns, and a result has both intervals valid, within the
    range and as narrow as configured (below, on top of \<open>MLRsearch\<close> through \<open>rate_provider\<close>); a
    bisection halves the interval; the searches of \<open>DropRateSearch\<close> report only rates that were
    accepted, and a binary search ends within its threshold of the limit of the device.
  \<^item> Measurements: what T-Rex prints is parsed back, and a measurement reports the counts in the last line that
    its own run printed.
  \<^item> Statistics: incremental formulas equal the textbook definitions (\<open>for_runs\<close>, the trackers);
    \<open>classify\<close> keeps the samples and no extension of a partition has fewer bits.
  \<^item> Testbed: adjacent interfaces, connecting links, ports and paths are those of the dictionary; CPU
    placements are disjoint; stored values are read back and nothing else changes.
  \<^item> Configuration, suites and API: the dumped start-up configuration can be read back, generated suites carry
    the tag of their name exactly once, and the API checker never loses its last collection and reports a
    message exactly when no remaining collection has its CRC, once.
  \<^item> The API: every request is recorded before it is sent, and a reply with an error is raised; masks and matches
    select exactly the packets of an address; routes get consecutive destinations; the script and the
    messages for security associations say the same, a script of policies protects each range with the
    next association, and the two ends of a tunnel mirror each other.
  \<^item> Nodes: a command is retried until its first success, connections are shared and others kept, waiting
    ends; queues are spread evenly over the workers; a created interface is in the description of its
    node, under the index VPP replied and the name VPP lists; the check of huge pages
    passes exactly when the available pages hold the memory, a whole number of pages, asked for; a clean-up forgets all; a
    bridge domain joins the tunnel and the VLAN sub-interface that belong together.
  \<^item> Machines: the interfaces of a machine are numbered without gaps, with different addresses; the
    machines of a chain have the sockets of their numbers and, forwarding by MAC address, send to the two
    ends of them; pinning puts every thread on its processor or kills the
    machine; waiting ends with the first sight of a started machine.
  \<^item> Behaviour that differs from the documentation is proved as such where a theorem says it
    (e.g. \<open>config_dumped_twice\<close>).

  \<^bold>\<open>Interfaces.\<close> \<open>ordered_dict\<close> is interpreted by association lists (\<open>pd\<close>), \<open>item_store\<close> by
  \<open>Topology.add_node_item\<close> and by \<open>VppConfigGenerator.add_config_item\<close>, \<open>rate_provider\<close> by the
  measurements of the traffic generator (\<open>trex\<close>). \<open>frame\<close> (a preorder on states that every step keeps, so that
  whole keywords do) is interpreted by the connections of other nodes (\<open>ssh_frame\<close>), the description of
  the node (\<open>tb_frame\<close>), the commands VPP has received (\<open>log_frame\<close>, \<open>session_frame\<close>) and the machines that a
  keyword does not touch (\<open>vm_frame\<close>, \<open>manager_frame\<close>, \<open>machine_frame\<close>), their ports and their command
  lines (\<open>ports_frame\<close>, \<open>command_frame\<close>); \<open>polling\<close> (the first attempt with a
  result ends the loop) by the retries of a command (\<open>retried\<close>), the wait for interfaces (\<open>ready\<close>) and
  the wait for a machine (\<open>booted\<close>).

  \<^bold>\<open>Not modelled.\<close> Installing and starting T-Rex (\<open>initialize_traffic_generator\<close>, \<open>startup_trex\<close>),
  \<open>apply_config\<close>, the reading of the API files (\<open>initialize_vpp_instance\<close>) and loading YAML files are input and
  output. \<^verbatim>\<open>PLRsearch.py\<close> and \<^verbatim>\<open>Integrator.py\<close> sample random numbers with numpy in child processes. Of the
  modelled files also \<open>setup_network_namespace\<close>, the display of bond data, \<open>vxlan_gpe_dump\<close>, \<open>VatTerminal\<close> and the
  executor of the statistics segment are left out. The libraries without a theory (containers, NAT, memif,
  tap, vhost-user, policers, SRv6, LISP) mostly wrap single messages; the traffic scripts under \<^verbatim>\<open>src/GPL\<close> run
  inside scapy and T-Rex, and the presentation layer under \<^verbatim>\<open>src/resources/tools\<close> consists of pandas and
  plotly calls.
\<close>

section \<open>The optimized search on the traffic generator\<close>

text \<open>
  C1. \<open>OptimizedSearch.perform_optimized_ndrpdr_search\<close>: with a positive range of rates, a
  valid configuration and a T-Rex whose trials take their time, the search returns. A result holds
  two intervals inside the range of aggregate rates, measured long enough and narrow enough for the
  loss ratios 0 and \<open>plr\<close> (or pinned to the limits of the range); an exception is the timeout of
  the search or was raised by a trial.
\<close>

theorem optimized_search_correct:
  assumes "trials_take_time (tg_measurer env) (tg_clock env) T" and "config_ok cfg"
    and "0 < mn" and "mn \<le> mx" and "0 < directions"
  shows "\<exists>r tg' w'.
    perform_optimized_ndrpdr_search env tg fsize profile mn mx plr cfg directions latency w =
      Some (r, tg', w') \<and>
    (case r of
       Inr res \<Rightarrow>
         interval_in (mn * of_int directions) (mx * of_int directions) (ndr_interval res) \<and>
         interval_in (mn * of_int directions) (mx * of_int directions) (pdr_interval res) \<and>
         search_goal (final_trial_duration cfg) (final_relative_width cfg)
           (mn * of_int directions) (mx * of_int directions) 0 (ndr_interval res) \<and>
         search_goal (final_trial_duration cfg) (final_relative_width cfg)
           (mn * of_int directions) (mx * of_int directions) plr (pdr_interval res)
     | Inl e \<Rightarrow> e = timeout_error \<or> (\<exists>tg1 d t w1 s. tg_measure env tg1 d t w1 = (Inl e, s)))"
proof -
  let ?mn = "mn * of_int directions" and ?mx = "mx * of_int directions"
  let ?tg = "set_rate_provider_defaults tg fsize profile 0 directions True latency"
  have range: "0 < ?mn" "?mn \<le> ?mx" using assms(3-5) by (simp_all add: mult_right_mono)
  obtain r tg' w' where ret:
    "narrow_down_ndr_and_pdr (tg_measurer env) (tg_clock env) cfg ?mn ?mx plr (?tg, w) =
       Some (r, tg', w')"
    using narrow_down_ndr_and_pdr_returns [OF assms(1), of cfg ?mn ?mx plr "(?tg, w)"] assms(2)
    by (auto simp: config_ok_def)
  note post = trex.narrow_down_result [OF ret assms(2) range]
  then have "\<exists>tg1 d t w1 s. tg_measure env tg1 d t w1 = (Inl e, s)"
    if "r = Inl e" "e \<noteq> timeout_error" for e
    using that by (fastforce simp: tg_measurer_def split: prod.splits)
  with post ret show ?thesis
    unfolding perform_optimized_ndrpdr_search_def by (cases r) auto
qed

text \<open>
  A T-Rex that reports the same results after every run and takes as long as the caller is willing
  to wait; commands with a short timeout fail.
\<close>

definition patient_env :: "real tg_env" where
  "patient_env =
     \<lparr>exec_cmd_no_error = (\<lambda>node cmd timeout w.
        if timeout \<le> 60 then (Inl (RuntimeError ''Timeout''), w) else (Inr sample_output, w + of_int timeout)),
      time_now = (\<lambda>w. (w, w)), float_repr = (\<lambda>x. ''1.0''), send_force = False\<rparr>"

lemma sync_finished_world: "sync_finished tg out w = (r, tg', w') \<Longrightarrow> w' = w"
  by (auto simp: sync_finished_def split: prod.splits sum.splits)

lemma trunc_ge: "x - 1 \<le> of_int (trunc x)"
  by (simp add: trunc_def) linarith

lemma patient_start_time:
  assumes "send_traffic_on_tg patient_env tg rate a w = (Inr r, tg', w')"
    and "sa_duration a = PFloat d" and "\<not> sa_async a"
  shows "w + d \<le> w'"
proof -
  consider (astf) tg1 mult u where "trex_astf_start_remote_exec patient_env tg1 mult a w = (Inr u, tg', w')"
    | (stl) tg1 rt u where "trex_stl_start_remote_exec patient_env tg1 rt a w = (Inr u, tg', w')"
    using assms(1) by (auto simp: send_traffic_on_tg_def Let_def split: sum.splits if_splits prod.splits)
  then show ?thesis
  proof cases
    case astf
    then obtain node cmd tcp out where
      exec: "exec_cmd_no_error patient_env node cmd (if tcp then num_trunc (sa_duration a) + 600 else 60) w
        = (Inr out, w')"
      using assms(3) unfolding trex_astf_start_remote_exec_def
      by (auto simp: Let_def dest!: sync_finished_world split: sum.splits option.splits prod.splits)
    then show ?thesis using trunc_ge [of d] assms(2) by (auto simp: patient_env_def split: if_splits)
  next
    case stl
    then obtain node cmd out where
      exec: "exec_cmd_no_error patient_env node cmd (trunc d + 60) w = (Inr out, w')"
      using assms(2,3) unfolding trex_stl_start_remote_exec_def
      by (auto simp: Let_def dest!: sync_finished_world split: sum.splits option.splits prod.splits)
    then show ?thesis using trunc_ge [of d] by (auto simp: patient_env_def split: if_splits)
  qed
qed

lemma patient_takes_time:
  "trials_take_time (tg_measurer patient_env) (tg_clock patient_env) snd"
proof -
  have "w + d \<le> w'" if run: "tg_measure patient_env tg d t w = (Inr m, tg', w')" for tg d t w m tg' w'
  proof -
    obtain rate a r tg1 w1 where send: "send_traffic_on_tg patient_env tg rate a w = (Inr r, tg1, w1)"
      and a: "sa_duration a = PFloat d" "\<not> sa_async a"
      and "get_measurement_result patient_env tg1 (Some d) (Some t) w1 = (Inr m, tg', w')"
      using run by (auto simp: tg_measure_def split: option.splits sum.splits prod.splits)
    then have "w' = w1" by (blast dest: get_measurement_result_Inr)
    with patient_start_time [OF send a] show ?thesis by simp
  qed
  then show ?thesis
    by (auto simp: trials_take_time_def tg_measurer_def tg_clock_def patient_env_def)
qed

theorem optimized_search_correct_witness:
  "\<exists>r tg' w'. perform_optimized_ndrpdr_search patient_env sample_tg (AInt 64) ''trex-stl-ethip4''
      1000 50000 0.005 default_config 2 False 0 = Some (r, tg', w') \<and>
    (\<forall>res. r = Inr res \<longrightarrow> interval_in 2000 100000 (ndr_interval res) \<and>
       interval_in 2000 100000 (pdr_interval res))"
proof -
  have cfg: "config_ok default_config" by (simp add: config_ok_def default_config_def)
  have "0 < (1000 :: real)" "(1000 :: real) \<le> 50000" "0 < (2 :: int)" by simp_all
  from optimized_search_correct [OF patient_takes_time cfg this, of sample_tg "AInt 64"
      "''trex-stl-ethip4''" "0.005" False 0]
  show ?thesis
    apply (elim exE conjE)
    subgoal for r tg' w'
      by (rule exI [of _ r], rule exI [of _ tg'], rule exI [of _ w'], cases r) simp_all
    done
qed

end
